(* ===== verification/Kageb_Prelude.thy ===== *)
theory Kageb_Prelude
  imports Main "HOL-Library.Word"
begin

text \<open>
  Shared vocabulary of the KageB development: the machine types of the Rust sources, fixed byte
  arrays and their byte lists, results with an error, checked arithmetic, and the ordered maps
  and sets of \<open>std::collections\<close>. The lemmas here are the ones every component uses; they are
  collected in \<open>bytes_simps\<close> (layout of byte buffers) and \<open>res_simps\<close> (inversion of
  fallible code), or declared as simplification rules.
\<close>

named_theorems bytes_simps \<open>layout of encoded byte buffers\<close>
named_theorems res_simps \<open>inversion of code that returns a Result\<close>

section \<open>Machine types\<close>

text \<open>
  Rust's unsigned integers are words of their width; \<open>i64\<close> is a 64-bit word read with
  \<open>sint\<close> and compared with the signed order. A fixed array \<open>[u8; N]\<close> is a word of
  \<open>8 * N\<close> bits whose most significant byte is element 0. Array equality is then word equality,
  \<open>[0; N]\<close> is \<open>0\<close>, and the derived lexicographic order on arrays is the order of words
  (lemma \<open>arr_bytes_less_iff\<close> below). A public key (\<open>Pubkey\<close>) is such an array of 32 bytes.
  \<open>usize\<close> values are lengths and offsets of buffers held in memory and are natural numbers.
\<close>

type_synonym byte = "8 word"
type_synonym u8 = "8 word"
type_synonym u16 = "16 word"
type_synonym u32 = "32 word"
type_synonym u64 = "64 word"
type_synonym i64 = "64 word"
type_synonym bytes16 = "128 word"
type_synonym bytes32 = "256 word"
type_synonym bytes64 = "512 word"
type_synonym pubkey = "256 word"

definition to_le_bytes :: "'a::len word \<Rightarrow> byte list" where
  "to_le_bytes w = map (\<lambda>i. ucast (drop_bit (8 * i) w)) [0..<LENGTH('a) div 8]"

definition from_le_bytes :: "byte list \<Rightarrow> 'a::len word" where
  "from_le_bytes bs = word_rcat (rev bs)"

definition arr_bytes :: "'a::len word \<Rightarrow> byte list" where
  "arr_bytes w = rev (to_le_bytes w)"

definition arr_of :: "byte list \<Rightarrow> 'a::len word" where
  "arr_of bs = from_le_bytes (rev bs)"

lemma length_to_le_bytes [simp]: "length (to_le_bytes (w :: 'a::len word)) = LENGTH('a) div 8"
  by (simp add: to_le_bytes_def)

lemma length_arr_bytes [simp]: "length (arr_bytes (w :: 'a::len word)) = LENGTH('a) div 8"
  by (simp add: arr_bytes_def)

lemma bit_from_le_bytes:
  "bit (from_le_bytes bs :: 'a::len word) n \<longleftrightarrow>
     n < LENGTH('a) \<and> n div 8 < length bs \<and> bit (bs ! (n div 8)) (n mod 8)"
proof -
  have "bit (horner_sum uint (2 ^ LENGTH(8)) bs) n \<longleftrightarrow>
      n div LENGTH(8) < length bs \<and> bit (bs ! (n div LENGTH(8))) (n mod LENGTH(8))"
    by (rule bit_horner_sum_uint_exp_iff)
  then show ?thesis
    by (simp add: from_le_bytes_def word_rcat_def bit_word_of_int_iff)
qed

lemma from_le_bytes_to_le_bytes:
  assumes "8 dvd LENGTH('a)"
  shows "from_le_bytes (to_le_bytes w) = (w :: 'a::len word)"
proof (rule bit_word_eqI)
  fix n assume n: "n < LENGTH('a)"
  with assms have "n div 8 < LENGTH('a) div 8"
    by (auto elim!: dvdE)
  with n show "bit (from_le_bytes (to_le_bytes w) :: 'a word) n = bit w n"
    by (simp add: bit_from_le_bytes to_le_bytes_def bit_simps)
qed

lemma to_le_bytes_from_le_bytes:
  assumes "length bs = LENGTH('a) div 8" and "8 dvd LENGTH('a)"
  shows "to_le_bytes (from_le_bytes bs :: 'a::len word) = bs"
proof (rule nth_equalityI)
  show "length (to_le_bytes (from_le_bytes bs :: 'a word)) = length bs"
    using assms by simp
next
  fix i assume "i < length (to_le_bytes (from_le_bytes bs :: 'a word))"
  then have i: "i < LENGTH('a) div 8" by simp
  show "to_le_bytes (from_le_bytes bs :: 'a word) ! i = bs ! i"
  proof (rule bit_word_eqI)
    fix n :: nat assume n: "n < LENGTH(8)"
    have "(8 * i + n) div 8 = i" and "(8 * i + n) mod 8 = n" and "8 * i + n < LENGTH('a)"
      using n i assms(2) by (auto elim!: dvdE)
    with n i assms(1) show "bit (to_le_bytes (from_le_bytes bs :: 'a word) ! i) n = bit (bs ! i) n"
      by (simp add: to_le_bytes_def bit_simps bit_from_le_bytes)
  qed
qed

lemma arr_of_arr_bytes: "8 dvd LENGTH('a) \<Longrightarrow> arr_of (arr_bytes w) = (w :: 'a::len word)"
  by (simp add: arr_of_def arr_bytes_def from_le_bytes_to_le_bytes)

lemma arr_bytes_arr_of:
  "length bs = LENGTH('a) div 8 \<Longrightarrow> 8 dvd LENGTH('a) \<Longrightarrow> arr_bytes (arr_of bs :: 'a::len word) = bs"
  by (simp add: arr_of_def arr_bytes_def to_le_bytes_from_le_bytes)

text \<open>The widths of the sources, so that the round trips rewrite without side conditions.\<close>

lemma le_round [simp]:
  "from_le_bytes (to_le_bytes (x :: u16)) = x"
  "from_le_bytes (to_le_bytes (y :: u32)) = y"
  "from_le_bytes (to_le_bytes (z :: u64)) = z"
  by (simp_all add: from_le_bytes_to_le_bytes)

lemma le_unround [simp]:
  "length bs = 2 \<Longrightarrow> to_le_bytes (from_le_bytes bs :: u16) = bs"
  "length bs = 4 \<Longrightarrow> to_le_bytes (from_le_bytes bs :: u32) = bs"
  "length bs = 8 \<Longrightarrow> to_le_bytes (from_le_bytes bs :: u64) = bs"
  by (simp_all add: to_le_bytes_from_le_bytes)

lemma arr_round [simp]:
  "arr_of (arr_bytes (x :: bytes16)) = x"
  "arr_of (arr_bytes (y :: bytes32)) = y"
  "arr_of (arr_bytes (z :: bytes64)) = z"
  by (simp_all add: arr_of_arr_bytes)

lemma arr_unround [simp]:
  "length bs = 16 \<Longrightarrow> arr_bytes (arr_of bs :: bytes16) = bs"
  "length bs = 32 \<Longrightarrow> arr_bytes (arr_of bs :: bytes32) = bs"
  "length bs = 64 \<Longrightarrow> arr_bytes (arr_of bs :: bytes64) = bs"
  by (simp_all add: arr_bytes_arr_of)

lemma arr_bytes_inj [simp]:
  "arr_bytes (x :: bytes32) = arr_bytes x' \<longleftrightarrow> x = x'"
  "arr_bytes (y :: bytes64) = arr_bytes y' \<longleftrightarrow> y = y'"
  by (metis arr_round(2)) (metis arr_round(3))

lemma to_le_bytes_inj [simp]:
  "to_le_bytes (x :: u32) = to_le_bytes x' \<longleftrightarrow> x = x'"
  "to_le_bytes (y :: u64) = to_le_bytes y' \<longleftrightarrow> y = y'"
  by (metis le_round(2)) (metis le_round(3))


text \<open>
  The order Rust derives for arrays is the lexicographic one on their elements; it is the order
  of the words that model them.
\<close>

primrec be_val :: "byte list \<Rightarrow> nat" where
  "be_val [] = 0"
| "be_val (b # bs) = unat b * 256 ^ length bs + be_val bs"

lemma be_val_less: "be_val bs < 256 ^ length bs"
proof (induction bs)
  case (Cons b bs)
  have "unat b < 2 ^ LENGTH(8)" by (rule unsigned_less)
  then have b: "unat b < 256" by simp
  have "be_val (b # bs) < Suc (unat b) * 256 ^ length bs"
    using Cons.IH by simp
  also have "\<dots> \<le> 256 * 256 ^ length bs"
    by (rule mult_right_mono) (use b in auto)
  finally show ?case by simp
qed simp

lemma be_val_eq_horner: "int (be_val bs) = horner_sum uint 256 (rev bs)"
  by (induction bs) (simp_all add: horner_sum_append algebra_simps)

lemma unat_arr_of:
  assumes "length bs = LENGTH('a) div 8" and "8 dvd LENGTH('a)"
  shows "unat (arr_of bs :: 'a::len word) = be_val bs"
proof -
  have pow: "(256::nat) ^ length bs = 2 ^ LENGTH('a)"
  proof -
    have "(256::nat) ^ length bs = (2 ^ 8) ^ length bs" by simp
    also have "\<dots> = 2 ^ (8 * length bs)" by (simp only: power_mult)
    also have "8 * length bs = LENGTH('a)" using assms by auto
    finally show ?thesis .
  qed
  have "(arr_of bs :: 'a word) = word_of_int (int (be_val bs))"
    by (simp add: arr_of_def from_le_bytes_def word_rcat_def be_val_eq_horner)
  then have "unat (arr_of bs :: 'a word) = be_val bs mod 2 ^ LENGTH('a)"
    by (simp add: unat_of_nat)
  with be_val_less [of bs] pow show ?thesis by simp
qed

lemma lexordp_be_val:
  "length xs = length ys \<Longrightarrow> ord_class.lexordp xs ys \<longleftrightarrow> be_val xs < be_val ys"
proof (induction xs ys rule: list_induct2)
  case (Cons x xs y ys)
  have bounds: "be_val xs < 256 ^ length ys" "be_val ys < 256 ^ length ys"
    using be_val_less [of xs] be_val_less [of ys] Cons.hyps by simp_all
  consider "x < y" | "x = y" | "y < x" by (meson linorder_cases)
  then show ?case
  proof cases
    case 1
    then have "Suc (unat x) * 256 ^ length ys \<le> unat y * 256 ^ length ys"
      by (intro mult_right_mono) (simp_all add: word_less_nat_alt Suc_le_eq)
    with 1 bounds Cons.hyps show ?thesis by simp
  next
    case 2
    with Cons show ?thesis by simp
  next
    case 3
    then have "Suc (unat y) * 256 ^ length ys \<le> unat x * 256 ^ length ys"
      by (intro mult_right_mono) (simp_all add: word_less_nat_alt Suc_le_eq)
    with 3 bounds Cons.hyps show ?thesis by (auto simp: not_less_iff_gr_or_eq)
  qed
qed simp

lemma arr_bytes_less_iff:
  "ord_class.lexordp (arr_bytes x) (arr_bytes y) \<longleftrightarrow> x < y" for x y :: bytes32
proof -
  have "unat x = be_val (arr_bytes x)" and "unat y = be_val (arr_bytes y)"
    using unat_arr_of [where 'a = 256, of "arr_bytes x"] unat_arr_of [where 'a = 256, of "arr_bytes y"]
    by simp_all
  then show ?thesis by (simp add: lexordp_be_val word_less_nat_alt)
qed

section \<open>Byte buffers\<close>

text \<open>
  \<open>slice a b bs\<close> is \<open>&bs[a..b]\<close>, used where the code has checked the bounds;
  \<open>get_slice\<close> is \<open>bs.get(a..b)\<close>. \<open>put a xs bs\<close> is
  \<open>bs[a..a + xs.len()].copy_from_slice(xs)\<close> and \<open>put a [x] bs\<close> is \<open>bs[a] = x\<close>.
\<close>

definition slice :: "nat \<Rightarrow> nat \<Rightarrow> 'a list \<Rightarrow> 'a list" where
  "slice a b xs = take (b - a) (drop a xs)"

definition get_slice :: "nat \<Rightarrow> nat \<Rightarrow> 'a list \<Rightarrow> 'a list option" where
  "get_slice a b xs = (if a \<le> b \<and> b \<le> length xs then Some (slice a b xs) else None)"

definition put :: "nat \<Rightarrow> 'a list \<Rightarrow> 'a list \<Rightarrow> 'a list" where
  "put a xs out = take a out @ xs @ drop (a + length xs) out"

lemma length_slice [simp]: "length (slice a b xs) = min (b - a) (length xs - a)"
  by (simp add: slice_def)

lemma slice_append [bytes_simps]:
  "slice a b (xs @ ys) =
     (if length xs \<le> a then slice (a - length xs) (b - length xs) ys
      else if b \<le> length xs then slice a b xs
      else slice a (length xs) xs @ slice 0 (b - length xs) ys)"
  by (auto simp: slice_def)

lemma slice_all [bytes_simps]: "length xs \<le> b \<Longrightarrow> slice 0 b xs = xs"
  by (simp add: slice_def)

lemma slice_Cons [bytes_simps]: "0 < a \<Longrightarrow> slice a b (x # xs) = slice (a - 1) (b - 1) xs"
  by (cases a) (simp_all add: slice_def)

lemma slice_split: "a \<le> b \<Longrightarrow> b \<le> c \<Longrightarrow> slice a b xs @ slice b c xs = slice a c xs"
  using take_add [of "b - a" "c - b" "drop a xs"] by (simp add: slice_def)

lemma slice_split_assoc:
  "a \<le> b \<Longrightarrow> b \<le> c \<Longrightarrow> slice a b xs @ slice b c xs @ ys = slice a c xs @ ys"
  by (simp add: slice_split flip: append_assoc)

lemma slice_to_end: "length xs \<le> b \<Longrightarrow> slice a b xs = drop a xs"
  by (simp add: slice_def)

lemma slice_one: "a < length xs \<Longrightarrow> slice a (Suc a) xs = [xs ! a]"
  by (simp add: slice_def take_Suc_conv_app_nth hd_drop_conv_nth take_Suc)

text \<open>Rules that join adjacent pieces of one buffer; they prove that a decoder loses nothing.\<close>

lemma nth_slice: "Suc a = b \<Longrightarrow> b \<le> c \<Longrightarrow> a < length xs \<Longrightarrow> xs ! a # slice b c xs = slice a c xs"
  using slice_split [of a b c xs] slice_one [of a xs] by auto

lemma nth_slice_assoc:
  "Suc a = b \<Longrightarrow> b \<le> c \<Longrightarrow> a < length xs \<Longrightarrow> xs ! a # slice b c xs @ ys = slice a c xs @ ys"
  using nth_slice [of a b c xs] by auto

lemma hd_slice: "xs ! 0 = x \<Longrightarrow> 0 < length xs \<Longrightarrow> 1 \<le> c \<Longrightarrow> x # slice (Suc 0) c xs = slice 0 c xs"
  using nth_slice [of 0 1 c xs] by auto

lemmas slice_join = slice_split slice_split_assoc nth_slice nth_slice_assoc

lemma put_append [bytes_simps]:
  "length xs \<le> a \<Longrightarrow> put a ys (xs @ zs) = xs @ put (a - length xs) ys zs"
  by (simp add: put_def)

lemma put_Cons [bytes_simps]: "0 < a \<Longrightarrow> put a ys (x # zs) = x # put (a - 1) ys zs"
  by (cases a) (simp_all add: put_def)

lemma put_0 [bytes_simps]: "put 0 ys zs = ys @ drop (length ys) zs"
  by (simp add: put_def)

lemma length_put: "a + length xs \<le> length out \<Longrightarrow> length (put a xs out) = length out"
  by (simp add: put_def)

lemma drop_replicate_sub [bytes_simps]: "drop n (replicate m x) = replicate (m - n) x"
  by simp

section \<open>Results\<close>

text \<open>
  A Rust \<open>Result<T, E>\<close> is a value of \<open>'e + 'a\<close> with \<open>Inl\<close> the error.
  \<open>try_bind m f\<close> is \<open>let x = m?; f(x)\<close>; \<open>ok_or\<close> and \<open>map_err\<close> are the methods of
  these names; \<open>try_all\<close> is a \<open>for\<close> loop whose body ends in \<open>?\<close>.
\<close>

definition try_bind :: "'e + 'a \<Rightarrow> ('a \<Rightarrow> 'e + 'b) \<Rightarrow> 'e + 'b" where
  "try_bind m f = (case m of Inl e \<Rightarrow> Inl e | Inr x \<Rightarrow> f x)"

definition ok_or :: "'a option \<Rightarrow> 'e \<Rightarrow> 'e + 'a" where
  "ok_or m e = (case m of None \<Rightarrow> Inl e | Some x \<Rightarrow> Inr x)"

definition map_err :: "('e \<Rightarrow> 'f) \<Rightarrow> 'e + 'a \<Rightarrow> 'f + 'a" where
  "map_err f m = (case m of Inl e \<Rightarrow> Inl (f e) | Inr x \<Rightarrow> Inr x)"

definition is_ok :: "'e + 'a \<Rightarrow> bool" where
  "is_ok m = (case m of Inl _ \<Rightarrow> False | Inr _ \<Rightarrow> True)"

definition ok :: "'e + 'a \<Rightarrow> 'a option" where
  "ok m = (case m of Inl _ \<Rightarrow> None | Inr x \<Rightarrow> Some x)"

fun try_all :: "('a \<Rightarrow> 'e + unit) \<Rightarrow> 'a list \<Rightarrow> 'e + unit" where
  "try_all f [] = Inr ()"
| "try_all f (x # xs) = try_bind (f x) (\<lambda>_. try_all f xs)"

fun try_map :: "('a \<Rightarrow> 'e + 'b) \<Rightarrow> 'a list \<Rightarrow> 'e + 'b list" where
  "try_map f [] = Inr []"
| "try_map f (x # xs) = try_bind (f x) (\<lambda>y. try_bind (try_map f xs) (\<lambda>ys. Inr (y # ys)))"

lemma try_bind_simps [simp]: "try_bind (Inl e) f = Inl e" "try_bind (Inr x) f = f x"
  by (simp_all add: try_bind_def)

lemma try_bind_Inr [res_simps]: "try_bind m f = Inr y \<longleftrightarrow> (\<exists>x. m = Inr x \<and> f x = Inr y)"
  by (cases m) simp_all

lemma try_bind_Inl [res_simps]:
  "try_bind m f = Inl e \<longleftrightarrow> m = Inl e \<or> (\<exists>x. m = Inr x \<and> f x = Inl e)"
  by (cases m) simp_all

lemma ok_or_simps [simp]: "ok_or None e = Inl e" "ok_or (Some x) e = Inr x"
  by (simp_all add: ok_or_def)

lemma ok_or_Inr [res_simps]: "ok_or m e = Inr x \<longleftrightarrow> m = Some x"
  by (cases m) simp_all

lemma map_err_simps [simp]: "map_err f (Inl e) = Inl (f e)" "map_err f (Inr x) = Inr x"
  by (simp_all add: map_err_def)

lemma map_err_Inr [res_simps]: "map_err f m = Inr x \<longleftrightarrow> m = Inr x"
  by (cases m) simp_all

lemma is_ok_simps [simp]: "is_ok (Inl e) = False" "is_ok (Inr x) = True"
  by (simp_all add: is_ok_def)

lemma is_ok_iff: "is_ok m \<longleftrightarrow> (\<exists>x. m = Inr x)"
  by (cases m) simp_all

lemma ok_simps [simp]: "ok (Inl e) = None" "ok (Inr x) = Some x"
  by (simp_all add: ok_def)

lemma ok_Some [res_simps]: "ok m = Some x \<longleftrightarrow> m = Inr x"
  by (cases m) simp_all

lemma if_Inl_Inr [res_simps]: "((if c then Inl e else m) = Inr y) \<longleftrightarrow> \<not> c \<and> m = Inr y"
  by simp

lemma try_all_Inr [res_simps]: "try_all f xs = Inr u \<longleftrightarrow> (\<forall>x \<in> set xs. f x = Inr ())"
  by (induction xs) (auto simp: try_bind_Inr)

lemma try_map_Inr:
  "try_map f xs = Inr ys \<longleftrightarrow> list_all2 (\<lambda>x y. f x = Inr y) xs ys"
  by (induction xs arbitrary: ys) (auto simp: try_bind_Inr list_all2_Cons1)

section \<open>Checked arithmetic\<close>

definition checked_add :: "'a::len word \<Rightarrow> 'a word \<Rightarrow> 'a word option" where
  "checked_add a b = (if unat a + unat b < 2 ^ LENGTH('a) then Some (a + b) else None)"

definition checked_sub :: "'a::len word \<Rightarrow> 'a word \<Rightarrow> 'a word option" where
  "checked_sub a b = (if b \<le> a then Some (a - b) else None)"

definition checked_mul :: "'a::len word \<Rightarrow> 'a word \<Rightarrow> 'a word option" where
  "checked_mul a b = (if unat a * unat b < 2 ^ LENGTH('a) then Some (a * b) else None)"

lemma checked_add_Some:
  "checked_add a b = Some c \<longleftrightarrow> unat c = unat a + unat b" for a b c :: "'a::len word"
proof
  assume "checked_add a b = Some c"
  then show "unat c = unat a + unat b"
    by (auto simp: checked_add_def unat_word_ariths split: if_splits)
next
  assume c: "unat c = unat a + unat b"
  then have lt: "unat a + unat b < 2 ^ LENGTH('a)" by (metis unsigned_less)
  have "c = a + b" by (simp add: word_unat_eq_iff c unat_word_ariths lt)
  with lt show "checked_add a b = Some c" by (simp add: checked_add_def)
qed

lemma checked_sub_Some:
  "checked_sub a b = Some c \<longleftrightarrow> unat b \<le> unat a \<and> unat c = unat a - unat b"
  for a b c :: "'a::len word"
  by (auto simp: checked_sub_def word_le_nat_alt unat_sub word_unat_eq_iff split: if_splits)

lemma checked_mul_Some:
  "checked_mul a b = Some c \<longleftrightarrow> unat c = unat a * unat b" for a b c :: "'a::len word"
proof
  assume "checked_mul a b = Some c"
  then show "unat c = unat a * unat b"
    by (auto simp: checked_mul_def unat_word_ariths split: if_splits)
next
  assume c: "unat c = unat a * unat b"
  then have lt: "unat a * unat b < 2 ^ LENGTH('a)" by (metis unsigned_less)
  have "c = a * b" by (simp add: word_unat_eq_iff c unat_word_ariths lt)
  with lt show "checked_mul a b = Some c" by (simp add: checked_mul_def)
qed

lemma unat_ucast_32_64 [simp]: "unat (ucast (x :: u32) :: u64) = unat x"
  by transfer (simp add: take_bit_take_bit)

text \<open>Checked \<open>i128\<close> arithmetic, on integers kept in the range of the type.\<close>

definition i128_of :: "int \<Rightarrow> int option" where
  "i128_of x = (if - (2 ^ 127) \<le> x \<and> x < 2 ^ 127 then Some x else None)"

lemma i128_of_Some: "i128_of x = Some y \<longleftrightarrow> y = x \<and> - (2 ^ 127) \<le> x \<and> x < 2 ^ 127"
  by (auto simp: i128_of_def)

section \<open>Positions\<close>

text \<open>\<open>Iterator::position\<close>.\<close>

fun position :: "('a \<Rightarrow> bool) \<Rightarrow> 'a list \<Rightarrow> nat option" where
  "position p [] = None"
| "position p (x # xs) = (if p x then Some 0 else map_option Suc (position p xs))"

lemma position_Some:
  "distinct xs \<Longrightarrow> position (\<lambda>x. x = y) xs = Some i \<longleftrightarrow> i < length xs \<and> xs ! i = y"
proof (induction xs arbitrary: i)
  case (Cons x xs)
  then show ?case by (cases i) (auto simp: in_set_conv_nth)
qed simp

end
