(* ===== verification/Kageb_Maps.thy ===== *)
theory Kageb_Maps
  imports Kageb_Prelude
begin

text \<open>
  The ordered maps of the sources (\<open>BTreeMap\<close>). The locale \<open>ordered_map\<close> is the
  contract the components rely on: lookup after insert, the empty map, and iteration in strictly
  increasing key order. Its lemmas (extensionality of iteration, how a sum over the entries changes
  when one entry is replaced) are proved once from that contract. The implementation is a sorted
  association list; its interpretation is \<open>bt\<close>.
\<close>

section \<open>The contract\<close>

locale ordered_map =
  fixes empty :: "'m"
    and get :: "'m \<Rightarrow> 'k::linorder \<Rightarrow> 'v option"
    and insert_at :: "'k \<Rightarrow> 'v \<Rightarrow> 'm \<Rightarrow> 'm"
    and entries :: "'m \<Rightarrow> ('k \<times> 'v) list"
    and wf :: "'m \<Rightarrow> bool"
  assumes wf_empty: "wf empty"
    and wf_insert: "wf m \<Longrightarrow> wf (insert_at k v m)"
    and get_empty: "get empty k = None"
    and get_insert: "wf m \<Longrightarrow> get (insert_at k v m) k' = (if k' = k then Some v else get m k')"
    and entries_get: "wf m \<Longrightarrow> (k, v) \<in> set (entries m) \<longleftrightarrow> get m k = Some v"
    and entries_sorted: "wf m \<Longrightarrow> sorted_wrt (<) (map fst (entries m))"
begin

lemma distinct_keys: "wf m \<Longrightarrow> distinct (map fst (entries m))"
  using entries_sorted strict_sorted_iff by blast

lemma distinct_entries: "wf m \<Longrightarrow> distinct (entries m)"
  using distinct_keys distinct_map by blast

lemma entries_ext:
  assumes "wf m" "wf n" "\<And>k. get m k = get n k"
  shows "entries m = entries n"
proof (rule map_sorted_distinct_set_unique)
  show "inj_on fst (set (entries m) \<union> set (entries n))"
    using assms by (auto simp: inj_on_def entries_get)
  show "set (entries m) = set (entries n)"
    using assms by (auto simp: entries_get)
qed (use assms distinct_keys entries_sorted in \<open>auto simp: strict_sorted_iff\<close>)

lemma key_iff: "wf m \<Longrightarrow> k \<in> fst ` set (entries m) \<longleftrightarrow> get m k \<noteq> None"
proof -
  assume "wf m"
  moreover have "k \<in> fst ` set (entries m) \<longleftrightarrow> (\<exists>v. (k, v) \<in> set (entries m))" by force
  ultimately show ?thesis by (simp add: entries_get)
qed

lemma dom_entries: "wf m \<Longrightarrow> dom (get m) = fst ` set (entries m)"
  by (rule set_eqI) (simp add: key_iff domIff del: not_None_eq)

lemma dom_insert: "wf m \<Longrightarrow> dom (get (insert_at k v m)) = insert k (dom (get m))"
  by (auto simp: get_insert split: if_splits)

lemma sum_entries:
  assumes "wf m"
  shows "(\<Sum>e\<leftarrow>entries m. f e) = (\<Sum>k\<in>dom (get m). f (k, the (get m k)))"
    (is "?l = ?r")
proof -
  have "?l = (\<Sum>e\<in>set (entries m). f e)"
    using assms by (simp add: sum_list_distinct_conv_sum_set distinct_entries)
  also have "set (entries m) = (\<lambda>k. (k, the (get m k))) ` dom (get m)"
    using assms by (auto simp: entries_get image_iff)
  also have "(\<Sum>e\<in>\<dots>. f e) = ?r"
    by (subst sum.reindex) (auto simp: inj_on_def)
  finally show ?thesis .
qed

lemma finite_dom: "wf m \<Longrightarrow> finite (dom (get m))"
  by (simp add: dom_entries)

lemma sum_insert:
  fixes f :: "'k \<times> 'v \<Rightarrow> 'b::ab_group_add"
  assumes "wf m" and "get m k = Some w"
  shows "(\<Sum>e\<leftarrow>entries (insert_at k v m). f e) = (\<Sum>e\<leftarrow>entries m. f e) - f (k, w) + f (k, v)"
proof -
  let ?D = "dom (get m)" and ?rest = "\<Sum>k'\<in>dom (get m) - {k}. f (k', the (get m k'))"
  have fin: "finite ?D" using assms(1) by (rule finite_dom)
  have k: "k \<in> ?D" using assms by auto
  have "(\<Sum>e\<leftarrow>entries (insert_at k v m). f e)
      = (\<Sum>k'\<in>?D. f (k', the (get (insert_at k v m) k')))"
    using assms k by (simp add: sum_entries wf_insert dom_insert insert_absorb)
  also have "\<dots> = f (k, v) + ?rest"
    using assms fin k by (simp add: sum.remove get_insert)
  finally have "(\<Sum>e\<leftarrow>entries (insert_at k v m). f e) = f (k, v) + ?rest" .
  moreover have "(\<Sum>e\<leftarrow>entries m. f e) = f (k, w) + ?rest"
    using assms fin k by (simp add: sum_entries sum.remove)
  ultimately show ?thesis by simp
qed

lemma length_entries: "wf m \<Longrightarrow> length (entries m) = card (dom (get m))"
  by (metis distinct_card distinct_keys dom_entries length_map set_map)

lemma length_insert:
  "wf m \<Longrightarrow> length (entries (insert_at k v m))
     = length (entries m) + (if get m k = None then 1 else 0)"
  by (simp add: length_entries wf_insert dom_insert finite_dom card_insert_if domIff)

end

section \<open>Sorted association lists\<close>

type_synonym ('k, 'v) btree = "('k \<times> 'v) list"

definition bt_wf :: "('k::linorder, 'v) btree \<Rightarrow> bool" where
  "bt_wf m \<longleftrightarrow> sorted_wrt (<) (map fst m)"

definition bt_get :: "('k::linorder, 'v) btree \<Rightarrow> 'k \<Rightarrow> 'v option" where
  "bt_get m k = map_of m k"

fun bt_insert :: "'k::linorder \<Rightarrow> 'v \<Rightarrow> ('k, 'v) btree \<Rightarrow> ('k, 'v) btree" where
  "bt_insert k v [] = [(k, v)]"
| "bt_insert k v ((k', v') # m) =
     (if k < k' then (k, v) # (k', v') # m
      else if k = k' then (k, v) # m
      else (k', v') # bt_insert k v m)"

definition bt_keys :: "('k::linorder, 'v) btree \<Rightarrow> 'k list" where
  "bt_keys m = map fst m"

definition bt_values :: "('k::linorder, 'v) btree \<Rightarrow> 'v list" where
  "bt_values m = map snd m"

text \<open>\<open>iter.collect::<BTreeMap<_, _>>()\<close>: a later pair with the same key replaces an earlier one.\<close>

definition bt_of_list :: "('k::linorder \<times> 'v) list \<Rightarrow> ('k, 'v) btree" where
  "bt_of_list kvs = fold (\<lambda>(k, v) m. bt_insert k v m) kvs []"

lemma set_bt_insert_keys: "fst ` set (bt_insert k v m) = insert k (fst ` set m)"
  by (induction k v m rule: bt_insert.induct) auto

lemma bt_wf_insert: "bt_wf m \<Longrightarrow> bt_wf (bt_insert k v m)"
  unfolding bt_wf_def
proof (induction m)
  case (Cons e m)
  obtain k' v' where e: "e = (k', v')" by (cases e)
  show ?case
  proof (cases "k < k'")
    case True
    with Cons.prems show ?thesis by (auto simp: e)
  next
    case False
    then consider "k = k'" | "k' < k" by fastforce
    then show ?thesis
    proof cases
      case 2
      have "\<forall>x \<in> fst ` set (bt_insert k v m). k' < x"
        unfolding set_bt_insert_keys using Cons.prems 2 by (auto simp: e)
      with Cons 2 show ?thesis by (auto simp: e)
    qed (use Cons.prems in \<open>auto simp: e\<close>)
  qed
qed simp

lemma bt_get_insert: "bt_get (bt_insert k v m) k' = (if k' = k then Some v else bt_get m k')"
  by (induction m) (auto simp: bt_get_def)

interpretation bt: ordered_map "[]" bt_get bt_insert "\<lambda>m. m" bt_wf
proof unfold_locales
  fix m :: "('k::linorder, 'v) btree" and k :: 'k and v :: 'v
  assume m: "bt_wf m"
  then have "distinct (map fst m)" by (simp add: bt_wf_def strict_sorted_iff)
  then show "(k, v) \<in> set m \<longleftrightarrow> bt_get m k = Some v"
    by (auto simp: bt_get_def intro: map_of_is_SomeI dest: map_of_SomeD)
  from m show "sorted_wrt (<) (map fst m)" by (simp add: bt_wf_def)
next
  show "bt_wf []" by (simp add: bt_wf_def)
  show "bt_get [] k = None" for k :: "'k::linorder" by (simp add: bt_get_def)
qed (simp_all add: bt_wf_insert bt_get_insert)

lemmas bt_simps = bt.wf_empty bt.wf_insert bt_get_insert

lemma bt_wf_fold: "bt_wf m \<Longrightarrow> bt_wf (fold (\<lambda>(k, v) m. bt_insert k v m) kvs m)"
  by (induction kvs arbitrary: m) (auto simp: bt_wf_insert)

lemma bt_wf_of_list: "bt_wf (bt_of_list kvs)"
  by (simp add: bt_of_list_def bt_wf_fold bt.wf_empty)

lemma bt_get_fold:
  "bt_get (fold (\<lambda>(k, v) m. bt_insert k v m) kvs m) k
     = (case map_of (rev kvs) k of Some v \<Rightarrow> Some v | None \<Rightarrow> bt_get m k)"
  by (induction kvs arbitrary: m) (auto simp: bt_get_insert map_add_def split: option.splits)

lemma bt_get_of_list: "bt_get (bt_of_list kvs) k = map_of (rev kvs) k"
  by (simp add: bt_of_list_def bt_get_fold bt.get_empty split: option.splits)

text \<open>Collecting pairs keeps the count exactly when no key repeats, as the code tests it.\<close>

lemma length_bt_of_list: "length (bt_of_list kvs) = card (fst ` set kvs)"
proof -
  have "length (bt_of_list kvs) = card (fst ` set (bt_of_list kvs))"
    using bt.distinct_keys [OF bt_wf_of_list, of kvs] by (metis distinct_card length_map set_map)
  also have "fst ` set (bt_of_list kvs) = fst ` set kvs"
    by (rule set_eqI) (simp add: bt.key_iff [OF bt_wf_of_list] bt_get_of_list map_of_eq_None_iff
        del: not_None_eq)
  finally show ?thesis .
qed

lemma length_bt_of_list_distinct:
  "length (bt_of_list kvs) = length kvs \<longleftrightarrow> distinct (map fst kvs)"
  by (metis card_distinct distinct_card length_bt_of_list length_map set_map)

lemma bt_insert_present:
  "bt_wf m \<Longrightarrow> bt_get m k = Some w \<Longrightarrow> map fst (bt_insert k v m) = map fst m"
proof -
  assume m: "bt_wf m" and k: "bt_get m k = Some w"
  have "sorted_wrt (<) (map fst (bt_insert k v m))" "sorted_wrt (<) (map fst m)"
    using bt_wf_insert [OF m] m by (auto simp: bt_wf_def)
  moreover have "k \<in> fst ` set m" using bt.key_iff [OF m, of k] k by auto
  then have "set (map fst (bt_insert k v m)) = set (map fst m)"
    by (simp add: set_bt_insert_keys insert_absorb)
  ultimately show ?thesis by (metis strict_sorted_equal)
qed

lemma bt_insert_same: "bt_wf m \<Longrightarrow> bt_get m k = Some v \<Longrightarrow> bt_insert k v m = m"
  by (rule bt.entries_ext) (auto simp: bt_wf_insert bt_get_insert)

end
