(* ===== verification/Kageb_Codec.thy ===== *)
theory Kageb_Codec
  imports Kageb_Maps
begin

text \<open>
  The contract of the fixed-width encodings of the sources. A codec has an encoder of constant
  width and a strict decoder: decoding an encoded value gives it back, and every byte string the
  decoder accepts is the encoding of what it returns, so no value has two encodings. The locale
  \<open>wire_codec\<close> states this contract once and derives what the clients use: injectivity,
  exact length, and rejection of everything else. \<open>hashed_codec\<close> adds the domain-separated
  hash that most encodings feed, \<open>record_codec\<close> the sequences of fixed-width records of the
  journal files.
\<close>

definition ascii :: "string \<Rightarrow> byte list" where
  "ascii s = map of_char s"

lemma length_ascii [simp]: "length (ascii s) = length s"
  by (simp add: ascii_def)

section \<open>Fixed-width codecs\<close>

locale wire_codec =
  fixes enc :: "'a \<Rightarrow> byte list"
    and dec :: "byte list \<Rightarrow> 'a option"
    and valid :: "'a \<Rightarrow> bool"
    and width :: nat
  assumes length_enc: "length (enc x) = width"
    and dec_enc: "valid x \<Longrightarrow> dec (enc x) = Some x"
    and dec_sound: "dec bs = Some x \<Longrightarrow> valid x \<and> enc x = bs"
begin

lemma dec_iff: "dec bs = Some x \<longleftrightarrow> valid x \<and> bs = enc x"
  using dec_enc dec_sound by blast

lemma dec_length: "dec bs = Some x \<Longrightarrow> length bs = width"
  using dec_sound length_enc by blast

lemma dec_wrong_length: "length bs \<noteq> width \<Longrightarrow> dec bs = None"
  using dec_length by (cases "dec bs") auto

lemma enc_inj: "valid x \<Longrightarrow> valid y \<Longrightarrow> enc x = enc y \<longleftrightarrow> x = y"
  by (metis dec_enc option.inject)

lemma dec_inj: "dec bs = Some x \<Longrightarrow> dec cs = Some x \<Longrightarrow> bs = cs"
  using dec_sound by metis

end

section \<open>Hashed encodings\<close>

text \<open>
  \<open>digest x\<close> is the hash of a domain tag followed by the encoding. Whoever holds a digest holds a
  commitment: two valid values with one digest exhibit a collision of the hash.
\<close>

definition collision :: "(byte list \<Rightarrow> 'h) \<Rightarrow> byte list \<Rightarrow> byte list \<Rightarrow> bool" where
  "collision h xs ys \<longleftrightarrow> xs \<noteq> ys \<and> h xs = h ys"

locale hashed_codec = wire_codec +
  fixes hash :: "byte list \<Rightarrow> 'h"
    and tag :: "byte list"
    and digest :: "'a \<Rightarrow> 'h"
  assumes digest_eq: "digest x = hash (tag @ enc x)"
begin

lemma digest_binding:
  "valid x \<Longrightarrow> valid y \<Longrightarrow> digest x = digest y \<Longrightarrow>
     x = y \<or> collision hash (tag @ enc x) (tag @ enc y)"
  using enc_inj by (auto simp: digest_eq collision_def)

end

section \<open>Sequences of records\<close>

text \<open>
  \<open>decode_chunks\<close> reads \<open>n\<close> consecutive records of \<open>w\<close> bytes with a fallible
  decoder, stopping at the first error.
\<close>

fun decode_chunks :: "nat \<Rightarrow> (byte list \<Rightarrow> 'e + 'a) \<Rightarrow> nat \<Rightarrow> byte list \<Rightarrow> 'e + 'a list" where
  "decode_chunks w dec 0 bs = Inr []"
| "decode_chunks w dec (Suc n) bs =
     try_bind (dec (take w bs)) (\<lambda>x.
     try_bind (decode_chunks w dec n (drop w bs)) (\<lambda>xs. Inr (x # xs)))"

locale record_codec = wire_codec enc "\<lambda>bs. ok (dec bs)" valid width
  for enc :: "'a \<Rightarrow> byte list" and dec :: "byte list \<Rightarrow> 'e + 'a" and valid :: "'a \<Rightarrow> bool"
    and width :: nat
begin

lemma rec_dec_enc: "valid x \<Longrightarrow> dec (enc x) = Inr x"
  using dec_enc by (simp add: ok_Some)

lemma rec_dec_sound: "dec bs = Inr x \<Longrightarrow> valid x \<and> enc x = bs"
  using dec_sound by (simp add: ok_Some)

lemma length_concat_enc: "length (concat (map enc xs)) = width * length xs"
  by (induction xs) (simp_all add: length_enc)

lemma chunks_enc:
  "\<forall>x \<in> set xs. valid x \<Longrightarrow>
     decode_chunks width dec (length xs) (concat (map enc xs) @ rest) = Inr xs"
  by (induction xs) (simp_all add: length_enc rec_dec_enc)

lemma chunks_sound:
  "decode_chunks width dec n bs = Inr xs \<Longrightarrow>
     length xs = n \<and> (\<forall>x \<in> set xs. valid x) \<and> concat (map enc xs) = take (width * n) bs"
proof (induction n arbitrary: bs xs)
  case (Suc n)
  then obtain x ys where x: "dec (take width bs) = Inr x"
    and ys: "decode_chunks width dec n (drop width bs) = Inr ys" and xs: "xs = x # ys"
    by (auto simp: res_simps)
  from rec_dec_sound [OF x] Suc.IH [OF ys] show ?case
    by (simp add: xs take_add)
qed simp

end

end
