(* ===== verification/Wire.thy ===== *)
theory Wire
  imports Kageb_Codec
begin

text \<open>
  \<open>kageb-program/src/wire.rs\<close>: the three signed payloads (epoch configuration, lock, settlement),
  their fixed binary encodings, strict decoders and domain-separated digests. SHA-256 is the
  parameter \<open>sha256\<close>. The three codecs are interpreted as \<open>hashed_codec\<close>, which gives
  their round trips, injectivity and the binding of their digests.
\<close>

section \<open>Key arrays\<close>

text \<open>\<open>[Pubkey; 3]\<close> and the loops that copy consecutive keys into and out of a buffer.\<close>

type_synonym keypers = "pubkey \<times> pubkey \<times> pubkey"

fun keyper_list :: "keypers \<Rightarrow> pubkey list" where
  "keyper_list (a, b, c) = [a, b, c]"

fun put_keys :: "pubkey list \<Rightarrow> nat \<Rightarrow> byte list \<Rightarrow> byte list \<times> nat" where
  "put_keys [] offset out = (out, offset)"
| "put_keys (k # ks) offset out = put_keys ks (offset + 32) (put offset (arr_bytes k) out)"

definition take_key :: "byte list \<Rightarrow> nat \<Rightarrow> pubkey" where
  "take_key bs offset = arr_of (slice offset (offset + 32) bs)"

definition take_keypers :: "byte list \<Rightarrow> nat \<Rightarrow> keypers" where
  "take_keypers bs offset =
     (take_key bs offset, take_key bs (offset + 32), take_key bs (offset + 64))"

definition keypers_bytes :: "keypers \<Rightarrow> byte list" where
  "keypers_bytes ks = concat (map arr_bytes (keyper_list ks))"

lemma length_keypers_bytes [simp]: "length (keypers_bytes ks) = 96"
  by (cases ks) (simp add: keypers_bytes_def)

lemma put_keys_append [bytes_simps]:
  "length xs \<le> a \<Longrightarrow>
     put_keys ks a (xs @ zs) =
       (case put_keys ks (a - length xs) zs of (out, offset) \<Rightarrow> (xs @ out, offset + length xs))"
proof (induction ks arbitrary: a zs)
  case (Cons k ks)
  have "put_keys ks (a + 32) (xs @ put (a - length xs) (arr_bytes k) zs) =
      (case put_keys ks (a + 32 - length xs) (put (a - length xs) (arr_bytes k) zs) of
         (out, offset) \<Rightarrow> (xs @ out, offset + length xs))"
    by (rule Cons.IH) (use Cons.prems in simp)
  with Cons.prems show ?case by (simp add: put_append)
qed simp

lemma put_keys_Cons [bytes_simps]:
  "0 < a \<Longrightarrow> put_keys ks a (x # zs) =
     (case put_keys ks (a - 1) zs of (out, offset) \<Rightarrow> (x # out, offset + 1))"
  using put_keys_append [of "[x]" a ks zs] by simp

lemma put_keys_0 [bytes_simps]:
  "put_keys ks 0 zs = (concat (map arr_bytes ks) @ drop (32 * length ks) zs, 32 * length ks)"
proof (induction ks arbitrary: zs)
  case (Cons k ks)
  then show ?case
    by (simp add: put_0 put_keys_append add.commute)
qed simp

lemma keyper_list_bytes [simp]:
  "concat (map arr_bytes (keyper_list ks)) = keypers_bytes ks" "length (keyper_list ks) = 3"
  by (simp add: keypers_bytes_def) (cases ks, simp)

lemma take_keypers_append [bytes_simps]:
  "length xs \<le> a \<Longrightarrow> take_keypers (xs @ ys) a = take_keypers ys (a - length xs)"
  by (simp add: take_keypers_def take_key_def slice_append)

lemma take_keypers_Cons [bytes_simps]:
  "0 < a \<Longrightarrow> take_keypers (x # ys) a = take_keypers ys (a - 1)"
  using take_keypers_append [of "[x]" a ys] by simp

lemma take_keypers_0 [bytes_simps]: "take_keypers (keypers_bytes ks @ ys) 0 = ks"
  by (cases ks) (simp add: take_keypers_def take_key_def keypers_bytes_def slice_def)

lemma keypers_bytes_take [bytes_simps]:
  assumes "a + 96 \<le> length bs"
  shows "keypers_bytes (take_keypers bs a) = slice a (a + 96) bs"
proof -
  have e: "a + 32 + 32 = a + 64" "a + 64 + 32 = a + 96" by simp_all
  have "keypers_bytes (take_keypers bs a) =
      slice a (a + 32) bs @ slice (a + 32) (a + 64) bs @ slice (a + 64) (a + 96) bs"
    using assms unfolding take_keypers_def take_key_def keypers_bytes_def e by simp
  also have "\<dots> = slice a (a + 96) bs" by (simp add: slice_join)
  finally show ?thesis .
qed

lemma keypers_bytes_inj [simp]: "keypers_bytes k = keypers_bytes k' \<longleftrightarrow> k = k'"
  using take_keypers_0 by metis

section \<open>Domain-separated hashing\<close>

definition CONFIG_DOMAIN :: "byte list" where
  "CONFIG_DOMAIN = ascii ''KAGEB_CONFIG_V1'' @ [0]"

definition LOCK_DOMAIN :: "byte list" where
  "LOCK_DOMAIN = ascii ''KAGEB_LOCK_V1'' @ [0]"

definition SETTLEMENT_DOMAIN :: "byte list" where
  "SETTLEMENT_DOMAIN = ascii ''KAGEB_SETTLEMENT_V1'' @ [0]"

definition domain_hash :: "(byte list \<Rightarrow> bytes32) \<Rightarrow> byte list \<Rightarrow> byte list \<Rightarrow> bytes32" where
  "domain_hash sha256 domain bytes = sha256 (domain @ bytes)"

section \<open>Epoch configuration\<close>

record epoch_configuration =
  ec_pool :: pubkey
  ec_epoch_id :: bytes32
  ec_base_mint :: pubkey
  ec_quote_mint :: pubkey
  ec_base_lot_atoms :: u64
  ec_quote_atoms_per_lot :: u64
  ec_minimum_count :: u32
  ec_lock_threshold :: u8
  ec_settlement_threshold :: u8
  ec_keypers :: keypers
  ec_lock_deadline :: i64
  ec_abort_deadline :: i64

definition CONFIGURATION_LEN :: nat where
  "CONFIGURATION_LEN = 263"

definition configuration_encode :: "epoch_configuration \<Rightarrow> byte list" where
  "configuration_encode c =
     (let out = replicate CONFIGURATION_LEN 0;
          out = put 0 [1] out;
          out = put 1 (arr_bytes (ec_pool c)) out;
          out = put 33 (arr_bytes (ec_epoch_id c)) out;
          out = put 65 (arr_bytes (ec_base_mint c)) out;
          out = put 97 (arr_bytes (ec_quote_mint c)) out;
          out = put 129 (to_le_bytes (ec_base_lot_atoms c)) out;
          out = put 137 (to_le_bytes (ec_quote_atoms_per_lot c)) out;
          out = put 145 (to_le_bytes (ec_minimum_count c)) out;
          out = put 149 [ec_lock_threshold c] out;
          out = put 150 [ec_settlement_threshold c] out;
          (out, _) = put_keys (keyper_list (ec_keypers c)) 151 out;
          out = put 247 (to_le_bytes (ec_lock_deadline c)) out;
          out = put 255 (to_le_bytes (ec_abort_deadline c)) out
      in out)"

definition configuration_decode :: "byte list \<Rightarrow> epoch_configuration option" where
  "configuration_decode bs =
     (if length bs \<noteq> CONFIGURATION_LEN \<or> bs ! 0 \<noteq> 1 then None
      else Some
        \<lparr> ec_pool = arr_of (slice 1 33 bs),
          ec_epoch_id = arr_of (slice 33 65 bs),
          ec_base_mint = arr_of (slice 65 97 bs),
          ec_quote_mint = arr_of (slice 97 129 bs),
          ec_base_lot_atoms = from_le_bytes (slice 129 137 bs),
          ec_quote_atoms_per_lot = from_le_bytes (slice 137 145 bs),
          ec_minimum_count = from_le_bytes (slice 145 149 bs),
          ec_lock_threshold = bs ! 149,
          ec_settlement_threshold = bs ! 150,
          ec_keypers = take_keypers bs 151,
          ec_lock_deadline = from_le_bytes (slice 247 255 bs),
          ec_abort_deadline = from_le_bytes (slice 255 263 bs) \<rparr>)"

definition configuration_digest :: "(byte list \<Rightarrow> bytes32) \<Rightarrow> epoch_configuration \<Rightarrow> bytes32" where
  "configuration_digest sha256 c = domain_hash sha256 CONFIG_DOMAIN (configuration_encode c)"

section \<open>Lock payload\<close>

record lock_payload =
  lp_epoch_account :: pubkey
  lp_configuration_hash :: bytes32
  lp_pre_balance_root :: bytes32
  lp_member_root :: bytes32
  lp_member_count :: u32
  lp_lock_deadline :: i64
  lp_lock_nonce :: bytes32

definition LOCK_PAYLOAD_LEN :: nat where
  "LOCK_PAYLOAD_LEN = 173"

definition lock_payload_encode :: "lock_payload \<Rightarrow> byte list" where
  "lock_payload_encode p =
     (let out = replicate LOCK_PAYLOAD_LEN 0;
          out = put 0 [1] out;
          out = put 1 (arr_bytes (lp_epoch_account p)) out;
          out = put 33 (arr_bytes (lp_configuration_hash p)) out;
          out = put 65 (arr_bytes (lp_pre_balance_root p)) out;
          out = put 97 (arr_bytes (lp_member_root p)) out;
          out = put 129 (to_le_bytes (lp_member_count p)) out;
          out = put 133 (to_le_bytes (lp_lock_deadline p)) out;
          out = put 141 (arr_bytes (lp_lock_nonce p)) out
      in out)"

definition lock_payload_decode :: "byte list \<Rightarrow> lock_payload option" where
  "lock_payload_decode bs =
     (if length bs \<noteq> LOCK_PAYLOAD_LEN \<or> bs ! 0 \<noteq> 1 then None
      else Some
        \<lparr> lp_epoch_account = arr_of (slice 1 33 bs),
          lp_configuration_hash = arr_of (slice 33 65 bs),
          lp_pre_balance_root = arr_of (slice 65 97 bs),
          lp_member_root = arr_of (slice 97 129 bs),
          lp_member_count = from_le_bytes (slice 129 133 bs),
          lp_lock_deadline = from_le_bytes (slice 133 141 bs),
          lp_lock_nonce = arr_of (slice 141 173 bs) \<rparr>)"

definition lock_payload_digest :: "(byte list \<Rightarrow> bytes32) \<Rightarrow> lock_payload \<Rightarrow> bytes32" where
  "lock_payload_digest sha256 p = domain_hash sha256 LOCK_DOMAIN (lock_payload_encode p)"

section \<open>Settlement payload\<close>

record settlement_payload =
  sp_epoch_account :: pubkey
  sp_lock_digest :: bytes32
  sp_result_commitment :: bytes32
  sp_residual_side :: u8
  sp_residual_lots :: u32
  sp_base_lot_atoms :: u64
  sp_quote_atoms_per_lot :: u64
  sp_base_mint :: pubkey
  sp_quote_mint :: pubkey
  sp_pool_base_vault :: pubkey
  sp_pool_quote_vault :: pubkey
  sp_venue_base_account :: pubkey
  sp_venue_quote_account :: pubkey
  sp_venue_authority :: pubkey
  sp_settlement_nonce :: bytes32

definition SETTLEMENT_PAYLOAD_LEN :: nat where
  "SETTLEMENT_PAYLOAD_LEN = 374"

definition settlement_payload_encode :: "settlement_payload \<Rightarrow> byte list" where
  "settlement_payload_encode p =
     (let out = replicate SETTLEMENT_PAYLOAD_LEN 0;
          out = put 0 [1] out;
          out = put 1 (arr_bytes (sp_epoch_account p)) out;
          out = put 33 (arr_bytes (sp_lock_digest p)) out;
          out = put 65 (arr_bytes (sp_result_commitment p)) out;
          out = put 97 [sp_residual_side p] out;
          out = put 98 (to_le_bytes (sp_residual_lots p)) out;
          out = put 102 (to_le_bytes (sp_base_lot_atoms p)) out;
          out = put 110 (to_le_bytes (sp_quote_atoms_per_lot p)) out;
          (out, offset) = put_keys
            [sp_base_mint p, sp_quote_mint p, sp_pool_base_vault p, sp_pool_quote_vault p,
             sp_venue_base_account p, sp_venue_quote_account p, sp_venue_authority p] 118 out;
          out = put offset (arr_bytes (sp_settlement_nonce p)) out
      in out)"

definition settlement_payload_decode :: "byte list \<Rightarrow> settlement_payload option" where
  "settlement_payload_decode bs =
     (if length bs \<noteq> SETTLEMENT_PAYLOAD_LEN \<or> bs ! 0 \<noteq> 1 then None
      else Some
        \<lparr> sp_epoch_account = arr_of (slice 1 33 bs),
          sp_lock_digest = arr_of (slice 33 65 bs),
          sp_result_commitment = arr_of (slice 65 97 bs),
          sp_residual_side = bs ! 97,
          sp_residual_lots = from_le_bytes (slice 98 102 bs),
          sp_base_lot_atoms = from_le_bytes (slice 102 110 bs),
          sp_quote_atoms_per_lot = from_le_bytes (slice 110 118 bs),
          sp_base_mint = arr_of (slice 118 150 bs),
          sp_quote_mint = arr_of (slice 150 182 bs),
          sp_pool_base_vault = arr_of (slice 182 214 bs),
          sp_pool_quote_vault = arr_of (slice 214 246 bs),
          sp_venue_base_account = arr_of (slice 246 278 bs),
          sp_venue_quote_account = arr_of (slice 278 310 bs),
          sp_venue_authority = arr_of (slice 310 342 bs),
          sp_settlement_nonce = arr_of (slice 342 374 bs) \<rparr>)"

definition settlement_payload_digest ::
    "(byte list \<Rightarrow> bytes32) \<Rightarrow> settlement_payload \<Rightarrow> bytes32" where
  "settlement_payload_digest sha256 p =
     domain_hash sha256 SETTLEMENT_DOMAIN (settlement_payload_encode p)"

section \<open>Layouts\<close>

text \<open>Every encoder writes each byte of its buffer exactly once, in the order of the fields.\<close>

lemma configuration_encode_eq:
  "configuration_encode c =
     [1] @ arr_bytes (ec_pool c) @ arr_bytes (ec_epoch_id c) @ arr_bytes (ec_base_mint c) @
     arr_bytes (ec_quote_mint c) @ to_le_bytes (ec_base_lot_atoms c) @
     to_le_bytes (ec_quote_atoms_per_lot c) @ to_le_bytes (ec_minimum_count c) @
     [ec_lock_threshold c] @ [ec_settlement_threshold c] @ keypers_bytes (ec_keypers c) @
     to_le_bytes (ec_lock_deadline c) @ to_le_bytes (ec_abort_deadline c)"
  by (simp add: configuration_encode_def CONFIGURATION_LEN_def Let_def bytes_simps)

lemma lock_payload_encode_eq:
  "lock_payload_encode p =
     [1] @ arr_bytes (lp_epoch_account p) @ arr_bytes (lp_configuration_hash p) @
     arr_bytes (lp_pre_balance_root p) @ arr_bytes (lp_member_root p) @
     to_le_bytes (lp_member_count p) @ to_le_bytes (lp_lock_deadline p) @
     arr_bytes (lp_lock_nonce p)"
  by (simp add: lock_payload_encode_def LOCK_PAYLOAD_LEN_def Let_def bytes_simps)

lemma settlement_payload_encode_eq:
  "settlement_payload_encode p =
     [1] @ arr_bytes (sp_epoch_account p) @ arr_bytes (sp_lock_digest p) @
     arr_bytes (sp_result_commitment p) @ [sp_residual_side p] @ to_le_bytes (sp_residual_lots p) @
     to_le_bytes (sp_base_lot_atoms p) @ to_le_bytes (sp_quote_atoms_per_lot p) @
     arr_bytes (sp_base_mint p) @ arr_bytes (sp_quote_mint p) @
     arr_bytes (sp_pool_base_vault p) @ arr_bytes (sp_pool_quote_vault p) @
     arr_bytes (sp_venue_base_account p) @ arr_bytes (sp_venue_quote_account p) @
     arr_bytes (sp_venue_authority p) @ arr_bytes (sp_settlement_nonce p)"
  by (simp add: settlement_payload_encode_def SETTLEMENT_PAYLOAD_LEN_def Let_def bytes_simps)

section \<open>The codecs\<close>

interpretation configuration_codec: hashed_codec configuration_encode configuration_decode
  "\<lambda>_. True" CONFIGURATION_LEN sha256 CONFIG_DOMAIN "configuration_digest sha256" for sha256
proof unfold_locales
  fix c show "length (configuration_encode c) = CONFIGURATION_LEN"
    by (simp add: configuration_encode_eq CONFIGURATION_LEN_def)
  show "configuration_decode (configuration_encode c) = Some c"
    by (simp add: configuration_decode_def configuration_encode_eq CONFIGURATION_LEN_def
        bytes_simps nth_append nth_Cons')
  show "configuration_digest sha256 c = sha256 (CONFIG_DOMAIN @ configuration_encode c)"
    by (simp add: configuration_digest_def domain_hash_def)
next
  fix bs c assume "configuration_decode bs = Some c"
  then show "True \<and> configuration_encode c = bs"
    by (auto simp: configuration_decode_def configuration_encode_eq CONFIGURATION_LEN_def
        keypers_bytes_take slice_join hd_slice slice_all split: if_splits)
qed

interpretation lock_codec: hashed_codec lock_payload_encode lock_payload_decode
  "\<lambda>_. True" LOCK_PAYLOAD_LEN sha256 LOCK_DOMAIN "lock_payload_digest sha256" for sha256
proof unfold_locales
  fix p show "length (lock_payload_encode p) = LOCK_PAYLOAD_LEN"
    by (simp add: lock_payload_encode_eq LOCK_PAYLOAD_LEN_def)
  show "lock_payload_decode (lock_payload_encode p) = Some p"
    by (simp add: lock_payload_decode_def lock_payload_encode_eq LOCK_PAYLOAD_LEN_def bytes_simps)
  show "lock_payload_digest sha256 p = sha256 (LOCK_DOMAIN @ lock_payload_encode p)"
    by (simp add: lock_payload_digest_def domain_hash_def)
next
  fix bs p assume "lock_payload_decode bs = Some p"
  then show "True \<and> lock_payload_encode p = bs"
    by (auto simp: lock_payload_decode_def lock_payload_encode_eq LOCK_PAYLOAD_LEN_def
        slice_join hd_slice slice_all split: if_splits)
qed

interpretation settlement_codec: hashed_codec settlement_payload_encode settlement_payload_decode
  "\<lambda>_. True" SETTLEMENT_PAYLOAD_LEN sha256 SETTLEMENT_DOMAIN "settlement_payload_digest sha256"
  for sha256
proof unfold_locales
  fix p show "length (settlement_payload_encode p) = SETTLEMENT_PAYLOAD_LEN"
    by (simp add: settlement_payload_encode_eq SETTLEMENT_PAYLOAD_LEN_def)
  show "settlement_payload_decode (settlement_payload_encode p) = Some p"
    by (simp add: settlement_payload_decode_def settlement_payload_encode_eq
        SETTLEMENT_PAYLOAD_LEN_def bytes_simps nth_append nth_Cons')
  show "settlement_payload_digest sha256 p = sha256 (SETTLEMENT_DOMAIN @ settlement_payload_encode p)"
    by (simp add: settlement_payload_digest_def domain_hash_def)
next
  fix bs p assume "settlement_payload_decode bs = Some p"
  then show "True \<and> settlement_payload_encode p = bs"
    by (auto simp: settlement_payload_decode_def settlement_payload_encode_eq
        SETTLEMENT_PAYLOAD_LEN_def slice_join hd_slice slice_all split: if_splits)
qed

end
