(* ===== verification/Runtime.thy ===== *)
theory Runtime
  imports Wire
begin

text \<open>
  \<open>kageb-program/src/error.rs\<close> and \<open>lib.rs\<close>: error codes, the program's address and its
  derived addresses; and the interface to the Solana runtime that the processor calls. The
  runtime is not part of the repository. It is the record \<open>runtime\<close>, a parameter of every
  definition that uses it: hashing, address derivation, cross-program invocation, rent, the clock
  and the instructions sysvar.
\<close>

section \<open>Errors\<close>

text \<open>
  The \<open>ProgramError\<close> values of the sources; \<open>Runtime_error\<close> stands for those returned by
  the runtime itself and \<open>Aborted\<close> for a panic, which fails the transaction.
\<close>

datatype program_error =
    Custom u32
  | IncorrectProgramId
  | InvalidAccountData
  | Runtime_error u64
  | Aborted

datatype kageb_error =
    InvalidInstruction
  | InvalidAccounts
  | MissingSignature
  | InvalidOwner
  | InvalidPda
  | InvalidState
  | InvalidConfiguration
  | InvalidTokenAccount
  | DeadlinePassed
  | DeadlineNotReached
  | CrowdBelowMinimum
  | InvalidLock
  | InsufficientQuorum
  | ArithmeticOverflow
  | InvalidSettlement

fun kageb_code :: "kageb_error \<Rightarrow> u32" where
  "kageb_code InvalidInstruction = 1"
| "kageb_code InvalidAccounts = 2"
| "kageb_code MissingSignature = 3"
| "kageb_code InvalidOwner = 4"
| "kageb_code InvalidPda = 5"
| "kageb_code InvalidState = 6"
| "kageb_code InvalidConfiguration = 7"
| "kageb_code InvalidTokenAccount = 8"
| "kageb_code DeadlinePassed = 9"
| "kageb_code DeadlineNotReached = 10"
| "kageb_code CrowdBelowMinimum = 11"
| "kageb_code InvalidLock = 12"
| "kageb_code InsufficientQuorum = 13"
| "kageb_code ArithmeticOverflow = 14"
| "kageb_code InvalidSettlement = 15"

definition from_kageb :: "kageb_error \<Rightarrow> program_error" where
  "from_kageb e = Custom (kageb_code e)"

lemma from_kageb_inject [simp]: "from_kageb e = from_kageb f \<longleftrightarrow> e = f"
  by (cases e; cases f) (simp_all add: from_kageb_def)

section \<open>Accounts and the runtime\<close>

text \<open>
  An \<open>AccountInfo\<close> of an instruction. The processor borrows the data of an account only for the
  length of one statement, so the borrow checks (\<open>try_borrow_data\<close>) never fail and are not modelled.
\<close>

record account_info =
  ai_key :: pubkey
  ai_owner :: pubkey
  ai_lamports :: u64
  ai_data :: "byte list"
  ai_is_signer :: bool
  ai_is_writable :: bool
  ai_executable :: bool

record instruction =
  ix_program_id :: pubkey
  ix_accounts :: "(pubkey \<times> bool \<times> bool) list"
  ix_data :: "byte list"

text \<open>
  The instructions the processor sends to other programs, by the arguments of their builders.
  An error of a builder is an error of the invocation.
\<close>

datatype cpi =
    Transfer_checked (tc_program: pubkey) (tc_source: pubkey) (tc_mint: pubkey)
      (tc_destination: pubkey) (tc_authority: pubkey) (tc_signers: "pubkey list") (tc_amount: u64)
      (tc_decimals: u8)
  | System_transfer pubkey pubkey u64
  | System_allocate pubkey u64
  | System_assign pubkey pubkey

type_synonym seeds = "byte list list"

record runtime =
  rt_sha256 :: "byte list \<Rightarrow> bytes32"
  rt_find_program_address :: "seeds \<Rightarrow> pubkey \<Rightarrow> pubkey \<times> u8"
  rt_system_program :: pubkey
  rt_clock_id :: pubkey
  rt_instructions_id :: pubkey
  rt_ed25519_program :: pubkey
  rt_invoke_signed :: "cpi \<Rightarrow> account_info list \<Rightarrow> seeds list \<Rightarrow> program_error + account_info list"
  rt_minimum_balance :: "nat \<Rightarrow> program_error + u64"
  rt_clock_unix_timestamp :: "account_info \<Rightarrow> program_error + i64"
  rt_current_index :: "account_info \<Rightarrow> program_error + u16"
  rt_instruction_at :: "nat \<Rightarrow> account_info \<Rightarrow> program_error + instruction"

section \<open>Addresses\<close>

text \<open>The \<open>pubkey!\<close> macro reads a base-58 literal as a big-endian number of 32 bytes.\<close>

definition base58_alphabet :: string where
  "base58_alphabet = ''123456789ABCDEFGHJKLMNPQRSTUVWXYZabcdefghijkmnopqrstuvwxyz''"

definition base58_digit :: "char \<Rightarrow> nat" where
  "base58_digit c = length (takeWhile (\<lambda>d. d \<noteq> c) base58_alphabet)"

definition base58 :: "string \<Rightarrow> nat" where
  "base58 s = foldl (\<lambda>n c. n * 58 + base58_digit c) 0 s"

definition ID :: pubkey where
  "ID = of_nat (base58 ''HbMyCP5GxicksRpSVrchRTJTznP3zTrzCMb7FmZNRa77'')"

definition TOKEN_PROGRAM_ID :: pubkey where
  "TOKEN_PROGRAM_ID = of_nat (base58 ''TokenkegQfeZyiNwAJbNbGKPFXCWuBvf9Ss623VQ5DA'')"

definition pool_seeds :: "pubkey \<Rightarrow> pubkey \<Rightarrow> pubkey \<Rightarrow> seeds" where
  "pool_seeds operator base_mint quote_mint =
     [ascii ''pool'', arr_bytes operator, arr_bytes base_mint, arr_bytes quote_mint]"

definition vault_seeds :: "pubkey \<Rightarrow> seeds" where
  "vault_seeds pool = [ascii ''vault'', arr_bytes pool]"

definition epoch_seeds :: "pubkey \<Rightarrow> bytes32 \<Rightarrow> seeds" where
  "epoch_seeds pool epoch_id = [ascii ''epoch'', arr_bytes pool, arr_bytes epoch_id]"

definition pool_address :: "runtime \<Rightarrow> pubkey \<Rightarrow> pubkey \<Rightarrow> pubkey \<Rightarrow> pubkey \<times> u8" where
  "pool_address rt operator base_mint quote_mint =
     rt_find_program_address rt (pool_seeds operator base_mint quote_mint) ID"

definition vault_authority_address :: "runtime \<Rightarrow> pubkey \<Rightarrow> pubkey \<times> u8" where
  "vault_authority_address rt pool = rt_find_program_address rt (vault_seeds pool) ID"

definition epoch_address :: "runtime \<Rightarrow> pubkey \<Rightarrow> bytes32 \<Rightarrow> pubkey \<times> u8" where
  "epoch_address rt pool epoch_id = rt_find_program_address rt (epoch_seeds pool epoch_id) ID"

lemma base58_ids:
  "base58 ''HbMyCP5GxicksRpSVrchRTJTznP3zTrzCMb7FmZNRa77'' =
     111510043396129309292270185466843941409886519523389877658274303200025686746390"
  "base58 ''TokenkegQfeZyiNwAJbNbGKPFXCWuBvf9Ss623VQ5DA'' =
     3106054211088883198575105191760876350940303353676611666299516346430146937001"
  by (simp_all add: base58_def base58_digit_def base58_alphabet_def)

lemma ID_num:
  "ID = 111510043396129309292270185466843941409886519523389877658274303200025686746390"
  "TOKEN_PROGRAM_ID = 3106054211088883198575105191760876350940303353676611666299516346430146937001"
  by (simp_all add: ID_def TOKEN_PROGRAM_ID_def base58_ids)

lemma ID_not_token: "ID \<noteq> TOKEN_PROGRAM_ID"
  by (simp add: ID_num)

lemma pool_seeds_inj:
  "pool_seeds o1 b1 q1 = pool_seeds o2 b2 q2 \<longleftrightarrow> o1 = o2 \<and> b1 = b2 \<and> q1 = q2"
  by (auto simp: pool_seeds_def)

lemma epoch_seeds_inj: "epoch_seeds p1 e1 = epoch_seeds p2 e2 \<longleftrightarrow> p1 = p2 \<and> e1 = e2"
  by (auto simp: epoch_seeds_def)

lemma vault_seeds_inj: "vault_seeds p1 = vault_seeds p2 \<longleftrightarrow> p1 = p2"
  by (auto simp: vault_seeds_def)

lemma seeds_distinct:
  "pool_seeds p b q \<noteq> epoch_seeds p1 e1" "pool_seeds p b q \<noteq> vault_seeds p2"
  "epoch_seeds p1 e1 \<noteq> vault_seeds p2"
  by (simp_all add: pool_seeds_def epoch_seeds_def vault_seeds_def)

end
