(* ===== verification/State.thy ===== *)
theory State
  imports Runtime
begin

text \<open>
  \<open>kageb-program/src/state.rs\<close>: the 384-byte pool and epoch accounts, their encoders and their
  strict decoders. Both are interpreted as \<open>wire_codec\<close>: an account's data is accepted exactly when
  it is the encoding of a state, with the discriminator, the version and all reserved bytes fixed.
\<close>

definition STATE_LEN :: nat where
  "STATE_LEN = 384"

definition POOL_DISCRIMINATOR :: "byte list" where
  "POOL_DISCRIMINATOR = ascii ''KAGEPOOL''"

definition EPOCH_DISCRIMINATOR :: "byte list" where
  "EPOCH_DISCRIMINATOR = ascii ''KAGEEPCH''"

definition VERSION :: u8 where
  "VERSION = 1"

datatype epoch_terminal_state = Open | Locked | Settled | Expired | Aborted_epoch

fun terminal_code :: "epoch_terminal_state \<Rightarrow> u8" where
  "terminal_code Open = 1"
| "terminal_code Locked = 2"
| "terminal_code Settled = 3"
| "terminal_code Expired = 4"
| "terminal_code Aborted_epoch = 5"

definition terminal_try_from :: "u8 \<Rightarrow> program_error + epoch_terminal_state" where
  "terminal_try_from v =
     (if v = 1 then Inr Open
      else if v = 2 then Inr Locked
      else if v = 3 then Inr Settled
      else if v = 4 then Inr Expired
      else if v = 5 then Inr Aborted_epoch
      else Inl InvalidAccountData)"

record pool_state =
  ps_pool_bump :: u8
  ps_vault_bump :: u8
  ps_lock_threshold :: u8
  ps_settlement_threshold :: u8
  ps_operator :: pubkey
  ps_base_mint :: pubkey
  ps_quote_mint :: pubkey
  ps_pool_base_vault :: pubkey
  ps_pool_quote_vault :: pubkey
  ps_venue_authority :: pubkey
  ps_venue_base_account :: pubkey
  ps_venue_quote_account :: pubkey
  ps_keypers :: keypers
  ps_base_lot_atoms :: u64

record epoch_state =
  es_epoch_bump :: u8
  es_terminal_state :: epoch_terminal_state
  es_residual_side :: u8
  es_pool :: pubkey
  es_epoch_id :: bytes32
  es_configuration_hash :: bytes32
  es_pre_balance_root :: bytes32
  es_member_root :: bytes32
  es_lock_digest :: bytes32
  es_result_commitment :: bytes32
  es_settlement_digest :: bytes32
  es_lock_nonce :: bytes32
  es_settlement_nonce :: bytes32
  es_member_count :: u32
  es_minimum_count :: u32
  es_residual_lots :: u32
  es_base_lot_atoms :: u64
  es_quote_atoms_per_lot :: u64
  es_lock_deadline :: i64
  es_abort_deadline :: i64

section \<open>Cursor operations\<close>

text \<open>The writers advance an offset behind the bytes they wrote, the readers behind those they read.\<close>

definition put_pubkey :: "pubkey \<Rightarrow> byte list \<times> nat \<Rightarrow> byte list \<times> nat" where
  "put_pubkey key = (\<lambda>(out, offset). (put offset (arr_bytes key) out, offset + 32))"

definition put_bytes32 :: "bytes32 \<Rightarrow> byte list \<times> nat \<Rightarrow> byte list \<times> nat" where
  "put_bytes32 v = (\<lambda>(out, offset). (put offset (arr_bytes v) out, offset + 32))"

definition put_u32 :: "u32 \<Rightarrow> byte list \<times> nat \<Rightarrow> byte list \<times> nat" where
  "put_u32 v = (\<lambda>(out, offset). (put offset (to_le_bytes v) out, offset + 4))"

definition put_u64 :: "u64 \<Rightarrow> byte list \<times> nat \<Rightarrow> byte list \<times> nat" where
  "put_u64 v = (\<lambda>(out, offset). (put offset (to_le_bytes v) out, offset + 8))"

definition put_i64 :: "i64 \<Rightarrow> byte list \<times> nat \<Rightarrow> byte list \<times> nat" where
  "put_i64 v = put_u64 v"

definition take_bytes :: "nat \<Rightarrow> byte list \<Rightarrow> nat \<Rightarrow> program_error + byte list \<times> nat" where
  "take_bytes n data offset =
     try_bind (ok_or (get_slice offset (offset + n) data) InvalidAccountData) (\<lambda>bytes.
     Inr (bytes, offset + n))"

definition take_pubkey :: "byte list \<Rightarrow> nat \<Rightarrow> program_error + pubkey \<times> nat" where
  "take_pubkey data offset = try_bind (take_bytes 32 data offset) (\<lambda>(b, off). Inr (arr_of b, off))"

definition take_bytes32 :: "byte list \<Rightarrow> nat \<Rightarrow> program_error + bytes32 \<times> nat" where
  "take_bytes32 data offset = try_bind (take_bytes 32 data offset) (\<lambda>(b, off). Inr (arr_of b, off))"

definition take_u32 :: "byte list \<Rightarrow> nat \<Rightarrow> program_error + u32 \<times> nat" where
  "take_u32 data offset = try_bind (take_bytes 4 data offset) (\<lambda>(b, off). Inr (from_le_bytes b, off))"

definition take_u64 :: "byte list \<Rightarrow> nat \<Rightarrow> program_error + u64 \<times> nat" where
  "take_u64 data offset = try_bind (take_bytes 8 data offset) (\<lambda>(b, off). Inr (from_le_bytes b, off))"

definition take_i64 :: "byte list \<Rightarrow> nat \<Rightarrow> program_error + i64 \<times> nat" where
  "take_i64 data offset = try_bind (take_bytes 8 data offset) (\<lambda>(b, off). Inr (from_le_bytes b, off))"

definition require_header_and_reserved ::
    "byte list \<Rightarrow> byte list \<Rightarrow> nat \<Rightarrow> program_error + unit" where
  "require_header_and_reserved data discriminator reserved_start =
     (if length data \<noteq> STATE_LEN
         \<or> slice 0 8 data \<noteq> discriminator
         \<or> data ! 8 \<noteq> VERSION
         \<or> list_ex (\<lambda>byte. byte \<noteq> 0) (drop reserved_start data)
      then Inl InvalidAccountData
      else Inr ())"

lemma take_ok [bytes_simps]:
  "offset + 32 \<le> length data \<Longrightarrow>
     take_pubkey data offset = Inr (arr_of (slice offset (offset + 32) data), offset + 32)"
  "offset + 32 \<le> length data \<Longrightarrow>
     take_bytes32 data offset = Inr (arr_of (slice offset (offset + 32) data), offset + 32)"
  "offset + 4 \<le> length data \<Longrightarrow>
     take_u32 data offset = Inr (from_le_bytes (slice offset (offset + 4) data), offset + 4)"
  "offset + 8 \<le> length data \<Longrightarrow>
     take_u64 data offset = Inr (from_le_bytes (slice offset (offset + 8) data), offset + 8)"
  "offset + 8 \<le> length data \<Longrightarrow>
     take_i64 data offset = Inr (from_le_bytes (slice offset (offset + 8) data), offset + 8)"
  by (simp_all add: take_pubkey_def take_bytes32_def take_u32_def take_u64_def take_i64_def
      take_bytes_def get_slice_def)

lemmas put_cursor_defs = put_pubkey_def put_bytes32_def put_u32_def put_u64_def put_i64_def

section \<open>Pool state\<close>

definition pool_state_encode :: "pool_state \<Rightarrow> byte list" where
  "pool_state_encode s =
     (let out = replicate STATE_LEN 0;
          out = put 0 POOL_DISCRIMINATOR out;
          out = put 8 [VERSION] out;
          out = put 9 [ps_pool_bump s] out;
          out = put 10 [ps_vault_bump s] out;
          out = put 11 [ps_lock_threshold s] out;
          out = put 12 [ps_settlement_threshold s] out;
          c = fold put_pubkey
            ([ps_operator s, ps_base_mint s, ps_quote_mint s, ps_pool_base_vault s,
              ps_pool_quote_vault s, ps_venue_authority s, ps_venue_base_account s,
              ps_venue_quote_account s] @ keyper_list (ps_keypers s)) (out, 16);
          (out, offset) = put_u64 (ps_base_lot_atoms s) c
      in out)"

definition pool_state_decode :: "byte list \<Rightarrow> program_error + pool_state" where
  "pool_state_decode data =
     try_bind (require_header_and_reserved data POOL_DISCRIMINATOR 376) (\<lambda>_.
     try_bind (take_pubkey data 16) (\<lambda>(operator, offset).
     try_bind (take_pubkey data offset) (\<lambda>(base_mint, offset).
     try_bind (take_pubkey data offset) (\<lambda>(quote_mint, offset).
     try_bind (take_pubkey data offset) (\<lambda>(pool_base_vault, offset).
     try_bind (take_pubkey data offset) (\<lambda>(pool_quote_vault, offset).
     try_bind (take_pubkey data offset) (\<lambda>(venue_authority, offset).
     try_bind (take_pubkey data offset) (\<lambda>(venue_base_account, offset).
     try_bind (take_pubkey data offset) (\<lambda>(venue_quote_account, offset).
     try_bind (take_pubkey data offset) (\<lambda>(keyper0, offset).
     try_bind (take_pubkey data offset) (\<lambda>(keyper1, offset).
     try_bind (take_pubkey data offset) (\<lambda>(keyper2, offset).
     try_bind (take_u64 data offset) (\<lambda>(base_lot_atoms, offset).
     if slice 13 16 data \<noteq> replicate 3 0 \<or> offset \<noteq> 376 then Inl InvalidAccountData
     else Inr
       \<lparr> ps_pool_bump = data ! 9,
         ps_vault_bump = data ! 10,
         ps_lock_threshold = data ! 11,
         ps_settlement_threshold = data ! 12,
         ps_operator = operator,
         ps_base_mint = base_mint,
         ps_quote_mint = quote_mint,
         ps_pool_base_vault = pool_base_vault,
         ps_pool_quote_vault = pool_quote_vault,
         ps_venue_authority = venue_authority,
         ps_venue_base_account = venue_base_account,
         ps_venue_quote_account = venue_quote_account,
         ps_keypers = (keyper0, keyper1, keyper2),
         ps_base_lot_atoms = base_lot_atoms \<rparr>)))))))))))))"

lemma length_discriminators [simp]:
  "length POOL_DISCRIMINATOR = 8" "length EPOCH_DISCRIMINATOR = 8"
  by (simp_all add: POOL_DISCRIMINATOR_def EPOCH_DISCRIMINATOR_def)

lemma discriminators_differ: "POOL_DISCRIMINATOR \<noteq> EPOCH_DISCRIMINATOR"
  by (simp add: POOL_DISCRIMINATOR_def EPOCH_DISCRIMINATOR_def ascii_def)

lemma fold_put_pubkey: "fold put_pubkey ks (out, offset) = put_keys ks offset out"
  by (induction ks arbitrary: out offset) (simp_all add: put_pubkey_def)

lemma pool_state_encode_eq:
  "pool_state_encode s =
     POOL_DISCRIMINATOR @ [VERSION] @ [ps_pool_bump s] @ [ps_vault_bump s] @ [ps_lock_threshold s] @
     [ps_settlement_threshold s] @ replicate 3 0 @ arr_bytes (ps_operator s) @
     arr_bytes (ps_base_mint s) @ arr_bytes (ps_quote_mint s) @ arr_bytes (ps_pool_base_vault s) @
     arr_bytes (ps_pool_quote_vault s) @ arr_bytes (ps_venue_authority s) @
     arr_bytes (ps_venue_base_account s) @ arr_bytes (ps_venue_quote_account s) @
     keypers_bytes (ps_keypers s) @ to_le_bytes (ps_base_lot_atoms s) @ replicate 8 0"
proof -
  have "replicate 371 (0::byte) = replicate 3 0 @ replicate 368 0" by (simp flip: replicate_add)
  then show ?thesis
    by (simp add: pool_state_encode_def STATE_LEN_def Let_def bytes_simps fold_put_pubkey
        put_u64_def del: fold.simps put_keys.simps fold_simps)
qed

lemma keypers_slices [simp]:
  "(arr_of (slice 0 32 (keypers_bytes k)), arr_of (slice 32 64 (keypers_bytes k)),
    arr_of (slice 64 96 (keypers_bytes k))) = k"
  using take_keypers_0 [of k "[]"] by (simp add: take_keypers_def take_key_def)

lemma keypers_bytes_arrs:
  "length a = 32 \<Longrightarrow> length b = 32 \<Longrightarrow> length c = 32 \<Longrightarrow>
     keypers_bytes (arr_of a, arr_of b, arr_of c) = a @ b @ c"
  by (simp add: keypers_bytes_def)

lemma header_layout:
  assumes "require_header_and_reserved data d r = Inr u" and "r \<le> STATE_LEN"
  shows "length data = 384" and "d = slice 0 8 data" and "VERSION = data ! 8"
    and "replicate (384 - r) 0 = slice r 384 data"
proof -
  from assms show len: "length data = 384" and "d = slice 0 8 data" and "VERSION = data ! 8"
    by (auto simp: require_header_and_reserved_def STATE_LEN_def split: if_splits)
  from assms have "\<forall>b \<in> set (drop r data). b = 0"
    by (auto simp: require_header_and_reserved_def list_ex_iff split: if_splits)
  then have "drop r data = replicate (length (drop r data)) 0"
    by (simp add: replicate_eqI)
  with len show "replicate (384 - r) 0 = slice r 384 data"
    by (simp add: slice_to_end)
qed

interpretation pool_codec: wire_codec pool_state_encode "\<lambda>data. ok (pool_state_decode data)"
  "\<lambda>_. True" STATE_LEN
proof unfold_locales
  fix s show "length (pool_state_encode s) = STATE_LEN"
    by (simp add: pool_state_encode_eq STATE_LEN_def)
  show "ok (pool_state_decode (pool_state_encode s)) = Some s"
    by (simp add: pool_state_decode_def require_header_and_reserved_def pool_state_encode_eq
        STATE_LEN_def bytes_simps nth_append nth_Cons' list_ex_iff del: replicate.simps)
next
  fix data s assume "ok (pool_state_decode data) = Some s"
  then have dec: "pool_state_decode data = Inr s" by (simp add: ok_Some)
  then have "require_header_and_reserved data POOL_DISCRIMINATOR 376 = Inr ()"
    by (auto simp: pool_state_decode_def res_simps)
  note header = header_layout [OF this, unfolded STATE_LEN_def, simplified]
  from dec header have pad: "replicate 3 0 = slice 13 16 data"
    by (simp add: pool_state_decode_def res_simps bytes_simps)
  from dec header have "pool_state_encode s = slice 0 8 data @ [data ! 8] @ [data ! 9] @ [data ! 10] @
      [data ! 11] @ [data ! 12] @ slice 13 16 data @ slice 16 376 data @ slice 376 384 data"
    unfolding pool_state_encode_eq header(2) header(3) header(4) pad
    by (auto simp: pool_state_decode_def res_simps bytes_simps keypers_bytes_arrs slice_join)
  also have "\<dots> = data"
    using header(1) by (simp add: slice_join slice_all)
  finally show "True \<and> pool_state_encode s = data" by simp
qed

section \<open>Epoch state\<close>

definition epoch_state_encode :: "epoch_state \<Rightarrow> byte list" where
  "epoch_state_encode s =
     (let out = replicate STATE_LEN 0;
          out = put 0 EPOCH_DISCRIMINATOR out;
          out = put 8 [VERSION] out;
          out = put 9 [es_epoch_bump s] out;
          out = put 10 [terminal_code (es_terminal_state s)] out;
          out = put 11 [es_residual_side s] out;
          c = put_pubkey (es_pool s) (out, 16);
          c = fold put_bytes32
            [es_epoch_id s, es_configuration_hash s, es_pre_balance_root s, es_member_root s,
             es_lock_digest s, es_result_commitment s, es_settlement_digest s, es_lock_nonce s,
             es_settlement_nonce s] c;
          c = put_u32 (es_member_count s) c;
          c = put_u32 (es_minimum_count s) c;
          c = put_u32 (es_residual_lots s) c;
          c = put_u64 (es_base_lot_atoms s) c;
          c = put_u64 (es_quote_atoms_per_lot s) c;
          c = put_i64 (es_lock_deadline s) c;
          (out, offset) = put_i64 (es_abort_deadline s) c
      in out)"

definition epoch_state_decode :: "byte list \<Rightarrow> program_error + epoch_state" where
  "epoch_state_decode data =
     try_bind (require_header_and_reserved data EPOCH_DISCRIMINATOR 380) (\<lambda>_.
     if slice 12 16 data \<noteq> replicate 4 0 then Inl InvalidAccountData
     else
     try_bind (terminal_try_from (data ! 10)) (\<lambda>terminal_state.
     try_bind (take_pubkey data 16) (\<lambda>(pool, offset).
     try_bind (take_bytes32 data offset) (\<lambda>(epoch_id, offset).
     try_bind (take_bytes32 data offset) (\<lambda>(configuration_hash, offset).
     try_bind (take_bytes32 data offset) (\<lambda>(pre_balance_root, offset).
     try_bind (take_bytes32 data offset) (\<lambda>(member_root, offset).
     try_bind (take_bytes32 data offset) (\<lambda>(lock_digest, offset).
     try_bind (take_bytes32 data offset) (\<lambda>(result_commitment, offset).
     try_bind (take_bytes32 data offset) (\<lambda>(settlement_digest, offset).
     try_bind (take_bytes32 data offset) (\<lambda>(lock_nonce, offset).
     try_bind (take_bytes32 data offset) (\<lambda>(settlement_nonce, offset).
     try_bind (take_u32 data offset) (\<lambda>(member_count, offset).
     try_bind (take_u32 data offset) (\<lambda>(minimum_count, offset).
     try_bind (take_u32 data offset) (\<lambda>(residual_lots, offset).
     try_bind (take_u64 data offset) (\<lambda>(base_lot_atoms, offset).
     try_bind (take_u64 data offset) (\<lambda>(quote_atoms_per_lot, offset).
     try_bind (take_i64 data offset) (\<lambda>(lock_deadline, offset).
     try_bind (take_i64 data offset) (\<lambda>(abort_deadline, offset).
     if offset \<noteq> 380 then Inl InvalidAccountData
     else Inr
       \<lparr> es_epoch_bump = data ! 9,
         es_terminal_state = terminal_state,
         es_residual_side = data ! 11,
         es_pool = pool,
         es_epoch_id = epoch_id,
         es_configuration_hash = configuration_hash,
         es_pre_balance_root = pre_balance_root,
         es_member_root = member_root,
         es_lock_digest = lock_digest,
         es_result_commitment = result_commitment,
         es_settlement_digest = settlement_digest,
         es_lock_nonce = lock_nonce,
         es_settlement_nonce = settlement_nonce,
         es_member_count = member_count,
         es_minimum_count = minimum_count,
         es_residual_lots = residual_lots,
         es_base_lot_atoms = base_lot_atoms,
         es_quote_atoms_per_lot = quote_atoms_per_lot,
         es_lock_deadline = lock_deadline,
         es_abort_deadline = abort_deadline \<rparr>)))))))))))))))))))"

lemma terminal_round [simp]: "terminal_try_from (terminal_code t) = Inr t"
  by (cases t) (simp_all add: terminal_try_from_def)

lemma terminal_unround: "terminal_try_from v = Inr t \<Longrightarrow> terminal_code t = v"
  by (auto simp: terminal_try_from_def split: if_splits)

lemma epoch_state_encode_eq:
  "epoch_state_encode s =
     EPOCH_DISCRIMINATOR @ [VERSION] @ [es_epoch_bump s] @ [terminal_code (es_terminal_state s)] @
     [es_residual_side s] @ replicate 4 0 @ arr_bytes (es_pool s) @ arr_bytes (es_epoch_id s) @
     arr_bytes (es_configuration_hash s) @ arr_bytes (es_pre_balance_root s) @
     arr_bytes (es_member_root s) @ arr_bytes (es_lock_digest s) @
     arr_bytes (es_result_commitment s) @ arr_bytes (es_settlement_digest s) @
     arr_bytes (es_lock_nonce s) @ arr_bytes (es_settlement_nonce s) @
     to_le_bytes (es_member_count s) @ to_le_bytes (es_minimum_count s) @
     to_le_bytes (es_residual_lots s) @ to_le_bytes (es_base_lot_atoms s) @
     to_le_bytes (es_quote_atoms_per_lot s) @ to_le_bytes (es_lock_deadline s) @
     to_le_bytes (es_abort_deadline s) @ replicate 4 0"
proof -
  have "replicate 372 (0::byte) = replicate 4 0 @ replicate 368 0" by (simp flip: replicate_add)
  then show ?thesis
    by (simp add: epoch_state_encode_def STATE_LEN_def Let_def bytes_simps put_cursor_defs)
qed

interpretation epoch_codec: wire_codec epoch_state_encode "\<lambda>data. ok (epoch_state_decode data)"
  "\<lambda>_. True" STATE_LEN
proof unfold_locales
  fix s show "length (epoch_state_encode s) = STATE_LEN"
    by (simp add: epoch_state_encode_eq STATE_LEN_def)
  show "ok (epoch_state_decode (epoch_state_encode s)) = Some s"
    by (simp add: epoch_state_decode_def require_header_and_reserved_def epoch_state_encode_eq
        STATE_LEN_def bytes_simps nth_append nth_Cons' list_ex_iff del: replicate.simps)
next
  fix data s assume "ok (epoch_state_decode data) = Some s"
  then have dec: "epoch_state_decode data = Inr s" by (simp add: ok_Some)
  then have "require_header_and_reserved data EPOCH_DISCRIMINATOR 380 = Inr ()"
    by (auto simp: epoch_state_decode_def res_simps)
  note header = header_layout [OF this, unfolded STATE_LEN_def, simplified]
  from dec header have pad: "replicate 4 0 = slice 12 16 data"
    by (auto simp: epoch_state_decode_def res_simps)
  from dec header have code: "terminal_code (es_terminal_state s) = data ! 10"
    by (auto simp: epoch_state_decode_def res_simps bytes_simps dest: terminal_unround)
  from dec header have "epoch_state_encode s = slice 0 8 data @ [data ! 8] @ [data ! 9] @
      [data ! 10] @ [data ! 11] @ slice 12 16 data @ slice 16 380 data @ slice 380 384 data"
    unfolding epoch_state_encode_eq header(2) header(3) code
    by (auto simp: epoch_state_decode_def res_simps bytes_simps slice_join pad)
  also have "\<dots> = data"
    using header(1) by (simp add: slice_join slice_all)
  finally show "True \<and> epoch_state_encode s = data" by simp
qed

section \<open>Reading accounts\<close>

lemma pool_decode_iff: "pool_state_decode data = Inr s \<longleftrightarrow> data = pool_state_encode s"
  using pool_codec.dec_iff [of data s] by (simp add: ok_Some)

lemma epoch_decode_iff: "epoch_state_decode data = Inr s \<longleftrightarrow> data = epoch_state_encode s"
  using epoch_codec.dec_iff [of data s] by (simp add: ok_Some)

lemma pool_decode_encode [simp]: "pool_state_decode (pool_state_encode s) = Inr s"
  by (simp add: pool_decode_iff)

lemma epoch_decode_encode [simp]: "epoch_state_decode (epoch_state_encode s) = Inr s"
  by (simp add: epoch_decode_iff)

lemma epoch_encode_inj [simp]: "epoch_state_encode s = epoch_state_encode t \<longleftrightarrow> s = t"
  by (rule epoch_codec.enc_inj) simp_all

lemma pool_encode_inj [simp]: "pool_state_encode s = pool_state_encode t \<longleftrightarrow> s = t"
  by (rule pool_codec.enc_inj) simp_all

lemma length_state_encode [simp]:
  "length (pool_state_encode s) = STATE_LEN" "length (epoch_state_encode e) = STATE_LEN"
  by (rule pool_codec.length_enc, rule epoch_codec.length_enc)

text \<open>No account data is both a pool and an epoch, and fresh (zeroed) data is neither.\<close>

lemma pool_not_epoch: "pool_state_encode s \<noteq> epoch_state_encode e"
proof
  assume "pool_state_encode s = epoch_state_encode e"
  then have "take 8 (pool_state_encode s) = take 8 (epoch_state_encode e)" by simp
  then show False
    using discriminators_differ by (simp add: pool_state_encode_eq epoch_state_encode_eq)
qed

lemma zeroed_not_state:
  "pool_state_encode s \<noteq> replicate n 0" "epoch_state_encode e \<noteq> replicate n 0"
proof -
  have marked: "xs \<noteq> replicate n 0" if "xs ! 8 = 1" "length xs = 384" for xs :: "byte list"
    using that by auto
  have "length (pool_state_encode s) = 384" "length (epoch_state_encode e) = 384"
    by (simp_all add: STATE_LEN_def)
  moreover have "pool_state_encode s ! 8 = 1" "epoch_state_encode e ! 8 = 1"
    by (simp_all add: pool_state_encode_eq epoch_state_encode_eq nth_append VERSION_def)
  ultimately show "pool_state_encode s \<noteq> replicate n 0" "epoch_state_encode e \<noteq> replicate n 0"
    using marked by blast+
qed

end
