(* ===== verification/Instruction.thy ===== *)
theory Instruction
  imports State
begin

text \<open>
  \<open>kageb-program/src/instruction.rs\<close>: the instruction set, its binary encoding and decoding, and
  the builders that clients use. \<open>KagebInstruction::decode\<close> accepts exactly the encodings.
\<close>

record initialize_pool_args =
  ip_lock_threshold :: u8
  ip_settlement_threshold :: u8
  ip_base_lot_atoms :: u64
  ip_keypers :: keypers

record create_epoch_args =
  ce_epoch_id :: bytes32
  ce_minimum_count :: u32
  ce_quote_atoms_per_lot :: u64
  ce_lock_deadline :: i64
  ce_abort_deadline :: i64

record compact_settlement_payload =
  cs_result_commitment :: bytes32
  cs_residual_side :: u8
  cs_residual_lots :: u32
  cs_settlement_nonce :: bytes32

datatype kageb_instruction =
    InitializePool initialize_pool_args
  | CreateEpoch create_epoch_args
  | Lock lock_payload
  | Settle compact_settlement_payload
  | Expire
  | Abort

definition compact_from :: "settlement_payload \<Rightarrow> compact_settlement_payload" where
  "compact_from p =
     \<lparr> cs_result_commitment = sp_result_commitment p,
       cs_residual_side = sp_residual_side p,
       cs_residual_lots = sp_residual_lots p,
       cs_settlement_nonce = sp_settlement_nonce p \<rparr>"

definition encode_settlement :: "compact_settlement_payload \<Rightarrow> byte list" where
  "encode_settlement p =
     (let out = replicate 70 0;
          out = put 0 [3] out;
          out = put 1 (arr_bytes (cs_result_commitment p)) out;
          out = put 33 [cs_residual_side p] out;
          out = put 34 (to_le_bytes (cs_residual_lots p)) out;
          out = put 38 (arr_bytes (cs_settlement_nonce p)) out
      in out)"

fun instruction_encode :: "kageb_instruction \<Rightarrow> byte list" where
  "instruction_encode (InitializePool args) =
     (let out = replicate 107 0;
          out = put 0 [0] out;
          out = put 1 [ip_lock_threshold args] out;
          out = put 2 [ip_settlement_threshold args] out;
          out = put 3 (to_le_bytes (ip_base_lot_atoms args)) out;
          (out, offset) = put_keys (keyper_list (ip_keypers args)) 11 out
      in out)"
| "instruction_encode (CreateEpoch args) =
     (let out = replicate 61 0;
          out = put 0 [1] out;
          out = put 1 (arr_bytes (ce_epoch_id args)) out;
          out = put 33 (to_le_bytes (ce_minimum_count args)) out;
          out = put 37 (to_le_bytes (ce_quote_atoms_per_lot args)) out;
          out = put 45 (to_le_bytes (ce_lock_deadline args)) out;
          out = put 53 (to_le_bytes (ce_abort_deadline args)) out
      in out)"
| "instruction_encode (Lock payload) = [2] @ lock_payload_encode payload"
| "instruction_encode (Settle payload) = encode_settlement payload"
| "instruction_encode Expire = [4]"
| "instruction_encode Abort = [5]"

definition instruction_decode :: "byte list \<Rightarrow> program_error + kageb_instruction" where
  "instruction_decode data =
     (let invalid = from_kageb InvalidInstruction
      in if data = [] then Inl invalid
      else if data ! 0 = 0 \<and> length data = 107 then
        Inr (InitializePool
          \<lparr> ip_lock_threshold = data ! 1,
            ip_settlement_threshold = data ! 2,
            ip_base_lot_atoms = from_le_bytes (slice 3 11 data),
            ip_keypers = take_keypers data 11 \<rparr>)
      else if data ! 0 = 1 \<and> length data = 61 then
        Inr (CreateEpoch
          \<lparr> ce_epoch_id = arr_of (slice 1 33 data),
            ce_minimum_count = from_le_bytes (slice 33 37 data),
            ce_quote_atoms_per_lot = from_le_bytes (slice 37 45 data),
            ce_lock_deadline = from_le_bytes (slice 45 53 data),
            ce_abort_deadline = from_le_bytes (slice 53 61 data) \<rparr>)
      else if data ! 0 = 2 \<and> length data = 1 + LOCK_PAYLOAD_LEN then
        ok_or (map_option Lock (lock_payload_decode (drop 1 data))) invalid
      else if data ! 0 = 3 \<and> length data = 70 then
        Inr (Settle
          \<lparr> cs_result_commitment = arr_of (slice 1 33 data),
            cs_residual_side = data ! 33,
            cs_residual_lots = from_le_bytes (slice 34 38 data),
            cs_settlement_nonce = arr_of (slice 38 70 data) \<rparr>)
      else if data ! 0 = 4 \<and> length data = 1 then Inr Expire
      else if data ! 0 = 5 \<and> length data = 1 then Inr Abort
      else Inl invalid)"

section \<open>Builders\<close>

text \<open>
  An account meta is the key with its signer and writable flags, as \<open>AccountMeta::new\<close> and
  \<open>AccountMeta::new_readonly\<close> build it.
\<close>

definition meta_new :: "pubkey \<Rightarrow> bool \<Rightarrow> pubkey \<times> bool \<times> bool" where
  "meta_new key is_signer = (key, is_signer, True)"

definition meta_readonly :: "pubkey \<Rightarrow> bool \<Rightarrow> pubkey \<times> bool \<times> bool" where
  "meta_readonly key is_signer = (key, is_signer, False)"

record initialize_pool_accounts =
  ipa_payer :: pubkey
  ipa_operator :: pubkey
  ipa_pool :: pubkey
  ipa_vault_authority :: pubkey
  ipa_base_mint :: pubkey
  ipa_quote_mint :: pubkey
  ipa_pool_base_vault :: pubkey
  ipa_pool_quote_vault :: pubkey
  ipa_venue_authority :: pubkey
  ipa_venue_base_account :: pubkey
  ipa_venue_quote_account :: pubkey

definition initialize_pool_instruction ::
    "runtime \<Rightarrow> initialize_pool_accounts \<Rightarrow> initialize_pool_args \<Rightarrow> instruction" where
  "initialize_pool_instruction rt a args =
     \<lparr> ix_program_id = ID,
       ix_accounts =
         [meta_new (ipa_payer a) True,
          meta_readonly (ipa_operator a) True,
          meta_new (ipa_pool a) False,
          meta_readonly (ipa_vault_authority a) False,
          meta_readonly (ipa_base_mint a) False,
          meta_readonly (ipa_quote_mint a) False,
          meta_readonly (ipa_pool_base_vault a) False,
          meta_readonly (ipa_pool_quote_vault a) False,
          meta_readonly (ipa_venue_authority a) False,
          meta_readonly (ipa_venue_base_account a) False,
          meta_readonly (ipa_venue_quote_account a) False,
          meta_readonly (rt_system_program rt) False,
          meta_readonly TOKEN_PROGRAM_ID False],
       ix_data = instruction_encode (InitializePool args) \<rparr>"

definition create_epoch_instruction ::
    "runtime \<Rightarrow> pubkey \<Rightarrow> pubkey \<Rightarrow> pubkey \<Rightarrow> pubkey \<Rightarrow> create_epoch_args \<Rightarrow> instruction" where
  "create_epoch_instruction rt payer operator pool epoch args =
     \<lparr> ix_program_id = ID,
       ix_accounts =
         [meta_new payer True,
          meta_readonly operator True,
          meta_readonly pool False,
          meta_new epoch False,
          meta_readonly (rt_system_program rt) False,
          meta_readonly (rt_clock_id rt) False],
       ix_data = instruction_encode (CreateEpoch args) \<rparr>"

definition lock_instruction ::
    "runtime \<Rightarrow> pubkey \<Rightarrow> pubkey \<Rightarrow> pubkey \<Rightarrow> lock_payload \<Rightarrow> instruction" where
  "lock_instruction rt payer pool epoch payload =
     \<lparr> ix_program_id = ID,
       ix_accounts =
         [meta_readonly payer True,
          meta_readonly pool False,
          meta_new epoch False,
          meta_readonly (rt_instructions_id rt) False,
          meta_readonly (rt_clock_id rt) False],
       ix_data = instruction_encode (Lock payload) \<rparr>"

record settle_accounts =
  sa_payer :: pubkey
  sa_pool :: pubkey
  sa_epoch :: pubkey
  sa_vault_authority :: pubkey
  sa_pool_base_vault :: pubkey
  sa_pool_quote_vault :: pubkey
  sa_venue_authority :: pubkey
  sa_venue_base_account :: pubkey
  sa_venue_quote_account :: pubkey
  sa_base_mint :: pubkey
  sa_quote_mint :: pubkey

definition settle_instruction ::
    "runtime \<Rightarrow> settle_accounts \<Rightarrow> settlement_payload \<Rightarrow> instruction" where
  "settle_instruction rt a payload =
     \<lparr> ix_program_id = ID,
       ix_accounts =
         [meta_readonly (sa_payer a) True,
          meta_readonly (sa_pool a) False,
          meta_new (sa_epoch a) False,
          meta_readonly (sa_vault_authority a) False,
          meta_new (sa_pool_base_vault a) False,
          meta_new (sa_pool_quote_vault a) False,
          meta_readonly (sa_venue_authority a) True,
          meta_new (sa_venue_base_account a) False,
          meta_new (sa_venue_quote_account a) False,
          meta_readonly (sa_base_mint a) False,
          meta_readonly (sa_quote_mint a) False,
          meta_readonly TOKEN_PROGRAM_ID False,
          meta_readonly (rt_instructions_id rt) False,
          meta_readonly (rt_clock_id rt) False],
       ix_data = instruction_encode (Settle (compact_from payload)) \<rparr>"

definition terminal_instruction ::
    "runtime \<Rightarrow> pubkey \<Rightarrow> pubkey \<Rightarrow> pubkey \<Rightarrow> kageb_instruction \<Rightarrow> instruction" where
  "terminal_instruction rt caller pool epoch i =
     \<lparr> ix_program_id = ID,
       ix_accounts =
         [meta_readonly caller True,
          meta_readonly pool False,
          meta_new epoch False,
          meta_readonly (rt_clock_id rt) False],
       ix_data = instruction_encode i \<rparr>"

definition expire_instruction :: "runtime \<Rightarrow> pubkey \<Rightarrow> pubkey \<Rightarrow> pubkey \<Rightarrow> instruction" where
  "expire_instruction rt caller pool epoch = terminal_instruction rt caller pool epoch Expire"

definition abort_instruction :: "runtime \<Rightarrow> pubkey \<Rightarrow> pubkey \<Rightarrow> pubkey \<Rightarrow> instruction" where
  "abort_instruction rt caller pool epoch = terminal_instruction rt caller pool epoch Abort"

section \<open>Round trips\<close>

lemma instruction_layouts:
  "instruction_encode (InitializePool a) =
     [0] @ [ip_lock_threshold a] @ [ip_settlement_threshold a] @ to_le_bytes (ip_base_lot_atoms a) @
     keypers_bytes (ip_keypers a)"
  "instruction_encode (CreateEpoch c) =
     [1] @ arr_bytes (ce_epoch_id c) @ to_le_bytes (ce_minimum_count c) @
     to_le_bytes (ce_quote_atoms_per_lot c) @ to_le_bytes (ce_lock_deadline c) @
     to_le_bytes (ce_abort_deadline c)"
  "instruction_encode (Settle p) =
     [3] @ arr_bytes (cs_result_commitment p) @ [cs_residual_side p] @
     to_le_bytes (cs_residual_lots p) @ arr_bytes (cs_settlement_nonce p)"
  by (simp_all add: encode_settlement_def Let_def bytes_simps del: put_keys.simps)

declare instruction_encode.simps(1,2,4) [simp del]

lemma take_keypers_0_all [simp]: "take_keypers (keypers_bytes ks) 0 = ks"
  using take_keypers_0 [of ks "[]"] by simp

lemma instruction_decode_encode [simp]: "instruction_decode (instruction_encode i) = Inr i"
proof (cases i)
  case (Lock p)
  then show ?thesis
    using lock_codec.length_enc [of p] lock_codec.dec_enc [of p]
    by (simp add: instruction_decode_def)
qed (simp_all add: instruction_decode_def instruction_layouts bytes_simps nth_append nth_Cons')

lemma instruction_decode_sound:
  assumes "instruction_decode data = Inr i"
  shows "instruction_encode i = data"
proof -
  have lock: "lock_payload_encode p = drop 1 data" if "lock_payload_decode (drop 1 data) = Some p" for p
    using lock_codec.dec_sound [OF that] by simp
  have hd: "data ! 0 # drop 1 data = data" if "data \<noteq> []"
    using that by (cases data) simp_all
  from assms hd show ?thesis
    by (auto simp: instruction_decode_def Let_def instruction_layouts res_simps lock slice_join
        hd_slice slice_all keypers_bytes_take length_Suc_conv split: if_splits)
qed

end
