(* ===== verification/Ed25519.thy ===== *)
theory Ed25519
  imports Instruction
begin

text \<open>
  \<open>kageb-program/src/ed25519.rs\<close>: the strict shape of an Ed25519 verification instruction and the
  count of the distinct configured keypers whose verification instructions precede the current one.
  The native Ed25519 program, which checks the signatures themselves, is not part of the repository.
\<close>

definition VERIFIER_DATA_LEN :: nat where
  "VERIFIER_DATA_LEN = 144"

record strict_ed25519 =
  se_signer :: pubkey
  se_digest :: bytes32

definition read_u16 :: "byte list \<Rightarrow> nat \<Rightarrow> program_error + u16" where
  "read_u16 data offset =
     try_bind (ok_or (get_slice offset (offset + 2) data) (from_kageb InvalidLock)) (\<lambda>bytes.
     Inr (from_le_bytes bytes))"

text \<open>\<open>expect_u16\<close> is one disjunct \<open>read_u16(data, offset)? != value\<close> of the rejecting condition.\<close>

definition expect_u16 :: "byte list \<Rightarrow> nat \<Rightarrow> u16 \<Rightarrow> program_error + unit" where
  "expect_u16 data offset expected =
     try_bind (read_u16 data offset) (\<lambda>v.
     if v \<noteq> expected then Inl (from_kageb InvalidLock) else Inr ())"

definition parse_strict_ed25519 :: "runtime \<Rightarrow> instruction \<Rightarrow> program_error + strict_ed25519" where
  "parse_strict_ed25519 rt ix =
     (let data = ix_data ix
      in if ix_program_id ix \<noteq> rt_ed25519_program rt
            \<or> ix_accounts ix \<noteq> []
            \<or> length data \<noteq> VERIFIER_DATA_LEN
            \<or> data ! 0 \<noteq> 1
            \<or> data ! 1 \<noteq> 0
      then Inl (from_kageb InvalidLock)
      else
      try_bind (expect_u16 data 2 48) (\<lambda>_.
      try_bind (expect_u16 data 4 (- 1)) (\<lambda>_.
      try_bind (expect_u16 data 6 16) (\<lambda>_.
      try_bind (expect_u16 data 8 (- 1)) (\<lambda>_.
      try_bind (expect_u16 data 10 112) (\<lambda>_.
      try_bind (expect_u16 data 12 32) (\<lambda>_.
      try_bind (expect_u16 data 14 (- 1)) (\<lambda>_.
      Inr \<lparr> se_signer = arr_of (slice 16 48 data), se_digest = arr_of (slice 112 144 data) \<rparr>))))))))"

text \<open>The body of the two counting loops, which the source repeats.\<close>

definition note_instruction ::
    "runtime \<Rightarrow> keypers \<Rightarrow> bytes32 \<Rightarrow> bool list \<Rightarrow> instruction \<Rightarrow> bool list" where
  "note_instruction rt keypers digest matched ix =
     (case parse_strict_ed25519 rt ix of
        Inl _ \<Rightarrow> matched
      | Inr parsed \<Rightarrow>
          if se_digest parsed \<noteq> digest then matched
          else case position (\<lambda>keyper. keyper = se_signer parsed) (keyper_list keypers) of
              Some index \<Rightarrow> matched[index := True]
            | None \<Rightarrow> matched)"

definition count_matched :: "bool list \<Rightarrow> u8" where
  "count_matched matched = of_nat (length (filter (\<lambda>v. v) matched))"

definition count_matching_keypers :: "runtime \<Rightarrow> instruction list \<Rightarrow> keypers \<Rightarrow> bytes32 \<Rightarrow> u8" where
  "count_matching_keypers rt instructions keypers digest =
     count_matched (foldl (note_instruction rt keypers digest) (replicate 3 False) instructions)"

fun count_preceding_loop ::
    "runtime \<Rightarrow> account_info \<Rightarrow> keypers \<Rightarrow> bytes32 \<Rightarrow> nat list \<Rightarrow> bool list \<Rightarrow> program_error + bool list"
where
  "count_preceding_loop rt acc keypers digest [] matched = Inr matched"
| "count_preceding_loop rt acc keypers digest (index # rest) matched =
     try_bind (rt_instruction_at rt index acc) (\<lambda>ix.
     count_preceding_loop rt acc keypers digest rest (note_instruction rt keypers digest matched ix))"

definition count_preceding_keypers ::
    "runtime \<Rightarrow> account_info \<Rightarrow> keypers \<Rightarrow> bytes32 \<Rightarrow> program_error + u8" where
  "count_preceding_keypers rt instructions_account keypers digest =
     try_bind (rt_current_index rt instructions_account) (\<lambda>current_index.
     try_bind (count_preceding_loop rt instructions_account keypers digest [0..<unat current_index]
       (replicate 3 False)) (\<lambda>matched.
     Inr (count_matched matched)))"

section \<open>What the counters count\<close>

text \<open>\<open>signed_by\<close>: some instruction of the list is a strict verification of \<open>k\<close> over \<open>digest\<close>.\<close>

definition signed_by :: "runtime \<Rightarrow> instruction list \<Rightarrow> bytes32 \<Rightarrow> pubkey \<Rightarrow> bool" where
  "signed_by rt instructions digest k \<longleftrightarrow>
     (\<exists>ix \<in> set instructions.
        parse_strict_ed25519 rt ix = Inr \<lparr>se_signer = k, se_digest = digest\<rparr>)"

lemma length_note_instruction [simp]:
  "length (note_instruction rt ks d matched ix) = length matched"
  by (simp add: note_instruction_def split: sum.splits option.splits)

lemma note_instruction_nth:
  assumes "distinct (keyper_list ks)" "i < 3" "length matched = 3"
  shows "note_instruction rt ks d matched ix ! i \<longleftrightarrow>
    matched ! i \<or> parse_strict_ed25519 rt ix = Inr \<lparr>se_signer = keyper_list ks ! i, se_digest = d\<rparr>"
proof (cases "\<exists>k. parse_strict_ed25519 rt ix = Inr \<lparr>se_signer = k, se_digest = d\<rparr>")
  case True
  then obtain k where k: "parse_strict_ed25519 rt ix = Inr \<lparr>se_signer = k, se_digest = d\<rparr>" ..
  have at: "position (\<lambda>x. x = k) (keyper_list ks) = Some j \<longleftrightarrow> j < 3 \<and> keyper_list ks ! j = k" for j
    using position_Some [OF assms(1)] by simp
  show ?thesis
  proof (cases "position (\<lambda>x. x = k) (keyper_list ks)")
    case None
    with at [of i] assms(2) k show ?thesis by (simp add: note_instruction_def)
  next
    case (Some j)
    with at [of j] have j: "j < 3" "keyper_list ks ! j = k" by simp_all
    with assms have "keyper_list ks ! i = k \<longleftrightarrow> i = j"
      using nth_eq_iff_index_eq [OF assms(1), of i j] by simp
    with k Some j assms show ?thesis by (auto simp: note_instruction_def nth_list_update)
  qed
next
  case False
  then have "note_instruction rt ks d matched ix = matched"
    by (auto simp: note_instruction_def split: sum.splits)
      (metis strict_ed25519.surjective old.unit.exhaust)
  with False show ?thesis by simp
qed

lemma note_instructions_nth:
  assumes "distinct (keyper_list ks)" "i < 3" "length matched = 3"
  shows "foldl (note_instruction rt ks d) matched ixs ! i \<longleftrightarrow>
    matched ! i \<or> signed_by rt ixs d (keyper_list ks ! i)"
  using assms(3)
proof (induction ixs arbitrary: matched)
  case (Cons ix ixs)
  then show ?case
    using note_instruction_nth [OF assms(1,2) Cons.prems] by (auto simp: signed_by_def)
qed (simp add: signed_by_def)

lemma length_note_instructions [simp]:
  "length (foldl (note_instruction rt ks d) matched ixs) = length matched"
  by (induction ixs arbitrary: matched) simp_all

lemma count_matched_three:
  assumes "length matched = 3"
  shows "unat (count_matched matched) = card {i. i < 3 \<and> matched ! i}"
proof -
  have "length (filter (\<lambda>v. v) matched) \<le> 3"
    using length_filter_le [of "\<lambda>v. v" matched] assms by simp
  then show ?thesis
    using assms by (simp add: count_matched_def unat_of_nat length_filter_conv_card)
qed

lemma count_matching_card:
  assumes "distinct (keyper_list ks)"
  shows "unat (count_matching_keypers rt ixs ks d) =
    card {k \<in> set (keyper_list ks). signed_by rt ixs d k}"
proof -
  have "unat (count_matching_keypers rt ixs ks d) =
      card {i. i < 3 \<and> signed_by rt ixs d (keyper_list ks ! i)}"
    using note_instructions_nth [OF assms]
    by (simp add: count_matching_keypers_def count_matched_three cong: conj_cong)
  also have "\<dots> = card ((\<lambda>i. keyper_list ks ! i) ` {i. i < 3 \<and> signed_by rt ixs d (keyper_list ks ! i)})"
    using assms by (intro card_image [symmetric]) (auto simp: inj_on_def nth_eq_iff_index_eq)
  also have "(\<lambda>i. keyper_list ks ! i) ` {i. i < 3 \<and> signed_by rt ixs d (keyper_list ks ! i)} =
      {k \<in> set (keyper_list ks). signed_by rt ixs d k}"
    by (auto simp: in_set_conv_nth)
  finally show ?thesis .
qed

text \<open>
  \<open>preceding rt acc ixs\<close>: the instructions sysvar gives the instructions before the current
  one as the list \<open>ixs\<close>.
\<close>

definition preceding :: "runtime \<Rightarrow> account_info \<Rightarrow> instruction list \<Rightarrow> bool" where
  "preceding rt acc ixs \<longleftrightarrow>
     rt_current_index rt acc = Inr (of_nat (length ixs)) \<and> length ixs < 2 ^ 16 \<and>
     (\<forall>i < length ixs. rt_instruction_at rt i acc = Inr (ixs ! i))"

lemma count_preceding_loop_eq:
  "list_all2 (\<lambda>i ix. rt_instruction_at rt i acc = Inr ix) is ixs \<Longrightarrow>
     count_preceding_loop rt acc ks d is matched = Inr (foldl (note_instruction rt ks d) matched ixs)"
  by (induction "is" ixs arbitrary: matched rule: list_all2_induct) simp_all

lemma count_preceding_loop_Inr:
  "count_preceding_loop rt acc ks d is matched = Inr m \<Longrightarrow>
     \<exists>ixs. list_all2 (\<lambda>i ix. rt_instruction_at rt i acc = Inr ix) is ixs"
proof (induction "is" arbitrary: matched)
  case Nil
  then show ?case by (intro exI [of _ "[]"]) simp
next
  case (Cons i "is")
  then obtain ix where "rt_instruction_at rt i acc = Inr ix"
    and "count_preceding_loop rt acc ks d is (note_instruction rt ks d matched ix) = Inr m"
    by (auto simp: res_simps)
  with Cons.IH show ?case by (auto simp: list_all2_Cons1)
qed

lemma count_preceding_eq:
  "preceding rt acc ixs \<Longrightarrow>
     count_preceding_keypers rt acc ks d = Inr (count_matching_keypers rt ixs ks d)"
  using count_preceding_loop_eq [of rt acc "[0..<length ixs]" ixs]
  by (simp add: preceding_def count_preceding_keypers_def count_matching_keypers_def
      list_all2_conv_all_nth unat_of_nat)

lemma count_preceding_Inr:
  assumes "count_preceding_keypers rt acc ks d = Inr n"
  obtains ixs where "preceding rt acc ixs" and "n = count_matching_keypers rt ixs ks d"
proof -
  from assms obtain cur m where cur: "rt_current_index rt acc = Inr cur"
    and m: "count_preceding_loop rt acc ks d [0..<unat cur] (replicate 3 False) = Inr m"
    by (auto simp: count_preceding_keypers_def res_simps)
  from count_preceding_loop_Inr [OF m] obtain ixs where
    ixs: "list_all2 (\<lambda>i ix. rt_instruction_at rt i acc = Inr ix) [0..<unat cur] ixs" by blast
  then have len: "length ixs = unat cur" by (auto dest: list_all2_lengthD)
  have "unat cur < 2 ^ LENGTH(16)" by (rule unsigned_less)
  with ixs cur have p: "preceding rt acc ixs"
    by (simp add: preceding_def list_all2_conv_all_nth len)
  show ?thesis
    by (rule that [OF p]) (use assms count_preceding_eq [OF p] in simp)
qed

text \<open>
  The one shape that parses: a single signature, every offset pointing into the instruction itself,
  the key at 16, the signature at 48 and the 32-byte message at 112.
\<close>

definition strict_instruction :: "runtime \<Rightarrow> pubkey \<Rightarrow> bytes64 \<Rightarrow> bytes32 \<Rightarrow> instruction" where
  "strict_instruction rt signer signature digest =
     \<lparr> ix_program_id = rt_ed25519_program rt,
       ix_accounts = [],
       ix_data = [1, 0] @ to_le_bytes (48 :: u16) @ to_le_bytes (- 1 :: u16) @ to_le_bytes (16 :: u16) @
         to_le_bytes (- 1 :: u16) @ to_le_bytes (112 :: u16) @ to_le_bytes (32 :: u16) @
         to_le_bytes (- 1 :: u16) @ arr_bytes signer @ arr_bytes signature @ arr_bytes digest \<rparr>"

lemma parse_strict_instruction [simp]:
  "parse_strict_ed25519 rt (strict_instruction rt signer signature digest) =
     Inr \<lparr>se_signer = signer, se_digest = digest\<rparr>"
  by (simp add: parse_strict_ed25519_def strict_instruction_def VERIFIER_DATA_LEN_def expect_u16_def
      read_u16_def get_slice_def bytes_simps)

lemma expect_u16_Inr: "offset + 2 \<le> length data \<Longrightarrow>
    expect_u16 data offset v = Inr u \<longleftrightarrow> slice offset (offset + 2) data = to_le_bytes v"
  using le_unround(1) [of "slice offset (offset + 2) data"]
  by (auto simp: expect_u16_def read_u16_def get_slice_def res_simps)

lemma parse_strict_shape:
  assumes "parse_strict_ed25519 rt ix = Inr parsed"
  shows "\<exists>signature. ix = strict_instruction rt (se_signer parsed) signature (se_digest parsed)"
proof -
  let ?d = "ix_data ix"
  from assms have hd: "ix_program_id ix = rt_ed25519_program rt" "ix_accounts ix = []"
      "length ?d = 144" "?d ! 0 = 1" "?d ! 1 = 0"
    and parsed: "parsed = \<lparr> se_signer = arr_of (slice 16 48 ?d), se_digest = arr_of (slice 112 144 ?d) \<rparr>"
    and off: "slice 2 4 ?d = to_le_bytes (48::u16)" "slice 4 6 ?d = to_le_bytes (- 1::u16)"
      "slice 6 8 ?d = to_le_bytes (16::u16)" "slice 8 10 ?d = to_le_bytes (- 1::u16)"
      "slice 10 12 ?d = to_le_bytes (112::u16)" "slice 12 14 ?d = to_le_bytes (32::u16)"
      "slice 14 16 ?d = to_le_bytes (- 1::u16)"
    by (auto simp: parse_strict_ed25519_def Let_def VERIFIER_DATA_LEN_def res_simps expect_u16_Inr)
  have arr: "arr_bytes (arr_of (slice 16 48 ?d) :: bytes32) = slice 16 48 ?d"
      "arr_bytes (arr_of (slice 48 112 ?d) :: bytes64) = slice 48 112 ?d"
      "arr_bytes (arr_of (slice 112 144 ?d) :: bytes32) = slice 112 144 ?d"
    using hd(3) by simp_all
  have "?d = [?d ! 0, ?d ! 1] @ slice 2 4 ?d @ slice 4 6 ?d @ slice 6 8 ?d @ slice 8 10 ?d @
      slice 10 12 ?d @ slice 12 14 ?d @ slice 14 16 ?d @ slice 16 48 ?d @ slice 48 112 ?d @ slice 112 144 ?d"
    using hd(3) by (simp add: slice_join slice_all)
  then have "?d = ix_data (strict_instruction rt (se_signer parsed) (arr_of (slice 48 112 ?d)) (se_digest parsed))"
    unfolding hd(4,5) off parsed by (simp add: strict_instruction_def arr)
  with hd show ?thesis
    by (intro exI [of _ "arr_of (slice 48 112 ?d)"]) (cases ix, simp add: strict_instruction_def)
qed

end
