(* ===== verification/Processor.thy ===== *)
theory Processor
  imports Ed25519
begin

text \<open>
  \<open>kageb-program/src/processor.rs\<close>: the six instruction handlers. The accounts of an instruction
  are a list; a handler returns the error or the list with the changes it made (a failed
  instruction changes nothing, since the runtime discards the transaction). Accounts are passed
  between the helpers by their position in that list. Guards are in the order of the source.
\<close>

section \<open>Account checks\<close>

definition require_account_flags ::
    "account_info \<Rightarrow> bool \<Rightarrow> bool \<Rightarrow> bool \<Rightarrow> program_error + unit" where
  "require_account_flags account is_signer is_writable is_executable =
     (if ai_is_signer account \<noteq> is_signer then
        (if is_signer then Inl (from_kageb MissingSignature) else Inl (from_kageb InvalidAccounts))
      else if ai_is_writable account \<noteq> is_writable \<or> ai_executable account \<noteq> is_executable then
        Inl (from_kageb InvalidAccounts)
      else Inr ())"

definition require_program_account :: "account_info \<Rightarrow> pubkey \<Rightarrow> program_error + unit" where
  "require_program_account account program_id =
     (if ai_owner account \<noteq> program_id \<or> length (ai_data account) \<noteq> STATE_LEN
         \<or> ai_executable account
      then Inl (from_kageb InvalidOwner)
      else Inr ())"

fun require_distinct_loop :: "account_info list \<Rightarrow> account_info list \<Rightarrow> program_error + unit" where
  "require_distinct_loop previous [] = Inr ()"
| "require_distinct_loop previous (account # rest) =
     (if list_ex (\<lambda>p. ai_key p = ai_key account) previous then Inl (from_kageb InvalidAccounts)
      else require_distinct_loop (previous @ [account]) rest)"

definition require_distinct :: "account_info list \<Rightarrow> program_error + unit" where
  "require_distinct accounts = require_distinct_loop [] accounts"

fun three_distinct :: "keypers \<Rightarrow> bool" where
  "three_distinct (a, b, c) \<longleftrightarrow> a \<noteq> b \<and> a \<noteq> c \<and> b \<noteq> c"

definition validate_mint :: "account_info \<Rightarrow> program_error + unit" where
  "validate_mint account =
     (let data = ai_data account
      in if ai_owner account \<noteq> TOKEN_PROGRAM_ID
            \<or> ai_executable account
            \<or> length data \<noteq> 82
            \<or> data ! 44 \<noteq> 0
            \<or> data ! 45 \<noteq> 1
      then Inl (from_kageb InvalidTokenAccount)
      else Inr ())"

definition validate_token_account :: "account_info \<Rightarrow> pubkey \<Rightarrow> pubkey \<Rightarrow> program_error + unit" where
  "validate_token_account account expected_mint expected_authority =
     (let data = ai_data account
      in if ai_owner account \<noteq> TOKEN_PROGRAM_ID
            \<or> ai_executable account
            \<or> length data \<noteq> 165
            \<or> slice 0 32 data \<noteq> arr_bytes expected_mint
            \<or> slice 32 64 data \<noteq> arr_bytes expected_authority
            \<or> data ! 108 \<noteq> 1
      then Inl (from_kageb InvalidTokenAccount)
      else Inr ())"

definition validate_pool_state :: "runtime \<Rightarrow> account_info \<Rightarrow> pool_state \<Rightarrow> program_error + unit" where
  "validate_pool_state rt account state =
     (let (expected_pool, canonical_pool_bump) =
            pool_address rt (ps_operator state) (ps_base_mint state) (ps_quote_mint state);
          (_, canonical_vault_bump) = vault_authority_address rt (ai_key account)
      in if expected_pool \<noteq> ai_key account
            \<or> ps_pool_bump state \<noteq> canonical_pool_bump
            \<or> ps_vault_bump state \<noteq> canonical_vault_bump
      then Inl (from_kageb InvalidPda)
      else if ps_lock_threshold state \<noteq> 2
            \<or> ps_settlement_threshold state \<noteq> 2
            \<or> ps_base_lot_atoms state = 0
            \<or> ps_base_mint state = ps_quote_mint state
            \<or> list_ex (\<lambda>key. key = 0) (keyper_list (ps_keypers state))
            \<or> \<not> three_distinct (ps_keypers state)
      then Inl (from_kageb InvalidState)
      else Inr ())"

definition expected_configuration :: "pubkey \<Rightarrow> epoch_state \<Rightarrow> pool_state \<Rightarrow> epoch_configuration" where
  "expected_configuration pool state pool_state =
     \<lparr> ec_pool = pool,
       ec_epoch_id = es_epoch_id state,
       ec_base_mint = ps_base_mint pool_state,
       ec_quote_mint = ps_quote_mint pool_state,
       ec_base_lot_atoms = ps_base_lot_atoms pool_state,
       ec_quote_atoms_per_lot = es_quote_atoms_per_lot state,
       ec_minimum_count = es_minimum_count state,
       ec_lock_threshold = ps_lock_threshold pool_state,
       ec_settlement_threshold = ps_settlement_threshold pool_state,
       ec_keypers = ps_keypers pool_state,
       ec_lock_deadline = es_lock_deadline state,
       ec_abort_deadline = es_abort_deadline state \<rparr>"

definition validate_epoch_state ::
    "runtime \<Rightarrow> account_info \<Rightarrow> epoch_state \<Rightarrow> account_info \<Rightarrow> pool_state \<Rightarrow> program_error + unit" where
  "validate_epoch_state rt account state pool pool_state =
     (if es_pool state \<noteq> ai_key pool then Inl (from_kageb InvalidState)
      else let (expected_epoch, canonical_bump) = epoch_address rt (ai_key pool) (es_epoch_id state)
      in if expected_epoch \<noteq> ai_key account \<or> es_epoch_bump state \<noteq> canonical_bump
      then Inl (from_kageb InvalidPda)
      else if es_minimum_count state < 4
            \<or> es_base_lot_atoms state \<noteq> ps_base_lot_atoms pool_state
            \<or> es_quote_atoms_per_lot state = 0
            \<or> es_abort_deadline state \<le>s es_lock_deadline state
      then Inl (from_kageb InvalidState)
      else if es_configuration_hash state \<noteq>
            configuration_digest (rt_sha256 rt) (expected_configuration (ai_key pool) state pool_state)
      then Inl (from_kageb InvalidState)
      else Inr ())"

section \<open>Effects\<close>

text \<open>
  A cross-program invocation receives the accounts at the given positions and may change those
  only; a write of account data panics when the lengths differ.
\<close>

definition write_back :: "nat list \<Rightarrow> account_info list \<Rightarrow> account_info list \<Rightarrow> account_info list" where
  "write_back is infos accounts = fold (\<lambda>(i, a) accs. accs[i := a]) (zip is infos) accounts"

definition invoke_signed ::
    "runtime \<Rightarrow> cpi \<Rightarrow> nat list \<Rightarrow> seeds list \<Rightarrow> account_info list \<Rightarrow> program_error + account_info list"
where
  "invoke_signed rt ix is signer_seeds accounts =
     try_bind (rt_invoke_signed rt ix (map (\<lambda>i. accounts ! i) is) signer_seeds) (\<lambda>infos.
     Inr (write_back is infos accounts))"

definition invoke ::
    "runtime \<Rightarrow> cpi \<Rightarrow> nat list \<Rightarrow> account_info list \<Rightarrow> program_error + account_info list" where
  "invoke rt ix is accounts = invoke_signed rt ix is [] accounts"

definition write_data :: "nat \<Rightarrow> byte list \<Rightarrow> account_info list \<Rightarrow> program_error + account_info list" where
  "write_data i bytes accounts =
     (if length (ai_data (accounts ! i)) \<noteq> length bytes then Inl Aborted
      else Inr (accounts[i := (accounts ! i)\<lparr>ai_data := bytes\<rparr>]))"

definition initialize_pda_account ::
    "runtime \<Rightarrow> nat \<Rightarrow> nat \<Rightarrow> nat \<Rightarrow> pubkey \<Rightarrow> seeds list \<Rightarrow> account_info list \<Rightarrow>
     program_error + account_info list" where
  "initialize_pda_account rt payer pda system_program program_id signer_seeds accounts =
     (let key = ai_key (accounts ! pda)
      in if ai_owner (accounts ! pda) \<noteq> rt_system_program rt
            \<or> length (ai_data (accounts ! pda)) \<noteq> 0
            \<or> ai_executable (accounts ! pda)
      then Inl (from_kageb InvalidState)
      else
      try_bind (if STATE_LEN < 2 ^ 64 then Inr (of_nat STATE_LEN)
                else Inl (from_kageb ArithmeticOverflow)) (\<lambda>space.
      try_bind (rt_minimum_balance rt STATE_LEN) (\<lambda>required_lamports.
      let existing_lamports = ai_lamports (accounts ! pda) in
      try_bind
        (if existing_lamports < required_lamports then
           try_bind (ok_or (checked_sub required_lamports existing_lamports)
               (from_kageb ArithmeticOverflow)) (\<lambda>deficit.
           invoke rt (System_transfer (ai_key (accounts ! payer)) key deficit)
             [payer, pda, system_program] accounts)
         else Inr accounts) (\<lambda>accounts.
      try_bind (invoke_signed rt (System_allocate key space) [pda, system_program]
          signer_seeds accounts) (\<lambda>accounts.
      try_bind (invoke_signed rt (System_assign key program_id) [pda, system_program]
          signer_seeds accounts) (\<lambda>accounts.
      if ai_owner (accounts ! pda) \<noteq> program_id \<or> length (ai_data (accounts ! pda)) \<noteq> STATE_LEN
      then Inl (from_kageb InvalidState)
      else Inr accounts))))))"

definition transfer_checked ::
    "runtime \<Rightarrow> nat \<Rightarrow> nat \<Rightarrow> nat \<Rightarrow> nat \<Rightarrow> nat \<Rightarrow> u64 \<Rightarrow> seeds option \<Rightarrow> account_info list \<Rightarrow>
     program_error + account_info list" where
  "transfer_checked rt source mint destination authority token_program amount signer_seeds accounts =
     (let ix = Transfer_checked (ai_key (accounts ! token_program)) (ai_key (accounts ! source))
            (ai_key (accounts ! mint)) (ai_key (accounts ! destination))
            (ai_key (accounts ! authority)) [] amount 0;
          account_infos = [source, mint, destination, authority, token_program]
      in case signer_seeds of
           Some seeds \<Rightarrow> invoke_signed rt ix account_infos [seeds] accounts
         | None \<Rightarrow> invoke rt ix account_infos accounts)"

section \<open>Handlers\<close>

definition initialize_pool ::
    "runtime \<Rightarrow> pubkey \<Rightarrow> account_info list \<Rightarrow> initialize_pool_args \<Rightarrow>
     program_error + account_info list" where
  "initialize_pool rt program_id accounts args =
     (if length accounts \<noteq> 13 then Inl (from_kageb InvalidAccounts)
      else let
        payer = accounts ! 0;
        operator = accounts ! 1;
        pool = accounts ! 2;
        vault_authority = accounts ! 3;
        base_mint = accounts ! 4;
        quote_mint = accounts ! 5;
        pool_base_vault = accounts ! 6;
        pool_quote_vault = accounts ! 7;
        venue_authority = accounts ! 8;
        venue_base_account = accounts ! 9;
        venue_quote_account = accounts ! 10;
        system_program = accounts ! 11;
        token_program = accounts ! 12
      in
      try_bind (require_account_flags payer True True False) (\<lambda>_.
      try_bind (require_account_flags operator True False False) (\<lambda>_.
      try_bind (require_account_flags pool False True False) (\<lambda>_.
      try_bind (try_all (\<lambda>account. require_account_flags account False False False)
        [vault_authority, base_mint, quote_mint, pool_base_vault, pool_quote_vault,
         venue_authority, venue_base_account, venue_quote_account]) (\<lambda>_.
      try_bind (require_account_flags system_program False False True) (\<lambda>_.
      try_bind (require_account_flags token_program False False True) (\<lambda>_.
      try_bind (require_distinct accounts) (\<lambda>_.
      if ai_key system_program \<noteq> rt_system_program rt
         \<or> \<not> ai_executable system_program
         \<or> ai_key token_program \<noteq> TOKEN_PROGRAM_ID
         \<or> \<not> ai_executable token_program
      then Inl (from_kageb InvalidAccounts)
      else if ip_lock_threshold args \<noteq> 2
         \<or> ip_settlement_threshold args \<noteq> 2
         \<or> ip_base_lot_atoms args = 0
         \<or> list_ex (\<lambda>key. key = 0) (keyper_list (ip_keypers args))
         \<or> \<not> three_distinct (ip_keypers args)
         \<or> ai_key base_mint = ai_key quote_mint
      then Inl (from_kageb InvalidConfiguration)
      else let
        (expected_pool, pool_bump) =
          pool_address rt (ai_key operator) (ai_key base_mint) (ai_key quote_mint);
        (expected_vault_authority, vault_bump) = vault_authority_address rt (ai_key pool)
      in
      if ai_key pool \<noteq> expected_pool \<or> ai_key vault_authority \<noteq> expected_vault_authority
      then Inl (from_kageb InvalidPda)
      else
      try_bind (validate_mint base_mint) (\<lambda>_.
      try_bind (validate_mint quote_mint) (\<lambda>_.
      try_bind (validate_token_account pool_base_vault (ai_key base_mint) (ai_key vault_authority)) (\<lambda>_.
      try_bind (validate_token_account pool_quote_vault (ai_key quote_mint) (ai_key vault_authority)) (\<lambda>_.
      try_bind (validate_token_account venue_base_account (ai_key base_mint) (ai_key venue_authority)) (\<lambda>_.
      try_bind (validate_token_account venue_quote_account (ai_key quote_mint) (ai_key venue_authority)) (\<lambda>_.
      try_bind (initialize_pda_account rt 0 2 11 program_id
        [pool_seeds (ai_key operator) (ai_key base_mint) (ai_key quote_mint) @ [[pool_bump]]]
        accounts) (\<lambda>accounts.
      write_data 2 (pool_state_encode
        \<lparr> ps_pool_bump = pool_bump,
          ps_vault_bump = vault_bump,
          ps_lock_threshold = ip_lock_threshold args,
          ps_settlement_threshold = ip_settlement_threshold args,
          ps_operator = ai_key operator,
          ps_base_mint = ai_key base_mint,
          ps_quote_mint = ai_key quote_mint,
          ps_pool_base_vault = ai_key pool_base_vault,
          ps_pool_quote_vault = ai_key pool_quote_vault,
          ps_venue_authority = ai_key venue_authority,
          ps_venue_base_account = ai_key venue_base_account,
          ps_venue_quote_account = ai_key venue_quote_account,
          ps_keypers = ip_keypers args,
          ps_base_lot_atoms = ip_base_lot_atoms args \<rparr>) accounts)))))))))))))))"

definition create_epoch ::
    "runtime \<Rightarrow> pubkey \<Rightarrow> account_info list \<Rightarrow> create_epoch_args \<Rightarrow>
     program_error + account_info list" where
  "create_epoch rt program_id accounts args =
     (if length accounts \<noteq> 6 then Inl (from_kageb InvalidAccounts)
      else let
        payer = accounts ! 0;
        operator = accounts ! 1;
        pool = accounts ! 2;
        epoch = accounts ! 3;
        system_program = accounts ! 4;
        clock_account = accounts ! 5
      in
      try_bind (require_account_flags payer True True False) (\<lambda>_.
      try_bind (require_account_flags operator True False False) (\<lambda>_.
      try_bind (require_account_flags pool False False False) (\<lambda>_.
      try_bind (require_account_flags epoch False True False) (\<lambda>_.
      try_bind (require_account_flags system_program False False True) (\<lambda>_.
      try_bind (require_account_flags clock_account False False False) (\<lambda>_.
      try_bind (require_distinct accounts) (\<lambda>_.
      try_bind (require_program_account pool program_id) (\<lambda>_.
      if ai_key system_program \<noteq> rt_system_program rt
         \<or> \<not> ai_executable system_program
         \<or> ai_key clock_account \<noteq> rt_clock_id rt
      then Inl (from_kageb InvalidAccounts)
      else
      try_bind (pool_state_decode (ai_data pool)) (\<lambda>pool_state.
      try_bind (validate_pool_state rt pool pool_state) (\<lambda>_.
      if ps_operator pool_state \<noteq> ai_key operator then Inl (from_kageb InvalidConfiguration)
      else
      try_bind (rt_clock_unix_timestamp rt clock_account) (\<lambda>unix_timestamp.
      if ce_minimum_count args < 4
         \<or> ce_quote_atoms_per_lot args = 0
         \<or> ce_lock_deadline args \<le>s unix_timestamp
         \<or> ce_abort_deadline args \<le>s ce_lock_deadline args
      then Inl (from_kageb InvalidConfiguration)
      else let
        (expected_epoch, epoch_bump) = epoch_address rt (ai_key pool) (ce_epoch_id args)
      in
      if ai_key epoch \<noteq> expected_epoch then Inl (from_kageb InvalidPda)
      else
      try_bind (initialize_pda_account rt 0 3 4 program_id
        [epoch_seeds (ai_key pool) (ce_epoch_id args) @ [[epoch_bump]]] accounts) (\<lambda>accounts.
      let configuration_hash = configuration_digest (rt_sha256 rt)
        \<lparr> ec_pool = ai_key pool,
          ec_epoch_id = ce_epoch_id args,
          ec_base_mint = ps_base_mint pool_state,
          ec_quote_mint = ps_quote_mint pool_state,
          ec_base_lot_atoms = ps_base_lot_atoms pool_state,
          ec_quote_atoms_per_lot = ce_quote_atoms_per_lot args,
          ec_minimum_count = ce_minimum_count args,
          ec_lock_threshold = ps_lock_threshold pool_state,
          ec_settlement_threshold = ps_settlement_threshold pool_state,
          ec_keypers = ps_keypers pool_state,
          ec_lock_deadline = ce_lock_deadline args,
          ec_abort_deadline = ce_abort_deadline args \<rparr>
      in
      write_data 3 (epoch_state_encode
        \<lparr> es_epoch_bump = epoch_bump,
          es_terminal_state = Open,
          es_residual_side = 0,
          es_pool = ai_key pool,
          es_epoch_id = ce_epoch_id args,
          es_configuration_hash = configuration_hash,
          es_pre_balance_root = 0,
          es_member_root = 0,
          es_lock_digest = 0,
          es_result_commitment = 0,
          es_settlement_digest = 0,
          es_lock_nonce = 0,
          es_settlement_nonce = 0,
          es_member_count = 0,
          es_minimum_count = ce_minimum_count args,
          es_residual_lots = 0,
          es_base_lot_atoms = ps_base_lot_atoms pool_state,
          es_quote_atoms_per_lot = ce_quote_atoms_per_lot args,
          es_lock_deadline = ce_lock_deadline args,
          es_abort_deadline = ce_abort_deadline args \<rparr>) accounts)))))))))))))"

definition lock ::
    "runtime \<Rightarrow> pubkey \<Rightarrow> account_info list \<Rightarrow> lock_payload \<Rightarrow> program_error + account_info list" where
  "lock rt program_id accounts payload =
     (if length accounts \<noteq> 5 then Inl (from_kageb InvalidAccounts)
      else let
        payer = accounts ! 0;
        pool = accounts ! 1;
        epoch = accounts ! 2;
        instructions_account = accounts ! 3;
        clock_account = accounts ! 4
      in
      try_bind (require_account_flags payer True False False) (\<lambda>_.
      try_bind (require_account_flags pool False False False) (\<lambda>_.
      try_bind (require_account_flags epoch False True False) (\<lambda>_.
      try_bind (require_account_flags instructions_account False False False) (\<lambda>_.
      try_bind (require_account_flags clock_account False False False) (\<lambda>_.
      try_bind (require_distinct accounts) (\<lambda>_.
      try_bind (require_program_account pool program_id) (\<lambda>_.
      try_bind (require_program_account epoch program_id) (\<lambda>_.
      if ai_key instructions_account \<noteq> rt_instructions_id rt
         \<or> ai_key clock_account \<noteq> rt_clock_id rt
      then Inl (from_kageb InvalidAccounts)
      else
      try_bind (pool_state_decode (ai_data pool)) (\<lambda>pool_state.
      try_bind (validate_pool_state rt pool pool_state) (\<lambda>_.
      try_bind (epoch_state_decode (ai_data epoch)) (\<lambda>epoch_state.
      try_bind (validate_epoch_state rt epoch epoch_state pool pool_state) (\<lambda>_.
      if es_terminal_state epoch_state \<noteq> Open then Inl (from_kageb InvalidState)
      else
      try_bind (rt_clock_unix_timestamp rt clock_account) (\<lambda>unix_timestamp.
      if es_lock_deadline epoch_state \<le>s unix_timestamp then Inl (from_kageb DeadlinePassed)
      else if lp_epoch_account payload \<noteq> ai_key epoch
         \<or> lp_configuration_hash payload \<noteq> es_configuration_hash epoch_state
         \<or> lp_lock_deadline payload \<noteq> es_lock_deadline epoch_state
         \<or> lp_lock_nonce payload = 0
         \<or> lp_pre_balance_root payload = 0
         \<or> lp_member_root payload = 0
      then Inl (from_kageb InvalidLock)
      else if lp_member_count payload < es_minimum_count epoch_state
      then Inl (from_kageb CrowdBelowMinimum)
      else let
        digest = lock_payload_digest (rt_sha256 rt) payload
      in
      try_bind (count_preceding_keypers rt instructions_account (ps_keypers pool_state) digest) (\<lambda>count.
      if count < ps_lock_threshold pool_state then Inl (from_kageb InsufficientQuorum)
      else
      write_data 2 (epoch_state_encode
        (epoch_state\<lparr> es_terminal_state := Locked,
           es_pre_balance_root := lp_pre_balance_root payload,
           es_member_root := lp_member_root payload,
           es_member_count := lp_member_count payload,
           es_lock_digest := digest,
           es_lock_nonce := lp_lock_nonce payload \<rparr>)) accounts)))))))))))))))"

definition valid_residual :: "u8 \<Rightarrow> u32 \<Rightarrow> bool" where
  "valid_residual side lots \<longleftrightarrow> side = 0 \<and> lots = 0 \<or> (side = 1 \<or> side = 2) \<and> 1 \<le> lots"

definition settle ::
    "runtime \<Rightarrow> pubkey \<Rightarrow> account_info list \<Rightarrow> settlement_payload \<Rightarrow>
     program_error + account_info list" where
  "settle rt program_id accounts payload =
     (if length accounts \<noteq> 14 then Inl (from_kageb InvalidAccounts)
      else let
        payer = accounts ! 0;
        pool = accounts ! 1;
        epoch = accounts ! 2;
        vault_authority = accounts ! 3;
        pool_base_vault = accounts ! 4;
        pool_quote_vault = accounts ! 5;
        venue_authority = accounts ! 6;
        venue_base_account = accounts ! 7;
        venue_quote_account = accounts ! 8;
        base_mint = accounts ! 9;
        quote_mint = accounts ! 10;
        token_program = accounts ! 11;
        instructions_account = accounts ! 12;
        clock_account = accounts ! 13
      in
      try_bind (require_account_flags payer True False False) (\<lambda>_.
      try_bind (require_account_flags pool False False False) (\<lambda>_.
      try_bind (require_account_flags epoch False True False) (\<lambda>_.
      try_bind (require_account_flags vault_authority False False False) (\<lambda>_.
      try_bind (try_all (\<lambda>account. require_account_flags account False True False)
        [pool_base_vault, pool_quote_vault, venue_base_account, venue_quote_account]) (\<lambda>_.
      try_bind (require_account_flags venue_authority True False False) (\<lambda>_.
      try_bind (require_account_flags base_mint False False False) (\<lambda>_.
      try_bind (require_account_flags quote_mint False False False) (\<lambda>_.
      try_bind (require_account_flags token_program False False True) (\<lambda>_.
      try_bind (require_account_flags instructions_account False False False) (\<lambda>_.
      try_bind (require_account_flags clock_account False False False) (\<lambda>_.
      try_bind (require_distinct accounts) (\<lambda>_.
      try_bind (require_program_account pool program_id) (\<lambda>_.
      try_bind (require_program_account epoch program_id) (\<lambda>_.
      if ai_key token_program \<noteq> TOKEN_PROGRAM_ID
         \<or> \<not> ai_executable token_program
         \<or> ai_key instructions_account \<noteq> rt_instructions_id rt
         \<or> ai_key clock_account \<noteq> rt_clock_id rt
      then Inl (from_kageb InvalidAccounts)
      else
      try_bind (rt_clock_unix_timestamp rt clock_account) (\<lambda>unix_timestamp.
      try_bind (pool_state_decode (ai_data pool)) (\<lambda>pool_state.
      try_bind (validate_pool_state rt pool pool_state) (\<lambda>_.
      try_bind (epoch_state_decode (ai_data epoch)) (\<lambda>epoch_state.
      try_bind (validate_epoch_state rt epoch epoch_state pool pool_state) (\<lambda>_.
      if es_terminal_state epoch_state \<noteq> Locked then Inl (from_kageb InvalidState)
      else if es_abort_deadline epoch_state <s unix_timestamp then Inl (from_kageb DeadlinePassed)
      else let
        (expected_vault_authority, canonical_vault_bump) = vault_authority_address rt (ai_key pool)
      in
      if expected_vault_authority \<noteq> ai_key vault_authority
         \<or> canonical_vault_bump \<noteq> ps_vault_bump pool_state
      then Inl (from_kageb InvalidPda)
      else if ai_key base_mint \<noteq> ps_base_mint pool_state
         \<or> ai_key quote_mint \<noteq> ps_quote_mint pool_state
         \<or> ai_key pool_base_vault \<noteq> ps_pool_base_vault pool_state
         \<or> ai_key pool_quote_vault \<noteq> ps_pool_quote_vault pool_state
         \<or> ai_key venue_authority \<noteq> ps_venue_authority pool_state
         \<or> ai_key venue_base_account \<noteq> ps_venue_base_account pool_state
         \<or> ai_key venue_quote_account \<noteq> ps_venue_quote_account pool_state
      then Inl (from_kageb InvalidAccounts)
      else
      try_bind (validate_mint base_mint) (\<lambda>_.
      try_bind (validate_mint quote_mint) (\<lambda>_.
      try_bind (validate_token_account pool_base_vault (ai_key base_mint) (ai_key vault_authority)) (\<lambda>_.
      try_bind (validate_token_account pool_quote_vault (ai_key quote_mint) (ai_key vault_authority)) (\<lambda>_.
      try_bind (validate_token_account venue_base_account (ai_key base_mint) (ai_key venue_authority)) (\<lambda>_.
      try_bind (validate_token_account venue_quote_account (ai_key quote_mint) (ai_key venue_authority)) (\<lambda>_.
      if sp_epoch_account payload \<noteq> ai_key epoch
         \<or> sp_lock_digest payload \<noteq> es_lock_digest epoch_state
         \<or> sp_result_commitment payload = 0
         \<or> sp_base_lot_atoms payload \<noteq> es_base_lot_atoms epoch_state
         \<or> sp_quote_atoms_per_lot payload \<noteq> es_quote_atoms_per_lot epoch_state
         \<or> sp_base_mint payload \<noteq> ps_base_mint pool_state
         \<or> sp_quote_mint payload \<noteq> ps_quote_mint pool_state
         \<or> sp_pool_base_vault payload \<noteq> ps_pool_base_vault pool_state
         \<or> sp_pool_quote_vault payload \<noteq> ps_pool_quote_vault pool_state
         \<or> sp_venue_authority payload \<noteq> ps_venue_authority pool_state
         \<or> sp_venue_base_account payload \<noteq> ps_venue_base_account pool_state
         \<or> sp_venue_quote_account payload \<noteq> ps_venue_quote_account pool_state
         \<or> sp_settlement_nonce payload = 0
         \<or> sp_settlement_nonce payload = es_lock_nonce epoch_state
         \<or> \<not> valid_residual (sp_residual_side payload) (sp_residual_lots payload)
      then Inl (from_kageb InvalidSettlement)
      else let
        digest = settlement_payload_digest (rt_sha256 rt) payload
      in
      try_bind (count_preceding_keypers rt instructions_account (ps_keypers pool_state) digest) (\<lambda>count.
      if count < ps_settlement_threshold pool_state then Inl (from_kageb InsufficientQuorum)
      else let
        lots = ucast (sp_residual_lots payload)
      in
      try_bind (ok_or (checked_mul (sp_base_lot_atoms payload) lots)
        (from_kageb ArithmeticOverflow)) (\<lambda>base_amount.
      try_bind (ok_or (checked_mul (sp_quote_atoms_per_lot payload) lots)
        (from_kageb ArithmeticOverflow)) (\<lambda>quote_amount.
      let seeds = vault_seeds (ai_key pool) @ [[ps_vault_bump pool_state]]
      in
      try_bind
        (if sp_residual_side payload = 0 then Inr accounts
         else if sp_residual_side payload = 1 then
           try_bind (transfer_checked rt 5 10 8 3 11 quote_amount (Some seeds) accounts) (\<lambda>accounts.
           transfer_checked rt 7 9 4 6 11 base_amount None accounts)
         else if sp_residual_side payload = 2 then
           try_bind (transfer_checked rt 4 9 7 3 11 base_amount (Some seeds) accounts) (\<lambda>accounts.
           transfer_checked rt 8 10 5 6 11 quote_amount None accounts)
         else Inl (from_kageb InvalidSettlement)) (\<lambda>accounts.
      write_data 2 (epoch_state_encode
        (epoch_state\<lparr> es_terminal_state := Settled,
           es_residual_side := sp_residual_side payload,
           es_residual_lots := sp_residual_lots payload,
           es_result_commitment := sp_result_commitment payload,
           es_settlement_digest := digest,
           es_settlement_nonce := sp_settlement_nonce payload \<rparr>))
        accounts))))))))))))))))))))))))))))))"

definition settle_compact ::
    "runtime \<Rightarrow> pubkey \<Rightarrow> account_info list \<Rightarrow> compact_settlement_payload \<Rightarrow>
     program_error + account_info list" where
  "settle_compact rt program_id accounts compact =
     (if length accounts \<noteq> 14 then Inl (from_kageb InvalidAccounts)
      else
      try_bind (pool_state_decode (ai_data (accounts ! 1))) (\<lambda>pool_state.
      try_bind (epoch_state_decode (ai_data (accounts ! 2))) (\<lambda>epoch_state.
      settle rt program_id accounts
        \<lparr> sp_epoch_account = ai_key (accounts ! 2),
          sp_lock_digest = es_lock_digest epoch_state,
          sp_result_commitment = cs_result_commitment compact,
          sp_residual_side = cs_residual_side compact,
          sp_residual_lots = cs_residual_lots compact,
          sp_base_lot_atoms = es_base_lot_atoms epoch_state,
          sp_quote_atoms_per_lot = es_quote_atoms_per_lot epoch_state,
          sp_base_mint = ps_base_mint pool_state,
          sp_quote_mint = ps_quote_mint pool_state,
          sp_pool_base_vault = ps_pool_base_vault pool_state,
          sp_pool_quote_vault = ps_pool_quote_vault pool_state,
          sp_venue_base_account = ps_venue_base_account pool_state,
          sp_venue_quote_account = ps_venue_quote_account pool_state,
          sp_venue_authority = ps_venue_authority pool_state,
          sp_settlement_nonce = cs_settlement_nonce compact \<rparr>)))"

definition expire_or_abort ::
    "runtime \<Rightarrow> pubkey \<Rightarrow> account_info list \<Rightarrow> bool \<Rightarrow> program_error + account_info list" where
  "expire_or_abort rt program_id accounts abort =
     (if length accounts \<noteq> 4 then Inl (from_kageb InvalidAccounts)
      else let
        caller = accounts ! 0;
        pool = accounts ! 1;
        epoch = accounts ! 2;
        clock_account = accounts ! 3
      in
      try_bind (require_account_flags caller True False False) (\<lambda>_.
      try_bind (require_account_flags pool False False False) (\<lambda>_.
      try_bind (require_account_flags epoch False True False) (\<lambda>_.
      try_bind (require_account_flags clock_account False False False) (\<lambda>_.
      try_bind (require_distinct accounts) (\<lambda>_.
      try_bind (require_program_account pool program_id) (\<lambda>_.
      try_bind (require_program_account epoch program_id) (\<lambda>_.
      if ai_key clock_account \<noteq> rt_clock_id rt then Inl (from_kageb InvalidAccounts)
      else
      try_bind (pool_state_decode (ai_data pool)) (\<lambda>pool_state.
      try_bind (validate_pool_state rt pool pool_state) (\<lambda>_.
      try_bind (epoch_state_decode (ai_data epoch)) (\<lambda>state.
      try_bind (validate_epoch_state rt epoch state pool pool_state) (\<lambda>_.
      try_bind (rt_clock_unix_timestamp rt clock_account) (\<lambda>unix_timestamp.
      let (required_state, deadline, terminal_state) =
        (if abort then (Locked, es_abort_deadline state, Aborted_epoch)
         else (Open, es_lock_deadline state, Expired))
      in
      if es_terminal_state state \<noteq> required_state then Inl (from_kageb InvalidState)
      else if unix_timestamp \<le>s deadline then Inl (from_kageb DeadlineNotReached)
      else
      write_data 2 (epoch_state_encode (state\<lparr> es_terminal_state := terminal_state \<rparr>))
        accounts)))))))))))))"

definition process_instruction ::
    "runtime \<Rightarrow> pubkey \<Rightarrow> account_info list \<Rightarrow> byte list \<Rightarrow> program_error + account_info list" where
  "process_instruction rt program_id accounts data =
     (if program_id \<noteq> ID then Inl IncorrectProgramId
      else
      try_bind (instruction_decode data) (\<lambda>i.
      case i of
        InitializePool args \<Rightarrow> initialize_pool rt program_id accounts args
      | CreateEpoch args \<Rightarrow> create_epoch rt program_id accounts args
      | Lock payload \<Rightarrow> lock rt program_id accounts payload
      | Settle payload \<Rightarrow> settle_compact rt program_id accounts payload
      | Expire \<Rightarrow> expire_or_abort rt program_id accounts False
      | Abort \<Rightarrow> expire_or_abort rt program_id accounts True))"

end
