(* ===== verification/Processor_Spec.thy ===== *)
theory Processor_Spec
  imports Processor
begin

text \<open>
  What the handlers of \<open>Processor\<close> require and do: each account check as a predicate, and for every
  handler the exact condition under which it succeeds together with the accounts it returns.
\<close>

section \<open>Checks\<close>

definition flags :: "account_info \<Rightarrow> bool \<Rightarrow> bool \<Rightarrow> bool \<Rightarrow> bool" where
  "flags a s w x \<longleftrightarrow> ai_is_signer a = s \<and> ai_is_writable a = w \<and> ai_executable a = x"

lemma require_account_flags_Inr [res_simps]: "require_account_flags a s w x = Inr u \<longleftrightarrow> flags a s w x"
  by (auto simp: require_account_flags_def flags_def)

lemma require_program_account_Inr [res_simps]:
  "require_program_account a p = Inr u \<longleftrightarrow>
     ai_owner a = p \<and> length (ai_data a) = STATE_LEN \<and> \<not> ai_executable a"
  by (auto simp: require_program_account_def)

lemma require_distinct_loop_Inr:
  "require_distinct_loop previous accounts = Inr () \<longleftrightarrow>
     distinct (map ai_key accounts) \<and>
     ai_key ` set previous \<inter> ai_key ` set accounts = {}"
proof (induction accounts arbitrary: previous)
  case (Cons a accounts)
  have "list_ex (\<lambda>p. ai_key p = ai_key a) previous \<longleftrightarrow> ai_key a \<in> ai_key ` set previous"
    unfolding list_ex_iff image_iff by metis
  then show ?case by (auto simp: Cons.IH image_Un)
qed simp

lemma require_distinct_Inr [res_simps]:
  "require_distinct accounts = Inr u \<longleftrightarrow> distinct (map ai_key accounts)"
  by (simp add: require_distinct_def require_distinct_loop_Inr)

lemma three_distinct_iff: "three_distinct ks \<longleftrightarrow> distinct (keyper_list ks)"
  by (cases ks) auto

definition mint_ok :: "account_info \<Rightarrow> bool" where
  "mint_ok a \<longleftrightarrow> ai_owner a = TOKEN_PROGRAM_ID \<and> \<not> ai_executable a \<and> length (ai_data a) = 82
     \<and> ai_data a ! 44 = 0 \<and> ai_data a ! 45 = 1"

definition token_ok :: "account_info \<Rightarrow> pubkey \<Rightarrow> pubkey \<Rightarrow> bool" where
  "token_ok a mint authority \<longleftrightarrow> ai_owner a = TOKEN_PROGRAM_ID \<and> \<not> ai_executable a
     \<and> length (ai_data a) = 165 \<and> slice 0 32 (ai_data a) = arr_bytes mint
     \<and> slice 32 64 (ai_data a) = arr_bytes authority \<and> ai_data a ! 108 = 1"

lemma validate_mint_Inr [res_simps]: "validate_mint a = Inr u \<longleftrightarrow> mint_ok a"
  by (auto simp: validate_mint_def mint_ok_def Let_def)

lemma validate_token_account_Inr [res_simps]:
  "validate_token_account a m k = Inr u \<longleftrightarrow> token_ok a m k"
  by (auto simp: validate_token_account_def token_ok_def Let_def)

definition pool_ok :: "runtime \<Rightarrow> pubkey \<Rightarrow> pool_state \<Rightarrow> bool" where
  "pool_ok rt key ps \<longleftrightarrow>
     pool_address rt (ps_operator ps) (ps_base_mint ps) (ps_quote_mint ps) = (key, ps_pool_bump ps)
     \<and> snd (vault_authority_address rt key) = ps_vault_bump ps
     \<and> ps_lock_threshold ps = 2 \<and> ps_settlement_threshold ps = 2
     \<and> ps_base_lot_atoms ps \<noteq> 0 \<and> ps_base_mint ps \<noteq> ps_quote_mint ps
     \<and> 0 \<notin> set (keyper_list (ps_keypers ps)) \<and> distinct (keyper_list (ps_keypers ps))"

definition epoch_ok :: "runtime \<Rightarrow> pubkey \<Rightarrow> epoch_state \<Rightarrow> pubkey \<Rightarrow> pool_state \<Rightarrow> bool" where
  "epoch_ok rt key es pool ps \<longleftrightarrow>
     es_pool es = pool
     \<and> epoch_address rt pool (es_epoch_id es) = (key, es_epoch_bump es)
     \<and> 4 \<le> es_minimum_count es
     \<and> es_base_lot_atoms es = ps_base_lot_atoms ps
     \<and> es_quote_atoms_per_lot es \<noteq> 0
     \<and> es_lock_deadline es <s es_abort_deadline es
     \<and> es_configuration_hash es = configuration_digest (rt_sha256 rt) (expected_configuration pool es ps)"

lemma pool_ok_thresholds:
  "pool_ok rt key ps \<Longrightarrow> ps_lock_threshold ps = 2"
  "pool_ok rt key ps \<Longrightarrow> ps_settlement_threshold ps = 2"
  by (simp_all add: pool_ok_def)

lemma validate_pool_state_Inr [res_simps]:
  "validate_pool_state rt a ps = Inr u \<longleftrightarrow> pool_ok rt (ai_key a) ps"
  by (auto simp: validate_pool_state_def pool_ok_def three_distinct_iff list_ex_iff split: prod.splits)

lemma not_sle_iff [simp]: "\<not> a \<le>s b \<longleftrightarrow> b <s a" for a b :: "'a::len word"
  by (simp add: word_sle_eq word_sless_alt not_le)

lemma not_sless_iff [simp]: "\<not> a <s b \<longleftrightarrow> b \<le>s a" for a b :: "'a::len word"
  by (simp add: word_sle_eq word_sless_alt not_less)

lemma validate_epoch_state_Inr [res_simps]:
  "validate_epoch_state rt a es pool ps = Inr u \<longleftrightarrow> epoch_ok rt (ai_key a) es (ai_key pool) ps"
  by (auto simp: validate_epoch_state_def epoch_ok_def Let_def linorder_not_less split: prod.splits)

lemma write_data_Inr [res_simps]:
  "write_data i bytes accounts = Inr accounts' \<longleftrightarrow>
     length (ai_data (accounts ! i)) = length bytes \<and>
     accounts' = accounts[i := (accounts ! i)\<lparr>ai_data := bytes\<rparr>]"
  by (auto simp: write_data_def)

text \<open>
  \<open>opened\<close>: the two accounts are a pool and one of its epochs, both owned by the program and both
  passing validation. The four instructions on an existing epoch begin by establishing it.
\<close>

definition opened ::
    "runtime \<Rightarrow> pubkey \<Rightarrow> account_info \<Rightarrow> account_info \<Rightarrow> pool_state \<Rightarrow> epoch_state \<Rightarrow> bool" where
  "opened rt program_id pool epoch ps es \<longleftrightarrow>
     ai_owner pool = program_id \<and> \<not> ai_executable pool \<and> ai_data pool = pool_state_encode ps
     \<and> ai_owner epoch = program_id \<and> \<not> ai_executable epoch \<and> ai_data epoch = epoch_state_encode es
     \<and> pool_ok rt (ai_key pool) ps \<and> epoch_ok rt (ai_key epoch) es (ai_key pool) ps"

text \<open>
  \<open>quorum\<close>: the instructions before the current one contain strict verifications of the digest by
  at least two different configured keypers.
\<close>

definition quorum :: "runtime \<Rightarrow> account_info \<Rightarrow> keypers \<Rightarrow> bytes32 \<Rightarrow> bool" where
  "quorum rt acc keypers digest \<longleftrightarrow>
     (\<exists>ixs. preceding rt acc ixs \<and>
        2 \<le> card {k \<in> set (keyper_list keypers). signed_by rt ixs digest k})"

lemma quorum_iff:
  assumes "distinct (keyper_list ks)"
  shows "(\<exists>count. count_preceding_keypers rt acc ks d = Inr count \<and> 2 \<le> count) \<longleftrightarrow> quorum rt acc ks d"
proof
  assume "\<exists>count. count_preceding_keypers rt acc ks d = Inr count \<and> 2 \<le> count"
  then obtain count where c: "count_preceding_keypers rt acc ks d = Inr count" "2 \<le> count" by blast
  from c(1) obtain ixs where "preceding rt acc ixs" "count = count_matching_keypers rt ixs ks d"
    by (rule count_preceding_Inr)
  with c(2) show "quorum rt acc ks d"
    using count_matching_card [OF assms, of rt ixs d] by (auto simp: quorum_def word_le_nat_alt)
next
  assume "quorum rt acc ks d"
  then obtain ixs where "preceding rt acc ixs"
    and "2 \<le> card {k \<in> set (keyper_list ks). signed_by rt ixs d k}" by (auto simp: quorum_def)
  then show "\<exists>count. count_preceding_keypers rt acc ks d = Inr count \<and> 2 \<le> count"
    using count_matching_card [OF assms, of rt ixs d]
    by (simp add: count_preceding_eq word_le_nat_alt)
qed

lemma opened_quorum:
  "opened rt program_id pool epoch ps es \<Longrightarrow>
     (\<exists>count. count_preceding_keypers rt acc (ps_keypers ps) d = Inr count \<and> 2 \<le> count) \<longleftrightarrow>
     quorum rt acc (ps_keypers ps) d"
  by (rule quorum_iff) (simp add: opened_def pool_ok_def)

section \<open>Lock\<close>

definition lock_state :: "bytes32 \<Rightarrow> lock_payload \<Rightarrow> epoch_state \<Rightarrow> epoch_state" where
  "lock_state digest p es = es\<lparr> es_terminal_state := Locked,
     es_pre_balance_root := lp_pre_balance_root p,
     es_member_root := lp_member_root p,
     es_member_count := lp_member_count p,
     es_lock_digest := digest,
     es_lock_nonce := lp_lock_nonce p \<rparr>"

definition lock_accounts_ok :: "runtime \<Rightarrow> account_info list \<Rightarrow> bool" where
  "lock_accounts_ok rt accounts \<longleftrightarrow>
     length accounts = 5 \<and> distinct (map ai_key accounts)
     \<and> flags (accounts ! 0) True False False
     \<and> flags (accounts ! 1) False False False
     \<and> flags (accounts ! 2) False True False
     \<and> flags (accounts ! 3) False False False
     \<and> flags (accounts ! 4) False False False
     \<and> ai_key (accounts ! 3) = rt_instructions_id rt \<and> ai_key (accounts ! 4) = rt_clock_id rt"

definition lock_payload_ok :: "lock_payload \<Rightarrow> pubkey \<Rightarrow> epoch_state \<Rightarrow> bool" where
  "lock_payload_ok p epoch es \<longleftrightarrow>
     lp_epoch_account p = epoch
     \<and> lp_configuration_hash p = es_configuration_hash es
     \<and> lp_lock_deadline p = es_lock_deadline es
     \<and> lp_lock_nonce p \<noteq> 0 \<and> lp_pre_balance_root p \<noteq> 0 \<and> lp_member_root p \<noteq> 0
     \<and> es_minimum_count es \<le> lp_member_count p"

lemma lock_Inr:
  "lock rt program_id accounts p = Inr accounts' \<longleftrightarrow>
     lock_accounts_ok rt accounts \<and>
     (\<exists>ps es now.
        opened rt program_id (accounts ! 1) (accounts ! 2) ps es
        \<and> es_terminal_state es = Open
        \<and> rt_clock_unix_timestamp rt (accounts ! 4) = Inr now \<and> now <s es_lock_deadline es
        \<and> lock_payload_ok p (ai_key (accounts ! 2)) es
        \<and> quorum rt (accounts ! 3) (ps_keypers ps) (lock_payload_digest (rt_sha256 rt) p)
        \<and> accounts' = accounts[2 := (accounts ! 2)\<lparr>ai_data :=
            epoch_state_encode (lock_state (lock_payload_digest (rt_sha256 rt) p) p es)\<rparr>])"
  by (simp add: lock_def Let_def res_simps lock_accounts_ok_def pool_decode_iff epoch_decode_iff not_less
      opened_quorum [symmetric] cong: conj_cong)
    (auto simp: opened_def lock_payload_ok_def lock_state_def pool_ok_thresholds)

section \<open>Expire and abort\<close>

definition terminal_accounts_ok :: "runtime \<Rightarrow> account_info list \<Rightarrow> bool" where
  "terminal_accounts_ok rt accounts \<longleftrightarrow>
     length accounts = 4 \<and> distinct (map ai_key accounts)
     \<and> flags (accounts ! 0) True False False
     \<and> flags (accounts ! 1) False False False
     \<and> flags (accounts ! 2) False True False
     \<and> flags (accounts ! 3) False False False
     \<and> ai_key (accounts ! 3) = rt_clock_id rt"

lemma expire_or_abort_Inr:
  "expire_or_abort rt program_id accounts abort = Inr accounts' \<longleftrightarrow>
     terminal_accounts_ok rt accounts \<and>
     (\<exists>ps es now.
        opened rt program_id (accounts ! 1) (accounts ! 2) ps es
        \<and> rt_clock_unix_timestamp rt (accounts ! 3) = Inr now
        \<and> es_terminal_state es = (if abort then Locked else Open)
        \<and> (if abort then es_abort_deadline es else es_lock_deadline es) <s now
        \<and> accounts' = accounts[2 := (accounts ! 2)\<lparr>ai_data := epoch_state_encode
            (es\<lparr>es_terminal_state := if abort then Aborted_epoch else Expired\<rparr>)\<rparr>])"
  by (cases abort; simp add: expire_or_abort_def Let_def res_simps terminal_accounts_ok_def
      pool_decode_iff epoch_decode_iff not_less)
    (auto simp: opened_def)

section \<open>Settle\<close>

definition settle_state :: "bytes32 \<Rightarrow> settlement_payload \<Rightarrow> epoch_state \<Rightarrow> epoch_state" where
  "settle_state digest p es = es\<lparr> es_terminal_state := Settled,
     es_residual_side := sp_residual_side p,
     es_residual_lots := sp_residual_lots p,
     es_result_commitment := sp_result_commitment p,
     es_settlement_digest := digest,
     es_settlement_nonce := sp_settlement_nonce p \<rparr>"

definition settle_accounts_ok :: "runtime \<Rightarrow> account_info list \<Rightarrow> bool" where
  "settle_accounts_ok rt accounts \<longleftrightarrow>
     length accounts = 14 \<and> distinct (map ai_key accounts)
     \<and> flags (accounts ! 0) True False False
     \<and> flags (accounts ! 1) False False False
     \<and> flags (accounts ! 2) False True False
     \<and> flags (accounts ! 3) False False False
     \<and> flags (accounts ! 4) False True False
     \<and> flags (accounts ! 5) False True False
     \<and> flags (accounts ! 6) True False False
     \<and> flags (accounts ! 7) False True False
     \<and> flags (accounts ! 8) False True False
     \<and> flags (accounts ! 9) False False False
     \<and> flags (accounts ! 10) False False False
     \<and> flags (accounts ! 11) False False True
     \<and> flags (accounts ! 12) False False False
     \<and> flags (accounts ! 13) False False False
     \<and> ai_key (accounts ! 11) = TOKEN_PROGRAM_ID
     \<and> ai_key (accounts ! 12) = rt_instructions_id rt
     \<and> ai_key (accounts ! 13) = rt_clock_id rt"

definition settle_tokens_ok :: "runtime \<Rightarrow> account_info list \<Rightarrow> pool_state \<Rightarrow> bool" where
  "settle_tokens_ok rt accounts ps \<longleftrightarrow>
     vault_authority_address rt (ai_key (accounts ! 1)) = (ai_key (accounts ! 3), ps_vault_bump ps)
     \<and> ai_key (accounts ! 9) = ps_base_mint ps
     \<and> ai_key (accounts ! 10) = ps_quote_mint ps
     \<and> ai_key (accounts ! 4) = ps_pool_base_vault ps
     \<and> ai_key (accounts ! 5) = ps_pool_quote_vault ps
     \<and> ai_key (accounts ! 6) = ps_venue_authority ps
     \<and> ai_key (accounts ! 7) = ps_venue_base_account ps
     \<and> ai_key (accounts ! 8) = ps_venue_quote_account ps
     \<and> mint_ok (accounts ! 9) \<and> mint_ok (accounts ! 10)
     \<and> token_ok (accounts ! 4) (ps_base_mint ps) (ai_key (accounts ! 3))
     \<and> token_ok (accounts ! 5) (ps_quote_mint ps) (ai_key (accounts ! 3))
     \<and> token_ok (accounts ! 7) (ps_base_mint ps) (ps_venue_authority ps)
     \<and> token_ok (accounts ! 8) (ps_quote_mint ps) (ps_venue_authority ps)"

definition settle_payload_ok ::
    "settlement_payload \<Rightarrow> pubkey \<Rightarrow> epoch_state \<Rightarrow> pool_state \<Rightarrow> bool" where
  "settle_payload_ok p epoch es ps \<longleftrightarrow>
     sp_epoch_account p = epoch
     \<and> sp_lock_digest p = es_lock_digest es
     \<and> sp_result_commitment p \<noteq> 0
     \<and> sp_base_lot_atoms p = es_base_lot_atoms es
     \<and> sp_quote_atoms_per_lot p = es_quote_atoms_per_lot es
     \<and> sp_base_mint p = ps_base_mint ps
     \<and> sp_quote_mint p = ps_quote_mint ps
     \<and> sp_pool_base_vault p = ps_pool_base_vault ps
     \<and> sp_pool_quote_vault p = ps_pool_quote_vault ps
     \<and> sp_venue_authority p = ps_venue_authority ps
     \<and> sp_venue_base_account p = ps_venue_base_account ps
     \<and> sp_venue_quote_account p = ps_venue_quote_account ps
     \<and> sp_settlement_nonce p \<noteq> 0
     \<and> sp_settlement_nonce p \<noteq> es_lock_nonce es
     \<and> valid_residual (sp_residual_side p) (sp_residual_lots p)"

text \<open>The token movements of a settlement: none, the pool buys base, or the pool sells base.\<close>

definition settle_legs ::
    "runtime \<Rightarrow> seeds \<Rightarrow> u8 \<Rightarrow> u64 \<Rightarrow> u64 \<Rightarrow> account_info list \<Rightarrow> program_error + account_info list" where
  "settle_legs rt seeds side base_amount quote_amount accounts =
     (if side = 0 then Inr accounts
      else if side = 1 then
        try_bind (transfer_checked rt 5 10 8 3 11 quote_amount (Some seeds) accounts)
          (transfer_checked rt 7 9 4 6 11 base_amount None)
      else if side = 2 then
        try_bind (transfer_checked rt 4 9 7 3 11 base_amount (Some seeds) accounts)
          (transfer_checked rt 8 10 5 6 11 quote_amount None)
      else Inl (from_kageb InvalidSettlement))"

definition leg_amount :: "u64 \<Rightarrow> u32 \<Rightarrow> u64 \<Rightarrow> bool" where
  "leg_amount per_lot lots amount \<longleftrightarrow> unat amount = unat per_lot * unat lots"

lemma checked_leg:
  "checked_mul per_lot (ucast (lots :: u32)) = Some amount \<longleftrightarrow> leg_amount per_lot lots amount"
  for per_lot amount :: u64
  by (simp add: checked_mul_Some leg_amount_def)

lemma settle_Inr:
  "settle rt program_id accounts p = Inr accounts' \<longleftrightarrow>
     settle_accounts_ok rt accounts \<and>
     (\<exists>ps es now base_amount quote_amount accounts1.
        opened rt program_id (accounts ! 1) (accounts ! 2) ps es
        \<and> es_terminal_state es = Locked
        \<and> rt_clock_unix_timestamp rt (accounts ! 13) = Inr now \<and> now \<le>s es_abort_deadline es
        \<and> settle_tokens_ok rt accounts ps
        \<and> settle_payload_ok p (ai_key (accounts ! 2)) es ps
        \<and> quorum rt (accounts ! 12) (ps_keypers ps) (settlement_payload_digest (rt_sha256 rt) p)
        \<and> leg_amount (es_base_lot_atoms es) (sp_residual_lots p) base_amount
        \<and> leg_amount (es_quote_atoms_per_lot es) (sp_residual_lots p) quote_amount
        \<and> settle_legs rt (vault_seeds (ai_key (accounts ! 1)) @ [[ps_vault_bump ps]])
            (sp_residual_side p) base_amount quote_amount accounts = Inr accounts1
        \<and> length (ai_data (accounts1 ! 2)) = STATE_LEN
        \<and> accounts' = accounts1[2 := (accounts1 ! 2)\<lparr>ai_data := epoch_state_encode
            (settle_state (settlement_payload_digest (rt_sha256 rt) p) p es)\<rparr>])"
  by (simp add: settle_def Let_def res_simps settle_accounts_ok_def pool_decode_iff epoch_decode_iff
      not_less checked_leg settle_legs_def [symmetric] case_prod_beta
      opened_quorum [symmetric] cong: conj_cong)
    (auto simp: opened_def settle_tokens_ok_def settle_payload_ok_def settle_state_def
      pool_ok_thresholds prod_eq_iff flags_def [of "accounts ! 11"], blast+)

text \<open>
  The compact form that travels in the instruction determines the payload that the keypers signed:
  \<open>settle_compact\<close> succeeds exactly when \<open>settle\<close> does on some payload with this compact form.
\<close>

definition full_payload ::
    "pubkey \<Rightarrow> pool_state \<Rightarrow> epoch_state \<Rightarrow> compact_settlement_payload \<Rightarrow> settlement_payload" where
  "full_payload epoch ps es c =
     \<lparr> sp_epoch_account = epoch,
       sp_lock_digest = es_lock_digest es,
       sp_result_commitment = cs_result_commitment c,
       sp_residual_side = cs_residual_side c,
       sp_residual_lots = cs_residual_lots c,
       sp_base_lot_atoms = es_base_lot_atoms es,
       sp_quote_atoms_per_lot = es_quote_atoms_per_lot es,
       sp_base_mint = ps_base_mint ps,
       sp_quote_mint = ps_quote_mint ps,
       sp_pool_base_vault = ps_pool_base_vault ps,
       sp_pool_quote_vault = ps_pool_quote_vault ps,
       sp_venue_base_account = ps_venue_base_account ps,
       sp_venue_quote_account = ps_venue_quote_account ps,
       sp_venue_authority = ps_venue_authority ps,
       sp_settlement_nonce = cs_settlement_nonce c \<rparr>"

lemma compact_full [simp]: "compact_from (full_payload epoch ps es c) = c"
  by (simp add: compact_from_def full_payload_def)

lemma settle_payload_ok_full:
  "settle_payload_ok p epoch es ps \<Longrightarrow> p = full_payload epoch ps es (compact_from p)"
  by (cases p) (simp add: settle_payload_ok_def compact_from_def full_payload_def)

lemma settle_compact_Inr:
  "settle_compact rt program_id accounts c = Inr accounts' \<longleftrightarrow>
     (\<exists>p. compact_from p = c \<and> settle rt program_id accounts p = Inr accounts')"
proof
  assume "settle_compact rt program_id accounts c = Inr accounts'"
  then obtain ps es where
    "settle rt program_id accounts (full_payload (ai_key (accounts ! 2)) ps es c) = Inr accounts'"
    by (auto simp: settle_compact_def res_simps full_payload_def)
  then show "\<exists>p. compact_from p = c \<and> settle rt program_id accounts p = Inr accounts'"
    by (intro exI conjI) simp_all
next
  assume "\<exists>p. compact_from p = c \<and> settle rt program_id accounts p = Inr accounts'"
  then obtain p where p: "compact_from p = c" "settle rt program_id accounts p = Inr accounts'" by blast
  from p(2) obtain ps es where acc: "length accounts = 14"
    and opened: "opened rt program_id (accounts ! 1) (accounts ! 2) ps es"
    and ok: "settle_payload_ok p (ai_key (accounts ! 2)) es ps"
    by (auto simp: settle_Inr settle_accounts_ok_def)
  from settle_payload_ok_full [OF ok] p acc opened
  show "settle_compact rt program_id accounts c = Inr accounts'"
    by (simp add: settle_compact_def opened_def full_payload_def)
qed

section \<open>Creation\<close>

definition new_pool :: "runtime \<Rightarrow> account_info list \<Rightarrow> initialize_pool_args \<Rightarrow> pool_state" where
  "new_pool rt accounts args =
     \<lparr> ps_pool_bump = snd (pool_address rt (ai_key (accounts ! 1)) (ai_key (accounts ! 4)) (ai_key (accounts ! 5))),
       ps_vault_bump = snd (vault_authority_address rt (ai_key (accounts ! 2))),
       ps_lock_threshold = 2,
       ps_settlement_threshold = 2,
       ps_operator = ai_key (accounts ! 1),
       ps_base_mint = ai_key (accounts ! 4),
       ps_quote_mint = ai_key (accounts ! 5),
       ps_pool_base_vault = ai_key (accounts ! 6),
       ps_pool_quote_vault = ai_key (accounts ! 7),
       ps_venue_authority = ai_key (accounts ! 8),
       ps_venue_base_account = ai_key (accounts ! 9),
       ps_venue_quote_account = ai_key (accounts ! 10),
       ps_keypers = ip_keypers args,
       ps_base_lot_atoms = ip_base_lot_atoms args \<rparr>"

definition new_epoch :: "runtime \<Rightarrow> pubkey \<Rightarrow> pool_state \<Rightarrow> create_epoch_args \<Rightarrow> epoch_state" where
  "new_epoch rt pool ps args =
     \<lparr> es_epoch_bump = snd (epoch_address rt pool (ce_epoch_id args)),
       es_terminal_state = Open,
       es_residual_side = 0,
       es_pool = pool,
       es_epoch_id = ce_epoch_id args,
       es_configuration_hash = configuration_digest (rt_sha256 rt)
         \<lparr> ec_pool = pool,
           ec_epoch_id = ce_epoch_id args,
           ec_base_mint = ps_base_mint ps,
           ec_quote_mint = ps_quote_mint ps,
           ec_base_lot_atoms = ps_base_lot_atoms ps,
           ec_quote_atoms_per_lot = ce_quote_atoms_per_lot args,
           ec_minimum_count = ce_minimum_count args,
           ec_lock_threshold = ps_lock_threshold ps,
           ec_settlement_threshold = ps_settlement_threshold ps,
           ec_keypers = ps_keypers ps,
           ec_lock_deadline = ce_lock_deadline args,
           ec_abort_deadline = ce_abort_deadline args \<rparr>,
       es_pre_balance_root = 0,
       es_member_root = 0,
       es_lock_digest = 0,
       es_result_commitment = 0,
       es_settlement_digest = 0,
       es_lock_nonce = 0,
       es_settlement_nonce = 0,
       es_member_count = 0,
       es_minimum_count = ce_minimum_count args,
       es_residual_lots = 0,
       es_base_lot_atoms = ps_base_lot_atoms ps,
       es_quote_atoms_per_lot = ce_quote_atoms_per_lot args,
       es_lock_deadline = ce_lock_deadline args,
       es_abort_deadline = ce_abort_deadline args \<rparr>"

lemma initialize_pool_Inr:
  assumes "initialize_pool rt program_id accounts args = Inr accounts'"
  obtains accounts1 where
    "length accounts = 13" "distinct (map ai_key accounts)"
    "ai_is_signer (accounts ! 0)" "ai_is_signer (accounts ! 1)"
    "pool_ok rt (ai_key (accounts ! 2)) (new_pool rt accounts args)"
    "fst (vault_authority_address rt (ai_key (accounts ! 2))) = ai_key (accounts ! 3)"
    "token_ok (accounts ! 6) (ai_key (accounts ! 4)) (ai_key (accounts ! 3))"
    "token_ok (accounts ! 7) (ai_key (accounts ! 5)) (ai_key (accounts ! 3))"
    "token_ok (accounts ! 9) (ai_key (accounts ! 4)) (ai_key (accounts ! 8))"
    "token_ok (accounts ! 10) (ai_key (accounts ! 5)) (ai_key (accounts ! 8))"
    "initialize_pda_account rt 0 2 11 program_id
       [pool_seeds (ai_key (accounts ! 1)) (ai_key (accounts ! 4)) (ai_key (accounts ! 5)) @
        [[ps_pool_bump (new_pool rt accounts args)]]] accounts = Inr accounts1"
    "accounts' = accounts1[2 := (accounts1 ! 2)\<lparr>ai_data := pool_state_encode (new_pool rt accounts args)\<rparr>]"
  using assms
  by (auto simp: initialize_pool_def Let_def res_simps case_prod_beta new_pool_def pool_ok_def
      three_distinct_iff list_ex_iff flags_def prod_eq_iff)

lemma create_epoch_Inr:
  assumes "create_epoch rt program_id accounts args = Inr accounts'"
  obtains ps now accounts1 where
    "length accounts = 6" "distinct (map ai_key accounts)"
    "ai_is_signer (accounts ! 0)" "ai_is_signer (accounts ! 1)"
    "ai_owner (accounts ! 2) = program_id" "\<not> ai_executable (accounts ! 2)"
    "ai_data (accounts ! 2) = pool_state_encode ps"
    "pool_ok rt (ai_key (accounts ! 2)) ps" "ps_operator ps = ai_key (accounts ! 1)"
    "rt_clock_unix_timestamp rt (accounts ! 5) = Inr now" "now <s ce_lock_deadline args"
    "epoch_ok rt (ai_key (accounts ! 3)) (new_epoch rt (ai_key (accounts ! 2)) ps args)
       (ai_key (accounts ! 2)) ps"
    "initialize_pda_account rt 0 3 4 program_id
       [epoch_seeds (ai_key (accounts ! 2)) (ce_epoch_id args) @
        [[es_epoch_bump (new_epoch rt (ai_key (accounts ! 2)) ps args)]]] accounts = Inr accounts1"
    "accounts' = accounts1[3 := (accounts1 ! 3)\<lparr>ai_data :=
       epoch_state_encode (new_epoch rt (ai_key (accounts ! 2)) ps args)\<rparr>]"
  using assms
  by (auto simp: create_epoch_def Let_def res_simps case_prod_beta new_epoch_def epoch_ok_def not_less
      expected_configuration_def pool_decode_iff flags_def prod_eq_iff)

lemma ex_instruction:
  "(\<exists>i. P i) \<longleftrightarrow> (\<exists>a. P (InitializePool a)) \<or> (\<exists>a. P (CreateEpoch a)) \<or> (\<exists>p. P (Lock p))
     \<or> (\<exists>c. P (Settle c)) \<or> P Expire \<or> P Abort"
  by (metis kageb_instruction.exhaust)

lemma process_instruction_Inr:
  "process_instruction rt program_id accounts data = Inr accounts' \<longleftrightarrow> program_id = ID \<and>
     ((\<exists>args. data = instruction_encode (InitializePool args) \<and> initialize_pool rt ID accounts args = Inr accounts')
      \<or> (\<exists>args. data = instruction_encode (CreateEpoch args) \<and> create_epoch rt ID accounts args = Inr accounts')
      \<or> (\<exists>p. data = instruction_encode (Lock p) \<and> lock rt ID accounts p = Inr accounts')
      \<or> (\<exists>p. data = instruction_encode (Settle (compact_from p)) \<and> settle rt ID accounts p = Inr accounts')
      \<or> data = instruction_encode Expire \<and> expire_or_abort rt ID accounts False = Inr accounts'
      \<or> data = instruction_encode Abort \<and> expire_or_abort rt ID accounts True = Inr accounts')"
proof -
  have dec: "instruction_decode data = Inr i \<longleftrightarrow> data = instruction_encode i" for i
    using instruction_decode_sound by auto
  have settle: "(\<exists>c. data = instruction_encode (Settle c) \<and> settle_compact rt ID accounts c = Inr accounts') \<longleftrightarrow>
      (\<exists>p. data = instruction_encode (Settle (compact_from p)) \<and> settle rt ID accounts p = Inr accounts')"
    by (auto simp: settle_compact_Inr)
  show ?thesis
    by (simp add: process_instruction_def res_simps dec ex_instruction settle cong: conj_cong)
qed

end
