(* ===== verification/Epoch_Chain.thy ===== *)
theory Epoch_Chain
  imports Processor_Spec
begin

text \<open>
  The program as a transition system. The chain is a map from addresses to accounts; a step either
  runs one instruction of the program or lets the rest of the world change accounts the way the
  Solana runtime allows: only its owner may change an account's data, and an account that changes
  owner has zeroed data. Invariants of the pool and epoch accounts are proved by rule induction.
\<close>

section \<open>The abstract epoch machine\<close>

text \<open>
  \<open>epoch_move\<close> is what one successful instruction may do to an epoch stored at address \<open>k\<close>.
\<close>

inductive epoch_move :: "(byte list \<Rightarrow> bytes32) \<Rightarrow> pubkey \<Rightarrow> epoch_state \<Rightarrow> epoch_state \<Rightarrow> bool"
  for sha256 k where
  move_lock: "es_terminal_state e = Open \<Longrightarrow> lock_payload_ok p k e \<Longrightarrow>
    epoch_move sha256 k e (lock_state (lock_payload_digest sha256 p) p e)"
| move_settle: "es_terminal_state e = Locked \<Longrightarrow> settle_payload_ok p k e ps \<Longrightarrow>
    epoch_move sha256 k e (settle_state (settlement_payload_digest sha256 p) p e)"
| move_expire: "es_terminal_state e = Open \<Longrightarrow> epoch_move sha256 k e (e\<lparr>es_terminal_state := Expired\<rparr>)"
| move_abort: "es_terminal_state e = Locked \<Longrightarrow>
    epoch_move sha256 k e (e\<lparr>es_terminal_state := Aborted_epoch\<rparr>)"

inductive_cases epoch_moveE [elim]: "epoch_move sha256 k e e'"

text \<open>The fields no instruction changes, and those fixed once the epoch has left \<open>Open\<close>.\<close>

definition frozen :: "epoch_state \<Rightarrow> u8 \<times> pubkey \<times> bytes32 \<times> bytes32 \<times> u32 \<times> u64 \<times> u64 \<times> i64 \<times> i64" where
  "frozen e = (es_epoch_bump e, es_pool e, es_epoch_id e, es_configuration_hash e, es_minimum_count e,
     es_base_lot_atoms e, es_quote_atoms_per_lot e, es_lock_deadline e, es_abort_deadline e)"

definition lock_fields :: "epoch_state \<Rightarrow> bytes32 \<times> bytes32 \<times> u32 \<times> bytes32 \<times> bytes32" where
  "lock_fields e = (es_pre_balance_root e, es_member_root e, es_member_count e, es_lock_digest e,
     es_lock_nonce e)"

definition terminal :: "epoch_terminal_state \<Rightarrow> bool" where
  "terminal t \<longleftrightarrow> t = Settled \<or> t = Expired \<or> t = Aborted_epoch"

lemma move_frozen: "epoch_move sha256 k e e' \<Longrightarrow> frozen e' = frozen e"
  by (auto simp: frozen_def lock_state_def settle_state_def)

lemma move_lock_fields:
  "epoch_move sha256 k e e' \<Longrightarrow> es_terminal_state e \<noteq> Open \<Longrightarrow> lock_fields e' = lock_fields e"
  by (auto simp: lock_fields_def settle_state_def)

lemma move_not_terminal: "epoch_move sha256 k e e' \<Longrightarrow> \<not> terminal (es_terminal_state e)"
  by (auto simp: terminal_def)

lemma move_not_Open: "epoch_move sha256 k e e' \<Longrightarrow> es_terminal_state e' \<noteq> Open"
  by (auto simp: lock_state_def settle_state_def)

definition evolves :: "(byte list \<Rightarrow> bytes32) \<Rightarrow> pubkey \<Rightarrow> epoch_state \<Rightarrow> epoch_state \<Rightarrow> bool" where
  "evolves sha256 k = (epoch_move sha256 k)\<^sup>*\<^sup>*"

lemma evolves_frozen: "evolves sha256 k e e' \<Longrightarrow> frozen e' = frozen e"
  unfolding evolves_def by (induction rule: rtranclp_induct) (simp_all add: move_frozen)

lemma evolves_lock_fields:
  assumes "evolves sha256 k e e'" and "es_terminal_state e \<noteq> Open"
  shows "lock_fields e' = lock_fields e \<and> es_terminal_state e' \<noteq> Open"
  using assms unfolding evolves_def
  by (induction rule: rtranclp_induct) (auto dest: move_lock_fields move_not_Open)

lemma evolves_terminal:
  "evolves sha256 k e e' \<Longrightarrow> terminal (es_terminal_state e) \<Longrightarrow> e' = e"
  unfolding evolves_def by (auto elim: converse_rtranclpE dest: move_not_terminal)

section \<open>Effects of one instruction on its accounts\<close>

text \<open>
  What the runtime promises of a cross-program invocation, and of its own constants. The
  invoked programs never own an account of this program, so they leave its data and owner alone;
  what they assign to this program they hand over zeroed.
\<close>

definition foreign_change :: "account_info \<Rightarrow> account_info \<Rightarrow> bool" where
  "foreign_change a a' \<longleftrightarrow> ai_key a' = ai_key a
     \<and> (ai_owner a = ID \<longrightarrow> ai_owner a' = ID \<and> ai_executable a' = ai_executable a
          \<and> ai_data a' = ai_data a)
     \<and> (ai_owner a \<noteq> ID \<longrightarrow> ai_owner a' = ID \<longrightarrow> \<not> ai_executable a' \<and>
          ai_data a' = replicate (length (ai_data a')) 0)"

definition cpi_frame :: "runtime \<Rightarrow> bool" where
  "cpi_frame rt \<longleftrightarrow> rt_system_program rt \<noteq> ID \<and>
     (\<forall>ix infos seeds infos'. rt_invoke_signed rt ix infos seeds = Inr infos' \<longrightarrow>
        list_all2 foreign_change infos infos')"

lemma foreign_refl [simp]: "foreign_change a a"
  by (simp add: foreign_change_def)

lemma foreign_trans: "foreign_change a b \<Longrightarrow> foreign_change b c \<Longrightarrow> foreign_change a c"
  by (auto simp: foreign_change_def)

lemma foreigns_refl: "list_all2 foreign_change xs xs"
  by (simp add: list.rel_refl)

lemma foreigns_trans:
  "list_all2 foreign_change xs ys \<Longrightarrow> list_all2 foreign_change ys zs \<Longrightarrow> list_all2 foreign_change xs zs"
  by (rule list_all2_trans [where ?P1.0 = foreign_change and ?P2.0 = foreign_change]) (auto intro: foreign_trans)

lemma list_all2_update:
  "list_all2 P xs ys \<Longrightarrow> P (xs ! i) y \<Longrightarrow> list_all2 P xs (ys[i := y])"
  unfolding list_all2_conv_all_nth by (metis length_list_update nth_list_update_eq nth_list_update_neq)

lemma write_back_foreign:
  assumes "list_all2 foreign_change (map (\<lambda>i. accs ! i) is) infos"
    and "list_all2 foreign_change accs accs0"
  shows "list_all2 foreign_change accs (write_back is infos accs0)"
  using assms
proof (induction "is" arbitrary: infos accs0)
  case Nil
  then show ?case by (simp add: write_back_def)
next
  case (Cons i "is")
  then obtain a rest where infos: "infos = a # rest" and a: "foreign_change (accs ! i) a"
    and rest: "list_all2 foreign_change (map (\<lambda>i. accs ! i) is) rest"
    by (auto simp: list_all2_Cons1)
  have "list_all2 foreign_change accs (accs0[i := a])"
    by (rule list_all2_update [OF Cons.prems(2) a])
  from Cons.IH [OF rest this] show ?case by (simp add: infos write_back_def)
qed

lemma invoke_foreign:
  assumes "cpi_frame rt" and "invoke_signed rt ix is seeds accs = Inr accs'"
  shows "list_all2 foreign_change accs accs'"
proof -
  from assms(2) obtain infos where i: "rt_invoke_signed rt ix (map (\<lambda>i. accs ! i) is) seeds = Inr infos"
    and eq: "accs' = write_back is infos accs" by (auto simp: invoke_signed_def res_simps)
  from assms(1) i have "list_all2 foreign_change (map (\<lambda>i. accs ! i) is) infos"
    by (auto simp: cpi_frame_def)
  then show ?thesis unfolding eq by (rule write_back_foreign) (rule foreigns_refl)
qed

lemma transfer_foreign:
  "cpi_frame rt \<Longrightarrow> transfer_checked rt s m d a t n seeds accs = Inr accs' \<Longrightarrow> list_all2 foreign_change accs accs'"
  by (auto simp: transfer_checked_def invoke_def Let_def dest: invoke_foreign split: option.splits)

lemma legs_foreign:
  "cpi_frame rt \<Longrightarrow> settle_legs rt seeds side b q accs = Inr accs' \<Longrightarrow> list_all2 foreign_change accs accs'"
  by (auto simp: settle_legs_def res_simps foreigns_refl split: if_splits
      intro: foreigns_trans [OF transfer_foreign transfer_foreign])

lemma pda_foreign:
  assumes "cpi_frame rt" and "initialize_pda_account rt payer pda sys ID seeds accs = Inr accs'"
  shows "list_all2 foreign_change accs accs'" and "ai_owner (accs ! pda) \<noteq> ID"
    and "ai_owner (accs' ! pda) = ID" and "length (ai_data (accs' ! pda)) = STATE_LEN"
  using assms
  by (auto simp: initialize_pda_account_def Let_def res_simps invoke_def cpi_frame_def
      split: if_splits dest!: invoke_foreign [OF assms(1)] intro: foreigns_trans)

text \<open>
  What an instruction of the program may do to one account. \<open>known pool ps\<close> says that the
  instruction saw the pool \<open>ps\<close> at the address \<open>pool\<close>.
\<close>

definition program_change ::
    "runtime \<Rightarrow> (pubkey \<Rightarrow> pool_state \<Rightarrow> bool) \<Rightarrow> account_info \<Rightarrow> account_info \<Rightarrow> bool" where
  "program_change rt known a a' \<longleftrightarrow> ai_key a' = ai_key a
     \<and> (ai_owner a = ID \<longrightarrow> ai_owner a' = ID \<and> ai_executable a' = ai_executable a \<and>
         (ai_data a' = ai_data a \<or>
          (\<exists>e e'. ai_data a = epoch_state_encode e \<and> ai_data a' = epoch_state_encode e' \<and>
             epoch_move (rt_sha256 rt) (ai_key a) e e')))
     \<and> (ai_owner a \<noteq> ID \<longrightarrow> ai_owner a' = ID \<longrightarrow> \<not> ai_executable a' \<and>
         (ai_data a' = replicate (length (ai_data a')) 0 \<or>
          (\<exists>ps. ai_data a' = pool_state_encode ps \<and> pool_ok rt (ai_key a) ps) \<or>
          (\<exists>pool ps args. known pool ps \<and> pool_ok rt pool ps \<and>
             ai_data a' = epoch_state_encode (new_epoch rt pool ps args) \<and>
             epoch_ok rt (ai_key a) (new_epoch rt pool ps args) pool ps)))"

definition known_pool :: "account_info list \<Rightarrow> pubkey \<Rightarrow> pool_state \<Rightarrow> bool" where
  "known_pool accs pool ps \<longleftrightarrow>
     (\<exists>a \<in> set accs. ai_key a = pool \<and> ai_owner a = ID \<and> \<not> ai_executable a
        \<and> ai_data a = pool_state_encode ps)"

lemma foreign_program: "foreign_change a a' \<Longrightarrow> program_change rt known a a'"
  by (auto simp: foreign_change_def program_change_def)

lemma foreigns_program:
  "list_all2 foreign_change accs accs' \<Longrightarrow> list_all2 (program_change rt known) accs accs'"
  by (erule list_all2_mono) (rule foreign_program)

lemma epoch_write_change:
  assumes "list_all2 foreign_change accs accs1" "i < length accs"
    and "opened rt ID pool (accs ! i) ps e" "epoch_move (rt_sha256 rt) (ai_key (accs ! i)) e e'"
  shows "list_all2 (program_change rt known) accs
    (accs1[i := (accs1 ! i)\<lparr>ai_data := epoch_state_encode e'\<rparr>])"
proof (rule list_all2_update [OF foreigns_program [OF assms(1)]])
  from assms(1,2) have "foreign_change (accs ! i) (accs1 ! i)"
    by (auto simp: list_all2_conv_all_nth)
  with assms(3,4) show "program_change rt known (accs ! i) ((accs1 ! i)\<lparr>ai_data := epoch_state_encode e'\<rparr>)"
    by (auto simp: foreign_change_def program_change_def opened_def)
qed

lemma lock_changes:
  assumes "lock rt ID accs p = Inr accs'"
  shows "distinct (map ai_key accs) \<and> list_all2 (program_change rt (known_pool accs)) accs accs'"
proof -
  from assms obtain ps e where ok: "lock_accounts_ok rt accs"
    and opened: "opened rt ID (accs ! 1) (accs ! 2) ps e" and "es_terminal_state e = Open"
    and "lock_payload_ok p (ai_key (accs ! 2)) e"
    and eq: "accs' = accs[2 := (accs ! 2)\<lparr>ai_data :=
        epoch_state_encode (lock_state (lock_payload_digest (rt_sha256 rt) p) p e)\<rparr>]"
    by (auto simp: lock_Inr)
  then have "epoch_move (rt_sha256 rt) (ai_key (accs ! 2)) e
      (lock_state (lock_payload_digest (rt_sha256 rt) p) p e)"
    by (intro move_lock)
  from epoch_write_change [OF foreigns_refl _ opened this] ok eq show ?thesis
    by (simp add: lock_accounts_ok_def)
qed

lemma terminal_changes:
  assumes "expire_or_abort rt ID accs abort = Inr accs'"
  shows "distinct (map ai_key accs) \<and> list_all2 (program_change rt (known_pool accs)) accs accs'"
proof -
  let ?t = "if abort then Aborted_epoch else Expired"
  from assms obtain ps e where ok: "terminal_accounts_ok rt accs"
    and opened: "opened rt ID (accs ! 1) (accs ! 2) ps e"
    and e: "es_terminal_state e = (if abort then Locked else Open)"
    and eq: "accs' = accs[2 := (accs ! 2)\<lparr>ai_data := epoch_state_encode (e\<lparr>es_terminal_state := ?t\<rparr>)\<rparr>]"
    by (auto simp: expire_or_abort_Inr)
  from e have "epoch_move (rt_sha256 rt) (ai_key (accs ! 2)) e (e\<lparr>es_terminal_state := ?t\<rparr>)"
    by (auto intro: move_expire move_abort split: if_splits)
  from epoch_write_change [OF foreigns_refl _ opened this] ok eq show ?thesis
    by (simp add: terminal_accounts_ok_def)
qed

lemma settle_changes:
  assumes "cpi_frame rt" and "settle rt ID accs p = Inr accs'"
  shows "distinct (map ai_key accs) \<and> list_all2 (program_change rt (known_pool accs)) accs accs'"
proof -
  from assms(2) obtain ps e b q accs1 where ok: "settle_accounts_ok rt accs"
    and opened: "opened rt ID (accs ! 1) (accs ! 2) ps e" and "es_terminal_state e = Locked"
    and "settle_payload_ok p (ai_key (accs ! 2)) e ps"
    and legs: "settle_legs rt (vault_seeds (ai_key (accs ! 1)) @ [[ps_vault_bump ps]])
        (sp_residual_side p) b q accs = Inr accs1"
    and eq: "accs' = accs1[2 := (accs1 ! 2)\<lparr>ai_data :=
        epoch_state_encode (settle_state (settlement_payload_digest (rt_sha256 rt) p) p e)\<rparr>]"
    by (auto simp: settle_Inr)
  then have "epoch_move (rt_sha256 rt) (ai_key (accs ! 2)) e
      (settle_state (settlement_payload_digest (rt_sha256 rt) p) p e)"
    by (intro move_settle)
  from epoch_write_change [OF legs_foreign [OF assms(1) legs] _ opened this] ok eq show ?thesis
    by (simp add: settle_accounts_ok_def)
qed

lemma initialize_changes:
  assumes "cpi_frame rt" and "initialize_pool rt ID accs args = Inr accs'"
  shows "distinct (map ai_key accs) \<and> list_all2 (program_change rt (known_pool accs)) accs accs'"
proof -
  from assms(2) obtain seeds accs1 where len: "length accs = 13" and d: "distinct (map ai_key accs)"
    and ok: "pool_ok rt (ai_key (accs ! 2)) (new_pool rt accs args)"
    and pda: "initialize_pda_account rt 0 2 11 ID seeds accs = Inr accs1"
    and eq: "accs' = accs1[2 := (accs1 ! 2)\<lparr>ai_data := pool_state_encode (new_pool rt accs args)\<rparr>]"
    by (rule initialize_pool_Inr)
  note frame = pda_foreign [OF assms(1) pda]
  have "foreign_change (accs ! 2) (accs1 ! 2)"
    using frame(1) len by (auto simp: list_all2_conv_all_nth)
  with frame ok have "program_change rt (known_pool accs) (accs ! 2)
      ((accs1 ! 2)\<lparr>ai_data := pool_state_encode (new_pool rt accs args)\<rparr>)"
    by (auto simp: program_change_def foreign_change_def)
  from list_all2_update [OF foreigns_program [OF frame(1)] this] d eq show ?thesis by simp
qed

lemma create_changes:
  assumes "cpi_frame rt" and "create_epoch rt ID accs args = Inr accs'"
  shows "distinct (map ai_key accs) \<and> list_all2 (program_change rt (known_pool accs)) accs accs'"
proof -
  let ?pool = "ai_key (accs ! 2)"
  from assms(2) obtain ps seeds accs1 where len: "length accs = 6" and d: "distinct (map ai_key accs)"
    and pool: "ai_owner (accs ! 2) = ID" "\<not> ai_executable (accs ! 2)"
      "ai_data (accs ! 2) = pool_state_encode ps" "pool_ok rt ?pool ps"
    and ok: "epoch_ok rt (ai_key (accs ! 3)) (new_epoch rt ?pool ps args) ?pool ps"
    and pda: "initialize_pda_account rt 0 3 4 ID seeds accs = Inr accs1"
    and eq: "accs' = accs1[3 := (accs1 ! 3)\<lparr>ai_data := epoch_state_encode (new_epoch rt ?pool ps args)\<rparr>]"
    by (rule create_epoch_Inr)
  note frame = pda_foreign [OF assms(1) pda]
  have "foreign_change (accs ! 3) (accs1 ! 3)"
    using frame(1) len by (auto simp: list_all2_conv_all_nth)
  moreover have "known_pool accs ?pool ps"
    using pool len by (auto simp: known_pool_def intro!: bexI [of _ "accs ! 2"])
  ultimately have "program_change rt (known_pool accs) (accs ! 3)
      ((accs1 ! 3)\<lparr>ai_data := epoch_state_encode (new_epoch rt ?pool ps args)\<rparr>)"
    using frame ok pool(4) unfolding program_change_def foreign_change_def by fastforce
  from list_all2_update [OF foreigns_program [OF frame(1)] this] d eq show ?thesis by simp
qed

lemma process_changes:
  assumes "cpi_frame rt" and "process_instruction rt program_id accs data = Inr accs'"
  shows "distinct (map ai_key accs) \<and> list_all2 (program_change rt (known_pool accs)) accs accs'"
proof -
  from assms(2) consider args where "initialize_pool rt ID accs args = Inr accs'"
    | args where "create_epoch rt ID accs args = Inr accs'"
    | p where "lock rt ID accs p = Inr accs'"
    | p where "settle rt ID accs p = Inr accs'"
    | abort where "expire_or_abort rt ID accs abort = Inr accs'"
    unfolding process_instruction_Inr by blast
  then show ?thesis
    by cases (use assms(1) in \<open>auto dest: initialize_changes create_changes lock_changes settle_changes
        terminal_changes\<close>)
qed

section \<open>The chain\<close>

record account =
  ac_owner :: pubkey
  ac_lamports :: u64
  ac_data :: "byte list"
  ac_executable :: bool

type_synonym chain = "pubkey \<Rightarrow> account"

definition load_account :: "chain \<Rightarrow> pubkey \<times> bool \<times> bool \<Rightarrow> account_info" where
  "load_account c = (\<lambda>(key, is_signer, is_writable).
     \<lparr> ai_key = key, ai_owner = ac_owner (c key), ai_lamports = ac_lamports (c key),
       ai_data = ac_data (c key), ai_is_signer = is_signer, ai_is_writable = is_writable,
       ai_executable = ac_executable (c key) \<rparr>)"

definition account_of :: "account_info \<Rightarrow> account" where
  "account_of a = \<lparr> ac_owner = ai_owner a, ac_lamports = ai_lamports a, ac_data = ai_data a,
     ac_executable = ai_executable a \<rparr>"

definition store_accounts :: "chain \<Rightarrow> account_info list \<Rightarrow> chain" where
  "store_accounts c accs = fold (\<lambda>a c. c(ai_key a := account_of a)) accs c"

definition holds_epoch :: "chain \<Rightarrow> pubkey \<Rightarrow> epoch_state \<Rightarrow> bool" where
  "holds_epoch c k e \<longleftrightarrow> ac_owner (c k) = ID \<and> \<not> ac_executable (c k) \<and> ac_data (c k) = epoch_state_encode e"

definition holds_pool :: "chain \<Rightarrow> pubkey \<Rightarrow> pool_state \<Rightarrow> bool" where
  "holds_pool c k ps \<longleftrightarrow> ac_owner (c k) = ID \<and> \<not> ac_executable (c k) \<and> ac_data (c k) = pool_state_encode ps"

definition info :: "chain \<Rightarrow> pubkey \<Rightarrow> account_info" where
  "info c k = load_account c (k, False, False)"

text \<open>
  \<open>same_base\<close>: hashing and address derivation are the same functions for every instruction, while
  the clock, the instructions sysvar and the invoked programs may differ from one to the next.
\<close>

definition same_base :: "runtime \<Rightarrow> runtime \<Rightarrow> bool" where
  "same_base base rt \<longleftrightarrow> rt_sha256 rt = rt_sha256 base
     \<and> rt_find_program_address rt = rt_find_program_address base"

definition foreign_step :: "chain \<Rightarrow> chain \<Rightarrow> bool" where
  "foreign_step c c' \<longleftrightarrow> (\<forall>k. foreign_change (info c k) (info c' k))"

inductive chain_step :: "runtime \<Rightarrow> chain \<Rightarrow> chain \<Rightarrow> bool" for base where
  program: "same_base base rt \<Longrightarrow> cpi_frame rt \<Longrightarrow>
    process_instruction rt ID (map (load_account c) metas) data = Inr accs \<Longrightarrow>
    chain_step base c (store_accounts c accs)"
| environment: "foreign_step c c' \<Longrightarrow> chain_step base c c'"

definition genesis :: "chain \<Rightarrow> bool" where
  "genesis c \<longleftrightarrow> (\<forall>k. ac_owner (c k) \<noteq> ID)"

definition reachable :: "runtime \<Rightarrow> chain \<Rightarrow> bool" where
  "reachable base c \<longleftrightarrow> (\<exists>c0. genesis c0 \<and> (chain_step base)\<^sup>*\<^sup>* c0 c)"

lemma same_base_ok:
  assumes "same_base base rt"
  shows "pool_ok rt = pool_ok base" "epoch_ok rt = epoch_ok base" "new_epoch rt = new_epoch base"
    "rt_sha256 rt = rt_sha256 base"
  using assms
  by (intro ext; simp add: same_base_def pool_ok_def epoch_ok_def new_epoch_def pool_address_def
      vault_authority_address_def epoch_address_def)+

lemma same_base_change: "same_base base rt \<Longrightarrow> program_change rt = program_change base"
  by (simp add: fun_eq_iff program_change_def same_base_ok)

lemma known_pool_mono:
  assumes "program_change rt known a b" "\<And>pool ps. known pool ps \<Longrightarrow> known' pool ps"
  shows "program_change rt known' a b"
  using assms unfolding program_change_def by meson

lemma store_other: "k \<notin> ai_key ` set accs \<Longrightarrow> store_accounts c accs k = c k"
  by (induction accs arbitrary: c) (simp_all add: store_accounts_def)

lemma store_at:
  "distinct (map ai_key accs) \<Longrightarrow> a \<in> set accs \<Longrightarrow> store_accounts c accs (ai_key a) = account_of a"
proof (induction accs arbitrary: c)
  case (Cons b accs)
  then show ?case
    using store_other [of "ai_key a" accs] by (auto simp: store_accounts_def)
qed simp

lemma change_keys:
  "list_all2 (program_change rt known) accs accs' \<Longrightarrow> map ai_key accs' = map ai_key accs"
  by (induction rule: list_all2_induct) (auto simp: program_change_def)

lemma change_only_state:
  "program_change rt known a b \<Longrightarrow> ai_key a' = ai_key a \<Longrightarrow> ai_owner a' = ai_owner a \<Longrightarrow>
   ai_data a' = ai_data a \<Longrightarrow> ai_executable a' = ai_executable a \<Longrightarrow> ai_key b' = ai_key b \<Longrightarrow>
   ai_owner b' = ai_owner b \<Longrightarrow> ai_data b' = ai_data b \<Longrightarrow> ai_executable b' = ai_executable b \<Longrightarrow>
   program_change rt known a' b'"
  by (simp add: program_change_def)

lemma step_change:
  assumes "chain_step base c c'"
  shows "program_change base (holds_pool c) (info c k) (info c' k)"
  using assms
proof cases
  case (program rt metas data accs)
  let ?accs = "map (load_account c) metas"
  have "distinct (map ai_key ?accs)" and ch: "list_all2 (program_change base (known_pool ?accs)) ?accs accs"
    using process_changes [OF program(3,4)] same_base_change [OF program(2)] by simp_all
  then have dist: "distinct (map ai_key accs)" by (metis change_keys)
  have known: "holds_pool c pool ps" if "known_pool ?accs pool ps" for pool ps
    using that by (auto simp: known_pool_def holds_pool_def load_account_def split: prod.splits)
  show ?thesis
  proof (cases "k \<in> ai_key ` set accs")
    case False
    then have "info c' k = info c k"
      using program(1) by (simp add: info_def load_account_def store_other)
    then show ?thesis by (simp add: foreign_program)
  next
    case True
    then obtain i where i: "i < length accs" and k: "k = ai_key (accs ! i)"
      by (auto simp: in_set_conv_nth)
    from ch i have pc: "program_change base (known_pool ?accs) (?accs ! i) (accs ! i)"
      and len: "length ?accs = length accs"
      by (simp_all add: list_all2_conv_all_nth)
    obtain key sig wr where m: "metas ! i = (key, sig, wr)" by (metis prod_cases3)
    have "key = k" using pc i len m by (simp add: program_change_def k load_account_def)
    moreover have "c' k = account_of (accs ! i)"
      unfolding program(1) k by (rule store_at [OF dist]) (use i in simp)
    ultimately have "program_change base (known_pool ?accs) (info c k) (info c' k)"
      using i len m k by (intro change_only_state [OF pc])
        (simp_all add: info_def load_account_def account_of_def)
    then show ?thesis by (rule known_pool_mono) (rule known)
  qed
next
  case environment
  then show ?thesis by (simp add: foreign_step_def foreign_program)
qed

section \<open>Histories of epochs and pools\<close>

lemma step_pool: "chain_step base c c' \<Longrightarrow> holds_pool c k ps \<Longrightarrow> holds_pool c' k ps"
  using step_change [of base c c' k] pool_not_epoch [of ps]
  by (auto simp: program_change_def holds_pool_def info_def load_account_def)

lemma step_epoch:
  assumes "chain_step base c c'" and "holds_epoch c k e"
  shows "\<exists>e'. holds_epoch c' k e' \<and> (e' = e \<or> epoch_move (rt_sha256 base) k e e')"
  using step_change [OF assms(1), of k] assms(2)
  by (auto simp: program_change_def holds_epoch_def info_def load_account_def)

lemma steps_pool: "(chain_step base)\<^sup>*\<^sup>* c c' \<Longrightarrow> holds_pool c k ps \<Longrightarrow> holds_pool c' k ps"
  by (induction rule: rtranclp_induct) (auto intro: step_pool)

lemma steps_epoch:
  assumes "(chain_step base)\<^sup>*\<^sup>* c c'" and "holds_epoch c k e"
  shows "\<exists>e'. holds_epoch c' k e' \<and> evolves (rt_sha256 base) k e e'"
  using assms
proof (induction rule: rtranclp_induct)
  case base
  then show ?case by (auto simp: evolves_def)
next
  case (step c1 c2)
  then obtain e1 where e1: "holds_epoch c1 k e1" "evolves (rt_sha256 base) k e e1" by blast
  with step_epoch [OF step.hyps(2) e1(1)] show ?case
    by (auto simp: evolves_def intro: rtranclp.rtrancl_into_rtrancl)
qed

text \<open>
  The invariant of an epoch account: it hangs below a valid pool, its configuration is the one its
  hash commits to, and the fields of every phase it has passed are what that phase recorded.
\<close>

definition settle_fields :: "epoch_state \<Rightarrow> u8 \<times> u32 \<times> bytes32 \<times> bytes32 \<times> bytes32" where
  "settle_fields e = (es_residual_side e, es_residual_lots e, es_result_commitment e,
     es_settlement_digest e, es_settlement_nonce e)"

definition lock_recorded :: "(byte list \<Rightarrow> bytes32) \<Rightarrow> pubkey \<Rightarrow> epoch_state \<Rightarrow> bool" where
  "lock_recorded sha256 k e \<longleftrightarrow> (\<exists>p. lock_payload_ok p k e \<and> lock_fields e =
     (lp_pre_balance_root p, lp_member_root p, lp_member_count p, lock_payload_digest sha256 p,
      lp_lock_nonce p))"

definition settle_recorded :: "(byte list \<Rightarrow> bytes32) \<Rightarrow> pubkey \<Rightarrow> epoch_state \<Rightarrow> bool" where
  "settle_recorded sha256 k e \<longleftrightarrow> (\<exists>p ps. settle_payload_ok p k e ps \<and> settle_fields e =
     (sp_residual_side p, sp_residual_lots p, sp_result_commitment p,
      settlement_payload_digest sha256 p, sp_settlement_nonce p))"

definition phase_ok :: "(byte list \<Rightarrow> bytes32) \<Rightarrow> pubkey \<Rightarrow> epoch_state \<Rightarrow> bool" where
  "phase_ok sha256 k e \<longleftrightarrow>
     (if es_terminal_state e = Open \<or> es_terminal_state e = Expired
      then lock_fields e = (0, 0, 0, 0, 0) else lock_recorded sha256 k e) \<and>
     (if es_terminal_state e = Settled
      then settle_recorded sha256 k e else settle_fields e = (0, 0, 0, 0, 0))"

lemma new_epoch_phase: "phase_ok sha256 k (new_epoch rt pool ps args)"
  by (simp add: phase_ok_def new_epoch_def lock_fields_def settle_fields_def)

lemma move_phase:
  assumes "epoch_move sha256 k e e'" and "phase_ok sha256 k e"
  shows "phase_ok sha256 k e'"
  using assms(1)
proof cases
  case (move_lock p)
  then have "lock_payload_ok p k e'" by (simp add: lock_payload_ok_def lock_state_def)
  with move_lock assms(2) show ?thesis
    unfolding phase_ok_def lock_recorded_def lock_state_def lock_fields_def settle_fields_def by auto
next
  case (move_settle p ps)
  then have "settle_payload_ok p k e' ps" by (simp add: settle_payload_ok_def settle_state_def)
  moreover have "lock_recorded sha256 k e'"
    using assms(2) move_settle
    by (auto simp: phase_ok_def lock_recorded_def lock_fields_def lock_payload_ok_def settle_state_def)
  ultimately show ?thesis
    using move_settle unfolding phase_ok_def settle_recorded_def settle_state_def settle_fields_def by auto
next
  case move_expire
  with assms(2) show ?thesis
    by (auto simp: phase_ok_def lock_fields_def settle_fields_def)
next
  case move_abort
  with assms(2) show ?thesis
    by (auto simp: phase_ok_def lock_recorded_def lock_fields_def lock_payload_ok_def settle_fields_def)
qed

lemma epoch_ok_frozen: "frozen e' = frozen e \<Longrightarrow> epoch_ok rt k e' pool ps \<longleftrightarrow> epoch_ok rt k e pool ps"
  by (simp add: frozen_def epoch_ok_def expected_configuration_def)

definition epoch_inv :: "runtime \<Rightarrow> chain \<Rightarrow> pubkey \<Rightarrow> epoch_state \<Rightarrow> bool" where
  "epoch_inv base c k e \<longleftrightarrow> phase_ok (rt_sha256 base) k e \<and>
     (\<exists>ps. holds_pool c (es_pool e) ps \<and> pool_ok base (es_pool e) ps \<and>
        epoch_ok base k e (es_pool e) ps)"

lemma new_epoch_pool [simp]: "es_pool (new_epoch rt pool ps args) = pool"
  by (simp add: new_epoch_def)

lemma step_epoch_origin:
  assumes step: "chain_step base c c'" and e': "holds_epoch c' k e'"
  obtains (old) e where "holds_epoch c k e" "e' = e \<or> epoch_move (rt_sha256 base) k e e'"
  | (created) pool ps args where "holds_pool c pool ps" "pool_ok base pool ps"
      "e' = new_epoch base pool ps args" "epoch_ok base k e' pool ps"
proof -
  note change = step_change [OF step, of k, unfolded program_change_def info_def load_account_def, simplified]
  from e' have data: "ac_owner (c' k) = ID" "\<not> ac_executable (c' k)" "ac_data (c' k) = epoch_state_encode e'"
    by (simp_all add: holds_epoch_def)
  show thesis
  proof (cases "ac_owner (c k) = ID")
    case True
    with change data obtain e where "holds_epoch c k e" "e' = e \<or> epoch_move (rt_sha256 base) k e e'"
      unfolding holds_epoch_def epoch_encode_inj by (metis epoch_encode_inj)
    then show thesis by (rule old)
  next
    case False
    with change data obtain pool ps args where "holds_pool c pool ps" "pool_ok base pool ps"
      "epoch_state_encode e' = epoch_state_encode (new_epoch base pool ps args)"
      "epoch_ok base k (new_epoch base pool ps args) pool ps"
      using zeroed_not_state(2) [of e'] pool_not_epoch [of _ e'] by metis
    then show thesis by (intro created) simp_all
  qed
qed

lemma step_epoch_inv:
  assumes step: "chain_step base c c'" and inv: "\<And>e. holds_epoch c k e \<Longrightarrow> epoch_inv base c k e"
    and e': "holds_epoch c' k e'"
  shows "epoch_inv base c' k e'"
  using step e'
proof (cases rule: step_epoch_origin)
  case (old e)
  from inv [OF old(1)] obtain ps where inv: "phase_ok (rt_sha256 base) k e" "holds_pool c (es_pool e) ps"
    "pool_ok base (es_pool e) ps" "epoch_ok base k e (es_pool e) ps" by (auto simp: epoch_inv_def)
  have frozen: "frozen e' = frozen e" using old(2) by (auto dest: move_frozen)
  then have pool: "es_pool e' = es_pool e" by (simp add: frozen_def)
  have "phase_ok (rt_sha256 base) k e'" using old(2) inv(1) move_phase by blast
  with inv frozen pool step_pool [OF step inv(2)] show ?thesis
    unfolding epoch_inv_def epoch_ok_frozen [OF frozen] by metis
next
  case (created pool ps args)
  then have "es_pool e' = pool" "phase_ok (rt_sha256 base) k e'" by (simp_all add: new_epoch_phase)
  with created step_pool [OF step created(1)] show ?thesis
    unfolding epoch_inv_def by metis
qed

lemma reachable_epoch_inv:
  assumes "reachable base c" and "holds_epoch c k e"
  shows "epoch_inv base c k e"
proof -
  from assms(1) obtain c0 where "genesis c0" "(chain_step base)\<^sup>*\<^sup>* c0 c" by (auto simp: reachable_def)
  from this(2) have "\<forall>e. holds_epoch c k e \<longrightarrow> epoch_inv base c k e"
  proof (induction rule: rtranclp_induct)
    case base
    then show ?case using \<open>genesis c0\<close> by (simp add: genesis_def holds_epoch_def)
  next
    case (step c1 c2)
    then show ?case using step_epoch_inv by blast
  qed
  with assms(2) show ?thesis by blast
qed

section \<open>Running one instruction\<close>

lemma process_encoded [simp]:
  "process_instruction rt ID accs (instruction_encode (InitializePool a)) = initialize_pool rt ID accs a"
  "process_instruction rt ID accs (instruction_encode (CreateEpoch c)) = create_epoch rt ID accs c"
  "process_instruction rt ID accs (instruction_encode (Lock p)) = lock rt ID accs p"
  "process_instruction rt ID accs (instruction_encode (Settle s)) = settle_compact rt ID accs s"
  "process_instruction rt ID accs (instruction_encode Expire) = expire_or_abort rt ID accs False"
  "process_instruction rt ID accs (instruction_encode Abort) = expire_or_abort rt ID accs True"
  unfolding process_instruction_def instruction_decode_encode by simp_all

lemma store_load:
  "(\<And>k. k \<notin> fst ` set metas \<Longrightarrow> c' k = c k) \<Longrightarrow> store_accounts c (map (load_account c') metas) = c'"
proof (rule ext)
  fix k assume same: "\<And>k. k \<notin> fst ` set metas \<Longrightarrow> c' k = c k"
  have "fold (\<lambda>a c. c(ai_key a := account_of a)) (map (load_account c') ms) d k =
      (if k \<in> fst ` set ms then c' k else d k)" for ms d
    by (induction ms arbitrary: d) (auto simp: load_account_def account_of_def)
  with same show "store_accounts c (map (load_account c') metas) k = c' k"
    by (simp add: store_accounts_def)
qed

end
