(* ===== verification/Demo_Chain.thy ===== *)
theory Demo_Chain
  imports Epoch_Chain
begin

text \<open>
  A concrete runtime and a concrete run (a pool is initialized, an epoch created, locked and
  settled) on which the hypotheses of the program's properties hold. Hashing and address
  derivation are simple total functions; the token and system programs do what they document.
\<close>

section \<open>A runtime\<close>

definition balance :: "account_info \<Rightarrow> u64" where
  "balance a = from_le_bytes (slice 64 72 (ai_data a))"

definition with_balance :: "u64 \<Rightarrow> account_info \<Rightarrow> account_info" where
  "with_balance v a = a\<lparr>ai_data := put 64 (to_le_bytes v) (ai_data a)\<rparr>"

definition demo_transfer :: "u64 \<Rightarrow> account_info list \<Rightarrow> program_error + account_info list" where
  "demo_transfer amount infos = (case infos of
     [src, mint, dst, auth, tok] \<Rightarrow>
       if ai_owner src = TOKEN_PROGRAM_ID \<and> ai_owner dst = TOKEN_PROGRAM_ID
          \<and> length (ai_data src) = 165 \<and> length (ai_data dst) = 165
          \<and> amount \<le> balance src \<and> unat (balance dst) + unat amount < 2 ^ 64
       then Inr [with_balance (balance src - amount) src, mint,
                 with_balance (balance dst + amount) dst, auth, tok]
       else Inl (Runtime_error 1)
   | _ \<Rightarrow> Inl (Runtime_error 2))"

definition demo_allocate :: "u64 \<Rightarrow> account_info list \<Rightarrow> program_error + account_info list" where
  "demo_allocate space infos = (case infos of
     [pda, sys] \<Rightarrow> if ai_owner pda = 0 \<and> ai_data pda = []
       then Inr [pda\<lparr>ai_data := replicate (unat space) 0\<rparr>, sys] else Inl (Runtime_error 3)
   | _ \<Rightarrow> Inl (Runtime_error 2))"

definition demo_assign :: "pubkey \<Rightarrow> account_info list \<Rightarrow> program_error + account_info list" where
  "demo_assign owner infos = (case infos of
     [pda, sys] \<Rightarrow> if ai_owner pda = 0 \<and> \<not> ai_executable pda
         \<and> ai_data pda = replicate (length (ai_data pda)) 0
       then Inr [pda\<lparr>ai_owner := owner\<rparr>, sys] else Inl (Runtime_error 4)
   | _ \<Rightarrow> Inl (Runtime_error 2))"

definition demo_pay :: "u64 \<Rightarrow> account_info list \<Rightarrow> program_error + account_info list" where
  "demo_pay lamports infos = (case infos of
     [payer, pda, sys] \<Rightarrow> Inr [payer\<lparr>ai_lamports := ai_lamports payer - lamports\<rparr>,
        pda\<lparr>ai_lamports := ai_lamports pda + lamports\<rparr>, sys]
   | _ \<Rightarrow> Inl (Runtime_error 2))"

fun demo_invoke :: "cpi \<Rightarrow> account_info list \<Rightarrow> seeds list \<Rightarrow> program_error + account_info list" where
  "demo_invoke (Transfer_checked _ _ _ _ _ _ amount _) infos _ = demo_transfer amount infos"
| "demo_invoke (System_transfer _ _ lamports) infos _ = demo_pay lamports infos"
| "demo_invoke (System_allocate _ space) infos _ = demo_allocate space infos"
| "demo_invoke (System_assign _ owner) infos _ = demo_assign owner infos"

definition demo_derive :: "seeds \<Rightarrow> pubkey \<Rightarrow> pubkey \<times> u8" where
  "demo_derive seeds _ = (if hd seeds = ascii ''pool'' then (10, 255)
     else if hd seeds = ascii ''vault'' then (11, 254) else (12, 253))"

definition demo_rt :: "instruction list \<Rightarrow> i64 \<Rightarrow> runtime" where
  "demo_rt ixs now =
     \<lparr> rt_sha256 = (\<lambda>bs. of_nat (length bs)),
       rt_find_program_address = demo_derive,
       rt_system_program = 0,
       rt_clock_id = 20,
       rt_instructions_id = 21,
       rt_ed25519_program = 22,
       rt_invoke_signed = demo_invoke,
       rt_minimum_balance = (\<lambda>_. Inr 1000),
       rt_clock_unix_timestamp = (\<lambda>_. Inr now),
       rt_current_index = (\<lambda>_. Inr (of_nat (length ixs))),
       rt_instruction_at = (\<lambda>i _. if i < length ixs then Inr (ixs ! i) else Inl (Runtime_error 0)) \<rparr>"

lemma demo_rt_simps [simp]:
  "rt_sha256 (demo_rt ixs now) = (\<lambda>bs. of_nat (length bs))"
  "rt_find_program_address (demo_rt ixs now) = demo_derive"
  "rt_system_program (demo_rt ixs now) = 0"
  "rt_clock_id (demo_rt ixs now) = 20"
  "rt_instructions_id (demo_rt ixs now) = 21"
  "rt_ed25519_program (demo_rt ixs now) = 22"
  "rt_invoke_signed (demo_rt ixs now) = demo_invoke"
  "rt_minimum_balance (demo_rt ixs now) = (\<lambda>_. Inr 1000)"
  "rt_clock_unix_timestamp (demo_rt ixs now) = (\<lambda>_. Inr now)"
  by (simp_all add: demo_rt_def)

lemma demo_addresses [simp]:
  "pool_address (demo_rt ixs now) a b c = (10, 255)"
  "vault_authority_address (demo_rt ixs now) p = (11, 254)"
  "epoch_address (demo_rt ixs now) p e = (12, 253)"
  by (simp_all add: pool_address_def vault_authority_address_def epoch_address_def demo_derive_def
      pool_seeds_def vault_seeds_def epoch_seeds_def ascii_def)

lemma demo_same_base [simp]: "same_base (demo_rt ixs now) (demo_rt ixs' now')"
  by (simp add: same_base_def)

lemma demo_preceding: "length ixs < 2 ^ 16 \<Longrightarrow> preceding (demo_rt ixs now) acc ixs"
  by (simp add: preceding_def demo_rt_def)

lemma ID_nonzero [simp]: "ID \<noteq> 0" "TOKEN_PROGRAM_ID \<noteq> ID" "TOKEN_PROGRAM_ID \<noteq> 0"
  by (simp_all add: ID_num)

lemma token_program_fresh [simp]:
  "TOKEN_PROGRAM_ID \<noteq> 1"
  "TOKEN_PROGRAM_ID \<noteq> 2"
  "TOKEN_PROGRAM_ID \<noteq> 3"
  "TOKEN_PROGRAM_ID \<noteq> 4"
  "TOKEN_PROGRAM_ID \<noteq> 5"
  "TOKEN_PROGRAM_ID \<noteq> 6"
  "TOKEN_PROGRAM_ID \<noteq> 7"
  "TOKEN_PROGRAM_ID \<noteq> 8"
  "TOKEN_PROGRAM_ID \<noteq> 10"
  "TOKEN_PROGRAM_ID \<noteq> 11"
  "TOKEN_PROGRAM_ID \<noteq> 12"
  "TOKEN_PROGRAM_ID \<noteq> 20"
  "TOKEN_PROGRAM_ID \<noteq> 21"
  "TOKEN_PROGRAM_ID \<noteq> 70"
  by (simp_all add: ID_num)

lemma demo_frame: "cpi_frame (demo_rt ixs now)"
proof -
  have "list_all2 foreign_change infos infos'" if "demo_invoke ix infos seeds = Inr infos'" for ix infos seeds infos'
    using that
    by (cases ix) (auto simp: demo_transfer_def demo_pay_def demo_allocate_def demo_assign_def
        with_balance_def foreign_change_def split: list.splits if_splits)
  then show ?thesis by (simp add: cpi_frame_def)
qed

section \<open>The actors\<close>

definition demo_pool :: pool_state where
  "demo_pool =
     \<lparr> ps_pool_bump = 255, ps_vault_bump = 254, ps_lock_threshold = 2, ps_settlement_threshold = 2,
       ps_operator = 1, ps_base_mint = 2, ps_quote_mint = 3, ps_pool_base_vault = 4,
       ps_pool_quote_vault = 5, ps_venue_authority = 6, ps_venue_base_account = 7,
       ps_venue_quote_account = 8, ps_keypers = (31, 32, 33), ps_base_lot_atoms = 100 \<rparr>"

definition demo_pool_args :: initialize_pool_args where
  "demo_pool_args = \<lparr> ip_lock_threshold = 2, ip_settlement_threshold = 2, ip_base_lot_atoms = 100,
     ip_keypers = (31, 32, 33) \<rparr>"

definition demo_epoch_args :: create_epoch_args where
  "demo_epoch_args = \<lparr> ce_epoch_id = 9, ce_minimum_count = 4, ce_quote_atoms_per_lot = 7,
     ce_lock_deadline = 1000, ce_abort_deadline = 2000 \<rparr>"

definition demo_epoch :: epoch_state where
  "demo_epoch = new_epoch (demo_rt [] 0) 10 demo_pool demo_epoch_args"

definition demo_lock :: lock_payload where
  "demo_lock = \<lparr> lp_epoch_account = 12, lp_configuration_hash = es_configuration_hash demo_epoch,
     lp_pre_balance_root = 51, lp_member_root = 52, lp_member_count = 4, lp_lock_deadline = 1000,
     lp_lock_nonce = 53 \<rparr>"

definition demo_lock_digest :: bytes32 where
  "demo_lock_digest = lock_payload_digest (rt_sha256 (demo_rt [] 0)) demo_lock"

definition demo_locked :: epoch_state where
  "demo_locked = lock_state demo_lock_digest demo_lock demo_epoch"

definition demo_compact :: compact_settlement_payload where
  "demo_compact = \<lparr> cs_result_commitment = 61, cs_residual_side = 1, cs_residual_lots = 3,
     cs_settlement_nonce = 62 \<rparr>"

definition demo_settlement :: settlement_payload where
  "demo_settlement = full_payload 12 demo_pool demo_locked demo_compact"

definition demo_settlement_digest :: bytes32 where
  "demo_settlement_digest = settlement_payload_digest (rt_sha256 (demo_rt [] 0)) demo_settlement"

definition demo_verify :: "pubkey \<Rightarrow> bytes32 \<Rightarrow> instruction" where
  "demo_verify k d = strict_instruction (demo_rt [] 0) k 0 d"

definition demo_signatures :: "bytes32 \<Rightarrow> instruction list" where
  "demo_signatures d = [demo_verify 33 d, demo_verify 31 d]"

lemma demo_parse [simp]:
  "parse_strict_ed25519 (demo_rt ixs now) (demo_verify k d) = Inr \<lparr>se_signer = k, se_digest = d\<rparr>"
proof -
  have "demo_verify k d = strict_instruction (demo_rt ixs now) k 0 d"
    by (simp add: demo_verify_def strict_instruction_def)
  then show ?thesis by simp
qed

lemma demo_quorum: "quorum (demo_rt (demo_signatures d) now) acc (31, 32, 33) d"
proof -
  have "signed_by (demo_rt (demo_signatures d) now) (demo_signatures d) d k \<longleftrightarrow> k = 33 \<or> k = 31" for k
    by (auto simp: signed_by_def demo_signatures_def)
  then have "{k \<in> set (keyper_list (31, 32, 33)). signed_by (demo_rt (demo_signatures d) now) (demo_signatures d) d k} = {31, 33}"
    by auto
  then show ?thesis
    using demo_preceding [of "demo_signatures d" now acc] by (auto simp: quorum_def demo_signatures_def)
qed

lemma demo_pool_ok: "pool_ok (demo_rt ixs now) 10 demo_pool"
  by (simp add: pool_ok_def demo_pool_def)

lemma demo_epoch_ok: "epoch_ok (demo_rt ixs now) 12 demo_epoch 10 demo_pool"
  by (simp add: epoch_ok_def demo_epoch_def new_epoch_def demo_epoch_args_def expected_configuration_def
      demo_pool_def word_sless_alt)

lemma demo_locked_ok: "epoch_ok (demo_rt ixs now) 12 demo_locked 10 demo_pool"
proof -
  have "frozen demo_locked = frozen demo_epoch" by (simp add: frozen_def demo_locked_def lock_state_def)
  then show ?thesis using demo_epoch_ok epoch_ok_frozen by blast
qed

section \<open>A run\<close>

definition mint_data :: "byte list" where
  "mint_data = replicate 44 0 @ [0, 1] @ replicate 36 0"

definition token_data :: "pubkey \<Rightarrow> pubkey \<Rightarrow> u64 \<Rightarrow> byte list" where
  "token_data mint authority amount =
     arr_bytes mint @ arr_bytes authority @ to_le_bytes amount @ replicate 36 0 @ [1] @ replicate 56 0"

definition token_account :: "pubkey \<Rightarrow> pubkey \<Rightarrow> u64 \<Rightarrow> account" where
  "token_account mint authority amount = \<lparr> ac_owner = TOKEN_PROGRAM_ID, ac_lamports = 1,
     ac_data = token_data mint authority amount, ac_executable = False \<rparr>"

definition mint_account :: account where
  "mint_account = \<lparr> ac_owner = TOKEN_PROGRAM_ID, ac_lamports = 1, ac_data = mint_data, ac_executable = False \<rparr>"

definition plain_account :: "u64 \<Rightarrow> bool \<Rightarrow> account" where
  "plain_account lamports executable =
     \<lparr> ac_owner = 0, ac_lamports = lamports, ac_data = [], ac_executable = executable \<rparr>"

definition demo_genesis :: chain where
  "demo_genesis k =
     (if k = 2 \<or> k = 3 then mint_account
      else if k = 4 then token_account 2 11 5000
      else if k = 5 then token_account 3 11 5000
      else if k = 7 then token_account 2 6 5000
      else if k = 8 then token_account 3 6 5000
      else plain_account (if k = 70 then 5000 else 0) (k = 0 \<or> k = TOKEN_PROGRAM_ID))"

definition demo_init :: instruction where
  "demo_init = initialize_pool_instruction (demo_rt [] 0)
     \<lparr> ipa_payer = 70, ipa_operator = 1, ipa_pool = 10, ipa_vault_authority = 11, ipa_base_mint = 2,
       ipa_quote_mint = 3, ipa_pool_base_vault = 4, ipa_pool_quote_vault = 5, ipa_venue_authority = 6,
       ipa_venue_base_account = 7, ipa_venue_quote_account = 8 \<rparr> demo_pool_args"

definition run :: "runtime \<Rightarrow> chain \<Rightarrow> instruction \<Rightarrow> program_error + account_info list" where
  "run rt c ix = process_instruction rt ID (map (load_account c) (ix_accounts ix)) (ix_data ix)"

definition program_account :: "byte list \<Rightarrow> account" where
  "program_account data = \<lparr> ac_owner = ID, ac_lamports = 1000, ac_data = data, ac_executable = False \<rparr>"

lemma demo_mint_ok: "ai_owner a = TOKEN_PROGRAM_ID \<Longrightarrow> \<not> ai_executable a \<Longrightarrow> ai_data a = mint_data \<Longrightarrow> validate_mint a = Inr ()"
  by (simp add: validate_mint_Inr mint_ok_def mint_data_def nth_append)

lemma demo_token_ok: "ai_owner a = TOKEN_PROGRAM_ID \<Longrightarrow> \<not> ai_executable a \<Longrightarrow> ai_data a = token_data m k v \<Longrightarrow>
    validate_token_account a m k = Inr ()"
  by (simp add: validate_token_account_Inr token_ok_def token_data_def nth_append bytes_simps)

lemma demo_genesis_at [simp]:
  "demo_genesis 0 = plain_account 0 True" "demo_genesis TOKEN_PROGRAM_ID = plain_account 0 True"
  "demo_genesis 1 = plain_account 0 False" "demo_genesis 2 = mint_account"
  "demo_genesis 3 = mint_account" "demo_genesis 4 = token_account 2 11 5000"
  "demo_genesis 5 = token_account 3 11 5000" "demo_genesis 6 = plain_account 0 False"
  "demo_genesis 7 = token_account 2 6 5000" "demo_genesis 8 = token_account 3 6 5000"
  "demo_genesis 10 = plain_account 0 False" "demo_genesis 11 = plain_account 0 False"
  "demo_genesis 12 = plain_account 0 False" "demo_genesis 20 = plain_account 0 False"
  "demo_genesis 21 = plain_account 0 False" "demo_genesis 70 = plain_account 5000 False"
  by (simp_all add: demo_genesis_def)

lemma account_simps [simp]:
  "ac_owner (plain_account l x) = 0" "ac_data (plain_account l x) = []"
  "ac_executable (plain_account l x) = x" "ac_lamports (plain_account l x) = l"
  "ac_owner mint_account = TOKEN_PROGRAM_ID" "ac_data mint_account = mint_data"
  "\<not> ac_executable mint_account" "ac_lamports mint_account = 1"
  "ac_owner (token_account m k v) = TOKEN_PROGRAM_ID" "ac_data (token_account m k v) = token_data m k v"
  "\<not> ac_executable (token_account m k v)" "ac_lamports (token_account m k v) = 1"
  "ac_owner (program_account d) = ID" "ac_data (program_account d) = d"
  "\<not> ac_executable (program_account d)" "ac_lamports (program_account d) = 1000"
  by (simp_all add: plain_account_def mint_account_def token_account_def program_account_def)

lemmas run_defs = run_def meta_new_def meta_readonly_def load_account_def
lemmas check_defs = Let_def require_account_flags_def require_distinct_def require_program_account_def
  demo_mint_ok demo_token_ok
lemmas pda_defs = initialize_pda_account_def checked_sub_def invoke_def invoke_signed_def demo_pay_def
  demo_allocate_def demo_assign_def write_back_def write_data_def STATE_LEN_def

lemma demo_init_run:
  "run (demo_rt [] 500) demo_genesis demo_init =
     Inr (map (load_account (demo_genesis(70 := plain_account 4000 False,
       10 := program_account (pool_state_encode demo_pool)))) (ix_accounts demo_init))"
proof -
  have "run (demo_rt [] 500) demo_genesis demo_init =
     initialize_pool (demo_rt [] 500) ID (map (load_account demo_genesis) (ix_accounts demo_init)) demo_pool_args"
    by (simp add: run_def demo_init_def initialize_pool_instruction_def)
  also have "\<dots> = Inr (map (load_account (demo_genesis(70 := plain_account 4000 False,
       10 := program_account (pool_state_encode demo_pool)))) (ix_accounts demo_init))"
    by (simp add: demo_init_def initialize_pool_instruction_def run_defs initialize_pool_def check_defs
        demo_pool_args_def pda_defs demo_pool_def)
  finally show ?thesis .
qed

definition demo_chain1 :: chain where
  "demo_chain1 = demo_genesis(70 := plain_account 4000 False,
     10 := program_account (pool_state_encode demo_pool))"

definition demo_create :: instruction where
  "demo_create = create_epoch_instruction (demo_rt [] 0) 70 1 10 12 demo_epoch_args"

definition demo_chain2 :: chain where
  "demo_chain2 = demo_chain1(70 := plain_account 3000 False,
     12 := program_account (epoch_state_encode demo_epoch))"

definition demo_lock_ix :: instruction where
  "demo_lock_ix = lock_instruction (demo_rt [] 0) 70 10 12 demo_lock"

definition demo_chain3 :: chain where
  "demo_chain3 = demo_chain2(12 := program_account (epoch_state_encode demo_locked))"

definition demo_settle_ix :: instruction where
  "demo_settle_ix = settle_instruction (demo_rt [] 0)
     \<lparr> sa_payer = 70, sa_pool = 10, sa_epoch = 12, sa_vault_authority = 11, sa_pool_base_vault = 4,
       sa_pool_quote_vault = 5, sa_venue_authority = 6, sa_venue_base_account = 7,
       sa_venue_quote_account = 8, sa_base_mint = 2, sa_quote_mint = 3 \<rparr> demo_settlement"

definition demo_settled :: epoch_state where
  "demo_settled = settle_state demo_settlement_digest demo_settlement demo_locked"

definition demo_chain4 :: chain where
  "demo_chain4 = demo_chain3(4 := token_account 2 11 5300, 5 := token_account 3 11 4979,
     7 := token_account 2 6 4700, 8 := token_account 3 6 5021,
     12 := program_account (epoch_state_encode demo_settled))"

lemma demo_create_run:
  "run (demo_rt [] 500) demo_chain1 demo_create =
     Inr (map (load_account demo_chain2) (ix_accounts demo_create))"
proof -
  have ok: "validate_pool_state (demo_rt [] 500) a demo_pool = Inr ()" if "ai_key a = 10" for a
    using that demo_pool_ok by (simp add: validate_pool_state_Inr)
  have "run (demo_rt [] 500) demo_chain1 demo_create =
     create_epoch (demo_rt [] 500) ID (map (load_account demo_chain1) (ix_accounts demo_create)) demo_epoch_args"
    by (simp add: run_def demo_create_def create_epoch_instruction_def)
  also have "\<dots> = Inr (map (load_account demo_chain2) (ix_accounts demo_create))"
    by (simp add: demo_create_def create_epoch_instruction_def run_defs create_epoch_def check_defs
        demo_chain1_def demo_chain2_def ok pda_defs demo_epoch_args_def demo_epoch_def new_epoch_def
        word_sle_eq) (simp add: demo_pool_def)
  finally show ?thesis .
qed

lemma demo_lock_run:
  "run (demo_rt (demo_signatures demo_lock_digest) 900) demo_chain2 demo_lock_ix =
     Inr (map (load_account demo_chain3) (ix_accounts demo_lock_ix))"
proof -
  let ?rt = "demo_rt (demo_signatures demo_lock_digest) 900"
  let ?accs = "map (load_account demo_chain2) (ix_accounts demo_lock_ix)"
  have digest: "lock_payload_digest (\<lambda>bs. of_nat (length bs)) demo_lock = demo_lock_digest"
    by (simp add: demo_lock_digest_def)
  have "lock ?rt ID ?accs demo_lock = Inr (map (load_account demo_chain3) (ix_accounts demo_lock_ix))"
    unfolding lock_Inr
  proof (intro conjI exI)
    show "lock_accounts_ok ?rt ?accs"
      by (simp add: lock_accounts_ok_def demo_lock_ix_def lock_instruction_def run_defs flags_def
          demo_chain1_def demo_chain2_def)
    show "opened ?rt ID (?accs ! 1) (?accs ! 2) demo_pool demo_epoch"
      by (simp add: opened_def demo_lock_ix_def lock_instruction_def run_defs demo_chain1_def
          demo_chain2_def demo_pool_ok demo_epoch_ok)
    show "quorum ?rt (?accs ! 3) (ps_keypers demo_pool) (lock_payload_digest (rt_sha256 ?rt) demo_lock)"
      using demo_quorum by (simp add: digest demo_pool_def)
    show "lock_payload_ok demo_lock (ai_key (?accs ! 2)) demo_epoch"
      by (simp add: lock_payload_ok_def demo_lock_def demo_lock_ix_def lock_instruction_def run_defs
          demo_epoch_def new_epoch_def demo_epoch_args_def)
    show "es_terminal_state demo_epoch = Open" "900 <s es_lock_deadline demo_epoch"
      by (simp_all add: demo_epoch_def new_epoch_def demo_epoch_args_def word_sless_alt)
  qed (simp_all add: demo_lock_ix_def lock_instruction_def run_defs demo_chain2_def demo_chain3_def
      demo_chain1_def demo_locked_def digest)
  then show ?thesis by (simp add: run_def demo_lock_ix_def lock_instruction_def del: instruction_encode.simps)
qed

lemma token_data_balance [simp]:
  "put 64 (to_le_bytes w) (token_data m k v) = token_data m k w"
  "from_le_bytes (slice 64 72 (token_data m k v)) = v" "length (token_data m k v) = 165"
  by (simp_all add: token_data_def bytes_simps)

lemma demo_settle_handler:
  "settle_compact (demo_rt (demo_signatures demo_settlement_digest) 1500) ID
     (map (load_account demo_chain3) (ix_accounts demo_settle_ix)) demo_compact =
   Inr (map (load_account demo_chain4) (ix_accounts demo_settle_ix))"
proof -
  let ?rt = "demo_rt (demo_signatures demo_settlement_digest) 1500"
  let ?accs = "map (load_account demo_chain3) (ix_accounts demo_settle_ix)"
  note chain = demo_settle_ix_def settle_instruction_def run_defs demo_chain1_def demo_chain2_def
    demo_chain3_def demo_chain4_def
  have digest: "settlement_payload_digest (\<lambda>bs. of_nat (length bs)) demo_settlement = demo_settlement_digest"
    by (simp add: demo_settlement_digest_def)
  have prices: "es_base_lot_atoms demo_locked = 100" "es_quote_atoms_per_lot demo_locked = 7"
    "sp_residual_lots demo_settlement = 3" "sp_residual_side demo_settlement = 1"
    by (simp_all add: demo_locked_def lock_state_def demo_epoch_def new_epoch_def demo_epoch_args_def
        demo_pool_def demo_settlement_def full_payload_def demo_compact_def)
  have "settle ?rt ID ?accs demo_settlement = Inr (map (load_account demo_chain4) (ix_accounts demo_settle_ix))"
    unfolding settle_Inr
  proof (intro conjI exI)
    show "settle_accounts_ok ?rt ?accs"
      by (simp add: settle_accounts_ok_def chain flags_def)
    show "opened ?rt ID (?accs ! 1) (?accs ! 2) demo_pool demo_locked"
      by (simp add: opened_def chain demo_pool_ok demo_locked_ok)
    show "es_terminal_state demo_locked = Locked" "1500 \<le>s es_abort_deadline demo_locked"
      by (simp_all add: demo_locked_def lock_state_def demo_epoch_def new_epoch_def demo_epoch_args_def word_sle_eq)
    show "settle_tokens_ok ?rt ?accs demo_pool"
      by (simp add: settle_tokens_ok_def chain demo_pool_def mint_ok_def mint_data_def token_ok_def
          token_data_def nth_append bytes_simps)
    show "settle_payload_ok demo_settlement (ai_key (?accs ! 2)) demo_locked demo_pool"
      by (simp add: settle_payload_ok_def demo_settlement_def full_payload_def demo_compact_def
          valid_residual_def chain demo_locked_def lock_state_def demo_lock_def)
    show "quorum ?rt (?accs ! 12) (ps_keypers demo_pool) (settlement_payload_digest (rt_sha256 ?rt) demo_settlement)"
      using demo_quorum by (simp add: digest demo_pool_def)
    show "leg_amount (es_base_lot_atoms demo_locked) (sp_residual_lots demo_settlement) 300"
      "leg_amount (es_quote_atoms_per_lot demo_locked) (sp_residual_lots demo_settlement) 21"
      by (simp_all add: leg_amount_def prices)
    show "settle_legs ?rt (vault_seeds (ai_key (?accs ! 1)) @ [[ps_vault_bump demo_pool]])
        (sp_residual_side demo_settlement) 300 21 ?accs =
        Inr (map (load_account (demo_chain4(12 := demo_chain3 12))) (ix_accounts demo_settle_ix))"
      by (simp add: settle_legs_def prices transfer_checked_def Let_def invoke_def invoke_signed_def chain
          demo_transfer_def balance_def with_balance_def write_back_def)
  qed (simp_all add: chain demo_settled_def digest)
  then show ?thesis
    by (auto simp: settle_compact_Inr demo_settlement_def intro!: exI [of _ demo_settlement])
qed

lemma demo_settle_run:
  "run (demo_rt (demo_signatures demo_settlement_digest) 1500) demo_chain3 demo_settle_ix =
     Inr (map (load_account demo_chain4) (ix_accounts demo_settle_ix))"
proof -
  have "ix_data demo_settle_ix = instruction_encode (Settle demo_compact)"
    by (simp add: demo_settle_ix_def settle_instruction_def demo_settlement_def)
  then show ?thesis using demo_settle_handler by (simp add: run_def)
qed

lemma run_step:
  assumes "run (demo_rt ixs now) c ix = Inr (map (load_account c') (ix_accounts ix))"
    and "\<And>k. k \<notin> fst ` set (ix_accounts ix) \<Longrightarrow> c' k = c k"
  shows "chain_step (demo_rt [] 0) c c'"
proof -
  have "store_accounts c (map (load_account c') (ix_accounts ix)) = c'"
    using assms(2) by (rule store_load)
  then show ?thesis
    using chain_step.program [OF demo_same_base demo_frame, of ixs now c "ix_accounts ix" "ix_data ix"] assms(1)
    by (metis run_def demo_same_base demo_frame chain_step.program)
qed

lemma demo_steps:
  "chain_step (demo_rt [] 0) demo_genesis demo_chain1"
  "chain_step (demo_rt [] 0) demo_chain1 demo_chain2"
  "chain_step (demo_rt [] 0) demo_chain2 demo_chain3"
  "chain_step (demo_rt [] 0) demo_chain3 demo_chain4"
proof -
  show "chain_step (demo_rt [] 0) demo_genesis demo_chain1"
    by (rule run_step [OF demo_init_run [folded demo_chain1_def]])
      (auto simp: demo_chain1_def demo_init_def initialize_pool_instruction_def meta_new_def meta_readonly_def)
  show "chain_step (demo_rt [] 0) demo_chain1 demo_chain2"
    by (rule run_step [OF demo_create_run])
      (auto simp: demo_chain2_def demo_create_def create_epoch_instruction_def meta_new_def meta_readonly_def)
  show "chain_step (demo_rt [] 0) demo_chain2 demo_chain3"
    by (rule run_step [OF demo_lock_run])
      (auto simp: demo_chain3_def demo_lock_ix_def lock_instruction_def meta_new_def meta_readonly_def)
  show "chain_step (demo_rt [] 0) demo_chain3 demo_chain4"
    by (rule run_step [OF demo_settle_run])
      (auto simp: demo_chain4_def demo_settle_ix_def settle_instruction_def meta_new_def meta_readonly_def)
qed

lemma demo_genesis_ok: "genesis demo_genesis"
  by (simp add: genesis_def demo_genesis_def)

lemma demo_reachable:
  "reachable (demo_rt [] 0) demo_chain2" "reachable (demo_rt [] 0) demo_chain3"
  "reachable (demo_rt [] 0) demo_chain4"
proof -
  let ?step = "chain_step (demo_rt [] 0)"
  have "?step\<^sup>*\<^sup>* demo_genesis demo_chain2"
    by (rule rtranclp_trans [OF r_into_rtranclp r_into_rtranclp]) (rule demo_steps)+
  moreover from this have "?step\<^sup>*\<^sup>* demo_genesis demo_chain3" using demo_steps(3) by simp
  moreover from this have "?step\<^sup>*\<^sup>* demo_genesis demo_chain4" using demo_steps(4) by simp
  ultimately show "reachable (demo_rt [] 0) demo_chain2" "reachable (demo_rt [] 0) demo_chain3"
    "reachable (demo_rt [] 0) demo_chain4"
    using demo_genesis_ok unfolding reachable_def by blast+
qed

lemma demo_holds:
  "holds_epoch demo_chain2 12 demo_epoch" "holds_epoch demo_chain3 12 demo_locked"
  "holds_epoch demo_chain4 12 demo_settled" "holds_pool demo_chain1 10 demo_pool"
  "holds_pool demo_chain2 10 demo_pool"
  by (simp_all add: holds_epoch_def holds_pool_def demo_chain1_def demo_chain2_def demo_chain3_def demo_chain4_def)

end
