(* ===== verification/Program_Properties.thy ===== *)
theory Program_Properties
  imports Demo_Chain
begin

text \<open>
  The properties of the on-chain program, over the handlers of \<open>Processor\<close> and the transition system
  of \<open>Epoch_Chain\<close>.
\<close>

section \<open>Token movements\<close>

text \<open>
  The balance field of an SPL token account, and what the token program promises of a transfer
  between two different accounts: the source pays exactly the amount, the destination receives it.
\<close>

definition token_balance :: "account_info \<Rightarrow> nat" where
  "token_balance a = unat (from_le_bytes (slice 64 72 (ai_data a)) :: u64)"

definition spl_transfer :: "runtime \<Rightarrow> bool" where
  "spl_transfer rt \<longleftrightarrow>
     (\<forall>tp s m d a signers amount dec src mint dst auth tok seeds infos.
        rt_invoke_signed rt (Transfer_checked tp s m d a signers amount dec)
          [src, mint, dst, auth, tok] seeds = Inr infos \<longrightarrow> ai_key src \<noteq> ai_key dst \<longrightarrow>
        (\<exists>src' mint' dst' auth' tok'. infos = [src', mint', dst', auth', tok'] \<and>
           token_balance src' + unat amount = token_balance src \<and>
           token_balance dst' = token_balance dst + unat amount))"

lemma spl_transferD:
  "spl_transfer rt \<Longrightarrow> rt_invoke_signed rt (Transfer_checked tp s m d a signers amount dec)
     [src, mint, dst, auth, tok] seeds = Inr infos \<Longrightarrow> ai_key src \<noteq> ai_key dst \<Longrightarrow>
   \<exists>src' mint' dst' auth' tok'. infos = [src', mint', dst', auth', tok'] \<and>
     token_balance src' + unat amount = token_balance src \<and>
     token_balance dst' = token_balance dst + unat amount"
  unfolding spl_transfer_def by (elim allE impE) assumption+

lemma transfer_balances:
  assumes "spl_transfer rt" and "transfer_checked rt s m d a t amount seeds accs = Inr accs'"
    and "distinct [s, m, d, a, t]" and "{s, m, d, a, t} \<subseteq> {..<length accs}"
    and "distinct (map ai_key accs)"
  shows "token_balance (accs' ! s) + unat amount = token_balance (accs ! s)"
    and "token_balance (accs' ! d) = token_balance (accs ! d) + unat amount"
    and "\<And>i. i \<notin> {s, m, d, a, t} \<Longrightarrow> accs' ! i = accs ! i"
    and "length accs' = length accs"
proof -
  have ne_key: "ai_key (accs ! s) \<noteq> ai_key (accs ! d)"
    using assms(3-5) nth_eq_iff_index_eq [OF assms(5), of s d] by auto
  from assms(2) obtain seeds' infos where
    inv: "rt_invoke_signed rt (Transfer_checked (ai_key (accs ! t)) (ai_key (accs ! s)) (ai_key (accs ! m))
       (ai_key (accs ! d)) (ai_key (accs ! a)) [] amount 0)
       [accs ! s, accs ! m, accs ! d, accs ! a, accs ! t] seeds' = Inr infos"
    and accs': "accs' = write_back [s, m, d, a, t] infos accs"
    by (auto simp: transfer_checked_def invoke_def invoke_signed_def Let_def res_simps split: option.splits)
  from spl_transferD [OF assms(1) inv ne_key] obtain src' mint' dst' auth' tok' where
    infos: "infos = [src', mint', dst', auth', tok']"
    and bal: "token_balance src' + unat amount = token_balance (accs ! s)"
      "token_balance dst' = token_balance (accs ! d) + unat amount" by blast
  have eq: "accs' = accs[s := src', m := mint', d := dst', a := auth', t := tok']"
    by (simp add: accs' infos write_back_def)
  have len: "s < length accs" "d < length accs" and ne: "s \<noteq> m" "s \<noteq> d" "s \<noteq> a" "s \<noteq> t" "d \<noteq> a" "d \<noteq> t"
    using assms(3,4) by auto
  show "token_balance (accs' ! s) + unat amount = token_balance (accs ! s)"
    using bal(1) len ne by (simp add: eq)
  show "token_balance (accs' ! d) = token_balance (accs ! d) + unat amount"
    using bal(2) len ne by (simp add: eq)
  show "\<And>i. i \<notin> {s, m, d, a, t} \<Longrightarrow> accs' ! i = accs ! i" by (simp add: eq)
  show "length accs' = length accs" by (simp add: eq)
qed

text \<open>
  \<open>settled_balances\<close>: the four token balances of a settlement (pool base, pool quote, venue base,
  venue quote, at the positions 4, 5, 7 and 8) before and after. On side 1 the pool pays quote and
  receives base, on side 2 the reverse, on side 0 nothing moves.
\<close>

definition settled_balances :: "u8 \<Rightarrow> nat \<Rightarrow> nat \<Rightarrow> account_info list \<Rightarrow> account_info list \<Rightarrow> bool" where
  "settled_balances side base quote accs accs' \<longleftrightarrow>
     (let pb = token_balance (accs ! 4); pq = token_balance (accs ! 5);
          vb = token_balance (accs ! 7); vq = token_balance (accs ! 8);
          pb' = token_balance (accs' ! 4); pq' = token_balance (accs' ! 5);
          vb' = token_balance (accs' ! 7); vq' = token_balance (accs' ! 8)
      in if side = 0 then pb' = pb \<and> pq' = pq \<and> vb' = vb \<and> vq' = vq
         else if side = 1 then pq' + quote = pq \<and> vq' = vq + quote \<and> vb' + base = vb \<and> pb' = pb + base
         else pb' + base = pb \<and> vb' = vb + base \<and> vq' + quote = vq \<and> pq' = pq + quote)"

lemma keys_after_transfer:
  assumes "cpi_frame rt" "transfer_checked rt s m d a t n seeds accs = Inr accs'"
  shows "map ai_key accs' = map ai_key accs"
  using transfer_foreign [OF assms] by (auto simp: foreign_change_def list_all2_conv_all_nth intro!: nth_equalityI)

lemma legs_balances:
  assumes "spl_transfer rt" "cpi_frame rt" "settle_legs rt seeds side b q accs = Inr accs'"
    and "length accs = 14" "distinct (map ai_key accs)"
  shows "settled_balances side (unat b) (unat q) accs accs'"
proof -
  from assms(3) consider "side = 0" "accs' = accs"
    | accs1 where "side = 1" "transfer_checked rt 5 10 8 3 11 q (Some seeds) accs = Inr accs1"
        "transfer_checked rt 7 9 4 6 11 b None accs1 = Inr accs'"
    | accs1 where "side = 2" "transfer_checked rt 4 9 7 3 11 b (Some seeds) accs = Inr accs1"
        "transfer_checked rt 8 10 5 6 11 q None accs1 = Inr accs'"
    by (auto simp: settle_legs_def res_simps split: if_splits)
  then show ?thesis
  proof cases
    case 1
    then show ?thesis by (simp add: settled_balances_def)
  next
    case 2
    note first = transfer_balances [OF assms(1) 2(2) _ _ assms(5)]
    have "distinct (map ai_key accs1)" using keys_after_transfer [OF assms(2) 2(2)] assms(5) by simp
    note second = transfer_balances [OF assms(1) 2(3) _ _ this]
    show ?thesis using first second assms(4) 2(1) by (simp add: settled_balances_def)
  next
    case 3
    note first = transfer_balances [OF assms(1) 3(2) _ _ assms(5)]
    have "distinct (map ai_key accs1)" using keys_after_transfer [OF assms(2) 3(2)] assms(5) by simp
    note second = transfer_balances [OF assms(1) 3(3) _ _ this]
    show ?thesis using first second assms(4) 3(1) by (simp add: settled_balances_def)
  qed
qed


lemma balance_with_balance [simp]:
  "length (ai_data a) = 165 \<Longrightarrow> token_balance (with_balance v a) = unat v"
  by (simp add: token_balance_def with_balance_def put_def slice_def)

lemma demo_spl: "spl_transfer (demo_rt ixs now)"
proof -
  have "token_balance src' + unat amount = token_balance src \<and> token_balance dst' = token_balance dst + unat amount"
    if "demo_transfer amount [src, mint, dst, auth, tok] = Inr [src', mint', dst', auth', tok']"
    for amount src mint dst auth tok src' mint' dst' auth' tok'
  proof -
    from that have "length (ai_data src) = 165" "length (ai_data dst) = 165" "amount \<le> balance src"
      and sum: "unat (balance dst) + unat amount < 2 ^ 64"
      and eq: "src' = with_balance (balance src - amount) src" "dst' = with_balance (balance dst + amount) dst"
      by (auto simp: demo_transfer_def split: if_splits)
    moreover from sum have "unat (balance dst + amount) = unat (balance dst) + unat amount"
      by (simp add: unat_word_ariths)
    ultimately show ?thesis
      by (simp add: unat_sub word_le_nat_alt) (simp add: token_balance_def balance_def)
  qed
  moreover have "\<exists>src' mint' dst' auth' tok'. infos = [src', mint', dst', auth', tok']"
    if "demo_transfer amount [src, mint, dst, auth, tok] = Inr infos" for amount src mint dst auth tok infos
    using that by (auto simp: demo_transfer_def split: if_splits)
  ultimately show ?thesis unfolding spl_transfer_def by simp metis
qed


section \<open>Epochs over the life of the chain\<close>

text \<open>
  C2. Whatever transactions follow, an epoch account keeps holding an epoch. Its configuration never
  changes, what it recorded at the lock never changes again, and a settled, expired or aborted epoch
  stays exactly as it is.
\<close>

theorem epoch_lifecycle:
  assumes "(chain_step base)\<^sup>*\<^sup>* c c'" and "holds_epoch c k e"
  shows "\<exists>e'. holds_epoch c' k e' \<and> evolves (rt_sha256 base) k e e' \<and> frozen e' = frozen e \<and>
    (es_terminal_state e \<noteq> Open \<longrightarrow> lock_fields e' = lock_fields e \<and> es_terminal_state e' \<noteq> Open) \<and>
    (terminal (es_terminal_state e) \<longrightarrow> e' = e)"
  using steps_epoch [OF assms] evolves_frozen evolves_lock_fields evolves_terminal by metis

theorem epoch_lifecycle_witness:
  "\<exists>e'. holds_epoch demo_chain4 12 e' \<and> frozen e' = frozen demo_locked \<and> lock_fields e' = lock_fields demo_locked"
proof -
  have "es_terminal_state demo_locked \<noteq> Open" by (simp add: demo_locked_def lock_state_def)
  with epoch_lifecycle [OF r_into_rtranclp [of "chain_step (demo_rt [] 0)", OF demo_steps(4)] demo_holds(2)]
  show ?thesis by blast
qed

text \<open>
  C3. In every reachable chain an epoch account sits at the address derived from its pool and id,
  below a valid pool whose parameters its configuration hash commits to. If it was ever locked, its
  digest is that of a payload for this very epoch with at least the minimum number of members, which
  is at least four. If it is settled, its settlement digest is that of a payload over that lock,
  with a fresh nonce and a consistent residual.
\<close>

theorem epoch_records_its_history:
  assumes "reachable base c" and "holds_epoch c k e"
  shows "\<exists>ps. holds_pool c (es_pool e) ps
    \<and> epoch_address base (es_pool e) (es_epoch_id e) = (k, es_epoch_bump e)
    \<and> es_configuration_hash e =
        configuration_digest (rt_sha256 base) (expected_configuration (es_pool e) e ps)
    \<and> es_lock_deadline e <s es_abort_deadline e
    \<and> (es_terminal_state e \<in> {Locked, Settled, Aborted_epoch} \<longrightarrow>
         4 \<le> es_member_count e \<and> es_minimum_count e \<le> es_member_count e
         \<and> (\<exists>p. es_lock_digest e = lock_payload_digest (rt_sha256 base) p \<and> lp_epoch_account p = k
              \<and> lp_configuration_hash p = es_configuration_hash e
              \<and> lp_member_root p = es_member_root e \<and> lp_member_count p = es_member_count e))
    \<and> (es_terminal_state e = Settled \<longrightarrow>
         valid_residual (es_residual_side e) (es_residual_lots e)
         \<and> es_settlement_nonce e \<noteq> es_lock_nonce e
         \<and> (\<exists>p. es_settlement_digest e = settlement_payload_digest (rt_sha256 base) p
              \<and> sp_epoch_account p = k \<and> sp_lock_digest p = es_lock_digest e
              \<and> sp_result_commitment p = es_result_commitment e))"
proof -
  from reachable_epoch_inv [OF assms] obtain ps where phase: "phase_ok (rt_sha256 base) k e"
    and ps: "holds_pool c (es_pool e) ps" and ok: "epoch_ok base k e (es_pool e) ps"
    by (auto simp: epoch_inv_def)
  have locked: "4 \<le> es_member_count e \<and> es_minimum_count e \<le> es_member_count e
      \<and> (\<exists>p. es_lock_digest e = lock_payload_digest (rt_sha256 base) p \<and> lp_epoch_account p = k
           \<and> lp_configuration_hash p = es_configuration_hash e
           \<and> lp_member_root p = es_member_root e \<and> lp_member_count p = es_member_count e)"
    if "es_terminal_state e \<in> {Locked, Settled, Aborted_epoch}"
  proof -
    from that phase have "lock_recorded (rt_sha256 base) k e"
      by (auto simp: phase_ok_def split: if_splits)
    then obtain p where p: "lock_payload_ok p k e" "lock_fields e = (lp_pre_balance_root p,
        lp_member_root p, lp_member_count p, lock_payload_digest (rt_sha256 base) p, lp_lock_nonce p)"
      by (auto simp: lock_recorded_def)
    from ok have "4 \<le> es_minimum_count e" by (simp add: epoch_ok_def)
    with p show ?thesis by (auto simp: lock_payload_ok_def lock_fields_def)
  qed
  have settled: "valid_residual (es_residual_side e) (es_residual_lots e)
      \<and> es_settlement_nonce e \<noteq> es_lock_nonce e
      \<and> (\<exists>p. es_settlement_digest e = settlement_payload_digest (rt_sha256 base) p
           \<and> sp_epoch_account p = k \<and> sp_lock_digest p = es_lock_digest e
           \<and> sp_result_commitment p = es_result_commitment e)"
    if "es_terminal_state e = Settled"
    using that phase by (auto simp: phase_ok_def settle_recorded_def settle_payload_ok_def settle_fields_def)
  show ?thesis
    by (intro exI [of _ ps] conjI) (use ps ok locked settled in \<open>auto simp: epoch_ok_def\<close>)
qed

theorem epoch_records_its_history_witness:
  "4 \<le> es_member_count demo_settled \<and> es_settlement_nonce demo_settled \<noteq> es_lock_nonce demo_settled"
proof -
  have "es_terminal_state demo_settled = Settled" by (simp add: demo_settled_def settle_state_def)
  with epoch_records_its_history [OF demo_reachable(3) demo_holds(3)] show ?thesis by auto
qed

text \<open>A pool account never changes after its creation.\<close>

lemma pool_immutable:
  assumes "(chain_step base)\<^sup>*\<^sup>* c c'" and "holds_pool c k ps"
  shows "holds_pool c' k ps"
  using assms by (rule steps_pool)

section \<open>Authorization\<close>

lemma quorum_two:
  assumes "quorum rt acc ks d"
  obtains ixs k1 k2 sig1 sig2 where "preceding rt acc ixs" "k1 \<noteq> k2"
    "k1 \<in> set (keyper_list ks)" "k2 \<in> set (keyper_list ks)"
    "strict_instruction rt k1 sig1 d \<in> set ixs" "strict_instruction rt k2 sig2 d \<in> set ixs"
proof -
  from assms obtain ixs where ixs: "preceding rt acc ixs"
    and card: "2 \<le> card {k \<in> set (keyper_list ks). signed_by rt ixs d k}"
    by (auto simp: quorum_def)
  have sig: "\<exists>sig. strict_instruction rt k sig d \<in> set ixs" if "signed_by rt ixs d k" for k
  proof -
    from that obtain ix where ix: "ix \<in> set ixs" "parse_strict_ed25519 rt ix = Inr \<lparr>se_signer = k, se_digest = d\<rparr>"
      unfolding signed_by_def by blast
    from parse_strict_shape [OF ix(2)] ix(1) show ?thesis by (metis strict_ed25519.select_convs)
  qed
  let ?S = "{k \<in> set (keyper_list ks). signed_by rt ixs d k}"
  have "\<not> card ?S \<le> Suc 0" using card by simp
  moreover have "finite ?S" by simp
  ultimately have "\<not> (\<forall>k1 \<in> ?S. \<forall>k2 \<in> ?S. k1 = k2)" 
    by (simp only: card_le_Suc0_iff_eq not_False_eq_True)
  then obtain k1 k2 where k: "k1 \<noteq> k2" "k1 \<in> set (keyper_list ks)" "k2 \<in> set (keyper_list ks)"
    "signed_by rt ixs d k1" "signed_by rt ixs d k2" by blast
  from sig [OF k(4)] sig [OF k(5)] obtain sig1 sig2 where
    "strict_instruction rt k1 sig1 d \<in> set ixs" "strict_instruction rt k2 sig2 d \<in> set ixs" by blast
  then show thesis by (rule that [OF ixs k(1-3)])
qed

text \<open>
  C4. A lock succeeds only before the deadline and only if two different keypers of the pool have
  each signed the digest of exactly this payload in a strict Ed25519 instruction earlier in the same
  transaction; it then records the payload's roots, member count and digest in the epoch.
\<close>

theorem lock_requires_two_keypers:
  assumes "lock rt ID accs p = Inr accs'"
  shows "\<exists>ps es ixs now k1 k2 sig1 sig2.
    ai_data (accs ! 1) = pool_state_encode ps \<and> ai_data (accs ! 2) = epoch_state_encode es
    \<and> es_terminal_state es = Open
    \<and> rt_clock_unix_timestamp rt (accs ! 4) = Inr now \<and> now <s es_lock_deadline es
    \<and> preceding rt (accs ! 3) ixs
    \<and> k1 \<noteq> k2 \<and> {k1, k2} \<subseteq> set (keyper_list (ps_keypers ps))
    \<and> strict_instruction rt k1 sig1 (lock_payload_digest (rt_sha256 rt) p) \<in> set ixs
    \<and> strict_instruction rt k2 sig2 (lock_payload_digest (rt_sha256 rt) p) \<in> set ixs
    \<and> es_minimum_count es \<le> lp_member_count p
    \<and> accs' = accs[2 := (accs ! 2)\<lparr>ai_data := epoch_state_encode
        (es\<lparr>es_terminal_state := Locked, es_pre_balance_root := lp_pre_balance_root p,
            es_member_root := lp_member_root p, es_member_count := lp_member_count p,
            es_lock_digest := lock_payload_digest (rt_sha256 rt) p, es_lock_nonce := lp_lock_nonce p\<rparr>)\<rparr>]"
proof -
  from assms obtain ps es now where opened: "opened rt ID (accs ! 1) (accs ! 2) ps es"
    and rest: "es_terminal_state es = Open" "rt_clock_unix_timestamp rt (accs ! 4) = Inr now"
      "now <s es_lock_deadline es" "lock_payload_ok p (ai_key (accs ! 2)) es"
    and q: "quorum rt (accs ! 3) (ps_keypers ps) (lock_payload_digest (rt_sha256 rt) p)"
    and eq: "accs' = accs[2 := (accs ! 2)\<lparr>ai_data :=
        epoch_state_encode (lock_state (lock_payload_digest (rt_sha256 rt) p) p es)\<rparr>]"
    unfolding lock_Inr by blast
  from q obtain ixs k1 k2 sig1 sig2 where "preceding rt (accs ! 3) ixs" "k1 \<noteq> k2"
    "k1 \<in> set (keyper_list (ps_keypers ps))" "k2 \<in> set (keyper_list (ps_keypers ps))"
    "strict_instruction rt k1 sig1 (lock_payload_digest (rt_sha256 rt) p) \<in> set ixs"
    "strict_instruction rt k2 sig2 (lock_payload_digest (rt_sha256 rt) p) \<in> set ixs"
    by (rule quorum_two)
  with opened rest eq show ?thesis
    by (intro exI [of _ ps] exI [of _ es] exI [of _ ixs] exI [of _ now] exI [of _ k1] exI [of _ k2]
        exI [of _ sig1] exI [of _ sig2])
      (simp add: opened_def lock_payload_ok_def lock_state_def)
qed

lemma demo_lock_handler:
  "lock (demo_rt (demo_signatures demo_lock_digest) 900) ID
     (map (load_account demo_chain2) (ix_accounts demo_lock_ix)) demo_lock =
   Inr (map (load_account demo_chain3) (ix_accounts demo_lock_ix))"
  using demo_lock_run by (simp add: run_def demo_lock_ix_def lock_instruction_def del: instruction_encode.simps)

theorem lock_requires_two_keypers_witness:
  "\<exists>ps k1 k2. pool_state_encode demo_pool = pool_state_encode ps \<and> k1 \<noteq> k2
     \<and> {k1, k2} \<subseteq> set (keyper_list (ps_keypers ps))"
proof -
  have "ai_data (map (load_account demo_chain2) (ix_accounts demo_lock_ix) ! 1) = pool_state_encode demo_pool"
    by (simp add: demo_lock_ix_def lock_instruction_def run_defs demo_chain2_def demo_chain1_def)
  with lock_requires_two_keypers [OF demo_lock_handler] show ?thesis by auto
qed

text \<open>
  C5. A settlement succeeds only on a locked epoch, not after its abort deadline, with the signature
  of the pool's venue authority, and only if two different keypers of the pool have each signed the
  digest of the full payload, which binds the epoch, its lock digest, the prices, the mints and all
  token accounts of the pool, not only the four values the instruction carries.
\<close>

theorem settle_requires_two_keypers_and_venue:
  assumes "settle_compact rt ID accs c = Inr accs'"
  shows "\<exists>ps es ixs now k1 k2 sig1 sig2. let d = settlement_payload_digest (rt_sha256 rt)
        (full_payload (ai_key (accs ! 2)) ps es c) in
    ai_data (accs ! 1) = pool_state_encode ps \<and> ai_data (accs ! 2) = epoch_state_encode es
    \<and> es_terminal_state es = Locked
    \<and> rt_clock_unix_timestamp rt (accs ! 13) = Inr now \<and> now \<le>s es_abort_deadline es
    \<and> ai_is_signer (accs ! 6) \<and> ai_key (accs ! 6) = ps_venue_authority ps
    \<and> preceding rt (accs ! 12) ixs
    \<and> k1 \<noteq> k2 \<and> {k1, k2} \<subseteq> set (keyper_list (ps_keypers ps))
    \<and> strict_instruction rt k1 sig1 d \<in> set ixs \<and> strict_instruction rt k2 sig2 d \<in> set ixs
    \<and> cs_settlement_nonce c \<noteq> es_lock_nonce es
    \<and> valid_residual (cs_residual_side c) (cs_residual_lots c)"
proof -
  from assms obtain p where p: "compact_from p = c" "settle rt ID accs p = Inr accs'"
    by (auto simp: settle_compact_Inr)
  from p(2) obtain ps es now where acc: "settle_accounts_ok rt accs"
    and opened: "opened rt ID (accs ! 1) (accs ! 2) ps es" and st: "es_terminal_state es = Locked"
    and now: "rt_clock_unix_timestamp rt (accs ! 13) = Inr now" "now \<le>s es_abort_deadline es"
    and tok: "settle_tokens_ok rt accs ps" and ok: "settle_payload_ok p (ai_key (accs ! 2)) es ps"
    and q: "quorum rt (accs ! 12) (ps_keypers ps) (settlement_payload_digest (rt_sha256 rt) p)"
    unfolding settle_Inr by blast
  have full: "p = full_payload (ai_key (accs ! 2)) ps es c"
    using settle_payload_ok_full [OF ok] p(1) by simp
  from q obtain ixs k1 k2 sig1 sig2 where "preceding rt (accs ! 12) ixs" "k1 \<noteq> k2"
    "k1 \<in> set (keyper_list (ps_keypers ps))" "k2 \<in> set (keyper_list (ps_keypers ps))"
    "strict_instruction rt k1 sig1 (settlement_payload_digest (rt_sha256 rt) p) \<in> set ixs"
    "strict_instruction rt k2 sig2 (settlement_payload_digest (rt_sha256 rt) p) \<in> set ixs"
    by (rule quorum_two)
  moreover have "cs_settlement_nonce c \<noteq> es_lock_nonce es" "valid_residual (cs_residual_side c) (cs_residual_lots c)"
    using ok p(1) by (auto simp: settle_payload_ok_def compact_from_def)
  ultimately show ?thesis
    using opened st now acc tok unfolding full
    by (intro exI [of _ ps] exI [of _ es] exI [of _ ixs] exI [of _ now] exI [of _ k1] exI [of _ k2]
        exI [of _ sig1] exI [of _ sig2])
      (simp add: opened_def settle_accounts_ok_def settle_tokens_ok_def flags_def Let_def)
qed

theorem settle_requires_two_keypers_and_venue_witness:
  "\<exists>ps. pool_state_encode demo_pool = pool_state_encode ps \<and> ps_venue_authority ps = 6"
proof -
  have "ai_data (map (load_account demo_chain3) (ix_accounts demo_settle_ix) ! 1) = pool_state_encode demo_pool"
    "ai_key (map (load_account demo_chain3) (ix_accounts demo_settle_ix) ! 6) = 6"
    by (simp_all add: demo_settle_ix_def settle_instruction_def run_defs demo_chain3_def demo_chain2_def demo_chain1_def)
  with settle_requires_two_keypers_and_venue [OF demo_settle_handler] show ?thesis by (auto simp: Let_def)
qed

section \<open>Deadlines\<close>

text \<open>
  On one and the same epoch content, a lock can only happen strictly before an expiry, and a
  settlement only strictly before an abort: no moment allows both, so nobody can expire an epoch that
  could still be locked or abort one that could still be settled.
\<close>

lemma deadline_windows_disjoint:
  assumes "ai_data (accs2 ! 2) = ai_data (accs1 ! 2)"
    and "rt_clock_unix_timestamp rt2 (accs2 ! 3) = Inr t2"
  shows "(is_ok (lock rt1 ID accs1 p) \<longrightarrow> is_ok (expire_or_abort rt2 ID accs2 False) \<longrightarrow>
      rt_clock_unix_timestamp rt1 (accs1 ! 4) = Inr t1 \<longrightarrow> sint t1 + 2 \<le> sint t2) \<and>
    (is_ok (settle_compact rt1 ID accs1 c) \<longrightarrow> is_ok (expire_or_abort rt2 ID accs2 True) \<longrightarrow>
      rt_clock_unix_timestamp rt1 (accs1 ! 13) = Inr t1 \<longrightarrow> sint t1 < sint t2)"
proof (intro conjI impI; unfold is_ok_iff; elim exE)
  fix r1 r2
  assume "lock rt1 ID accs1 p = Inr r1" "expire_or_abort rt2 ID accs2 False = Inr r2"
    "rt_clock_unix_timestamp rt1 (accs1 ! 4) = Inr t1"
  then obtain es where "ai_data (accs1 ! 2) = epoch_state_encode es" "sint t1 < sint (es_lock_deadline es)"
    "sint (es_lock_deadline es) < sint t2"
    using assms by (auto simp: lock_Inr expire_or_abort_Inr opened_def word_sless_alt)
  then show "sint t1 + 2 \<le> sint t2" by simp
next
  fix r1 r2
  assume s: "settle_compact rt1 ID accs1 c = Inr r1" and a: "expire_or_abort rt2 ID accs2 True = Inr r2"
    and t: "rt_clock_unix_timestamp rt1 (accs1 ! 13) = Inr t1"
  from s obtain q where "settle rt1 ID accs1 q = Inr r1" by (auto simp: settle_compact_Inr)
  then obtain es where "ai_data (accs1 ! 2) = epoch_state_encode es" "sint t1 \<le> sint (es_abort_deadline es)"
    using t by (auto simp: settle_Inr opened_def word_sle_eq)
  then show "sint t1 < sint t2"
    using a assms by (auto simp: expire_or_abort_Inr opened_def word_sless_alt)
qed

definition demo_expire_accs :: "account_info list" where
  "demo_expire_accs = map (load_account demo_chain2) (ix_accounts (expire_instruction (demo_rt [] 0) 70 10 12))"

lemma demo_expire_ok: "is_ok (expire_or_abort (demo_rt [] 1001) ID demo_expire_accs False)"
proof -
  let ?rt = "demo_rt [] 1001"
  have "expire_or_abort ?rt ID demo_expire_accs False = Inr (demo_expire_accs[2 := (demo_expire_accs ! 2)
      \<lparr>ai_data := epoch_state_encode (demo_epoch\<lparr>es_terminal_state := Expired\<rparr>)\<rparr>])"
    unfolding expire_or_abort_Inr
  proof (intro conjI exI)
    show "terminal_accounts_ok ?rt demo_expire_accs"
      by (simp add: terminal_accounts_ok_def demo_expire_accs_def expire_instruction_def
          terminal_instruction_def run_defs flags_def demo_chain1_def demo_chain2_def)
    show "opened ?rt ID (demo_expire_accs ! 1) (demo_expire_accs ! 2) demo_pool demo_epoch"
      by (simp add: opened_def demo_expire_accs_def expire_instruction_def terminal_instruction_def
          run_defs demo_chain1_def demo_chain2_def demo_pool_ok demo_epoch_ok)
    show "es_terminal_state demo_epoch = (if False then Locked else Open)"
      "(if False then es_abort_deadline demo_epoch else es_lock_deadline demo_epoch) <s 1001"
      by (simp_all add: demo_epoch_def new_epoch_def demo_epoch_args_def word_sless_alt)
  qed simp_all
  then show ?thesis by simp
qed

text \<open>
  C6. No epoch stays open or locked for ever: once its deadline has passed, anybody who can sign a
  transaction can expire an open epoch or abort a locked one, without the operator, the keypers or
  the venue. The instruction built by the client succeeds in every reachable chain.
\<close>

theorem anyone_can_terminate:
  assumes "reachable base c" and "holds_epoch c k e" and "same_base base rt"
    and "es_terminal_state e = (if abort then Locked else Open)"
    and "rt_clock_unix_timestamp rt (load_account c (rt_clock_id rt, False, False)) = Inr now"
    and "(if abort then es_abort_deadline e else es_lock_deadline e) <s now"
    and "ac_owner (c caller) \<noteq> ID" "\<not> ac_executable (c caller)"
    and "ac_owner (c (rt_clock_id rt)) \<noteq> ID" "\<not> ac_executable (c (rt_clock_id rt))"
    and "caller \<noteq> rt_clock_id rt"
  shows "\<exists>accs. (let ix = (if abort then abort_instruction else expire_instruction) rt caller (es_pool e) k
      in process_instruction rt ID (map (load_account c) (ix_accounts ix)) (ix_data ix)) = Inr accs \<and>
    holds_epoch (store_accounts c accs) k (e\<lparr>es_terminal_state := if abort then Aborted_epoch else Expired\<rparr>)"
proof -
  let ?e' = "e\<lparr>es_terminal_state := if abort then Aborted_epoch else Expired\<rparr>"
  let ?accs = "map (load_account c) [(caller, True, False), (es_pool e, False, False), (k, False, True),
      (rt_clock_id rt, False, False)]"
  let ?out = "?accs[2 := (?accs ! 2)\<lparr>ai_data := epoch_state_encode ?e'\<rparr>]"
  from reachable_epoch_inv [OF assms(1,2)] obtain ps where ps: "holds_pool c (es_pool e) ps"
    "pool_ok rt (es_pool e) ps" "epoch_ok rt k e (es_pool e) ps"
    by (auto simp: epoch_inv_def same_base_ok [OF assms(3)])
  have ne: "es_pool e \<noteq> k"
    using ps(1) assms(2) pool_not_epoch unfolding holds_pool_def holds_epoch_def by metis
  have keys: "distinct [caller, es_pool e, k, rt_clock_id rt]"
    using assms(2,7,9,11) ps(1) ne by (auto simp: holds_epoch_def holds_pool_def)
  have "expire_or_abort rt ID ?accs abort = Inr ?out"
    unfolding expire_or_abort_Inr
  proof (intro conjI exI)
    show "terminal_accounts_ok rt ?accs"
      using keys assms(2,8,10) ps(1)
      by (auto simp: terminal_accounts_ok_def load_account_def flags_def holds_epoch_def holds_pool_def)
    show "opened rt ID (?accs ! 1) (?accs ! 2) ps e"
      using ps assms(2) by (simp add: opened_def load_account_def holds_epoch_def holds_pool_def)
  qed (use assms in simp_all)
  moreover have "holds_epoch (store_accounts c ?out) k ?e'"
    using keys assms(2) by (simp add: holds_epoch_def store_accounts_def load_account_def account_of_def)
  ultimately show ?thesis
    by (intro exI [of _ ?out])
      (cases abort; simp add: Let_def abort_instruction_def expire_instruction_def terminal_instruction_def
        meta_new_def meta_readonly_def del: instruction_encode.simps)
qed

theorem anyone_can_terminate_witness:
  "\<exists>accs. holds_epoch (store_accounts demo_chain2 accs) 12 (demo_epoch\<lparr>es_terminal_state := Expired\<rparr>)"
proof -
  have "es_terminal_state demo_epoch = Open" "es_lock_deadline demo_epoch <s 1001"
    by (simp_all add: demo_epoch_def new_epoch_def demo_epoch_args_def word_sless_alt)
  then show ?thesis
    using anyone_can_terminate [OF demo_reachable(1) demo_holds(1) demo_same_base, of False "[]" 1001 1001 70]
    by (auto simp: demo_chain2_def demo_chain1_def)
qed

section \<open>Creation, encodings and signatures\<close>

text \<open>
  What the program creates, it accepts: a new epoch account is owned by the program and passes
  the validation of the later instructions against its pool, in state open with a future lock
  deadline, and the pool account it was created under is untouched.
\<close>

lemma created_epoch_is_valid:
  assumes "cpi_frame rt" and "create_epoch rt ID accs args = Inr accs'"
  shows "\<exists>ps es now. opened rt ID (accs' ! 2) (accs' ! 3) ps es
    \<and> es_terminal_state es = Open \<and> es_epoch_id es = ce_epoch_id args
    \<and> es_minimum_count es = ce_minimum_count args \<and> es_lock_deadline es = ce_lock_deadline args
    \<and> ps_operator ps = ai_key (accs ! 1) \<and> ai_is_signer (accs ! 1)
    \<and> ai_data (accs' ! 2) = ai_data (accs ! 2)
    \<and> rt_clock_unix_timestamp rt (accs ! 5) = Inr now \<and> now <s es_lock_deadline es"
proof -
  let ?pool = "ai_key (accs ! 2)"
  from assms(2) obtain ps now seeds accs1 where len: "length accs = 6" and op: "ai_is_signer (accs ! 1)"
    and pool: "ai_owner (accs ! 2) = ID" "\<not> ai_executable (accs ! 2)"
      "ai_data (accs ! 2) = pool_state_encode ps" "pool_ok rt ?pool ps"
    and oper: "ps_operator ps = ai_key (accs ! 1)"
    and now: "rt_clock_unix_timestamp rt (accs ! 5) = Inr now" "now <s ce_lock_deadline args"
    and ok: "epoch_ok rt (ai_key (accs ! 3)) (new_epoch rt ?pool ps args) ?pool ps"
    and pda: "initialize_pda_account rt 0 3 4 ID seeds accs = Inr accs1"
    and eq: "accs' = accs1[3 := (accs1 ! 3)\<lparr>ai_data := epoch_state_encode (new_epoch rt ?pool ps args)\<rparr>]"
    by (rule create_epoch_Inr)
  note frame = pda_foreign [OF assms(1) pda]
  have "foreign_change (accs ! i) (accs1 ! i)" if "i < 6" for i
    using frame(1) len that by (auto simp: list_all2_conv_all_nth)
  from this [of 2] this [of 3] frame pool have "opened rt ID (accs' ! 2) (accs' ! 3) ps (new_epoch rt ?pool ps args)"
    and "ai_data (accs' ! 2) = ai_data (accs ! 2)"
    using ok len list_all2_lengthD [OF frame(1)] by (auto simp: eq opened_def foreign_change_def)
  with op oper now show ?thesis
    by (intro exI [of _ ps] exI [of _ "new_epoch rt ?pool ps args"] exI [of _ now]) (simp add: new_epoch_def)
qed

lemma demo_create_handler:
  "create_epoch (demo_rt [] 500) ID (map (load_account demo_chain1) (ix_accounts demo_create)) demo_epoch_args =
     Inr (map (load_account demo_chain2) (ix_accounts demo_create))"
  using demo_create_run by (simp add: run_def demo_create_def create_epoch_instruction_def)

text \<open>
  C7. The instruction decoder accepts exactly the encodings of instructions: decoding and encoding
  are inverse to each other, and no instruction has two encodings.
\<close>

theorem instruction_wire_exact: "instruction_decode data = Inr i \<longleftrightarrow> data = instruction_encode i"
  using instruction_decode_sound instruction_decode_encode by metis

text \<open>
  C19. Account data is accepted as an epoch state exactly when it is that state's encoding, as a pool
  state exactly when it is that pool's encoding, and never as both.
\<close>

theorem account_state_exact:
  "(epoch_state_decode data = Inr e \<longleftrightarrow> data = epoch_state_encode e) \<and>
   (pool_state_decode data = Inr ps \<longleftrightarrow> data = pool_state_encode ps) \<and>
   \<not> (is_ok (epoch_state_decode data) \<and> is_ok (pool_state_decode data))"
proof -
  have "\<not> (is_ok (epoch_state_decode data) \<and> is_ok (pool_state_decode data))"
    unfolding is_ok_iff epoch_decode_iff pool_decode_iff using pool_not_epoch by metis
  then show ?thesis by (simp add: epoch_decode_iff pool_decode_iff)
qed

text \<open>
  The on-chain signature count is the number of different configured keypers with a strict
  verification of the digest among the preceding instructions. Repeating an instruction, reordering
  the list, or adding instructions that do not parse, sign another digest or come from another key
  cannot change it.
\<close>

lemma keypers_counted_once:
  assumes "distinct (keyper_list ks)" and "preceding rt acc ixs"
  shows "\<exists>n. count_preceding_keypers rt acc ks d = Inr n \<and> n = count_matching_keypers rt ixs ks d \<and>
    unat n = card {k \<in> set (keyper_list ks). \<exists>sig. strict_instruction rt k sig d \<in> set ixs}"
proof -
  have "signed_by rt ixs d k \<longleftrightarrow> (\<exists>sig. strict_instruction rt k sig d \<in> set ixs)" for k
    unfolding signed_by_def using parse_strict_shape parse_strict_instruction
    by (metis strict_ed25519.select_convs)
  then show ?thesis
    using count_preceding_eq [OF assms(2)] count_matching_card [OF assms(1)] by simp
qed


definition constant_hash :: "byte list \<Rightarrow> bytes32" where
  "constant_hash bs = 0"


end
