(* ===== verification/Commitment.thy ===== *)
theory Commitment
  imports Kageb_Codec "HOL-Library.Multiset"
begin

text \<open>
  \<open>kageb-host/src/commitment.rs\<close>: the root of an unordered set of byte strings under a protocol
  domain. Sorting the leaf hashes makes the root a function of the set; the tags and length prefixes
  make it bind the domain and every leaf up to a collision of the hash.
\<close>

datatype commitment_domain = BalanceSet | MemberSet | ResultSet

datatype commitment_error = DuplicateLeaf

definition LEAF_TAG :: "byte list" where
  "LEAF_TAG = ascii ''KAGEB_LEAF_V1'' @ [0]"

definition ROOT_TAG :: "byte list" where
  "ROOT_TAG = ascii ''KAGEB_ROOT_V1'' @ [0]"

fun domain_tag :: "commitment_domain \<Rightarrow> byte list" where
  "domain_tag BalanceSet = ascii ''KAGEB_BALANCE_SET_V1'' @ [0]"
| "domain_tag MemberSet = ascii ''KAGEB_MEMBER_SET_V1'' @ [0]"
| "domain_tag ResultSet = ascii ''KAGEB_RESULT_SET_V1'' @ [0]"

definition len_u64 :: "'a list \<Rightarrow> u64" where
  "len_u64 xs = of_nat (length xs)"

definition leaf_message :: "byte list \<Rightarrow> byte list \<Rightarrow> byte list" where
  "leaf_message domain leaf =
     LEAF_TAG @ to_le_bytes (len_u64 domain) @ domain @ to_le_bytes (len_u64 leaf) @ leaf"

definition leaf_hash :: "(byte list \<Rightarrow> bytes32) \<Rightarrow> byte list \<Rightarrow> byte list \<Rightarrow> bytes32" where
  "leaf_hash sha256 domain leaf = sha256 (leaf_message domain leaf)"

fun windows_equal :: "bytes32 list \<Rightarrow> bool" where
  "windows_equal (a # b # rest) \<longleftrightarrow> a = b \<or> windows_equal (b # rest)"
| "windows_equal _ \<longleftrightarrow> False"

definition root_message :: "byte list \<Rightarrow> bytes32 list \<Rightarrow> byte list" where
  "root_message domain leaf_hashes =
     ROOT_TAG @ to_le_bytes (len_u64 domain) @ domain @ to_le_bytes (len_u64 leaf_hashes) @
     concat (map arr_bytes leaf_hashes)"

definition content_root ::
    "(byte list \<Rightarrow> bytes32) \<Rightarrow> commitment_domain \<Rightarrow> byte list list \<Rightarrow> commitment_error + bytes32" where
  "content_root sha256 domain leaves =
     (let domain = domain_tag domain;
          leaf_hashes = sort (map (leaf_hash sha256 domain) leaves)
      in if windows_equal leaf_hashes then Inl DuplicateLeaf
         else Inr (sha256 (root_message domain leaf_hashes)))"

text \<open>A concrete hash for the witnesses: the length of the message.\<close>

definition length_hash :: "byte list \<Rightarrow> bytes32" where
  "length_hash bs = of_nat (length bs)"

section \<open>Lemmas\<close>

lemma windows_equal_sorted: "sorted hs \<Longrightarrow> windows_equal hs \<longleftrightarrow> \<not> distinct hs"
  by (induction hs rule: windows_equal.induct) auto

lemma content_root_eq:
  "content_root sha256 d leaves =
     (if distinct (map (leaf_hash sha256 (domain_tag d)) leaves)
      then Inr (sha256 (root_message (domain_tag d) (sort (map (leaf_hash sha256 (domain_tag d)) leaves))))
      else Inl DuplicateLeaf)"
  by (simp add: content_root_def Let_def windows_equal_sorted)

lemma leaf_message_inj: "leaf_message d x = leaf_message d y \<longleftrightarrow> x = y"
  by (auto simp: leaf_message_def)

lemma concat_hashes_inj:
  "length xs = length ys \<Longrightarrow> concat (map arr_bytes xs) = concat (map arr_bytes ys) \<Longrightarrow> xs = ys"
  for xs ys :: "bytes32 list"
  by (induction xs ys rule: list_induct2) auto

lemma domain_tag_inj: "domain_tag d @ xs = domain_tag e @ ys \<Longrightarrow> length (domain_tag d) = length (domain_tag e) \<Longrightarrow> d = e"
  by (cases d; cases e) (auto simp: ascii_def)

lemma root_message_domain:
  assumes "root_message (domain_tag d) hs = root_message (domain_tag e) ks"
  shows "d = e"
proof -
  have len: "length (domain_tag x) < 2 ^ 64" for x by (cases x) simp_all
  from assms have eq: "len_u64 (domain_tag d) = len_u64 (domain_tag e)"
    and rest: "domain_tag d @ to_le_bytes (len_u64 hs) @ concat (map arr_bytes hs) =
      domain_tag e @ to_le_bytes (len_u64 ks) @ concat (map arr_bytes ks)"
    by (auto simp: root_message_def)
  from eq have "unat (len_u64 (domain_tag d)) = unat (len_u64 (domain_tag e))" by simp
  then have "length (domain_tag d) = length (domain_tag e)"
    using len [of d] len [of e] by (simp add: len_u64_def unat_of_nat)
  with rest show ?thesis by (intro domain_tag_inj)
qed

lemma root_message_hashes:
  assumes "root_message d hs = root_message d ks" "length hs < 2 ^ 64" "length ks < 2 ^ 64"
  shows "hs = ks"
proof -
  from assms(1) have eq: "len_u64 hs = len_u64 ks" and rest: "concat (map arr_bytes hs) = concat (map arr_bytes ks)"
    by (auto simp: root_message_def)
  from eq have "unat (len_u64 hs) = unat (len_u64 ks)" by simp
  then have "length hs = length ks" using assms(2,3) by (simp add: len_u64_def unat_of_nat)
  then show ?thesis using rest by (rule concat_hashes_inj)
qed

lemma content_root_permute:
  assumes "mset leaves' = mset leaves"
  shows "content_root sha256 d leaves' = content_root sha256 d leaves"
proof -
  let ?h = "leaf_hash sha256 (domain_tag d)"
  have m: "mset (map ?h leaves') = mset (map ?h leaves)" using assms by simp
  then have "sort (map ?h leaves') = sort (map ?h leaves)"
    by (metis properties_for_sort mset_sort sorted_sort)
  moreover from m have "distinct (map ?h leaves') \<longleftrightarrow> distinct (map ?h leaves)"
    by (rule mset_eq_imp_distinct_iff)
  ultimately show ?thesis by (simp add: content_root_eq)
qed

lemma content_root_inj:
  assumes "content_root sha256 d xs = Inr r" and "content_root sha256 e ys = Inr r"
    and "length xs < 2 ^ 64" and "length ys < 2 ^ 64"
  shows "(d = e \<and> set xs = set ys) \<or> (\<exists>a b. collision sha256 a b)"
proof (rule disjCI)
  assume free: "\<nexists>a b. collision sha256 a b"
  then have inj: "sha256 a = sha256 b \<Longrightarrow> a = b" for a b by (auto simp: collision_def)
  let ?hs = "sort (map (leaf_hash sha256 (domain_tag d)) xs)"
  let ?ks = "sort (map (leaf_hash sha256 (domain_tag e)) ys)"
  from assms(1,2) have "sha256 (root_message (domain_tag d) ?hs) = sha256 (root_message (domain_tag e) ?ks)"
    by (auto simp: content_root_eq split: if_splits)
  then have eq: "root_message (domain_tag d) ?hs = root_message (domain_tag e) ?ks" by (rule inj)
  then have de: "d = e" by (rule root_message_domain)
  from eq have "?hs = ?ks" unfolding de
    by (rule root_message_hashes) (use assms(3,4) in simp_all)
  then have "set ?hs = set ?ks" by simp
  then have "leaf_hash sha256 (domain_tag e) ` set xs = leaf_hash sha256 (domain_tag e) ` set ys"
    by (simp add: de)
  moreover have "inj (leaf_hash sha256 (domain_tag e))"
    by (rule injI) (auto simp: leaf_hash_def leaf_message_inj dest: inj)
  ultimately show "d = e \<and> set xs = set ys" using de by (simp add: inj_image_eq_iff)
qed

section \<open>Properties\<close>

text \<open>
  The root is a function of the multiset of leaves: permuting them changes nothing. It is refused
  exactly when two leaves have the same hash, in particular when a leaf is repeated.
\<close>

lemma content_root_unordered:
  assumes "mset leaves' = mset leaves"
  shows "content_root sha256 d leaves' = content_root sha256 d leaves \<and>
    (content_root sha256 d leaves = Inl DuplicateLeaf \<longleftrightarrow>
       \<not> distinct (map (leaf_hash sha256 (domain_tag d)) leaves))"
  using content_root_permute [OF assms] by (simp add: content_root_eq)

text \<open>
  The root binds: two successful roots that are equal have the same domain and the same set of
  leaves, unless two different messages with one hash can be exhibited.
\<close>

lemma content_root_binds:
  assumes "content_root sha256 d xs = Inr r" and "content_root sha256 e ys = Inr r"
    and "length xs < 2 ^ 64" and "length ys < 2 ^ 64"
  shows "(d = e \<and> set xs = set ys) \<or> (\<exists>a b. collision sha256 a b)"
  by (rule content_root_inj [OF assms])

end
