(* ===== verification/Journal_File.thy ===== *)
theory Journal_File
  imports Kageb_Codec
begin

text \<open>
  The durable files of the host: the advisory lock of \<open>kageb-host/src/admission.rs\<close>, atomic
  replacement of a file through a temporary one, and the framing all journals share (a header, counts,
  fixed-width records and a trailing checksum). Every system call may fail, as told by an
  \<open>io_env\<close>; a failed replacement leaves the old contents or, when only the final directory sync
  fails, the new ones. A process that dies inside a replacement leaves one of the same two contents,
  because \<open>rename\<close> is atomic. The locale \<open>journal\<close> is the contract of one journal
  file; it shows that an update is atomic whatever fails.
\<close>

section \<open>System calls\<close>

datatype error_kind = WouldBlock | NotFound | AlreadyExists | OtherKind nat

text \<open>Outcomes of the system calls of one journal operation; \<open>None\<close> is success.\<close>

record io_env =
  io_lock_open :: "error_kind option"
  io_try_lock :: "nat \<Rightarrow> error_kind option"
  io_read :: "error_kind option"
  io_open_temporary :: "error_kind option"
  io_write_all :: "error_kind option"
  io_sync_all :: "error_kind option"
  io_rename :: "error_kind option"
  io_sync_parent :: "error_kind option"

definition no_faults :: io_env where
  "no_faults = \<lparr> io_lock_open = None, io_try_lock = (\<lambda>_. None), io_read = None,
     io_open_temporary = None, io_write_all = None, io_sync_all = None, io_rename = None,
     io_sync_parent = None \<rparr>"

type_synonym contents = "byte list option"

definition LOCK_ATTEMPTS :: nat where
  "LOCK_ATTEMPTS = 100"

fun lock_loop :: "nat \<Rightarrow> nat \<Rightarrow> (nat \<Rightarrow> error_kind option) \<Rightarrow> error_kind + unit" where
  "lock_loop 0 i try_lock = Inl WouldBlock"
| "lock_loop (Suc n) i try_lock =
     (case try_lock i of
        None \<Rightarrow> Inr ()
      | Some kind \<Rightarrow> if kind \<noteq> WouldBlock then Inl kind else lock_loop n (Suc i) try_lock)"

definition advisory_lock_acquire :: "io_env \<Rightarrow> error_kind + unit" where
  "advisory_lock_acquire io =
     (case io_lock_open io of
        Some kind \<Rightarrow> Inl kind
      | None \<Rightarrow> lock_loop LOCK_ATTEMPTS 0 (io_try_lock io))"

text \<open>The closures of the sources that turn a lock failure into the journal's own error.\<close>

definition acquire_or_busy :: "(error_kind \<Rightarrow> 'e) \<Rightarrow> 'e \<Rightarrow> io_env \<Rightarrow> 'e + unit" where
  "acquire_or_busy io_error busy io =
     map_err (\<lambda>kind. if kind = WouldBlock then busy else io_error kind) (advisory_lock_acquire io)"

definition fs_read :: "io_env \<Rightarrow> contents \<Rightarrow> error_kind + byte list" where
  "fs_read io file =
     (case io_read io of
        Some kind \<Rightarrow> Inl kind
      | None \<Rightarrow> (case file of None \<Rightarrow> Inl NotFound | Some bytes \<Rightarrow> Inr bytes))"

text \<open>Write a temporary file, sync it, rename it over the journal, sync the directory.\<close>

definition replace_file :: "io_env \<Rightarrow> byte list \<Rightarrow> contents \<Rightarrow> contents \<times> (error_kind + unit)" where
  "replace_file io bytes file =
     (case io_open_temporary io of Some kind \<Rightarrow> (file, Inl kind) | None \<Rightarrow>
      case io_write_all io of Some kind \<Rightarrow> (file, Inl kind) | None \<Rightarrow>
      case io_sync_all io of Some kind \<Rightarrow> (file, Inl kind) | None \<Rightarrow>
      case io_rename io of Some kind \<Rightarrow> (file, Inl kind) | None \<Rightarrow>
      case io_sync_parent io of Some kind \<Rightarrow> (Some bytes, Inl kind) | None \<Rightarrow>
      (Some bytes, Inr ()))"

section \<open>Framing\<close>

definition CHECKSUM_LEN :: nat where
  "CHECKSUM_LEN = 32"

definition seal :: "(byte list \<Rightarrow> bytes32) \<Rightarrow> byte list \<Rightarrow> byte list" where
  "seal sha256 payload = payload @ arr_bytes (sha256 payload)"

text \<open>The guards every loader starts with: minimum length, header, checksum of the payload.\<close>

definition frame_ok :: "(byte list \<Rightarrow> bytes32) \<Rightarrow> byte list \<Rightarrow> nat \<Rightarrow> byte list \<Rightarrow> bool" where
  "frame_ok sha256 header counts bytes \<longleftrightarrow>
     \<not> (length bytes < length header + counts + CHECKSUM_LEN \<or> take (length header) bytes \<noteq> header)
     \<and> arr_bytes (sha256 (take (length bytes - CHECKSUM_LEN) bytes))
         = drop (length bytes - CHECKSUM_LEN) bytes"

text \<open>
  \<open>insert_chunks\<close> is the loop that decodes \<open>n\<close> records of width \<open>w\<close> into an ordered map
  and refuses a repeated key.
\<close>

fun insert_chunks ::
    "nat \<Rightarrow> (byte list \<Rightarrow> 'e + 'k::linorder \<times> 'v) \<Rightarrow> 'e \<Rightarrow> nat \<Rightarrow> byte list \<Rightarrow>
     ('k, 'v) btree \<Rightarrow> 'e + ('k, 'v) btree" where
  "insert_chunks w dec duplicate 0 bytes m = Inr m"
| "insert_chunks w dec duplicate (Suc n) bytes m =
     try_bind (dec (take w bytes)) (\<lambda>(k, v).
     if bt_get m k \<noteq> None then Inl duplicate
     else insert_chunks w dec duplicate n (drop w bytes) (bt_insert k v m))"

text \<open>
  The keyed journals hold one ordered map: header, a \<open>u32\<close> count, the records, the checksum.
  \<open>keyed_load\<close> and \<open>keyed_persist\<close> are the loader and the writer they share; the header,
  record width, record codec and error values are those of the journal. The length arithmetic on a
  \<open>u32\<close> count cannot overflow a 64-bit \<open>usize\<close>.
\<close>

definition u32_try_from :: "nat \<Rightarrow> u32 option" where
  "u32_try_from n = (if n < 2 ^ 32 then Some (of_nat n) else None)"

definition keyed_decode ::
    "(byte list \<Rightarrow> bytes32) \<Rightarrow> byte list \<Rightarrow> nat \<Rightarrow> (byte list \<Rightarrow> 'e + 'k::linorder \<times> 'v) \<Rightarrow> 'e \<Rightarrow>
     byte list \<Rightarrow> 'e + ('k, 'v) btree" where
  "keyed_decode sha256 header w dec corrupt bytes =
     (if \<not> frame_ok sha256 header 4 bytes then Inl corrupt
      else
        let count = unat (from_le_bytes (slice (length header) (length header + 4) bytes) :: u32)
        in if length bytes \<noteq> length header + 4 + count * w + CHECKSUM_LEN then Inl corrupt
           else insert_chunks w dec corrupt count (drop (length header + 4) bytes) [])"

definition keyed_load ::
    "(byte list \<Rightarrow> bytes32) \<Rightarrow> byte list \<Rightarrow> nat \<Rightarrow> (byte list \<Rightarrow> 'e + 'k::linorder \<times> 'v) \<Rightarrow> 'e \<Rightarrow>
     (error_kind \<Rightarrow> 'e) \<Rightarrow> io_env \<Rightarrow> contents \<Rightarrow> 'e + ('k, 'v) btree" where
  "keyed_load sha256 header w dec corrupt io_error io file =
     try_bind (map_err io_error (fs_read io file)) (keyed_decode sha256 header w dec corrupt)"

definition keyed_image ::
    "(byte list \<Rightarrow> bytes32) \<Rightarrow> byte list \<Rightarrow> ('k::linorder \<times> 'v \<Rightarrow> byte list) \<Rightarrow> u32 \<Rightarrow>
     ('k, 'v) btree \<Rightarrow> byte list" where
  "keyed_image sha256 header enc count m =
     seal sha256 (header @ to_le_bytes count @ concat (map enc m))"

definition keyed_persist ::
    "(byte list \<Rightarrow> bytes32) \<Rightarrow> byte list \<Rightarrow> ('k::linorder \<times> 'v \<Rightarrow> byte list) \<Rightarrow> 'e \<Rightarrow>
     (error_kind \<Rightarrow> 'e) \<Rightarrow> io_env \<Rightarrow> ('k, 'v) btree \<Rightarrow> contents \<Rightarrow> contents \<times> ('e + unit)" where
  "keyed_persist sha256 header enc overflow io_error io m file =
     (case u32_try_from (length m) of
        None \<Rightarrow> (file, Inl overflow)
      | Some count \<Rightarrow>
          (case replace_file io (keyed_image sha256 header enc count m) file of
             (file', r) \<Rightarrow> (file', map_err io_error r)))"

text \<open>The shape of every mutation: lock, load, apply, persist, and only then publish the new state.\<close>

definition update_file ::
    "(io_env \<Rightarrow> 'e + unit) \<Rightarrow> (io_env \<Rightarrow> contents \<Rightarrow> 'e + 'm) \<Rightarrow>
     (io_env \<Rightarrow> 'm \<Rightarrow> contents \<Rightarrow> contents \<times> ('e + unit)) \<Rightarrow>
     io_env \<Rightarrow> ('m \<Rightarrow> 'e + 'm) \<Rightarrow> contents \<Rightarrow> contents \<times> ('e + 'm)" where
  "update_file acquire load persist io operation file =
     (case acquire io of Inl e \<Rightarrow> (file, Inl e) | Inr _ \<Rightarrow>
      case load io file of Inl e \<Rightarrow> (file, Inl e) | Inr current \<Rightarrow>
      case operation current of Inl e \<Rightarrow> (file, Inl e) | Inr next \<Rightarrow>
      case persist io next file of
        (file', Inl e) \<Rightarrow> (file', Inl e)
      | (file', Inr _) \<Rightarrow> (file', Inr next))"

section \<open>Lemmas\<close>

lemma lock_loop_free: "try_lock i = None \<Longrightarrow> lock_loop (Suc n) i try_lock = Inr ()"
  by simp

lemma lock_loop_busy:
  "lock_loop n i try_lock = Inl WouldBlock \<longleftrightarrow> (\<forall>j < n. try_lock (i + j) = Some WouldBlock)"
proof (induction n arbitrary: i)
  case (Suc n)
  show ?case
    by (auto simp: Suc.IH All_less_Suc2 split: option.splits)
qed simp

lemma acquire_no_faults [simp]: "acquire_or_busy io_error busy no_faults = Inr ()"
  by (simp add: acquire_or_busy_def advisory_lock_acquire_def no_faults_def LOCK_ATTEMPTS_def
      lock_loop_free numeral_eq_Suc)

lemma fs_read_no_faults [simp]: "fs_read no_faults (Some bytes) = Inr bytes"
  by (simp add: fs_read_def no_faults_def)

lemma fs_read_Inr: "fs_read io file = Inr bytes \<Longrightarrow> file = Some bytes"
  by (auto simp: fs_read_def split: option.splits)

lemma replace_file_no_faults [simp]: "replace_file no_faults bytes file = (Some bytes, Inr ())"
  by (simp add: replace_file_def no_faults_def)

lemma replace_file_cases:
  "replace_file io bytes file = (file', r) \<Longrightarrow>
     (r = Inr () \<and> file' = Some bytes) \<or> ((\<exists>e. r = Inl e) \<and> (file' = file \<or> file' = Some bytes))"
  by (auto simp: replace_file_def split: option.splits)

lemma length_seal [simp]: "length (seal sha256 payload) = length payload + 32"
  by (simp add: seal_def)

lemma frame_ok_seal:
  "length header + counts \<le> length payload \<Longrightarrow> take (length header) payload = header \<Longrightarrow>
     frame_ok sha256 header counts (seal sha256 payload)"
  by (simp add: frame_ok_def seal_def CHECKSUM_LEN_def)

lemma bt_insert_last: "\<forall>k' \<in> fst ` set m. k' < k \<Longrightarrow> bt_insert k v m = m @ [(k, v)]"
  by (induction m) (auto dest: less_asym)

lemma bt_get_larger: "\<forall>k' \<in> fst ` set m. k' < k \<Longrightarrow> bt_get m k = None"
  by (auto simp: bt_get_def map_of_eq_None_iff)

lemma insert_chunks_enc:
  assumes "\<And>e. e \<in> set m \<Longrightarrow> dec (enc e) = Inr e" and "\<And>e. e \<in> set m \<Longrightarrow> length (enc e) = w"
    and "bt_wf (acc @ m)"
  shows "insert_chunks w dec duplicate (length m) (concat (map enc m) @ rest) acc = Inr (acc @ m)"
  using assms
proof (induction m arbitrary: acc)
  case (Cons e m)
  obtain k v where e: "e = (k, v)" by (cases e)
  have less: "\<forall>k' \<in> fst ` set acc. k' < k"
    using Cons.prems(3) by (auto simp: bt_wf_def sorted_wrt_append e)
  have "insert_chunks w dec duplicate (length m) (concat (map enc m) @ rest) (acc @ [(k, v)])
      = Inr ((acc @ [(k, v)]) @ m)"
    using Cons.prems by (intro Cons.IH) (auto simp: e)
  with Cons.prems less show ?case
    by (simp add: e bt_insert_last bt_get_larger)
qed simp

lemma insert_chunks_invariant:
  assumes "insert_chunks w dec duplicate n bytes acc = Inr m" and "bt_wf acc"
    and "\<And>k v. (k, v) \<in> set acc \<Longrightarrow> P k v" and "\<And>bs k v. dec bs = Inr (k, v) \<Longrightarrow> P k v"
  shows "bt_wf m \<and> (\<forall>(k, v) \<in> set m. P k v)"
  using assms(1-3)
proof (induction n arbitrary: bytes acc)
  case (Suc n)
  from Suc.prems(1) obtain k v where dec: "dec (take w bytes) = Inr (k, v)"
    and rest: "insert_chunks w dec duplicate n (drop w bytes) (bt_insert k v acc) = Inr m"
    by (auto simp: res_simps split: prod.splits if_splits)
  have wf: "bt_wf (bt_insert k v acc)" using Suc.prems(2) by (rule bt_wf_insert)
  show ?case
  proof (rule Suc.IH [OF rest wf])
    fix k' v' assume "(k', v') \<in> set (bt_insert k v acc)"
    then have "bt_get (bt_insert k v acc) k' = Some v'" using wf by (simp add: bt.entries_get)
    then have "(k' = k \<and> v' = v) \<or> bt_get acc k' = Some v'" by (auto simp: bt_get_insert split: if_splits)
    then show "P k' v'"
      using assms(4) [OF dec] Suc.prems(2,3) bt.entries_get [OF Suc.prems(2), of k' v'] by blast
  qed
qed auto

lemma length_insert_chunks:
  assumes "insert_chunks w dec duplicate n bytes acc = Inr m" and "bt_wf acc"
  shows "length m = length acc + n"
  using assms
proof (induction n arbitrary: bytes acc)
  case (Suc n)
  from Suc.prems(1) obtain k v where new: "bt_get acc k = None"
    and rest: "insert_chunks w dec duplicate n (drop w bytes) (bt_insert k v acc) = Inr m"
    by (auto simp: res_simps split: prod.splits if_splits)
  from Suc.IH [OF rest bt_wf_insert] Suc.prems(2) show ?case
    using bt.length_insert [OF Suc.prems(2), of k v] new by simp
qed simp

section \<open>The contract of a journal file\<close>

text \<open>
  \<open>holds file m\<close>: the file is a valid journal with contents \<open>m\<close>. Loading returns what the file
  holds, and persisting either succeeds with the file holding the new contents, or fails with the
  file unchanged or holding the new contents.
\<close>

locale journal =
  fixes acquire :: "io_env \<Rightarrow> 'e + unit"
    and load :: "io_env \<Rightarrow> contents \<Rightarrow> 'e + 'm"
    and persist :: "io_env \<Rightarrow> 'm \<Rightarrow> contents \<Rightarrow> contents \<times> ('e + unit)"
    and holds :: "contents \<Rightarrow> 'm \<Rightarrow> bool"
    and valid :: "'m \<Rightarrow> bool"
  assumes load_holds: "load io file = Inr m \<Longrightarrow> holds file m"
    and holds_valid: "holds file m \<Longrightarrow> valid m"
    and holds_unique: "holds file m \<Longrightarrow> holds file m' \<Longrightarrow> m' = m"
    and persist_ok: "valid m \<Longrightarrow> persist io m file = (file', Inr u) \<Longrightarrow> holds file' m"
    and persist_error: "valid m \<Longrightarrow> persist io m file = (file', Inl e) \<Longrightarrow> file' = file \<or> holds file' m"
    and load_no_faults: "holds file m \<Longrightarrow> load no_faults file = Inr m"
begin

lemma update_ok:
  assumes "update_file acquire load persist io f file = (file', Inr m')"
    and "\<And>m m'. valid m \<Longrightarrow> f m = Inr m' \<Longrightarrow> valid m'"
  shows "\<exists>m. holds file m \<and> f m = Inr m' \<and> holds file' m'"
proof -
  from assms(1) obtain m u where m: "load io file = Inr m" "f m = Inr m'"
    and p: "persist io m' file = (file', Inr u)"
    by (auto simp: update_file_def split: sum.splits prod.splits)
  from m(1) have h: "holds file m" by (rule load_holds)
  with assms(2) m(2) have "valid m'" using holds_valid by blast
  with h m(2) persist_ok [OF _ p] show ?thesis by blast
qed

lemma update_atomic:
  assumes "update_file acquire load persist io f file = (file', r)" and "holds file m"
    and "\<And>m m'. valid m \<Longrightarrow> f m = Inr m' \<Longrightarrow> valid m'"
  shows "\<exists>m'. holds file' m' \<and> (m' = m \<or> f m = Inr m')"
proof (cases "file' = file")
  case True
  with assms(2) show ?thesis by blast
next
  case False
  with assms(1) obtain n m' s where n: "load io file = Inr n" "f n = Inr m'"
    and p: "persist io m' file = (file', s)"
    by (auto simp: update_file_def split: sum.splits prod.splits) metis+
  have nm: "n = m" using holds_unique [OF assms(2) load_holds [OF n(1)]] .
  then have "valid m'" using assms(3) holds_valid [OF assms(2)] n(2) by blast
  then have "holds file' m'"
    using p persist_ok persist_error False by (cases s) blast+
  with n(2) nm show ?thesis by blast
qed

end

section \<open>Keyed journals meet the contract\<close>

definition keyed_holds ::
    "(byte list \<Rightarrow> bytes32) \<Rightarrow> byte list \<Rightarrow> nat \<Rightarrow> (byte list \<Rightarrow> 'e + 'k::linorder \<times> 'v) \<Rightarrow> 'e \<Rightarrow>
     contents \<Rightarrow> ('k, 'v) btree \<Rightarrow> bool" where
  "keyed_holds sha256 header w dec corrupt file m \<longleftrightarrow>
     (\<exists>bytes. file = Some bytes \<and> keyed_decode sha256 header w dec corrupt bytes = Inr m)"

definition keyed_valid :: "('k \<Rightarrow> 'v \<Rightarrow> bool) \<Rightarrow> ('k::linorder, 'v) btree \<Rightarrow> bool" where
  "keyed_valid P m \<longleftrightarrow> bt_wf m \<and> (\<forall>(k, v) \<in> set m. P k v)"

lemma keyed_valid_get: "keyed_valid P m \<Longrightarrow> bt_get m k = Some v \<Longrightarrow> P k v"
  using bt.entries_get by (fastforce simp: keyed_valid_def)

lemma keyed_valid_insert: "keyed_valid P m \<Longrightarrow> P k v \<Longrightarrow> keyed_valid P (bt_insert k v m)"
proof -
  assume m: "keyed_valid P m" and kv: "P k v"
  then have wf: "bt_wf (bt_insert k v m)" by (simp add: keyed_valid_def bt_wf_insert)
  moreover have "P k' v'" if "(k', v') \<in> set (bt_insert k v m)" for k' v'
    using that kv keyed_valid_get [OF m] bt.entries_get [OF wf, of k' v']
    by (auto simp: bt_get_insert split: if_splits)
  ultimately show ?thesis by (auto simp: keyed_valid_def)
qed

lemma keyed_valid_empty: "keyed_valid P []"
  by (simp add: keyed_valid_def bt.wf_empty)

locale keyed_journal =
  fixes sha256 :: "byte list \<Rightarrow> bytes32"
    and header :: "byte list"
    and w :: nat
    and enc :: "'k::linorder \<times> 'v \<Rightarrow> byte list"
    and dec :: "byte list \<Rightarrow> 'e + 'k \<times> 'v"
    and corrupt busy overflow :: 'e
    and io_error :: "error_kind \<Rightarrow> 'e"
    and P :: "'k \<Rightarrow> 'v \<Rightarrow> bool"
  assumes dec_enc: "P k v \<Longrightarrow> dec (enc (k, v)) = Inr (k, v)"
    and dec_ok: "dec bs = Inr (k, v) \<Longrightarrow> P k v"
    and length_enc: "length (enc e) = w"
begin

lemma decode_valid: "keyed_decode sha256 header w dec corrupt bytes = Inr m \<Longrightarrow> keyed_valid P m"
  using insert_chunks_invariant [where acc = "[]" and P = P and dec = dec] dec_ok
  by (fastforce simp: keyed_decode_def keyed_valid_def Let_def bt.wf_empty split: if_splits)

lemma decode_image:
  assumes "keyed_valid P m" and "u32_try_from (length m) = Some count"
  shows "keyed_decode sha256 header w dec corrupt (keyed_image sha256 header enc count m) = Inr m"
proof -
  have count: "unat count = length m"
    using assms(2) by (auto simp: u32_try_from_def unat_of_nat split: if_splits)
  have len: "length (concat (map enc m)) = length m * w"
    by (induction m) (simp_all add: length_enc)
  have chunks: "insert_chunks w dec corrupt (length m) (concat (map enc m) @ rest) [] = Inr ([] @ m)" for rest
    using assms(1) dec_enc length_enc by (intro insert_chunks_enc) (auto simp: keyed_valid_def)
  show ?thesis
    by (simp add: keyed_decode_def keyed_image_def frame_ok_seal seal_def bytes_simps count len chunks
        CHECKSUM_LEN_def Let_def) (simp add: frame_ok_def CHECKSUM_LEN_def)
qed

end

sublocale keyed_journal \<subseteq> journal "acquire_or_busy io_error busy"
  "keyed_load sha256 header w dec corrupt io_error" "keyed_persist sha256 header enc overflow io_error"
  "keyed_holds sha256 header w dec corrupt" "keyed_valid P"
proof unfold_locales
  fix io "file" m
  assume "keyed_load sha256 header w dec corrupt io_error io file = Inr m"
  then show "keyed_holds sha256 header w dec corrupt file m"
    by (auto simp: keyed_load_def keyed_holds_def res_simps dest: fs_read_Inr)
next
  fix m io "file" file' u
  assume m: "keyed_valid P m" and p: "keyed_persist sha256 header enc overflow io_error io m file = (file', Inr u)"
  from p obtain count r where "u32_try_from (length m) = Some count"
    and "replace_file io (keyed_image sha256 header enc count m) file = (file', r)" "r = Inr ()"
    by (auto simp: keyed_persist_def res_simps split: option.splits prod.splits)
  with m show "keyed_holds sha256 header w dec corrupt file' m"
    by (auto simp: keyed_holds_def decode_image dest: replace_file_cases)
next
  fix m io "file" file' e
  assume m: "keyed_valid P m" and p: "keyed_persist sha256 header enc overflow io_error io m file = (file', Inl e)"
  show "file' = file \<or> keyed_holds sha256 header w dec corrupt file' m"
  proof (cases "u32_try_from (length m)")
    case None
    with p show ?thesis by (simp add: keyed_persist_def)
  next
    case (Some count)
    obtain f r where r: "replace_file io (keyed_image sha256 header enc count m) file = (f, r)" by fastforce
    with p Some have "file' = f" by (simp add: keyed_persist_def)
    with replace_file_cases [OF r] m Some show ?thesis
      by (auto simp: keyed_holds_def decode_image)
  qed
qed (auto simp: keyed_holds_def keyed_load_def decode_valid)

end
