(* ===== verification/Intent.thy ===== *)
theory Intent
  imports Kageb_Codec
begin

text \<open>
  \<open>kageb-host/src/domain.rs\<close>: order sides and the 128-byte intent body a client encrypts. The
  decoder checks length, version, padding, side and the economic constraints in this order; the
  codec is interpreted as \<open>record_codec\<close> for the intents the constructor accepts.
\<close>

datatype side = Buy | Sell

datatype protocol_error =
    InvalidIntentLength nat
  | InvalidVersion u8
  | InvalidSide u8
  | InvalidLots u32
  | InvalidLimitPrice
  | NonZeroPadding

fun side_code :: "side \<Rightarrow> u8" where
  "side_code Buy = 0"
| "side_code Sell = 1"

definition side_try_from :: "u8 \<Rightarrow> protocol_error + side" where
  "side_try_from v = (if v = 0 then Inr Buy else if v = 1 then Inr Sell else Inl (InvalidSide v))"

definition INTENT_VERSION :: u8 where
  "INTENT_VERSION = 1"

definition INTENT_LEN :: nat where
  "INTENT_LEN = 128"

definition PADDING_START :: nat where
  "PADDING_START = 94"

record intent_body =
  ib_side :: side
  ib_lots :: u32
  ib_limit_price :: u64
  ib_epoch_id :: bytes32
  ib_participant_id :: bytes32
  ib_client_nonce :: bytes16

definition intent_new ::
    "side \<Rightarrow> u32 \<Rightarrow> u64 \<Rightarrow> bytes32 \<Rightarrow> bytes32 \<Rightarrow> bytes16 \<Rightarrow> protocol_error + intent_body" where
  "intent_new side lots limit_price epoch_id participant_id client_nonce =
     (if lots \<noteq> 1 then Inl (InvalidLots lots)
      else if limit_price = 0 then Inl InvalidLimitPrice
      else Inr
        \<lparr> ib_side = side, ib_lots = lots, ib_limit_price = limit_price, ib_epoch_id = epoch_id,
          ib_participant_id = participant_id, ib_client_nonce = client_nonce \<rparr>)"

definition intent_encode :: "intent_body \<Rightarrow> byte list" where
  "intent_encode i =
     (let bytes = replicate INTENT_LEN 0;
          bytes = put 0 [INTENT_VERSION] bytes;
          bytes = put 1 [side_code (ib_side i)] bytes;
          bytes = put 2 (to_le_bytes (ib_lots i)) bytes;
          bytes = put 6 (to_le_bytes (ib_limit_price i)) bytes;
          bytes = put 14 (arr_bytes (ib_epoch_id i)) bytes;
          bytes = put 46 (arr_bytes (ib_participant_id i)) bytes;
          bytes = put 78 (arr_bytes (ib_client_nonce i)) bytes
      in bytes)"

definition intent_decode :: "byte list \<Rightarrow> protocol_error + intent_body" where
  "intent_decode bytes =
     (if length bytes \<noteq> INTENT_LEN then Inl (InvalidIntentLength (length bytes))
      else if bytes ! 0 \<noteq> INTENT_VERSION then Inl (InvalidVersion (bytes ! 0))
      else if list_ex (\<lambda>byte. byte \<noteq> 0) (drop PADDING_START bytes) then Inl NonZeroPadding
      else
      try_bind (side_try_from (bytes ! 1)) (\<lambda>side.
      intent_new side
        (from_le_bytes (slice 2 6 bytes))
        (from_le_bytes (slice 6 14 bytes))
        (arr_of (slice 14 46 bytes))
        (arr_of (slice 46 78 bytes))
        (arr_of (slice 78 94 bytes))))"

definition intent_valid :: "intent_body \<Rightarrow> bool" where
  "intent_valid i \<longleftrightarrow> ib_lots i = 1 \<and> ib_limit_price i \<noteq> 0"

lemma intent_new_Inr:
  "intent_new s l p e k n = Inr i \<longleftrightarrow> i = \<lparr> ib_side = s, ib_lots = l, ib_limit_price = p, ib_epoch_id = e,
     ib_participant_id = k, ib_client_nonce = n \<rparr> \<and> intent_valid i"
  by (auto simp: intent_new_def intent_valid_def)

lemma side_round [simp]: "side_try_from (side_code s) = Inr s"
  by (cases s) (simp_all add: side_try_from_def)

lemma side_unround: "side_try_from v = Inr s \<Longrightarrow> side_code s = v"
  by (auto simp: side_try_from_def split: if_splits)

lemma intent_encode_eq:
  "intent_encode i =
     [INTENT_VERSION] @ [side_code (ib_side i)] @ to_le_bytes (ib_lots i) @
     to_le_bytes (ib_limit_price i) @ arr_bytes (ib_epoch_id i) @ arr_bytes (ib_participant_id i) @
     arr_bytes (ib_client_nonce i) @ replicate 34 0"
  by (simp add: intent_encode_def INTENT_LEN_def Let_def bytes_simps)

interpretation intent_codec: record_codec intent_encode intent_decode intent_valid INTENT_LEN
proof unfold_locales
  fix i :: intent_body
  show "length (intent_encode i) = INTENT_LEN"
    by (simp add: intent_encode_eq INTENT_LEN_def)
  assume "intent_valid i"
  then show "ok (intent_decode (intent_encode i)) = Some i"
    by (simp add: intent_decode_def intent_encode_eq INTENT_LEN_def PADDING_START_def bytes_simps
        list_ex_iff intent_new_def intent_valid_def)
next
  fix bytes i assume "ok (intent_decode bytes) = Some i"
  then have dec: "intent_decode bytes = Inr i" by (simp add: ok_Some)
  then have len: "length bytes = 128" and v: "INTENT_VERSION = bytes ! 0"
    and zero: "\<forall>b \<in> set (drop 94 bytes). b = 0"
    by (auto simp: intent_decode_def INTENT_LEN_def PADDING_START_def list_ex_iff res_simps)
  from dec obtain s where s: "side_try_from (bytes ! 1) = Inr s"
    and i: "i = \<lparr> ib_side = s, ib_lots = from_le_bytes (slice 2 6 bytes),
      ib_limit_price = from_le_bytes (slice 6 14 bytes), ib_epoch_id = arr_of (slice 14 46 bytes),
      ib_participant_id = arr_of (slice 46 78 bytes), ib_client_nonce = arr_of (slice 78 94 bytes) \<rparr>"
    and valid: "intent_valid i"
    by (auto simp: intent_decode_def res_simps intent_new_Inr)
  have pad: "replicate 34 0 = slice 94 128 bytes"
    using zero len replicate_eqI [of "drop 94 bytes" 34 0] by (simp add: slice_to_end)
  have "intent_encode i = [bytes ! 0] @ [bytes ! 1] @ slice 2 94 bytes @ slice 94 128 bytes"
    unfolding intent_encode_eq v pad
    using len side_unround [OF s] by (simp add: i slice_join)
  also have "\<dots> = bytes" using len by (simp add: slice_join slice_all)
  finally show "intent_valid i \<and> intent_encode i = bytes" using valid by simp
qed

end
