(* ===== verification/Ledger.thy ===== *)
theory Ledger
  imports Intent "HOL-Library.Multiset"
begin

text \<open>
  \<open>kageb-host/src/ledger.rs\<close>: netting of a batch of one-lot orders against the participants'
  balances at a uniform price. Balances are an ordered map from participant ids; \<open>i128\<close> values are
  integers with the overflow checks written out.
\<close>

type_synonym participant_id = bytes32

record batch_config =
  bc_base_lot_atoms :: u64
  bc_quote_atoms_per_lot :: u64

record pool_balance =
  pb_base_atoms :: u64
  pb_quote_atoms :: u64

record funded_order =
  fo_participant_id :: participant_id
  fo_side :: side
  fo_limit_price :: u64

datatype residual = Residual_none | Residual_buy u32 | Residual_sell u32

record vault_delta =
  vd_base_atoms :: int
  vd_quote_atoms :: int

type_synonym balances = "(participant_id, pool_balance) btree"

record batch_result =
  br_before_balances :: balances
  br_balances :: balances
  br_residual :: residual
  br_vault_delta :: vault_delta

datatype ledger_error =
    InvalidConfig
  | InvalidLimit
  | EmptyBatch
  | UnknownParticipant participant_id
  | DuplicateParticipant participant_id
  | InsufficientReservation participant_id
  | LimitViolated participant_id
  | LedgerOverflow
  | ConservationFailed

definition batch_config_new :: "u64 \<Rightarrow> u64 \<Rightarrow> ledger_error + batch_config" where
  "batch_config_new base_lot_atoms quote_atoms_per_lot =
     (if base_lot_atoms = 0 \<or> quote_atoms_per_lot = 0 then Inl InvalidConfig
      else Inr \<lparr> bc_base_lot_atoms = base_lot_atoms, bc_quote_atoms_per_lot = quote_atoms_per_lot \<rparr>)"

definition funded_order_new :: "participant_id \<Rightarrow> side \<Rightarrow> u64 \<Rightarrow> ledger_error + funded_order" where
  "funded_order_new participant_id side limit_price =
     (if limit_price = 0 then Inl InvalidLimit
      else Inr \<lparr> fo_participant_id = participant_id, fo_side = side, fo_limit_price = limit_price \<rparr>)"

section \<open>Netting\<close>

fun totals_from :: "int \<times> int \<Rightarrow> pool_balance list \<Rightarrow> (int \<times> int) option" where
  "totals_from acc [] = Some acc"
| "totals_from (b, q) (x # xs) =
     Option.bind (i128_of (b + uint (pb_base_atoms x))) (\<lambda>b'.
     Option.bind (i128_of (q + uint (pb_quote_atoms x))) (\<lambda>q'.
     totals_from (b', q') xs))"

definition totals :: "balances \<Rightarrow> (int \<times> int) option" where
  "totals balances = totals_from (0, 0) (bt_values balances)"

definition conserves :: "batch_result \<Rightarrow> balances \<Rightarrow> bool" where
  "conserves r before =
     (case totals before of
        None \<Rightarrow> False
      | Some (before_base, before_quote) \<Rightarrow>
          (case totals (br_balances r) of
             None \<Rightarrow> False
           | Some (after_base, after_quote) \<Rightarrow>
               i128_of (before_base + vd_base_atoms (br_vault_delta r)) = Some after_base
               \<and> i128_of (before_quote + vd_quote_atoms (br_vault_delta r)) = Some after_quote))"

fun check_unique :: "participant_id set \<Rightarrow> funded_order list \<Rightarrow> ledger_error + unit" where
  "check_unique seen [] = Inr ()"
| "check_unique seen (order # orders) =
     (if fo_participant_id order \<in> seen then Inl (DuplicateParticipant (fo_participant_id order))
      else check_unique (insert (fo_participant_id order) seen) orders)"

definition apply_order ::
    "batch_config \<Rightarrow> balances \<times> u32 \<times> u32 \<Rightarrow> funded_order \<Rightarrow> ledger_error + balances \<times> u32 \<times> u32" where
  "apply_order config = (\<lambda>(balances, buys, sells) order.
     let id = fo_participant_id order; lot = bc_base_lot_atoms config;
         price = bc_quote_atoms_per_lot config
     in
     try_bind (ok_or (bt_get balances id) (UnknownParticipant id)) (\<lambda>balance.
     if pb_base_atoms balance < lot \<or> pb_quote_atoms balance < price
     then Inl (InsufficientReservation id)
     else case fo_side order of
       Buy \<Rightarrow>
         if fo_limit_price order < price then Inl (LimitViolated id)
         else
         try_bind (ok_or (checked_add (pb_base_atoms balance) lot) LedgerOverflow) (\<lambda>base.
         try_bind (ok_or (checked_sub (pb_quote_atoms balance) price) LedgerOverflow) (\<lambda>quote.
         try_bind (ok_or (checked_add buys 1) LedgerOverflow) (\<lambda>buys.
         Inr (bt_insert id \<lparr> pb_base_atoms = base, pb_quote_atoms = quote \<rparr> balances, buys, sells))))
     | Sell \<Rightarrow>
         if price < fo_limit_price order then Inl (LimitViolated id)
         else
         try_bind (ok_or (checked_sub (pb_base_atoms balance) lot) LedgerOverflow) (\<lambda>base.
         try_bind (ok_or (checked_add (pb_quote_atoms balance) price) LedgerOverflow) (\<lambda>quote.
         try_bind (ok_or (checked_add sells 1) LedgerOverflow) (\<lambda>sells.
         Inr (bt_insert id \<lparr> pb_base_atoms = base, pb_quote_atoms = quote \<rparr> balances, buys, sells))))))"

fun apply_orders ::
    "batch_config \<Rightarrow> funded_order list \<Rightarrow> balances \<times> u32 \<times> u32 \<Rightarrow> ledger_error + balances \<times> u32 \<times> u32" where
  "apply_orders config [] st = Inr st"
| "apply_orders config (order # orders) st =
     try_bind (apply_order config st order) (apply_orders config orders)"

definition residual_of :: "u32 \<Rightarrow> u32 \<Rightarrow> residual \<times> int" where
  "residual_of buys sells =
     (if sells < buys then let lots = buys - sells in (Residual_buy lots, uint lots)
      else if buys < sells then let lots = sells - buys in (Residual_sell lots, - uint lots)
      else (Residual_none, 0))"

definition net_batch :: "batch_config \<Rightarrow> balances \<Rightarrow> funded_order list \<Rightarrow> ledger_error + batch_result" where
  "net_batch config before orders =
     (if orders = [] then Inl EmptyBatch
      else
      try_bind (check_unique {} orders) (\<lambda>_.
      try_bind (apply_orders config orders (before, 0, 0)) (\<lambda>(balances, buys, sells).
      let (residual, signed_lots) = residual_of buys sells in
      try_bind (ok_or (i128_of (signed_lots * uint (bc_base_lot_atoms config))) LedgerOverflow) (\<lambda>base_atoms.
      try_bind (ok_or (Option.bind (i128_of (signed_lots * uint (bc_quote_atoms_per_lot config)))
          (\<lambda>q. i128_of (- q))) LedgerOverflow) (\<lambda>quote_atoms.
      let result =
        \<lparr> br_before_balances = before, br_balances = balances, br_residual = residual,
          br_vault_delta = \<lparr> vd_base_atoms = base_atoms, vd_quote_atoms = quote_atoms \<rparr> \<rparr>
      in if \<not> conserves result before then Inl ConservationFailed
         else Inr result)))))"

section \<open>What one order does\<close>

text \<open>\<open>order_ok\<close>: the order is fully funded on both legs, within its limit, and the credit fits.\<close>

definition order_ok :: "batch_config \<Rightarrow> pool_balance \<Rightarrow> funded_order \<Rightarrow> bool" where
  "order_ok config b order \<longleftrightarrow>
     bc_base_lot_atoms config \<le> pb_base_atoms b \<and> bc_quote_atoms_per_lot config \<le> pb_quote_atoms b \<and>
     (case fo_side order of
        Buy \<Rightarrow> bc_quote_atoms_per_lot config \<le> fo_limit_price order \<and>
          unat (pb_base_atoms b) + unat (bc_base_lot_atoms config) < 2 ^ 64
      | Sell \<Rightarrow> fo_limit_price order \<le> bc_quote_atoms_per_lot config \<and>
          unat (pb_quote_atoms b) + unat (bc_quote_atoms_per_lot config) < 2 ^ 64)"

definition fill :: "batch_config \<Rightarrow> side \<Rightarrow> pool_balance \<Rightarrow> pool_balance" where
  "fill config side b = (case side of
     Buy \<Rightarrow> \<lparr> pb_base_atoms = pb_base_atoms b + bc_base_lot_atoms config,
             pb_quote_atoms = pb_quote_atoms b - bc_quote_atoms_per_lot config \<rparr>
   | Sell \<Rightarrow> \<lparr> pb_base_atoms = pb_base_atoms b - bc_base_lot_atoms config,
             pb_quote_atoms = pb_quote_atoms b + bc_quote_atoms_per_lot config \<rparr>)"

definition count_side :: "side \<Rightarrow> funded_order list \<Rightarrow> nat" where
  "count_side s orders = length (filter (\<lambda>order. fo_side order = s) orders)"

definition signed :: "side \<Rightarrow> int" where
  "signed s = (case s of Buy \<Rightarrow> 1 | Sell \<Rightarrow> - 1)"

lemma checked_results:
  "checked_add x y = Some z \<longleftrightarrow> z = x + y \<and> unat x + unat y < 2 ^ LENGTH('a)"
  "checked_sub x y = Some z \<longleftrightarrow> z = x - y \<and> y \<le> x" for x y z :: "'a::len word"
  by (auto simp: checked_add_def checked_sub_def)

lemma checked_increment: "checked_add b 1 = Some b' \<longleftrightarrow> unat b' = Suc (unat b)" for b b' :: u32
  by (simp add: checked_add_Some)

lemma apply_order_Inr:
  "apply_order config (m, b, s) order = Inr (m', b', s') \<longleftrightarrow>
     (\<exists>x. bt_get m (fo_participant_id order) = Some x \<and> order_ok config x order \<and>
        m' = bt_insert (fo_participant_id order) (fill config (fo_side order) x) m \<and>
        unat b' = unat b + (if fo_side order = Buy then 1 else 0) \<and>
        unat s' = unat s + (if fo_side order = Sell then 1 else 0))"
proof (cases "fo_side order")
  case Buy
  then show ?thesis
    by (simp add: apply_order_def Let_def res_simps checked_increment)
      (auto simp: checked_results order_ok_def fill_def not_less word_unat_eq_iff [of s s'])
next
  case Sell
  then show ?thesis
    by (simp add: apply_order_def Let_def res_simps checked_increment)
      (auto simp: checked_results order_ok_def fill_def not_less word_unat_eq_iff [of b b'])
qed

lemma check_unique_Inr:
  "check_unique seen orders = Inr () \<longleftrightarrow>
     distinct (map fo_participant_id orders) \<and> fo_participant_id ` set orders \<inter> seen = {}"
  by (induction seen orders rule: check_unique.induct) auto

section \<open>What a batch does\<close>

text \<open>
  With one order per participant the orders do not interfere: every participant's new balance is a
  function of the old one and of their own order.
\<close>

definition order_of :: "funded_order list \<Rightarrow> participant_id \<Rightarrow> funded_order option" where
  "order_of orders p = map_of (map (\<lambda>order. (fo_participant_id order, order)) orders) p"

definition net_balance ::
    "batch_config \<Rightarrow> balances \<Rightarrow> funded_order list \<Rightarrow> participant_id \<Rightarrow> pool_balance option" where
  "net_balance config before orders p =
     (case order_of orders p of
        None \<Rightarrow> bt_get before p
      | Some order \<Rightarrow> map_option (fill config (fo_side order)) (bt_get before p))"

definition batch_ok :: "batch_config \<Rightarrow> balances \<Rightarrow> funded_order list \<Rightarrow> bool" where
  "batch_ok config before orders \<longleftrightarrow>
     (\<forall>order \<in> set orders. \<exists>b. bt_get before (fo_participant_id order) = Some b \<and> order_ok config b order)"

lemma order_of_set:
  "distinct (map fo_participant_id orders) \<Longrightarrow> order \<in> set orders \<Longrightarrow>
     order_of orders (fo_participant_id order) = Some order"
  by (force simp: order_of_def o_def intro: map_of_is_SomeI)

lemma order_of_Cons:
  "order_of (order # orders) p = (if p = fo_participant_id order then Some order else order_of orders p)"
  by (simp add: order_of_def)

lemma order_of_None: "order_of orders p = None \<longleftrightarrow> p \<notin> fo_participant_id ` set orders"
  by (simp add: order_of_def map_of_eq_None_iff image_image)

lemma apply_orders_Inr:
  assumes "distinct (map fo_participant_id orders)" and "bt_wf m"
  shows "apply_orders config orders (m, b, s) = Inr (m', b', s') \<longleftrightarrow>
    batch_ok config m orders \<and> bt_wf m' \<and> (\<forall>p. bt_get m' p = net_balance config m orders p) \<and>
    unat b' = unat b + count_side Buy orders \<and> unat s' = unat s + count_side Sell orders"
  using assms
proof (induction orders arbitrary: m b s)
  case Nil
  have "(m, b, s) = (m', b', s') \<longleftrightarrow> bt_wf m' \<and> (\<forall>p. bt_get m' p = bt_get m p) \<and> unat b' = unat b \<and> unat s' = unat s"
    using Nil.prems bt.entries_ext [of m' m] by (auto simp: word_unat_eq_iff)
  then show ?case by (simp add: batch_ok_def net_balance_def order_of_def count_side_def)
next
  case (Cons order orders)
  let ?id = "fo_participant_id order"
  have fresh: "?id \<notin> fo_participant_id ` set orders" and dist: "distinct (map fo_participant_id orders)"
    using Cons.prems by auto
  have ok: "batch_ok config (bt_insert ?id x m) orders \<longleftrightarrow> batch_ok config m orders" for x
  proof -
    have "bt_get (bt_insert ?id x m) (fo_participant_id o') = bt_get m (fo_participant_id o')"
      if "o' \<in> set orders" for o'
      using fresh that by (metis bt_get_insert image_eqI)
    then show ?thesis by (simp add: batch_ok_def)
  qed
  have net: "(\<forall>p. bt_get m' p = net_balance config (bt_insert ?id (fill config (fo_side order) x) m) orders p) \<longleftrightarrow>
      (\<forall>p. bt_get m' p = net_balance config m (order # orders) p)" if "bt_get m ?id = Some x" for x
  proof -
    have "net_balance config (bt_insert ?id (fill config (fo_side order) x) m) orders p =
        net_balance config m (order # orders) p" for p
      using that fresh order_of_None [of orders ?id]
      by (auto simp: net_balance_def order_of_Cons bt_get_insert split: option.splits)
    then show ?thesis by simp
  qed
  have bounds: "\<exists>b1 :: u32. unat b1 = unat b + 1" if "unat b' = unat b + 1 + n" for b b' :: u32 and n
  proof -
    have "unat b' < 2 ^ LENGTH(32)" by (rule unsigned_less)
    with that have "unat (b + 1) = unat b + 1" by (simp add: unat_word_ariths)
    then show ?thesis ..
  qed
  show ?case
  proof (cases "bt_get m ?id")
    case None
    then have "\<nexists>r. apply_order config (m, b, s) order = Inr r"
      by (auto simp: apply_order_Inr)
    with None show ?thesis by (auto simp: res_simps batch_ok_def)
  next
    case (Some x)
    have "apply_orders config (order # orders) (m, b, s) = Inr (m', b', s') \<longleftrightarrow>
        (\<exists>b1 s1. order_ok config x order \<and>
          unat b1 = unat b + (if fo_side order = Buy then 1 else 0) \<and>
          unat s1 = unat s + (if fo_side order = Sell then 1 else 0) \<and>
          apply_orders config orders (bt_insert ?id (fill config (fo_side order) x) m, b1, s1) = Inr (m', b', s'))"
      using Some by (auto simp: res_simps apply_order_Inr)
    also have "\<dots> \<longleftrightarrow> (\<exists>(b1 :: u32) (s1 :: u32). order_ok config x order \<and>
          unat b1 = unat b + (if fo_side order = Buy then 1 else 0) \<and>
          unat s1 = unat s + (if fo_side order = Sell then 1 else 0) \<and>
          batch_ok config m orders \<and> bt_wf m' \<and> (\<forall>p. bt_get m' p = net_balance config m (order # orders) p) \<and>
          unat b' = unat b1 + count_side Buy orders \<and> unat s' = unat s1 + count_side Sell orders)"
      using Cons.IH [OF dist bt_wf_insert [OF Cons.prems(2)]] ok net [OF Some] by simp
    also have "\<dots> \<longleftrightarrow> order_ok config x order \<and> batch_ok config m orders \<and> bt_wf m' \<and>
          (\<forall>p. bt_get m' p = net_balance config m (order # orders) p) \<and>
          unat b' = unat b + count_side Buy (order # orders) \<and> unat s' = unat s + count_side Sell (order # orders)"
      using bounds [of b' b] bounds [of s' s] by (cases "fo_side order") (auto simp: count_side_def, metis+)
    also have "\<dots> \<longleftrightarrow> batch_ok config m (order # orders) \<and> bt_wf m' \<and>
          (\<forall>p. bt_get m' p = net_balance config m (order # orders) p) \<and>
          unat b' = unat b + count_side Buy (order # orders) \<and> unat s' = unat s + count_side Sell (order # orders)"
      using Some by (auto simp: batch_ok_def)
    finally show ?thesis .
  qed
qed

section \<open>Conservation\<close>

definition base_total :: "balances \<Rightarrow> int" where
  "base_total m = (\<Sum>e\<leftarrow>m. uint (pb_base_atoms (snd e)))"

definition quote_total :: "balances \<Rightarrow> int" where
  "quote_total m = (\<Sum>e\<leftarrow>m. uint (pb_quote_atoms (snd e)))"

lemma uint_add_fits: "unat a + unat b < 2 ^ 64 \<Longrightarrow> uint (a + b) = uint a + uint b" for a b :: u64
proof -
  assume "unat a + unat b < 2 ^ 64"
  then have "unat (a + b) = unat a + unat b" by (simp add: unat_word_ariths)
  then have "int (unat (a + b)) = int (unat a) + int (unat b)" by (simp only: of_nat_add)
  then show ?thesis by (simp only: uint_nat)
qed

lemma uint_sub_fits: "b \<le> a \<Longrightarrow> uint (a - b) = uint a - uint b" for a b :: u64
  unfolding uint_nat by (simp only: unat_sub word_le_nat_alt of_nat_diff)

lemma fill_base:
  "order_ok config x order \<Longrightarrow> uint (pb_base_atoms (fill config (fo_side order) x)) =
     uint (pb_base_atoms x) + signed (fo_side order) * uint (bc_base_lot_atoms config)"
  by (cases "fo_side order") (auto simp: order_ok_def fill_def signed_def uint_add_fits uint_sub_fits)

lemma fill_quote:
  "order_ok config x order \<Longrightarrow> uint (pb_quote_atoms (fill config (fo_side order) x)) =
     uint (pb_quote_atoms x) - signed (fo_side order) * uint (bc_quote_atoms_per_lot config)"
  by (cases "fo_side order") (auto simp: order_ok_def fill_def signed_def uint_add_fits uint_sub_fits)

lemma apply_order_totals:
  assumes "apply_order config (m, b, s) order = Inr (m', b', s')" and "bt_wf m"
  shows "bt_wf m'" and "length m' = length m"
    and "base_total m' = base_total m + ((int (unat b') - int (unat s')) - (int (unat b) - int (unat s))) * uint (bc_base_lot_atoms config)"
    and "quote_total m' = quote_total m - ((int (unat b') - int (unat s')) - (int (unat b) - int (unat s))) * uint (bc_quote_atoms_per_lot config)"
proof -
  let ?id = "fo_participant_id order"
  from assms(1) obtain x where x: "bt_get m ?id = Some x" and ok: "order_ok config x order"
    and m': "m' = bt_insert ?id (fill config (fo_side order) x) m"
    and cnt: "unat b' = unat b + (if fo_side order = Buy then 1 else 0)"
      "unat s' = unat s + (if fo_side order = Sell then 1 else 0)" by (auto simp: apply_order_Inr)
  have d: "(int (unat b') - int (unat s')) - (int (unat b) - int (unat s)) = signed (fo_side order)"
    using cnt by (cases "fo_side order") (simp_all add: signed_def)
  show "bt_wf m'" using assms(2) by (simp add: m' bt_wf_insert)
  show "length m' = length m" using bt.length_insert [OF assms(2), of ?id] x by (simp add: m')
  show "base_total m' = base_total m + ((int (unat b') - int (unat s')) - (int (unat b) - int (unat s))) * uint (bc_base_lot_atoms config)"
    using bt.sum_insert [OF assms(2) x, of "\<lambda>e. uint (pb_base_atoms (snd e))"] fill_base [OF ok]
    unfolding d by (simp add: base_total_def m')
  show "quote_total m' = quote_total m - ((int (unat b') - int (unat s')) - (int (unat b) - int (unat s))) * uint (bc_quote_atoms_per_lot config)"
    using bt.sum_insert [OF assms(2) x, of "\<lambda>e. uint (pb_quote_atoms (snd e))"] fill_quote [OF ok]
    unfolding d by (simp add: quote_total_def m')
qed

lemma apply_orders_totals:
  assumes "apply_orders config orders (m, b, s) = Inr (m', b', s')" and "bt_wf m"
  shows "length m' = length m \<and>
    base_total m' = base_total m + ((int (unat b') - int (unat s')) - (int (unat b) - int (unat s))) * uint (bc_base_lot_atoms config) \<and>
    quote_total m' = quote_total m - ((int (unat b') - int (unat s')) - (int (unat b) - int (unat s))) * uint (bc_quote_atoms_per_lot config)"
  using assms
proof (induction orders arbitrary: m b s)
  case (Cons order orders)
  then obtain m1 b1 s1 where one: "apply_order config (m, b, s) order = Inr (m1, b1, s1)"
    and rest: "apply_orders config orders (m1, b1, s1) = Inr (m', b', s')" by (auto simp: res_simps)
  note step = apply_order_totals [OF one Cons.prems(2)]
  from Cons.IH [OF rest step(1)] step(2-4) show ?case by (simp add: algebra_simps)
qed simp

lemma totals_from_bound:
  assumes "0 \<le> b" "0 \<le> q" "b + int (length xs) * 2 ^ 64 \<le> 2 ^ 127" "q + int (length xs) * 2 ^ 64 \<le> 2 ^ 127"
    and "b < 2 ^ 127" "q < 2 ^ 127"
  shows "totals_from (b, q) xs =
    Some (b + (\<Sum>x\<leftarrow>xs. uint (pb_base_atoms x)), q + (\<Sum>x\<leftarrow>xs. uint (pb_quote_atoms x)))"
  using assms
proof (induction xs arbitrary: b q)
  case (Cons x xs)
  have bx: "0 \<le> uint (pb_base_atoms x)" "uint (pb_base_atoms x) < 2 ^ 64"
    "0 \<le> uint (pb_quote_atoms x)" "uint (pb_quote_atoms x) < 2 ^ 64"
    using unsigned_less [of "pb_base_atoms x", where ?'a = int] unsigned_less [of "pb_quote_atoms x", where ?'a = int]
    by simp_all
  then have pos: "0 \<le> b + uint (pb_base_atoms x)" "0 \<le> q + uint (pb_quote_atoms x)"
    using Cons.prems(1,2) by simp_all
  have lt: "b + uint (pb_base_atoms x) < 2 ^ 127" "q + uint (pb_quote_atoms x) < 2 ^ 127"
    using bx Cons.prems(3,4) by simp_all
  from pos lt have "i128_of (b + uint (pb_base_atoms x)) = Some (b + uint (pb_base_atoms x))"
    "i128_of (q + uint (pb_quote_atoms x)) = Some (q + uint (pb_quote_atoms x))"
    unfolding i128_of_Some by simp_all
  moreover have "totals_from (b + uint (pb_base_atoms x), q + uint (pb_quote_atoms x)) xs =
      Some (b + uint (pb_base_atoms x) + (\<Sum>x\<leftarrow>xs. uint (pb_base_atoms x)),
        q + uint (pb_quote_atoms x) + (\<Sum>x\<leftarrow>xs. uint (pb_quote_atoms x)))"
    by (rule Cons.IH) (use Cons.prems bx pos lt in simp_all)
  ultimately show ?case by (simp add: algebra_simps)
qed simp

lemma totals_eq: "length m \<le> 2 ^ 63 \<Longrightarrow> totals m = Some (base_total m, quote_total m)"
  using totals_from_bound [of 0 0 "bt_values m"]
  by (simp add: totals_def bt_values_def base_total_def quote_total_def o_def)

lemma totals_bound:
  "0 \<le> base_total m \<and> base_total m \<le> int (length m) * (2 ^ 64 - 1)"
  "0 \<le> quote_total m \<and> quote_total m \<le> int (length m) * (2 ^ 64 - 1)"
proof -
  have bound: "0 \<le> uint x \<and> uint x \<le> 2 ^ 64 - 1" for x :: u64
    using unsigned_less [of x, where ?'a = int] by simp
  show "0 \<le> base_total m \<and> base_total m \<le> int (length m) * (2 ^ 64 - 1)"
  proof (induction m)
    case (Cons e m)
    with bound [of "pb_base_atoms (snd e)"] show ?case by (simp add: base_total_def algebra_simps)
  qed (simp add: base_total_def)
  show "0 \<le> quote_total m \<and> quote_total m \<le> int (length m) * (2 ^ 64 - 1)"
  proof (induction m)
    case (Cons e m)
    with bound [of "pb_quote_atoms (snd e)"] show ?case by (simp add: quote_total_def algebra_simps)
  qed (simp add: quote_total_def)
qed

lemma totals_fit:
  assumes "length m \<le> 2 ^ 63"
  shows "i128_of (base_total m) = Some (base_total m)" "i128_of (quote_total m) = Some (quote_total m)"
proof -
  have "int (length m) * (2 ^ 64 - 1) \<le> 2 ^ 63 * (2 ^ 64 - 1)"
    using assms by (intro mult_right_mono) simp_all
  with totals_bound [of m] show "i128_of (base_total m) = Some (base_total m)"
    "i128_of (quote_total m) = Some (quote_total m)" by (simp_all add: i128_of_Some)
qed

section \<open>The netting result\<close>

definition net_lots :: "funded_order list \<Rightarrow> int" where
  "net_lots orders = int (count_side Buy orders) - int (count_side Sell orders)"

definition net_residual :: "funded_order list \<Rightarrow> residual" where
  "net_residual orders =
     (if count_side Sell orders < count_side Buy orders
      then Residual_buy (of_nat (count_side Buy orders - count_side Sell orders))
      else if count_side Buy orders < count_side Sell orders
      then Residual_sell (of_nat (count_side Sell orders - count_side Buy orders))
      else Residual_none)"

definition net_delta :: "batch_config \<Rightarrow> funded_order list \<Rightarrow> vault_delta" where
  "net_delta config orders =
     \<lparr> vd_base_atoms = net_lots orders * uint (bc_base_lot_atoms config),
       vd_quote_atoms = - (net_lots orders * uint (bc_quote_atoms_per_lot config)) \<rparr>"

lemma residual_of_counts:
  assumes "unat b = count_side Buy orders" "unat s = count_side Sell orders"
  shows "residual_of b s = (net_residual orders, net_lots orders)"
proof -
  have uint: "uint (y - x) = int (unat y) - int (unat x)" if "x < y" for x y :: u32
  proof -
    have "unat (y - x) = unat y - unat x" "unat x \<le> unat y"
      using that by (auto simp: unat_sub word_less_nat_alt word_le_nat_alt)
    then show ?thesis unfolding uint_nat by (simp add: of_nat_diff)
  qed
  have word: "y - x = of_nat (unat y - unat x)" if "x < y" for x y :: u32
    using that by (simp add: word_less_nat_alt of_nat_diff)
  show ?thesis
    using assms uint [of s b] uint [of b s] word [of s b] word [of b s]
    by (auto simp: residual_of_def net_residual_def net_lots_def word_less_nat_alt Let_def)
qed

lemma net_lots_fit:
  assumes "count_side Buy orders < 2 ^ 32" "count_side Sell orders < 2 ^ 32"
  shows "i128_of (net_lots orders * uint (a :: u64)) = Some (net_lots orders * uint a)"
    and "i128_of (- (net_lots orders * uint a)) = Some (- (net_lots orders * uint a))"
proof -
  have a: "0 \<le> uint a" "uint a < 2 ^ 64" using unsigned_less [of a, where ?'a = int] by simp_all
  have n: "\<bar>net_lots orders\<bar> < 2 ^ 32" using assms by (simp add: net_lots_def)
  have "\<bar>net_lots orders * uint a\<bar> = \<bar>net_lots orders\<bar> * uint a" using a by (simp add: abs_mult)
  also have "\<dots> \<le> 2 ^ 32 * 2 ^ 64" by (rule mult_mono) (use a n in simp_all)
  finally have "\<bar>net_lots orders * uint a\<bar> \<le> 2 ^ 96" by simp
  then show "i128_of (net_lots orders * uint a) = Some (net_lots orders * uint a)"
    "i128_of (- (net_lots orders * uint a)) = Some (- (net_lots orders * uint a))"
    by (auto simp: i128_of_Some abs_le_iff)
qed

lemma net_batch_Inr:
  assumes wf: "bt_wf before" and len: "length before \<le> 2 ^ 63"
  shows "net_batch config before orders = Inr r \<longleftrightarrow>
    orders \<noteq> [] \<and> distinct (map fo_participant_id orders) \<and> batch_ok config before orders \<and>
    count_side Buy orders < 2 ^ 32 \<and> count_side Sell orders < 2 ^ 32 \<and>
    br_before_balances r = before \<and> bt_wf (br_balances r) \<and>
    (\<forall>p. bt_get (br_balances r) p = net_balance config before orders p) \<and>
    br_residual r = net_residual orders \<and> br_vault_delta r = net_delta config orders"
    (is "?l \<longleftrightarrow> ?r")
proof -
  let ?res = "\<lambda>m. \<lparr> br_before_balances = before, br_balances = m, br_residual = net_residual orders,
      br_vault_delta = net_delta config orders \<rparr>"
  have conserved: "conserves (?res m) before"
    if app: "apply_orders config orders (before, 0, 0) = Inr (m, b, s)"
      and c: "unat b = count_side Buy orders" "unat s = count_side Sell orders" for m b s
  proof -
    note t = apply_orders_totals [OF app wf]
    have "length m \<le> 2 ^ 63" using t len by simp
    note fit = totals_fit [OF this] totals_eq [OF this]
    have "base_total m = base_total before + vd_base_atoms (net_delta config orders)"
      "quote_total m = quote_total before + vd_quote_atoms (net_delta config orders)"
      using t c by (simp_all add: net_delta_def net_lots_def)
    with fit totals_eq [OF len] show ?thesis by (simp add: conserves_def)
  qed
  have run: "net_batch config before orders = Inr (?res m)"
    if "orders \<noteq> []" "distinct (map fo_participant_id orders)"
      and app: "apply_orders config orders (before, 0, 0) = Inr (m, b, s)"
      and c: "unat b = count_side Buy orders" "unat s = count_side Sell orders" for m b s
  proof -
    have "count_side Buy orders < 2 ^ 32" "count_side Sell orders < 2 ^ 32"
      unfolding c [symmetric] using unsigned_less [of b, where ?'a = nat] unsigned_less [of s, where ?'a = nat] by simp_all
    note fits = net_lots_fit [OF this]
    have "check_unique {} orders = Inr ()" using that(2) by (simp add: check_unique_Inr)
    then show ?thesis
      using that conserved [OF app c] residual_of_counts [OF c]
      by (simp add: net_batch_def fits net_delta_def)
  qed
  show ?thesis
  proof
    assume ?l
    then obtain m b s where ne: "orders \<noteq> []" and d: "distinct (map fo_participant_id orders)"
      and app: "apply_orders config orders (before, 0, 0) = Inr (m, b, s)"
      by (auto simp: net_batch_def res_simps check_unique_Inr)
    from app have spec: "batch_ok config before orders" "bt_wf m"
      "\<forall>p. bt_get m p = net_balance config before orders p"
      and c: "unat b = count_side Buy orders" "unat s = count_side Sell orders"
      by (simp_all add: apply_orders_Inr [OF d wf])
    have "count_side Buy orders < 2 ^ 32" "count_side Sell orders < 2 ^ 32"
      unfolding c [symmetric] using unsigned_less [of b, where ?'a = nat] unsigned_less [of s, where ?'a = nat] by simp_all
    moreover have "r = ?res m" using \<open>?l\<close> run [OF ne d app c] by simp
    ultimately show ?r using ne d spec by simp
  next
    assume r: ?r
    have c: "unat (of_nat (count_side Buy orders) :: u32) = count_side Buy orders"
      "unat (of_nat (count_side Sell orders) :: u32) = count_side Sell orders"
      using r by (simp_all add: unat_of_nat)
    have "apply_orders config orders (before, 0, 0) =
        Inr (br_balances r, of_nat (count_side Buy orders), of_nat (count_side Sell orders))"
      using r c by (subst apply_orders_Inr [OF _ wf]) simp_all
    from run [OF _ _ this c] r show ?l by (cases r) simp
  qed
qed

lemma net_balances_exist:
  assumes "bt_wf before" and "batch_ok config before orders"
  shows "\<exists>m. bt_wf m \<and> (\<forall>p. bt_get m p = net_balance config before orders p)"
proof (intro exI conjI allI)
  let ?m = "map (\<lambda>(p, b). (p, the (net_balance config before orders p))) before"
  show "bt_wf ?m" using assms(1) by (simp add: bt_wf_def o_def case_prod_beta)
  fix p
  have "map_of (map (\<lambda>(p, b). (p, f p)) xs) p = map_option (\<lambda>_. f p) (map_of xs p)"
    for f :: "participant_id \<Rightarrow> pool_balance" and xs :: balances
    by (induction xs) auto
  then have "bt_get ?m p = map_option (\<lambda>_. the (net_balance config before orders p)) (bt_get before p)"
    unfolding bt_get_def .
  then show "bt_get ?m p = net_balance config before orders p"
    by (cases "bt_get before p") (auto simp: net_balance_def split: option.splits)
qed

lemma count_side_le: "count_side s orders \<le> length orders"
  by (simp add: count_side_def)

lemma net_batch_ok_iff:
  assumes "bt_wf before" and "length before \<le> 2 ^ 63" and "length orders < 2 ^ 32"
  shows "is_ok (net_batch config before orders) \<longleftrightarrow>
      orders \<noteq> [] \<and> distinct (map fo_participant_id orders) \<and> batch_ok config before orders"
proof
  assume "is_ok (net_batch config before orders)"
  then show "orders \<noteq> [] \<and> distinct (map fo_participant_id orders) \<and> batch_ok config before orders"
    by (auto simp: is_ok_iff net_batch_Inr [OF assms(1,2)])
next
  have counts: "count_side Buy orders < 2 ^ 32" "count_side Sell orders < 2 ^ 32"
    using assms(3) count_side_le [of Buy orders] count_side_le [of Sell orders] by linarith+
  assume ok: "orders \<noteq> [] \<and> distinct (map fo_participant_id orders) \<and> batch_ok config before orders"
  with net_balances_exist [OF assms(1), of config orders] obtain m where
    m: "bt_wf m" "\<forall>p. bt_get m p = net_balance config before orders p" by blast
  then have "net_batch config before orders = Inr \<lparr> br_before_balances = before, br_balances = m,
      br_residual = net_residual orders, br_vault_delta = net_delta config orders \<rparr>"
    using ok counts by (simp add: net_batch_Inr [OF assms(1,2)])
  then show "is_ok (net_batch config before orders)" by simp
qed

lemma net_batch_permute:
  assumes "bt_wf before" and "length before \<le> 2 ^ 63" and "mset orders' = mset orders"
    and "net_batch config before orders = Inr r"
  shows "net_batch config before orders' = Inr r"
proof -
  note spec = net_batch_Inr [OF assms(1,2)]
  have set: "set orders' = set orders" using assms(3) by (metis set_mset_mset)
  have "length orders' = length orders" using assms(3) by (metis size_mset)
  then have ne: "orders' \<noteq> [] \<longleftrightarrow> orders \<noteq> []" by auto
  have "mset (map fo_participant_id orders') = mset (map fo_participant_id orders)"
    using assms(3) by simp
  then have d: "distinct (map fo_participant_id orders') \<longleftrightarrow> distinct (map fo_participant_id orders)"
    by (rule mset_eq_imp_distinct_iff)
  have counts: "count_side s orders' = count_side s orders" for s
    unfolding count_side_def using assms(3) by (metis mset_filter size_mset)
  have "order_of orders' p = order_of orders p" if dist: "distinct (map fo_participant_id orders)" for p
  proof (cases "p \<in> fo_participant_id ` set orders")
    case True
    then obtain order where "order \<in> set orders" "p = fo_participant_id order" by blast
    then show ?thesis
      using order_of_set [OF dist, of order] order_of_set [of orders' order] dist d set by simp
  next
    case False
    then show ?thesis using order_of_None [of orders p] order_of_None [of orders' p] set by simp
  qed
  then have "net_balance config before orders' p = net_balance config before orders p"
    if "distinct (map fo_participant_id orders)" for p
    using that by (simp add: net_balance_def)
  then show ?thesis
    using assms(4) unfolding spec ne d
    by (simp add: counts set batch_ok_def net_residual_def net_delta_def net_lots_def)
qed

section \<open>Properties\<close>

text \<open>
  C21. A batch nets successfully exactly when it is not empty, no participant appears twice, and
  every order's participant is known, holds a full lot of base and its price in quote, is within its
  limit at the uniform price, and can be credited without overflow. The internal conservation check
  never fails, and the order in which submissions are processed cannot make a batch fail.
\<close>

theorem net_batch_succeeds_iff_funded:
  assumes "bt_wf before" and "length before \<le> 2 ^ 63" and "length orders < 2 ^ 32"
  shows "is_ok (net_batch config before orders) \<longleftrightarrow>
    orders \<noteq> [] \<and> distinct (map fo_participant_id orders) \<and>
    (\<forall>order \<in> set orders. \<exists>b. bt_get before (fo_participant_id order) = Some b \<and>
       bc_base_lot_atoms config \<le> pb_base_atoms b \<and> bc_quote_atoms_per_lot config \<le> pb_quote_atoms b \<and>
       (case fo_side order of
          Buy \<Rightarrow> bc_quote_atoms_per_lot config \<le> fo_limit_price order \<and>
            unat (pb_base_atoms b) + unat (bc_base_lot_atoms config) < 2 ^ 64
        | Sell \<Rightarrow> fo_limit_price order \<le> bc_quote_atoms_per_lot config \<and>
            unat (pb_quote_atoms b) + unat (bc_quote_atoms_per_lot config) < 2 ^ 64))"
  unfolding net_batch_ok_iff [OF assms] by (simp add: batch_ok_def order_ok_def)

definition demo_config :: batch_config where
  "demo_config = \<lparr> bc_base_lot_atoms = 10, bc_quote_atoms_per_lot = 5 \<rparr>"

definition demo_balances :: balances where
  "demo_balances = [(1, \<lparr> pb_base_atoms = 100, pb_quote_atoms = 100 \<rparr>),
     (2, \<lparr> pb_base_atoms = 100, pb_quote_atoms = 100 \<rparr>), (3, \<lparr> pb_base_atoms = 100, pb_quote_atoms = 100 \<rparr>)]"

definition demo_orders :: "funded_order list" where
  "demo_orders = [\<lparr> fo_participant_id = 1, fo_side = Buy, fo_limit_price = 6 \<rparr>,
     \<lparr> fo_participant_id = 3, fo_side = Buy, fo_limit_price = 5 \<rparr>,
     \<lparr> fo_participant_id = 2, fo_side = Sell, fo_limit_price = 4 \<rparr>]"

lemma demo_wf: "bt_wf demo_balances" "length demo_balances \<le> 2 ^ 63" "length demo_orders < 2 ^ 32"
  by (simp_all add: bt_wf_def demo_balances_def demo_orders_def)

theorem net_batch_succeeds_iff_funded_witness: "is_ok (net_batch demo_config demo_balances demo_orders)"
  unfolding net_batch_succeeds_iff_funded [OF demo_wf]
  by (simp add: demo_orders_def demo_balances_def demo_config_def bt_get_def)

text \<open>
  C22. A netted batch gives every participant exactly their own fill: a buyer one lot of base for its
  price, a seller the reverse, everybody else nothing. The residual is the difference of buys and
  sells, and the sum of all balances changes by exactly what the vault must exchange with the venue.
\<close>

theorem net_batch_result:
  assumes "bt_wf before" and "length before \<le> 2 ^ 63" and "net_batch config before orders = Inr r"
  shows "(\<forall>order \<in> set orders. \<exists>b. bt_get before (fo_participant_id order) = Some b \<and>
        bt_get (br_balances r) (fo_participant_id order) = Some (fill config (fo_side order) b)) \<and>
    (\<forall>p. p \<notin> fo_participant_id ` set orders \<longrightarrow> bt_get (br_balances r) p = bt_get before p) \<and>
    br_residual r = net_residual orders \<and>
    base_total (br_balances r) = base_total before + vd_base_atoms (br_vault_delta r) \<and>
    quote_total (br_balances r) = quote_total before + vd_quote_atoms (br_vault_delta r) \<and>
    vd_base_atoms (br_vault_delta r) = net_lots orders * uint (bc_base_lot_atoms config) \<and>
    vd_quote_atoms (br_vault_delta r) = - (net_lots orders * uint (bc_quote_atoms_per_lot config))"
proof -
  from assms(3) have spec: "distinct (map fo_participant_id orders)" "batch_ok config before orders"
    "\<forall>p. bt_get (br_balances r) p = net_balance config before orders p"
    "br_residual r = net_residual orders" "br_vault_delta r = net_delta config orders"
    by (simp_all add: net_batch_Inr [OF assms(1,2)])
  from assms(3) have "conserves r before"
    by (auto simp: net_batch_def Let_def res_simps case_prod_beta)
  moreover have "totals before = Some (base_total before, quote_total before)"
    by (rule totals_eq [OF assms(2)])
  moreover obtain b s where "apply_orders config orders (before, 0, 0) = Inr (br_balances r, b, s)"
    using assms(3) by (auto simp: net_batch_def Let_def res_simps case_prod_beta)
  then have "length (br_balances r) \<le> 2 ^ 63"
    using apply_orders_totals [OF _ assms(1)] assms(2) by fastforce
  then have "totals (br_balances r) = Some (base_total (br_balances r), quote_total (br_balances r))"
    by (rule totals_eq)
  ultimately have "base_total (br_balances r) = base_total before + vd_base_atoms (br_vault_delta r)"
    "quote_total (br_balances r) = quote_total before + vd_quote_atoms (br_vault_delta r)"
    by (auto simp: conserves_def i128_of_Some)
  moreover have "\<exists>b. bt_get before (fo_participant_id order) = Some b \<and>
      bt_get (br_balances r) (fo_participant_id order) = Some (fill config (fo_side order) b)"
    if "order \<in> set orders" for order
    using spec that order_of_set [OF spec(1) that] by (auto simp: batch_ok_def net_balance_def)
  moreover have "bt_get (br_balances r) p = bt_get before p" if "p \<notin> fo_participant_id ` set orders" for p
    using spec(3) that order_of_None [of orders p] by (simp add: net_balance_def)
  ultimately show ?thesis using spec(4,5) by (simp add: net_delta_def)
qed

lemma demo_batch_ok: "is_ok (net_batch demo_config demo_balances demo_orders)"
  unfolding net_batch_ok_iff [OF demo_wf]
  by (simp add: batch_ok_def order_ok_def demo_orders_def demo_balances_def demo_config_def bt_get_def)

theorem net_batch_result_witness:
  "\<exists>r. net_batch demo_config demo_balances demo_orders = Inr r \<and> br_residual r = Residual_buy 1 \<and>
     base_total (br_balances r) = 310"
proof -
  from demo_batch_ok obtain r where r: "net_batch demo_config demo_balances demo_orders = Inr r"
    by (auto simp: is_ok_iff)
  from net_batch_result [OF demo_wf(1,2) r] have "br_residual r = net_residual demo_orders"
    "base_total (br_balances r) = base_total demo_balances + net_lots demo_orders * uint (bc_base_lot_atoms demo_config)"
    by simp_all
  then show ?thesis
    using r by (simp add: net_residual_def net_lots_def count_side_def demo_orders_def demo_config_def
        base_total_def demo_balances_def)
qed

text \<open>
  The result of a batch does not depend on the order of the submissions: any permutation of the
  same orders nets to the same balances, residual and vault movement.
\<close>

lemma net_batch_order_irrelevant:
  assumes "bt_wf before" and "length before \<le> 2 ^ 63" and "mset orders' = mset orders"
    and "net_batch config before orders = Inr r"
  shows "net_batch config before orders' = Inr r"
  by (rule net_batch_permute [OF assms])

end
