(* ===== verification/Reservation.thy ===== *)
theory Reservation
  imports Journal_File Ledger
begin

text \<open>
  The reservation journal of \<open>kageb-host/src/admission.rs\<close>: a durable map from authorization
  nonces to reservations, each reserved, then used or released. The journal object is its file and the
  records it last loaded; every operation takes the outcomes of its system calls.
\<close>

section \<open>Records\<close>

datatype reservation_state = Reserved | Used | Released

fun reservation_state_code :: "reservation_state \<Rightarrow> u8" where
  "reservation_state_code Reserved = 1"
| "reservation_state_code Used = 2"
| "reservation_state_code Released = 3"

datatype journal_error =
    Io error_kind
  | Busy
  | Corrupt
  | DuplicateNonce
  | UnknownNonce
  | InvalidTransition
  | InvalidAmount
  | InsufficientBalance
  | ArithmeticOverflow

definition reservation_state_try_from :: "u8 \<Rightarrow> journal_error + reservation_state" where
  "reservation_state_try_from v =
     (if v = 1 then Inr Reserved else if v = 2 then Inr Used else if v = 3 then Inr Released
      else Inl Corrupt)"

record reservation_record =
  rr_nonce :: bytes32
  rr_epoch_id :: bytes32
  rr_participant_id :: bytes32
  rr_base_atoms :: u64
  rr_quote_atoms :: u64
  rr_state :: reservation_state

record unsigned_authorization =
  ua_nonce :: bytes32
  ua_epoch_id :: bytes32
  ua_participant_id :: bytes32
  ua_base_atoms :: u64
  ua_quote_atoms :: u64

definition HEADER :: "byte list" where
  "HEADER = ascii ''KGBRSV2'' @ [0]"

definition RECORD_LEN :: nat where
  "RECORD_LEN = 113"

definition reservation_new ::
    "bytes32 \<Rightarrow> bytes32 \<Rightarrow> bytes32 \<Rightarrow> u64 \<Rightarrow> u64 \<Rightarrow> journal_error + reservation_record" where
  "reservation_new nonce epoch_id participant_id base_atoms quote_atoms =
     (if nonce = 0 \<or> epoch_id = 0 \<or> participant_id = 0 \<or> base_atoms = 0 \<or> quote_atoms = 0
      then Inl InvalidAmount
      else Inr
        \<lparr> rr_nonce = nonce, rr_epoch_id = epoch_id, rr_participant_id = participant_id,
          rr_base_atoms = base_atoms, rr_quote_atoms = quote_atoms, rr_state = Reserved \<rparr>)"

definition reservation_decode :: "byte list \<Rightarrow> journal_error + reservation_record" where
  "reservation_decode bytes =
     (if length bytes \<noteq> RECORD_LEN then Inl Corrupt
      else
      try_bind (map_err (\<lambda>_. Corrupt) (reservation_new
        (arr_of (slice 0 32 bytes))
        (arr_of (slice 32 64 bytes))
        (arr_of (slice 64 96 bytes))
        (from_le_bytes (slice 96 104 bytes))
        (from_le_bytes (slice 104 112 bytes)))) (\<lambda>record.
      try_bind (reservation_state_try_from (bytes ! 112)) (\<lambda>state.
      Inr (record \<lparr> rr_state := state \<rparr>))))"

definition reservation_encode :: "reservation_record \<Rightarrow> byte list" where
  "reservation_encode r =
     arr_bytes (rr_nonce r) @ arr_bytes (rr_epoch_id r) @ arr_bytes (rr_participant_id r) @
     to_le_bytes (rr_base_atoms r) @ to_le_bytes (rr_quote_atoms r) @
     [reservation_state_code (rr_state r)]"

section \<open>The journal\<close>

type_synonym reservations = "(bytes32, reservation_record) btree"

record reservation_journal =
  rj_file :: contents
  rj_records :: reservations

definition acquire_journal_lock :: "io_env \<Rightarrow> journal_error + unit" where
  "acquire_journal_lock = acquire_or_busy Io Busy"

definition reservation_entry :: "byte list \<Rightarrow> journal_error + bytes32 \<times> reservation_record" where
  "reservation_entry bytes = try_bind (reservation_decode bytes) (\<lambda>record. Inr (rr_nonce record, record))"

definition load_records :: "(byte list \<Rightarrow> bytes32) \<Rightarrow> io_env \<Rightarrow> contents \<Rightarrow> journal_error + reservations" where
  "load_records sha256 = keyed_load sha256 HEADER RECORD_LEN reservation_entry Corrupt Io"

definition persist_records ::
    "(byte list \<Rightarrow> bytes32) \<Rightarrow> io_env \<Rightarrow> reservations \<Rightarrow> contents \<Rightarrow> contents \<times> (journal_error + unit)" where
  "persist_records sha256 =
     keyed_persist sha256 HEADER (\<lambda>(_, record). reservation_encode record) ArithmeticOverflow Io"

definition reservation_open ::
    "(byte list \<Rightarrow> bytes32) \<Rightarrow> io_env \<Rightarrow> contents \<Rightarrow> contents \<times> (journal_error + reservation_journal)" where
  "reservation_open sha256 io file =
     (case acquire_journal_lock io of Inl e \<Rightarrow> (file, Inl e) | Inr _ \<Rightarrow>
      case (if file = None then persist_records sha256 io [] file else (file, Inr ())) of
        (file, Inl e) \<Rightarrow> (file, Inl e)
      | (file, Inr _) \<Rightarrow>
          (file, try_bind (load_records sha256 io file) (\<lambda>records.
             Inr \<lparr> rj_file = file, rj_records = records \<rparr>)))"

definition mutate ::
    "(byte list \<Rightarrow> bytes32) \<Rightarrow> io_env \<Rightarrow> (reservations \<Rightarrow> journal_error + reservations) \<Rightarrow>
     reservation_journal \<Rightarrow> reservation_journal \<times> (journal_error + unit)" where
  "mutate sha256 io operation j =
     (case update_file acquire_journal_lock (load_records sha256) (persist_records sha256) io operation
        (rj_file j) of
        (file, Inl e) \<Rightarrow> (j \<lparr> rj_file := file \<rparr>, Inl e)
      | (file, Inr current) \<Rightarrow> (j \<lparr> rj_file := file, rj_records := current \<rparr>, Inr ()))"

fun reserved_totals :: "u64 \<times> u64 \<Rightarrow> reservation_record list \<Rightarrow> (u64 \<times> u64) option" where
  "reserved_totals acc [] = Some acc"
| "reserved_totals (base, quote) (existing # rest) =
     Option.bind (checked_add base (rr_base_atoms existing)) (\<lambda>base.
     Option.bind (checked_add quote (rr_quote_atoms existing)) (\<lambda>quote.
     reserved_totals (base, quote) rest))"

definition live_reservations :: "bytes32 \<Rightarrow> reservations \<Rightarrow> reservation_record list" where
  "live_reservations participant records =
     filter (\<lambda>existing. rr_participant_id existing = participant \<and> rr_state existing = Reserved)
       (bt_values records)"

definition reserve_op ::
    "reservation_record \<Rightarrow> pool_balance \<Rightarrow> reservations \<Rightarrow> journal_error + reservations" where
  "reserve_op record available records =
     (if bt_get records (rr_nonce record) \<noteq> None then Inl DuplicateNonce
      else
      try_bind (ok_or (reserved_totals (0, 0) (live_reservations (rr_participant_id record) records))
        ArithmeticOverflow) (\<lambda>(reserved_base, reserved_quote).
      try_bind (ok_or (checked_add reserved_base (rr_base_atoms record)) ArithmeticOverflow) (\<lambda>required_base.
      try_bind (ok_or (checked_add reserved_quote (rr_quote_atoms record)) ArithmeticOverflow) (\<lambda>required_quote.
      if pb_base_atoms available < required_base \<or> pb_quote_atoms available < required_quote
      then Inl InsufficientBalance
      else Inr (bt_insert (rr_nonce record) record records)))))"

definition reserve ::
    "(byte list \<Rightarrow> bytes32) \<Rightarrow> io_env \<Rightarrow> reservation_record \<Rightarrow> pool_balance \<Rightarrow>
     reservation_journal \<Rightarrow> reservation_journal \<times> (journal_error + unsigned_authorization)" where
  "reserve sha256 io record available j =
     (case mutate sha256 io (reserve_op record available) j of
        (j', Inl e) \<Rightarrow> (j', Inl e)
      | (j', Inr _) \<Rightarrow> (j', Inr
          \<lparr> ua_nonce = rr_nonce record, ua_epoch_id = rr_epoch_id record,
            ua_participant_id = rr_participant_id record, ua_base_atoms = rr_base_atoms record,
            ua_quote_atoms = rr_quote_atoms record \<rparr>))"

definition transition_op ::
    "bytes32 \<Rightarrow> reservation_state \<Rightarrow> reservations \<Rightarrow> journal_error + reservations" where
  "transition_op nonce next records =
     try_bind (ok_or (bt_get records nonce) UnknownNonce) (\<lambda>record.
     if rr_state record \<noteq> Reserved then Inl InvalidTransition
     else Inr (bt_insert nonce (record \<lparr> rr_state := next \<rparr>) records))"

definition mark_used ::
    "(byte list \<Rightarrow> bytes32) \<Rightarrow> io_env \<Rightarrow> bytes32 \<Rightarrow> reservation_journal \<Rightarrow>
     reservation_journal \<times> (journal_error + unit)" where
  "mark_used sha256 io nonce = mutate sha256 io (transition_op nonce Used)"

definition release ::
    "(byte list \<Rightarrow> bytes32) \<Rightarrow> io_env \<Rightarrow> bytes32 \<Rightarrow> reservation_journal \<Rightarrow>
     reservation_journal \<times> (journal_error + unit)" where
  "release sha256 io nonce = mutate sha256 io (transition_op nonce Released)"

definition state_of :: "reservation_journal \<Rightarrow> bytes32 \<Rightarrow> reservation_state option" where
  "state_of j nonce = map_option rr_state (bt_get (rj_records j) nonce)"

section \<open>Whole epochs\<close>

text \<open>
  \<open>apply\<close> and \<open>check\<close> are the closures the caller passes; they act on a state of their own while
  the reservation lock is held.
\<close>

fun finalize_members ::
    "bytes32 \<Rightarrow> reservations \<Rightarrow> bytes32 set \<Rightarrow> bytes32 set \<Rightarrow> bool \<Rightarrow> bytes32 list \<Rightarrow>
     journal_error + bytes32 set \<times> bool" where
  "finalize_members epoch_id current seen members had_used [] = Inr (members, had_used)"
| "finalize_members epoch_id current seen members had_used (nonce # nonces) =
     (if nonce \<in> seen then Inl InvalidTransition
      else
      try_bind (ok_or (bt_get current nonce) UnknownNonce) (\<lambda>record.
      if rr_epoch_id record \<noteq> epoch_id \<or> rr_state record = Released then Inl InvalidTransition
      else finalize_members epoch_id current (insert nonce seen)
        (insert (rr_participant_id record) members) (had_used \<or> rr_state record = Used) nonces))"

fun release_check ::
    "bytes32 \<Rightarrow> reservations \<Rightarrow> bytes32 set \<Rightarrow> bytes32 list \<Rightarrow> journal_error + unit" where
  "release_check epoch_id current seen [] = Inr ()"
| "release_check epoch_id current seen (nonce # nonces) =
     (if nonce \<in> seen then Inl InvalidTransition
      else
      try_bind (ok_or (bt_get current nonce) UnknownNonce) (\<lambda>record.
      if rr_epoch_id record \<noteq> epoch_id \<or> rr_state record = Used then Inl InvalidTransition
      else release_check epoch_id current (insert nonce seen) nonces))"

fun settle_nonces ::
    "reservation_state \<Rightarrow> bytes32 list \<Rightarrow> reservations \<times> bool \<Rightarrow> journal_error + reservations \<times> bool" where
  "settle_nonces next [] st = Inr st"
| "settle_nonces next (nonce # nonces) (current, changed) =
     try_bind (ok_or (bt_get current nonce) UnknownNonce) (\<lambda>record.
     if rr_state record = Reserved
     then settle_nonces next nonces (bt_insert nonce (record \<lparr> rr_state := next \<rparr>) current, True)
     else settle_nonces next nonces (current, changed))"

text \<open>The common tail: change every reserved nonce, persist if one changed, publish.\<close>

definition settle_and_persist ::
    "(byte list \<Rightarrow> bytes32) \<Rightarrow> io_env \<Rightarrow> reservation_state \<Rightarrow> bytes32 list \<Rightarrow> reservations \<Rightarrow>
     reservation_journal \<Rightarrow> reservation_journal \<times> (journal_error + 'e + unit)" where
  "settle_and_persist sha256 io next nonces current j =
     (case settle_nonces next nonces (current, False) of Inl e \<Rightarrow> (j, Inl e)
      | Inr (current, changed) \<Rightarrow>
          (case (if changed then persist_records sha256 io current (rj_file j) else (rj_file j, Inr ())) of
             (file, Inl e) \<Rightarrow> (j \<lparr> rj_file := file \<rparr>, Inl e)
           | (file, Inr _) \<Rightarrow> (j \<lparr> rj_file := file, rj_records := current \<rparr>, Inr (Inr ()))))"

definition finalize_epoch ::
    "(byte list \<Rightarrow> bytes32) \<Rightarrow> io_env \<Rightarrow> bytes32 \<Rightarrow> bytes32 list \<Rightarrow> bytes32 set \<Rightarrow>
     (bool \<Rightarrow> 's \<Rightarrow> 's \<times> ('e + unit)) \<Rightarrow> reservation_journal \<times> 's \<Rightarrow>
     (reservation_journal \<times> 's) \<times> (journal_error + 'e + unit)" where
  "finalize_epoch sha256 io epoch_id nonces expected_members apply = (\<lambda>(j, s).
     (case acquire_journal_lock io of Inl e \<Rightarrow> ((j, s), Inl e) | Inr _ \<Rightarrow>
      case load_records sha256 io (rj_file j) of Inl e \<Rightarrow> ((j, s), Inl e) | Inr current \<Rightarrow>
      case finalize_members epoch_id current {} {} False nonces of
        Inl e \<Rightarrow> ((j, s), Inl e)
      | Inr (members, had_used) \<Rightarrow>
          if length nonces \<noteq> card expected_members \<or> members \<noteq> expected_members
          then ((j, s), Inl InvalidTransition)
          else
            (case apply had_used s of
               (s', Inl e) \<Rightarrow> ((j, s'), Inr (Inl e))
             | (s', Inr _) \<Rightarrow>
                 (case settle_and_persist sha256 io Used nonces current j of (j', r) \<Rightarrow> ((j', s'), r)))))"

definition release_epoch_checked ::
    "(byte list \<Rightarrow> bytes32) \<Rightarrow> io_env \<Rightarrow> bytes32 \<Rightarrow> bytes32 list \<Rightarrow> ('s \<Rightarrow> 's \<times> ('e + unit)) \<Rightarrow>
     reservation_journal \<times> 's \<Rightarrow> (reservation_journal \<times> 's) \<times> (journal_error + 'e + unit)" where
  "release_epoch_checked sha256 io epoch_id nonces check = (\<lambda>(j, s).
     (case acquire_journal_lock io of Inl e \<Rightarrow> ((j, s), Inl e) | Inr _ \<Rightarrow>
      case load_records sha256 io (rj_file j) of Inl e \<Rightarrow> ((j, s), Inl e) | Inr current \<Rightarrow>
      case release_check epoch_id current {} nonces of
        Inl e \<Rightarrow> ((j, s), Inl e)
      | Inr _ \<Rightarrow>
          (case check s of
             (s', Inl e) \<Rightarrow> ((j, s'), Inr (Inl e))
           | (s', Inr _) \<Rightarrow>
               (case settle_and_persist sha256 io Released nonces current j of (j', r) \<Rightarrow> ((j', s'), r)))))"

section \<open>The journal meets its contract\<close>

definition reservation_valid :: "reservation_record \<Rightarrow> bool" where
  "reservation_valid r \<longleftrightarrow> rr_nonce r \<noteq> 0 \<and> rr_epoch_id r \<noteq> 0 \<and> rr_participant_id r \<noteq> 0 \<and>
     rr_base_atoms r \<noteq> 0 \<and> rr_quote_atoms r \<noteq> 0"

definition entry_ok :: "bytes32 \<Rightarrow> reservation_record \<Rightarrow> bool" where
  "entry_ok nonce r \<longleftrightarrow> nonce = rr_nonce r \<and> reservation_valid r"

lemma length_reservation_encode [simp]: "length (reservation_encode r) = RECORD_LEN"
  by (simp add: reservation_encode_def RECORD_LEN_def)

lemma reservation_decode_encode: "reservation_valid r \<Longrightarrow> reservation_decode (reservation_encode r) = Inr r"
  by (cases "rr_state r")
    (simp_all add: reservation_decode_def reservation_encode_def RECORD_LEN_def bytes_simps nth_append
      reservation_new_def reservation_valid_def reservation_state_try_from_def)

lemma reservation_decode_valid: "reservation_decode bytes = Inr r \<Longrightarrow> reservation_valid r"
  by (auto simp: reservation_decode_def reservation_new_def reservation_valid_def res_simps)

abbreviation reservation_holds :: "(byte list \<Rightarrow> bytes32) \<Rightarrow> contents \<Rightarrow> reservations \<Rightarrow> bool" where
  "reservation_holds sha256 \<equiv> keyed_holds sha256 HEADER RECORD_LEN reservation_entry Corrupt"

interpretation rj: keyed_journal sha256 HEADER RECORD_LEN "\<lambda>(_, record). reservation_encode record"
  reservation_entry Corrupt Busy ArithmeticOverflow Io entry_ok for sha256
  by unfold_locales
    (auto simp: reservation_entry_def entry_ok_def reservation_decode_encode res_simps
      dest: reservation_decode_valid)

lemmas reservation_io_defs = acquire_journal_lock_def load_records_def persist_records_def

lemma load_records_holds: "load_records sha256 io f = Inr m \<Longrightarrow> reservation_holds sha256 f m"
  unfolding load_records_def by (rule rj.load_holds)

lemma persist_records_holds:
  "keyed_valid entry_ok m \<Longrightarrow> persist_records sha256 io m f = (f', Inr u) \<Longrightarrow> reservation_holds sha256 f' m"
  unfolding persist_records_def by (rule rj.persist_ok)

lemma persist_records_error:
  "keyed_valid entry_ok m \<Longrightarrow> persist_records sha256 io m f = (f', Inl e) \<Longrightarrow>
     f' = f \<or> reservation_holds sha256 f' m"
  unfolding persist_records_def by (rule rj.persist_error)

lemma mutate_ok:
  assumes "mutate sha256 io f j = (j', Inr u)"
    and "\<And>m m'. keyed_valid entry_ok m \<Longrightarrow> f m = Inr m' \<Longrightarrow> keyed_valid entry_ok m'"
  shows "\<exists>m. reservation_holds sha256 (rj_file j) m \<and> f m = Inr (rj_records j')
    \<and> reservation_holds sha256 (rj_file j') (rj_records j')"
proof -
  from assms(1) obtain m' where "update_file acquire_journal_lock (load_records sha256)
      (persist_records sha256) io f (rj_file j) = (rj_file j', Inr m')" and "rj_records j' = m'"
    by (auto simp: mutate_def split: prod.splits sum.splits)
  then show ?thesis unfolding reservation_io_defs using rj.update_ok assms(2) by blast
qed

lemma mutate_atomic:
  assumes "mutate sha256 io f j = (j', r)" and "reservation_holds sha256 (rj_file j) m"
    and "\<And>m m'. keyed_valid entry_ok m \<Longrightarrow> f m = Inr m' \<Longrightarrow> keyed_valid entry_ok m'"
  shows "\<exists>m'. reservation_holds sha256 (rj_file j') m' \<and> (m' = m \<or> f m = Inr m')"
proof -
  from assms(1) obtain q where "update_file acquire_journal_lock (load_records sha256)
      (persist_records sha256) io f (rj_file j) = (rj_file j', q)"
    by (auto simp: mutate_def split: prod.splits sum.splits)
  then show ?thesis unfolding reservation_io_defs using rj.update_atomic assms(2,3) by blast
qed

lemma mutate_no_faults:
  assumes "reservation_holds sha256 (rj_file j) m" and "f m = Inr m'"
    and "keyed_valid entry_ok m'" and "length m' < 2 ^ 32"
  shows "\<exists>f'. mutate sha256 no_faults f j = (j \<lparr> rj_file := f', rj_records := m' \<rparr>, Inr ())
    \<and> reservation_holds sha256 f' m'"
proof -
  from rj.load_no_faults [OF assms(1)] have "load_records sha256 no_faults (rj_file j) = Inr m"
    by (simp add: load_records_def)
  moreover obtain f' where p: "persist_records sha256 no_faults m' (rj_file j) = (f', Inr ())"
    using assms(4) by (simp add: persist_records_def keyed_persist_def u32_try_from_def)
  moreover from p have "reservation_holds sha256 f' m'" using assms(3) persist_records_holds by blast
  ultimately show ?thesis using assms(2)
    by (intro exI [of _ f']) (simp add: mutate_def update_file_def acquire_journal_lock_def)
qed

section \<open>Reserving\<close>

definition live_base :: "bytes32 \<Rightarrow> reservations \<Rightarrow> nat" where
  "live_base p m = (\<Sum>r\<leftarrow>live_reservations p m. unat (rr_base_atoms r))"

definition live_quote :: "bytes32 \<Rightarrow> reservations \<Rightarrow> nat" where
  "live_quote p m = (\<Sum>r\<leftarrow>live_reservations p m. unat (rr_quote_atoms r))"

lemma exists_u64: "n \<le> unat (x :: u64) \<Longrightarrow> \<exists>y :: u64. unat y = n"
proof -
  assume "n \<le> unat x"
  moreover have "unat x < 2 ^ LENGTH(64)" by (rule unsigned_less)
  ultimately have "unat (of_nat n :: u64) = n" by (simp add: unat_of_nat)
  then show ?thesis ..
qed

lemma reserved_totals_Some:
  "reserved_totals (a, b) rs = Some (x, y) \<longleftrightarrow>
     unat x = unat a + (\<Sum>r\<leftarrow>rs. unat (rr_base_atoms r)) \<and>
     unat y = unat b + (\<Sum>r\<leftarrow>rs. unat (rr_quote_atoms r))"
proof (induction rs arbitrary: a b)
  case Nil
  show ?case by (auto simp: word_unat_eq_iff)
next
  case (Cons r rs)
  have "reserved_totals (a, b) (r # rs) = Some (x, y) \<longleftrightarrow>
    (\<exists>a' b'. unat a' = unat a + unat (rr_base_atoms r) \<and> unat b' = unat b + unat (rr_quote_atoms r) \<and>
      reserved_totals (a', b') rs = Some (x, y))"
    by (auto simp: bind_eq_Some_conv checked_add_Some)
  also have "\<dots> \<longleftrightarrow> unat x = unat a + (\<Sum>r\<leftarrow>r # rs. unat (rr_base_atoms r)) \<and>
     unat y = unat b + (\<Sum>r\<leftarrow>r # rs. unat (rr_quote_atoms r))" (is "?l \<longleftrightarrow> ?r")
  proof
    assume ?r
    then have "unat a + unat (rr_base_atoms r) \<le> unat x" "unat b + unat (rr_quote_atoms r) \<le> unat y"
      by simp_all
    then obtain a' b' :: u64 where "unat a' = unat a + unat (rr_base_atoms r)"
      "unat b' = unat b + unat (rr_quote_atoms r)" using exists_u64 by metis
    with \<open>?r\<close> show ?l by (intro exI [of _ a'] exI [of _ b']) (simp add: Cons.IH)
  qed (auto simp: Cons.IH)
  finally show ?case .
qed

text \<open>Reserving succeeds exactly when the nonce is new and the balance covers all live reservations.\<close>

lemma reserve_op_Inr:
  "reserve_op record available m = Inr m' \<longleftrightarrow>
     bt_get m (rr_nonce record) = None \<and>
     live_base (rr_participant_id record) m + unat (rr_base_atoms record) \<le> unat (pb_base_atoms available) \<and>
     live_quote (rr_participant_id record) m + unat (rr_quote_atoms record) \<le> unat (pb_quote_atoms available) \<and>
     m' = bt_insert (rr_nonce record) record m" (is "?l \<longleftrightarrow> ?r")
proof -
  let ?p = "rr_participant_id record"
  have "?l \<longleftrightarrow> bt_get m (rr_nonce record) = None \<and>
    (\<exists>(b :: u64) (q :: u64) (rb :: u64) (rq :: u64). unat b = live_base ?p m \<and> unat q = live_quote ?p m \<and>
      unat rb = unat b + unat (rr_base_atoms record) \<and> unat rq = unat q + unat (rr_quote_atoms record) \<and>
      rb \<le> pb_base_atoms available \<and> rq \<le> pb_quote_atoms available \<and>
      m' = bt_insert (rr_nonce record) record m)"
    by (auto simp: reserve_op_def res_simps reserved_totals_Some live_base_def live_quote_def
        checked_add_Some not_less eq_commute [of m'])
  also have "\<dots> \<longleftrightarrow> ?r"
  proof
    assume r: ?r
    then have "live_base ?p m \<le> unat (pb_base_atoms available)"
      "live_quote ?p m \<le> unat (pb_quote_atoms available)" by simp_all
    then obtain b q :: u64 where bq: "unat b = live_base ?p m" "unat q = live_quote ?p m"
      using exists_u64 by metis
    moreover from r obtain rb :: u64 where "unat rb = live_base ?p m + unat (rr_base_atoms record)"
      using exists_u64 by metis
    moreover from r obtain rq :: u64 where "unat rq = live_quote ?p m + unat (rr_quote_atoms record)"
      using exists_u64 by metis
    ultimately show "bt_get m (rr_nonce record) = None \<and>
    (\<exists>(b :: u64) (q :: u64) (rb :: u64) (rq :: u64). unat b = live_base ?p m \<and> unat q = live_quote ?p m \<and>
      unat rb = unat b + unat (rr_base_atoms record) \<and> unat rq = unat q + unat (rr_quote_atoms record) \<and>
      rb \<le> pb_base_atoms available \<and> rq \<le> pb_quote_atoms available \<and>
      m' = bt_insert (rr_nonce record) record m)"
      using r by (intro conjI exI [of _ b] exI [of _ q] exI [of _ rb] exI [of _ rq])
        (simp_all add: word_le_nat_alt)
  qed (auto simp: word_le_nat_alt)
  finally show ?thesis .
qed

section \<open>How reservations evolve\<close>

text \<open>
  A recorded nonce is never forgotten, its reservation changes in nothing but its state, and used and
  released are final.
\<close>

definition reservations_evolve :: "reservations \<Rightarrow> reservations \<Rightarrow> bool" where
  "reservations_evolve m m' \<longleftrightarrow>
     (\<forall>n r. bt_get m n = Some r \<longrightarrow>
        (\<exists>r'. bt_get m' n = Some r' \<and> r' = r \<lparr> rr_state := rr_state r' \<rparr> \<and>
          (rr_state r \<noteq> Reserved \<longrightarrow> r' = r)))"

lemma evolve_refl: "reservations_evolve m m"
  by (simp add: reservations_evolve_def)

lemma evolve_trans:
  assumes "reservations_evolve a b" "reservations_evolve b c"
  shows "reservations_evolve a c"
  unfolding reservations_evolve_def
proof (intro allI impI)
  fix n r assume "bt_get a n = Some r"
  with assms(1) obtain r' where r': "bt_get b n = Some r'" "r' = r \<lparr> rr_state := rr_state r' \<rparr>"
    "rr_state r \<noteq> Reserved \<longrightarrow> r' = r" unfolding reservations_evolve_def by blast
  with assms(2) obtain r'' where r'': "bt_get c n = Some r''" "r'' = r' \<lparr> rr_state := rr_state r'' \<rparr>"
    "rr_state r' \<noteq> Reserved \<longrightarrow> r'' = r'" unfolding reservations_evolve_def by blast
  have "r'' = r \<lparr> rr_state := rr_state r'' \<rparr>"
    using r'(2) r''(2) by (metis reservation_record.update_convs(6) reservation_record.surjective)
  moreover have "rr_state r \<noteq> Reserved \<longrightarrow> r'' = r" using r'(3) r''(3) by metis
  ultimately show "\<exists>r''. bt_get c n = Some r'' \<and> r'' = r \<lparr> rr_state := rr_state r'' \<rparr> \<and>
      (rr_state r \<noteq> Reserved \<longrightarrow> r'' = r)" using r''(1) by blast
qed

lemma evolve_insert_new: "bt_get m n = None \<Longrightarrow> reservations_evolve m (bt_insert n r m)"
  by (auto simp: reservations_evolve_def bt_get_insert)

lemma evolve_change:
  "bt_get m n = Some r \<Longrightarrow> rr_state r = Reserved \<Longrightarrow>
     reservations_evolve m (bt_insert n (r \<lparr> rr_state := s \<rparr>) m)"
  by (auto simp: reservations_evolve_def bt_get_insert)

lemma reserve_op_valid:
  "reservation_valid record \<Longrightarrow> keyed_valid entry_ok m \<Longrightarrow> reserve_op record available m = Inr m' \<Longrightarrow>
     keyed_valid entry_ok m'"
  by (auto simp: reserve_op_Inr entry_ok_def intro: keyed_valid_insert)

lemma entry_ok_state: "entry_ok n r \<Longrightarrow> entry_ok n (r \<lparr> rr_state := s \<rparr>)"
  by (simp add: entry_ok_def reservation_valid_def)

lemma transition_op_Inr:
  "transition_op n next m = Inr m' \<longleftrightarrow>
     (\<exists>r. bt_get m n = Some r \<and> rr_state r = Reserved \<and> m' = bt_insert n (r \<lparr> rr_state := next \<rparr>) m)"
  by (auto simp: transition_op_def res_simps)

lemma transition_op_valid:
  "keyed_valid entry_ok m \<Longrightarrow> transition_op n next m = Inr m' \<Longrightarrow> keyed_valid entry_ok m'"
  by (auto simp: transition_op_Inr intro!: keyed_valid_insert entry_ok_state dest: keyed_valid_get)

section \<open>Whole epochs\<close>

definition settled :: "reservation_state \<Rightarrow> reservation_record \<Rightarrow> reservation_record" where
  "settled next r = (if rr_state r = Reserved then r \<lparr> rr_state := next \<rparr> else r)"

definition epoch_settled :: "reservation_state \<Rightarrow> bytes32 list \<Rightarrow> reservations \<Rightarrow> reservations \<Rightarrow> bool" where
  "epoch_settled next ns m m' \<longleftrightarrow> keyed_valid entry_ok m' \<and> reservations_evolve m m' \<and>
     (\<forall>n. bt_get m' n = (if n \<in> set ns then map_option (settled next) (bt_get m n) else bt_get m n))"

lemma settle_nonces_spec:
  assumes "next \<noteq> Reserved" and "keyed_valid entry_ok m" and "\<forall>n \<in> set ns. bt_get m n \<noteq> None"
  shows "\<exists>m'. settle_nonces next ns (m, c) = Inr (m', c \<or> (\<exists>n \<in> set ns. \<exists>r. bt_get m n = Some r \<and> rr_state r = Reserved))
    \<and> keyed_valid entry_ok m' \<and> reservations_evolve m m'
    \<and> (\<forall>n. bt_get m' n = (if n \<in> set ns then map_option (settled next) (bt_get m n) else bt_get m n))"
  using assms(2,3)
proof (induction ns arbitrary: m c)
  case Nil
  then show ?case by (auto simp: evolve_refl)
next
  case (Cons n ns)
  then obtain r where r: "bt_get m n = Some r" by auto
  show ?case
  proof (cases "rr_state r = Reserved")
    case True
    let ?m = "bt_insert n (r \<lparr> rr_state := next \<rparr>) m"
    have "keyed_valid entry_ok ?m"
      using Cons.prems(1) r by (auto intro!: keyed_valid_insert entry_ok_state dest: keyed_valid_get)
    moreover have "\<forall>k \<in> set ns. bt_get ?m k \<noteq> None" using Cons.prems(2) by (simp add: bt_get_insert)
    ultimately obtain m' where m': "settle_nonces next ns (?m, True) = Inr (m', True)"
        "keyed_valid entry_ok m'" "reservations_evolve ?m m'"
        "\<forall>k. bt_get m' k = (if k \<in> set ns then map_option (settled next) (bt_get ?m k) else bt_get ?m k)"
      using Cons.IH [of ?m True] by auto
    moreover have "reservations_evolve m m'" using evolve_trans [OF evolve_change [OF r True] m'(3)] .
    ultimately show ?thesis using r True assms(1)
      by (auto simp: bt_get_insert settled_def)
  next
    case False
    obtain m' where "settle_nonces next ns (m, c) = Inr (m', c \<or> (\<exists>n \<in> set ns. \<exists>r. bt_get m n = Some r \<and> rr_state r = Reserved))"
        "keyed_valid entry_ok m'" "reservations_evolve m m'"
        "\<forall>k. bt_get m' k = (if k \<in> set ns then map_option (settled next) (bt_get m k) else bt_get m k)"
      using Cons.IH [of m c] Cons.prems by auto
    with r False show ?thesis by (auto simp: settled_def)
  qed
qed

lemma finalize_members_Inr:
  "finalize_members e m seen members used ns = Inr (members', used') \<longleftrightarrow>
     distinct ns \<and> set ns \<inter> seen = {} \<and>
     (\<forall>n \<in> set ns. \<exists>r. bt_get m n = Some r \<and> rr_epoch_id r = e \<and> rr_state r \<noteq> Released) \<and>
     members' = members \<union> (\<lambda>n. rr_participant_id (the (bt_get m n))) ` set ns \<and>
     (used' \<longleftrightarrow> used \<or> (\<exists>n \<in> set ns. rr_state (the (bt_get m n)) = Used))"
proof (induction ns arbitrary: seen members used)
  case Nil
  show ?case by auto
next
  case (Cons n ns)
  show ?case
    by (cases "bt_get m n") (auto simp: Cons.IH)
qed

lemma release_check_Inr:
  "release_check e m seen ns = Inr () \<longleftrightarrow>
     distinct ns \<and> set ns \<inter> seen = {} \<and>
     (\<forall>n \<in> set ns. \<exists>r. bt_get m n = Some r \<and> rr_epoch_id r = e \<and> rr_state r \<noteq> Used)"
proof (induction ns arbitrary: seen)
  case (Cons n ns)
  show ?case by (cases "bt_get m n") (auto simp: Cons.IH)
qed simp

text \<open>
  The tail of both epoch operations: it succeeds with every nonce settled, or fails with the file
  unchanged or already settled.
\<close>

lemma settle_and_persist_cases:
  assumes "settle_and_persist sha256 io next ns m j = (j', r)" and "next \<noteq> Reserved"
    and "reservation_holds sha256 (rj_file j) m" and "\<forall>n \<in> set ns. bt_get m n \<noteq> None"
  shows "\<exists>m'. epoch_settled next ns m m'
    \<and> (r = Inr (Inr ()) \<and> reservation_holds sha256 (rj_file j') m' \<or>
       (\<exists>e. r = Inl e) \<and> (rj_file j' = rj_file j \<or> reservation_holds sha256 (rj_file j') m'))"
proof -
  have valid: "keyed_valid entry_ok m" using assms(3) by (rule rj.holds_valid)
  let ?c = "\<exists>n \<in> set ns. \<exists>r. bt_get m n = Some r \<and> rr_state r = Reserved"
  obtain m' where m': "settle_nonces next ns (m, False) = Inr (m', ?c)" "keyed_valid entry_ok m'"
      "reservations_evolve m m'"
      "\<forall>n. bt_get m' n = (if n \<in> set ns then map_option (settled next) (bt_get m n) else bt_get m n)"
    using settle_nonces_spec [OF assms(2) valid assms(4), of False] by auto
  show ?thesis
  proof (cases ?c)
    case False
    have same: "m' = m"
    proof (rule bt.entries_ext)
      show "bt_wf m'" "bt_wf m" using m'(2) valid by (auto simp: keyed_valid_def)
      show "bt_get m' k = bt_get m k" for k
        using False assms(4) m'(4) by (auto simp: settled_def)
    qed
    have "r = Inr (Inr ())" "rj_file j' = rj_file j"
      using assms(1) m'(1) False by (auto simp: settle_and_persist_def)
    with same assms(3) m' show ?thesis by (auto simp: epoch_settled_def)
  next
    case True
    obtain f q where p: "persist_records sha256 io m' (rj_file j) = (f, q)" by fastforce
    show ?thesis
    proof (cases q)
      case (Inl e)
      with assms(1) m'(1) True p have "r = Inl e" "rj_file j' = f"
        by (auto simp: settle_and_persist_def)
      with persist_records_error [OF m'(2) p [unfolded Inl]] m' show ?thesis by (auto simp: epoch_settled_def)
    next
      case (Inr u)
      with assms(1) m'(1) True p have "r = Inr (Inr ())" "rj_file j' = f"
        by (auto simp: settle_and_persist_def)
      with persist_records_holds [OF m'(2) p [unfolded Inr]] m' show ?thesis by (auto simp: epoch_settled_def)
    qed
  qed
qed

lemma finalize_epoch_cases:
  assumes "finalize_epoch sha256 io e ns em apply (j, s) = ((j', s'), r)"
    and "reservation_holds sha256 (rj_file j) m"
  obtains (refused) err where "j' = j" "s' = s" "r = Inl err"
  | (not_applied) used err where "finalize_members e m {} {} False ns = Inr (em, used)"
      "length ns = card em" "apply used s = (s', Inl err)" "j' = j" "r = Inr (Inl err)"
  | (applied) used m' where "finalize_members e m {} {} False ns = Inr (em, used)" "length ns = card em"
      "apply used s = (s', Inr ())" "epoch_settled Used ns m m'"
      "r = Inr (Inr ()) \<and> reservation_holds sha256 (rj_file j') m' \<or>
       (\<exists>e. r = Inl e) \<and> (rj_file j' = rj_file j \<or> reservation_holds sha256 (rj_file j') m')"
proof (cases "acquire_journal_lock io")
  case (Inl err)
  with assms(1) refused show ?thesis by (auto simp: finalize_epoch_def)
next
  case acquired: (Inr u)
  show ?thesis
  proof (cases "load_records sha256 io (rj_file j)")
    case (Inl err)
    with assms(1) acquired refused show ?thesis by (auto simp: finalize_epoch_def)
  next
    case (Inr current)
    then have current: "current = m"
      using rj.holds_unique [OF assms(2) load_records_holds] by blast
    show ?thesis
    proof (cases "finalize_members e m {} {} False ns")
      case (Inl err)
      with assms(1) acquired Inr current refused show ?thesis by (auto simp: finalize_epoch_def)
    next
      case members: (Inr mu)
      obtain ms used where mu: "mu = (ms, used)" by (cases mu)
      show ?thesis
      proof (cases "length ns \<noteq> card em \<or> ms \<noteq> em")
        case True
        with assms(1) acquired Inr current members mu refused show ?thesis
          by (auto simp: finalize_epoch_def)
      next
        case False
        obtain t q where ap: "apply used s = (t, q)" by fastforce
        show ?thesis
        proof (cases q)
          case (Inl err)
          with assms(1) acquired \<open>load_records _ _ _ = _\<close> current members mu False ap not_applied show ?thesis
            by (auto simp: finalize_epoch_def)
        next
          case (Inr v)
          with assms(1) acquired \<open>load_records _ _ _ = _\<close> current members mu False ap
          have tail: "settle_and_persist sha256 io Used ns m j = (j', r)" and "t = s'"
            by (auto simp: finalize_epoch_def split: prod.splits)
          moreover have "\<forall>n \<in> set ns. bt_get m n \<noteq> None"
            using members mu by (auto simp: finalize_members_Inr)
          ultimately show ?thesis
            using settle_and_persist_cases [OF tail _ assms(2)] applied members mu False ap Inr by auto
        qed
      qed
    qed
  qed
qed

lemma release_epoch_cases:
  assumes "release_epoch_checked sha256 io e ns check (j, s) = ((j', s'), r)"
    and "reservation_holds sha256 (rj_file j) m"
  obtains (refused) err where "j' = j" "s' = s" "r = Inl err"
  | (not_applied) err where "release_check e m {} ns = Inr ()" "check s = (s', Inl err)" "j' = j"
      "r = Inr (Inl err)"
  | (applied) m' where "release_check e m {} ns = Inr ()"
      "check s = (s', Inr ())" "epoch_settled Released ns m m'"
      "r = Inr (Inr ()) \<and> reservation_holds sha256 (rj_file j') m' \<or>
       (\<exists>e. r = Inl e) \<and> (rj_file j' = rj_file j \<or> reservation_holds sha256 (rj_file j') m')"
proof (cases "acquire_journal_lock io")
  case (Inl err)
  with assms(1) refused show ?thesis by (auto simp: release_epoch_checked_def)
next
  case acquired: (Inr u)
  show ?thesis
  proof (cases "load_records sha256 io (rj_file j)")
    case (Inl err)
    with assms(1) acquired refused show ?thesis by (auto simp: release_epoch_checked_def)
  next
    case (Inr current)
    then have current: "current = m"
      using rj.holds_unique [OF assms(2) load_records_holds] by blast
    show ?thesis
    proof (cases "release_check e m {} ns")
      case (Inl err)
      with assms(1) acquired Inr current refused show ?thesis by (auto simp: release_epoch_checked_def)
    next
      case members: (Inr mu)
      obtain t q where check: "check s = (t, q)" by fastforce
      show ?thesis
      proof (cases q)
        case (Inl err)
        with assms(1) acquired \<open>load_records _ _ _ = _\<close> current members check not_applied show ?thesis
          by (auto simp: release_epoch_checked_def)
      next
        case (Inr v)
        with assms(1) acquired \<open>load_records _ _ _ = _\<close> current members check
        have tail: "settle_and_persist sha256 io Released ns m j = (j', r)" and "t = s'"
          by (auto simp: release_epoch_checked_def split: prod.splits)
        moreover have "\<forall>n \<in> set ns. bt_get m n \<noteq> None"
          using members by (auto simp: release_check_Inr)
        ultimately show ?thesis
          using settle_and_persist_cases [OF tail _ assms(2)] applied members check Inr by auto
      qed
    qed
  qed
qed

end
