(* ===== verification/Crypto.thy ===== *)
theory Crypto
  imports Reservation
begin

text \<open>
  \<open>kageb-host/src/crypto.rs\<close>: funded authorizations, signed and encrypted intents, submissions,
  released shares and admission of a batch. Ed25519 (\<open>ed25519_dalek\<close>), the threshold scheme
  (\<open>threshold_crypto\<close>), its \<open>bincode\<close> serialization and SHA-256 are the fields of a
  \<open>suite\<close>. Keys and signatures are byte arrays; the values of the threshold scheme are identified
  by byte strings and touched only through the suite.
\<close>

section \<open>External cryptography\<close>

type_synonym signing_key = bytes32
type_synonym verifying_key = bytes32
type_synonym signature = bytes64
type_synonym ciphertext = "byte list"
type_synonym public_key_set = "byte list"
type_synonym decryption_share = "byte list"
type_synonym secret_key_share = "byte list"
type_synonym public_key_share = "384 word"

record suite =
  hash256 :: "byte list \<Rightarrow> bytes32"
  verifying_key :: "signing_key \<Rightarrow> verifying_key"
  sign :: "signing_key \<Rightarrow> byte list \<Rightarrow> signature"
  key_from_bytes :: "bytes32 \<Rightarrow> bool"
  verify :: "verifying_key \<Rightarrow> byte list \<Rightarrow> signature \<Rightarrow> bool"
  serialize_ciphertext :: "ciphertext \<Rightarrow> byte list option"
  deserialize_ciphertext :: "byte list \<Rightarrow> ciphertext option"
  ciphertext_verify :: "ciphertext \<Rightarrow> bool"
  serialize_keys :: "public_key_set \<Rightarrow> byte list option"
  deserialize_keys :: "byte list \<Rightarrow> public_key_set option"
  threshold :: "public_key_set \<Rightarrow> nat"
  key_share :: "public_key_set \<Rightarrow> nat \<Rightarrow> public_key_share"
  encrypt_bytes :: "public_key_set \<Rightarrow> nat \<Rightarrow> byte list \<Rightarrow> ciphertext"
  verify_decryption_share :: "public_key_share \<Rightarrow> decryption_share \<Rightarrow> ciphertext \<Rightarrow> bool"
  decrypt_shares :: "public_key_set \<Rightarrow> (nat \<times> decryption_share) list \<Rightarrow> ciphertext \<Rightarrow> byte list option"
  serialize_share :: "decryption_share \<Rightarrow> byte list option"
  deserialize_share :: "byte list \<Rightarrow> decryption_share option"
  public_share :: "secret_key_share \<Rightarrow> public_key_share"
  decrypt_share :: "secret_key_share \<Rightarrow> ciphertext \<Rightarrow> decryption_share option"

text \<open>
  What the code relies on: a signature made by a key verifies under its public key, which is a valid
  point.
\<close>

definition ed25519_correct :: "suite \<Rightarrow> bool" where
  "ed25519_correct c \<longleftrightarrow>
     (\<forall>sk msg. key_from_bytes c (verifying_key c sk) \<and> verify c (verifying_key c sk) msg (sign c sk msg))"

section \<open>Constants and errors\<close>

definition FUNDED_AUTH_DOMAIN :: "byte list" where
  "FUNDED_AUTH_DOMAIN = ascii ''KAGEB_FUNDED_AUTH_V1'' @ [0]"

definition INTENT_DOMAIN :: "byte list" where
  "INTENT_DOMAIN = ascii ''KAGEB_INTENT_V1'' @ [0]"

definition SUBMISSION_DOMAIN :: "byte list" where
  "SUBMISSION_DOMAIN = ascii ''KAGEB_SUBMISSION_V1'' @ [0]"

definition EPOCH_KEY_SET_DOMAIN :: "byte list" where
  "EPOCH_KEY_SET_DOMAIN = ascii ''KAGEB_EPOCH_KEY_SET_V1'' @ [0]"

definition AUTHORIZATION_VERSION :: u8 where
  "AUTHORIZATION_VERSION = 1"

definition SIGNED_INTENT_LEN :: nat where
  "SIGNED_INTENT_LEN = 192"

definition FUNDED_AUTHORIZATION_V1_LEN :: nat where
  "FUNDED_AUTHORIZATION_V1_LEN = 249"

definition ENCRYPTED_INTENT_V1_LEN :: nat where
  "ENCRYPTED_INTENT_V1_LEN = 344"

definition ENCRYPTED_SUBMISSION_V1_LEN :: nat where
  "ENCRYPTED_SUBMISSION_V1_LEN = FUNDED_AUTHORIZATION_V1_LEN + ENCRYPTED_INTENT_V1_LEN + 32 + 64"

datatype crypto_error =
    EntropyUnavailable
  | InvalidAuthorization
  | InvalidInnerSignature
  | InvalidOuterSignature
  | InvalidSignedIntent
  | InvalidCiphertext
  | InvalidReceipt
  | WrongEpoch
  | WrongParticipant
  | InsufficientCrowd nat nat
  | InsufficientShares
  | DuplicateShare
  | InvalidShare
  | InvalidMinimum
  | WrongTradingKey

record admission_policy =
  ap_epoch_id :: bytes32
  ap_operator_key :: bytes32
  ap_minimum :: nat
  ap_base_atoms :: u64
  ap_quote_atoms :: u64
  ap_current_slot :: u64

definition admission_policy_new ::
    "bytes32 \<Rightarrow> verifying_key \<Rightarrow> nat \<Rightarrow> u64 \<Rightarrow> u64 \<Rightarrow> u64 \<Rightarrow> crypto_error + admission_policy" where
  "admission_policy_new epoch_id operator_key minimum base_atoms quote_atoms current_slot =
     (if minimum = 0 then Inl InvalidMinimum
      else if base_atoms = 0 \<or> quote_atoms = 0 then Inl InvalidAuthorization
      else Inr
        \<lparr> ap_epoch_id = epoch_id, ap_operator_key = operator_key, ap_minimum = minimum,
          ap_base_atoms = base_atoms, ap_quote_atoms = quote_atoms, ap_current_slot = current_slot \<rparr>)"

section \<open>Funded authorizations\<close>

record funded_authorization =
  fa_version :: u8
  fa_operator_key :: bytes32
  fa_epoch_id :: bytes32
  fa_participant_id :: bytes32
  fa_trading_key :: bytes32
  fa_nonce :: bytes32
  fa_base_atoms :: u64
  fa_quote_atoms :: u64
  fa_expiry_slot :: u64
  fa_operator_signature :: bytes64

definition authorization_bytes ::
    "u8 \<Rightarrow> bytes32 \<Rightarrow> bytes32 \<Rightarrow> bytes32 \<Rightarrow> bytes32 \<Rightarrow> bytes32 \<Rightarrow> u64 \<Rightarrow> u64 \<Rightarrow> u64 \<Rightarrow> byte list" where
  "authorization_bytes version operator_key epoch_id participant_id trading_key nonce
     base_atoms quote_atoms expiry_slot =
     (let encoded = replicate 185 0;
          encoded = put 0 [version] encoded;
          encoded = put 1 (arr_bytes operator_key) encoded;
          encoded = put 33 (arr_bytes epoch_id) encoded;
          encoded = put 65 (arr_bytes participant_id) encoded;
          encoded = put 97 (arr_bytes trading_key) encoded;
          encoded = put 129 (arr_bytes nonce) encoded;
          encoded = put 161 (to_le_bytes base_atoms) encoded;
          encoded = put 169 (to_le_bytes quote_atoms) encoded;
          encoded = put 177 (to_le_bytes expiry_slot) encoded
      in encoded)"

definition authorization_message :: "byte list \<Rightarrow> byte list" where
  "authorization_message bytes = FUNDED_AUTH_DOMAIN @ bytes"

definition unsigned_bytes :: "funded_authorization \<Rightarrow> byte list" where
  "unsigned_bytes a =
     authorization_bytes (fa_version a) (fa_operator_key a) (fa_epoch_id a) (fa_participant_id a)
       (fa_trading_key a) (fa_nonce a) (fa_base_atoms a) (fa_quote_atoms a) (fa_expiry_slot a)"

definition authorization_sign ::
    "suite \<Rightarrow> unsigned_authorization \<Rightarrow> verifying_key \<Rightarrow> signing_key \<Rightarrow> u64 \<Rightarrow> funded_authorization" where
  "authorization_sign c reserved trading_key operator expiry_slot =
     (let operator_key = verifying_key c operator;
          bytes = authorization_bytes AUTHORIZATION_VERSION operator_key (ua_epoch_id reserved)
            (ua_participant_id reserved) trading_key (ua_nonce reserved) (ua_base_atoms reserved)
            (ua_quote_atoms reserved) expiry_slot
      in \<lparr> fa_version = AUTHORIZATION_VERSION, fa_operator_key = operator_key,
           fa_epoch_id = ua_epoch_id reserved, fa_participant_id = ua_participant_id reserved,
           fa_trading_key = trading_key, fa_nonce = ua_nonce reserved,
           fa_base_atoms = ua_base_atoms reserved, fa_quote_atoms = ua_quote_atoms reserved,
           fa_expiry_slot = expiry_slot,
           fa_operator_signature = sign c operator (authorization_message bytes) \<rparr>)"

definition authorization_trading_key :: "suite \<Rightarrow> funded_authorization \<Rightarrow> crypto_error + verifying_key" where
  "authorization_trading_key c a =
     (if key_from_bytes c (fa_trading_key a) then Inr (fa_trading_key a) else Inl InvalidAuthorization)"

definition authorization_verify ::
    "suite \<Rightarrow> funded_authorization \<Rightarrow> admission_policy \<Rightarrow> crypto_error + unit" where
  "authorization_verify c a policy =
     (if fa_version a \<noteq> AUTHORIZATION_VERSION
         \<or> fa_operator_key a \<noteq> ap_operator_key policy
         \<or> fa_base_atoms a \<noteq> ap_base_atoms policy
         \<or> fa_quote_atoms a \<noteq> ap_quote_atoms policy
         \<or> fa_expiry_slot a < ap_current_slot policy
      then Inl InvalidAuthorization
      else if fa_epoch_id a \<noteq> ap_epoch_id policy then Inl WrongEpoch
      else if \<not> key_from_bytes c (fa_operator_key a) then Inl InvalidAuthorization
      else if verify c (fa_operator_key a) (authorization_message (unsigned_bytes a)) (fa_operator_signature a)
      then Inr () else Inl InvalidAuthorization)"

definition authorization_encode :: "funded_authorization \<Rightarrow> byte list" where
  "authorization_encode a =
     (let encoded = replicate FUNDED_AUTHORIZATION_V1_LEN 0;
          encoded = put 0 (unsigned_bytes a) encoded;
          encoded = put 185 (arr_bytes (fa_operator_signature a)) encoded
      in encoded)"

definition authorization_hash :: "suite \<Rightarrow> funded_authorization \<Rightarrow> bytes32" where
  "authorization_hash c a = hash256 c (FUNDED_AUTH_DOMAIN @ authorization_encode a)"

definition authorization_decode :: "suite \<Rightarrow> byte list \<Rightarrow> crypto_error + funded_authorization" where
  "authorization_decode c encoded =
     (if length encoded \<noteq> FUNDED_AUTHORIZATION_V1_LEN \<or> encoded ! 0 \<noteq> AUTHORIZATION_VERSION
      then Inl InvalidAuthorization
      else
        let authorization =
          \<lparr> fa_version = encoded ! 0,
            fa_operator_key = arr_of (slice 1 33 encoded),
            fa_epoch_id = arr_of (slice 33 65 encoded),
            fa_participant_id = arr_of (slice 65 97 encoded),
            fa_trading_key = arr_of (slice 97 129 encoded),
            fa_nonce = arr_of (slice 129 161 encoded),
            fa_base_atoms = from_le_bytes (slice 161 169 encoded),
            fa_quote_atoms = from_le_bytes (slice 169 177 encoded),
            fa_expiry_slot = from_le_bytes (slice 177 185 encoded),
            fa_operator_signature = arr_of (drop 185 encoded) \<rparr>
        in
        try_bind (authorization_trading_key c authorization) (\<lambda>_.
        if key_from_bytes c (fa_operator_key authorization) then Inr authorization
        else Inl InvalidAuthorization))"

section \<open>Signed intents\<close>

record signed_intent =
  si_body :: intent_body
  si_signature :: bytes64

definition intent_message :: "byte list \<Rightarrow> byte list" where
  "intent_message encoded_body = INTENT_DOMAIN @ encoded_body"

definition signed_intent_sign :: "suite \<Rightarrow> intent_body \<Rightarrow> signing_key \<Rightarrow> signed_intent" where
  "signed_intent_sign c body trading_key =
     \<lparr> si_body = body, si_signature = sign c trading_key (intent_message (intent_encode body)) \<rparr>"

definition signed_intent_verify ::
    "suite \<Rightarrow> signed_intent \<Rightarrow> verifying_key \<Rightarrow> bytes32 \<Rightarrow> bytes32 \<Rightarrow> crypto_error + unit" where
  "signed_intent_verify c i trading_key expected_epoch expected_participant =
     (if ib_epoch_id (si_body i) \<noteq> expected_epoch then Inl WrongEpoch
      else if ib_participant_id (si_body i) \<noteq> expected_participant then Inl WrongParticipant
      else if verify c trading_key (intent_message (intent_encode (si_body i))) (si_signature i)
      then Inr () else Inl InvalidInnerSignature)"

definition signed_intent_encode :: "signed_intent \<Rightarrow> byte list" where
  "signed_intent_encode i =
     (let encoded = replicate SIGNED_INTENT_LEN 0;
          encoded = put 0 (intent_encode (si_body i)) encoded;
          encoded = put 128 (arr_bytes (si_signature i)) encoded
      in encoded)"

definition signed_intent_decode :: "byte list \<Rightarrow> crypto_error + signed_intent" where
  "signed_intent_decode encoded =
     (if length encoded \<noteq> SIGNED_INTENT_LEN then Inl InvalidSignedIntent
      else
      try_bind (map_err (\<lambda>_. InvalidSignedIntent) (intent_decode (take 128 encoded))) (\<lambda>body.
      Inr \<lparr> si_body = body, si_signature = arr_of (drop 128 encoded) \<rparr>))"

section \<open>Ciphertexts and epoch keys\<close>

record encrypted_intent =
  ei_encoded :: "byte list"
  ei_ciphertext :: ciphertext

definition encode_ciphertext :: "suite \<Rightarrow> ciphertext \<Rightarrow> crypto_error + encrypted_intent" where
  "encode_ciphertext c ciphertext =
     (if \<not> ciphertext_verify c ciphertext then Inl InvalidCiphertext
      else
      try_bind (ok_or (serialize_ciphertext c ciphertext) InvalidCiphertext) (\<lambda>encoded.
      if length encoded \<noteq> ENCRYPTED_INTENT_V1_LEN then Inl InvalidCiphertext
      else Inr \<lparr> ei_encoded = encoded, ei_ciphertext = ciphertext \<rparr>))"

definition decode_ciphertext :: "suite \<Rightarrow> byte list \<Rightarrow> crypto_error + encrypted_intent" where
  "decode_ciphertext c encoded =
     (if length encoded \<noteq> ENCRYPTED_INTENT_V1_LEN then Inl InvalidCiphertext
      else
      try_bind (ok_or (deserialize_ciphertext c encoded) InvalidCiphertext) (\<lambda>ciphertext.
      if \<not> ciphertext_verify c ciphertext then Inl InvalidCiphertext
      else Inr \<lparr> ei_encoded = encoded, ei_ciphertext = ciphertext \<rparr>))"

definition keys_encode_wire :: "suite \<Rightarrow> public_key_set \<Rightarrow> crypto_error + byte list" where
  "keys_encode_wire c keys = ok_or (serialize_keys c keys) InvalidShare"

definition keys_decode_wire :: "suite \<Rightarrow> byte list \<Rightarrow> crypto_error + public_key_set" where
  "keys_decode_wire c encoded =
     try_bind (ok_or (deserialize_keys c encoded) InvalidShare) (\<lambda>keys.
     if threshold c keys \<noteq> 1 then Inl InvalidShare else Inr keys)"

definition keys_commitment_leaf :: "suite \<Rightarrow> public_key_set \<Rightarrow> crypto_error + byte list" where
  "keys_commitment_leaf c keys =
     try_bind (keys_encode_wire c keys) (\<lambda>encoded. Inr (EPOCH_KEY_SET_DOMAIN @ encoded))"

record keyper_secret_share =
  ks_epoch_account :: pubkey
  ks_index :: nat
  ks_secret :: secret_key_share

text \<open>\<open>EpochDealer::share\<close>: the secret key set is the function from indices to its shares.\<close>

definition dealt :: "pubkey \<Rightarrow> (nat \<Rightarrow> secret_key_share) \<Rightarrow> nat \<Rightarrow> keyper_secret_share" where
  "dealt epoch_account secrets i = \<lparr> ks_epoch_account = epoch_account, ks_index = i, ks_secret = secrets i \<rparr>"

definition matches_share :: "suite \<Rightarrow> public_key_set \<Rightarrow> keyper_secret_share \<Rightarrow> bool" where
  "matches_share c keys share \<longleftrightarrow> key_share c keys (ks_index share) = public_share c (ks_secret share)"

definition encrypt_intent ::
    "suite \<Rightarrow> public_key_set \<Rightarrow> nat \<Rightarrow> signed_intent \<Rightarrow> crypto_error + encrypted_intent" where
  "encrypt_intent c keys randomness intent =
     encode_ciphertext c (encrypt_bytes c keys randomness (signed_intent_encode intent))"

definition encrypt_encoded_intent ::
    "suite \<Rightarrow> public_key_set \<Rightarrow> nat \<Rightarrow> byte list \<Rightarrow> crypto_error + encrypted_intent" where
  "encrypt_encoded_intent c keys randomness encoded =
     (if length encoded \<noteq> SIGNED_INTENT_LEN then Inl InvalidSignedIntent
      else encode_ciphertext c (encrypt_bytes c keys randomness encoded))"

section \<open>Released shares and recovery\<close>

record released_share =
  rs_epoch_account :: pubkey
  rs_lock_digest :: bytes32
  rs_ciphertext_hash :: bytes32
  rs_index :: nat
  rs_share :: decryption_share

record encrypted_submission =
  es_authorization :: funded_authorization
  es_ciphertext :: "byte list"
  es_receipt :: bytes32
  es_outer_signature :: bytes64

fun check_shares ::
    "suite \<Rightarrow> public_key_set \<Rightarrow> ciphertext \<Rightarrow> nat set \<Rightarrow> released_share list \<Rightarrow> crypto_error + unit" where
  "check_shares c keys ciphertext indices [] = Inr ()"
| "check_shares c keys ciphertext indices (share # shares) =
     (if rs_index share \<in> indices then Inl DuplicateShare
      else if \<not> verify_decryption_share c (key_share c keys (rs_index share)) (rs_share share) ciphertext
      then Inl InvalidShare
      else check_shares c keys ciphertext (insert (rs_index share) indices) shares)"

definition recover ::
    "suite \<Rightarrow> public_key_set \<Rightarrow> encrypted_intent \<Rightarrow> released_share list \<Rightarrow> crypto_error + signed_intent" where
  "recover c keys encrypted shares =
     (if length shares < 2 then Inl InsufficientShares
      else
      try_bind (check_shares c keys (ei_ciphertext encrypted) {} shares) (\<lambda>_.
      try_bind (ok_or (decrypt_shares c keys (map (\<lambda>share. (rs_index share, rs_share share)) shares)
        (ei_ciphertext encrypted)) InsufficientShares) (\<lambda>plaintext.
      signed_intent_decode plaintext)))"

definition recover_submission ::
    "suite \<Rightarrow> public_key_set \<Rightarrow> encrypted_submission \<Rightarrow> released_share list \<Rightarrow>
     crypto_error + signed_intent" where
  "recover_submission c keys submission shares =
     (let ciphertext_hash = hash256 c (es_ciphertext submission) in
      case shares of
        [] \<Rightarrow> Inl InsufficientShares
      | first # _ \<Rightarrow>
          if list_ex (\<lambda>share. rs_epoch_account share \<noteq> rs_epoch_account first
               \<or> rs_lock_digest share \<noteq> rs_lock_digest first
               \<or> rs_ciphertext_hash share \<noteq> ciphertext_hash) shares
          then Inl InvalidShare
          else
          try_bind (decode_ciphertext c (es_ciphertext submission)) (\<lambda>encrypted.
          recover c keys encrypted shares))"

definition released_share_verify :: "suite \<Rightarrow> released_share \<Rightarrow> public_key_set \<Rightarrow> encrypted_submission \<Rightarrow> bool" where
  "released_share_verify c share keys submission =
     (if rs_ciphertext_hash share \<noteq> hash256 c (es_ciphertext submission) then False
      else case decode_ciphertext c (es_ciphertext submission) of
        Inl _ \<Rightarrow> False
      | Inr encrypted \<Rightarrow>
          verify_decryption_share c (key_share c keys (rs_index share)) (rs_share share)
            (ei_ciphertext encrypted))"

definition released_share_encode :: "suite \<Rightarrow> released_share \<Rightarrow> crypto_error + byte list" where
  "released_share_encode c share =
     try_bind (ok_or (serialize_share c (rs_share share)) InvalidShare) (\<lambda>encoded_share.
     try_bind (ok_or (u32_try_from (length encoded_share)) InvalidShare) (\<lambda>share_len.
     Inr ([1] @ to_le_bytes (of_nat (rs_index share) :: u64) @ arr_bytes (rs_epoch_account share) @
       arr_bytes (rs_lock_digest share) @ arr_bytes (rs_ciphertext_hash share) @
       to_le_bytes share_len @ encoded_share)))"

definition SHARE_PREFIX :: nat where
  "SHARE_PREFIX = 109"

definition released_share_decode :: "suite \<Rightarrow> byte list \<Rightarrow> crypto_error + released_share" where
  "released_share_decode c bytes =
     (if length bytes < SHARE_PREFIX \<or> bytes ! 0 \<noteq> 1 then Inl InvalidShare
      else
        let share_len = unat (from_le_bytes (slice 105 109 bytes) :: u32) in
        if SHARE_PREFIX + share_len \<noteq> length bytes then Inl InvalidShare
        else
        try_bind (ok_or (deserialize_share c (drop SHARE_PREFIX bytes)) InvalidShare) (\<lambda>share.
        Inr \<lparr> rs_epoch_account = arr_of (slice 9 41 bytes),
              rs_lock_digest = arr_of (slice 41 73 bytes),
              rs_ciphertext_hash = arr_of (slice 73 105 bytes),
              rs_index = unat (from_le_bytes (slice 1 9 bytes) :: u64),
              rs_share = share \<rparr>))"

definition secret_share_release ::
    "suite \<Rightarrow> keyper_secret_share \<Rightarrow> pubkey \<Rightarrow> bytes32 \<Rightarrow> byte list \<Rightarrow> crypto_error + released_share" where
  "secret_share_release c secret epoch_account lock_digest ciphertext =
     try_bind (decode_ciphertext c ciphertext) (\<lambda>encrypted.
     try_bind (ok_or (decrypt_share c (ks_secret secret) (ei_ciphertext encrypted)) InvalidCiphertext)
       (\<lambda>share.
     Inr \<lparr> rs_epoch_account = epoch_account, rs_lock_digest = lock_digest,
           rs_ciphertext_hash = hash256 c ciphertext, rs_index = ks_index secret, rs_share = share \<rparr>))"

section \<open>Submissions\<close>

definition submission_message :: "bytes32 \<Rightarrow> bytes32 \<Rightarrow> bytes32 \<Rightarrow> bytes32 \<Rightarrow> byte list" where
  "submission_message epoch_id auth_hash ciphertext_hash receipt =
     SUBMISSION_DOMAIN @ arr_bytes epoch_id @ arr_bytes auth_hash @
     arr_bytes ciphertext_hash @ arr_bytes receipt"

definition submission_sign ::
    "suite \<Rightarrow> funded_authorization \<Rightarrow> encrypted_intent \<Rightarrow> bytes32 \<Rightarrow> signing_key \<Rightarrow>
     crypto_error + encrypted_submission" where
  "submission_sign c authorization encrypted receipt trading_key =
     (if receipt = 0 then Inl InvalidReceipt
      else if verifying_key c trading_key \<noteq> fa_trading_key authorization then Inl WrongTradingKey
      else
        let ciphertext = ei_encoded encrypted;
            message = submission_message (fa_epoch_id authorization) (authorization_hash c authorization)
              (hash256 c ciphertext) receipt
        in Inr \<lparr> es_authorization = authorization, es_ciphertext = ciphertext, es_receipt = receipt,
                 es_outer_signature = sign c trading_key message \<rparr>)"

definition verify_admission ::
    "suite \<Rightarrow> encrypted_submission \<Rightarrow> admission_policy \<Rightarrow> crypto_error + unit" where
  "verify_admission c s policy =
     try_bind (authorization_verify c (es_authorization s) policy) (\<lambda>_.
     if es_receipt s = 0 then Inl InvalidReceipt
     else
     try_bind (decode_ciphertext c (es_ciphertext s)) (\<lambda>_.
     try_bind (authorization_trading_key c (es_authorization s)) (\<lambda>trading_key.
     let message = submission_message (fa_epoch_id (es_authorization s))
           (authorization_hash c (es_authorization s)) (hash256 c (es_ciphertext s)) (es_receipt s)
     in if verify c trading_key message (es_outer_signature s) then Inr ()
        else Inl InvalidOuterSignature)))"

definition commitment_bytes :: "suite \<Rightarrow> encrypted_submission \<Rightarrow> byte list" where
  "commitment_bytes c s =
     authorization_encode (es_authorization s) @ arr_bytes (hash256 c (es_ciphertext s)) @
     arr_bytes (es_receipt s) @ arr_bytes (es_outer_signature s)"

definition submission_encode_wire :: "encrypted_submission \<Rightarrow> byte list" where
  "submission_encode_wire s =
     authorization_encode (es_authorization s) @ es_ciphertext s @ arr_bytes (es_receipt s) @
     arr_bytes (es_outer_signature s)"

definition submission_decode_wire :: "suite \<Rightarrow> byte list \<Rightarrow> crypto_error + encrypted_submission" where
  "submission_decode_wire c bytes =
     (if length bytes \<noteq> ENCRYPTED_SUBMISSION_V1_LEN then Inl InvalidCiphertext
      else
      try_bind (authorization_decode c (take FUNDED_AUTHORIZATION_V1_LEN bytes)) (\<lambda>authorization.
      let ciphertext_end = FUNDED_AUTHORIZATION_V1_LEN + ENCRYPTED_INTENT_V1_LEN;
          receipt_end = ciphertext_end + 32
      in Inr
        \<lparr> es_authorization = authorization,
          es_ciphertext = slice FUNDED_AUTHORIZATION_V1_LEN ciphertext_end bytes,
          es_receipt = arr_of (slice ciphertext_end receipt_end bytes),
          es_outer_signature = arr_of (drop receipt_end bytes) \<rparr>))"

section \<open>Admission of a batch\<close>

text \<open>The short-circuiting conjunction inserts the nonce before the receipt is looked at.\<close>

type_synonym admission = "(bytes32, encrypted_submission) btree \<times> bytes32 set \<times> bytes32 set"

definition admit_step :: "suite \<Rightarrow> admission_policy \<Rightarrow> encrypted_submission \<Rightarrow> admission \<Rightarrow> admission" where
  "admit_step c policy submission = (\<lambda>(valid, nonces, receipts).
     let a = es_authorization submission in
     if is_ok (verify_admission c submission policy) \<and> bt_get valid (fa_participant_id a) = None then
       if fa_nonce a \<in> nonces then (valid, nonces, receipts)
       else if es_receipt submission \<in> receipts then (valid, insert (fa_nonce a) nonces, receipts)
       else (bt_insert (fa_participant_id a) submission valid, insert (fa_nonce a) nonces,
             insert (es_receipt submission) receipts)
     else (valid, nonces, receipts))"

definition admit_batch ::
    "suite \<Rightarrow> encrypted_submission list \<Rightarrow> admission_policy \<Rightarrow> crypto_error + encrypted_submission list" where
  "admit_batch c submissions policy =
     (case fold (admit_step c policy) submissions ([], {}, {}) of (valid, _, _) \<Rightarrow>
        if length valid < ap_minimum policy
        then Inl (InsufficientCrowd (length valid) (ap_minimum policy))
        else Inr (bt_values valid))"

end
