(* ===== verification/Admission.thy ===== *)
theory Admission
  imports Crypto
begin

text \<open>
  Correctness of \<open>kageb-host/src/crypto.rs\<close>: the authorization, signed-intent and submission
  codecs are exact, an honest submission is admitted, admission keeps the first valid submission of
  every participant, and a batch of honest ciphertexts opens with any two verified shares.
\<close>

section \<open>Codecs\<close>

lemma authorization_bytes_eq:
  "authorization_bytes v op e p t n b q x =
     [v] @ arr_bytes op @ arr_bytes e @ arr_bytes p @ arr_bytes t @ arr_bytes n @
     to_le_bytes b @ to_le_bytes q @ to_le_bytes x"
  by (simp add: authorization_bytes_def Let_def bytes_simps)

lemma length_unsigned_bytes [simp]: "length (unsigned_bytes a) = 185"
  by (simp add: unsigned_bytes_def authorization_bytes_eq)

lemma authorization_encode_eq:
  "authorization_encode a = unsigned_bytes a @ arr_bytes (fa_operator_signature a)"
  by (simp add: authorization_encode_def FUNDED_AUTHORIZATION_V1_LEN_def Let_def bytes_simps)

definition authorization_valid :: "suite \<Rightarrow> funded_authorization \<Rightarrow> bool" where
  "authorization_valid c a \<longleftrightarrow> fa_version a = AUTHORIZATION_VERSION \<and>
     key_from_bytes c (fa_trading_key a) \<and> key_from_bytes c (fa_operator_key a)"

interpretation authorization_codec: record_codec authorization_encode "authorization_decode c"
  "authorization_valid c" FUNDED_AUTHORIZATION_V1_LEN for c
proof unfold_locales
  fix a :: funded_authorization
  show "length (authorization_encode a) = FUNDED_AUTHORIZATION_V1_LEN"
    by (simp add: authorization_encode_eq FUNDED_AUTHORIZATION_V1_LEN_def)
  assume "authorization_valid c a"
  then show "ok (authorization_decode c (authorization_encode a)) = Some a"
    by (simp add: authorization_decode_def authorization_encode_eq unsigned_bytes_def
        authorization_bytes_eq FUNDED_AUTHORIZATION_V1_LEN_def authorization_trading_key_def
        authorization_valid_def bytes_simps Let_def)
next
  fix bytes a assume "ok (authorization_decode c bytes) = Some a"
  then have dec: "authorization_decode c bytes = Inr a" by (simp add: ok_Some)
  then have len: "length bytes = 249" and v: "fa_version a = bytes ! 0"
    and valid: "authorization_valid c a"
    by (auto simp: authorization_decode_def authorization_trading_key_def authorization_valid_def
        FUNDED_AUTHORIZATION_V1_LEN_def res_simps Let_def split: if_splits)
  from dec have a: "a = \<lparr> fa_version = bytes ! 0, fa_operator_key = arr_of (slice 1 33 bytes),
      fa_epoch_id = arr_of (slice 33 65 bytes), fa_participant_id = arr_of (slice 65 97 bytes),
      fa_trading_key = arr_of (slice 97 129 bytes), fa_nonce = arr_of (slice 129 161 bytes),
      fa_base_atoms = from_le_bytes (slice 161 169 bytes),
      fa_quote_atoms = from_le_bytes (slice 169 177 bytes),
      fa_expiry_slot = from_le_bytes (slice 177 185 bytes),
      fa_operator_signature = arr_of (slice 185 249 bytes) \<rparr>"
    using len by (auto simp: authorization_decode_def res_simps Let_def slice_to_end split: if_splits)
  have "authorization_encode a = [bytes ! 0] @ slice 1 249 bytes"
    using len by (simp add: a authorization_encode_eq unsigned_bytes_def authorization_bytes_eq slice_join)
  also have "\<dots> = bytes" using len by (simp add: hd_slice slice_all)
  finally show "authorization_valid c a \<and> authorization_encode a = bytes" using valid by simp
qed

lemma signed_intent_encode_eq:
  "signed_intent_encode i = intent_encode (si_body i) @ arr_bytes (si_signature i)"
  using intent_codec.length_enc [of "si_body i"]
  by (simp add: signed_intent_encode_def SIGNED_INTENT_LEN_def INTENT_LEN_def Let_def bytes_simps)

interpretation signed_intent_codec: record_codec signed_intent_encode signed_intent_decode
  "\<lambda>i. intent_valid (si_body i)" SIGNED_INTENT_LEN
proof unfold_locales
  fix i :: signed_intent
  have len: "length (intent_encode (si_body i)) = 128"
    using intent_codec.length_enc by (simp add: INTENT_LEN_def)
  then show "length (signed_intent_encode i) = SIGNED_INTENT_LEN"
    by (simp add: signed_intent_encode_eq SIGNED_INTENT_LEN_def)
  assume "intent_valid (si_body i)"
  then show "ok (signed_intent_decode (signed_intent_encode i)) = Some i"
    using len by (simp add: signed_intent_decode_def signed_intent_encode_eq SIGNED_INTENT_LEN_def
        intent_codec.rec_dec_enc)
next
  fix bytes i assume "ok (signed_intent_decode bytes) = Some i"
  then have len: "length bytes = 192" and body: "intent_decode (take 128 bytes) = Inr (si_body i)"
    and sig: "si_signature i = arr_of (drop 128 bytes)"
    by (auto simp: ok_Some signed_intent_decode_def SIGNED_INTENT_LEN_def res_simps)
  from intent_codec.rec_dec_sound [OF body] len sig
  show "intent_valid (si_body i) \<and> signed_intent_encode i = bytes"
    by (simp add: signed_intent_encode_eq)
qed

definition submission_valid :: "suite \<Rightarrow> encrypted_submission \<Rightarrow> bool" where
  "submission_valid c s \<longleftrightarrow>
     authorization_valid c (es_authorization s) \<and> length (es_ciphertext s) = ENCRYPTED_INTENT_V1_LEN"

lemmas submission_len_defs =
  ENCRYPTED_SUBMISSION_V1_LEN_def FUNDED_AUTHORIZATION_V1_LEN_def ENCRYPTED_INTENT_V1_LEN_def

lemma length_authorization_encode [simp]: "length (authorization_encode a) = 249"
  using authorization_codec.length_enc by (simp add: FUNDED_AUTHORIZATION_V1_LEN_def)

lemma submission_decode_iff:
  "submission_decode_wire c bytes = Inr s \<longleftrightarrow> submission_valid c s \<and> bytes = submission_encode_wire s"
proof
  assume dec: "submission_decode_wire c bytes = Inr s"
  then have len: "length bytes = 689"
    and a: "authorization_decode c (take 249 bytes) = Inr (es_authorization s)"
    and s: "es_ciphertext s = slice 249 593 bytes" "es_receipt s = arr_of (slice 593 625 bytes)"
      "es_outer_signature s = arr_of (slice 625 689 bytes)"
    by (auto simp: submission_decode_wire_def submission_len_defs res_simps Let_def slice_to_end)
  from authorization_codec.rec_dec_sound [OF a]
  have valid: "authorization_valid c (es_authorization s)"
    and enc: "authorization_encode (es_authorization s) = slice 0 249 bytes"
    by (auto simp: slice_def)
  have "submission_encode_wire s = slice 0 689 bytes"
    using len by (simp add: submission_encode_wire_def enc s slice_join)
  with valid len s show "submission_valid c s \<and> bytes = submission_encode_wire s"
    by (simp add: submission_valid_def submission_len_defs slice_all)
next
  assume "submission_valid c s \<and> bytes = submission_encode_wire s"
  then show "submission_decode_wire c bytes = Inr s"
    by (simp add: submission_decode_wire_def submission_encode_wire_def submission_valid_def
        submission_len_defs Let_def bytes_simps authorization_codec.rec_dec_enc)
qed

section \<open>A concrete suite\<close>

text \<open>
  A suite for the witnesses: signatures always verify, a ciphertext is its plaintext padded to the
  wire length, and opening needs no secrets.
\<close>

definition demo_suite :: suite where
  "demo_suite =
     \<lparr> hash256 = (\<lambda>bs. of_nat (be_val bs)),
       verifying_key = (\<lambda>sk. sk),
       sign = (\<lambda>sk msg. 0),
       key_from_bytes = (\<lambda>_. True),
       verify = (\<lambda>_ _ _. True),
       serialize_ciphertext = (\<lambda>ct. if length ct = 192 then Some (ct @ replicate 152 0) else None),
       deserialize_ciphertext = (\<lambda>bs. Some (take 192 bs)),
       ciphertext_verify = (\<lambda>_. True),
       serialize_keys = (\<lambda>ks. Some ks),
       deserialize_keys = (\<lambda>bs. Some bs),
       threshold = (\<lambda>_. 1),
       key_share = (\<lambda>_ _. 0),
       encrypt_bytes = (\<lambda>_ _ m. m),
       verify_decryption_share = (\<lambda>_ _ _. True),
       decrypt_shares = (\<lambda>_ _ ct. Some ct),
       serialize_share = (\<lambda>d. Some d),
       deserialize_share = (\<lambda>bs. Some bs),
       public_share = (\<lambda>_. 0),
       decrypt_share = (\<lambda>_ _. Some []) \<rparr>"

lemma demo_suite_correct: "ed25519_correct demo_suite"
  by (simp add: ed25519_correct_def demo_suite_def)

section \<open>What admission checks\<close>

lemma verify_admission_Inr:
  "verify_admission c s policy = Inr () \<longleftrightarrow>
     fa_version (es_authorization s) = AUTHORIZATION_VERSION \<and>
     fa_operator_key (es_authorization s) = ap_operator_key policy \<and>
     fa_base_atoms (es_authorization s) = ap_base_atoms policy \<and>
     fa_quote_atoms (es_authorization s) = ap_quote_atoms policy \<and>
     ap_current_slot policy \<le> fa_expiry_slot (es_authorization s) \<and>
     fa_epoch_id (es_authorization s) = ap_epoch_id policy \<and>
     key_from_bytes c (fa_operator_key (es_authorization s)) \<and>
     verify c (ap_operator_key policy) (authorization_message (unsigned_bytes (es_authorization s)))
       (fa_operator_signature (es_authorization s)) \<and>
     es_receipt s \<noteq> 0 \<and> is_ok (decode_ciphertext c (es_ciphertext s)) \<and>
     key_from_bytes c (fa_trading_key (es_authorization s)) \<and>
     verify c (fa_trading_key (es_authorization s))
       (submission_message (ap_epoch_id policy) (authorization_hash c (es_authorization s))
         (hash256 c (es_ciphertext s)) (es_receipt s)) (es_outer_signature s)"
  by (auto simp: verify_admission_def authorization_verify_def authorization_trading_key_def res_simps
      is_ok_iff Let_def not_less split: if_splits)

lemma is_ok_unit: "is_ok m \<longleftrightarrow> m = Inr ()"
  by (cases m) simp_all

abbreviation participant :: "encrypted_submission \<Rightarrow> bytes32" where
  "participant s \<equiv> fa_participant_id (es_authorization s)"

abbreviation nonce_of :: "encrypted_submission \<Rightarrow> bytes32" where
  "nonce_of s \<equiv> fa_nonce (es_authorization s)"

lemma set_values_insert_new:
  assumes "bt_wf m" "bt_get m k = None"
  shows "set (bt_values (bt_insert k v m)) = insert v (set (bt_values m))"
proof -
  have "set (bt_insert k v m) = insert (k, v) (set m)"
  proof (rule set_eqI)
    fix e :: "'a \<times> 'b"
    obtain k' v' where e: "e = (k', v')" by (cases e)
    show "e \<in> set (bt_insert k v m) \<longleftrightarrow> e \<in> insert (k, v) (set m)"
      using assms bt.entries_get [OF bt_wf_insert [OF assms(1)], of k' v'] bt.entries_get [OF assms(1), of k' v']
      by (auto simp: e bt_get_insert)
  qed
  then show ?thesis by (simp add: bt_values_def)
qed

definition admission_entry ::
    "suite \<Rightarrow> admission_policy \<Rightarrow> encrypted_submission set \<Rightarrow> bytes32 \<Rightarrow> encrypted_submission \<Rightarrow> bool" where
  "admission_entry c policy subs k s \<longleftrightarrow> k = participant s \<and> s \<in> subs \<and> verify_admission c s policy = Inr ()"

definition admission_inv ::
    "suite \<Rightarrow> admission_policy \<Rightarrow> encrypted_submission set \<Rightarrow> admission \<Rightarrow> bool" where
  "admission_inv c policy subs = (\<lambda>(valid, nonces, receipts).
     keyed_valid (admission_entry c policy subs) valid \<and>
     nonce_of ` set (bt_values valid) \<subseteq> nonces \<and> es_receipt ` set (bt_values valid) \<subseteq> receipts \<and>
     inj_on nonce_of (set (bt_values valid)) \<and> inj_on es_receipt (set (bt_values valid)))"

lemma admit_step_cases:
  obtains (admitted) "verify_admission c s policy = Inr ()" "bt_get valid (participant s) = None"
      "nonce_of s \<notin> nonces" "es_receipt s \<notin> receipts"
      "admit_step c policy s (valid, nonces, receipts) =
        (bt_insert (participant s) s valid, insert (nonce_of s) nonces, insert (es_receipt s) receipts)"
  | (skipped) nonces' where "nonces \<subseteq> nonces'"
      "admit_step c policy s (valid, nonces, receipts) = (valid, nonces', receipts)"
proof (cases "verify_admission c s policy = Inr () \<and> bt_get valid (participant s) = None \<and> nonce_of s \<notin> nonces")
  case False
  then have "admit_step c policy s (valid, nonces, receipts) = (valid, nonces, receipts)"
    by (auto simp: admit_step_def Let_def is_ok_unit)
  from skipped [OF _ this] show ?thesis by simp
next
  case True
  show ?thesis
  proof (cases "es_receipt s \<in> receipts")
    case True
    with \<open>_ \<and> _\<close> have "admit_step c policy s (valid, nonces, receipts) = (valid, insert (nonce_of s) nonces, receipts)"
      by (simp add: admit_step_def Let_def is_ok_unit)
    from skipped [OF _ this] show ?thesis by auto
  next
    case False
    with \<open>_ \<and> _\<close> show ?thesis by (intro admitted) (simp_all add: admit_step_def Let_def is_ok_unit)
  qed
qed

lemma admission_inv_step:
  assumes "admission_inv c policy subs (valid, nonces, receipts)" and "s \<in> subs"
  shows "admission_inv c policy subs (admit_step c policy s (valid, nonces, receipts))"
proof -
  let ?M = "set (bt_values valid)"
  from assms(1) have v: "keyed_valid (admission_entry c policy subs) valid"
    and n: "nonce_of ` ?M \<subseteq> nonces" and r: "es_receipt ` ?M \<subseteq> receipts"
    and inj: "inj_on nonce_of ?M" "inj_on es_receipt ?M" by (auto simp: admission_inv_def)
  show ?thesis
  proof (cases rule: admit_step_cases [of c s policy valid nonces receipts])
    case admitted
    have M: "set (bt_values (bt_insert (participant s) s valid)) = insert s ?M"
      using v admitted(2) by (intro set_values_insert_new) (simp_all add: keyed_valid_def)
    have "inj_on nonce_of (insert s ?M)" using inj(1) n admitted(3) unfolding inj_on_insert by blast
    moreover have "inj_on es_receipt (insert s ?M)" using inj(2) r admitted(4) unfolding inj_on_insert by blast
    moreover have "keyed_valid (admission_entry c policy subs) (bt_insert (participant s) s valid)"
      by (rule keyed_valid_insert [OF v]) (simp add: admission_entry_def assms(2) admitted(1))
    moreover have "nonce_of ` insert s ?M \<subseteq> insert (nonce_of s) nonces"
      "es_receipt ` insert s ?M \<subseteq> insert (es_receipt s) receipts" using n r by auto
    ultimately show ?thesis unfolding admitted(5) admission_inv_def prod.case M by blast
  next
    case (skipped nonces')
    have "nonce_of ` ?M \<subseteq> nonces'" using n skipped(1) by blast
    with v r inj show ?thesis unfolding skipped(2) admission_inv_def prod.case by blast
  qed
qed

lemma admission_inv_fold:
  "admission_inv c policy subs st \<Longrightarrow> set xs \<subseteq> subs \<Longrightarrow>
     admission_inv c policy subs (fold (admit_step c policy) xs st)"
proof (induction xs arbitrary: st)
  case (Cons x xs)
  obtain v n r where "st = (v, n, r)" by (cases st)
  with Cons admission_inv_step [of c policy subs v n r x] show ?case by simp
qed simp

lemma admit_batch_inv:
  assumes "admit_batch c subs policy = Inr members"
  shows "ap_minimum policy \<le> length members" "distinct (map participant members)"
    "sorted (map participant members)" "distinct (map nonce_of members)"
    "distinct (map es_receipt members)" "set members \<subseteq> set subs"
    "\<And>s. s \<in> set members \<Longrightarrow> verify_admission c s policy = Inr ()"
proof -
  obtain valid nonces receipts where f: "fold (admit_step c policy) subs ([], {}, {}) = (valid, nonces, receipts)"
    by (metis prod.exhaust)
  with assms have len: "ap_minimum policy \<le> length valid" and members: "members = bt_values valid"
    by (auto simp: admit_batch_def split: if_splits)
  have "admission_inv c policy (set subs) ([], {}, {})"
    by (simp add: admission_inv_def keyed_valid_empty bt_values_def)
  from admission_inv_fold [OF this order_refl] f
  have inv: "admission_inv c policy (set subs) (valid, nonces, receipts)" by simp
  then have v: "keyed_valid (admission_entry c policy (set subs)) valid" by (simp add: admission_inv_def)
  then have keys: "map participant members = map fst valid"
    by (auto simp: members bt_values_def keyed_valid_def admission_entry_def)
  have "sorted_wrt (<) (map fst valid)" using v by (simp add: keyed_valid_def bt_wf_def)
  then show d: "distinct (map participant members)" and "sorted (map participant members)"
    unfolding keys by (simp_all add: strict_sorted_iff)
  from len show "ap_minimum policy \<le> length members" by (simp add: members bt_values_def)
  from d have "distinct members" by (simp add: distinct_map)
  then show "distinct (map nonce_of members)" "distinct (map es_receipt members)"
    using inv by (auto simp: admission_inv_def members distinct_map)
  show "set members \<subseteq> set subs" and "\<And>s. s \<in> set members \<Longrightarrow> verify_admission c s policy = Inr ()"
    using v by (auto simp: keyed_valid_def members bt_values_def admission_entry_def)
qed

section \<open>Admission against a reference\<close>

text \<open>
  When the valid submissions have different participants, nonces and receipts, admission is filtering
  and sorting.
\<close>

lemma bt_of_list_sort: "distinct (map fst kvs) \<Longrightarrow> bt_of_list kvs = sort_key fst kvs"
proof (rule map_sorted_distinct_set_unique)
  assume d: "distinct (map fst kvs)"
  have "(k, v) \<in> set (bt_of_list kvs) \<longleftrightarrow> (k, v) \<in> set kvs" for k v
    using d map_of_eq_Some_iff [of "rev kvs" k v]
    by (simp add: bt.entries_get [OF bt_wf_of_list] bt_get_of_list flip: rev_map)
  then show "set (bt_of_list kvs) = set (sort_key fst kvs)" by auto
  then show "inj_on fst (set (bt_of_list kvs) \<union> set (sort_key fst kvs))"
    using d by (simp add: distinct_map)
  show "sorted (map fst (bt_of_list kvs))" "distinct (map fst (bt_of_list kvs))"
    using bt.entries_sorted [OF bt_wf_of_list, of kvs] by (simp_all add: strict_sorted_iff)
  have "mset (map fst (sort_key fst kvs)) = mset (map fst kvs)" by simp
  then show "distinct (map fst (sort_key fst kvs))" using d mset_eq_imp_distinct_iff by blast
qed simp

lemma map_snd_sort_key: "map snd (sort_key fst (map (\<lambda>s. (f s, s)) xs)) = sort_key f xs"
proof -
  have "insort_key fst (f x, x) (map (\<lambda>s. (f s, s)) ys) = map (\<lambda>s. (f s, s)) (insort_key f x ys)" for x ys
    by (induction ys) auto
  then have "sort_key fst (map (\<lambda>s. (f s, s)) xs) = map (\<lambda>s. (f s, s)) (sort_key f xs)"
    by (induction xs) auto
  then show ?thesis by (simp add: comp_def)
qed

definition verifying :: "suite \<Rightarrow> admission_policy \<Rightarrow> encrypted_submission list \<Rightarrow> encrypted_submission list" where
  "verifying c policy subs = filter (\<lambda>s. is_ok (verify_admission c s policy)) subs"

lemma admit_fold_distinct:
  assumes "distinct (map participant (verifying c policy subs))" "distinct (map nonce_of (verifying c policy subs))"
    "distinct (map es_receipt (verifying c policy subs))"
    and "\<forall>s \<in> set (verifying c policy subs). bt_get valid (participant s) = None \<and> nonce_of s \<notin> nonces
      \<and> es_receipt s \<notin> receipts"
  shows "fst (fold (admit_step c policy) subs (valid, nonces, receipts)) =
    fold (\<lambda>(k, v) m. bt_insert k v m) (map (\<lambda>s. (participant s, s)) (verifying c policy subs)) valid"
  using assms
proof (induction subs arbitrary: valid nonces receipts)
  case (Cons s subs)
  show ?case
  proof (cases "is_ok (verify_admission c s policy)")
    case True
    then have V: "verifying c policy (s # subs) = s # verifying c policy subs" by (simp add: verifying_def)
    from True have step: "admit_step c policy s (valid, nonces, receipts) =
        (bt_insert (participant s) s valid, insert (nonce_of s) nonces, insert (es_receipt s) receipts)"
      using Cons.prems(4) by (simp add: admit_step_def verifying_def Let_def)
    have "fst (fold (admit_step c policy) subs (bt_insert (participant s) s valid,
        insert (nonce_of s) nonces, insert (es_receipt s) receipts)) =
      fold (\<lambda>(k, v) m. bt_insert k v m) (map (\<lambda>s. (participant s, s)) (verifying c policy subs))
        (bt_insert (participant s) s valid)"
    proof (rule Cons.IH)
      have "participant s \<notin> participant ` set (verifying c policy subs)"
        "nonce_of s \<notin> nonce_of ` set (verifying c policy subs)"
        "es_receipt s \<notin> es_receipt ` set (verifying c policy subs)"
        using Cons.prems(1-3) by (simp_all add: V)
      then have "participant x \<noteq> participant s \<and> nonce_of x \<noteq> nonce_of s \<and> es_receipt x \<noteq> es_receipt s"
        if "x \<in> set (verifying c policy subs)" for x using that by (metis image_eqI)
      with Cons.prems(4) show "\<forall>x \<in> set (verifying c policy subs).
          bt_get (bt_insert (participant s) s valid) (participant x) = None
          \<and> nonce_of x \<notin> insert (nonce_of s) nonces \<and> es_receipt x \<notin> insert (es_receipt s) receipts"
        by (simp add: V bt_get_insert)
    qed (use Cons.prems in \<open>simp_all add: V\<close>)
    with step show ?thesis by (simp add: V)
  next
    case False
    then have "admit_step c policy s (valid, nonces, receipts) = (valid, nonces, receipts)"
      by (simp add: admit_step_def Let_def)
    with False Cons.IH [of valid nonces receipts] Cons.prems show ?thesis by (simp add: verifying_def)
  qed
qed (simp add: verifying_def)

lemma admit_batch_distinct:
  assumes "distinct (map participant (verifying c policy subs))" "distinct (map nonce_of (verifying c policy subs))"
    "distinct (map es_receipt (verifying c policy subs))"
  shows "admit_batch c subs policy =
    (if length (verifying c policy subs) < ap_minimum policy
     then Inl (InsufficientCrowd (length (verifying c policy subs)) (ap_minimum policy))
     else Inr (sort_key participant (verifying c policy subs)))"
proof -
  let ?V = "map (\<lambda>s. (participant s, s)) (verifying c policy subs)"
  obtain valid nonces receipts where f: "fold (admit_step c policy) subs ([], {}, {}) = (valid, nonces, receipts)"
    by (metis prod.exhaust)
  have "fst (fold (admit_step c policy) subs ([], {}, {})) = fold (\<lambda>(k, v) m. bt_insert k v m) ?V []"
    by (rule admit_fold_distinct) (use assms in \<open>simp_all add: bt.get_empty\<close>)
  then have "valid = bt_of_list ?V" by (simp add: f bt_of_list_def)
  moreover have "distinct (map fst ?V)" using assms(1) by (simp add: comp_def)
  ultimately have valid: "valid = sort_key fst ?V" by (simp add: bt_of_list_sort)
  then have "length valid = length (verifying c policy subs)" by simp
  moreover have "bt_values valid = sort_key participant (verifying c policy subs)"
    unfolding valid bt_values_def by (rule map_snd_sort_key)
  ultimately show ?thesis by (simp add: admit_batch_def f)
qed

section \<open>Recovery\<close>

lemma check_shares_Inr:
  "check_shares c keys ct seen shares = Inr () \<longleftrightarrow>
     distinct (map rs_index shares) \<and> rs_index ` set shares \<inter> seen = {} \<and>
     (\<forall>share \<in> set shares. verify_decryption_share c (key_share c keys (rs_index share)) (rs_share share) ct)"
proof (induction shares arbitrary: seen)
  case (Cons share shares)
  show ?case by (auto simp: Cons.IH)
qed simp

lemma decode_ciphertext_Inr:
  "decode_ciphertext c bytes = Inr e \<longleftrightarrow>
     length bytes = ENCRYPTED_INTENT_V1_LEN \<and> ei_encoded e = bytes \<and>
     deserialize_ciphertext c bytes = Some (ei_ciphertext e) \<and> ciphertext_verify c (ei_ciphertext e)"
  by (cases e) (auto simp: decode_ciphertext_def res_simps)

lemma recover_submission_Inr:
  "recover_submission c keys s shares = Inr intent \<longleftrightarrow>
     (\<exists>encrypted plaintext.
       decode_ciphertext c (es_ciphertext s) = Inr encrypted \<and>
       (\<forall>share \<in> set shares. rs_epoch_account share = rs_epoch_account (hd shares) \<and>
         rs_lock_digest share = rs_lock_digest (hd shares) \<and>
         rs_ciphertext_hash share = hash256 c (es_ciphertext s) \<and>
         verify_decryption_share c (key_share c keys (rs_index share)) (rs_share share) (ei_ciphertext encrypted)) \<and>
       2 \<le> length shares \<and> distinct (map rs_index shares) \<and>
       decrypt_shares c keys (map (\<lambda>share. (rs_index share, rs_share share)) shares) (ei_ciphertext encrypted)
         = Some plaintext \<and>
       intent_valid (si_body intent) \<and> plaintext = signed_intent_encode intent)"
proof (cases shares)
  case (Cons first rest)
  have dec: "signed_intent_decode plaintext = Inr intent \<longleftrightarrow>
      intent_valid (si_body intent) \<and> plaintext = signed_intent_encode intent" for plaintext
    using signed_intent_codec.dec_iff by (simp add: ok_Some)
  show ?thesis
    unfolding recover_submission_def recover_def
    by (auto simp: Cons Let_def res_simps list_ex_iff dec check_shares_Inr not_less Suc_le_eq)
qed (simp add: recover_submission_def)

section \<open>Concrete submissions\<close>

definition demo_policy :: admission_policy where
  "demo_policy = \<lparr> ap_epoch_id = 7, ap_operator_key = 5, ap_minimum = 2, ap_base_atoms = 10,
     ap_quote_atoms = 20, ap_current_slot = 50 \<rparr>"

definition demo_reserved :: "bytes32 \<Rightarrow> bytes32 \<Rightarrow> unsigned_authorization" where
  "demo_reserved p n = \<lparr> ua_nonce = n, ua_epoch_id = 7, ua_participant_id = p, ua_base_atoms = 10,
     ua_quote_atoms = 20 \<rparr>"

definition demo_submission :: "bytes32 \<Rightarrow> bytes32 \<Rightarrow> bytes32 \<Rightarrow> encrypted_submission" where
  "demo_submission p n r =
     \<lparr> es_authorization = authorization_sign demo_suite (demo_reserved p n) 9 5 100,
       es_ciphertext = replicate 344 0, es_receipt = r, es_outer_signature = 0 \<rparr>"

definition demo_intent :: signed_intent where
  "demo_intent =
     \<lparr> si_body = \<lparr> ib_side = Buy, ib_lots = 1, ib_limit_price = 30, ib_epoch_id = 7,
         ib_participant_id = 1, ib_client_nonce = 3 \<rparr>, si_signature = 4 \<rparr>"

lemma demo_submission_fields [simp]:
  "participant (demo_submission p n r) = p" "nonce_of (demo_submission p n r) = n"
  "es_receipt (demo_submission p n r) = r" "fa_trading_key (es_authorization (demo_submission p n r)) = 9"
  by (simp_all add: demo_submission_def authorization_sign_def demo_reserved_def Let_def)

lemma demo_submission_verifies:
  "r \<noteq> 0 \<Longrightarrow> verify_admission demo_suite (demo_submission p n r) demo_policy = Inr ()"
  by (simp add: verify_admission_Inr demo_submission_def authorization_sign_def demo_reserved_def
      demo_policy_def Let_def demo_suite_def decode_ciphertext_def ENCRYPTED_INTENT_V1_LEN_def)

lemma demo_admitted:
  "admit_batch demo_suite [demo_submission 2 12 22, demo_submission 1 11 21] demo_policy
     = Inr [demo_submission 1 11 21, demo_submission 2 12 22]"
proof -
  have "verifying demo_suite demo_policy [demo_submission 2 12 22, demo_submission 1 11 21]
      = [demo_submission 2 12 22, demo_submission 1 11 21]"
    by (simp add: verifying_def demo_submission_verifies)
  then show ?thesis by (subst admit_batch_distinct) (simp_all add: demo_policy_def word_le_nat_alt)
qed

text \<open>Two submissions of one trading key are both admitted; the keys are not compared.\<close>

lemma duplicate_trading_key_admitted:
  "\<exists>members. admit_batch demo_suite [demo_submission 2 12 22, demo_submission 1 11 21] demo_policy = Inr members \<and>
     \<not> distinct (map (\<lambda>s. fa_trading_key (es_authorization s)) members)"
  by (simp add: demo_admitted)

section \<open>Properties\<close>

text \<open>
  The wire decoders of authorizations, signed intents and submissions accept exactly the encodings
  of well-formed values and return them: no value has two encodings and nothing else is accepted.
\<close>

lemma submission_wire_exact:
  "(authorization_decode c bytes = Inr a \<longleftrightarrow> authorization_valid c a \<and> bytes = authorization_encode a) \<and>
   (signed_intent_decode bytes = Inr i \<longleftrightarrow> intent_valid (si_body i) \<and> bytes = signed_intent_encode i) \<and>
   (submission_decode_wire c bytes = Inr s \<longleftrightarrow> submission_valid c s \<and> bytes = submission_encode_wire s)"
  using authorization_codec.dec_iff [of c bytes a] signed_intent_codec.dec_iff [of bytes i]
  by (simp add: ok_Some submission_decode_iff)

text \<open>
  C27. Admission is sound. Every admitted member is one of the submissions and passed every check:
  funded for this epoch and these amounts by the operator's signature, not expired, and signed by its
  trading key over this ciphertext and receipt. The members are at least the minimum, in participant
  order, with different participants, nonces and receipts.
\<close>

theorem admit_batch_sound:
  assumes "admit_batch c subs policy = Inr members"
  shows "ap_minimum policy \<le> length members \<and> set members \<subseteq> set subs \<and>
    sorted_wrt (<) (map participant members) \<and> distinct (map nonce_of members) \<and>
    distinct (map es_receipt members) \<and>
    (\<forall>s \<in> set members.
       fa_epoch_id (es_authorization s) = ap_epoch_id policy \<and>
       fa_base_atoms (es_authorization s) = ap_base_atoms policy \<and>
       fa_quote_atoms (es_authorization s) = ap_quote_atoms policy \<and>
       ap_current_slot policy \<le> fa_expiry_slot (es_authorization s) \<and>
       verify c (ap_operator_key policy) (authorization_message (unsigned_bytes (es_authorization s)))
         (fa_operator_signature (es_authorization s)) \<and>
       verify c (fa_trading_key (es_authorization s))
         (submission_message (ap_epoch_id policy) (authorization_hash c (es_authorization s))
           (hash256 c (es_ciphertext s)) (es_receipt s)) (es_outer_signature s))"
  using admit_batch_inv [OF assms] by (auto simp: strict_sorted_iff verify_admission_Inr)

theorem admit_batch_sound_witness:
  "set [demo_submission 1 11 21, demo_submission 2 12 22]
     \<subseteq> set [demo_submission 2 12 22, demo_submission 1 11 21]"
  using admit_batch_sound [OF demo_admitted] by blast



text \<open>
  C29. An honest trader is admitted. An authorization the operator signs for a reservation of this
  epoch's amounts, together with a well-formed ciphertext and a non-zero receipt, gives a submission
  that the trading key can sign, that passes admission until the authorization expires, and that
  survives the wire.
\<close>

theorem honest_submission_admitted:
  assumes "ed25519_correct c"
    and "ua_epoch_id reserved = ap_epoch_id policy" and "ua_base_atoms reserved = ap_base_atoms policy"
    and "ua_quote_atoms reserved = ap_quote_atoms policy" and "ap_current_slot policy \<le> expiry"
    and "verifying_key c operator = ap_operator_key policy"
    and "decode_ciphertext c (ei_encoded encrypted) = Inr encrypted" and "receipt \<noteq> 0"
  shows "\<exists>s. submission_sign c (authorization_sign c reserved (verifying_key c trader) operator expiry)
      encrypted receipt trader = Inr s \<and> participant s = ua_participant_id reserved \<and>
    verify_admission c s policy = Inr () \<and> submission_decode_wire c (submission_encode_wire s) = Inr s"
proof -
  let ?a = "authorization_sign c reserved (verifying_key c trader) operator expiry"
  have a: "fa_version ?a = AUTHORIZATION_VERSION" "fa_operator_key ?a = ap_operator_key policy"
    "fa_base_atoms ?a = ap_base_atoms policy" "fa_quote_atoms ?a = ap_quote_atoms policy"
    "fa_expiry_slot ?a = expiry" "fa_epoch_id ?a = ap_epoch_id policy"
    "fa_trading_key ?a = verifying_key c trader" "fa_participant_id ?a = ua_participant_id reserved"
    "fa_operator_signature ?a = sign c operator (authorization_message (unsigned_bytes ?a))"
    using assms by (simp_all add: authorization_sign_def unsigned_bytes_def Let_def)
  define s where "s = \<lparr> es_authorization = ?a, es_ciphertext = ei_encoded encrypted, es_receipt = receipt,
    es_outer_signature = sign c trader (submission_message (fa_epoch_id ?a) (authorization_hash c ?a)
      (hash256 c (ei_encoded encrypted)) receipt) \<rparr>"
  then have fields: "es_authorization s = ?a" "es_ciphertext s = ei_encoded encrypted" "es_receipt s = receipt"
    "es_outer_signature s = sign c trader (submission_message (fa_epoch_id ?a) (authorization_hash c ?a)
      (hash256 c (ei_encoded encrypted)) receipt)" by simp_all
  have s: "submission_sign c ?a encrypted receipt trader = Inr s"
    using assms(8) a(7) by (simp add: submission_sign_def s_def Let_def)
  have "verify_admission c s policy = Inr ()"
    using assms a by (simp add: verify_admission_Inr fields ed25519_correct_def flip: assms(6))
  moreover have "submission_valid c s"
    using assms a by (simp add: submission_valid_def authorization_valid_def fields decode_ciphertext_Inr
        ed25519_correct_def flip: assms(6))
  ultimately show ?thesis using s a(8) by (simp add: submission_decode_iff fields)
qed

definition demo_encrypted :: encrypted_intent where
  "demo_encrypted = \<lparr> ei_encoded = signed_intent_encode demo_intent @ replicate 152 0,
     ei_ciphertext = signed_intent_encode demo_intent \<rparr>"

lemma length_signed_intent [simp]: "length (signed_intent_encode i) = 192"
  using signed_intent_codec.length_enc by (simp add: SIGNED_INTENT_LEN_def)

lemma demo_encrypt:
  "encrypt_intent demo_suite keys r demo_intent = Inr demo_encrypted"
  "decode_ciphertext demo_suite (ei_encoded demo_encrypted) = Inr demo_encrypted"
  by (simp_all add: encrypt_intent_def encode_ciphertext_def decode_ciphertext_def demo_suite_def
      demo_encrypted_def ENCRYPTED_INTENT_V1_LEN_def)

theorem honest_submission_admitted_witness:
  "\<exists>s. submission_sign demo_suite (authorization_sign demo_suite (demo_reserved 1 11)
      (verifying_key demo_suite 9) 5 100) demo_encrypted 21 9 = Inr s \<and>
    participant s = ua_participant_id (demo_reserved 1 11) \<and>
    verify_admission demo_suite s demo_policy = Inr () \<and>
    submission_decode_wire demo_suite (submission_encode_wire s) = Inr s"
  by (rule honest_submission_admitted)
    (simp_all add: demo_suite_correct demo_encrypt demo_reserved_def demo_policy_def, simp add: demo_suite_def)

text \<open>
  A submission's signed messages bind it. If two submissions have the same message under their
  outer signatures, they have the same authorization, ciphertext and receipt, or two different messages
  with one hash are known; and an operator's authorization message determines every field it signs.
\<close>

lemma submission_binds:
  assumes "submission_message (fa_epoch_id (es_authorization s)) (authorization_hash c (es_authorization s))
      (hash256 c (es_ciphertext s)) (es_receipt s) =
    submission_message (fa_epoch_id (es_authorization t)) (authorization_hash c (es_authorization t))
      (hash256 c (es_ciphertext t)) (es_receipt t)"
    and "authorization_valid c (es_authorization s)" and "authorization_valid c (es_authorization t)"
  shows "es_authorization s = es_authorization t \<and> es_ciphertext s = es_ciphertext t \<and> es_receipt s = es_receipt t
    \<or> (\<exists>a b. collision (hash256 c) a b)"
proof (rule disjCI)
  assume "\<nexists>a b. collision (hash256 c) a b"
  then have inj: "hash256 c a = hash256 c b \<longleftrightarrow> a = b" for a b by (auto simp: collision_def)
  from assms(1) have "authorization_hash c (es_authorization s) = authorization_hash c (es_authorization t)"
    "hash256 c (es_ciphertext s) = hash256 c (es_ciphertext t)" "es_receipt s = es_receipt t"
    by (simp_all add: submission_message_def)
  then show "es_authorization s = es_authorization t \<and> es_ciphertext s = es_ciphertext t \<and> es_receipt s = es_receipt t"
    using authorization_codec.enc_inj [OF assms(2,3)] by (simp add: authorization_hash_def inj)
qed

text \<open>
  Opening a submission needs two keypers. A plaintext comes back only from at least two shares with
  different indices that all name the same epoch account, the same lock digest and this ciphertext, each
  verified against the epoch's public keys; it is then a well-formed signed intent.
\<close>

lemma recovery_needs_two_shares:
  assumes "recover_submission c keys s shares = Inr intent"
  shows "2 \<le> card (rs_index ` set shares) \<and> card (rs_epoch_account ` set shares) = 1 \<and>
    card (rs_lock_digest ` set shares) = 1 \<and> intent_valid (si_body intent) \<and>
    (\<forall>share \<in> set shares. rs_ciphertext_hash share = hash256 c (es_ciphertext s) \<and>
       released_share_verify c share keys s)"
proof -
  from assms obtain encrypted where e: "decode_ciphertext c (es_ciphertext s) = Inr encrypted"
    and sh: "\<forall>share \<in> set shares. rs_epoch_account share = rs_epoch_account (hd shares) \<and>
         rs_lock_digest share = rs_lock_digest (hd shares) \<and>
         rs_ciphertext_hash share = hash256 c (es_ciphertext s) \<and>
         verify_decryption_share c (key_share c keys (rs_index share)) (rs_share share) (ei_ciphertext encrypted)"
    and two: "2 \<le> length shares" "distinct (map rs_index shares)" and i: "intent_valid (si_body intent)"
    using recover_submission_Inr [THEN iffD1, OF assms] by metis
  have "card (rs_index ` set shares) = length shares"
    using two(2) by (metis distinct_card length_map set_map)
  moreover have "shares \<noteq> []" using two(1) by auto
  moreover have "rs_epoch_account ` set shares = (\<lambda>_. rs_epoch_account (hd shares)) ` set shares"
    "rs_lock_digest ` set shares = (\<lambda>_. rs_lock_digest (hd shares)) ` set shares"
    by (rule image_cong; simp add: sh)+
  ultimately have "2 \<le> card (rs_index ` set shares)" "card (rs_epoch_account ` set shares) = 1"
    "card (rs_lock_digest ` set shares) = 1" using two(1) by (simp_all only: image_constant_conv) simp_all
  moreover have "\<forall>share \<in> set shares. rs_ciphertext_hash share = hash256 c (es_ciphertext s) \<and>
       released_share_verify c share keys s" using sh e by (simp add: released_share_verify_def)
  ultimately show ?thesis using i by blast
qed

text \<open>
  What the code relies on for opening: dealt shares match the public key set, decrypt what was encrypted
  under it, and any two verified shares of an encryption give its plaintext back.
\<close>

definition threshold_correct :: "suite \<Rightarrow> public_key_set \<Rightarrow> (nat \<Rightarrow> secret_key_share) \<Rightarrow> bool" where
  "threshold_correct c keys secrets \<longleftrightarrow>
     (\<forall>i. key_share c keys i = public_share c (secrets i)) \<and>
     (\<forall>i r m. decrypt_share c (secrets i) (encrypt_bytes c keys r m) \<noteq> None) \<and>
     (\<forall>i ct d. decrypt_share c (secrets i) ct = Some d \<longrightarrow>
        verify_decryption_share c (public_share c (secrets i)) d ct) \<and>
     (\<forall>r m shares. 2 \<le> length shares \<and> distinct (map fst shares) \<and>
        (\<forall>(i, d) \<in> set shares. verify_decryption_share c (key_share c keys i) d (encrypt_bytes c keys r m))
        \<longrightarrow> decrypt_shares c keys shares (encrypt_bytes c keys r m) = Some m)"

definition serialization_correct :: "suite \<Rightarrow> bool" where
  "serialization_correct c \<longleftrightarrow>
     (\<forall>ct bytes. serialize_ciphertext c ct = Some bytes \<longrightarrow> deserialize_ciphertext c bytes = Some ct)"

text \<open>
  Any two different dealt shares open an honest submission: both keypers can release a share for
  the encrypted intent, and the two released shares recover exactly the intent the trader signed.
\<close>

lemma honest_recovery:
  assumes "threshold_correct c keys secrets" and "serialization_correct c"
    and "encrypt_intent c keys r intent = Inr encrypted" and "es_ciphertext s = ei_encoded encrypted"
    and "intent_valid (si_body intent)" and "i \<noteq> j"
  shows "\<exists>d e. secret_share_release c (dealt account secrets i) account digest (es_ciphertext s) = Inr d \<and>
    secret_share_release c (dealt account secrets j) account digest (es_ciphertext s) = Inr e \<and>
    recover_submission c keys s [d, e] = Inr intent"
proof -
  let ?ct = "encrypt_bytes c keys r (signed_intent_encode intent)"
  from assms(3) have ct: "ei_ciphertext encrypted = ?ct" "ciphertext_verify c ?ct"
    "serialize_ciphertext c ?ct = Some (ei_encoded encrypted)" "length (ei_encoded encrypted) = ENCRYPTED_INTENT_V1_LEN"
    by (auto simp: encrypt_intent_def encode_ciphertext_def res_simps)
  then have dec: "decode_ciphertext c (es_ciphertext s) = Inr encrypted"
    using assms(2,4) by (simp add: decode_ciphertext_Inr serialization_correct_def)
  have key: "key_share c keys i = public_share c (secrets i)" for i
    using assms(1) unfolding threshold_correct_def by blast
  have can_open: "decrypt_share c (secrets i) ?ct \<noteq> None" for i
    using assms(1) unfolding threshold_correct_def by blast
  have good: "decrypt_share c (secrets i) x = Some d \<Longrightarrow> verify_decryption_share c (public_share c (secrets i)) d x" for i x d
    using assms(1) unfolding threshold_correct_def by blast
  have all: "2 \<le> length shares \<Longrightarrow> distinct (map fst shares) \<Longrightarrow>
        (\<forall>(i, d) \<in> set shares. verify_decryption_share c (key_share c keys i) d ?ct) \<Longrightarrow>
        decrypt_shares c keys shares ?ct = Some (signed_intent_encode intent)" for shares
    using assms(1) unfolding threshold_correct_def by blast
  from can_open obtain d e where de: "decrypt_share c (secrets i) ?ct = Some d" "decrypt_share c (secrets j) ?ct = Some e"
    by blast
  define share where "share = (\<lambda>i d. \<lparr> rs_epoch_account = account, rs_lock_digest = digest,
    rs_ciphertext_hash = hash256 c (es_ciphertext s), rs_index = i, rs_share = d \<rparr>)"
  have "secret_share_release c (dealt account secrets i) account digest (es_ciphertext s) = Inr (share i d)"
    "secret_share_release c (dealt account secrets j) account digest (es_ciphertext s) = Inr (share j e)"
    using de by (simp_all add: secret_share_release_def dec ct(1) dealt_def share_def)
  moreover have "decrypt_shares c keys [(i, d), (j, e)] ?ct = Some (signed_intent_encode intent)"
    using assms(6) good [OF de(1)] good [OF de(2)] by (intro all) (simp_all add: key)
  then have "recover_submission c keys s [share i d, share j e] = Inr intent"
    unfolding recover_submission_Inr using assms(5,6) good [OF de(1)] good [OF de(2)]
    by (intro exI [of _ encrypted] exI [of _ "signed_intent_encode intent"])
      (simp add: dec ct(1) share_def key)
  ultimately show ?thesis by blast
qed

lemma demo_threshold:
  "threshold_correct demo_suite keys secrets" "serialization_correct demo_suite"
  by (auto simp: threshold_correct_def serialization_correct_def demo_suite_def split: if_splits)

lemma demo_intent_valid: "intent_valid (si_body demo_intent)"
  by (simp add: demo_intent_def intent_valid_def)

definition demo_opening :: encrypted_submission where
  "demo_opening = demo_submission 1 11 21 \<lparr> es_ciphertext := ei_encoded demo_encrypted \<rparr>"

lemma demo_opening_ciphertext: "es_ciphertext demo_opening = ei_encoded demo_encrypted"
  by (simp add: demo_opening_def)

definition demo_share :: "nat \<Rightarrow> released_share" where
  "demo_share i = \<lparr> rs_epoch_account = 3, rs_lock_digest = 8,
     rs_ciphertext_hash = hash256 demo_suite (es_ciphertext demo_opening), rs_index = i, rs_share = [] \<rparr>"

lemma demo_recovered: "recover_submission demo_suite [] demo_opening [demo_share 0, demo_share 1] = Inr demo_intent"
  unfolding recover_submission_Inr
  by (intro exI [of _ demo_encrypted] exI [of _ "signed_intent_encode demo_intent"])
    (simp add: demo_opening_ciphertext demo_encrypt demo_share_def demo_intent_valid, simp add: demo_suite_def demo_encrypted_def)

end
