(* ===== verification/Suspension.thy ===== *)
theory Suspension
  imports Admission
begin

text \<open>
  The suspension registry of \<open>kageb-host/src/admission.rs\<close>: a durable set of trading keys that the
  authorization issuer refuses. It is a keyed journal whose records are the keys themselves.
\<close>

datatype suspension_error =
    Io error_kind
  | Busy
  | Corrupt
  | Suspended
  | Capacity

definition SUSPENSION_HEADER :: "byte list" where
  "SUSPENSION_HEADER = ascii ''KGBSUS1'' @ [0]"

definition TRADING_KEY_LEN :: nat where
  "TRADING_KEY_LEN = 32"

type_synonym key_set = "(bytes32, unit) btree"

record suspension_registry =
  sr_file :: contents
  sr_trading_keys :: key_set

definition acquire_suspension_lock :: "io_env \<Rightarrow> suspension_error + unit" where
  "acquire_suspension_lock = acquire_or_busy Io Busy"

definition key_entry :: "byte list \<Rightarrow> suspension_error + bytes32 \<times> unit" where
  "key_entry encoded = (if length encoded = TRADING_KEY_LEN then Inr (arr_of encoded, ()) else Inl Corrupt)"

definition load_suspensions ::
    "(byte list \<Rightarrow> bytes32) \<Rightarrow> io_env \<Rightarrow> contents \<Rightarrow> suspension_error + key_set" where
  "load_suspensions sha256 = keyed_load sha256 SUSPENSION_HEADER TRADING_KEY_LEN key_entry Corrupt Io"

definition persist_suspensions ::
    "(byte list \<Rightarrow> bytes32) \<Rightarrow> io_env \<Rightarrow> key_set \<Rightarrow> contents \<Rightarrow> contents \<times> (suspension_error + unit)" where
  "persist_suspensions sha256 =
     keyed_persist sha256 SUSPENSION_HEADER (\<lambda>(trading_key, _). arr_bytes trading_key) Capacity Io"

definition suspension_open ::
    "(byte list \<Rightarrow> bytes32) \<Rightarrow> io_env \<Rightarrow> contents \<Rightarrow> contents \<times> (suspension_error + suspension_registry)" where
  "suspension_open sha256 io file =
     (case acquire_suspension_lock io of Inl e \<Rightarrow> (file, Inl e) | Inr _ \<Rightarrow>
      case (if file = None then persist_suspensions sha256 io [] file else (file, Inr ())) of
        (file, Inl e) \<Rightarrow> (file, Inl e)
      | (file, Inr _) \<Rightarrow>
          (file, try_bind (load_suspensions sha256 io file) (\<lambda>trading_keys.
             Inr \<lparr> sr_file = file, sr_trading_keys = trading_keys \<rparr>)))"

definition suspend ::
    "(byte list \<Rightarrow> bytes32) \<Rightarrow> io_env \<Rightarrow> bytes32 \<Rightarrow> suspension_registry \<Rightarrow>
     suspension_registry \<times> (suspension_error + unit)" where
  "suspend sha256 io trading_key registry =
     (case update_file acquire_suspension_lock (load_suspensions sha256) (persist_suspensions sha256) io
        (\<lambda>current. Inr (bt_insert trading_key () current)) (sr_file registry) of
        (file, Inl e) \<Rightarrow> (registry \<lparr> sr_file := file \<rparr>, Inl e)
      | (file, Inr current) \<Rightarrow> (registry \<lparr> sr_file := file, sr_trading_keys := current \<rparr>, Inr ()))"

definition is_suspended :: "suspension_registry \<Rightarrow> bytes32 \<Rightarrow> bool" where
  "is_suspended registry trading_key \<longleftrightarrow> bt_get (sr_trading_keys registry) trading_key \<noteq> None"

definition issue_authorization ::
    "suite \<Rightarrow> io_env \<Rightarrow> suspension_registry \<Rightarrow> unsigned_authorization \<Rightarrow> verifying_key \<Rightarrow> signing_key \<Rightarrow> u64 \<Rightarrow>
     suspension_error + funded_authorization" where
  "issue_authorization c io registry reserved trading_key operator expiry_slot =
     try_bind (acquire_suspension_lock io) (\<lambda>_.
     try_bind (load_suspensions (hash256 c) io (sr_file registry)) (\<lambda>current.
     if bt_get current trading_key \<noteq> None then Inl Suspended
     else Inr (authorization_sign c reserved trading_key operator expiry_slot)))"

section \<open>The registry meets the journal contract\<close>

interpretation sr: keyed_journal sha256 SUSPENSION_HEADER TRADING_KEY_LEN
  "\<lambda>(trading_key, _). arr_bytes trading_key" key_entry Corrupt Busy Capacity Io "\<lambda>_ _. True" for sha256
  by unfold_locales (auto simp: key_entry_def TRADING_KEY_LEN_def)

abbreviation suspension_holds :: "(byte list \<Rightarrow> bytes32) \<Rightarrow> contents \<Rightarrow> key_set \<Rightarrow> bool" where
  "suspension_holds sha256 \<equiv> keyed_holds sha256 SUSPENSION_HEADER TRADING_KEY_LEN key_entry Corrupt"

lemmas suspension_io_defs = acquire_suspension_lock_def load_suspensions_def persist_suspensions_def

lemma suspend_ok:
  assumes "suspend sha256 io k r = (r', Inr u)"
  shows "\<exists>m. suspension_holds sha256 (sr_file r) m \<and> suspension_holds sha256 (sr_file r') (bt_insert k () m)
    \<and> sr_trading_keys r' = bt_insert k () m"
proof -
  from assms obtain m' where u: "update_file acquire_suspension_lock (load_suspensions sha256)
      (persist_suspensions sha256) io (\<lambda>current. Inr (bt_insert k () current)) (sr_file r) = (sr_file r', Inr m')"
      and m': "sr_trading_keys r' = m'"
    by (auto simp: suspend_def split: prod.splits sum.splits)
  have "\<exists>m. suspension_holds sha256 (sr_file r) m \<and> Inr (bt_insert k () m) = (Inr m' :: suspension_error + key_set) \<and>
      suspension_holds sha256 (sr_file r') m'"
    by (rule sr.update_ok [OF u [unfolded suspension_io_defs]]) (auto intro: keyed_valid_insert)
  with m' show ?thesis by auto
qed

lemma suspend_atomic:
  assumes "suspend sha256 io k r = (r', q)" and "suspension_holds sha256 (sr_file r) m"
  shows "\<exists>m'. suspension_holds sha256 (sr_file r') m' \<and> (m' = m \<or> m' = bt_insert k () m)"
proof -
  from assms(1) obtain s where u: "update_file acquire_suspension_lock (load_suspensions sha256)
      (persist_suspensions sha256) io (\<lambda>current. Inr (bt_insert k () current)) (sr_file r) = (sr_file r', s)"
    by (auto simp: suspend_def split: prod.splits sum.splits)
  have "\<exists>m'. suspension_holds sha256 (sr_file r') m' \<and>
      (m' = m \<or> Inr (bt_insert k () m) = (Inr m' :: suspension_error + key_set))"
    by (rule sr.update_atomic [OF u [unfolded suspension_io_defs] assms(2)]) (auto intro: keyed_valid_insert)
  then show ?thesis by auto
qed

section \<open>Runs\<close>

text \<open>
  A step is one registry operation by any process as it acts on the shared file,
  with its own system-call outcomes and its own possibly stale view of the registry.
\<close>

inductive suspension_step :: "(byte list \<Rightarrow> bytes32) \<Rightarrow> contents \<Rightarrow> contents \<Rightarrow> bool" for sha256 where
  suspend_step: "suspend sha256 io k r = (r', q) \<Longrightarrow> suspension_step sha256 (sr_file r) (sr_file r')"
| open_step: "suspension_open sha256 io f = (f', q) \<Longrightarrow> suspension_step sha256 f f'"

lemma suspension_open_keeps: "suspension_open sha256 io f = (f', q) \<Longrightarrow> f \<noteq> None \<Longrightarrow> f' = f"
  by (auto simp: suspension_open_def split: sum.splits prod.splits)

lemma suspension_step_grows:
  assumes "suspension_step sha256 f f'" "suspension_holds sha256 f m"
  shows "\<exists>m'. suspension_holds sha256 f' m' \<and> (\<forall>k. bt_get m k \<noteq> None \<longrightarrow> bt_get m' k \<noteq> None)"
  using assms
proof cases
  case (suspend_step io k r r' q)
  with suspend_atomic assms(2) obtain m' where "suspension_holds sha256 f' m'" "m' = m \<or> m' = bt_insert k () m"
    by blast
  then show ?thesis by (auto simp: bt_get_insert)
next
  case (open_step io q)
  moreover have "f \<noteq> None" using assms(2) by (auto simp: keyed_holds_def)
  ultimately show ?thesis using suspension_open_keeps assms(2) by blast
qed

lemma suspension_run_grows:
  assumes "(suspension_step sha256)\<^sup>*\<^sup>* f f'" "suspension_holds sha256 f m"
  shows "\<exists>m'. suspension_holds sha256 f' m' \<and> (\<forall>k. bt_get m k \<noteq> None \<longrightarrow> bt_get m' k \<noteq> None)"
  using assms
proof (induction rule: rtranclp_induct)
  case (step g h)
  then obtain m' where m': "suspension_holds sha256 g m'" "\<forall>k. bt_get m k \<noteq> None \<longrightarrow> bt_get m' k \<noteq> None" by blast
  from suspension_step_grows [OF step.hyps(2) m'(1)] m'(2) show ?case by blast
qed blast

section \<open>Properties\<close>


text \<open>A registry with one suspended key, for the witness.\<close>

definition demo_registry :: suspension_registry where
  "demo_registry =
     \<lparr> sr_file = Some (keyed_image (hash256 demo_suite) SUSPENSION_HEADER
         (\<lambda>(trading_key :: bytes32, _ :: unit). arr_bytes trading_key) 0 []),
       sr_trading_keys = [] \<rparr>"

lemma demo_registry_holds: "suspension_holds (hash256 demo_suite) (sr_file demo_registry) []"
  using sr.decode_image [of "[]" 0 "hash256 demo_suite"]
  by (simp add: demo_registry_def keyed_holds_def keyed_valid_empty u32_try_from_def)

lemma demo_suspend: "\<exists>r'. suspend (hash256 demo_suite) no_faults 9 demo_registry = (r', Inr ())"
proof -
  have "load_suspensions (hash256 demo_suite) no_faults (sr_file demo_registry) = Inr []"
    using sr.load_no_faults [OF demo_registry_holds] by (simp add: load_suspensions_def)
  then show ?thesis
    by (simp add: suspend_def update_file_def acquire_suspension_lock_def persist_suspensions_def
        keyed_persist_def u32_try_from_def)
qed


end
