(* ===== verification/Account.thy ===== *)
theory Account
  imports Admission
begin

text \<open>
  \<open>kageb-host/src/account.rs\<close>: the account journal (balances and the epochs already applied to
  them) and the two operations that span it and the reservation journal, settling an epoch and releasing
  its reservations.
\<close>

section \<open>Records\<close>

record account_record =
  ac_participant_id :: bytes32
  ac_trading_key :: bytes32
  ac_balance :: pool_balance
  ac_last_epoch :: bytes32

record account_result =
  ar_epoch_id :: bytes32
  ar_balance :: pool_balance

datatype account_error =
    Io error_kind
  | Busy
  | Corrupt
  | InvalidAccount
  | DuplicateAccount
  | UnknownAccount
  | Unauthorized
  | ResultPending
  | StaleSettlement
  | ArithmeticOverflow
  | Reservation journal_error

definition ACCOUNT_HEADER :: "byte list" where
  "ACCOUNT_HEADER = ascii ''KGBACC2'' @ [0]"

definition ACCOUNT_RECORD_LEN :: nat where
  "ACCOUNT_RECORD_LEN = 112"

definition account_decode :: "suite \<Rightarrow> byte list \<Rightarrow> account_error + account_record" where
  "account_decode c bytes =
     (if length bytes \<noteq> ACCOUNT_RECORD_LEN then Inl Corrupt
      else
        let participant_id = arr_of (slice 0 32 bytes);
            trading_key = arr_of (slice 32 64 bytes)
        in if \<not> key_from_bytes c trading_key then Inl Corrupt
        else
          let base_atoms = from_le_bytes (slice 64 72 bytes);
              quote_atoms = from_le_bytes (slice 72 80 bytes);
              last_epoch = arr_of (slice 80 112 bytes)
          in if participant_id = 0 \<or> (base_atoms = 0 \<and> quote_atoms = 0) then Inl Corrupt
          else Inr
            \<lparr> ac_participant_id = participant_id, ac_trading_key = trading_key,
              ac_balance = \<lparr> pb_base_atoms = base_atoms, pb_quote_atoms = quote_atoms \<rparr>,
              ac_last_epoch = last_epoch \<rparr>)"

definition account_encode :: "account_record \<Rightarrow> byte list" where
  "account_encode r =
     arr_bytes (ac_participant_id r) @ arr_bytes (ac_trading_key r) @
     to_le_bytes (pb_base_atoms (ac_balance r)) @ to_le_bytes (pb_quote_atoms (ac_balance r)) @
     arr_bytes (ac_last_epoch r)"

section \<open>The file\<close>

type_synonym accounts = "(bytes32, account_record) btree"
type_synonym applied_epochs = "(bytes32, bytes32) btree"
type_synonym account_state = "accounts \<times> applied_epochs"

definition acquire_lock :: "io_env \<Rightarrow> account_error + unit" where
  "acquire_lock = acquire_or_busy Io Busy"

definition account_entry :: "suite \<Rightarrow> byte list \<Rightarrow> account_error + bytes32 \<times> account_record" where
  "account_entry c bytes = try_bind (account_decode c bytes) (\<lambda>record. Inr (ac_participant_id record, record))"

definition epoch_entry :: "byte list \<Rightarrow> account_error + bytes32 \<times> bytes32" where
  "epoch_entry bytes =
     (let epoch = arr_of (slice 0 32 bytes); result_digest = arr_of (slice 32 64 bytes)
      in if epoch = 0 \<or> result_digest = 0 then Inl Corrupt else Inr (epoch, result_digest))"

definition decode_accounts :: "suite \<Rightarrow> byte list \<Rightarrow> account_error + account_state" where
  "decode_accounts c bytes =
     (if \<not> frame_ok (hash256 c) ACCOUNT_HEADER 8 bytes then Inl Corrupt
      else
        let account_count = unat (from_le_bytes (slice 8 12 bytes) :: u32);
            epoch_count = unat (from_le_bytes (slice 12 16 bytes) :: u32)
        in if length bytes \<noteq> 8 + 8 + account_count * ACCOUNT_RECORD_LEN + epoch_count * 64 + CHECKSUM_LEN
        then Inl Corrupt
        else
        try_bind (insert_chunks ACCOUNT_RECORD_LEN (account_entry c) Corrupt account_count (drop 16 bytes) [])
          (\<lambda>records.
        try_bind (insert_chunks 64 epoch_entry Corrupt epoch_count
          (drop (16 + account_count * ACCOUNT_RECORD_LEN) bytes) []) (\<lambda>applied_epochs.
        Inr (records, applied_epochs))))"

definition load_accounts :: "suite \<Rightarrow> io_env \<Rightarrow> contents \<Rightarrow> account_error + account_state" where
  "load_accounts c io file = try_bind (map_err Io (fs_read io file)) (decode_accounts c)"

definition accounts_image :: "suite \<Rightarrow> u32 \<Rightarrow> u32 \<Rightarrow> account_state \<Rightarrow> byte list" where
  "accounts_image c account_count epoch_count = (\<lambda>(records, applied_epochs).
     seal (hash256 c)
       (ACCOUNT_HEADER @ to_le_bytes account_count @ to_le_bytes epoch_count @
        concat (map (\<lambda>(_, record). account_encode record) records) @
        concat (map (\<lambda>(epoch, result_digest). arr_bytes epoch @ arr_bytes result_digest) applied_epochs)))"

definition persist_accounts ::
    "suite \<Rightarrow> io_env \<Rightarrow> account_state \<Rightarrow> contents \<Rightarrow> contents \<times> (account_error + unit)" where
  "persist_accounts c io st file =
     (case u32_try_from (length (fst st)) of None \<Rightarrow> (file, Inl ArithmeticOverflow) | Some account_count \<Rightarrow>
      case u32_try_from (length (snd st)) of None \<Rightarrow> (file, Inl ArithmeticOverflow) | Some epoch_count \<Rightarrow>
      case replace_file io (accounts_image c account_count epoch_count st) file of
        (file', r) \<Rightarrow> (file', map_err Io r))"

section \<open>The journal\<close>

record account_journal =
  aj_file :: contents
  aj_records :: accounts
  aj_applied_epochs :: applied_epochs

definition account_open ::
    "suite \<Rightarrow> io_env \<Rightarrow> contents \<Rightarrow> contents \<times> (account_error + account_journal)" where
  "account_open c io file =
     (case acquire_lock io of Inl e \<Rightarrow> (file, Inl e) | Inr _ \<Rightarrow>
      case (if file = None then persist_accounts c io ([], []) file else (file, Inr ())) of
        (file, Inl e) \<Rightarrow> (file, Inl e)
      | (file, Inr _) \<Rightarrow>
          (file, try_bind (load_accounts c io file) (\<lambda>(records, applied_epochs).
             Inr \<lparr> aj_file = file, aj_records = records, aj_applied_epochs = applied_epochs \<rparr>)))"

definition account_mutate ::
    "suite \<Rightarrow> io_env \<Rightarrow> (account_state \<Rightarrow> account_error + account_state) \<Rightarrow>
     account_journal \<Rightarrow> account_journal \<times> (account_error + unit)" where
  "account_mutate c io operation j =
     (case update_file acquire_lock (load_accounts c) (persist_accounts c) io operation (aj_file j) of
        (file, Inl e) \<Rightarrow> (j \<lparr> aj_file := file \<rparr>, Inl e)
      | (file, Inr (records, applied_epochs)) \<Rightarrow>
          (j \<lparr> aj_file := file, aj_records := records, aj_applied_epochs := applied_epochs \<rparr>, Inr ()))"

definition reload :: "suite \<Rightarrow> io_env \<Rightarrow> account_journal \<Rightarrow> account_journal \<times> (account_error + unit)" where
  "reload c io j =
     (case acquire_lock io of Inl e \<Rightarrow> (j, Inl e) | Inr _ \<Rightarrow>
      case load_accounts c io (aj_file j) of Inl e \<Rightarrow> (j, Inl e) | Inr (records, applied_epochs) \<Rightarrow>
      (j \<lparr> aj_records := records, aj_applied_epochs := applied_epochs \<rparr>, Inr ()))"

definition register_op ::
    "bytes32 \<Rightarrow> verifying_key \<Rightarrow> pool_balance \<Rightarrow> account_state \<Rightarrow> account_error + account_state" where
  "register_op participant_id trading_key balance = (\<lambda>(records, applied_epochs).
     if bt_get records participant_id \<noteq> None then Inl DuplicateAccount
     else Inr (bt_insert participant_id
       \<lparr> ac_participant_id = participant_id, ac_trading_key = trading_key, ac_balance = balance,
         ac_last_epoch = 0 \<rparr> records, applied_epochs))"

definition register ::
    "suite \<Rightarrow> io_env \<Rightarrow> bytes32 \<Rightarrow> verifying_key \<Rightarrow> pool_balance \<Rightarrow>
     account_journal \<Rightarrow> account_journal \<times> (account_error + unit)" where
  "register c io participant_id trading_key balance j =
     (if participant_id = 0 \<or> (pb_base_atoms balance = 0 \<and> pb_quote_atoms balance = 0)
      then (j, Inl InvalidAccount)
      else account_mutate c io (register_op participant_id trading_key balance) j)"

definition query_result ::
    "suite \<Rightarrow> io_env \<Rightarrow> bytes32 \<Rightarrow> verifying_key \<Rightarrow>
     account_journal \<Rightarrow> account_journal \<times> (account_error + account_result)" where
  "query_result c io participant_id trading_key j =
     (case reload c io j of (j, Inl e) \<Rightarrow> (j, Inl e) | (j, Inr _) \<Rightarrow>
        (j, try_bind (ok_or (bt_get (aj_records j) participant_id) UnknownAccount) (\<lambda>record.
            if ac_trading_key record \<noteq> trading_key then Inl Unauthorized
            else if ac_last_epoch record = 0 then Inl ResultPending
            else Inr \<lparr> ar_epoch_id = ac_last_epoch record, ar_balance = ac_balance record \<rparr>)))"

section \<open>Settling an epoch\<close>

definition settlement_matches :: "accounts \<Rightarrow> bytes32 \<Rightarrow> batch_result \<Rightarrow> bool" where
  "settlement_matches records epoch_id result =
     list_all (\<lambda>(participant_id, balance).
       case bt_get records participant_id of
         None \<Rightarrow> False
       | Some record \<Rightarrow> ac_last_epoch record = epoch_id \<and> ac_balance record = balance)
     (br_balances result)"

definition u32_len_or_max :: "'a list \<Rightarrow> u32" where
  "u32_len_or_max xs = (case u32_try_from (length xs) of None \<Rightarrow> - 1 | Some n \<Rightarrow> n)"

definition digest_balances :: "balances \<Rightarrow> byte list" where
  "digest_balances balances =
     to_le_bytes (u32_len_or_max balances) @
     concat (map (\<lambda>(participant_id, balance).
       arr_bytes participant_id @ to_le_bytes (pb_base_atoms balance) @ to_le_bytes (pb_quote_atoms balance))
       balances)"

definition account_settlement_digest :: "suite \<Rightarrow> batch_result \<Rightarrow> bytes32" where
  "account_settlement_digest c result =
     hash256 c (ascii ''kageb-account-settlement-v1'' @
       digest_balances (br_before_balances result) @ digest_balances (br_balances result))"

fun credit_all :: "bytes32 \<Rightarrow> balances \<Rightarrow> accounts \<Rightarrow> account_error + accounts" where
  "credit_all epoch_id [] records = Inr records"
| "credit_all epoch_id ((participant_id, balance) # rest) records =
     try_bind (ok_or (bt_get records participant_id) UnknownAccount) (\<lambda>record.
     credit_all epoch_id rest
       (bt_insert participant_id (record \<lparr> ac_balance := balance, ac_last_epoch := epoch_id \<rparr>) records))"

definition settlement_op ::
    "suite \<Rightarrow> bytes32 \<Rightarrow> batch_result \<Rightarrow> account_state \<Rightarrow> account_error + account_state" where
  "settlement_op c epoch_id result = (\<lambda>(records, applied_epochs).
     if list_ex (\<lambda>participant_id. bt_get records participant_id = None) (bt_keys (br_balances result))
     then Inl UnknownAccount
     else
       let result_digest = account_settlement_digest c result in
       case bt_get applied_epochs epoch_id of
         Some applied_digest \<Rightarrow>
           if applied_digest = result_digest \<and> settlement_matches records epoch_id result
           then Inr (records, applied_epochs) else Inl StaleSettlement
       | None \<Rightarrow>
           if list_ex (\<lambda>(participant_id, balance).
                case bt_get records participant_id of
                  None \<Rightarrow> True
                | Some record \<Rightarrow> ac_balance record \<noteq> balance) (br_before_balances result)
           then Inl StaleSettlement
           else
           try_bind (credit_all epoch_id (br_balances result) records) (\<lambda>records.
           Inr (records, bt_insert epoch_id result_digest applied_epochs)))"

definition apply_settlement ::
    "suite \<Rightarrow> io_env \<Rightarrow> bytes32 \<Rightarrow> batch_result \<Rightarrow> account_journal \<Rightarrow>
     account_journal \<times> (account_error + unit)" where
  "apply_settlement c io epoch_id result j =
     (if epoch_id = 0 then (j, Inl StaleSettlement)
      else account_mutate c io (settlement_op c epoch_id result) j)"

definition journal_settlement_matches ::
    "suite \<Rightarrow> io_env \<Rightarrow> bytes32 \<Rightarrow> batch_result \<Rightarrow> account_journal \<Rightarrow>
     account_journal \<times> (account_error + bool)" where
  "journal_settlement_matches c io epoch_id result j =
     (case reload c io j of (j, Inl e) \<Rightarrow> (j, Inl e) | (j, Inr _) \<Rightarrow>
        (j, Inr (bt_get (aj_applied_epochs j) epoch_id = Some (account_settlement_digest c result)
               \<and> settlement_matches (aj_records j) epoch_id result)))"

definition has_applied_epoch ::
    "suite \<Rightarrow> io_env \<Rightarrow> bytes32 \<Rightarrow> account_journal \<Rightarrow> account_journal \<times> (account_error + bool)" where
  "has_applied_epoch c io epoch_id j =
     (case reload c io j of (j, Inl e) \<Rightarrow> (j, Inl e) | (j, Inr _) \<Rightarrow>
        (j, Inr (bt_get (aj_applied_epochs j) epoch_id \<noteq> None)))"

text \<open>The outcomes of the system calls of the three file operations of one settlement.\<close>

record settlement_io =
  sio_reservations :: io_env
  sio_matches :: io_env
  sio_apply :: io_env

definition finalize_closure ::
    "suite \<Rightarrow> settlement_io \<Rightarrow> bytes32 \<Rightarrow> batch_result \<Rightarrow> bool \<Rightarrow> account_journal \<Rightarrow>
     account_journal \<times> (account_error + unit)" where
  "finalize_closure c io epoch_id result had_used j =
     (if had_used
      then (case journal_settlement_matches c (sio_matches io) epoch_id result j of
              (j, Inl e) \<Rightarrow> (j, Inl e)
            | (j, Inr matches) \<Rightarrow>
                if \<not> matches then (j, Inl StaleSettlement)
                else apply_settlement c (sio_apply io) epoch_id result j)
      else apply_settlement c (sio_apply io) epoch_id result j)"

definition flatten_reservation :: "journal_error + account_error + unit \<Rightarrow> account_error + unit" where
  "flatten_reservation r = (case r of Inl e \<Rightarrow> Inl (Reservation e) | Inr q \<Rightarrow> q)"

definition finalize_settlement ::
    "suite \<Rightarrow> settlement_io \<Rightarrow> bytes32 \<Rightarrow> batch_result \<Rightarrow> bytes32 list \<Rightarrow>
     reservation_journal \<times> account_journal \<Rightarrow>
     (reservation_journal \<times> account_journal) \<times> (account_error + unit)" where
  "finalize_settlement c io epoch_id result reservation_nonces st =
     (let result_members = set (bt_keys (br_balances result)) in
      case finalize_epoch (hash256 c) (sio_reservations io) epoch_id reservation_nonces result_members
        (finalize_closure c io epoch_id result) st of
        (st', r) \<Rightarrow> (st', flatten_reservation r))"

definition release_closure ::
    "suite \<Rightarrow> settlement_io \<Rightarrow> bytes32 \<Rightarrow> account_journal \<Rightarrow> account_journal \<times> (account_error + unit)" where
  "release_closure c io epoch_id j =
     (case has_applied_epoch c (sio_matches io) epoch_id j of
        (j, Inl e) \<Rightarrow> (j, Inl e)
      | (j, Inr applied) \<Rightarrow> (j, if applied then Inl StaleSettlement else Inr ()))"

text \<open>The confirmed terminal epoch enters only through its epoch id.\<close>

definition release_reservations ::
    "suite \<Rightarrow> settlement_io \<Rightarrow> bytes32 \<Rightarrow> bytes32 list \<Rightarrow>
     reservation_journal \<times> account_journal \<Rightarrow>
     (reservation_journal \<times> account_journal) \<times> (account_error + unit)" where
  "release_reservations c io terminal_epoch_id reservation_nonces st =
     (case release_epoch_checked (hash256 c) (sio_reservations io) terminal_epoch_id reservation_nonces
        (release_closure c io terminal_epoch_id) st of
        (st', r) \<Rightarrow> (st', flatten_reservation r))"

end
