(* ===== verification/Custody.thy ===== *)
theory Custody
  imports Account
begin

text \<open>
  Correctness of the account journal and of settlement across the two journals: the file format meets
  the journal contract, settling an epoch is applied exactly once whatever fails, and an epoch is never
  both settled and released.
\<close>

section \<open>The account file meets the journal contract\<close>

definition account_ok :: "suite \<Rightarrow> bytes32 \<Rightarrow> account_record \<Rightarrow> bool" where
  "account_ok c p r \<longleftrightarrow> p = ac_participant_id r \<and> p \<noteq> 0 \<and> key_from_bytes c (ac_trading_key r) \<and>
     \<not> (pb_base_atoms (ac_balance r) = 0 \<and> pb_quote_atoms (ac_balance r) = 0)"

definition applied_ok :: "bytes32 \<Rightarrow> bytes32 \<Rightarrow> bool" where
  "applied_ok e d \<longleftrightarrow> e \<noteq> 0 \<and> d \<noteq> 0"

definition accounts_valid :: "suite \<Rightarrow> account_state \<Rightarrow> bool" where
  "accounts_valid c st \<longleftrightarrow> keyed_valid (account_ok c) (fst st) \<and> keyed_valid applied_ok (snd st)"

definition accounts_hold :: "suite \<Rightarrow> contents \<Rightarrow> account_state \<Rightarrow> bool" where
  "accounts_hold c file st \<longleftrightarrow> (\<exists>bytes. file = Some bytes \<and> decode_accounts c bytes = Inr st)"

lemma length_account_encode [simp]: "length (account_encode r) = ACCOUNT_RECORD_LEN"
  by (simp add: account_encode_def ACCOUNT_RECORD_LEN_def)

lemma account_entry_encode: "account_ok c p r \<Longrightarrow> account_entry c (account_encode r) = Inr (p, r)"
  by (auto simp: account_entry_def account_decode_def account_encode_def ACCOUNT_RECORD_LEN_def bytes_simps
      account_ok_def Let_def)

lemma account_entry_ok: "account_entry c bytes = Inr (p, r) \<Longrightarrow> account_ok c p r"
  by (auto simp: account_entry_def account_decode_def account_ok_def res_simps Let_def)

lemma epoch_entry_encode: "applied_ok e d \<Longrightarrow> epoch_entry (arr_bytes e @ arr_bytes d) = Inr (e, d)"
  by (simp add: epoch_entry_def applied_ok_def bytes_simps)

lemma epoch_entry_ok: "epoch_entry bytes = Inr (e, d) \<Longrightarrow> applied_ok e d"
  by (auto simp: epoch_entry_def applied_ok_def Let_def split: if_splits)

lemma decode_accounts_image:
  assumes "accounts_valid c st" and "u32_try_from (length (fst st)) = Some m" and "u32_try_from (length (snd st)) = Some n"
  shows "decode_accounts c (accounts_image c m n st) = Inr st"
proof -
  obtain rs es where st: "st = (rs, es)" by (cases st)
  let ?R = "concat (map (\<lambda>(_, record). account_encode record) rs)"
  let ?E = "concat (map (\<lambda>(epoch, result_digest). arr_bytes epoch @ arr_bytes result_digest) es)"
  have count: "unat m = length rs" "unat n = length es"
    using assms(2,3) by (auto simp: st u32_try_from_def unat_of_nat split: if_splits)
  have len: "length ?R = length rs * ACCOUNT_RECORD_LEN" "length ?E = length es * 64"
    by (induction rs) (auto, induction es, auto)
  have R: "insert_chunks ACCOUNT_RECORD_LEN (account_entry c) Corrupt (length rs) (?R @ rest) [] = Inr ([] @ rs)" for rest
    using assms(1) by (intro insert_chunks_enc) (auto simp: accounts_valid_def st keyed_valid_def account_entry_encode)
  have E: "insert_chunks 64 epoch_entry Corrupt (length es) (?E @ rest) [] = Inr ([] @ es)" for rest
    using assms(1) by (intro insert_chunks_enc) (auto simp: accounts_valid_def st keyed_valid_def epoch_entry_encode)
  have frame: "frame_ok (hash256 c) ACCOUNT_HEADER 8 (accounts_image c m n st)"
    unfolding accounts_image_def st prod.case by (rule frame_ok_seal) (simp_all add: ACCOUNT_HEADER_def)
  have image: "accounts_image c m n st = ACCOUNT_HEADER @ to_le_bytes m @ to_le_bytes n @ ?R @ ?E @
      arr_bytes (hash256 c (ACCOUNT_HEADER @ to_le_bytes m @ to_le_bytes n @ ?R @ ?E))"
    by (simp add: accounts_image_def st seal_def)
  have h: "length ACCOUNT_HEADER = 8" by (simp add: ACCOUNT_HEADER_def)
  have "drop (16 + length rs * ACCOUNT_RECORD_LEN) (accounts_image c m n st) =
      ?E @ arr_bytes (hash256 c (ACCOUNT_HEADER @ to_le_bytes m @ to_le_bytes n @ ?R @ ?E))"
    unfolding image using h len by simp
  moreover have "drop 16 (accounts_image c m n st) =
      ?R @ ?E @ arr_bytes (hash256 c (ACCOUNT_HEADER @ to_le_bytes m @ to_le_bytes n @ ?R @ ?E))"
    unfolding image using h by simp
  moreover have "slice 8 12 (accounts_image c m n st) = to_le_bytes m"
    "slice 12 16 (accounts_image c m n st) = to_le_bytes n"
    unfolding image using h by (simp_all add: bytes_simps)
  moreover have "length (accounts_image c m n st) = 16 + length rs * ACCOUNT_RECORD_LEN + length es * 64 + 32"
    unfolding image using h len by simp
  ultimately show ?thesis
    by (simp add: decode_accounts_def frame count R E Let_def CHECKSUM_LEN_def) (simp add: st)
qed

lemma decode_accounts_valid: "decode_accounts c bytes = Inr st \<Longrightarrow> accounts_valid c st"
proof -
  assume "decode_accounts c bytes = Inr st"
  then obtain m n bs bs' rs es where
    "insert_chunks ACCOUNT_RECORD_LEN (account_entry c) Corrupt m bs [] = Inr rs"
    "insert_chunks 64 epoch_entry Corrupt n bs' [] = Inr es" and st: "st = (rs, es)"
    by (auto simp: decode_accounts_def res_simps Let_def split: if_splits)
  from insert_chunks_invariant [OF this(1) bt.wf_empty, of "account_ok c"]
    insert_chunks_invariant [OF this(2) bt.wf_empty, of applied_ok]
  show ?thesis
    using account_entry_ok epoch_entry_ok by (fastforce simp: accounts_valid_def keyed_valid_def st)
qed

interpretation aj: journal acquire_lock "load_accounts c" "persist_accounts c" "accounts_hold c" "accounts_valid c" for c
proof unfold_locales
  fix m io "file" file' u
  assume m: "accounts_valid c m" and p: "persist_accounts c io m file = (file', Inr u)"
  from p obtain a b r where ab: "u32_try_from (length (fst m)) = Some a" "u32_try_from (length (snd m)) = Some b"
    and "replace_file io (accounts_image c a b m) file = (file', r)" "r = Inr ()"
    by (auto simp: persist_accounts_def res_simps split: option.splits prod.splits)
  with m show "accounts_hold c file' m"
    by (auto simp: accounts_hold_def decode_accounts_image dest: replace_file_cases)
next
  fix m io "file" file' e
  assume m: "accounts_valid c m" and p: "persist_accounts c io m file = (file', Inl e)"
  show "file' = file \<or> accounts_hold c file' m"
  proof (cases "u32_try_from (length (fst m)) = None \<or> u32_try_from (length (snd m)) = None")
    case True
    with p show ?thesis by (auto simp: persist_accounts_def split: option.splits)
  next
    case False
    then obtain a b where ab: "u32_try_from (length (fst m)) = Some a" "u32_try_from (length (snd m)) = Some b" by auto
    obtain f r where r: "replace_file io (accounts_image c a b m) file = (f, r)" by fastforce
    with p ab have "file' = f" by (simp add: persist_accounts_def)
    with replace_file_cases [OF r] m ab show ?thesis
      by (auto simp: accounts_hold_def decode_accounts_image)
  qed
qed (auto simp: accounts_hold_def load_accounts_def decode_accounts_valid res_simps dest: fs_read_Inr)

lemma account_mutate_ok:
  assumes "account_mutate c io f j = (j', Inr u)"
    and "\<And>m m'. accounts_valid c m \<Longrightarrow> f m = Inr m' \<Longrightarrow> accounts_valid c m'"
  shows "\<exists>m m'. accounts_hold c (aj_file j) m \<and> f m = Inr m' \<and> accounts_hold c (aj_file j') m'"
proof -
  from assms(1) obtain m' where "update_file acquire_lock (load_accounts c) (persist_accounts c) io f (aj_file j)
      = (aj_file j', Inr m')"
    by (auto simp: account_mutate_def split: prod.splits sum.splits)
  from aj.update_ok [OF this] assms(2) show ?thesis by blast
qed

lemma account_mutate_atomic:
  assumes "account_mutate c io f j = (j', r)" and "accounts_hold c (aj_file j) m"
    and "\<And>m m'. accounts_valid c m \<Longrightarrow> f m = Inr m' \<Longrightarrow> accounts_valid c m'"
  shows "\<exists>m'. accounts_hold c (aj_file j') m' \<and> (m' = m \<or> f m = Inr m')"
proof -
  from assms(1) obtain q where "update_file acquire_lock (load_accounts c) (persist_accounts c) io f (aj_file j)
      = (aj_file j', q)"
    by (auto simp: account_mutate_def split: prod.splits sum.splits)
  from aj.update_atomic [OF this assms(2)] assms(3) show ?thesis by blast
qed

lemma account_mutate_no_faults:
  assumes "accounts_hold c (aj_file j) m" and "f m = Inr m'"
    and "accounts_valid c m'" and "length (fst m') < 2 ^ 32" and "length (snd m') < 2 ^ 32"
  shows "\<exists>j'. account_mutate c no_faults f j = (j', Inr ()) \<and> accounts_hold c (aj_file j') m'"
proof -
  have "load_accounts c no_faults (aj_file j) = Inr m" by (rule aj.load_no_faults [OF assms(1)])
  moreover obtain f' where p: "persist_accounts c no_faults m' (aj_file j) = (f', Inr ())"
    using assms(4,5) by (simp add: persist_accounts_def u32_try_from_def)
  moreover from aj.persist_ok [OF assms(3) p] have "accounts_hold c f' m'" .
  ultimately show ?thesis using assms(2)
    by (cases m') (simp add: account_mutate_def update_file_def acquire_lock_def)
qed

section \<open>Results of a batch\<close>

text \<open>
  What the account journal needs of a batch result, all of it guaranteed by netting: the balances after
  are those of the same participants as before, and a changed balance is never empty.
\<close>

definition empty_balance :: "pool_balance \<Rightarrow> bool" where
  "empty_balance b \<longleftrightarrow> pb_base_atoms b = 0 \<and> pb_quote_atoms b = 0"

definition wf_result :: "batch_result \<Rightarrow> bool" where
  "wf_result r \<longleftrightarrow> bt_wf (br_balances r) \<and> bt_wf (br_before_balances r) \<and>
     (\<forall>p. bt_get (br_balances r) p = None \<longleftrightarrow> bt_get (br_before_balances r) p = None) \<and>
     (\<forall>p b. bt_get (br_balances r) p = Some b \<longrightarrow> \<not> empty_balance b \<or> bt_get (br_before_balances r) p = Some b)"

lemma fill_nonempty:
  assumes "order_ok config b order" "bc_base_lot_atoms config \<noteq> 0" "bc_quote_atoms_per_lot config \<noteq> 0"
  shows "\<not> empty_balance (fill config (fo_side order) b)"
proof
  assume e: "empty_balance (fill config (fo_side order) b)"
  have pos: "0 < uint (bc_base_lot_atoms config)" "0 < uint (bc_quote_atoms_per_lot config)"
    using assms(2,3) by (simp_all add: word_neq_0_conv word_less_def)
  have "uint (pb_base_atoms (fill config (fo_side order) b)) = 0" "uint (pb_quote_atoms (fill config (fo_side order) b)) = 0"
    using e by (simp_all add: empty_balance_def)
  then have "uint (pb_base_atoms b) + signed (fo_side order) * uint (bc_base_lot_atoms config) = 0"
    "uint (pb_quote_atoms b) - signed (fo_side order) * uint (bc_quote_atoms_per_lot config) = 0"
    by (simp_all only: fill_base [OF assms(1)] fill_quote [OF assms(1)])
  moreover have "0 \<le> uint (pb_base_atoms b)" "0 \<le> uint (pb_quote_atoms b)" by simp_all
  ultimately show False using pos by (cases "fo_side order") (simp_all add: signed_def)
qed

lemma net_batch_wf:
  assumes "net_batch config before orders = Inr r" "bt_wf before" "length before \<le> 2 ^ 63"
    "batch_config_new lot price = Inr config"
  shows "wf_result r"
proof -
  have lots: "bc_base_lot_atoms config \<noteq> 0" "bc_quote_atoms_per_lot config \<noteq> 0"
    using assms(4) by (auto simp: batch_config_new_def split: if_splits)
  from assms(1) have ok: "batch_ok config before orders" "distinct (map fo_participant_id orders)"
    and r: "br_before_balances r = before" "bt_wf (br_balances r)"
      "\<forall>p. bt_get (br_balances r) p = net_balance config before orders p"
    by (simp_all add: net_batch_Inr [OF assms(2,3)])
  have "(bt_get (br_balances r) p = None \<longleftrightarrow> bt_get before p = None) \<and>
      (\<forall>b. bt_get (br_balances r) p = Some b \<longrightarrow> \<not> empty_balance b \<or> bt_get before p = Some b)" for p
  proof (cases "order_of orders p")
    case None
    then show ?thesis by (simp add: r(3) net_balance_def)
  next
    case (Some order)
    then have "order \<in> set orders" "fo_participant_id order = p"
      by (auto simp: order_of_def dest: map_of_SomeD)
    with ok(1) obtain b where "bt_get before p = Some b" "order_ok config b order" by (auto simp: batch_ok_def)
    with Some fill_nonempty lots show ?thesis by (simp add: r(3) net_balance_def)
  qed
  with r assms(2) show ?thesis by (simp add: wf_result_def)
qed

lemma net_batch_conserves:
  "net_batch config before orders = Inr r \<Longrightarrow> conserves r before \<and> br_before_balances r = before"
  by (auto simp: net_batch_def res_simps Let_def case_prod_beta split: if_splits)

section \<open>Settling the accounts\<close>

definition credited :: "bytes32 \<Rightarrow> balances \<Rightarrow> accounts \<Rightarrow> accounts \<Rightarrow> bool" where
  "credited e bs m m' \<longleftrightarrow>
     (\<forall>p. bt_get m' p = (case bt_get bs p of
        None \<Rightarrow> bt_get m p
      | Some b \<Rightarrow> map_option (\<lambda>r. r \<lparr> ac_balance := b, ac_last_epoch := e \<rparr>) (bt_get m p)))"

lemma bt_wf_Cons: "bt_wf ((p, b) # bs) \<longleftrightarrow> bt_wf bs \<and> (\<forall>q \<in> fst ` set bs. p < q)"
  by (auto simp: bt_wf_def)

lemma bt_get_Cons: "bt_get ((p, b) # bs) q = (if q = p then Some b else bt_get bs q)"
  by (simp add: bt_get_def)

lemma credit_all_spec:
  assumes "bt_wf bs" "bt_wf m" "\<forall>p \<in> fst ` set bs. bt_get m p \<noteq> None"
  shows "\<exists>m'. credit_all e bs m = Inr m' \<and> bt_wf m' \<and> map fst m' = map fst m \<and> credited e bs m m'"
  using assms
proof (induction bs arbitrary: m)
  case Nil
  then show ?case by (simp add: credited_def bt.get_empty)
next
  case (Cons pb bs)
  obtain p b where pb: "pb = (p, b)" by (cases pb)
  obtain r where r: "bt_get m p = Some r" using Cons.prems(3) by (auto simp: pb)
  let ?m = "bt_insert p (r \<lparr> ac_balance := b, ac_last_epoch := e \<rparr>) m"
  have p: "bt_get bs p = None"
    using Cons.prems(1) by (auto simp: pb bt_wf_Cons bt_get_def map_of_eq_None_iff)
  have "\<exists>m'. credit_all e bs ?m = Inr m' \<and> bt_wf m' \<and> map fst m' = map fst ?m \<and> credited e bs ?m m'"
    using Cons.prems by (intro Cons.IH) (auto simp: pb bt_wf_Cons bt_wf_insert bt_get_insert)
  then obtain m' where m': "credit_all e bs ?m = Inr m'" "bt_wf m'" "map fst m' = map fst ?m" "credited e bs ?m m'"
    by blast
  have "credited e (pb # bs) m m'"
    using m'(4) p r by (auto simp: credited_def pb bt_get_Cons bt_get_insert split: option.splits)
  with m' r show ?case using bt_insert_present [OF Cons.prems(2) r] by (simp add: pb)
qed

lemma key_in_keys: "bt_wf m \<Longrightarrow> p \<in> set (bt_keys m) \<longleftrightarrow> bt_get m p \<noteq> None"
  by (simp add: bt_keys_def bt.key_iff)

text \<open>The two ways \<open>settlement_op\<close> succeeds: the epoch was applied already, or it is applied now.\<close>

definition already_applied :: "suite \<Rightarrow> bytes32 \<Rightarrow> batch_result \<Rightarrow> account_state \<Rightarrow> bool" where
  "already_applied c e r st \<longleftrightarrow>
     bt_get (snd st) e = Some (account_settlement_digest c r) \<and> settlement_matches (fst st) e r"

definition applied_now :: "suite \<Rightarrow> bytes32 \<Rightarrow> batch_result \<Rightarrow> account_state \<Rightarrow> account_state \<Rightarrow> bool" where
  "applied_now c e r st st' \<longleftrightarrow>
     bt_get (snd st) e = None \<and>
     (\<forall>p b. bt_get (br_before_balances r) p = Some b \<longrightarrow> map_option ac_balance (bt_get (fst st) p) = Some b) \<and>
     credited e (br_balances r) (fst st) (fst st') \<and> bt_wf (fst st') \<and> map fst (fst st') = map fst (fst st) \<and>
     snd st' = bt_insert e (account_settlement_digest c r) (snd st)"

lemma bt_ball: "bt_wf m \<Longrightarrow> (\<forall>x \<in> set m. case x of (k, v) \<Rightarrow> P k v) \<longleftrightarrow> (\<forall>k v. bt_get m k = Some v \<longrightarrow> P k v)"
  by (auto simp flip: bt.entries_get)

lemma case_option_ex: "(case x of None \<Rightarrow> False | Some a \<Rightarrow> P a) \<longleftrightarrow> (\<exists>a. x = Some a \<and> P a)"
  by (cases x) simp_all

lemma settlement_matches_iff:
  "bt_wf (br_balances r) \<Longrightarrow> settlement_matches m e r \<longleftrightarrow>
     (\<forall>p b. bt_get (br_balances r) p = Some b \<longrightarrow>
        (\<exists>a. bt_get m p = Some a \<and> ac_last_epoch a = e \<and> ac_balance a = b))"
  unfolding settlement_matches_def list_all_iff
  by (simp add: bt_ball case_option_ex)

lemma stale_iff:
  "bt_wf bs \<Longrightarrow> list_ex (\<lambda>(p, b). case bt_get m p of None \<Rightarrow> True | Some a \<Rightarrow> ac_balance a \<noteq> b) bs \<longleftrightarrow>
     \<not> (\<forall>p b. bt_get bs p = Some b \<longrightarrow> map_option ac_balance (bt_get m p) = Some b)"
  unfolding list_ex_iff by (fastforce simp: bt.entries_get split: option.splits)

lemma applied_now_unique:
  assumes "applied_now c e r st a" "applied_now c e r st b"
  shows "a = b"
proof -
  have "fst a = fst b"
    using assms by (intro bt.entries_ext) (auto simp: applied_now_def credited_def)
  moreover have "snd a = snd b" using assms by (simp add: applied_now_def)
  ultimately show ?thesis by (rule prod_eqI)
qed

lemma settlement_op_Inr:
  assumes "wf_result r" "accounts_valid c st"
  shows "settlement_op c e r st = Inr st' \<longleftrightarrow>
    (already_applied c e r st \<and> st' = st) \<or> applied_now c e r st st'" (is "?l \<longleftrightarrow> ?r")
proof -
  obtain m es where st: "st = (m, es)" by (cases st)
  have wf: "bt_wf (br_balances r)" "bt_wf (br_before_balances r)" "bt_wf m"
    using assms by (auto simp: wf_result_def accounts_valid_def keyed_valid_def st)
  have missing: "list_ex (\<lambda>p. bt_get m p = None) (bt_keys (br_balances r)) \<longleftrightarrow>
      (\<exists>p. bt_get (br_balances r) p \<noteq> None \<and> bt_get m p = None)"
    using key_in_keys [OF wf(1)] by (auto simp: list_ex_iff)
  have known: "\<exists>p. bt_get (br_balances r) p \<noteq> None \<and> bt_get m p = None \<Longrightarrow> \<not> ?r"
  proof -
    assume "\<exists>p. bt_get (br_balances r) p \<noteq> None \<and> bt_get m p = None"
    then obtain p b where p: "bt_get (br_balances r) p = Some b" "bt_get m p = None" by auto
    have "bt_get (br_balances r) p = None \<longleftrightarrow> bt_get (br_before_balances r) p = None"
      using assms(1) unfolding wf_result_def by blast
    with p obtain b' where "bt_get (br_before_balances r) p = Some b'" by auto
    with p have "\<not> settlement_matches m e r" "\<not> applied_now c e r st st'"
      unfolding applied_now_def settlement_matches_iff [OF wf(1)] st by force+
    then show "\<not> ?r" by (auto simp: already_applied_def st)
  qed
  show ?thesis
  proof (cases "\<exists>p. bt_get (br_balances r) p \<noteq> None \<and> bt_get m p = None")
    case True
    with known have "\<not> ?r" by blast
    moreover from True have "settlement_op c e r st = Inl UnknownAccount"
      by (simp add: settlement_op_def st missing)
    ultimately show ?thesis by simp
  next
    case False
    then have "\<forall>p \<in> fst ` set (br_balances r). bt_get m p \<noteq> None"
      using bt.key_iff [OF wf(1)] by metis
    from credit_all_spec [OF wf(1,3) this, of e] obtain m' where
      m': "credit_all e (br_balances r) m = Inr m'" "bt_wf m'" "map fst m' = map fst m" "credited e (br_balances r) m m'"
      by blast
    have now: "applied_now c e r st st' \<longleftrightarrow> bt_get es e = None \<and>
        (\<forall>p b. bt_get (br_before_balances r) p = Some b \<longrightarrow> map_option ac_balance (bt_get m p) = Some b) \<and>
        st' = (m', bt_insert e (account_settlement_digest c r) es)"
      using applied_now_unique [of c e r st st' "(m', bt_insert e (account_settlement_digest c r) es)"] m'
      by (auto simp: applied_now_def st)
    have "\<not> list_ex (\<lambda>p. bt_get m p = None) (bt_keys (br_balances r))" using False unfolding missing .
    then show ?thesis
      unfolding now
      by (auto simp: settlement_op_def st stale_iff [OF wf(2)] m'(1) already_applied_def Let_def
          split: option.splits)
  qed
qed

lemma applied_now_valid:
  assumes "applied_now c e r st st'" "wf_result r" "accounts_valid c st" "e \<noteq> 0" "account_settlement_digest c r \<noteq> 0"
  shows "accounts_valid c st'"
proof -
  have "account_ok c p a" if "bt_get (fst st') p = Some a" for p a
  proof (cases "bt_get (br_balances r) p")
    case None
    with assms(1) that have "bt_get (fst st) p = Some a" by (simp add: applied_now_def credited_def)
    with assms(3) show ?thesis by (auto simp: accounts_valid_def dest: keyed_valid_get)
  next
    case (Some b)
    with assms(1) that obtain a' where a': "bt_get (fst st) p = Some a'" "a = a' \<lparr> ac_balance := b, ac_last_epoch := e \<rparr>"
      by (auto simp: applied_now_def credited_def)
    have ok: "account_ok c p a'" using assms(3) a'(1) by (auto simp: accounts_valid_def dest: keyed_valid_get)
    have "\<not> empty_balance b \<or> bt_get (br_before_balances r) p = Some b"
      using assms(2) Some unfolding wf_result_def by blast
    moreover have "ac_balance a' = b" if "bt_get (br_before_balances r) p = Some b"
      using assms(1) that a'(1) by (force simp: applied_now_def)
    ultimately show ?thesis using ok a'(2) by (auto simp: account_ok_def empty_balance_def)
  qed
  then have "keyed_valid (account_ok c) (fst st')"
    using assms(1) bt_ball [of "fst st'" "account_ok c"] by (auto simp: applied_now_def keyed_valid_def)
  moreover have "keyed_valid applied_ok (snd st')"
    using assms by (auto simp: applied_now_def accounts_valid_def applied_ok_def intro!: keyed_valid_insert)
  ultimately show ?thesis by (simp add: accounts_valid_def)
qed

lemma applied_now_already:
  assumes "applied_now c e r st st'" "wf_result r"
  shows "already_applied c e r st'"
proof -
  have wf: "bt_wf (br_balances r)" using assms(2) by (simp add: wf_result_def)
  have "settlement_matches (fst st') e r"
    unfolding settlement_matches_iff [OF wf]
  proof (intro allI impI)
    fix p b assume b: "bt_get (br_balances r) p = Some b"
    then have "bt_get (br_before_balances r) p \<noteq> None" using assms(2) by (metis option.distinct(1) wf_result_def)
    then obtain a where "bt_get (fst st) p = Some a" using assms(1) by (auto simp: applied_now_def)
    with b assms(1) show "\<exists>a. bt_get (fst st') p = Some a \<and> ac_last_epoch a = e \<and> ac_balance a = b"
      by (auto simp: applied_now_def credited_def)
  qed
  with assms(1) show ?thesis by (simp add: already_applied_def applied_now_def bt_get_insert)
qed

lemma settlement_op_valid:
  assumes "wf_result r" "e \<noteq> 0" "account_settlement_digest c r \<noteq> 0" "accounts_valid c st" "settlement_op c e r st = Inr st'"
  shows "accounts_valid c st'"
  using assms(5) applied_now_valid [OF _ assms(1,4,2,3)] assms(4) unfolding settlement_op_Inr [OF assms(1,4)] by blast

lemma settlement_op_again:
  assumes "wf_result r" "e \<noteq> 0" "account_settlement_digest c r \<noteq> 0" "accounts_valid c st" "settlement_op c e r st = Inr st'"
  shows "settlement_op c e r st' = Inr st'" "already_applied c e r st'"
proof -
  show "already_applied c e r st'"
    using assms(5) applied_now_already [OF _ assms(1)] unfolding settlement_op_Inr [OF assms(1,4)] by blast
  then show "settlement_op c e r st' = Inr st'"
    using settlement_op_Inr [OF assms(1) settlement_op_valid [OF assms]] by blast
qed

section \<open>The closures\<close>

lemma reload_file: "reload c io j = (j', r) \<Longrightarrow> aj_file j' = aj_file j"
  by (auto simp: reload_def split: sum.splits prod.splits)

lemma reload_ok:
  "reload c io j = (j', Inr u) \<Longrightarrow>
     accounts_hold c (aj_file j) (aj_records j', aj_applied_epochs j') \<and> aj_file j' = aj_file j"
  by (auto simp: reload_def split: sum.splits prod.splits dest: aj.load_holds)

lemma reload_no_faults:
  "accounts_hold c (aj_file j) (m, es) \<Longrightarrow>
     reload c no_faults j = (j \<lparr> aj_records := m, aj_applied_epochs := es \<rparr>, Inr ())"
  using aj.load_no_faults [of c "aj_file j" "(m, es)"] by (simp add: reload_def acquire_lock_def)

text \<open>The facts about one batch that the rest of this section is about.\<close>

definition settleable :: "suite \<Rightarrow> bytes32 \<Rightarrow> batch_result \<Rightarrow> bool" where
  "settleable c e r \<longleftrightarrow> wf_result r \<and> e \<noteq> 0 \<and> account_settlement_digest c r \<noteq> 0"

lemmas settleable_op = settlement_op_valid settlement_op_again

lemma apply_settlement_cases:
  assumes "apply_settlement c io e r j = (j', q)" "settleable c e r" "accounts_hold c (aj_file j) st"
  shows "\<exists>st'. accounts_hold c (aj_file j') st' \<and> (st' = st \<or> settlement_op c e r st = Inr st')"
    and "q = Inr () \<Longrightarrow> \<exists>st'. accounts_hold c (aj_file j') st' \<and> settlement_op c e r st = Inr st'"
proof -
  have m: "account_mutate c io (settlement_op c e r) j = (j', q)"
    using assms(1,2) by (simp add: apply_settlement_def settleable_def)
  have valid: "accounts_valid c m \<Longrightarrow> settlement_op c e r m = Inr m' \<Longrightarrow> accounts_valid c m'" for m m'
    using assms(2) settlement_op_valid unfolding settleable_def by blast
  show "\<exists>st'. accounts_hold c (aj_file j') st' \<and> (st' = st \<or> settlement_op c e r st = Inr st')"
    by (rule account_mutate_atomic [OF m assms(3)]) (rule valid)
  assume "q = Inr ()"
  then have "account_mutate c io (settlement_op c e r) j = (j', Inr ())" using m by simp
  then have "\<exists>a b. accounts_hold c (aj_file j) a \<and> settlement_op c e r a = Inr b \<and> accounts_hold c (aj_file j') b"
    by (rule account_mutate_ok) (rule valid)
  then obtain a b where "accounts_hold c (aj_file j) a"
    "settlement_op c e r a = Inr b" "accounts_hold c (aj_file j') b" by blast
  moreover from this(1) have "a = st" using aj.holds_unique [OF assms(3)] by blast
  ultimately show "\<exists>st'. accounts_hold c (aj_file j') st' \<and> settlement_op c e r st = Inr st'" by blast
qed

lemma finalize_closure_cases:
  assumes "finalize_closure c io e r used j = (j', q)" "settleable c e r" "accounts_hold c (aj_file j) st"
  shows "\<exists>st'. accounts_hold c (aj_file j') st' \<and> (st' = st \<or> settlement_op c e r st = Inr st')"
    and "q = Inr () \<Longrightarrow> \<exists>st'. accounts_hold c (aj_file j') st' \<and> settlement_op c e r st = Inr st'"
proof -
  have cases: "(\<exists>err. q = Inl err \<and> aj_file j' = aj_file j) \<or>
      (\<exists>k. aj_file k = aj_file j \<and> apply_settlement c (sio_apply io) e r k = (j', q))"
    using assms(1) by (auto simp: finalize_closure_def journal_settlement_matches_def dest: reload_file
        split: if_splits prod.splits sum.splits)
  then show "\<exists>st'. accounts_hold c (aj_file j') st' \<and> (st' = st \<or> settlement_op c e r st = Inr st')"
    using apply_settlement_cases(1) [OF _ assms(2)] assms(3) by metis
  assume "q = Inr ()"
  with cases show "\<exists>st'. accounts_hold c (aj_file j') st' \<and> settlement_op c e r st = Inr st'"
    using apply_settlement_cases(2) [OF _ assms(2)] assms(3) by (metis sum.distinct(2))
qed

section \<open>Attempts to settle\<close>

text \<open>
  An attempt is one call of \<open>finalize_settlement\<close> as it acts on the two shared files, with any
  outcomes of its system calls. A process that dies during the call leaves the files as some failing
  call does, so attempts cover crashes.
\<close>

inductive settlement_attempt ::
    "suite \<Rightarrow> bytes32 \<Rightarrow> batch_result \<Rightarrow> bytes32 list \<Rightarrow> contents \<times> contents \<Rightarrow> contents \<times> contents \<Rightarrow> bool"
  for c e r ns where
  "finalize_settlement c io e r ns (rj, aj) = ((rj', aj'), q) \<Longrightarrow>
     settlement_attempt c e r ns (rj_file rj, aj_file aj) (rj_file rj', aj_file aj')"

lemma epoch_settled_again:
  assumes "epoch_settled Used ns R R1" "epoch_settled Used ns R1 R2"
  shows "R2 = R1"
proof (rule bt.entries_ext)
  show "bt_wf R2" "bt_wf R1" using assms by (simp_all add: epoch_settled_def keyed_valid_def)
  fix n
  have "bt_get R1 n = map_option (settled Used) (bt_get R n)" if "n \<in> set ns"
    using assms(1) that by (simp add: epoch_settled_def)
  moreover have "bt_get R2 n = (if n \<in> set ns then map_option (settled Used) (bt_get R1 n) else bt_get R1 n)"
    using assms(2) by (simp add: epoch_settled_def)
  moreover have "settled Used (settled Used x) = settled Used x" for x by (simp add: settled_def)
  ultimately show "bt_get R2 n = bt_get R1 n" by (simp add: option.map_comp comp_def)
qed

text \<open>One attempt from files that hold \<open>R\<close> and \<open>A\<close>.\<close>

lemma settlement_attempt_cases:
  assumes "settlement_attempt c e r ns (rf, af) (rf', af')" "settleable c e r"
    "reservation_holds (hash256 c) rf R" "accounts_hold c af A"
  shows "\<exists>R' A'. reservation_holds (hash256 c) rf' R' \<and> accounts_hold c af' A' \<and>
    (A' = A \<or> settlement_op c e r A = Inr A') \<and>
    (R' = R \<or> epoch_settled Used ns R R' \<and> settlement_op c e r A = Inr A')"
proof -
  from assms(1) obtain io rj aj rj' aj' q where files: "rj_file rj = rf" "aj_file aj = af" "rj_file rj' = rf'" "aj_file aj' = af'"
    and fin: "finalize_settlement c io e r ns (rj, aj) = ((rj', aj'), q)"
    by (auto elim: settlement_attempt.cases)
  from fin obtain q' where ep: "finalize_epoch (hash256 c) (sio_reservations io) e ns (set (bt_keys (br_balances r)))
      (finalize_closure c io e r) (rj, aj) = ((rj', aj'), q')"
    by (auto simp: finalize_settlement_def Let_def split: prod.splits)
  have R: "reservation_holds (hash256 c) (rj_file rj) R" and A: "accounts_hold c (aj_file aj) A"
    using assms(3,4) files by simp_all
  from ep R show ?thesis
  proof (cases rule: finalize_epoch_cases)
    case (refused err)
    with assms(3,4) files show ?thesis by blast
  next
    case (not_applied used err)
    from finalize_closure_cases(1) [OF not_applied(3) assms(2) A] not_applied(4) assms(3) files
    show ?thesis by blast
  next
    case (applied used R')
    from finalize_closure_cases(2) [OF applied(3) assms(2) A] obtain A' where
      A': "accounts_hold c (aj_file aj') A'" "settlement_op c e r A = Inr A'" by blast
    have "rj_file rj' = rj_file rj \<or> reservation_holds (hash256 c) (rj_file rj') R'" using applied(5) by blast
    with A' applied(4) R files show ?thesis by metis
  qed
qed

lemma settlement_attempts:
  assumes "(settlement_attempt c e r ns)\<^sup>*\<^sup>* (rf, af) (rf', af')" "settleable c e r"
    "reservation_holds (hash256 c) rf R" "accounts_hold c af A"
  shows "\<exists>R' A'. reservation_holds (hash256 c) rf' R' \<and> accounts_hold c af' A' \<and>
    (A' = A \<or> settlement_op c e r A = Inr A') \<and>
    (R' = R \<or> epoch_settled Used ns R R' \<and> settlement_op c e r A = Inr A')"
  using assms(1)
proof (induction "(rf', af')" arbitrary: rf' af' rule: rtranclp_induct)
  case base
  then show ?case using assms(3,4) by blast
next
  case (step fs)
  obtain f g where fs: "fs = (f, g)" by (cases fs)
  from step.hyps(3) [OF fs] obtain R1 A1 where
    R1: "reservation_holds (hash256 c) f R1" "R1 = R \<or> epoch_settled Used ns R R1 \<and> settlement_op c e r A = Inr A1"
    and A1: "accounts_hold c g A1" "A1 = A \<or> settlement_op c e r A = Inr A1" by blast
  from settlement_attempt_cases [OF step.hyps(2) [unfolded fs] assms(2) R1(1) A1(1)] obtain R2 A2 where
    R2: "reservation_holds (hash256 c) rf' R2" "R2 = R1 \<or> epoch_settled Used ns R1 R2 \<and> settlement_op c e r A1 = Inr A2"
    and A2: "accounts_hold c af' A2" "A2 = A1 \<or> settlement_op c e r A1 = Inr A2" by blast
  have again: "A2 = A1" if "settlement_op c e r A = Inr A1"
    using that A2(2) settlement_op_again(1) [OF _ _ _ aj.holds_valid [OF assms(4)] that] assms(2)
    by (auto simp: settleable_def)
  have "A2 = A \<or> settlement_op c e r A = Inr A2" using A1(2) A2(2) again by metis
  moreover have "R2 = R \<or> epoch_settled Used ns R R2 \<and> settlement_op c e r A = Inr A2"
  proof (cases "settlement_op c e r A = Inr A1")
    case True
    with again have "A2 = A1" by blast
    with True R1(2) R2(2) epoch_settled_again [of ns R R1 R2] show ?thesis by metis
  next
    case False
    with R1(2) A1(2) R2(2) show ?thesis by metis
  qed
  ultimately show ?case using R2(1) A2(1) by blast
qed

section \<open>A retry without failures\<close>

definition clear_io :: settlement_io where
  "clear_io = \<lparr> sio_reservations = no_faults, sio_matches = no_faults, sio_apply = no_faults \<rparr>"

lemma unat_u32_less: "unat (w :: u32) < 2 ^ 32"
  using unsigned_less [of w, where ?'a = nat] by simp

lemma reservation_holds_length: "reservation_holds sha256 f m \<Longrightarrow> length m < 2 ^ 32"
  unfolding keyed_holds_def keyed_decode_def
  by (auto simp: Let_def bt.wf_empty unat_u32_less [simplified] dest!: length_insert_chunks split: if_splits)

lemma accounts_hold_length: "accounts_hold c f st \<Longrightarrow> length (fst st) < 2 ^ 32"
  unfolding accounts_hold_def decode_accounts_def
  by (auto simp: Let_def bt.wf_empty unat_u32_less [simplified] res_simps dest!: length_insert_chunks split: if_splits)

lemma epoch_settled_length:
  assumes "epoch_settled next ns R R'" "bt_wf R"
  shows "length R' = length R"
proof -
  have "dom (bt_get R') = dom (bt_get R)" using assms(1) by (auto simp: epoch_settled_def dom_def split: if_splits)
  moreover have "bt_wf R'" using assms(1) by (simp add: epoch_settled_def keyed_valid_def)
  ultimately show ?thesis using bt.length_entries assms(2) by metis
qed

lemma settle_and_persist_no_faults:
  assumes "reservation_holds (hash256 c) (rj_file j) R" "next \<noteq> Reserved" "\<forall>n \<in> set ns. bt_get R n \<noteq> None"
  shows "\<exists>j' R'. settle_and_persist (hash256 c) no_faults next ns R j = (j', Inr (Inr ()) :: journal_error + 'e + unit) \<and>
    epoch_settled next ns R R' \<and> reservation_holds (hash256 c) (rj_file j') R'"
proof -
  obtain j' and r :: "journal_error + 'e + unit"
    where run: "settle_and_persist (hash256 c) no_faults next ns R j = (j', r)" by fastforce
  from settle_and_persist_cases [OF run assms(2,1,3)] obtain R' where R': "epoch_settled next ns R R'"
    and cases: "r = Inr (Inr ()) \<and> reservation_holds (hash256 c) (rj_file j') R' \<or> (\<exists>e. r = Inl e)" by blast
  have valid: "keyed_valid entry_ok R" by (rule rj.holds_valid [OF assms(1)])
  have "r \<noteq> Inl e" for e
  proof -
    from settle_nonces_spec [OF assms(2) valid assms(3), of False] obtain R'' b where
      R'': "settle_nonces next ns (R, False) = Inr (R'', b)" "epoch_settled next ns R R''"
      unfolding epoch_settled_def by blast
    have "length R'' < 2 ^ 32"
      using epoch_settled_length [OF R''(2)] valid reservation_holds_length [OF assms(1)] by (simp add: keyed_valid_def)
    then have "\<exists>f. persist_records (hash256 c) no_faults R'' (rj_file j) = (f, Inr ())"
      by (simp add: persist_records_def keyed_persist_def u32_try_from_def)
    with run R''(1) show ?thesis by (auto simp: settle_and_persist_def split: if_splits)
  qed
  with cases R' run show ?thesis by blast
qed

lemma finalize_closure_no_faults:
  assumes "accounts_hold c (aj_file j) A" "settleable c e r" "settlement_op c e r A = Inr A'"
    "used \<Longrightarrow> already_applied c e r A" "length (snd A) < 2 ^ 32 - 1"
  shows "\<exists>j'. finalize_closure c clear_io e r used j = (j', Inr ()) \<and> accounts_hold c (aj_file j') A'"
proof -
  obtain m es where A: "A = (m, es)" by (cases A)
  have valid: "accounts_valid c A" by (rule aj.holds_valid [OF assms(1)])
  have A': "accounts_valid c A'"
    using settlement_op_valid [OF _ _ _ valid assms(3)] assms(2) by (simp add: settleable_def)
  have wf: "wf_result r" using assms(2) by (simp add: settleable_def)
  have len: "length (fst A') < 2 ^ 32" "length (snd A') < 2 ^ 32"
  proof -
    have "bt_wf (snd A)" using valid by (simp add: accounts_valid_def keyed_valid_def)
    then have "length (fst A') = length (fst A)" "length (snd A') \<le> length (snd A) + 1"
      using assms(3) bt.length_insert [of "snd A" e "account_settlement_digest c r"]
      unfolding settlement_op_Inr [OF wf valid] applied_now_def by (auto dest: map_eq_imp_length_eq)
    with accounts_hold_length [OF assms(1)] assms(5) show "length (fst A') < 2 ^ 32" "length (snd A') < 2 ^ 32"
      by simp_all
  qed
  have run: "\<exists>j'. apply_settlement c no_faults e r k = (j', Inr ()) \<and> accounts_hold c (aj_file j') A'"
    if "aj_file k = aj_file j" for k
    using account_mutate_no_faults [of c k A "settlement_op c e r" A'] that assms(1,2,3) A' len
    by (simp add: apply_settlement_def settleable_def)
  show ?thesis
  proof (cases used)
    case False
    then show ?thesis using run [of j] by (simp add: finalize_closure_def clear_io_def)
  next
    case True
    with assms(4) have "bt_get es e = Some (account_settlement_digest c r)" "settlement_matches m e r"
      by (simp_all add: already_applied_def A)
    with True run [of "j \<lparr> aj_records := m, aj_applied_epochs := es \<rparr>"] assms(1) show ?thesis
      by (simp add: finalize_closure_def clear_io_def journal_settlement_matches_def A reload_no_faults)
  qed
qed

lemma finalize_settlement_no_faults:
  assumes "reservation_holds (hash256 c) (rj_file rj) R" "accounts_hold c (aj_file aj) A" "settleable c e r"
    "settlement_op c e r A = Inr A'" "length (snd A) < 2 ^ 32 - 1"
    "finalize_members e R {} {} False ns = Inr (set (bt_keys (br_balances r)), used)"
    "length ns = card (set (bt_keys (br_balances r)))" "used \<Longrightarrow> already_applied c e r A"
  shows "\<exists>rj' aj' R'. finalize_settlement c clear_io e r ns (rj, aj) = ((rj', aj'), Inr ()) \<and>
    epoch_settled Used ns R R' \<and> reservation_holds (hash256 c) (rj_file rj') R' \<and> accounts_hold c (aj_file aj') A'"
proof -
  from finalize_closure_no_faults [OF assms(2,3,4,8,5)] obtain aj' where
    aj': "finalize_closure c clear_io e r used aj = (aj', Inr ())" "accounts_hold c (aj_file aj') A'" by blast
  have "\<forall>n \<in> set ns. bt_get R n \<noteq> None" using assms(6) by (auto simp: finalize_members_Inr)
  from settle_and_persist_no_faults [OF assms(1) _ this, of Used] obtain rj' R' where
    rj': "settle_and_persist (hash256 c) no_faults Used ns R rj = (rj', Inr (Inr ()) :: journal_error + account_error + unit)"
    "epoch_settled Used ns R R'" "reservation_holds (hash256 c) (rj_file rj') R'" by auto
  have "load_records (hash256 c) no_faults (rj_file rj) = Inr R"
    using rj.load_no_faults [OF assms(1)] by (simp add: load_records_def)
  then have "finalize_settlement c clear_io e r ns (rj, aj) = ((rj', aj'), Inr ())"
    using assms(6,7) aj'(1) rj'(1)
    by (simp add: finalize_settlement_def finalize_epoch_def acquire_journal_lock_def clear_io_def
        flatten_reservation_def)
  with rj' aj'(2) show ?thesis by blast
qed

end
