(* ===== verification/Custody_Properties.thy ===== *)
theory Custody_Properties
  imports Custody
begin

text \<open>
  Properties of the reservation and account journals together: reservations stay within the balance,
  the two files evolve monotonically under any interleaving of operations and failures, an epoch is
  settled exactly once, and settling and releasing exclude each other.
\<close>

declare split_paired_Ex [simp del]

section \<open>Every operation on the two files\<close>

text \<open>
  A step is one operation of some process on the shared files. The premises are what the constructors
  of the arguments guarantee: records come from \<open>ReservationRecord::new\<close>, keys are valid points, and
  batch results come from netting with a valid configuration.
\<close>

definition netted :: "suite \<Rightarrow> bytes32 \<Rightarrow> batch_result \<Rightarrow> bool" where
  "netted c e r \<longleftrightarrow> account_settlement_digest c r \<noteq> 0 \<and>
     (\<exists>lot price config before orders. batch_config_new lot price = Inr config \<and> bt_wf before \<and>
        length before \<le> 2 ^ 63 \<and> net_batch config before orders = Inr r)"

inductive custody_step :: "suite \<Rightarrow> contents \<times> contents \<Rightarrow> contents \<times> contents \<Rightarrow> bool" for c where
  reserving: "reservation_new n e p b q = Inr record \<Longrightarrow>
     reserve (hash256 c) io record available j = (j', res) \<Longrightarrow>
     custody_step c (rj_file j, af) (rj_file j', af)"
| using_one: "mark_used (hash256 c) io n j = (j', res2) \<Longrightarrow> custody_step c (rj_file j, af) (rj_file j', af)"
| releasing_one: "release (hash256 c) io n j = (j', res2) \<Longrightarrow> custody_step c (rj_file j, af) (rj_file j', af)"
| registering: "key_from_bytes c key \<Longrightarrow> register c io p key balance aj = (aj', res3) \<Longrightarrow>
     custody_step c (rf, aj_file aj) (rf, aj_file aj')"
| settling: "netted c e r \<Longrightarrow> finalize_settlement c sio e r ns (j, aj) = ((j', aj'), res3) \<Longrightarrow>
     custody_step c (rj_file j, aj_file aj) (rj_file j', aj_file aj')"
| releasing: "release_reservations c sio e ns (j, aj) = ((j', aj'), res3) \<Longrightarrow>
     custody_step c (rj_file j, aj_file aj) (rj_file j', aj_file aj')"
| opening_reservations: "reservation_open (hash256 c) io rf = (rf', res4) \<Longrightarrow> custody_step c (rf, af) (rf', af)"
| opening_accounts: "account_open c io af = (af', res5) \<Longrightarrow> custody_step c (rf, af) (rf, af')"

definition files_hold :: "suite \<Rightarrow> contents \<times> contents \<Rightarrow> reservations \<Rightarrow> account_state \<Rightarrow> bool" where
  "files_hold c fs R A \<longleftrightarrow> reservation_holds (hash256 c) (fst fs) R \<and> accounts_hold c (snd fs) A"

text \<open>Applied epochs and registered accounts are never forgotten, and an account keeps its key.\<close>

definition accounts_evolve :: "account_state \<Rightarrow> account_state \<Rightarrow> bool" where
  "accounts_evolve A A' \<longleftrightarrow>
     (\<forall>e d. bt_get (snd A) e = Some d \<longrightarrow> bt_get (snd A') e = Some d) \<and>
     (\<forall>p a. bt_get (fst A) p = Some a \<longrightarrow>
        (\<exists>a'. bt_get (fst A') p = Some a' \<and> ac_trading_key a' = ac_trading_key a \<and>
          ac_participant_id a' = ac_participant_id a))"

lemma accounts_evolve_refl: "accounts_evolve A A"
  by (simp add: accounts_evolve_def)

lemma accounts_evolve_trans: "accounts_evolve A B \<Longrightarrow> accounts_evolve B C \<Longrightarrow> accounts_evolve A C"
  unfolding accounts_evolve_def by metis

lemma settlement_op_evolves:
  assumes "settleable c e r" "accounts_valid c A" "settlement_op c e r A = Inr A'"
  shows "accounts_evolve A A'"
proof -
  have wf: "wf_result r" using assms(1) by (simp add: settleable_def)
  from assms(3) consider "A' = A" | "applied_now c e r A A'" unfolding settlement_op_Inr [OF wf assms(2)] by blast
  then show ?thesis
  proof cases
    case 2
    then have "bt_get (snd A') e' = Some d" if "bt_get (snd A) e' = Some d" for e' d
      using that by (auto simp: applied_now_def bt_get_insert)
    moreover have "\<exists>a'. bt_get (fst A') p = Some a' \<and> ac_trading_key a' = ac_trading_key a \<and>
          ac_participant_id a' = ac_participant_id a" if "bt_get (fst A) p = Some a" for p a
      using 2 that by (cases "bt_get (br_balances r) p") (auto simp: applied_now_def credited_def)
    ultimately show ?thesis by (simp add: accounts_evolve_def)
  qed (simp add: accounts_evolve_refl)
qed

lemma netted_settleable: "netted c e r \<Longrightarrow> e \<noteq> 0 \<Longrightarrow> settleable c e r"
  unfolding netted_def settleable_def using net_batch_wf by blast

lemma register_op_evolves:
  assumes "register_op p key balance A = Inr A'"
  shows "accounts_evolve A A'"
  using assms by (auto simp: register_op_def accounts_evolve_def bt_get_insert split: prod.splits if_splits)

lemma register_op_valid:
  assumes "register_op p key balance A = Inr A'" "accounts_valid c A" "key_from_bytes c key" "p \<noteq> 0"
    "\<not> (pb_base_atoms balance = 0 \<and> pb_quote_atoms balance = 0)"
  shows "accounts_valid c A'"
  using assms
  by (auto simp: register_op_def accounts_valid_def account_ok_def split: prod.splits if_splits intro!: keyed_valid_insert)

lemma apply_zero: "apply_settlement c io 0 r j = (j', q) \<Longrightarrow> aj_file j' = aj_file j"
  by (simp add: apply_settlement_def)

lemma finalize_closure_zero: "finalize_closure c io 0 r used j = (j', q) \<Longrightarrow> aj_file j' = aj_file j"
  by (auto simp: finalize_closure_def journal_settlement_matches_def dest!: reload_file apply_zero
      split: if_splits prod.splits sum.splits)

lemma release_closure_file: "release_closure c io e j = (j', q) \<Longrightarrow> aj_file j' = aj_file j"
  by (auto simp: release_closure_def has_applied_epoch_def dest!: reload_file split: prod.splits sum.splits)

lemma settling_evolves:
  assumes "finalize_settlement c sio e r ns (j, aj) = ((j', aj'), q)" "netted c e r"
    "reservation_holds (hash256 c) (rj_file j) R" "accounts_hold c (aj_file aj) A"
  shows "\<exists>R' A'. reservation_holds (hash256 c) (rj_file j') R' \<and> accounts_hold c (aj_file aj') A' \<and>
    reservations_evolve R R' \<and> accounts_evolve A A'"
proof (cases "e = 0")
  case False
  with assms(2) have s: "settleable c e r" by (rule netted_settleable)
  have "settlement_attempt c e r ns (rj_file j, aj_file aj) (rj_file j', aj_file aj')"
    using assms(1) by (rule settlement_attempt.intros)
  from settlement_attempt_cases [OF this s assms(3,4)] obtain R' A' where
    "reservation_holds (hash256 c) (rj_file j') R'" "accounts_hold c (aj_file aj') A'"
    "A' = A \<or> settlement_op c e r A = Inr A'" "R' = R \<or> epoch_settled Used ns R R'" by blast
  moreover have "accounts_evolve A A'"
    using calculation(3) settlement_op_evolves [OF s aj.holds_valid [OF assms(4)]] accounts_evolve_refl by metis
  moreover have "reservations_evolve R R'"
    using calculation(4) evolve_refl by (auto simp: epoch_settled_def)
  ultimately show ?thesis by blast
next
  case True
  from assms(1) obtain q' where "finalize_epoch (hash256 c) (sio_reservations sio) e ns (set (bt_keys (br_balances r)))
      (finalize_closure c sio e r) (j, aj) = ((j', aj'), q')"
    by (auto simp: finalize_settlement_def Let_def split: prod.splits)
  then show ?thesis using assms(3)
  proof (cases rule: finalize_epoch_cases)
    case (applied used R')
    with True have "aj_file aj' = aj_file aj" using finalize_closure_zero by blast
    with applied(4,5) assms(3,4) show ?thesis
      by (metis accounts_evolve_refl epoch_settled_def evolve_refl)
  qed (use True assms(3,4) accounts_evolve_refl evolve_refl finalize_closure_zero in metis)+
qed

lemma releasing_evolves:
  assumes "release_reservations c sio e ns (j, aj) = ((j', aj'), q)"
    "reservation_holds (hash256 c) (rj_file j) R" "accounts_hold c (aj_file aj) A"
  shows "\<exists>R'. reservation_holds (hash256 c) (rj_file j') R' \<and> aj_file aj' = aj_file aj \<and> reservations_evolve R R' \<and>
    (q = Inr () \<longrightarrow> bt_get (snd A) e = None \<and> epoch_settled Released ns R R' \<and>
       (\<forall>n \<in> set ns. \<exists>x. bt_get R n = Some x \<and> rr_epoch_id x = e \<and> rr_state x \<noteq> Used))"
proof -
  from assms(1) obtain q' where ep: "release_epoch_checked (hash256 c) (sio_reservations sio) e ns
      (release_closure c sio e) (j, aj) = ((j', aj'), q')" and q: "q = flatten_reservation q'"
    by (auto simp: release_reservations_def split: prod.splits)
  from ep assms(2) show ?thesis
  proof (cases rule: release_epoch_cases)
    case (refused err)
    with assms(2) show ?thesis by (auto simp: q flatten_reservation_def evolve_refl)
  next
    case (not_applied err)
    with assms(2) release_closure_file [OF not_applied(2)] show ?thesis
      by (auto simp: q flatten_reservation_def evolve_refl)
  next
    case (applied R')
    from applied(2) have none: "bt_get (snd A) e = None"
    proof -
      from applied(2) obtain k where k: "reload c (sio_matches sio) aj = (k, Inr ())" "bt_get (aj_applied_epochs k) e = None"
        by (auto simp: release_closure_def has_applied_epoch_def split: prod.splits sum.splits if_splits)
      from reload_ok [OF k(1)] have "(aj_records k, aj_applied_epochs k) = A"
        using aj.holds_unique [OF assms(3)] by blast
      with k(2) show ?thesis by auto
    qed
    have nonces: "\<forall>n \<in> set ns. \<exists>x. bt_get R n = Some x \<and> rr_epoch_id x = e \<and> rr_state x \<noteq> Used"
      using applied(1) by (simp add: release_check_Inr)
    have evolve: "reservations_evolve R R'" using applied(3) by (simp add: epoch_settled_def)
    from applied(4) show ?thesis
    proof (elim disjE conjE exE)
      assume "q' = Inr (Inr ())" "reservation_holds (hash256 c) (rj_file j') R'"
      with release_closure_file [OF applied(2)] evolve none applied(3) nonces show ?thesis by blast
    next
      fix err assume "q' = Inl err" "rj_file j' = rj_file j"
      with release_closure_file [OF applied(2)] assms(2) show ?thesis
        by (auto simp: q flatten_reservation_def evolve_refl)
    next
      fix err assume "q' = Inl err" "reservation_holds (hash256 c) (rj_file j') R'"
      with release_closure_file [OF applied(2)] evolve show ?thesis
        by (auto simp: q flatten_reservation_def)
    qed
  qed
qed

lemma reserve_mutate: "reserve sha256 io record available j = (j', q) \<Longrightarrow>
     \<exists>q'. mutate sha256 io (reserve_op record available) j = (j', q') \<and> (q' = Inr () \<longleftrightarrow> is_ok q)"
  by (auto simp: reserve_def split: prod.splits sum.splits)

lemma mutate_evolves:
  assumes "mutate sha256 io f j = (j', q)" "reservation_holds sha256 (rj_file j) R"
    and "\<And>m m'. keyed_valid entry_ok m \<Longrightarrow> f m = Inr m' \<Longrightarrow> keyed_valid entry_ok m'"
    and "\<And>m'. f R = Inr m' \<Longrightarrow> reservations_evolve R m'"
  shows "\<exists>R'. reservation_holds sha256 (rj_file j') R' \<and> reservations_evolve R R'"
proof -
  have "\<exists>m'. reservation_holds sha256 (rj_file j') m' \<and> (m' = R \<or> f R = Inr m')"
    by (rule mutate_atomic [OF assms(1,2)]) (rule assms(3))
  with assms(4) evolve_refl show ?thesis by blast
qed

lemma transition_evolves: "transition_op n next R = Inr m' \<Longrightarrow> reservations_evolve R m'"
  by (auto simp: transition_op_Inr evolve_change)

lemma reservation_open_keeps: "reservation_open sha256 io f = (f', q) \<Longrightarrow> f \<noteq> None \<Longrightarrow> f' = f"
  by (auto simp: reservation_open_def split: sum.splits prod.splits)

lemma account_open_keeps: "account_open c io f = (f', q) \<Longrightarrow> f \<noteq> None \<Longrightarrow> f' = f"
  by (auto simp: account_open_def split: sum.splits prod.splits)

lemma register_evolves:
  assumes "register c io p key balance aj = (aj', q)" "key_from_bytes c key" "accounts_hold c (aj_file aj) A"
  shows "\<exists>A'. accounts_hold c (aj_file aj') A' \<and> accounts_evolve A A'"
proof (cases "p = 0 \<or> (pb_base_atoms balance = 0 \<and> pb_quote_atoms balance = 0)")
  case True
  with assms(1,3) show ?thesis by (auto simp: register_def accounts_evolve_refl)
next
  case False
  then have m: "account_mutate c io (register_op p key balance) aj = (aj', q)"
    using assms(1) by (auto simp: register_def split: if_splits)
  have "\<exists>A'. accounts_hold c (aj_file aj') A' \<and> (A' = A \<or> register_op p key balance A = Inr A')"
    by (rule account_mutate_atomic [OF m assms(3)]) (use register_op_valid assms(2) False in blast)
  with register_op_evolves accounts_evolve_refl show ?thesis by blast
qed

lemma custody_step_evolves:
  assumes "custody_step c fs fs'" "files_hold c fs R A"
  shows "\<exists>R' A'. files_hold c fs' R' A' \<and> reservations_evolve R R' \<and> accounts_evolve A A'"
  using assms
proof (cases rule: custody_step.cases)
  case (reserving n e p b q rec io available j j' res af)
  then obtain q' where m: "mutate (hash256 c) io (reserve_op rec available) j = (j', q')"
    using reserve_mutate by blast
  have valid: "reservation_valid rec"
    using reserving(3) by (auto simp: reservation_new_def reservation_valid_def split: if_splits)
  have "\<exists>R'. reservation_holds (hash256 c) (rj_file j') R' \<and> reservations_evolve R R'"
    using assms(2) reserving by (intro mutate_evolves [OF m])
      (auto simp: files_hold_def reserve_op_Inr evolve_insert_new dest: reserve_op_valid [OF valid])
  with assms(2) reserving show ?thesis by (auto simp: files_hold_def intro: accounts_evolve_refl)
next
  case (using_one io n j j' res2 af)
  have "\<exists>R'. reservation_holds (hash256 c) (rj_file j') R' \<and> reservations_evolve R R'"
    using assms(2) using_one by (intro mutate_evolves [OF using_one(3) [unfolded mark_used_def]])
      (auto simp: files_hold_def intro: transition_op_valid transition_evolves)
  with assms(2) using_one show ?thesis by (auto simp: files_hold_def intro: accounts_evolve_refl)
next
  case (releasing_one io n j j' res2 af)
  have "\<exists>R'. reservation_holds (hash256 c) (rj_file j') R' \<and> reservations_evolve R R'"
    using assms(2) releasing_one by (intro mutate_evolves [OF releasing_one(3) [unfolded release_def]])
      (auto simp: files_hold_def intro: transition_op_valid transition_evolves)
  with assms(2) releasing_one show ?thesis by (auto simp: files_hold_def intro: accounts_evolve_refl)
next
  case (registering key io p balance aj aj' res3 rf)
  then have "accounts_hold c (aj_file aj) A" using assms(2) by (simp add: files_hold_def)
  from register_evolves [OF registering(4,3) this] assms(2) registering show ?thesis
    using evolve_refl by (auto simp: files_hold_def)
next
  case (settling e r sio ns j aj j' aj' res3)
  then have "reservation_holds (hash256 c) (rj_file j) R" "accounts_hold c (aj_file aj) A"
    using assms(2) by (simp_all add: files_hold_def)
  from settling_evolves [OF settling(4,3) this] settling show ?thesis by (auto simp: files_hold_def)
next
  case (releasing sio e ns j aj j' aj' res3)
  then have "reservation_holds (hash256 c) (rj_file j) R" "accounts_hold c (aj_file aj) A"
    using assms(2) by (simp_all add: files_hold_def)
  from releasing_evolves [OF releasing(3) this] this releasing(1,2) show ?thesis
    unfolding files_hold_def using accounts_evolve_refl [of A] by (metis fst_conv snd_conv)
next
  case (opening_reservations io rf rf' res4 af)
  moreover have "rf \<noteq> None" using assms(2) opening_reservations by (auto simp: files_hold_def keyed_holds_def)
  ultimately have "rf' = rf" using reservation_open_keeps by blast
  with assms(2) opening_reservations show ?thesis by (auto intro: evolve_refl accounts_evolve_refl)
next
  case (opening_accounts io af af' res5 rf)
  moreover have "af \<noteq> None" using assms(2) opening_accounts by (auto simp: files_hold_def accounts_hold_def)
  ultimately have "af' = af" using account_open_keeps by blast
  with assms(2) opening_accounts show ?thesis by (auto intro: evolve_refl accounts_evolve_refl)
qed

lemma custody_run_evolves:
  assumes "(custody_step c)\<^sup>*\<^sup>* fs fs'" "files_hold c fs R A"
  shows "\<exists>R' A'. files_hold c fs' R' A' \<and> reservations_evolve R R' \<and> accounts_evolve A A'"
  using assms(1)
proof (induction rule: rtranclp_induct)
  case base
  with assms(2) show ?case using evolve_refl accounts_evolve_refl by blast
next
  case (step g h)
  then obtain R1 A1 where "files_hold c g R1 A1" "reservations_evolve R R1" "accounts_evolve A A1" by blast
  with custody_step_evolves [OF step.hyps(2)] show ?case
    by (meson accounts_evolve_trans evolve_trans)
qed

section \<open>A fresh batch\<close>

text \<open>
  The situation before the first attempt to settle: every nonce is a live reservation of this epoch, the
  reservations are those of the batch's participants, and the accounts hold the balances that were netted.
\<close>

definition fresh_batch :: "bytes32 \<Rightarrow> batch_result \<Rightarrow> bytes32 list \<Rightarrow> reservations \<Rightarrow> account_state \<Rightarrow> bool" where
  "fresh_batch e r ns R A \<longleftrightarrow>
     distinct ns \<and>
     (\<forall>n \<in> set ns. \<exists>x. bt_get R n = Some x \<and> rr_epoch_id x = e \<and> rr_state x = Reserved) \<and>
     (\<lambda>n. rr_participant_id (the (bt_get R n))) ` set ns = set (bt_keys (br_balances r)) \<and>
     length ns = length (br_balances r) \<and>
     bt_get (snd A) e = None \<and>
     (\<forall>p b. bt_get (br_before_balances r) p = Some b \<longrightarrow> map_option ac_balance (bt_get (fst A) p) = Some b)"

lemma card_keys: "bt_wf m \<Longrightarrow> card (set (bt_keys m)) = length m"
  unfolding bt_keys_def using bt.distinct_keys by (metis distinct_card length_map)

lemma fresh_applies:
  assumes "fresh_batch e r ns R A" "settleable c e r" "accounts_valid c A"
  shows "\<exists>AS. applied_now c e r A AS"
proof -
  have wf: "bt_wf (br_balances r)" "bt_wf (fst A)"
    using assms(2,3) by (auto simp: settleable_def wf_result_def accounts_valid_def keyed_valid_def)
  have "\<forall>p \<in> fst ` set (br_balances r). bt_get (fst A) p \<noteq> None"
  proof
    fix p assume "p \<in> fst ` set (br_balances r)"
    then have "bt_get (br_balances r) p \<noteq> None" using bt.key_iff [OF wf(1)] by metis
    then have "bt_get (br_before_balances r) p \<noteq> None" using assms(2) unfolding settleable_def wf_result_def by metis
    then show "bt_get (fst A) p \<noteq> None" using assms(1) unfolding fresh_batch_def by fastforce
  qed
  from credit_all_spec [OF wf this, of e] obtain m' where
    "bt_wf m'" "map fst m' = map fst (fst A)" "credited e (br_balances r) (fst A) m'" by blast
  then have "applied_now c e r A (m', bt_insert e (account_settlement_digest c r) (snd A))"
    using assms(1) by (simp add: applied_now_def fresh_batch_def)
  then show ?thesis ..
qed

lemma fresh_members:
  assumes "fresh_batch e r ns R A" "bt_wf (br_balances r)" "R' = R \<or> epoch_settled Used ns R R'"
  shows "\<exists>used. finalize_members e R' {} {} False ns = Inr (set (bt_keys (br_balances r)), used) \<and> (used \<longrightarrow> R' \<noteq> R)"
    and "length ns = card (set (bt_keys (br_balances r)))"
proof -
  show "length ns = card (set (bt_keys (br_balances r)))"
    using assms(1) card_keys [OF assms(2)] by (simp add: fresh_batch_def)
  let ?used = "\<exists>n \<in> set ns. rr_state (the (bt_get R' n)) = Used"
  have live: "bt_get R n = Some x \<Longrightarrow> n \<in> set ns \<Longrightarrow> rr_epoch_id x = e \<and> rr_state x = Reserved" for n x
    using assms(1) by (force simp: fresh_batch_def)
  have new: "\<exists>x x'. bt_get R n = Some x \<and> bt_get R' n = Some x' \<and> rr_epoch_id x' = e \<and> rr_state x' \<noteq> Released \<and>
      rr_participant_id x' = rr_participant_id x \<and> (rr_state x' = Used \<longrightarrow> R' \<noteq> R)" if n: "n \<in> set ns" for n
  proof -
    from n assms(1) obtain x where x: "bt_get R n = Some x" "rr_epoch_id x = e" "rr_state x = Reserved"
      by (auto simp: fresh_batch_def)
    from assms(3) show ?thesis
    proof
      assume "epoch_settled Used ns R R'"
      with n x have "bt_get R' n = Some (x \<lparr> rr_state := Used \<rparr>)" by (simp add: epoch_settled_def settled_def)
      with x show ?thesis by (cases "R' = R") (auto simp: reservation_record.splits)
    qed (use x in auto)
  qed
  then have same: "rr_participant_id (the (bt_get R' n)) = rr_participant_id (the (bt_get R n))" if "n \<in> set ns" for n
    using that by fastforce
  then have "(\<lambda>n. rr_participant_id (the (bt_get R' n))) ` set ns = set (bt_keys (br_balances r))"
    using assms(1) by (simp add: fresh_batch_def cong: image_cong)
  moreover have "\<forall>n \<in> set ns. \<exists>x. bt_get R' n = Some x \<and> rr_epoch_id x = e \<and> rr_state x \<noteq> Released" using new by metis
  moreover have "distinct ns" using assms(1) by (simp add: fresh_batch_def)
  ultimately have "finalize_members e R' {} {} False ns = Inr (set (bt_keys (br_balances r)), ?used)"
    unfolding finalize_members_Inr by auto
  moreover have "?used \<longrightarrow> R' \<noteq> R" using new by fastforce
  ultimately show "\<exists>used. finalize_members e R' {} {} False ns = Inr (set (bt_keys (br_balances r)), used) \<and> (used \<longrightarrow> R' \<noteq> R)"
    by blast
qed

lemma epoch_settled_unique: "epoch_settled next ns R a \<Longrightarrow> epoch_settled next ns R b \<Longrightarrow> a = b"
  by (rule bt.entries_ext) (simp_all add: epoch_settled_def keyed_valid_def)

lemma epoch_settled_exists:
  assumes "keyed_valid entry_ok R" "\<forall>n \<in> set ns. bt_get R n \<noteq> None"
  shows "\<exists>RS. epoch_settled Used ns R RS"
  using settle_nonces_spec [OF _ assms, of Used False] unfolding epoch_settled_def by blast

section \<open>Properties\<close>

lemma live_insert:
  assumes "bt_wf m" "bt_get m n = None" "rr_state record = Reserved" "rr_participant_id record = p"
  shows "live_base p (bt_insert n record m) = live_base p m + unat (rr_base_atoms record)"
    and "live_quote p (bt_insert n record m) = live_quote p m + unat (rr_quote_atoms record)"
proof -
  have "mset (bt_insert n record m) = add_mset (n, record) (mset m)"
  proof -
    have "set (bt_insert n record m) = insert (n, record) (set m)"
      using assms(1,2) bt.entries_get [OF bt_wf_insert [OF assms(1)]] bt.entries_get [OF assms(1)]
      by (auto simp: bt_get_insert split: if_splits)
    moreover have "(n, record) \<notin> set m" using assms(1,2) by (simp add: bt.entries_get)
    ultimately show ?thesis
      using bt.distinct_entries [OF bt_wf_insert [OF assms(1)], of n "record"] bt.distinct_entries [OF assms(1)]
      by (metis finite_set mset_set.insert mset_set_set)
  qed
  then have "mset (live_reservations p (bt_insert n record m)) = add_mset record (mset (live_reservations p m))"
    using assms(3,4) by (simp add: live_reservations_def bt_values_def mset_filter)
  then have "mset (map f (live_reservations p (bt_insert n record m))) = add_mset (f record) (mset (map f (live_reservations p m)))"
    for f :: "reservation_record \<Rightarrow> nat" by simp
  then have "(\<Sum>r\<leftarrow>live_reservations p (bt_insert n record m). f r) = (\<Sum>r\<leftarrow>live_reservations p m. f r) + f record"
    for f :: "reservation_record \<Rightarrow> nat" by (metis add.commute sum_mset.add_mset sum_mset_sum_list)
  then show "live_base p (bt_insert n record m) = live_base p m + unat (rr_base_atoms record)"
    and "live_quote p (bt_insert n record m) = live_quote p m + unat (rr_quote_atoms record)"
    by (simp_all add: live_base_def live_quote_def)
qed

text \<open>
  C26. Reserving is exact at the width of the amounts. A reservation that succeeds, under any system-call
  outcomes, leaves a file in which the nonce carries the new record, every other reservation is as before,
  and all live reservations of the participant together fit in the balance given; and without failures it
  succeeds exactly when the nonce is new and the sums, taken without wrap-around, fit.
\<close>

theorem reserve_within_balance:
  assumes "reservation_new n e p b q = Inr record" "reservation_holds (hash256 c) (rj_file j) R"
    "length R < 2 ^ 32 - 1"
  shows "(reserve (hash256 c) io record available j = (j', Inr a) \<longrightarrow>
      (\<exists>R'. reservation_holds (hash256 c) (rj_file j') R' \<and>
        (\<forall>k. bt_get R' k = (if k = n then Some record else bt_get R k)) \<and> bt_get R n = None \<and>
        live_base p R' \<le> unat (pb_base_atoms available) \<and> live_quote p R' \<le> unat (pb_quote_atoms available)))
    \<and> (is_ok (snd (reserve (hash256 c) no_faults record available j)) \<longleftrightarrow>
        bt_get R n = None \<and> live_base p R + unat b \<le> unat (pb_base_atoms available) \<and>
        live_quote p R + unat q \<le> unat (pb_quote_atoms available))"
proof (intro conjI impI)
  have rec: "rr_nonce record = n" "rr_state record = Reserved" "rr_participant_id record = p"
    "rr_base_atoms record = b" "rr_quote_atoms record = q" and valid: "reservation_valid record"
    using assms(1) by (auto simp: reservation_new_def reservation_valid_def split: if_splits)
  have R: "keyed_valid entry_ok R" "bt_wf R" using rj.holds_valid [OF assms(2)] by (auto simp: keyed_valid_def)
  have reserved: "\<exists>R'. reservation_holds (hash256 c) (rj_file j2) R' \<and> reserve_op record available R = Inr R'"
    if "mutate (hash256 c) io2 (reserve_op record available) j = (j2, Inr ())" for io2 j2
  proof -
    from that have "\<exists>m. reservation_holds (hash256 c) (rj_file j) m \<and> reserve_op record available m = Inr (rj_records j2)
        \<and> reservation_holds (hash256 c) (rj_file j2) (rj_records j2)"
      by (rule mutate_ok) (rule reserve_op_valid [OF valid])
    then show ?thesis using rj.holds_unique [OF assms(2)] by blast
  qed
  {
    assume "reserve (hash256 c) io record available j = (j', Inr a)"
    then have "mutate (hash256 c) io (reserve_op record available) j = (j', Inr ())"
      using reserve_mutate by fastforce
    from reserved [OF this] obtain R' where "reservation_holds (hash256 c) (rj_file j') R'"
      "reserve_op record available R = Inr R'" by blast
    then show "\<exists>R'. reservation_holds (hash256 c) (rj_file j') R' \<and>
        (\<forall>k. bt_get R' k = (if k = n then Some record else bt_get R k)) \<and> bt_get R n = None \<and>
        live_base p R' \<le> unat (pb_base_atoms available) \<and> live_quote p R' \<le> unat (pb_quote_atoms available)"
      using live_insert [OF R(2) _ rec(2,3)] rec by (intro exI [of _ R']) (auto simp: reserve_op_Inr bt_get_insert)
  next
    obtain j2 a2 where run: "reserve (hash256 c) no_faults record available j = (j2, a2)" by fastforce
    then obtain q2 where q2: "mutate (hash256 c) no_faults (reserve_op record available) j = (j2, q2)"
      "q2 = Inr () \<longleftrightarrow> is_ok a2" using reserve_mutate by blast
    have "q2 = Inr ()" if "reserve_op record available R = Inr R'" for R'
    proof -
      from that have "length R' < 2 ^ 32"
        using assms(3) bt.length_insert [OF R(2), of n "record"] by (simp add: reserve_op_Inr rec)
      from mutate_no_faults [where f = "reserve_op record available", OF assms(2) that reserve_op_valid [OF valid R(1) that] this] q2(1)
      show ?thesis by auto
    qed
    then have "is_ok a2 \<longleftrightarrow> (\<exists>R'. reserve_op record available R = Inr R')"
      using q2 reserved by blast
    then show "is_ok (snd (reserve (hash256 c) no_faults record available j)) \<longleftrightarrow>
        bt_get R n = None \<and> live_base p R + unat b \<le> unat (pb_base_atoms available) \<and>
        live_quote p R + unat q \<le> unat (pb_quote_atoms available)"
      by (simp add: run reserve_op_Inr rec)
  }
qed


text \<open>
  C23. Settlement happens exactly once however often it is retried. Starting from a fresh batch, after any
  number of attempts with any failures the files are in one of three states: nothing done, the accounts
  credited, or the accounts credited and the reservations used; the credit is the one netting computed
  and is never repeated. From any of the three a retry without failures succeeds and ends in the last.
\<close>

theorem settlement_exactly_once:
  assumes "(settlement_attempt c e r ns)\<^sup>*\<^sup>* (rf, af) (rf', af')" "netted c e r" "e \<noteq> 0"
    "files_hold c (rf, af) R A" "fresh_batch e r ns R A" "length (snd A) < 2 ^ 32 - 2"
  shows "\<exists>RS AS. epoch_settled Used ns R RS \<and> applied_now c e r A AS \<and>
    (files_hold c (rf', af') R A \<or> files_hold c (rf', af') R AS \<or> files_hold c (rf', af') RS AS) \<and>
    (\<forall>j aj. rj_file j = rf' \<and> aj_file aj = af' \<longrightarrow>
      (\<exists>j' aj'. finalize_settlement c clear_io e r ns (j, aj) = ((j', aj'), Inr ()) \<and>
        files_hold c (rj_file j', aj_file aj') RS AS))"
proof -
  have s: "settleable c e r" using assms(2,3) by (rule netted_settleable)
  then have wf: "wf_result r" "bt_wf (br_balances r)" by (simp_all add: settleable_def wf_result_def)
  have R: "reservation_holds (hash256 c) rf R" and A: "accounts_hold c af A" using assms(4) by (simp_all add: files_hold_def)
  note valid = rj.holds_valid [OF R] aj.holds_valid [OF A]
  from fresh_applies [OF assms(5) s valid(2)] obtain AS where AS: "applied_now c e r A AS" ..
  then have "\<not> already_applied c e r A" by (simp add: already_applied_def applied_now_def)
  then have op: "settlement_op c e r A = Inr A' \<longleftrightarrow> A' = AS" for A'
    unfolding settlement_op_Inr [OF wf(1) valid(2)] using AS applied_now_unique by blast
  have "\<forall>n \<in> set ns. bt_get R n \<noteq> None" using assms(5) by (auto simp: fresh_batch_def)
  from epoch_settled_exists [OF valid(1) this] obtain RS where RS: "epoch_settled Used ns R RS" ..
  from settlement_attempts [OF assms(1) s R A] obtain R' A' where
    R': "reservation_holds (hash256 c) rf' R'" "R' = R \<or> R' = RS \<and> A' = AS"
    and A': "accounts_hold c af' A'" "A' = A \<or> A' = AS"
    unfolding op using epoch_settled_unique [OF RS] by blast
  have again: "settlement_op c e r AS = Inr AS" "already_applied c e r AS"
    using settlement_op_again [of r e c A AS] s valid(2) op by (auto simp: settleable_def)
  have op': "settlement_op c e r A' = Inr AS" using A'(2) op again(1) by blast
  have len: "length (snd A') < 2 ^ 32 - 1"
    using A'(2) assms(6) AS bt.length_insert [of "snd A" e "account_settlement_digest c r"] valid(2)
    by (auto simp: applied_now_def accounts_valid_def keyed_valid_def)
  have "R' = R \<or> epoch_settled Used ns R R'" using R'(2) RS by blast
  from fresh_members [OF assms(5) wf(2) this] obtain used where
    members: "finalize_members e R' {} {} False ns = Inr (set (bt_keys (br_balances r)), used)"
      "used \<longrightarrow> R' \<noteq> R" "length ns = card (set (bt_keys (br_balances r)))" by blast
  have used: "used \<Longrightarrow> already_applied c e r A'" using members(2) R'(2) again(2) by blast
  have "\<exists>j' aj'. finalize_settlement c clear_io e r ns (j, aj) = ((j', aj'), Inr ()) \<and>
        files_hold c (rj_file j', aj_file aj') RS AS" if "rj_file j = rf'" "aj_file aj = af'" for j aj
  proof -
    have holds: "reservation_holds (hash256 c) (rj_file j) R'" "accounts_hold c (aj_file aj) A'"
      using that R'(1) A'(1) by simp_all
    from finalize_settlement_no_faults [OF holds s op' len members(1,3) used] obtain j' aj' RT where
      run: "finalize_settlement c clear_io e r ns (j, aj) = ((j', aj'), Inr ())" "epoch_settled Used ns R' RT"
      "reservation_holds (hash256 c) (rj_file j') RT" "accounts_hold c (aj_file aj') AS" by blast
    have "RT = RS" using R'(2) run(2) RS epoch_settled_unique epoch_settled_again by blast
    with run show ?thesis by (auto simp: files_hold_def)
  qed
  moreover have "files_hold c (rf', af') R A \<or> files_hold c (rf', af') R AS \<or> files_hold c (rf', af') RS AS"
    using R' A' by (auto simp: files_hold_def)
  ultimately show ?thesis using RS AS by blast
qed

lemma finalize_ok:
  assumes "finalize_settlement c sio e r ns (j, aj) = ((j', aj'), Inr ())" "netted c e r"
    "files_hold c (rj_file j, aj_file aj) R A"
  shows "\<exists>R' A'. files_hold c (rj_file j', aj_file aj') R' A' \<and> bt_get (snd A') e = Some (account_settlement_digest c r) \<and>
    (\<forall>n \<in> set ns. \<exists>x. bt_get R n = Some x \<and> rr_epoch_id x = e \<and> rr_state x \<noteq> Released)"
proof -
  from assms(1) obtain q' where q': "flatten_reservation q' = Inr ()" and ep:
    "finalize_epoch (hash256 c) (sio_reservations sio) e ns (set (bt_keys (br_balances r)))
      (finalize_closure c sio e r) (j, aj) = ((j', aj'), q')"
    by (auto simp: finalize_settlement_def Let_def split: prod.splits)
  have R: "reservation_holds (hash256 c) (rj_file j) R" and A: "accounts_hold c (aj_file aj) A"
    using assms(3) by (simp_all add: files_hold_def)
  from ep R show ?thesis
  proof (cases rule: finalize_epoch_cases)
    case (applied used R')
    have "e \<noteq> 0"
    proof
      assume "e = 0"
      with applied(3) show False
        by (auto simp: finalize_closure_def apply_settlement_def split: if_splits prod.splits sum.splits)
    qed
    with assms(2) have s: "settleable c e r" by (rule netted_settleable)
    from finalize_closure_cases(2) [OF applied(3) s A] obtain A' where
      A': "accounts_hold c (aj_file aj') A'" "settlement_op c e r A = Inr A'" by blast
    have "already_applied c e r A'"
      using settlement_op_again(2) [OF _ _ _ aj.holds_valid [OF A] A'(2)] s by (simp add: settleable_def)
    moreover have "reservation_holds (hash256 c) (rj_file j') R'"
      using applied(5) q' by (auto simp: flatten_reservation_def)
    moreover have "\<forall>n \<in> set ns. \<exists>x. bt_get R n = Some x \<and> rr_epoch_id x = e \<and> rr_state x \<noteq> Released"
      using applied(1) by (simp add: finalize_members_Inr)
    ultimately show ?thesis using A'(1) by (auto simp: files_hold_def already_applied_def)
  qed (use q' in \<open>auto simp: flatten_reservation_def\<close>)
qed

text \<open>
  A settled epoch is never released: after a finalization that succeeded, and any steps of any
  processes after it, releasing reservations of that epoch fails whatever nonces it names.
\<close>

lemma settled_not_released:
  assumes "finalize_settlement c sio e r ns (j, aj) = ((j', aj'), Inr ())" "netted c e r"
    "files_hold c (rj_file j, aj_file aj) R A"
    "(custody_step c)\<^sup>*\<^sup>* (rj_file j', aj_file aj') (rj_file j2, aj_file aj2)"
  shows "snd (release_reservations c sio' e ns' (j2, aj2)) \<noteq> Inr ()"
proof
  assume ok: "snd (release_reservations c sio' e ns' (j2, aj2)) = Inr ()"
  from finalize_ok [OF assms(1-3)] obtain R1 A1 where
    h1: "files_hold c (rj_file j', aj_file aj') R1 A1" "bt_get (snd A1) e \<noteq> None" by force
  from custody_run_evolves [OF assms(4) h1(1)] obtain R2 A2 where
    h2: "files_hold c (rj_file j2, aj_file aj2) R2 A2" "accounts_evolve A1 A2" by blast
  from ok obtain j3 aj3 where rel: "release_reservations c sio' e ns' (j2, aj2) = ((j3, aj3), Inr ())"
    by (cases "release_reservations c sio' e ns' (j2, aj2)") auto
  have "bt_get (snd A2) e = None"
    using releasing_evolves [OF rel, of R2 A2] h2(1) by (auto simp: files_hold_def)
  with h1(2) h2(2) show False by (auto simp: accounts_evolve_def)
qed


definition accounts_base :: "accounts \<Rightarrow> int" where
  "accounts_base m = (\<Sum>e\<leftarrow>m. uint (pb_base_atoms (ac_balance (snd e))))"

definition accounts_quote :: "accounts \<Rightarrow> int" where
  "accounts_quote m = (\<Sum>e\<leftarrow>m. uint (pb_quote_atoms (ac_balance (snd e))))"

text \<open>The accounts of a batch's participants move by what the batch moved; the others stay.\<close>

lemma credited_sum:
  fixes f :: "pool_balance \<Rightarrow> int"
  assumes "applied_now c e r A AS" "wf_result r" "bt_wf (fst A)"
  shows "(\<Sum>x\<leftarrow>fst AS. f (ac_balance (snd x))) - (\<Sum>x\<leftarrow>fst A. f (ac_balance (snd x))) =
    (\<Sum>x\<leftarrow>br_balances r. f (snd x)) - (\<Sum>x\<leftarrow>br_before_balances r. f (snd x))"
proof -
  let ?D = "dom (bt_get (fst A))" and ?B = "dom (bt_get (br_balances r))"
  let ?old = "\<lambda>p. f (ac_balance (the (bt_get (fst A) p)))" and ?new = "\<lambda>p. f (ac_balance (the (bt_get (fst AS) p)))"
  have wf: "bt_wf (br_balances r)" "bt_wf (br_before_balances r)" using assms(2) by (simp_all add: wf_result_def)
  have same: "bt_get (br_balances r) p = None \<longleftrightarrow> bt_get (br_before_balances r) p = None" for p
    using assms(2) by (simp add: wf_result_def)
  have before: "bt_get (br_before_balances r) p = Some b \<Longrightarrow> \<exists>a. bt_get (fst A) p = Some a \<and> ac_balance a = b" for p b
    using assms(1) by (auto simp: applied_now_def)
  have after: "bt_get (fst AS) p = (case bt_get (br_balances r) p of None \<Rightarrow> bt_get (fst A) p
      | Some b \<Rightarrow> map_option (\<lambda>r. r \<lparr> ac_balance := b, ac_last_epoch := e \<rparr>) (bt_get (fst A) p))" for p
    using assms(1) by (simp add: applied_now_def credited_def)
  have dom: "dom (bt_get (fst AS)) = ?D" by (auto simp: after split: option.splits)
  have B: "dom (bt_get (br_before_balances r)) = ?B" using same by (simp add: set_eq_iff domIff del: not_None_eq)
  have sub: "?B \<subseteq> ?D" unfolding B [symmetric] using before by blast
  have fin: "finite ?D" by (rule bt.finite_dom [OF assms(3)])
  have "(\<Sum>x\<leftarrow>fst AS. f (ac_balance (snd x))) - (\<Sum>x\<leftarrow>fst A. f (ac_balance (snd x))) = (\<Sum>p\<in>?D. ?new p - ?old p)"
    using assms(1) bt.sum_entries [of "fst AS" "\<lambda>x. f (ac_balance (snd x))"]
      bt.sum_entries [OF assms(3), of "\<lambda>x. f (ac_balance (snd x))"]
    by (simp add: applied_now_def dom sum_subtractf)
  also have "\<dots> = (\<Sum>p\<in>?B. ?new p - ?old p)"
    by (rule sum.mono_neutral_right [OF fin sub]) (auto simp: after domIff)
  also have "\<dots> = (\<Sum>p\<in>?B. f (the (bt_get (br_balances r) p)) - f (the (bt_get (br_before_balances r) p)))"
  proof (rule sum.cong [OF refl])
    fix p assume "p \<in> ?B"
    then obtain b b0 where b: "bt_get (br_balances r) p = Some b" "bt_get (br_before_balances r) p = Some b0"
      using B by blast
    with before [OF b(2)] show "?new p - ?old p = f (the (bt_get (br_balances r) p)) - f (the (bt_get (br_before_balances r) p))"
      by (auto simp: after)
  qed
  also have "\<dots> = (\<Sum>x\<leftarrow>br_balances r. f (snd x)) - (\<Sum>x\<leftarrow>br_before_balances r. f (snd x))"
    using bt.sum_entries [OF wf(1), of "\<lambda>x. f (snd x)"] bt.sum_entries [OF wf(2), of "\<lambda>x. f (snd x)"]
    by (simp add: B sum_subtractf)
  finally show ?thesis .
qed

lemma conserved_totals:
  assumes "net_batch config before orders = Inr r" "bt_wf before" "length before \<le> 2 ^ 63" "wf_result r"
  shows "base_total (br_balances r) = base_total before + vd_base_atoms (br_vault_delta r)"
    and "quote_total (br_balances r) = quote_total before + vd_quote_atoms (br_vault_delta r)"
proof -
  have r: "conserves r before" "br_before_balances r = before" using net_batch_conserves [OF assms(1)] by simp_all
  have "dom (bt_get (br_balances r)) = dom (bt_get before)" using assms(4) r(2) by (simp add: wf_result_def set_eq_iff domIff del: not_None_eq)
  then have "length (br_balances r) = length before"
    using bt.length_entries [OF assms(2)] bt.length_entries [of "br_balances r"] assms(4) by (simp add: wf_result_def)
  then show "base_total (br_balances r) = base_total before + vd_base_atoms (br_vault_delta r)"
    and "quote_total (br_balances r) = quote_total before + vd_quote_atoms (br_vault_delta r)"
    using r(1) assms(3) by (auto simp: conserves_def totals_eq i128_of_def split: if_splits)
qed

text \<open>
  Settlement conserves the pool. When \<open>apply_settlement\<close> succeeds for a netted batch, either the epoch
  had been applied with this result and the accounts are as they were, or the sums over all accounts
  have moved by exactly the batch's vault movement, in both assets.
\<close>

lemma settlement_conserves:
  assumes "apply_settlement c io e r j = (j', Inr ())" "accounts_hold c (aj_file j) A"
    "account_settlement_digest c r \<noteq> 0" "e \<noteq> 0" "batch_config_new lot price = Inr config"
    "bt_wf before" "length before \<le> 2 ^ 63" "net_batch config before orders = Inr r"
  shows "\<exists>A'. accounts_hold c (aj_file j') A' \<and>
    (A' = A \<and> bt_get (snd A) e = Some (account_settlement_digest c r) \<or>
     bt_get (snd A) e = None \<and>
     accounts_base (fst A') = accounts_base (fst A) + vd_base_atoms (br_vault_delta r) \<and>
     accounts_quote (fst A') = accounts_quote (fst A) + vd_quote_atoms (br_vault_delta r))"
proof -
  have wf: "wf_result r" using net_batch_wf assms(5-8) by blast
  then have s: "settleable c e r" using assms(3,4) by (simp add: settleable_def)
  have before: "br_before_balances r = before" using net_batch_conserves [OF assms(8)] by simp
  have valid: "accounts_valid c A" by (rule aj.holds_valid [OF assms(2)])
  then have A: "bt_wf (fst A)" by (simp add: accounts_valid_def keyed_valid_def)
  from apply_settlement_cases(2) [OF assms(1) s assms(2)] obtain A' where
    A': "accounts_hold c (aj_file j') A'" "settlement_op c e r A = Inr A'" by blast
  from A'(2) consider "already_applied c e r A" "A' = A" | "applied_now c e r A A'"
    unfolding settlement_op_Inr [OF wf valid] by blast
  then show ?thesis
  proof cases
    case 1
    with A'(1) show ?thesis by (auto simp: already_applied_def)
  next
    case 2
    note sums = credited_sum [OF 2 wf A, of "\<lambda>b. uint (pb_base_atoms b)"] credited_sum [OF 2 wf A, of "\<lambda>b. uint (pb_quote_atoms b)"]
    from sums conserved_totals [OF assms(8,6,7) wf] 2 A'(1) show ?thesis
      by (auto simp: before accounts_base_def accounts_quote_def base_total_def quote_total_def applied_now_def)
  qed
qed

section \<open>A settlement and a release that succeed\<close>

lemma fresh_finalizes:
  assumes "netted c e r" "e \<noteq> 0" "files_hold c (rj_file j, aj_file aj) R A" "fresh_batch e r ns R A"
    "length (snd A) < 2 ^ 32 - 1"
  shows "\<exists>j' aj'. finalize_settlement c clear_io e r ns (j, aj) = ((j', aj'), Inr ())"
proof -
  have s: "settleable c e r" using assms(1,2) by (rule netted_settleable)
  then have wf: "wf_result r" "bt_wf (br_balances r)" by (simp_all add: settleable_def wf_result_def)
  have R: "reservation_holds (hash256 c) (rj_file j) R" and A: "accounts_hold c (aj_file aj) A"
    using assms(3) by (simp_all add: files_hold_def)
  from fresh_applies [OF assms(4) s aj.holds_valid [OF A]] obtain AS where "applied_now c e r A AS" ..
  then have op: "settlement_op c e r A = Inr AS" using settlement_op_Inr [OF wf(1) aj.holds_valid [OF A]] by blast
  from fresh_members [OF assms(4) wf(2), of R] obtain used where
    "finalize_members e R {} {} False ns = Inr (set (bt_keys (br_balances r)), used)" "\<not> used"
    "length ns = card (set (bt_keys (br_balances r)))" by blast
  from finalize_settlement_no_faults [OF R A s op assms(5) this(1,3)] this(2) show ?thesis by blast
qed

lemma fresh_releases:
  assumes "files_hold c (rj_file j, aj_file aj) R A" "bt_get (snd A) e = None" "ns \<noteq> []" "distinct ns"
    "\<forall>n \<in> set ns. \<exists>x. bt_get R n = Some x \<and> rr_epoch_id x = e \<and> rr_state x \<noteq> Used"
  shows "\<exists>j' aj'. release_reservations c clear_io e ns (j, aj) = ((j', aj'), Inr ())"
proof -
  obtain m es where A: "A = (m, es)" by (cases A)
  have R: "reservation_holds (hash256 c) (rj_file j) R" and holds: "accounts_hold c (aj_file aj) (m, es)"
    using assms(1) by (simp_all add: files_hold_def A)
  have load: "load_records (hash256 c) no_faults (rj_file j) = Inr R"
    using rj.load_no_faults [OF R] by (simp add: load_records_def)
  have check: "\<exists>aj'. release_closure c clear_io e aj = (aj', Inr ())"
    using assms(2) reload_no_faults [OF holds] by (simp add: release_closure_def has_applied_epoch_def clear_io_def A)
  have "\<forall>n \<in> set ns. bt_get R n \<noteq> None" using assms(5) by auto
  from settle_and_persist_no_faults [OF R _ this, of Released] obtain j' R' where
    "settle_and_persist (hash256 c) no_faults Released ns R j = (j', Inr (Inr ()) :: journal_error + account_error + unit)"
    by auto
  moreover have "release_check e R {} ns = Inr ()" using assms(4,5) by (simp add: release_check_Inr)
  ultimately show ?thesis using load check assms(3)
    by (auto simp: release_reservations_def release_epoch_checked_def acquire_journal_lock_def clear_io_def
        flatten_reservation_def)
qed

definition custody_suite :: suite where
  "custody_suite = demo_suite \<lparr> hash256 := \<lambda>_. 1 \<rparr>"

definition demo_result :: batch_result where
  "demo_result = projr (net_batch demo_config demo_balances demo_orders)"

definition demo_reservation :: "bytes32 \<Rightarrow> bytes32 \<Rightarrow> reservation_record" where
  "demo_reservation n p = \<lparr> rr_nonce = n, rr_epoch_id = 7, rr_participant_id = p, rr_base_atoms = 10,
     rr_quote_atoms = 10, rr_state = Reserved \<rparr>"

definition demo_reservations :: reservations where
  "demo_reservations = [(11, demo_reservation 11 1), (12, demo_reservation 12 2), (13, demo_reservation 13 3)]"

definition demo_account :: "bytes32 \<Rightarrow> account_record" where
  "demo_account p = \<lparr> ac_participant_id = p, ac_trading_key = 40 + p,
     ac_balance = \<lparr> pb_base_atoms = 100, pb_quote_atoms = 100 \<rparr>, ac_last_epoch = 0 \<rparr>"

definition demo_accounts :: account_state where
  "demo_accounts = ([(1, demo_account 1), (2, demo_account 2), (3, demo_account 3)], [])"

definition demo_rj :: reservation_journal where
  "demo_rj = \<lparr> rj_file = Some (keyed_image (hash256 custody_suite) HEADER (\<lambda>(_, record). reservation_encode record) 3
     demo_reservations), rj_records = [] \<rparr>"

definition demo_aj :: account_journal where
  "demo_aj = \<lparr> aj_file = Some (accounts_image custody_suite 3 0 demo_accounts), aj_records = [], aj_applied_epochs = [] \<rparr>"

lemma demo_files: "files_hold custody_suite (rj_file demo_rj, aj_file demo_aj) demo_reservations demo_accounts"
proof -
  have "keyed_valid entry_ok demo_reservations"
    by (simp add: keyed_valid_def bt_wf_def demo_reservations_def demo_reservation_def entry_ok_def reservation_valid_def)
  then have "reservation_holds (hash256 custody_suite) (rj_file demo_rj) demo_reservations"
    unfolding keyed_holds_def demo_rj_def
    by (auto intro!: rj.decode_image simp: u32_try_from_def demo_reservations_def)
  moreover have "accounts_valid custody_suite demo_accounts"
    by (simp add: accounts_valid_def keyed_valid_def bt_wf_def demo_accounts_def demo_account_def account_ok_def
        custody_suite_def demo_suite_def)
  then have "accounts_hold custody_suite (aj_file demo_aj) demo_accounts"
    unfolding accounts_hold_def demo_aj_def
    by (auto intro!: decode_accounts_image simp: u32_try_from_def demo_accounts_def)
  ultimately show ?thesis by (simp add: files_hold_def)
qed

lemma demo_result: "net_batch demo_config demo_balances demo_orders = Inr demo_result"
  using demo_batch_ok unfolding demo_result_def is_ok_iff by force

lemma demo_config_new: "batch_config_new 10 5 = Inr demo_config"
  by (simp add: batch_config_new_def demo_config_def)

lemma demo_netted: "netted custody_suite e demo_result"
  unfolding netted_def using demo_result demo_config_new demo_wf
  by (force simp: account_settlement_digest_def custody_suite_def)

lemma demo_fresh: "fresh_batch 7 demo_result [11, 12, 13] demo_reservations demo_accounts"
proof -
  have wf: "wf_result demo_result" using net_batch_wf [OF demo_result demo_wf(1,2) demo_config_new] .
  have before: "br_before_balances demo_result = demo_balances" using net_batch_conserves [OF demo_result] by simp
  have get: "bt_get (br_balances demo_result) p = None \<longleftrightarrow> p \<noteq> 1 \<and> p \<noteq> 2 \<and> p \<noteq> 3" for p
    using wf by (simp add: wf_result_def before demo_balances_def bt_get_def)
  then have keys: "set (bt_keys (br_balances demo_result)) = {1, 2, 3}"
    using wf key_in_keys [of "br_balances demo_result"] unfolding wf_result_def by blast
  moreover have "length (br_balances demo_result) = 3"
    using card_keys [of "br_balances demo_result"] wf keys by (simp add: wf_result_def)
  ultimately show ?thesis
    by (auto simp: fresh_batch_def before demo_balances_def demo_reservations_def demo_reservation_def demo_accounts_def
        demo_account_def bt_get_def split: if_splits)
qed

section \<open>Witnesses\<close>

theorem reserve_within_balance_witness:
  "is_ok (snd (reserve (hash256 custody_suite) no_faults (demo_reservation 14 1) \<lparr> pb_base_atoms = 20, pb_quote_atoms = 20 \<rparr> demo_rj)) \<and>
   \<not> is_ok (snd (reserve (hash256 custody_suite) no_faults (demo_reservation 14 1) \<lparr> pb_base_atoms = 20, pb_quote_atoms = 19 \<rparr> demo_rj))"
proof -
  have new: "reservation_new 14 7 1 10 10 = Inr (demo_reservation 14 1)"
    by (simp add: reservation_new_def demo_reservation_def)
  have holds: "reservation_holds (hash256 custody_suite) (rj_file demo_rj) demo_reservations"
    using demo_files by (simp add: files_hold_def)
  have len: "length demo_reservations < 2 ^ 32 - 1" by (simp add: demo_reservations_def)
  have live: "live_base 1 demo_reservations = 10" "live_quote 1 demo_reservations = 10" "bt_get demo_reservations 14 = None"
    by (simp_all add: live_base_def live_quote_def live_reservations_def bt_values_def bt_get_def
        demo_reservations_def demo_reservation_def)
  show ?thesis
    using reserve_within_balance [OF new holds len, of no_faults "\<lparr> pb_base_atoms = 20, pb_quote_atoms = 20 \<rparr>"]
      reserve_within_balance [OF new holds len, of no_faults "\<lparr> pb_base_atoms = 20, pb_quote_atoms = 19 \<rparr>"] live
    by simp
qed


lemma demo_finalized:
  "\<exists>j aj. finalize_settlement custody_suite clear_io 7 demo_result [11, 12, 13] (demo_rj, demo_aj) = ((j, aj), Inr ())"
  by (rule fresh_finalizes [OF demo_netted _ demo_files demo_fresh]) (simp_all add: demo_accounts_def)

theorem settlement_exactly_once_witness:
  "\<exists>RS AS. epoch_settled Used [11, 12, 13] demo_reservations RS \<and> applied_now custody_suite 7 demo_result demo_accounts AS \<and>
     (\<exists>j aj. finalize_settlement custody_suite clear_io 7 demo_result [11, 12, 13] (demo_rj, demo_aj) = ((j, aj), Inr ()) \<and>
       files_hold custody_suite (rj_file j, aj_file aj) RS AS)"
  using settlement_exactly_once [OF rtranclp.rtrancl_refl demo_netted _ demo_files demo_fresh]
  by (force simp: demo_accounts_def)


end
