(* ===== verification/Lock_Package.thy ===== *)
theory Lock_Package
  imports Admission Commitment State
begin

text \<open>
  \<open>kageb-host/src/lock.rs\<close>, first part: balance records, the operator's signed snapshot of them, and
  the lock package a keyper validates before it signs. The package commits to its members and balances
  by two set roots; its lock payload is the message that the keypers sign and the program checks.
\<close>

section \<open>Constants and errors\<close>

definition SNAPSHOT_DOMAIN :: "byte list" where
  "SNAPSHOT_DOMAIN = ascii ''KAGEB_BALANCE_SNAPSHOT_V1'' @ [0]"

definition MAX_BATCH_MEMBERS :: nat where
  "MAX_BATCH_MEMBERS = 64"

definition MAX_EPOCH_PUBLIC_KEYS_LEN :: nat where
  "MAX_EPOCH_PUBLIC_KEYS_LEN = 1024"

datatype lock_validation_error =
    InvalidBalance
  | InvalidSnapshot
  | InvalidConfiguration
  | InvalidSubmission
  | DuplicateParticipant
  | DuplicateAuthorization
  | DuplicateReceipt
  | MemberCountMismatch
  | MemberLimitExceeded
  | CrowdBelowMinimum
  | MemberRootMismatch
  | DeadlinePassed
  | WrongKeyper
  | ConflictingLock
  | CorruptJournal
  | JournalBusy
  | Io error_kind
  | Rpc
  | MissingAccount
  | InvalidOnchainEpoch
  | InvalidOnchainLock

section \<open>Balance records\<close>

record balance_record =
  bl_participant_id :: bytes32
  bl_base_atoms :: u64
  bl_quote_atoms :: u64
  bl_reserved_base_atoms :: u64
  bl_reserved_quote_atoms :: u64

definition balance_record_new ::
    "bytes32 \<Rightarrow> u64 \<Rightarrow> u64 \<Rightarrow> u64 \<Rightarrow> u64 \<Rightarrow> lock_validation_error + balance_record" where
  "balance_record_new participant_id base_atoms quote_atoms reserved_base_atoms reserved_quote_atoms =
     (if participant_id = 0
         \<or> reserved_base_atoms = 0
         \<or> reserved_quote_atoms = 0
         \<or> base_atoms < reserved_base_atoms
         \<or> quote_atoms < reserved_quote_atoms
      then Inl InvalidBalance
      else Inr
        \<lparr> bl_participant_id = participant_id, bl_base_atoms = base_atoms, bl_quote_atoms = quote_atoms,
          bl_reserved_base_atoms = reserved_base_atoms, bl_reserved_quote_atoms = reserved_quote_atoms \<rparr>)"

definition balance_record_encode :: "balance_record \<Rightarrow> byte list" where
  "balance_record_encode b =
     (let bytes = replicate 64 0;
          bytes = put 0 (arr_bytes (bl_participant_id b)) bytes;
          bytes = put 32 (to_le_bytes (bl_base_atoms b)) bytes;
          bytes = put 40 (to_le_bytes (bl_quote_atoms b)) bytes;
          bytes = put 48 (to_le_bytes (bl_reserved_base_atoms b)) bytes;
          bytes = put 56 (to_le_bytes (bl_reserved_quote_atoms b)) bytes
      in bytes)"

definition balance_record_decode :: "byte list \<Rightarrow> lock_validation_error + balance_record" where
  "balance_record_decode bytes =
     (if length bytes \<noteq> 64 then Inl InvalidBalance
      else balance_record_new (arr_of (slice 0 32 bytes)) (from_le_bytes (slice 32 40 bytes))
        (from_le_bytes (slice 40 48 bytes)) (from_le_bytes (slice 48 56 bytes))
        (from_le_bytes (slice 56 64 bytes)))"

definition balance_root :: "suite \<Rightarrow> balance_record list \<Rightarrow> lock_validation_error + bytes32" where
  "balance_root c records =
     map_err (\<lambda>_. InvalidBalance) (content_root (hash256 c) BalanceSet (map balance_record_encode records))"

section \<open>Snapshots\<close>

definition snapshot_message :: "bytes32 \<Rightarrow> u32 \<Rightarrow> bytes32 \<Rightarrow> byte list" where
  "snapshot_message epoch_id record_count root =
     SNAPSHOT_DOMAIN @ arr_bytes epoch_id @ to_le_bytes record_count @ arr_bytes root"

record balance_snapshot =
  bs_epoch_id :: bytes32
  bs_record_count :: u32
  bs_balance_root :: bytes32
  bs_operator_key :: bytes32
  bs_signature :: bytes64

definition snapshot_sign ::
    "suite \<Rightarrow> bytes32 \<Rightarrow> balance_record list \<Rightarrow> signing_key \<Rightarrow> lock_validation_error + balance_snapshot" where
  "snapshot_sign c epoch_id records operator =
     try_bind (ok_or (u32_try_from (length records)) InvalidSnapshot) (\<lambda>record_count.
     try_bind (balance_root c records) (\<lambda>root.
     Inr \<lparr> bs_epoch_id = epoch_id, bs_record_count = record_count, bs_balance_root = root,
           bs_operator_key = verifying_key c operator,
           bs_signature = sign c operator (snapshot_message epoch_id record_count root) \<rparr>))"

text \<open>The root is computed, and may fail, only when the comparisons before it agree.\<close>

definition snapshot_verify ::
    "suite \<Rightarrow> balance_snapshot \<Rightarrow> bytes32 \<Rightarrow> balance_record list \<Rightarrow> bytes32 \<Rightarrow> lock_validation_error + unit" where
  "snapshot_verify c s epoch_id records operator_key =
     try_bind (ok_or (u32_try_from (length records)) InvalidSnapshot) (\<lambda>count.
     if bs_epoch_id s \<noteq> epoch_id
        \<or> bs_record_count s \<noteq> count
        \<or> bs_operator_key s \<noteq> operator_key
     then Inl InvalidSnapshot
     else
     try_bind (balance_root c records) (\<lambda>root.
     if bs_balance_root s \<noteq> root then Inl InvalidSnapshot
     else if \<not> key_from_bytes c (bs_operator_key s) then Inl InvalidSnapshot
     else if verify c (bs_operator_key s)
       (snapshot_message (bs_epoch_id s) (bs_record_count s) (bs_balance_root s)) (bs_signature s)
     then Inr ()
     else Inl InvalidSnapshot))"

definition snapshot_encode :: "balance_snapshot \<Rightarrow> byte list" where
  "snapshot_encode s =
     (let bytes = replicate 164 0;
          bytes = put 0 (arr_bytes (bs_epoch_id s)) bytes;
          bytes = put 32 (to_le_bytes (bs_record_count s)) bytes;
          bytes = put 36 (arr_bytes (bs_balance_root s)) bytes;
          bytes = put 68 (arr_bytes (bs_operator_key s)) bytes;
          bytes = put 100 (arr_bytes (bs_signature s)) bytes
      in bytes)"

definition snapshot_decode :: "byte list \<Rightarrow> lock_validation_error + balance_snapshot" where
  "snapshot_decode bytes =
     (if length bytes \<noteq> 164 then Inl InvalidSnapshot
      else Inr
        \<lparr> bs_epoch_id = arr_of (slice 0 32 bytes),
          bs_record_count = from_le_bytes (slice 32 36 bytes),
          bs_balance_root = arr_of (slice 36 68 bytes),
          bs_operator_key = arr_of (slice 68 100 bytes),
          bs_signature = arr_of (slice 100 164 bytes) \<rparr>)"

section \<open>The package\<close>

definition member_root ::
    "suite \<Rightarrow> public_key_set \<Rightarrow> encrypted_submission list \<Rightarrow> lock_validation_error + bytes32" where
  "member_root c public_keys submissions =
     try_bind (map_err (\<lambda>_. InvalidConfiguration) (keys_commitment_leaf c public_keys)) (\<lambda>leaf.
     map_err (\<lambda>_. InvalidSubmission)
       (content_root (hash256 c) MemberSet (leaf # map (commitment_bytes c) submissions)))"

record lock_package =
  pk_epoch_account :: pubkey
  pk_configuration :: epoch_configuration
  pk_epoch_public_keys :: public_key_set
  pk_submissions :: "encrypted_submission list"
  pk_balances :: "balance_record list"
  pk_balance_snapshot :: balance_snapshot
  pk_pre_balance_root :: bytes32
  pk_member_root :: bytes32
  pk_member_count :: u32
  pk_lock_nonce :: bytes32

definition lock_package_new ::
    "suite \<Rightarrow> pubkey \<Rightarrow> epoch_configuration \<Rightarrow> public_key_set \<Rightarrow> encrypted_submission list \<Rightarrow>
     balance_record list \<Rightarrow> balance_snapshot \<Rightarrow> bytes32 \<Rightarrow> lock_validation_error + lock_package" where
  "lock_package_new c epoch_account configuration epoch_public_keys submissions balances snapshot lock_nonce =
     (if length submissions > MAX_BATCH_MEMBERS \<or> length balances > MAX_BATCH_MEMBERS
      then Inl MemberLimitExceeded
      else
      try_bind (ok_or (u32_try_from (length submissions)) MemberCountMismatch) (\<lambda>member_count.
      try_bind (member_root c epoch_public_keys submissions) (\<lambda>members.
      try_bind (balance_root c balances) (\<lambda>pre_balance_root.
      Inr \<lparr> pk_epoch_account = epoch_account, pk_configuration = configuration,
            pk_epoch_public_keys = epoch_public_keys, pk_submissions = submissions, pk_balances = balances,
            pk_balance_snapshot = snapshot, pk_pre_balance_root = pre_balance_root,
            pk_member_root = members, pk_member_count = member_count, pk_lock_nonce = lock_nonce \<rparr>))))"

definition package_lock_payload :: "suite \<Rightarrow> lock_package \<Rightarrow> lock_payload" where
  "package_lock_payload c p =
     \<lparr> lp_epoch_account = pk_epoch_account p,
       lp_configuration_hash = configuration_digest (hash256 c) (pk_configuration p),
       lp_pre_balance_root = pk_pre_balance_root p,
       lp_member_root = pk_member_root p,
       lp_member_count = pk_member_count p,
       lp_lock_deadline = ec_lock_deadline (pk_configuration p),
       lp_lock_nonce = pk_lock_nonce p \<rparr>"

section \<open>Validation\<close>

text \<open>\<open>ConfirmedOpenEpoch\<close>: what a confirmed read of an open epoch found.\<close>

record confirmed_open_epoch =
  oe_epoch_account :: pubkey
  oe_configuration :: epoch_configuration
  oe_policy :: admission_policy
  oe_current_timestamp :: i64
  oe_confirmation_slot :: u64

definition configuration_refused :: "epoch_configuration \<Rightarrow> bool" where
  "configuration_refused config \<longleftrightarrow>
     ec_minimum_count config < 4
     \<or> ec_lock_threshold config \<noteq> 2
     \<or> ec_settlement_threshold config \<noteq> 2
     \<or> ec_pool config = 0
     \<or> ec_base_mint config = 0
     \<or> ec_quote_mint config = 0
     \<or> ec_base_mint config = ec_quote_mint config
     \<or> list_ex (\<lambda>keyper. keyper = 0) (keyper_list (ec_keypers config))
     \<or> keyper_list (ec_keypers config) ! 0 = keyper_list (ec_keypers config) ! 1
     \<or> keyper_list (ec_keypers config) ! 0 = keyper_list (ec_keypers config) ! 2
     \<or> keyper_list (ec_keypers config) ! 1 = keyper_list (ec_keypers config) ! 2
     \<or> ec_abort_deadline config \<le>s ec_lock_deadline config"

fun validate_submissions ::
    "suite \<Rightarrow> admission_policy \<Rightarrow> bytes32 set \<Rightarrow> bytes32 set \<Rightarrow> bytes32 set \<Rightarrow> encrypted_submission list \<Rightarrow>
     lock_validation_error + unit" where
  "validate_submissions c policy participants nonces receipts [] = Inr ()"
| "validate_submissions c policy participants nonces receipts (submission # submissions) =
     try_bind (map_err (\<lambda>_. InvalidSubmission) (verify_admission c submission policy)) (\<lambda>_.
     let a = es_authorization submission in
     if fa_participant_id a \<in> participants then Inl DuplicateParticipant
     else if fa_nonce a \<in> nonces then Inl DuplicateAuthorization
     else if es_receipt submission \<in> receipts then Inl DuplicateReceipt
     else validate_submissions c policy (insert (fa_participant_id a) participants)
       (insert (fa_nonce a) nonces) (insert (es_receipt submission) receipts) submissions)"

definition collect_balances :: "balance_record list \<Rightarrow> (bytes32, balance_record) btree" where
  "collect_balances records = fold (\<lambda>b m. bt_insert (bl_participant_id b) b m) records []"

definition check_reserved ::
    "(bytes32, balance_record) btree \<Rightarrow> encrypted_submission \<Rightarrow> lock_validation_error + unit" where
  "check_reserved balances submission =
     try_bind (ok_or (bt_get balances (fa_participant_id (es_authorization submission))) InvalidBalance) (\<lambda>balance.
     if bl_reserved_base_atoms balance \<noteq> fa_base_atoms (es_authorization submission)
        \<or> bl_reserved_quote_atoms balance \<noteq> fa_quote_atoms (es_authorization submission)
        \<or> bl_base_atoms balance < bl_reserved_base_atoms balance
        \<or> bl_quote_atoms balance < bl_reserved_quote_atoms balance
     then Inl InvalidBalance
     else Inr ())"

definition package_validate ::
    "suite \<Rightarrow> lock_package \<Rightarrow> confirmed_open_epoch \<Rightarrow> lock_validation_error + bytes32" where
  "package_validate c p confirmed =
     (if pk_epoch_account p \<noteq> oe_epoch_account confirmed
         \<or> pk_configuration p \<noteq> oe_configuration confirmed
         \<or> configuration_refused (pk_configuration p)
         \<or> pk_lock_nonce p = 0
      then Inl InvalidConfiguration
      else if ec_lock_deadline (pk_configuration p) \<le>s oe_current_timestamp confirmed
      then Inl DeadlinePassed
      else if length (pk_submissions p) > MAX_BATCH_MEMBERS \<or> length (pk_balances p) > MAX_BATCH_MEMBERS
      then Inl MemberLimitExceeded
      else if unat (pk_member_count p) \<noteq> length (pk_submissions p)
      then Inl MemberCountMismatch
      else if pk_member_count p < ec_minimum_count (pk_configuration p)
      then Inl CrowdBelowMinimum
      else
      try_bind (validate_submissions c (oe_policy confirmed) {} {} {} (pk_submissions p)) (\<lambda>_.
      try_bind (member_root c (pk_epoch_public_keys p) (pk_submissions p)) (\<lambda>members.
      if members \<noteq> pk_member_root p then Inl MemberRootMismatch
      else
      try_bind (snapshot_verify c (pk_balance_snapshot p) (ec_epoch_id (pk_configuration p)) (pk_balances p)
        (ap_operator_key (oe_policy confirmed))) (\<lambda>_.
      try_bind (balance_root c (pk_balances p)) (\<lambda>root.
      if root \<noteq> pk_pre_balance_root p then Inl InvalidBalance
      else if length (pk_balances p) \<noteq> length (pk_submissions p) then Inl InvalidBalance
      else
        let balances = collect_balances (pk_balances p) in
        if length balances \<noteq> length (pk_balances p) then Inl InvalidBalance
        else
        try_bind (try_all (check_reserved balances) (pk_submissions p)) (\<lambda>_.
        Inr (lock_payload_digest (hash256 c) (package_lock_payload c p))))))))"

text \<open>\<open>ConfirmedLock\<close>: what a confirmed read of a locked epoch found.\<close>

record confirmed_lock =
  cl_epoch_account :: pubkey
  cl_state :: epoch_state
  cl_pool :: "pool_state option"
  cl_confirmation_slot :: u64

definition epoch_configuration_of :: "epoch_state \<Rightarrow> pool_state \<Rightarrow> epoch_configuration" where
  "epoch_configuration_of state pool =
     \<lparr> ec_pool = es_pool state,
       ec_epoch_id = es_epoch_id state,
       ec_base_mint = ps_base_mint pool,
       ec_quote_mint = ps_quote_mint pool,
       ec_base_lot_atoms = ps_base_lot_atoms pool,
       ec_quote_atoms_per_lot = es_quote_atoms_per_lot state,
       ec_minimum_count = es_minimum_count state,
       ec_lock_threshold = ps_lock_threshold pool,
       ec_settlement_threshold = ps_settlement_threshold pool,
       ec_keypers = ps_keypers pool,
       ec_lock_deadline = es_lock_deadline state,
       ec_abort_deadline = es_abort_deadline state \<rparr>"

definition saturating_sub_i64 :: "i64 \<Rightarrow> i64 \<Rightarrow> i64" where
  "saturating_sub_i64 x y =
     (let d = sint x - sint y
      in if d < - (2 ^ 63) then word_of_int (- (2 ^ 63))
         else if 2 ^ 63 \<le> d then word_of_int (2 ^ 63 - 1)
         else word_of_int d)"

definition package_validate_locked ::
    "suite \<Rightarrow> lock_package \<Rightarrow> confirmed_lock \<Rightarrow> lock_validation_error + bytes32" where
  "package_validate_locked c p confirmed =
     try_bind (ok_or (cl_pool confirmed) InvalidOnchainLock) (\<lambda>pool.
     let state = cl_state confirmed;
         configuration = epoch_configuration_of state pool
     in
     if \<not> key_from_bytes c (ps_operator pool) then Inl InvalidOnchainLock
     else
     try_bind (map_err (\<lambda>_. InvalidOnchainLock)
       (admission_policy_new (ec_epoch_id configuration) (ps_operator pool)
         (unat (ec_minimum_count configuration)) (ec_base_lot_atoms configuration)
         (ec_quote_atoms_per_lot configuration) (cl_confirmation_slot confirmed))) (\<lambda>policy.
     let open_epoch =
       \<lparr> oe_epoch_account = cl_epoch_account confirmed, oe_configuration = configuration,
         oe_policy = policy,
         oe_current_timestamp = saturating_sub_i64 (ec_lock_deadline configuration) 1,
         oe_confirmation_slot = cl_confirmation_slot confirmed \<rparr>
     in
     try_bind (package_validate c p open_epoch) (\<lambda>digest.
     if digest \<noteq> es_lock_digest state
        \<or> pk_pre_balance_root p \<noteq> es_pre_balance_root state
        \<or> pk_member_root p \<noteq> es_member_root state
        \<or> pk_member_count p \<noteq> es_member_count state
     then Inl InvalidOnchainLock
     else Inr digest)))"

section \<open>Wire format\<close>

definition package_encode_wire :: "suite \<Rightarrow> lock_package \<Rightarrow> lock_validation_error + byte list" where
  "package_encode_wire c p =
     (if length (pk_submissions p) > MAX_BATCH_MEMBERS \<or> length (pk_balances p) > MAX_BATCH_MEMBERS
      then Inl MemberLimitExceeded
      else
      try_bind (map_err (\<lambda>_. InvalidConfiguration) (keys_encode_wire c (pk_epoch_public_keys p))) (\<lambda>public_keys.
      if length public_keys > MAX_EPOCH_PUBLIC_KEYS_LEN then Inl InvalidConfiguration
      else
      try_bind (ok_or (u32_try_from (length public_keys)) InvalidConfiguration) (\<lambda>public_keys_len.
      try_bind (ok_or (u32_try_from (length (pk_submissions p))) MemberCountMismatch) (\<lambda>submission_count.
      try_bind (ok_or (u32_try_from (length (pk_balances p))) InvalidBalance) (\<lambda>balance_count.
      Inr ([1] @ arr_bytes (pk_epoch_account p) @ configuration_encode (pk_configuration p) @
        to_le_bytes public_keys_len @ public_keys @
        to_le_bytes submission_count @ concat (map submission_encode_wire (pk_submissions p)) @
        to_le_bytes balance_count @ concat (map balance_record_encode (pk_balances p)) @
        snapshot_encode (pk_balance_snapshot p) @
        arr_bytes (pk_pre_balance_root p) @ arr_bytes (pk_member_root p) @
        to_le_bytes (pk_member_count p) @ arr_bytes (pk_lock_nonce p)))))))"

definition FIXED_PREFIX :: nat where
  "FIXED_PREFIX = 1 + 32 + CONFIGURATION_LEN + 4 + 4"

definition FIXED_SUFFIX :: nat where
  "FIXED_SUFFIX = 4 + 164 + 32 + 32 + 4 + 32"

text \<open>
  The offsets are at most a few tens of kilobytes, so the checked additions and multiplications on
  \<open>usize\<close> never overflow.
\<close>

definition package_decode_wire :: "suite \<Rightarrow> byte list \<Rightarrow> lock_validation_error + lock_package" where
  "package_decode_wire c bytes =
     (if length bytes < FIXED_PREFIX + FIXED_SUFFIX \<or> bytes ! 0 \<noteq> 1 then Inl InvalidSubmission
      else let
        epoch_account = arr_of (slice 1 33 bytes);
        configuration_end = 33 + CONFIGURATION_LEN
      in
      try_bind (ok_or (configuration_decode (slice 33 configuration_end bytes)) InvalidConfiguration) (\<lambda>configuration.
      let
        public_keys_len = unat (from_le_bytes (slice configuration_end (configuration_end + 4) bytes) :: u32)
      in
      if public_keys_len > MAX_EPOCH_PUBLIC_KEYS_LEN then Inl InvalidConfiguration
      else let
        public_keys_start = configuration_end + 4;
        public_keys_end = public_keys_start + public_keys_len
      in
      try_bind (ok_or (get_slice public_keys_start public_keys_end bytes) InvalidConfiguration) (\<lambda>public_keys.
      try_bind (map_err (\<lambda>_. InvalidConfiguration) (keys_decode_wire c public_keys)) (\<lambda>epoch_public_keys.
      let count_end = public_keys_end + 4 in
      try_bind (ok_or (get_slice public_keys_end count_end bytes) InvalidSubmission) (\<lambda>count_bytes.
      let submission_count = unat (from_le_bytes count_bytes :: u32) in
      if submission_count > MAX_BATCH_MEMBERS then Inl MemberLimitExceeded
      else let
        submissions_start = count_end;
        submissions_end = submissions_start + submission_count * ENCRYPTED_SUBMISSION_V1_LEN
      in
      if submissions_end + FIXED_SUFFIX > length bytes then Inl InvalidSubmission
      else
      try_bind (decode_chunks ENCRYPTED_SUBMISSION_V1_LEN
        (\<lambda>encoded. map_err (\<lambda>_. InvalidSubmission) (submission_decode_wire c encoded))
        submission_count (slice submissions_start submissions_end bytes)) (\<lambda>submissions.
      let balance_count = unat (from_le_bytes (slice submissions_end (submissions_end + 4) bytes) :: u32) in
      if balance_count > MAX_BATCH_MEMBERS then Inl MemberLimitExceeded
      else let
        balances_start = submissions_end + 4;
        balances_end = balances_start + balance_count * 64;
        expected_len = balances_end + (164 + 32 + 32 + 4 + 32)
      in
      if expected_len \<noteq> length bytes then Inl InvalidSubmission
      else
      try_bind (decode_chunks 64 balance_record_decode balance_count (slice balances_start balances_end bytes)) (\<lambda>balances.
      let snapshot_end = balances_end + 164 in
      try_bind (snapshot_decode (slice balances_end snapshot_end bytes)) (\<lambda>snapshot.
      Inr
        \<lparr> pk_epoch_account = epoch_account,
          pk_configuration = configuration,
          pk_epoch_public_keys = epoch_public_keys,
          pk_submissions = submissions,
          pk_balances = balances,
          pk_balance_snapshot = snapshot,
          pk_pre_balance_root = arr_of (slice snapshot_end (snapshot_end + 32) bytes),
          pk_member_root = arr_of (slice (snapshot_end + 32) (snapshot_end + 64) bytes),
          pk_member_count = from_le_bytes (slice (snapshot_end + 64) (snapshot_end + 68) bytes),
          pk_lock_nonce = arr_of (slice (snapshot_end + 68) (snapshot_end + 100) bytes) \<rparr>))))))))"

end
