(* ===== verification/Lock_Journal.thy ===== *)
theory Lock_Journal
  imports Lock_Package
begin

text \<open>
  \<open>kageb-host/src/lock.rs\<close>, second part: the journal in which a keyper records the one lock digest it
  signed per epoch, the marker file that says the journal was once created, and the reference keyper that
  signs locks and releases decryption shares.
\<close>

section \<open>The journal file\<close>

definition JOURNAL_HEADER :: "byte list" where
  "JOURNAL_HEADER = ascii ''KGBLCK1'' @ [0]"

definition JOURNAL_INITIALIZED :: "byte list" where
  "JOURNAL_INITIALIZED = ascii ''KGBINI1'' @ [0]"

definition JOURNAL_RECORD_LEN :: nat where
  "JOURNAL_RECORD_LEN = 64"

definition JOURNAL_CHECKSUM_LEN :: nat where
  "JOURNAL_CHECKSUM_LEN = 32"

type_synonym lock_records = "(pubkey, bytes32) btree"

text \<open>
  The outcomes of the system calls of one operation. \<open>Path::exists\<close> answers no when it cannot look;
  a failing write of the marker may leave any prefix of it behind.
\<close>

record lock_io =
  li_journal :: io_env
  li_journal_hidden :: bool
  li_marker_hidden :: bool
  li_marker_read :: "error_kind option"
  li_marker_open :: "error_kind option"
  li_marker_write :: "(error_kind \<times> nat) option"
  li_marker_sync :: "error_kind option"
  li_marker_sync_parent :: "error_kind option"

definition lock_no_faults :: lock_io where
  "lock_no_faults = \<lparr> li_journal = no_faults, li_journal_hidden = False, li_marker_hidden = False,
     li_marker_read = None, li_marker_open = None, li_marker_write = None, li_marker_sync = None,
     li_marker_sync_parent = None \<rparr>"

definition journal_file_lock_acquire :: "io_env \<Rightarrow> lock_validation_error + unit" where
  "journal_file_lock_acquire io =
     (case io_lock_open io of
        Some kind \<Rightarrow> Inl (Io kind)
      | None \<Rightarrow> map_err (\<lambda>kind. if kind = WouldBlock then JournalBusy else Io kind)
          (lock_loop LOCK_ATTEMPTS 0 (io_try_lock io)))"

definition lock_entry :: "byte list \<Rightarrow> lock_validation_error + pubkey \<times> bytes32" where
  "lock_entry record = Inr (arr_of (slice 0 32 record), arr_of (slice 32 64 record))"

definition load_journal ::
    "(byte list \<Rightarrow> bytes32) \<Rightarrow> io_env \<Rightarrow> contents \<Rightarrow> lock_validation_error + lock_records" where
  "load_journal sha256 = keyed_load sha256 JOURNAL_HEADER JOURNAL_RECORD_LEN lock_entry CorruptJournal Io"

definition persist_journal ::
    "(byte list \<Rightarrow> bytes32) \<Rightarrow> io_env \<Rightarrow> lock_records \<Rightarrow> contents \<Rightarrow> contents \<times> (lock_validation_error + unit)" where
  "persist_journal sha256 =
     keyed_persist sha256 JOURNAL_HEADER (\<lambda>(epoch, digest). arr_bytes epoch @ arr_bytes digest) CorruptJournal Io"

section \<open>The marker file\<close>

definition persist_initialization_marker ::
    "(byte list \<Rightarrow> bytes32) \<Rightarrow> lock_io \<Rightarrow> contents \<Rightarrow> contents \<times> (lock_validation_error + unit)" where
  "persist_initialization_marker sha256 io marker =
     (let bytes = JOURNAL_INITIALIZED @ arr_bytes (sha256 JOURNAL_INITIALIZED) in
      if marker \<noteq> None then (marker, Inl (Io AlreadyExists))
      else case li_marker_open io of Some kind \<Rightarrow> (marker, Inl (Io kind)) | None \<Rightarrow>
      case li_marker_write io of Some (kind, n) \<Rightarrow> (Some (take n bytes), Inl (Io kind)) | None \<Rightarrow>
      case li_marker_sync io of Some kind \<Rightarrow> (Some bytes, Inl (Io kind)) | None \<Rightarrow>
      case li_marker_sync_parent io of Some kind \<Rightarrow> (Some bytes, Inl (Io kind)) | None \<Rightarrow>
      (Some bytes, Inr ()))"

definition validate_initialization_marker ::
    "(byte list \<Rightarrow> bytes32) \<Rightarrow> lock_io \<Rightarrow> contents \<Rightarrow> lock_validation_error + unit" where
  "validate_initialization_marker sha256 io marker =
     (case li_marker_read io of Some kind \<Rightarrow> Inl (Io kind) | None \<Rightarrow>
      case marker of None \<Rightarrow> Inl (Io NotFound) | Some bytes \<Rightarrow>
      if length bytes \<noteq> length JOURNAL_INITIALIZED + JOURNAL_CHECKSUM_LEN
         \<or> take (length JOURNAL_INITIALIZED) bytes \<noteq> JOURNAL_INITIALIZED
         \<or> arr_bytes (sha256 (take (length JOURNAL_INITIALIZED) bytes)) \<noteq> drop (length JOURNAL_INITIALIZED) bytes
      then Inl CorruptJournal
      else Inr ())"

section \<open>Operations of the journal\<close>

text \<open>The files are shared by every process of this keyper; a journal value carries only its cache.\<close>

type_synonym lock_files = "contents \<times> contents"

definition lock_journal_open ::
    "(byte list \<Rightarrow> bytes32) \<Rightarrow> lock_io \<Rightarrow> lock_files \<Rightarrow> lock_files \<times> (lock_validation_error + lock_records)" where
  "lock_journal_open sha256 io = (\<lambda>(path, initialized).
     (case journal_file_lock_acquire (li_journal io) of Inl e \<Rightarrow> ((path, initialized), Inl e) | Inr _ \<Rightarrow>
      case (path \<noteq> None \<and> \<not> li_journal_hidden io, initialized \<noteq> None \<and> \<not> li_marker_hidden io) of
        (False, False) \<Rightarrow>
          (case persist_initialization_marker sha256 io initialized of
             (initialized, Inl e) \<Rightarrow> ((path, initialized), Inl e)
           | (initialized, Inr _) \<Rightarrow>
               (case persist_journal sha256 (li_journal io) [] path of
                  (path, Inl e) \<Rightarrow> ((path, initialized), Inl e)
                | (path, Inr _) \<Rightarrow> ((path, initialized), load_journal sha256 (li_journal io) path)))
      | (True, True) \<Rightarrow>
          (case validate_initialization_marker sha256 io initialized of
             Inl e \<Rightarrow> ((path, initialized), Inl e)
           | Inr _ \<Rightarrow> ((path, initialized), load_journal sha256 (li_journal io) path))
      | _ \<Rightarrow> ((path, initialized), Inl CorruptJournal)))"

definition lock_journal_digest :: "lock_records \<Rightarrow> pubkey \<Rightarrow> bytes32 option" where
  "lock_journal_digest records epoch = bt_get records epoch"

definition lock_journal_record ::
    "(byte list \<Rightarrow> bytes32) \<Rightarrow> lock_io \<Rightarrow> pubkey \<Rightarrow> bytes32 \<Rightarrow> contents \<times> lock_records \<Rightarrow>
     (contents \<times> lock_records) \<times> (lock_validation_error + unit)" where
  "lock_journal_record sha256 io epoch digest = (\<lambda>(path, cache).
     (case journal_file_lock_acquire (li_journal io) of Inl e \<Rightarrow> ((path, cache), Inl e) | Inr _ \<Rightarrow>
      if path = None \<or> li_journal_hidden io then ((path, cache), Inl CorruptJournal)
      else
      case load_journal sha256 (li_journal io) path of Inl e \<Rightarrow> ((path, cache), Inl e) | Inr records \<Rightarrow>
      case bt_get records epoch of
        Some existing \<Rightarrow>
          if existing = digest then ((path, records), Inr ()) else ((path, cache), Inl ConflictingLock)
      | None \<Rightarrow>
          let records = bt_insert epoch digest records in
          (case persist_journal sha256 (li_journal io) records path of
             (path, Inl e) \<Rightarrow> ((path, cache), Inl e)
           | (path, Inr _) \<Rightarrow> ((path, records), Inr ()))))"

section \<open>The reference keyper\<close>

record lock_approval =
  la_keyper_key :: bytes32
  la_digest :: bytes32
  la_signature :: bytes64

definition lock_approval_verify :: "suite \<Rightarrow> lock_approval \<Rightarrow> bool" where
  "lock_approval_verify c a \<longleftrightarrow>
     key_from_bytes c (la_keyper_key a) \<and> verify c (la_keyper_key a) (arr_bytes (la_digest a)) (la_signature a)"

record reference_keyper =
  rk_index :: nat
  rk_signing_key :: signing_key
  rk_journal :: lock_records

definition keyper_at :: "keypers \<Rightarrow> nat \<Rightarrow> pubkey option" where
  "keyper_at keypers i = (if i < length (keyper_list keypers) then Some (keyper_list keypers ! i) else None)"

definition sign_lock ::
    "suite \<Rightarrow> lock_io \<Rightarrow> lock_package \<Rightarrow> confirmed_open_epoch \<Rightarrow> keyper_secret_share \<Rightarrow>
     contents \<times> reference_keyper \<Rightarrow> (contents \<times> reference_keyper) \<times> (lock_validation_error + lock_approval)" where
  "sign_lock c io package confirmed secret = (\<lambda>(path, k).
     (case keyper_at (ec_keypers (oe_configuration confirmed)) (rk_index k) of
        None \<Rightarrow> ((path, k), Inl WrongKeyper)
      | Some configured \<Rightarrow>
          let keyper_key = verifying_key c (rk_signing_key k) in
          if configured \<noteq> keyper_key
             \<or> ks_index secret \<noteq> rk_index k
             \<or> ks_epoch_account secret \<noteq> pk_epoch_account package
             \<or> \<not> matches_share c (pk_epoch_public_keys package) secret
          then ((path, k), Inl WrongKeyper)
          else
          case package_validate c package confirmed of Inl e \<Rightarrow> ((path, k), Inl e) | Inr digest \<Rightarrow>
          case lock_journal_record (hash256 c) io (pk_epoch_account package) digest (path, rk_journal k) of
            ((path, cache), Inl e) \<Rightarrow> ((path, k \<lparr> rk_journal := cache \<rparr>), Inl e)
          | ((path, cache), Inr _) \<Rightarrow>
              ((path, k \<lparr> rk_journal := cache \<rparr>), Inr
                \<lparr> la_keyper_key = keyper_key, la_digest = digest,
                  la_signature = sign c (rk_signing_key k) (arr_bytes digest) \<rparr>)))"

fun any_repeated :: "bytes32 set \<Rightarrow> bytes32 list \<Rightarrow> bool" where
  "any_repeated seen [] \<longleftrightarrow> False"
| "any_repeated seen (h # hs) \<longleftrightarrow> h \<in> seen \<or> any_repeated (insert h seen) hs"

definition release_share ::
    "suite \<Rightarrow> reference_keyper \<Rightarrow> lock_package \<Rightarrow> confirmed_lock \<Rightarrow> keyper_secret_share \<Rightarrow> nat \<Rightarrow>
     lock_validation_error + released_share" where
  "release_share c k package confirmed secret member_index =
     try_bind (package_validate_locked c package confirmed) (\<lambda>digest.
     try_bind (ok_or (Option.bind (cl_pool confirmed) (\<lambda>pool. keyper_at (ps_keypers pool) (rk_index k))) WrongKeyper) (\<lambda>configured.
     if configured \<noteq> verifying_key c (rk_signing_key k)
        \<or> lock_journal_digest (rk_journal k) (pk_epoch_account package) \<noteq> Some digest
        \<or> rk_index k \<noteq> ks_index secret
        \<or> ks_epoch_account secret \<noteq> pk_epoch_account package
        \<or> \<not> matches_share c (pk_epoch_public_keys package) secret
     then Inl WrongKeyper
     else
     try_bind (ok_or (if member_index < length (pk_submissions package) then Some (pk_submissions package ! member_index) else None)
       InvalidSubmission) (\<lambda>submission.
     if any_repeated {} (map (\<lambda>member. hash256 c (es_ciphertext member)) (pk_submissions package))
     then Inl InvalidSubmission
     else
     map_err (\<lambda>_. InvalidSubmission)
       (secret_share_release c secret (pk_epoch_account package) (es_lock_digest (cl_state confirmed))
         (es_ciphertext submission)))))"

section \<open>The journal file meets its contract\<close>

abbreviation lock_holds :: "(byte list \<Rightarrow> bytes32) \<Rightarrow> contents \<Rightarrow> lock_records \<Rightarrow> bool" where
  "lock_holds sha256 \<equiv> keyed_holds sha256 JOURNAL_HEADER JOURNAL_RECORD_LEN lock_entry CorruptJournal"

definition any_entry :: "pubkey \<Rightarrow> bytes32 \<Rightarrow> bool" where
  "any_entry epoch digest \<longleftrightarrow> True"

interpretation lk: keyed_journal sha256 JOURNAL_HEADER JOURNAL_RECORD_LEN
  "\<lambda>(epoch, digest). arr_bytes epoch @ arr_bytes digest" lock_entry CorruptJournal JournalBusy CorruptJournal Io any_entry
  for sha256
  by unfold_locales (auto simp: lock_entry_def any_entry_def JOURNAL_RECORD_LEN_def bytes_simps)

interpretation lj: journal journal_file_lock_acquire "load_journal sha256" "persist_journal sha256"
  "lock_holds sha256" "keyed_valid any_entry" for sha256
  unfolding load_journal_def persist_journal_def
  by unfold_locales (erule lk.load_holds, erule lk.holds_valid, erule (1) lk.holds_unique, erule (1) lk.persist_ok,
      erule (1) lk.persist_error, erule lk.load_no_faults)

end
