(* ===== verification/Settlement.thy ===== *)
theory Settlement
  imports Lock_Journal Ledger
begin

text \<open>
  \<open>kageb-host/src/evidence.rs\<close>, settlement part: from a locked package and two released shares per
  member a keyper recovers the intents, nets them against the frozen balances, and signs the settlement
  payload only when it equals its own recomputation.
\<close>

definition RESULT_COMMITMENT_DOMAIN :: "byte list" where
  "RESULT_COMMITMENT_DOMAIN = ascii ''KAGEB_RESULT_COMMITMENT_V1'' @ [0]"

definition RECOVERED_INTENTS_DOMAIN :: "byte list" where
  "RECOVERED_INTENTS_DOMAIN = ascii ''KAGEB_RECOVERED_INTENTS_V1'' @ [0]"

record settlement_balance =
  sb_participant_id :: bytes32
  sb_base_atoms :: u64
  sb_quote_atoms :: u64

datatype settlement_validation_error =
    InvalidLock
  | InvalidBatch
  | InvalidBalance
  | InvalidResult
  | InvalidNonce
  | WrongKeyper
  | MemberLimitExceeded

text \<open>Two released shares of one member.\<close>

type_synonym decryption_evidence = "released_share \<times> released_share"

definition decryption_evidence_new ::
    "released_share \<Rightarrow> released_share \<Rightarrow> settlement_validation_error + decryption_evidence" where
  "decryption_evidence_new first second =
     (if rs_index first = rs_index second then Inl InvalidBatch else Inr (first, second))"

definition evidence_shares :: "decryption_evidence \<Rightarrow> released_share list" where
  "evidence_shares evidence = [fst evidence, snd evidence]"

record settlement_request =
  sq_package :: lock_package
  sq_decryption_evidence :: "decryption_evidence list"
  sq_post_balances :: "settlement_balance list"
  sq_pre_balance_root :: bytes32
  sq_post_balance_root :: bytes32
  sq_residual :: residual
  sq_result_root :: bytes32
  sq_result_commitment :: bytes32
  sq_settlement_nonce :: bytes32
  sq_settlement_digest :: bytes32

record settlement_approval =
  sa_keyper_key :: bytes32
  sa_payload :: settlement_payload
  sa_digest :: bytes32
  sa_signature :: bytes64

definition settlement_approval_verify :: "suite \<Rightarrow> settlement_approval \<Rightarrow> bool" where
  "settlement_approval_verify c a =
     (if \<not> key_from_bytes c (sa_keyper_key a) then False
      else sa_digest a = settlement_payload_digest (hash256 c) (sa_payload a)
        \<and> verify c (sa_keyper_key a) (arr_bytes (sa_digest a)) (sa_signature a))"

record recomputed_settlement =
  rc_post_balances :: "settlement_balance list"
  rc_pre_balance_root :: bytes32
  rc_post_balance_root :: bytes32
  rc_residual :: residual
  rc_result_root :: bytes32
  rc_result_commitment :: bytes32
  rc_payload :: settlement_payload

section \<open>Commitments to a result\<close>

definition encode_settlement_balance :: "settlement_balance \<Rightarrow> byte list" where
  "encode_settlement_balance b =
     (let bytes = replicate 48 0;
          bytes = put 0 (arr_bytes (sb_participant_id b)) bytes;
          bytes = put 32 (to_le_bytes (sb_base_atoms b)) bytes;
          bytes = put 40 (to_le_bytes (sb_quote_atoms b)) bytes
      in bytes)"

definition settlement_balance_root :: "suite \<Rightarrow> settlement_balance list \<Rightarrow> settlement_validation_error + bytes32" where
  "settlement_balance_root c balances =
     map_err (\<lambda>_. InvalidBalance) (content_root (hash256 c) BalanceSet (map encode_settlement_balance balances))"

definition result_leaf :: "balances \<Rightarrow> settlement_balance \<Rightarrow> settlement_validation_error + byte list" where
  "result_leaf before balance =
     try_bind (ok_or (bt_get before (sb_participant_id balance)) InvalidBalance) (\<lambda>prior.
     let leaf = replicate 64 0;
         leaf = put 0 (arr_bytes (sb_participant_id balance)) leaf;
         leaf = put 32 (to_le_bytes (pb_base_atoms prior)) leaf;
         leaf = put 40 (to_le_bytes (pb_quote_atoms prior)) leaf;
         leaf = put 48 (to_le_bytes (sb_base_atoms balance)) leaf;
         leaf = put 56 (to_le_bytes (sb_quote_atoms balance)) leaf
     in Inr leaf)"

definition per_participant_result_root ::
    "suite \<Rightarrow> balances \<Rightarrow> settlement_balance list \<Rightarrow> settlement_validation_error + bytes32" where
  "per_participant_result_root c before after =
     try_bind (try_map (result_leaf before) after) (\<lambda>leaves.
     map_err (\<lambda>_. InvalidResult) (content_root (hash256 c) ResultSet leaves))"

definition recovered_intents_root :: "suite \<Rightarrow> signed_intent list \<Rightarrow> bytes32" where
  "recovered_intents_root c recovered =
     (let leaves = sort (map (\<lambda>intent. hash256 c (signed_intent_encode intent)) recovered)
      in hash256 c (RECOVERED_INTENTS_DOMAIN @ to_le_bytes (of_nat (length leaves) :: u64) @
           concat (map arr_bytes leaves)))"

fun residual_wire :: "residual \<Rightarrow> u8 \<times> u32" where
  "residual_wire Residual_none = (0, 0)"
| "residual_wire (Residual_buy lots) = (1, lots)"
| "residual_wire (Residual_sell lots) = (2, lots)"

definition result_commitment ::
    "suite \<Rightarrow> confirmed_lock \<Rightarrow> bytes32 \<Rightarrow> bytes32 \<Rightarrow> bytes32 \<Rightarrow> residual \<Rightarrow> bytes32 \<Rightarrow> bytes32" where
  "result_commitment c confirmed recovered_root pre_balance_root post_balance_root residual result_root =
     (let (side, lots) = residual_wire residual
      in hash256 c (RESULT_COMMITMENT_DOMAIN @ arr_bytes (cl_epoch_account confirmed) @
           arr_bytes (es_lock_digest (cl_state confirmed)) @ arr_bytes recovered_root @
           arr_bytes pre_balance_root @ arr_bytes post_balance_root @ [side] @ to_le_bytes lots @
           arr_bytes result_root))"

section \<open>Recomputing a settlement\<close>

definition recover_member ::
    "suite \<Rightarrow> confirmed_lock \<Rightarrow> public_key_set \<Rightarrow> encrypted_submission \<times> decryption_evidence \<Rightarrow>
     settlement_validation_error + signed_intent" where
  "recover_member c confirmed keys = (\<lambda>(submission, evidence).
     if list_ex (\<lambda>share. rs_epoch_account share \<noteq> cl_epoch_account confirmed
          \<or> rs_lock_digest share \<noteq> es_lock_digest (cl_state confirmed)) (evidence_shares evidence)
     then Inl InvalidBatch
     else map_err (\<lambda>_. InvalidBatch) (recover_submission c keys submission (evidence_shares evidence)))"

fun index_submissions ::
    "(bytes32, encrypted_submission) btree \<Rightarrow> encrypted_submission list \<Rightarrow>
     settlement_validation_error + (bytes32, encrypted_submission) btree" where
  "index_submissions m [] = Inr m"
| "index_submissions m (submission # submissions) =
     (let participant = fa_participant_id (es_authorization submission) in
      if bt_get m participant \<noteq> None then Inl InvalidBatch
      else index_submissions (bt_insert participant submission m) submissions)"

fun recovered_orders ::
    "suite \<Rightarrow> bytes32 \<Rightarrow> (bytes32, encrypted_submission) btree \<Rightarrow> bytes32 set \<Rightarrow> signed_intent list \<Rightarrow>
     settlement_validation_error + funded_order list" where
  "recovered_orders c epoch_id m seen [] = Inr []"
| "recovered_orders c epoch_id m seen (intent # intents) =
     (let participant = ib_participant_id (si_body intent) in
      try_bind (ok_or (bt_get m participant) InvalidBatch) (\<lambda>submission.
      if participant \<in> seen then Inl InvalidBatch
      else if \<not> key_from_bytes c (fa_trading_key (es_authorization submission)) then Inl InvalidBatch
      else
      try_bind (map_err (\<lambda>_. InvalidBatch)
        (signed_intent_verify c intent (fa_trading_key (es_authorization submission)) epoch_id participant)) (\<lambda>_.
      try_bind (map_err (\<lambda>_. InvalidBatch)
        (funded_order_new participant (ib_side (si_body intent)) (ib_limit_price (si_body intent)))) (\<lambda>order.
      try_bind (recovered_orders c epoch_id m (insert participant seen) intents) (\<lambda>orders.
      Inr (order # orders))))))"

definition balances_before :: "balance_record list \<Rightarrow> balances" where
  "balances_before balances =
     bt_of_list (map (\<lambda>balance. (bl_participant_id balance,
       \<lparr> pb_base_atoms = bl_base_atoms balance, pb_quote_atoms = bl_quote_atoms balance \<rparr>)) balances)"

definition settlement_balances :: "batch_result \<Rightarrow> settlement_balance list" where
  "settlement_balances result =
     map (\<lambda>(participant_id, balance).
       \<lparr> sb_participant_id = participant_id, sb_base_atoms = pb_base_atoms balance,
         sb_quote_atoms = pb_quote_atoms balance \<rparr>) (br_balances result)"

definition settlement_payload_of ::
    "confirmed_lock \<Rightarrow> pool_state \<Rightarrow> bytes32 \<Rightarrow> residual \<Rightarrow> bytes32 \<Rightarrow> settlement_payload" where
  "settlement_payload_of confirmed pool commitment residual settlement_nonce =
     (let (residual_side, residual_lots) = residual_wire residual
      in \<lparr> sp_epoch_account = cl_epoch_account confirmed,
           sp_lock_digest = es_lock_digest (cl_state confirmed),
           sp_result_commitment = commitment,
           sp_residual_side = residual_side,
           sp_residual_lots = residual_lots,
           sp_base_lot_atoms = es_base_lot_atoms (cl_state confirmed),
           sp_quote_atoms_per_lot = es_quote_atoms_per_lot (cl_state confirmed),
           sp_base_mint = ps_base_mint pool,
           sp_quote_mint = ps_quote_mint pool,
           sp_pool_base_vault = ps_pool_base_vault pool,
           sp_pool_quote_vault = ps_pool_quote_vault pool,
           sp_venue_base_account = ps_venue_base_account pool,
           sp_venue_quote_account = ps_venue_quote_account pool,
           sp_venue_authority = ps_venue_authority pool,
           sp_settlement_nonce = settlement_nonce \<rparr>)"

definition recompute ::
    "suite \<Rightarrow> lock_package \<Rightarrow> decryption_evidence list \<Rightarrow> bytes32 \<Rightarrow> confirmed_lock \<Rightarrow>
     settlement_validation_error + recomputed_settlement" where
  "recompute c package decryption_evidence settlement_nonce confirmed =
     try_bind (map_err (\<lambda>_. InvalidLock) (package_validate_locked c package confirmed)) (\<lambda>_.
     if settlement_nonce = 0 \<or> settlement_nonce = es_lock_nonce (cl_state confirmed) then Inl InvalidNonce
     else if length decryption_evidence \<noteq> length (pk_submissions package)
        \<or> MAX_BATCH_MEMBERS < length decryption_evidence
     then Inl InvalidBatch
     else
     try_bind (try_map (recover_member c confirmed (pk_epoch_public_keys package))
       (zip (pk_submissions package) decryption_evidence)) (\<lambda>recovered.
     try_bind (index_submissions [] (pk_submissions package)) (\<lambda>submissions.
     try_bind (recovered_orders c (ec_epoch_id (pk_configuration package)) submissions {} recovered) (\<lambda>orders.
     let before = balances_before (pk_balances package) in
     if length before \<noteq> length (pk_balances package) then Inl InvalidBalance
     else
     try_bind (map_err (\<lambda>_. InvalidBatch) (batch_config_new (ec_base_lot_atoms (pk_configuration package))
       (ec_quote_atoms_per_lot (pk_configuration package)))) (\<lambda>config.
     try_bind (map_err (\<lambda>_. InvalidBatch) (net_batch config before orders)) (\<lambda>result.
     if \<not> conserves result before then Inl InvalidBalance
     else
     let post_balances = settlement_balances result in
     try_bind (settlement_balance_root c post_balances) (\<lambda>post_balance_root.
     try_bind (per_participant_result_root c before post_balances) (\<lambda>result_root.
     let recovered_root = recovered_intents_root c recovered;
         pre_balance_root = pk_pre_balance_root package;
         commitment = result_commitment c confirmed recovered_root pre_balance_root post_balance_root
           (br_residual result) result_root
     in
     try_bind (ok_or (cl_pool confirmed) InvalidLock) (\<lambda>pool.
     Inr
       \<lparr> rc_post_balances = post_balances, rc_pre_balance_root = pre_balance_root,
         rc_post_balance_root = post_balance_root, rc_residual = br_residual result,
         rc_result_root = result_root, rc_result_commitment = commitment,
         rc_payload = settlement_payload_of confirmed pool commitment (br_residual result) settlement_nonce \<rparr>)))))))))"

section \<open>Requests and approvals\<close>

definition settlement_request_build ::
    "suite \<Rightarrow> lock_package \<Rightarrow> decryption_evidence list \<Rightarrow> bytes32 \<Rightarrow> confirmed_lock \<Rightarrow>
     settlement_validation_error + settlement_request" where
  "settlement_request_build c package decryption_evidence settlement_nonce confirmed =
     try_bind (recompute c package decryption_evidence settlement_nonce confirmed) (\<lambda>recomputed.
     Inr
       \<lparr> sq_package = package, sq_decryption_evidence = decryption_evidence,
         sq_post_balances = rc_post_balances recomputed,
         sq_pre_balance_root = rc_pre_balance_root recomputed,
         sq_post_balance_root = rc_post_balance_root recomputed,
         sq_residual = rc_residual recomputed, sq_result_root = rc_result_root recomputed,
         sq_result_commitment = rc_result_commitment recomputed,
         sq_settlement_nonce = settlement_nonce,
         sq_settlement_digest = settlement_payload_digest (hash256 c) (rc_payload recomputed) \<rparr>)"

definition sign_settlement ::
    "suite \<Rightarrow> reference_keyper \<Rightarrow> settlement_request \<Rightarrow> confirmed_lock \<Rightarrow> keyper_secret_share \<Rightarrow>
     settlement_validation_error + settlement_approval" where
  "sign_settlement c k request confirmed secret =
     try_bind (recompute c (sq_package request) (sq_decryption_evidence request)
       (sq_settlement_nonce request) confirmed) (\<lambda>recomputed.
     let digest = settlement_payload_digest (hash256 c) (rc_payload recomputed) in
     if sq_post_balances request \<noteq> rc_post_balances recomputed
        \<or> sq_pre_balance_root request \<noteq> rc_pre_balance_root recomputed
        \<or> sq_post_balance_root request \<noteq> rc_post_balance_root recomputed
        \<or> sq_residual request \<noteq> rc_residual recomputed
        \<or> sq_result_root request \<noteq> rc_result_root recomputed
        \<or> sq_result_commitment request \<noteq> rc_result_commitment recomputed
        \<or> sq_settlement_digest request \<noteq> digest
     then Inl InvalidResult
     else
     try_bind (ok_or (cl_pool confirmed) InvalidLock) (\<lambda>pool.
     try_bind (ok_or (keyper_at (ps_keypers pool) (rk_index k)) WrongKeyper) (\<lambda>configured.
     let keyper_key = verifying_key c (rk_signing_key k) in
     if configured \<noteq> keyper_key
        \<or> ks_index secret \<noteq> rk_index k
        \<or> ks_epoch_account secret \<noteq> pk_epoch_account (sq_package request)
        \<or> \<not> matches_share c (pk_epoch_public_keys (sq_package request)) secret
        \<or> lock_journal_digest (rk_journal k) (cl_epoch_account confirmed) \<noteq> Some (es_lock_digest (cl_state confirmed))
     then Inl WrongKeyper
     else Inr
       \<lparr> sa_keyper_key = keyper_key, sa_payload = rc_payload recomputed, sa_digest = digest,
         sa_signature = sign c (rk_signing_key k) (arr_bytes digest) \<rparr>)))"

end
