(* ===== verification/Settlement_Wire.thy ===== *)
theory Settlement_Wire
  imports Settlement
begin

text \<open>
  \<open>kageb-host/src/evidence.rs\<close>, wire formats of the settlement: the fixed 503-byte approval and the
  request with its package, shares and balances. A reader is a function of the bytes and the offset that
  returns the value and the next offset, as the \<open>take\<close> helpers advance it.
\<close>

definition MAX_RELEASED_SHARE_WIRE_LEN :: nat where
  "MAX_RELEASED_SHARE_WIRE_LEN = 512"

section \<open>Approvals\<close>

definition approval_encode_wire :: "settlement_approval \<Rightarrow> byte list" where
  "approval_encode_wire a =
     [1] @ arr_bytes (sa_keyper_key a) @ settlement_payload_encode (sa_payload a) @ arr_bytes (sa_digest a) @
     arr_bytes (sa_signature a)"

definition approval_decode_wire :: "byte list \<Rightarrow> settlement_validation_error + settlement_approval" where
  "approval_decode_wire bytes =
     (if length bytes \<noteq> 503 \<or> bytes ! 0 \<noteq> 1 then Inl InvalidResult
      else
      try_bind (ok_or (settlement_payload_decode (slice 33 407 bytes)) InvalidResult) (\<lambda>payload.
      Inr \<lparr> sa_keyper_key = arr_of (slice 1 33 bytes), sa_payload = payload,
            sa_digest = arr_of (slice 407 439 bytes), sa_signature = arr_of (slice 439 503 bytes) \<rparr>))"

section \<open>Writing a request\<close>

definition encode_share :: "suite \<Rightarrow> released_share \<Rightarrow> settlement_validation_error + byte list" where
  "encode_share c share =
     try_bind (map_err (\<lambda>_. InvalidBatch) (released_share_encode c share)) (\<lambda>encoded.
     if length encoded > MAX_RELEASED_SHARE_WIRE_LEN then Inl InvalidBatch
     else
     try_bind (ok_or (u32_try_from (length encoded)) InvalidBatch) (\<lambda>len.
     Inr (to_le_bytes len @ encoded)))"

definition request_encode_wire :: "suite \<Rightarrow> settlement_request \<Rightarrow> settlement_validation_error + byte list" where
  "request_encode_wire c q =
     try_bind (map_err (\<lambda>_. InvalidBatch) (package_encode_wire c (sq_package q))) (\<lambda>package.
     try_bind (ok_or (u32_try_from (length package)) InvalidBatch) (\<lambda>package_len.
     try_bind (ok_or (u32_try_from (length (sq_decryption_evidence q))) InvalidBatch) (\<lambda>evidence_count.
     try_bind (try_map (encode_share c) (concat (map evidence_shares (sq_decryption_evidence q)))) (\<lambda>shares.
     try_bind (ok_or (u32_try_from (length (sq_post_balances q))) InvalidBalance) (\<lambda>post_count.
     let (side, lots) = residual_wire (sq_residual q) in
     Inr ([1] @ to_le_bytes package_len @ package @ to_le_bytes evidence_count @ concat shares @
       to_le_bytes post_count @ concat (map encode_settlement_balance (sq_post_balances q)) @
       arr_bytes (sq_pre_balance_root q) @ arr_bytes (sq_post_balance_root q) @ [side] @ to_le_bytes lots @
       arr_bytes (sq_result_root q) @ arr_bytes (sq_result_commitment q) @ arr_bytes (sq_settlement_nonce q) @
       arr_bytes (sq_settlement_digest q)))))))"

section \<open>Reading a request\<close>

definition take_array :: "nat \<Rightarrow> byte list \<Rightarrow> nat \<Rightarrow> settlement_validation_error + byte list \<times> nat" where
  "take_array n bytes offset =
     try_bind (ok_or (get_slice offset (offset + n) bytes) InvalidBatch) (\<lambda>value. Inr (value, offset + n))"

definition take_u32 :: "byte list \<Rightarrow> nat \<Rightarrow> settlement_validation_error + u32 \<times> nat" where
  "take_u32 bytes offset =
     try_bind (take_array 4 bytes offset) (\<lambda>(value, offset). Inr (from_le_bytes value, offset))"

definition take_digest :: "byte list \<Rightarrow> nat \<Rightarrow> settlement_validation_error + bytes32 \<times> nat" where
  "take_digest bytes offset =
     try_bind (take_array 32 bytes offset) (\<lambda>(value, offset). Inr (arr_of value, offset))"

definition take_share :: "suite \<Rightarrow> byte list \<Rightarrow> nat \<Rightarrow> settlement_validation_error + released_share \<times> nat" where
  "take_share c bytes offset =
     try_bind (take_u32 bytes offset) (\<lambda>(share_len, offset).
     if unat share_len > MAX_RELEASED_SHARE_WIRE_LEN then Inl InvalidBatch
     else
     let end = offset + unat share_len in
     try_bind (ok_or (get_slice offset end bytes) InvalidBatch) (\<lambda>encoded.
     try_bind (map_err (\<lambda>_. InvalidBatch) (released_share_decode c encoded)) (\<lambda>share.
     Inr (share, end))))"

fun take_evidence ::
    "suite \<Rightarrow> byte list \<Rightarrow> nat \<Rightarrow> nat \<Rightarrow> settlement_validation_error + decryption_evidence list \<times> nat" where
  "take_evidence c bytes 0 offset = Inr ([], offset)"
| "take_evidence c bytes (Suc n) offset =
     try_bind (take_share c bytes offset) (\<lambda>(first, offset).
     try_bind (take_share c bytes offset) (\<lambda>(second, offset).
     try_bind (decryption_evidence_new first second) (\<lambda>evidence.
     try_bind (take_evidence c bytes n offset) (\<lambda>(rest, offset).
     Inr (evidence # rest, offset)))))"

definition decode_settlement_balance :: "byte list \<Rightarrow> settlement_balance" where
  "decode_settlement_balance encoded =
     \<lparr> sb_participant_id = arr_of (slice 0 32 encoded), sb_base_atoms = from_le_bytes (slice 32 40 encoded),
       sb_quote_atoms = from_le_bytes (slice 40 48 encoded) \<rparr>"

fun take_balances :: "byte list \<Rightarrow> nat \<Rightarrow> nat \<Rightarrow> settlement_validation_error + settlement_balance list \<times> nat" where
  "take_balances bytes 0 offset = Inr ([], offset)"
| "take_balances bytes (Suc n) offset =
     try_bind (take_array 48 bytes offset) (\<lambda>(encoded, offset).
     try_bind (take_balances bytes n offset) (\<lambda>(rest, offset).
     Inr (decode_settlement_balance encoded # rest, offset)))"

definition residual_of_wire :: "u8 \<Rightarrow> u32 \<Rightarrow> settlement_validation_error + residual" where
  "residual_of_wire side lots =
     (if side = 0 \<and> lots = 0 then Inr Residual_none
      else if side = 1 \<and> 1 \<le> lots then Inr (Residual_buy lots)
      else if side = 2 \<and> 1 \<le> lots then Inr (Residual_sell lots)
      else Inl InvalidResult)"

definition request_decode_wire :: "suite \<Rightarrow> byte list \<Rightarrow> settlement_validation_error + settlement_request" where
  "request_decode_wire c bytes =
     (if length bytes < 1 + 4 \<or> bytes ! 0 \<noteq> 1 then Inl InvalidBatch
      else
      try_bind (take_u32 bytes 1) (\<lambda>(package_len, offset).
      let package_end = offset + unat package_len in
      try_bind (ok_or (get_slice offset package_end bytes) InvalidBatch) (\<lambda>package_bytes.
      try_bind (map_err (\<lambda>_. InvalidBatch) (package_decode_wire c package_bytes)) (\<lambda>package.
      try_bind (take_u32 bytes package_end) (\<lambda>(evidence_count, offset).
      if unat evidence_count > MAX_BATCH_MEMBERS
         \<or> unat evidence_count \<noteq> length (pk_submissions package)
         \<or> evidence_count \<noteq> pk_member_count package
      then Inl MemberLimitExceeded
      else
      try_bind (take_evidence c bytes (unat evidence_count) offset) (\<lambda>(decryption_evidence, offset).
      try_bind (take_u32 bytes offset) (\<lambda>(post_count, offset).
      if unat post_count > MAX_BATCH_MEMBERS \<or> unat post_count \<noteq> length (pk_balances package)
      then Inl MemberLimitExceeded
      else
      try_bind (take_balances bytes (unat post_count) offset) (\<lambda>(post_balances, offset).
      try_bind (take_digest bytes offset) (\<lambda>(pre_balance_root, offset).
      try_bind (take_digest bytes offset) (\<lambda>(post_balance_root, offset).
      if length bytes \<le> offset then Inl InvalidResult
      else
      let side = bytes ! offset in
      try_bind (take_u32 bytes (offset + 1)) (\<lambda>(lots, offset).
      try_bind (residual_of_wire side lots) (\<lambda>residual.
      try_bind (take_digest bytes offset) (\<lambda>(result_root, offset).
      try_bind (take_digest bytes offset) (\<lambda>(commitment, offset).
      try_bind (take_digest bytes offset) (\<lambda>(settlement_nonce, offset).
      try_bind (take_digest bytes offset) (\<lambda>(settlement_digest, offset).
      if offset \<noteq> length bytes then Inl InvalidBatch
      else Inr
        \<lparr> sq_package = package, sq_decryption_evidence = decryption_evidence, sq_post_balances = post_balances,
          sq_pre_balance_root = pre_balance_root, sq_post_balance_root = post_balance_root,
          sq_residual = residual, sq_result_root = result_root, sq_result_commitment = commitment,
          sq_settlement_nonce = settlement_nonce, sq_settlement_digest = settlement_digest \<rparr>))))))))))))))))"

end
