(* ===== verification/Lock_Confirmed.thy ===== *)
theory Lock_Confirmed
  imports Lock_Package Runtime
begin

text \<open>
  \<open>kageb-host/src/lock.rs\<close>, third part: turning confirmed account reads into the capabilities that the
  keypers and the custody code demand. The RPC node, the serialization of the clock sysvar
  (\<open>bincode\<close>) and its owner are parameters; derived addresses are those of the program.
\<close>

record clock =
  ck_slot :: u64
  ck_unix_timestamp :: i64

text \<open>What the reader uses of the Solana libraries besides hashing: addresses, the sysvar owner, the clock.\<close>

record sysvars =
  sv_runtime :: runtime
  sv_owner :: pubkey
  sv_clock :: "byte list \<Rightarrow> clock option"

record rpc_account =
  ra_owner :: pubkey
  ra_data :: "byte list"

text \<open>A node answers with the slot of its view; \<open>None\<close> is a transport error.\<close>

record rpc_client =
  rpc_get_account :: "pubkey \<Rightarrow> (u64 \<times> rpc_account option) option"
  rpc_get_multiple :: "pubkey list \<Rightarrow> (u64 \<times> rpc_account option list) option"

section \<open>Open epochs\<close>

definition decode_program_epoch ::
    "sysvars \<Rightarrow> pubkey \<Rightarrow> pubkey \<Rightarrow> byte list \<Rightarrow> lock_validation_error + epoch_state" where
  "decode_program_epoch sv epoch_account owner data =
     (if owner \<noteq> ID then Inl InvalidOnchainEpoch
      else
      try_bind (map_err (\<lambda>_. InvalidOnchainEpoch) (epoch_state_decode data)) (\<lambda>state.
      let (expected, bump) = epoch_address (sv_runtime sv) (es_pool state) (es_epoch_id state) in
      if expected \<noteq> epoch_account \<or> es_epoch_bump state \<noteq> bump then Inl InvalidOnchainEpoch
      else Inr state))"

definition confirmed_open_epoch_from_accounts ::
    "suite \<Rightarrow> sysvars \<Rightarrow> pubkey \<Rightarrow> rpc_account \<Rightarrow> pubkey \<Rightarrow> rpc_account \<Rightarrow> rpc_account \<Rightarrow> u64 \<Rightarrow>
     lock_validation_error + confirmed_open_epoch" where
  "confirmed_open_epoch_from_accounts c sv epoch_account epoch_account_data pool_address_from_initial_read
       pool_account_data clock_account_data confirmation_slot =
     try_bind (decode_program_epoch sv epoch_account (ra_owner epoch_account_data) (ra_data epoch_account_data)) (\<lambda>state.
     if es_pool state \<noteq> pool_address_from_initial_read then Inl InvalidOnchainEpoch
     else if ra_owner pool_account_data \<noteq> ID \<or> ra_owner clock_account_data \<noteq> sv_owner sv
     then Inl InvalidOnchainEpoch
     else
     try_bind (map_err (\<lambda>_. InvalidOnchainEpoch) (pool_state_decode (ra_data pool_account_data))) (\<lambda>pool.
     try_bind (ok_or (sv_clock sv (ra_data clock_account_data)) InvalidOnchainEpoch) (\<lambda>clock.
     let (expected_pool, pool_bump) =
           pool_address (sv_runtime sv) (ps_operator pool) (ps_base_mint pool) (ps_quote_mint pool);
         (_, vault_bump) = vault_authority_address (sv_runtime sv) (es_pool state);
         configuration = epoch_configuration_of state pool
     in
     if expected_pool \<noteq> es_pool state
        \<or> ps_pool_bump pool \<noteq> pool_bump
        \<or> ps_vault_bump pool \<noteq> vault_bump
        \<or> ps_lock_threshold pool \<noteq> 2
        \<or> ps_settlement_threshold pool \<noteq> 2
        \<or> ps_base_lot_atoms pool = 0
        \<or> ps_base_mint pool = ps_quote_mint pool
        \<or> list_ex (\<lambda>key. key = 0) (keyper_list (ps_keypers pool))
        \<or> keyper_list (ps_keypers pool) ! 0 = keyper_list (ps_keypers pool) ! 1
        \<or> keyper_list (ps_keypers pool) ! 0 = keyper_list (ps_keypers pool) ! 2
        \<or> keyper_list (ps_keypers pool) ! 1 = keyper_list (ps_keypers pool) ! 2
        \<or> es_terminal_state state \<noteq> Open
        \<or> es_residual_side state \<noteq> 0
        \<or> es_configuration_hash state \<noteq> configuration_digest (hash256 c) configuration
        \<or> es_pre_balance_root state \<noteq> 0
        \<or> es_member_root state \<noteq> 0
        \<or> es_lock_digest state \<noteq> 0
        \<or> es_result_commitment state \<noteq> 0
        \<or> es_settlement_digest state \<noteq> 0
        \<or> es_lock_nonce state \<noteq> 0
        \<or> es_settlement_nonce state \<noteq> 0
        \<or> es_member_count state \<noteq> 0
        \<or> es_minimum_count state < 4
        \<or> es_residual_lots state \<noteq> 0
        \<or> es_base_lot_atoms state \<noteq> ps_base_lot_atoms pool
        \<or> es_quote_atoms_per_lot state = 0
        \<or> es_abort_deadline state \<le>s es_lock_deadline state
        \<or> ck_slot clock > confirmation_slot
        \<or> es_lock_deadline state \<le>s ck_unix_timestamp clock
     then Inl InvalidOnchainEpoch
     else if \<not> key_from_bytes c (ps_operator pool) then Inl InvalidOnchainEpoch
     else
     try_bind (map_err (\<lambda>_. InvalidOnchainEpoch)
       (admission_policy_new (es_epoch_id state) (ps_operator pool) (unat (es_minimum_count state))
         (es_base_lot_atoms state) (es_quote_atoms_per_lot state) (ck_slot clock))) (\<lambda>policy.
     Inr \<lparr> oe_epoch_account = epoch_account, oe_configuration = configuration, oe_policy = policy,
           oe_current_timestamp = ck_unix_timestamp clock, oe_confirmation_slot = confirmation_slot \<rparr>))))"

section \<open>Terminal epochs\<close>

record confirmed_terminal_epoch =
  te_epoch_account :: pubkey
  te_epoch_id :: bytes32
  te_terminal_state :: epoch_terminal_state
  te_confirmation_slot :: u64

definition confirmed_terminal_epoch_from_account ::
    "sysvars \<Rightarrow> pubkey \<Rightarrow> pubkey \<Rightarrow> byte list \<Rightarrow> u64 \<Rightarrow> lock_validation_error + confirmed_terminal_epoch" where
  "confirmed_terminal_epoch_from_account sv epoch_account owner data confirmation_slot =
     try_bind (decode_program_epoch sv epoch_account owner data) (\<lambda>state.
     if \<not> (es_terminal_state state = Expired \<or> es_terminal_state state = Aborted_epoch)
     then Inl InvalidOnchainEpoch
     else Inr
       \<lparr> te_epoch_account = epoch_account, te_epoch_id = es_epoch_id state,
         te_terminal_state = es_terminal_state state, te_confirmation_slot = confirmation_slot \<rparr>)"

section \<open>Locked epochs\<close>

definition recorded_lock_payload :: "pubkey \<Rightarrow> epoch_state \<Rightarrow> lock_payload" where
  "recorded_lock_payload epoch_account state =
     \<lparr> lp_epoch_account = epoch_account,
       lp_configuration_hash = es_configuration_hash state,
       lp_pre_balance_root = es_pre_balance_root state,
       lp_member_root = es_member_root state,
       lp_member_count = es_member_count state,
       lp_lock_deadline = es_lock_deadline state,
       lp_lock_nonce = es_lock_nonce state \<rparr>"

definition confirmed_lock_from_account ::
    "suite \<Rightarrow> sysvars \<Rightarrow> pubkey \<Rightarrow> pubkey \<Rightarrow> byte list \<Rightarrow> u64 \<Rightarrow> lock_validation_error + confirmed_lock" where
  "confirmed_lock_from_account c sv epoch_account owner data confirmation_slot =
     (if owner \<noteq> ID then Inl InvalidOnchainLock
      else
      try_bind (map_err (\<lambda>_. InvalidOnchainLock) (epoch_state_decode data)) (\<lambda>state.
      let (expected, bump) = epoch_address (sv_runtime sv) (es_pool state) (es_epoch_id state);
          expected_lock_digest = lock_payload_digest (hash256 c) (recorded_lock_payload epoch_account state)
      in
      if expected \<noteq> epoch_account
         \<or> es_epoch_bump state \<noteq> bump
         \<or> es_terminal_state state \<noteq> Locked
         \<or> es_minimum_count state < 4
         \<or> es_member_count state < es_minimum_count state
         \<or> es_base_lot_atoms state = 0
         \<or> es_quote_atoms_per_lot state = 0
         \<or> es_abort_deadline state \<le>s es_lock_deadline state
         \<or> es_configuration_hash state = 0
         \<or> es_lock_nonce state = 0
         \<or> es_pre_balance_root state = 0
         \<or> es_member_root state = 0
         \<or> es_lock_digest state \<noteq> expected_lock_digest
      then Inl InvalidOnchainLock
      else Inr
        \<lparr> cl_epoch_account = epoch_account, cl_state = state, cl_pool = None,
          cl_confirmation_slot = confirmation_slot \<rparr>))"

definition confirmed_lock_from_accounts ::
    "suite \<Rightarrow> sysvars \<Rightarrow> pubkey \<Rightarrow> rpc_account \<Rightarrow> rpc_account \<Rightarrow> rpc_account \<Rightarrow> u64 \<Rightarrow>
     lock_validation_error + confirmed_lock" where
  "confirmed_lock_from_accounts c sv epoch_account epoch_account_data pool_account_data clock_account_data
       confirmation_slot =
     try_bind (confirmed_lock_from_account c sv epoch_account (ra_owner epoch_account_data)
       (ra_data epoch_account_data) confirmation_slot) (\<lambda>confirmed.
     if ra_owner pool_account_data \<noteq> ID \<or> ra_owner clock_account_data \<noteq> sv_owner sv
     then Inl InvalidOnchainLock
     else
     try_bind (map_err (\<lambda>_. InvalidOnchainLock) (pool_state_decode (ra_data pool_account_data))) (\<lambda>pool.
     let state = cl_state confirmed;
         (expected_pool, pool_bump) =
           pool_address (sv_runtime sv) (ps_operator pool) (ps_base_mint pool) (ps_quote_mint pool);
         (_, vault_bump) = vault_authority_address (sv_runtime sv) (es_pool state)
     in
     try_bind (ok_or (sv_clock sv (ra_data clock_account_data)) InvalidOnchainLock) (\<lambda>clock.
     let configuration = epoch_configuration_of state pool in
     if expected_pool \<noteq> es_pool state
        \<or> ps_pool_bump pool \<noteq> pool_bump
        \<or> ps_vault_bump pool \<noteq> vault_bump
        \<or> ps_lock_threshold pool \<noteq> 2
        \<or> ps_settlement_threshold pool \<noteq> 2
        \<or> ps_base_lot_atoms pool = 0
        \<or> ps_base_mint pool = ps_quote_mint pool
        \<or> configuration_digest (hash256 c) configuration \<noteq> es_configuration_hash state
        \<or> ck_slot clock > confirmation_slot
        \<or> es_abort_deadline state <s ck_unix_timestamp clock
     then Inl InvalidOnchainLock
     else Inr (confirmed \<lparr> cl_pool := Some pool \<rparr>))))"

section \<open>The program client\<close>

text \<open>The second read: three accounts of one view that is not older than the first.\<close>

definition three_accounts ::
    "u64 \<Rightarrow> u64 \<times> rpc_account option list \<Rightarrow>
     lock_validation_error + rpc_account \<times> rpc_account \<times> rpc_account" where
  "three_accounts initial_slot = (\<lambda>(slot, accounts).
     if slot < initial_slot \<or> length accounts \<noteq> 3 then Inl Rpc
     else
     try_bind (ok_or (accounts ! 0) MissingAccount) (\<lambda>epoch.
     try_bind (ok_or (accounts ! 1) MissingAccount) (\<lambda>pool.
     try_bind (ok_or (accounts ! 2) MissingAccount) (\<lambda>clock.
     Inr (epoch, pool, clock)))))"

definition fetch_confirmed_lock ::
    "suite \<Rightarrow> sysvars \<Rightarrow> rpc_client \<Rightarrow> pubkey \<Rightarrow> lock_validation_error + confirmed_lock" where
  "fetch_confirmed_lock c sv rpc epoch_account =
     try_bind (ok_or (rpc_get_account rpc epoch_account) Rpc) (\<lambda>(initial_slot, value).
     try_bind (ok_or value MissingAccount) (\<lambda>account.
     try_bind (confirmed_lock_from_account c sv epoch_account (ra_owner account) (ra_data account) initial_slot) (\<lambda>initial_lock.
     try_bind (ok_or (rpc_get_multiple rpc
       [epoch_account, es_pool (cl_state initial_lock), rt_clock_id (sv_runtime sv)]) Rpc) (\<lambda>response.
     try_bind (three_accounts (cl_confirmation_slot initial_lock) response) (\<lambda>(epoch, pool, clock).
     confirmed_lock_from_accounts c sv epoch_account epoch pool clock (fst response))))))"

definition fetch_confirmed_open_epoch ::
    "suite \<Rightarrow> sysvars \<Rightarrow> rpc_client \<Rightarrow> pubkey \<Rightarrow> lock_validation_error + confirmed_open_epoch" where
  "fetch_confirmed_open_epoch c sv rpc epoch_account =
     try_bind (ok_or (rpc_get_account rpc epoch_account) Rpc) (\<lambda>(initial_slot, value).
     try_bind (ok_or value MissingAccount) (\<lambda>initial_epoch.
     try_bind (decode_program_epoch sv epoch_account (ra_owner initial_epoch) (ra_data initial_epoch)) (\<lambda>initial_state.
     try_bind (ok_or (rpc_get_multiple rpc
       [epoch_account, es_pool initial_state, rt_clock_id (sv_runtime sv)]) Rpc) (\<lambda>response.
     try_bind (three_accounts initial_slot response) (\<lambda>(epoch, pool, clock).
     confirmed_open_epoch_from_accounts c sv epoch_account epoch (es_pool initial_state) pool clock
       (fst response))))))"

definition fetch_confirmed_terminal_epoch ::
    "suite \<Rightarrow> sysvars \<Rightarrow> rpc_client \<Rightarrow> pubkey \<Rightarrow> lock_validation_error + confirmed_terminal_epoch" where
  "fetch_confirmed_terminal_epoch c sv rpc epoch_account =
     try_bind (ok_or (rpc_get_account rpc epoch_account) Rpc) (\<lambda>(slot, value).
     try_bind (ok_or value MissingAccount) (\<lambda>account.
     confirmed_terminal_epoch_from_account sv epoch_account (ra_owner account) (ra_data account) slot))"

end
