(* ===== verification/Keyper_Process.thy ===== *)
theory Keyper_Process
  imports Settlement_Wire Lock_Confirmed "HOL-Library.Sublist"
begin

unbundle bit_operations_syntax

text \<open>
  The keyper as a process (\<open>kageb-host/src/keyper.rs\<close>, and the keyper commands of \<open>bin/kageb.rs\<close>). The
  coordinator starts one child per request in the keyper's private directory, writes a framed request with the
  keyper's secret share to its standard input, searches everything the child left behind for the bytes of the
  secret, and accepts only an answer that it verified itself. The child reads its configuration from the private
  directory, its view of the chain from its own node, and answers through the lock gate.
\<close>

section \<open>Constants and errors\<close>

definition REQUEST_VERSION :: u8 where
  "REQUEST_VERSION = 1"

definition REQUEST_LEN :: nat where
  "REQUEST_LEN = 73"

definition PK_SIZE :: nat where
  "PK_SIZE = 48"

definition SIG_SIZE :: nat where
  "SIG_SIZE = 96"

definition RESPONSE_LEN :: nat where
  "RESPONSE_LEN = 1 + 8 + PK_SIZE + SIG_SIZE"

definition BOUND_SHARE_LEN :: nat where
  "BOUND_SHARE_LEN = 73"

definition SIGN_LOCK_PREFIX_LEN :: nat where
  "SIGN_LOCK_PREFIX_LEN = BOUND_SHARE_LEN + 4"

definition SIGN_LOCK_RESPONSE_LEN :: nat where
  "SIGN_LOCK_RESPONSE_LEN = 129"

definition MAX_SIGN_LOCK_REQUEST_LEN :: nat where
  "MAX_SIGN_LOCK_REQUEST_LEN = 64 * 1024"

definition RELEASE_PREFIX_LEN :: nat where
  "RELEASE_PREFIX_LEN = BOUND_SHARE_LEN + 8"

definition MAX_RELEASE_REQUEST_LEN :: nat where
  "MAX_RELEASE_REQUEST_LEN = 64 * 1024"

definition MAX_SETTLEMENT_REQUEST_LEN :: nat where
  "MAX_SETTLEMENT_REQUEST_LEN = 128 * 1024"

definition MAX_SETTLEMENT_FRAME_LEN :: nat where
  "MAX_SETTLEMENT_FRAME_LEN = BOUND_SHARE_LEN + MAX_SETTLEMENT_REQUEST_LEN"

definition SETTLEMENT_STDIN_READ_LIMIT :: nat where
  "SETTLEMENT_STDIN_READ_LIMIT = MAX_SETTLEMENT_FRAME_LEN + 1"

lemmas keyper_lens = REQUEST_LEN_def PK_SIZE_def SIG_SIZE_def RESPONSE_LEN_def BOUND_SHARE_LEN_def
  SIGN_LOCK_PREFIX_LEN_def SIGN_LOCK_RESPONSE_LEN_def MAX_SIGN_LOCK_REQUEST_LEN_def RELEASE_PREFIX_LEN_def
  MAX_RELEASE_REQUEST_LEN_def MAX_SETTLEMENT_REQUEST_LEN_def MAX_SETTLEMENT_FRAME_LEN_def
  SETTLEMENT_STDIN_READ_LIMIT_def

datatype keyper_process_error =
  InsecureDirectory | Spawn | Input | ChildFailed | InvalidRequest | InvalidResponse | SecretLeak

section \<open>The libraries\<close>

text \<open>
  What the code uses of \<open>threshold_crypto\<close> and of its \<open>bincode\<close> codec for a secret key share:
  the 32-byte form of a secret, the signature of a share and the validity of encoded points. A public key share
  is kept in its encoded form, as everywhere.
\<close>

type_synonym signature_share = "768 word"

record share_library =
  serialize_secret :: "secret_key_share \<Rightarrow> byte list option"
  deserialize_secret :: "byte list \<Rightarrow> secret_key_share option"
  share_sign :: "secret_key_share \<Rightarrow> byte list \<Rightarrow> signature_share"
  public_share_valid :: "public_key_share \<Rightarrow> bool"
  signature_share_valid :: "signature_share \<Rightarrow> bool"
  share_verify :: "public_key_share \<Rightarrow> signature_share \<Rightarrow> byte list \<Rightarrow> bool"

text \<open>A file system entry as \<open>metadata\<close> and \<open>symlink_metadata\<close> describe it.\<close>

record metadata =
  md_is_dir :: bool
  md_is_file :: bool
  md_is_symlink :: bool
  md_len :: u64
  md_mode :: u32

definition private_mode :: "metadata \<Rightarrow> bool" where
  "private_mode md \<longleftrightarrow> md_mode md AND 63 = 0"

definition u64_try_from :: "nat \<Rightarrow> u64 option" where
  "u64_try_from n = (if n < 2 ^ 64 then Some (of_nat n) else None)"

section \<open>The leak scan\<close>

definition windows :: "nat \<Rightarrow> 'a list \<Rightarrow> 'a list list" where
  "windows n xs = map (\<lambda>i. slice i (i + n) xs) [0..<length xs + 1 - n]"

definition contains_bytes :: "byte list \<Rightarrow> byte list \<Rightarrow> bool" where
  "contains_bytes haystack needle \<longleftrightarrow>
     needle \<noteq> [] \<and> list_ex (\<lambda>window. window = needle) (windows (length needle) haystack)"

text \<open>
  A directory as \<open>read_dir\<close> iterates over it: an entry or its type may be unreadable, and so may a
  directory below and a file's content (\<open>None\<close>). Sockets, pipes and devices are \<open>Special\<close>.
\<close>

datatype dir_entry =
    Entry_failed
  | Symlink
  | Directory "dir_entry list option"
  | Regular "byte list option"
  | Special

fun scan_entries :: "byte list \<Rightarrow> dir_entry list \<Rightarrow> keyper_process_error + bool" where
  "scan_entries needle [] = Inr False"
| "scan_entries needle (Entry_failed # entries) = Inl Input"
| "scan_entries needle (Symlink # entries) = Inl Input"
| "scan_entries needle (Directory None # entries) = Inl Input"
| "scan_entries needle (Directory (Some below) # entries) =
     try_bind (scan_entries needle below) (\<lambda>found. if found then Inr True else scan_entries needle entries)"
| "scan_entries needle (Regular None # entries) = Inl Input"
| "scan_entries needle (Regular (Some bytes) # entries) =
     (if contains_bytes bytes needle then Inr True else scan_entries needle entries)"
| "scan_entries needle (Special # entries) = scan_entries needle entries"

definition directory_contains_bytes :: "dir_entry list option \<Rightarrow> byte list \<Rightarrow> keyper_process_error + bool" where
  "directory_contains_bytes directory needle =
     (case directory of None \<Rightarrow> Inl Input | Some entries \<Rightarrow> scan_entries needle entries)"

section \<open>The parent's side of a child process\<close>

record child_output =
  co_success :: bool
  co_stdout :: "byte list"
  co_stderr :: "byte list"

text \<open>How far the parent gets with a child: \<open>Command::spawn\<close>, its pipe, the write and the wait.\<close>

datatype child_run = Not_spawned | No_stdin | Write_failed | Wait_failed | Exited child_output

text \<open>
  The executable is whatever is installed at the path: from the operation and its standard input it
  produces a run and leaves the private directory in some state.
\<close>

record keyper_host =
  kh_executable :: "byte list"
  kh_directory :: "byte list"
  kh_metadata :: "metadata option"
  kh_child :: "byte list \<Rightarrow> byte list \<Rightarrow> child_run \<times> dir_entry list option"

definition verify_private_directory :: "metadata option \<Rightarrow> keyper_process_error + unit" where
  "verify_private_directory found =
     try_bind (ok_or found InsecureDirectory) (\<lambda>md.
     if \<not> md_is_dir md then Inl InsecureDirectory
     else if \<not> private_mode md then Inl InsecureDirectory
     else Inr ())"

fun child_wait :: "child_run \<Rightarrow> keyper_process_error + child_output" where
  "child_wait Not_spawned = Inl Spawn"
| "child_wait No_stdin = Inl Spawn"
| "child_wait Write_failed = Inl Input"
| "child_wait Wait_failed = Inl ChildFailed"
| "child_wait (Exited out) = Inr out"

definition run_one_shot ::
    "keyper_host \<Rightarrow> byte list \<Rightarrow> byte list \<Rightarrow> byte list \<Rightarrow> keyper_process_error + child_output" where
  "run_one_shot host operation encoded secret_bytes =
     (case kh_child host operation encoded of (run, directory) \<Rightarrow>
      try_bind (child_wait run) (\<lambda>out.
      if contains_bytes (kh_executable host) secret_bytes
         \<or> contains_bytes (kh_directory host) secret_bytes
         \<or> contains_bytes operation secret_bytes
         \<or> contains_bytes (co_stdout out) secret_bytes
         \<or> contains_bytes (co_stderr out) secret_bytes
      then Inl SecretLeak
      else
      try_bind (directory_contains_bytes directory secret_bytes) (\<lambda>found.
      if found then Inl SecretLeak else Inr out)))"

section \<open>Framing a share\<close>

definition append_bound_share ::
    "share_library \<Rightarrow> byte list \<Rightarrow> keyper_secret_share \<Rightarrow> keyper_process_error + byte list \<times> byte list" where
  "append_bound_share lib encoded share =
     try_bind (ok_or (serialize_secret lib (ks_secret share)) Input) (\<lambda>secret_bytes.
     try_bind (ok_or (u64_try_from (ks_index share)) Input) (\<lambda>index.
     let encoded = encoded @ [REQUEST_VERSION] @ arr_bytes (ks_epoch_account share) @ to_le_bytes index @ secret_bytes in
     if length encoded \<noteq> BOUND_SHARE_LEN then Inl Input else Inr (encoded, secret_bytes)))"

definition decode_bound_share :: "share_library \<Rightarrow> byte list \<Rightarrow> keyper_process_error + keyper_secret_share" where
  "decode_bound_share lib encoded =
     (if length encoded \<noteq> BOUND_SHARE_LEN \<or> encoded ! 0 \<noteq> REQUEST_VERSION then Inl InvalidRequest
      else
      try_bind (ok_or (deserialize_secret lib (drop 41 encoded)) InvalidRequest) (\<lambda>secret.
      Inr \<lparr> ks_epoch_account = arr_of (slice 1 33 encoded),
            ks_index = unat (from_le_bytes (slice 33 41 encoded) :: u64), ks_secret = secret \<rparr>))"

section \<open>The self test\<close>

record self_test_response =
  st_index :: nat
  st_public_key_share :: public_key_share
  st_signature :: signature_share

definition self_test_verify :: "share_library \<Rightarrow> self_test_response \<Rightarrow> bytes32 \<Rightarrow> bool" where
  "self_test_verify lib response challenge =
     (if \<not> public_share_valid lib (st_public_key_share response) then False
      else if \<not> signature_share_valid lib (st_signature response) then False
      else share_verify lib (st_public_key_share response) (st_signature response) (arr_bytes challenge))"

text \<open>
  The fixed-width \<open>bincode\<close> form of \<open>SelfTestRequest\<close> with the codec's size limit; on reading,
  the bytes after the fixed fields are the secret's and none may be left over.
\<close>

definition self_test_serialize ::
    "share_library \<Rightarrow> u8 \<Rightarrow> u64 \<Rightarrow> bytes32 \<Rightarrow> secret_key_share \<Rightarrow> byte list option" where
  "self_test_serialize lib version index challenge share =
     Option.bind (serialize_secret lib share) (\<lambda>secret_bytes.
     let encoded = [version] @ to_le_bytes index @ arr_bytes challenge @ secret_bytes in
     if length encoded > REQUEST_LEN then None else Some encoded)"

definition self_test_deserialize ::
    "share_library \<Rightarrow> byte list \<Rightarrow> (u8 \<times> u64 \<times> bytes32 \<times> secret_key_share) option" where
  "self_test_deserialize lib bytes =
     (if length bytes < 41 then None
      else Option.bind (deserialize_secret lib (drop 41 bytes)) (\<lambda>secret.
        Some (bytes ! 0, from_le_bytes (slice 1 9 bytes), arr_of (slice 9 41 bytes), secret)))"

definition encode_response :: "self_test_response \<Rightarrow> byte list" where
  "encode_response response =
     [REQUEST_VERSION] @ to_le_bytes (of_nat (st_index response) :: u64) @ arr_bytes (st_public_key_share response) @
     arr_bytes (st_signature response)"

definition decode_response :: "share_library \<Rightarrow> byte list \<Rightarrow> keyper_process_error + self_test_response" where
  "decode_response lib encoded =
     (if length encoded \<noteq> RESPONSE_LEN \<or> encoded ! 0 \<noteq> REQUEST_VERSION then Inl InvalidResponse
      else let
        response = \<lparr> st_index = unat (from_le_bytes (slice 1 9 encoded) :: u64),
          st_public_key_share = arr_of (slice 9 (9 + PK_SIZE) encoded),
          st_signature = arr_of (drop (9 + PK_SIZE) encoded) \<rparr>
      in
      if \<not> public_share_valid lib (st_public_key_share response) \<or> \<not> signature_share_valid lib (st_signature response)
      then Inl InvalidResponse else Inr response)"

definition run_keyper_self_test ::
    "share_library \<Rightarrow> keyper_host \<Rightarrow> keyper_secret_share \<Rightarrow> bytes32 \<Rightarrow> keyper_process_error + self_test_response" where
  "run_keyper_self_test lib host share challenge =
     try_bind (verify_private_directory (kh_metadata host)) (\<lambda>_.
     try_bind (ok_or (u64_try_from (ks_index share)) Input) (\<lambda>index.
     try_bind (ok_or (self_test_serialize lib REQUEST_VERSION index challenge (ks_secret share)) Input) (\<lambda>encoded.
     if length encoded \<noteq> REQUEST_LEN then Inl Input
     else
     try_bind (ok_or (serialize_secret lib (ks_secret share)) Input) (\<lambda>secret_bytes.
     try_bind (child_wait (fst (kh_child host (ascii ''self-test'') encoded))) (\<lambda>out.
     if \<not> co_success out then Inl ChildFailed
     else if contains_bytes (co_stdout out) secret_bytes \<or> contains_bytes (co_stderr out) secret_bytes then Inl SecretLeak
     else if co_stderr out \<noteq> [] then Inl InvalidResponse
     else
     try_bind (decode_response lib (co_stdout out)) (\<lambda>response.
     if st_index response \<noteq> ks_index share \<or> \<not> self_test_verify lib response challenge then Inl InvalidResponse
     else Inr response))))))"

section \<open>Requests to a keyper\<close>

definition validate_lock_approval :: "suite \<Rightarrow> pubkey \<Rightarrow> bytes32 \<Rightarrow> lock_approval \<Rightarrow> keyper_process_error + unit" where
  "validate_lock_approval c expected_keyper expected_digest approval =
     (if la_keyper_key approval \<noteq> expected_keyper
         \<or> la_digest approval \<noteq> expected_digest
         \<or> \<not> lock_approval_verify c approval
      then Inl InvalidResponse else Inr ())"

definition run_keyper_sign_lock ::
    "suite \<Rightarrow> share_library \<Rightarrow> keyper_host \<Rightarrow> keyper_secret_share \<Rightarrow> pubkey \<Rightarrow> lock_package \<Rightarrow>
     keyper_process_error + lock_approval" where
  "run_keyper_sign_lock c lib host share expected_keyper package =
     try_bind (verify_private_directory (kh_metadata host)) (\<lambda>_.
     let expected_digest = lock_payload_digest (hash256 c) (package_lock_payload c package) in
     try_bind (map_err (\<lambda>_. Input) (package_encode_wire c package)) (\<lambda>package.
     try_bind (ok_or (u32_try_from (length package)) Input) (\<lambda>package_len.
     try_bind (append_bound_share lib [] share) (\<lambda>(encoded, secret_bytes).
     let encoded = encoded @ to_le_bytes package_len @ package in
     if length encoded > MAX_SIGN_LOCK_REQUEST_LEN then Inl Input
     else
     try_bind (run_one_shot host (ascii ''sign-lock'') encoded secret_bytes) (\<lambda>out.
     if \<not> co_success out then Inl ChildFailed
     else if co_stderr out \<noteq> [] \<or> length (co_stdout out) \<noteq> SIGN_LOCK_RESPONSE_LEN then Inl InvalidResponse
     else let
       approval = \<lparr> la_keyper_key = arr_of (slice 1 33 (co_stdout out)), la_digest = arr_of (slice 33 65 (co_stdout out)),
         la_signature = arr_of (slice 65 129 (co_stdout out)) \<rparr>
     in
     if co_stdout out ! 0 \<noteq> REQUEST_VERSION then Inl InvalidResponse
     else
     try_bind (validate_lock_approval c expected_keyper expected_digest approval) (\<lambda>_.
     Inr approval))))))"

definition run_keyper_release_share ::
    "suite \<Rightarrow> share_library \<Rightarrow> keyper_host \<Rightarrow> keyper_secret_share \<Rightarrow> lock_package \<Rightarrow> nat \<Rightarrow>
     keyper_process_error + released_share" where
  "run_keyper_release_share c lib host share package member_index =
     try_bind (verify_private_directory (kh_metadata host)) (\<lambda>_.
     try_bind (map_err (\<lambda>_. Input) (package_encode_wire c package)) (\<lambda>package_bytes.
     try_bind (append_bound_share lib [] share) (\<lambda>(encoded, secret_bytes).
     try_bind (ok_or (u32_try_from member_index) Input) (\<lambda>member.
     try_bind (ok_or (u32_try_from (length package_bytes)) Input) (\<lambda>package_len.
     let encoded = encoded @ to_le_bytes member @ to_le_bytes package_len @ package_bytes in
     if length encoded > MAX_RELEASE_REQUEST_LEN then Inl Input
     else
     try_bind (run_one_shot host (ascii ''release-share'') encoded secret_bytes) (\<lambda>out.
     if \<not> co_success out then Inl ChildFailed
     else if co_stderr out \<noteq> [] then Inl InvalidResponse
     else
     try_bind (map_err (\<lambda>_. InvalidResponse) (released_share_decode c (co_stdout out))) (\<lambda>released.
     if member_index \<ge> length (pk_submissions package) then Inl Input
     else let submission = pk_submissions package ! member_index in
     if rs_index released \<noteq> ks_index share
        \<or> rs_epoch_account released \<noteq> pk_epoch_account package
        \<or> rs_lock_digest released \<noteq> lock_payload_digest (hash256 c) (package_lock_payload c package)
        \<or> \<not> released_share_verify c released (pk_epoch_public_keys package) submission
     then Inl InvalidResponse
     else Inr released)))))))"

definition run_keyper_sign_settlement ::
    "suite \<Rightarrow> share_library \<Rightarrow> keyper_host \<Rightarrow> keyper_secret_share \<Rightarrow> pubkey \<Rightarrow> settlement_request \<Rightarrow>
     keyper_process_error + settlement_approval" where
  "run_keyper_sign_settlement c lib host share expected_keyper request =
     try_bind (verify_private_directory (kh_metadata host)) (\<lambda>_.
     try_bind (map_err (\<lambda>_. Input) (request_encode_wire c request)) (\<lambda>request_bytes.
     if length request_bytes > MAX_SETTLEMENT_REQUEST_LEN then Inl Input
     else
     try_bind (append_bound_share lib [] share) (\<lambda>(encoded, secret_bytes).
     let encoded = encoded @ request_bytes in
     if length encoded > MAX_SETTLEMENT_FRAME_LEN then Inl Input
     else
     try_bind (run_one_shot host (ascii ''sign-settlement'') encoded secret_bytes) (\<lambda>out.
     if \<not> co_success out then Inl ChildFailed
     else if co_stderr out \<noteq> [] then Inl InvalidResponse
     else
     try_bind (map_err (\<lambda>_. InvalidResponse) (approval_decode_wire (co_stdout out))) (\<lambda>approval.
     if sa_keyper_key approval \<noteq> expected_keyper
        \<or> sa_digest approval \<noteq> sq_settlement_digest request
        \<or> \<not> settlement_approval_verify c approval
        \<or> ks_index share \<ge> 3
     then Inl InvalidResponse
     else Inr approval)))))"

end
