(* ===== verification/Keyper_Child.thy ===== *)
theory Keyper_Child
  imports Keyper_Process
begin

text \<open>
  The child's side of the keyper process (\<open>keyper.rs\<close>, \<open>handle_keyper_*\<close> and the readers of the
  private directory) and the keyper commands of the binary (\<open>bin/kageb.rs\<close>).
\<close>

section \<open>Configuration files\<close>

text \<open>
  A text is the list of its code points; \<open>char::is_whitespace\<close> is the Unicode property White Space and
  \<open>str::len\<close> counts UTF-8 bytes.
\<close>

type_synonym utext = "nat list"

definition is_whitespace :: "nat \<Rightarrow> bool" where
  "is_whitespace u \<longleftrightarrow>
     9 \<le> u \<and> u \<le> 13 \<or> u \<in> {32, 133, 160, 5760, 8232, 8233, 8239, 8287, 12288} \<or> 8192 \<le> u \<and> u \<le> 8202"

definition utf8_len :: "utext \<Rightarrow> nat" where
  "utf8_len t = sum_list (map (\<lambda>u. if u < 128 then 1 else if u < 2048 then 2 else if u < 65536 then 3 else 4) t)"

definition trim :: "utext \<Rightarrow> utext" where
  "trim t = rev (dropWhile is_whitespace (rev (dropWhile is_whitespace t)))"

text \<open>What a child finds: its standard streams, its two configuration files, its directory, node and journal.\<close>

record keyper_env =
  ke_stdin :: "byte list option"
  ke_stdout_ok :: bool
  ke_url_metadata :: "metadata option"
  ke_url_text :: "utext option"
  ke_key_metadata :: "metadata option"
  ke_key_bytes :: "byte list option"
  ke_current_dir :: bool
  ke_node :: "utext \<Rightarrow> rpc_client"
  ke_sysvars :: sysvars
  ke_open_io :: lock_io
  ke_sign_io :: lock_io

definition read_keyper_rpc_url :: "keyper_env \<Rightarrow> keyper_process_error + utext" where
  "read_keyper_rpc_url env =
     try_bind (ok_or (ke_url_metadata env) InvalidRequest) (\<lambda>md.
     if \<not> md_is_file md \<or> md_is_symlink md then Inl InvalidRequest
     else if \<not> private_mode md then Inl InvalidRequest
     else
     try_bind (ok_or (ke_url_text env) InvalidRequest) (\<lambda>url.
     let url = trim url in
     if url = [] \<or> utf8_len url > 2048 \<or> list_ex is_whitespace url then Inl InvalidRequest
     else Inr url))"

definition read_keyper_attestation_key :: "keyper_env \<Rightarrow> keyper_process_error + bytes32" where
  "read_keyper_attestation_key env =
     try_bind (ok_or (ke_key_metadata env) InvalidRequest) (\<lambda>md.
     if \<not> md_is_file md \<or> md_is_symlink md \<or> md_len md \<noteq> 32 then Inl InvalidRequest
     else if \<not> private_mode md then Inl InvalidRequest
     else
     try_bind (ok_or (ke_key_bytes env) InvalidRequest) (\<lambda>bytes.
     if length bytes \<noteq> 32 then Inl InvalidRequest else Inr (arr_of bytes)))"

definition read_stdin :: "keyper_env \<Rightarrow> nat \<Rightarrow> keyper_process_error + byte list" where
  "read_stdin env limit = map_err (\<lambda>_. InvalidRequest) (ok_or (map_option (take limit) (ke_stdin env)) ())"

definition write_stdout :: "keyper_env \<Rightarrow> byte list \<Rightarrow> keyper_process_error + byte list" where
  "write_stdout env bytes = (if ke_stdout_ok env then Inr bytes else Inl InvalidResponse)"

section \<open>The handlers\<close>

text \<open>
  A handler returns the bytes it wrote to its standard output. \<open>keeping\<close> runs the part of a handler
  that only reads in front of the part that uses the journal's files.
\<close>

definition keeping ::
    "'s \<Rightarrow> keyper_process_error + 'a \<Rightarrow> ('a \<Rightarrow> 's \<times> (keyper_process_error + 'b)) \<Rightarrow> 's \<times> (keyper_process_error + 'b)" where
  "keeping s r f = (case r of Inl e \<Rightarrow> (s, Inl e) | Inr x \<Rightarrow> f x)"

definition handle_keyper_self_test :: "suite \<Rightarrow> share_library \<Rightarrow> keyper_env \<Rightarrow> keyper_process_error + byte list" where
  "handle_keyper_self_test c lib env =
     try_bind (read_stdin env (REQUEST_LEN + 1)) (\<lambda>encoded.
     if length encoded \<noteq> REQUEST_LEN then Inl InvalidRequest
     else
     try_bind (ok_or (self_test_deserialize lib encoded) InvalidRequest) (\<lambda>(version, index, challenge, share).
     if version \<noteq> REQUEST_VERSION then Inl InvalidRequest
     else write_stdout env (encode_response
       \<lparr> st_index = unat index, st_public_key_share = public_share c share,
         st_signature = share_sign lib share (arr_bytes challenge) \<rparr>)))"

text \<open>\<open>LockJournal::open\<close> on the journal in the current directory.\<close>

definition open_keyper_journal ::
    "suite \<Rightarrow> keyper_env \<Rightarrow> lock_files \<Rightarrow> lock_files \<times> (keyper_process_error + lock_records)" where
  "open_keyper_journal c env files =
     (if \<not> ke_current_dir env then (files, Inl InvalidRequest)
      else case lock_journal_open (hash256 c) (ke_open_io env) files of
        (files, r) \<Rightarrow> (files, map_err (\<lambda>_. InvalidRequest) r))"

definition sign_lock_request ::
    "suite \<Rightarrow> share_library \<Rightarrow> keyper_env \<Rightarrow>
     keyper_process_error + keyper_secret_share \<times> lock_package \<times> bytes32 \<times> confirmed_open_epoch" where
  "sign_lock_request c lib env =
     try_bind (read_stdin env (MAX_SIGN_LOCK_REQUEST_LEN + 1)) (\<lambda>encoded.
     if length encoded < SIGN_LOCK_PREFIX_LEN \<or> length encoded > MAX_SIGN_LOCK_REQUEST_LEN then Inl InvalidRequest
     else if encoded ! 0 \<noteq> REQUEST_VERSION then Inl InvalidRequest
     else
     try_bind (decode_bound_share lib (take BOUND_SHARE_LEN encoded)) (\<lambda>secret.
     let package_len = unat (from_le_bytes (slice BOUND_SHARE_LEN SIGN_LOCK_PREFIX_LEN encoded) :: u32) in
     if SIGN_LOCK_PREFIX_LEN + package_len \<noteq> length encoded then Inl InvalidRequest
     else
     try_bind (map_err (\<lambda>_. InvalidRequest) (package_decode_wire c (drop SIGN_LOCK_PREFIX_LEN encoded))) (\<lambda>package.
     try_bind (read_keyper_attestation_key env) (\<lambda>signing_key.
     try_bind (map_err (\<lambda>_. InvalidRequest) (read_keyper_rpc_url env)) (\<lambda>rpc_url.
     try_bind (map_err (\<lambda>_. InvalidRequest)
       (fetch_confirmed_open_epoch c (ke_sysvars env) (ke_node env rpc_url) (pk_epoch_account package))) (\<lambda>confirmed.
     Inr (secret, package, signing_key, confirmed)))))))"

definition sign_lock_response :: "lock_approval \<Rightarrow> byte list" where
  "sign_lock_response approval =
     (let response = replicate SIGN_LOCK_RESPONSE_LEN 0;
          response = put 0 [REQUEST_VERSION] response;
          response = put 1 (arr_bytes (la_keyper_key approval)) response;
          response = put 33 (arr_bytes (la_digest approval)) response
      in put 65 (arr_bytes (la_signature approval)) response)"

definition handle_keyper_sign_lock ::
    "suite \<Rightarrow> share_library \<Rightarrow> keyper_env \<Rightarrow> lock_files \<Rightarrow> lock_files \<times> (keyper_process_error + byte list)" where
  "handle_keyper_sign_lock c lib env files =
     keeping files (sign_lock_request c lib env) (\<lambda>(secret, package, signing_key, confirmed).
     case open_keyper_journal c env files of ((path, marker), opened) \<Rightarrow>
     keeping (path, marker) opened (\<lambda>journal.
     case sign_lock c (ke_sign_io env) package confirmed secret
         (path, \<lparr> rk_index = ks_index secret, rk_signing_key = signing_key, rk_journal = journal \<rparr>) of
       ((path, _), outcome) \<Rightarrow>
         ((path, marker),
          try_bind (map_err (\<lambda>_. InvalidRequest) outcome) (\<lambda>approval. write_stdout env (sign_lock_response approval)))))"

definition release_request ::
    "suite \<Rightarrow> share_library \<Rightarrow> keyper_env \<Rightarrow>
     keyper_process_error + keyper_secret_share \<times> nat \<times> lock_package \<times> confirmed_lock \<times> bytes32" where
  "release_request c lib env =
     try_bind (read_stdin env (MAX_RELEASE_REQUEST_LEN + 1)) (\<lambda>encoded.
     if length encoded < RELEASE_PREFIX_LEN \<or> length encoded > MAX_RELEASE_REQUEST_LEN \<or> encoded ! 0 \<noteq> REQUEST_VERSION
     then Inl InvalidRequest
     else
     try_bind (decode_bound_share lib (take BOUND_SHARE_LEN encoded)) (\<lambda>secret.
     let
       member_index = unat (from_le_bytes (slice BOUND_SHARE_LEN (BOUND_SHARE_LEN + 4) encoded) :: u32);
       package_len = unat (from_le_bytes (slice (BOUND_SHARE_LEN + 4) RELEASE_PREFIX_LEN encoded) :: u32)
     in
     if RELEASE_PREFIX_LEN + package_len \<noteq> length encoded then Inl InvalidRequest
     else
     try_bind (map_err (\<lambda>_. InvalidRequest) (package_decode_wire c (drop RELEASE_PREFIX_LEN encoded))) (\<lambda>package.
     if ks_epoch_account secret \<noteq> pk_epoch_account package then Inl InvalidRequest
     else
     try_bind (read_keyper_rpc_url env) (\<lambda>rpc_url.
     try_bind (map_err (\<lambda>_. InvalidRequest)
       (fetch_confirmed_lock c (ke_sysvars env) (ke_node env rpc_url) (pk_epoch_account package))) (\<lambda>confirmed.
     try_bind (read_keyper_attestation_key env) (\<lambda>signing_key.
     Inr (secret, member_index, package, confirmed, signing_key)))))))"

definition handle_keyper_release_share ::
    "suite \<Rightarrow> share_library \<Rightarrow> keyper_env \<Rightarrow> lock_files \<Rightarrow> lock_files \<times> (keyper_process_error + byte list)" where
  "handle_keyper_release_share c lib env files =
     keeping files (release_request c lib env) (\<lambda>(secret, member_index, package, confirmed, signing_key).
     case open_keyper_journal c env files of (files, opened) \<Rightarrow>
     keeping files opened (\<lambda>journal.
     (files,
      try_bind (map_err (\<lambda>_. InvalidRequest) (release_share c
        \<lparr> rk_index = ks_index secret, rk_signing_key = signing_key, rk_journal = journal \<rparr>
        package confirmed secret member_index)) (\<lambda>released.
      try_bind (map_err (\<lambda>_. InvalidResponse) (released_share_encode c released)) (\<lambda>response.
      write_stdout env response)))))"

definition settlement_request_read ::
    "suite \<Rightarrow> share_library \<Rightarrow> keyper_env \<Rightarrow>
     keyper_process_error + keyper_secret_share \<times> settlement_request \<times> confirmed_lock \<times> bytes32" where
  "settlement_request_read c lib env =
     try_bind (read_stdin env SETTLEMENT_STDIN_READ_LIMIT) (\<lambda>encoded.
     if length encoded \<le> BOUND_SHARE_LEN \<or> length encoded > MAX_SETTLEMENT_FRAME_LEN then Inl InvalidRequest
     else
     try_bind (decode_bound_share lib (take BOUND_SHARE_LEN encoded)) (\<lambda>secret.
     try_bind (map_err (\<lambda>_. InvalidRequest) (request_decode_wire c (drop BOUND_SHARE_LEN encoded))) (\<lambda>request.
     try_bind (read_keyper_rpc_url env) (\<lambda>rpc_url.
     try_bind (map_err (\<lambda>_. InvalidRequest)
       (fetch_confirmed_lock c (ke_sysvars env) (ke_node env rpc_url) (pk_epoch_account (sq_package request)))) (\<lambda>confirmed.
     try_bind (read_keyper_attestation_key env) (\<lambda>signing_key.
     Inr (secret, request, confirmed, signing_key)))))))"

definition handle_keyper_sign_settlement ::
    "suite \<Rightarrow> share_library \<Rightarrow> keyper_env \<Rightarrow> lock_files \<Rightarrow> lock_files \<times> (keyper_process_error + byte list)" where
  "handle_keyper_sign_settlement c lib env files =
     keeping files (settlement_request_read c lib env) (\<lambda>(secret, request, confirmed, signing_key).
     case open_keyper_journal c env files of (files, opened) \<Rightarrow>
     keeping files opened (\<lambda>journal.
     (files,
      try_bind (ok_or (cl_pool confirmed) InvalidRequest) (\<lambda>pool.
      try_bind (ok_or (position (\<lambda>key. key = verifying_key c signing_key) (keyper_list (ps_keypers pool))) InvalidRequest) (\<lambda>index.
      try_bind (map_err (\<lambda>_. InvalidRequest) (sign_settlement c
        \<lparr> rk_index = index, rk_signing_key = signing_key, rk_journal = journal \<rparr> request confirmed secret)) (\<lambda>approval.
      write_stdout env (approval_encode_wire approval)))))))"

section \<open>The keyper commands of the binary\<close>

fun error_debug :: "keyper_process_error \<Rightarrow> byte list" where
  "error_debug InsecureDirectory = ascii ''InsecureDirectory''"
| "error_debug Spawn = ascii ''Spawn''"
| "error_debug Input = ascii ''Input''"
| "error_debug ChildFailed = ascii ''ChildFailed''"
| "error_debug InvalidRequest = ascii ''InvalidRequest''"
| "error_debug InvalidResponse = ascii ''InvalidResponse''"
| "error_debug SecretLeak = ascii ''SecretLeak''"

text \<open>
  The outcome of a handler as the parent sees it. A command that fails after it wrote a part of its answer is
  taken to have written nothing: the parent uses the output of a successful command only.
\<close>

definition exit_with :: "byte list option \<Rightarrow> keyper_process_error + byte list \<Rightarrow> child_output" where
  "exit_with rejected r = (case r of
     Inr out \<Rightarrow> \<lparr> co_success = True, co_stdout = out, co_stderr = [] \<rparr>
   | Inl e \<Rightarrow> \<lparr> co_success = False, co_stdout = [],
       co_stderr = (case rejected of None \<Rightarrow> [] | Some message \<Rightarrow> message @ error_debug e @ [10]) \<rparr>)"

definition keyper_main ::
    "suite \<Rightarrow> share_library \<Rightarrow> keyper_env \<Rightarrow> byte list \<Rightarrow> lock_files \<Rightarrow> lock_files \<times> child_output option" where
  "keyper_main c lib env command files =
     (if command = ascii ''self-test'' then (files, Some (exit_with None (handle_keyper_self_test c lib env)))
      else if command = ascii ''sign-lock'' then
        (case handle_keyper_sign_lock c lib env files of
           (files, r) \<Rightarrow> (files, Some (exit_with (Some (ascii ''sign-lock request rejected: '')) r)))
      else if command = ascii ''release-share'' then
        (case handle_keyper_release_share c lib env files of
           (files, r) \<Rightarrow> (files, Some (exit_with (Some (ascii ''release-share request rejected: '')) r)))
      else if command = ascii ''sign-settlement'' then
        (case handle_keyper_sign_settlement c lib env files of
           (files, r) \<Rightarrow> (files, Some (exit_with (Some (ascii ''sign-settlement request rejected: '')) r)))
      else (files, None))"

end
