(* ===== verification/Lock_Gate.thy ===== *)
theory Lock_Gate
  imports Lock_Journal Lock_Confirmed
begin

text \<open>
  Properties of the lock gate: what a validated package guarantees, that the lock digest binds it, that a
  keyper never signs two digests for one epoch, and that shares leave a keyper only for the lock that was
  confirmed on chain.
\<close>

section \<open>Validation\<close>

lemma of_nat_unat_id: "of_nat (unat w) = (w :: 'a::len word)"
  by simp

abbreviation member :: "encrypted_submission \<Rightarrow> bytes32" where
  "member s \<equiv> fa_participant_id (es_authorization s)"

lemma validate_submissions_Inr:
  "validate_submissions c policy ps ns rs subs = Inr () \<longleftrightarrow>
     (\<forall>s \<in> set subs. verify_admission c s policy = Inr ()) \<and>
     distinct (map member subs) \<and> member ` set subs \<inter> ps = {} \<and>
     distinct (map (\<lambda>s. fa_nonce (es_authorization s)) subs) \<and> (\<lambda>s. fa_nonce (es_authorization s)) ` set subs \<inter> ns = {} \<and>
     distinct (map es_receipt subs) \<and> es_receipt ` set subs \<inter> rs = {}"
proof (induction subs arbitrary: ps ns rs)
  case (Cons s subs)
  show ?case
    by (cases "verify_admission c s policy") (auto simp: Cons.IH Let_def res_simps)
qed simp

text \<open>Collecting the records into a map keeps them all exactly when no participant is repeated.\<close>

lemma collect_from:
  assumes "bt_wf m"
  shows "bt_wf (fold (\<lambda>b m. bt_insert (bl_participant_id b) b m) bs m) \<and>
    dom (bt_get (fold (\<lambda>b m. bt_insert (bl_participant_id b) b m) bs m)) = dom (bt_get m) \<union> bl_participant_id ` set bs \<and>
    (distinct (map bl_participant_id bs) \<longrightarrow>
      (\<forall>p. bt_get (fold (\<lambda>b m. bt_insert (bl_participant_id b) b m) bs m) p =
        (case find (\<lambda>b. bl_participant_id b = p) bs of Some b \<Rightarrow> Some b | None \<Rightarrow> bt_get m p)))"
  using assms
proof (induction bs arbitrary: m)
  case (Cons b bs)
  let ?m = "bt_insert (bl_participant_id b) b m"
  have wf: "bt_wf ?m" using Cons.prems by (rule bt_wf_insert)
  have none: "find (\<lambda>x. bl_participant_id x = bl_participant_id b) bs = None"
    if "bl_participant_id b \<notin> bl_participant_id ` set bs"
    using that unfolding find_None_iff by (metis image_eqI)
  show ?case
    using Cons.IH [OF wf] Cons.prems none
    by (auto simp: bt.dom_insert bt_get_insert split: option.splits)
qed simp

lemma collect_balances_length:
  "length (collect_balances bs) = length bs \<longleftrightarrow> distinct (map bl_participant_id bs)"
proof -
  have "bt_wf (collect_balances bs)" "dom (bt_get (collect_balances bs)) = bl_participant_id ` set bs"
    using collect_from [of "[]" bs] by (simp_all add: collect_balances_def bt.wf_empty bt.get_empty dom_def)
  then have "length (collect_balances bs) = card (set (map bl_participant_id bs))"
    using bt.length_entries [of "collect_balances bs"] by simp
  then show ?thesis by (metis card_distinct distinct_card length_map)
qed

lemma collect_balances_get:
  assumes "distinct (map bl_participant_id bs)"
  shows "bt_get (collect_balances bs) p = Some b \<longleftrightarrow> b \<in> set bs \<and> bl_participant_id b = p"
proof -
  have "bt_get (collect_balances bs) p = find (\<lambda>b. bl_participant_id b = p) bs"
    using collect_from [of "[]" bs] assms by (simp add: collect_balances_def bt.wf_empty bt.get_empty split: option.splits)
  moreover have "find (\<lambda>b. bl_participant_id b = p) bs = Some b \<longleftrightarrow> b \<in> set bs \<and> bl_participant_id b = p"
    using assms by (induction bs) (auto simp: image_iff)
  ultimately show ?thesis by simp
qed

lemma check_reserved_Inr:
  "check_reserved m s = Inr () \<longleftrightarrow>
     (\<exists>b. bt_get m (member s) = Some b \<and>
        bl_reserved_base_atoms b = fa_base_atoms (es_authorization s) \<and>
        bl_reserved_quote_atoms b = fa_quote_atoms (es_authorization s) \<and>
        bl_reserved_base_atoms b \<le> bl_base_atoms b \<and> bl_reserved_quote_atoms b \<le> bl_quote_atoms b)"
  by (auto simp: check_reserved_def res_simps not_less)

lemma snapshot_verify_Inr:
  "snapshot_verify c s e records key = Inr () \<longleftrightarrow>
     length records < 2 ^ 32 \<and> bs_epoch_id s = e \<and> bs_record_count s = of_nat (length records) \<and>
     bs_operator_key s = key \<and> balance_root c records = Inr (bs_balance_root s) \<and> key_from_bytes c key \<and>
     verify c key (snapshot_message e (of_nat (length records)) (bs_balance_root s)) (bs_signature s)"
  by (auto simp: snapshot_verify_def res_simps u32_try_from_def)

lemma configuration_accepted:
  "\<not> configuration_refused config \<longleftrightarrow>
     4 \<le> ec_minimum_count config \<and> ec_lock_threshold config = 2 \<and> ec_settlement_threshold config = 2 \<and>
     ec_pool config \<noteq> 0 \<and> ec_base_mint config \<noteq> 0 \<and> ec_quote_mint config \<noteq> 0 \<and>
     ec_base_mint config \<noteq> ec_quote_mint config \<and>
     0 \<notin> set (keyper_list (ec_keypers config)) \<and> distinct (keyper_list (ec_keypers config)) \<and>
     ec_lock_deadline config <s ec_abort_deadline config"
  by (cases "ec_keypers config") (auto simp: configuration_refused_def not_less word_sless_alt word_sle_eq)

text \<open>The members of a package, each with the one balance record that covers its reservation.\<close>

definition members_ok :: "suite \<Rightarrow> admission_policy \<Rightarrow> encrypted_submission list \<Rightarrow> bool" where
  "members_ok c policy subs \<longleftrightarrow>
     (\<forall>s \<in> set subs. verify_admission c s policy = Inr ()) \<and> distinct (map member subs) \<and>
     distinct (map (\<lambda>s. fa_nonce (es_authorization s)) subs) \<and> distinct (map es_receipt subs)"

definition covers :: "balance_record list \<Rightarrow> encrypted_submission list \<Rightarrow> bool" where
  "covers bs subs \<longleftrightarrow> distinct (map bl_participant_id bs) \<and> length bs = length subs \<and>
     (\<forall>s \<in> set subs. \<exists>b \<in> set bs. bl_participant_id b = member s \<and>
        bl_reserved_base_atoms b = fa_base_atoms (es_authorization s) \<and>
        bl_reserved_quote_atoms b = fa_quote_atoms (es_authorization s) \<and>
        bl_reserved_base_atoms b \<le> bl_base_atoms b \<and> bl_reserved_quote_atoms b \<le> bl_quote_atoms b)"

lemma package_validate_Inr:
  "package_validate c p confirmed = Inr digest \<longleftrightarrow>
     pk_epoch_account p = oe_epoch_account confirmed \<and> pk_configuration p = oe_configuration confirmed \<and>
     \<not> configuration_refused (pk_configuration p) \<and> pk_lock_nonce p \<noteq> 0 \<and>
     oe_current_timestamp confirmed <s ec_lock_deadline (pk_configuration p) \<and>
     length (pk_submissions p) \<le> MAX_BATCH_MEMBERS \<and>
     unat (pk_member_count p) = length (pk_submissions p) \<and>
     ec_minimum_count (pk_configuration p) \<le> pk_member_count p \<and>
     members_ok c (oe_policy confirmed) (pk_submissions p) \<and>
     member_root c (pk_epoch_public_keys p) (pk_submissions p) = Inr (pk_member_root p) \<and>
     snapshot_verify c (pk_balance_snapshot p) (ec_epoch_id (pk_configuration p)) (pk_balances p)
       (ap_operator_key (oe_policy confirmed)) = Inr () \<and>
     balance_root c (pk_balances p) = Inr (pk_pre_balance_root p) \<and>
     covers (pk_balances p) (pk_submissions p) \<and>
     digest = lock_payload_digest (hash256 c) (package_lock_payload c p)" (is "?l \<longleftrightarrow> ?r")
proof -
  have covers: "length (pk_balances p) = length (pk_submissions p) \<and>
      length (collect_balances (pk_balances p)) = length (pk_balances p) \<and>
      try_all (check_reserved (collect_balances (pk_balances p))) (pk_submissions p) = Inr () \<longleftrightarrow>
      covers (pk_balances p) (pk_submissions p)"
    unfolding try_all_Inr check_reserved_Inr collect_balances_length covers_def
    using collect_balances_get [of "pk_balances p"] by blast
  have sless: "\<not> a \<le>s b \<longleftrightarrow> b <s a" for a b :: i64 by (simp add: word_sless_alt word_sle_eq not_le)
  have "?l \<longleftrightarrow> pk_epoch_account p = oe_epoch_account confirmed \<and> pk_configuration p = oe_configuration confirmed \<and>
     \<not> configuration_refused (pk_configuration p) \<and> pk_lock_nonce p \<noteq> 0 \<and>
     oe_current_timestamp confirmed <s ec_lock_deadline (pk_configuration p) \<and>
     length (pk_submissions p) \<le> MAX_BATCH_MEMBERS \<and> length (pk_balances p) \<le> MAX_BATCH_MEMBERS \<and>
     unat (pk_member_count p) = length (pk_submissions p) \<and>
     ec_minimum_count (pk_configuration p) \<le> pk_member_count p \<and>
     validate_submissions c (oe_policy confirmed) {} {} {} (pk_submissions p) = Inr () \<and>
     member_root c (pk_epoch_public_keys p) (pk_submissions p) = Inr (pk_member_root p) \<and>
     snapshot_verify c (pk_balance_snapshot p) (ec_epoch_id (pk_configuration p)) (pk_balances p)
       (ap_operator_key (oe_policy confirmed)) = Inr () \<and>
     balance_root c (pk_balances p) = Inr (pk_pre_balance_root p) \<and>
     (length (pk_balances p) = length (pk_submissions p) \<and>
      length (collect_balances (pk_balances p)) = length (pk_balances p) \<and>
      try_all (check_reserved (collect_balances (pk_balances p))) (pk_submissions p) = Inr ()) \<and>
     digest = lock_payload_digest (hash256 c) (package_lock_payload c p)"
    by (auto simp: package_validate_def res_simps Let_def not_less sless simp del: One_nat_def)
  also have "\<dots> \<longleftrightarrow> ?r"
    unfolding covers validate_submissions_Inr members_ok_def by (auto simp: covers_def)
  finally show ?thesis .
qed

section \<open>Codecs\<close>

lemma balance_record_encode_eq:
  "balance_record_encode b = arr_bytes (bl_participant_id b) @ to_le_bytes (bl_base_atoms b) @ to_le_bytes (bl_quote_atoms b) @
     to_le_bytes (bl_reserved_base_atoms b) @ to_le_bytes (bl_reserved_quote_atoms b)"
  by (simp add: balance_record_encode_def Let_def bytes_simps)

lemma snapshot_encode_eq:
  "snapshot_encode s = arr_bytes (bs_epoch_id s) @ to_le_bytes (bs_record_count s) @ arr_bytes (bs_balance_root s) @
     arr_bytes (bs_operator_key s) @ arr_bytes (bs_signature s)"
  by (simp add: snapshot_encode_def Let_def bytes_simps)

definition balance_valid :: "balance_record \<Rightarrow> bool" where
  "balance_valid b \<longleftrightarrow> bl_participant_id b \<noteq> 0 \<and> bl_reserved_base_atoms b \<noteq> 0 \<and> bl_reserved_quote_atoms b \<noteq> 0 \<and>
     bl_reserved_base_atoms b \<le> bl_base_atoms b \<and> bl_reserved_quote_atoms b \<le> bl_quote_atoms b"

lemma balance_record_new_Inr:
  "balance_record_new p b q rb rq = Inr r \<longleftrightarrow>
     r = \<lparr> bl_participant_id = p, bl_base_atoms = b, bl_quote_atoms = q, bl_reserved_base_atoms = rb,
       bl_reserved_quote_atoms = rq \<rparr> \<and> balance_valid r"
  by (auto simp: balance_record_new_def balance_valid_def not_less)

interpretation balance_codec: record_codec balance_record_encode balance_record_decode balance_valid 64
proof unfold_locales
  fix b :: balance_record
  show "length (balance_record_encode b) = 64" by (simp add: balance_record_encode_eq)
  assume "balance_valid b"
  then show "ok (balance_record_decode (balance_record_encode b)) = Some b"
    unfolding ok_Some by (simp add: balance_record_decode_def balance_record_encode_eq bytes_simps balance_record_new_Inr)
next
  fix bytes b assume "ok (balance_record_decode bytes) = Some b"
  then have dec: "balance_record_decode bytes = Inr b" by (simp add: ok_Some)
  then have len: "length bytes = 64" by (auto simp: balance_record_decode_def split: if_splits)
  with dec have b: "b = \<lparr> bl_participant_id = arr_of (slice 0 32 bytes), bl_base_atoms = from_le_bytes (slice 32 40 bytes),
      bl_quote_atoms = from_le_bytes (slice 40 48 bytes), bl_reserved_base_atoms = from_le_bytes (slice 48 56 bytes),
      bl_reserved_quote_atoms = from_le_bytes (slice 56 64 bytes) \<rparr>" and valid: "balance_valid b"
    by (auto simp: balance_record_decode_def balance_record_new_Inr)
  have "balance_record_encode b = slice 0 64 bytes"
    using len by (simp add: b balance_record_encode_eq slice_join)
  with valid len show "balance_valid b \<and> balance_record_encode b = bytes" by (simp add: slice_all)
qed

lemma balance_encode_inj: "balance_record_encode a = balance_record_encode b \<longleftrightarrow> a = b"
  by (auto simp: balance_record_encode_eq intro: balance_record.equality)

section \<open>The digest binds the package\<close>

text \<open>The leaf of the key set starts with a letter, the leaf of a member with the version.\<close>

lemma keys_leaf_not_member:
  assumes "fa_version (es_authorization s) = AUTHORIZATION_VERSION"
  shows "EPOCH_KEY_SET_DOMAIN @ encoded \<noteq> commitment_bytes c s"
  using assms
  by (simp add: commitment_bytes_def authorization_encode_eq unsigned_bytes_def authorization_bytes_eq
      EPOCH_KEY_SET_DOMAIN_def AUTHORIZATION_VERSION_def ascii_def)

lemma authorization_encode_inj: "authorization_encode a = authorization_encode b \<longleftrightarrow> a = b"
  by (auto simp: authorization_encode_eq unsigned_bytes_def authorization_bytes_eq intro: funded_authorization.equality)

lemma commitment_bytes_inj:
  assumes "\<nexists>x y. collision (hash256 c) x y" "commitment_bytes c s = commitment_bytes c t"
  shows "s = t"
proof -
  have "hash256 c (es_ciphertext s) = hash256 c (es_ciphertext t)" and same: "es_authorization s = es_authorization t"
    "es_receipt s = es_receipt t" "es_outer_signature s = es_outer_signature t"
    using assms(2) by (auto simp: commitment_bytes_def authorization_encode_inj)
  then have "es_ciphertext s = es_ciphertext t" using assms(1) unfolding collision_def by blast
  with same show ?thesis by (intro encrypted_submission.equality) simp_all
qed

lemma verified_version:
  "verify_admission c s policy = Inr () \<Longrightarrow> fa_version (es_authorization s) = AUTHORIZATION_VERSION"
  by (auto simp: verify_admission_def authorization_verify_def res_simps split: if_splits)

lemma content_root_sets:
  assumes "content_root h d xs = Inr r" "content_root h d ys = Inr r" "length xs \<le> 65" "length ys \<le> 65"
    "\<nexists>x y. collision h x y"
  shows "set xs = set ys"
proof -
  have "length xs < 2 ^ 64" "length ys < 2 ^ 64" using assms(3,4) by simp_all
  from content_root_inj [OF assms(1,2) this] assms(5) show ?thesis by blast
qed

lemma member_root_Inr:
  "member_root c keys subs = Inr r \<longleftrightarrow>
     (\<exists>k. serialize_keys c keys = Some k \<and>
       content_root (hash256 c) MemberSet ((EPOCH_KEY_SET_DOMAIN @ k) # map (commitment_bytes c) subs) = Inr r)"
  by (auto simp: member_root_def keys_commitment_leaf_def keys_encode_wire_def res_simps)

lemma insert_image_split:
  assumes "insert a A = insert b B" "a \<notin> B" "b \<notin> A" "a \<notin> A" "b \<notin> B"
  shows "a = b \<and> A = B"
proof
  show "a = b" using assms by (metis insert_iff)
  with assms show "A = B" by (metis insert_ident)
qed

lemma member_root_binds:
  assumes "member_root c keys subs = Inr r" "member_root c keys' subs' = Inr r" "length subs \<le> 64" "length subs' \<le> 64"
    "\<nexists>x y. collision (hash256 c) x y" "\<forall>s \<in> set subs \<union> set subs'. fa_version (es_authorization s) = AUTHORIZATION_VERSION"
  shows "serialize_keys c keys = serialize_keys c keys' \<and> set subs = set subs'"
proof -
  from assms(1) obtain k where k: "serialize_keys c keys = Some k"
    "content_root (hash256 c) MemberSet ((EPOCH_KEY_SET_DOMAIN @ k) # map (commitment_bytes c) subs) = Inr r"
    unfolding member_root_Inr by blast
  from assms(2) obtain k' where k': "serialize_keys c keys' = Some k'"
    "content_root (hash256 c) MemberSet ((EPOCH_KEY_SET_DOMAIN @ k') # map (commitment_bytes c) subs') = Inr r"
    unfolding member_root_Inr by blast
  have eq: "insert (EPOCH_KEY_SET_DOMAIN @ k) (commitment_bytes c ` set subs) =
      insert (EPOCH_KEY_SET_DOMAIN @ k') (commitment_bytes c ` set subs')"
    using content_root_sets [OF k(2) k'(2) _ _ assms(5)] assms(3,4) by simp
  have no: "EPOCH_KEY_SET_DOMAIN @ x \<notin> commitment_bytes c ` set subs" "EPOCH_KEY_SET_DOMAIN @ x \<notin> commitment_bytes c ` set subs'" for x
    using assms(6) keys_leaf_not_member [of _ x c] by (metis UnI1 imageE, metis UnI2 imageE)
  from insert_image_split [OF eq no(2) no(1) no(1) no(2)]
  have "k = k'" and im: "commitment_bytes c ` set subs = commitment_bytes c ` set subs'" by simp_all
  moreover have "inj (commitment_bytes c)" by (rule injI) (rule commitment_bytes_inj [OF assms(5)])
  ultimately show ?thesis using k(1) k'(1) by (simp add: inj_image_eq_iff)
qed

lemma balance_root_binds:
  assumes "balance_root c bs = Inr r" "balance_root c bs' = Inr r" "length bs \<le> 64" "length bs' \<le> 64"
    "\<nexists>x y. collision (hash256 c) x y"
  shows "set bs = set bs'"
proof -
  from assms(1,2) have "content_root (hash256 c) BalanceSet (map balance_record_encode bs) = Inr r"
    "content_root (hash256 c) BalanceSet (map balance_record_encode bs') = Inr r"
    by (simp_all add: balance_root_def res_simps)
  from content_root_sets [OF this _ _ assms(5)] assms(3,4)
  have "balance_record_encode ` set bs = balance_record_encode ` set bs'" by simp
  moreover have "inj balance_record_encode" by (simp add: inj_def balance_encode_inj)
  ultimately show ?thesis by (simp add: inj_image_eq_iff)
qed

lemma configuration_digest_binds:
  "configuration_digest h a = configuration_digest h b \<Longrightarrow> \<nexists>x y. collision h x y \<Longrightarrow> a = b"
  using configuration_codec.digest_binding [of h a b] by blast

lemma lock_digest_binds:
  "lock_payload_digest h a = lock_payload_digest h b \<Longrightarrow> \<nexists>x y. collision h x y \<Longrightarrow> a = b"
  using lock_codec.digest_binding [of h a b] by blast

section \<open>Recording a digest\<close>

lemma record_locked:
  assumes "lock_journal_record sha256 io e d (jf, cache) = ((jf', cache'), r)"
  obtains (refused) err where "jf' = jf" "r = Inl err"
  | (again) "load_journal sha256 (li_journal io) jf = Inr cache'" "bt_get cache' e = Some d" "jf' = jf" "r = Inr ()"
  | (new) m q where "load_journal sha256 (li_journal io) jf = Inr m" "bt_get m e = None"
      "persist_journal sha256 (li_journal io) (bt_insert e d m) jf = (jf', q)" "r = q" "q = Inr () \<longrightarrow> cache' = bt_insert e d m"
proof (cases "journal_file_lock_acquire (li_journal io)")
  case (Inl err)
  with assms have "jf' = jf" "r = Inl err" by (auto simp: lock_journal_record_def)
  then show thesis by (rule refused)
next
  case acquired: (Inr u)
  show thesis
  proof (cases "jf = None \<or> li_journal_hidden io")
    case True
    with acquired assms have "((jf, cache), Inl CorruptJournal) = ((jf', cache'), r)" by (simp add: lock_journal_record_def)
    then show thesis using refused by blast
  next
    case False
    then have run: "lock_journal_record sha256 io e d (jf, cache) =
        (case load_journal sha256 (li_journal io) jf of Inl e \<Rightarrow> ((jf, cache), Inl e) | Inr records \<Rightarrow>
         case bt_get records e of
           Some existing \<Rightarrow> if existing = d then ((jf, records), Inr ()) else ((jf, cache), Inl ConflictingLock)
         | None \<Rightarrow> (case persist_journal sha256 (li_journal io) (bt_insert e d records) jf of
             (path, Inl e) \<Rightarrow> ((path, cache), Inl e) | (path, Inr _) \<Rightarrow> ((path, bt_insert e d records), Inr ())))"
      using acquired unfolding lock_journal_record_def Let_def by (simp del: not_None_eq)
    show thesis
    proof (cases "load_journal sha256 (li_journal io) jf")
      case (Inl err)
      with run assms have "jf' = jf" "r = Inl err" by simp_all
      then show thesis by (rule refused)
    next
      case load: (Inr m)
      show thesis
      proof (cases "bt_get m e")
        case (Some existing)
        show thesis
        proof (cases "existing = d")
          case True
          with run assms load Some have "jf' = jf" "cache' = m" "r = Inr ()" by simp_all
          with load Some True show thesis by (intro again) simp_all
        next
          case False
          with run assms load Some have "jf' = jf" "r = Inl ConflictingLock" by simp_all
          then show thesis by (rule refused)
        qed
      next
        case None
        obtain f q where p: "persist_journal sha256 (li_journal io) (bt_insert e d m) jf = (f, q)" by (metis surj_pair)
        then have "jf' = f" "r = q" "q = Inr () \<longrightarrow> cache' = bt_insert e d m"
          using run assms load None by (cases q; simp)+
        with p new [OF load None] show thesis by simp
      qed
    qed
  qed
qed

lemma record_cases:
  assumes "lock_journal_record sha256 io e d (jf, cache) = ((jf', cache'), r)"
  obtains (refused) err where "jf' = jf" "r = Inl err"
  | (again) "lock_holds sha256 jf cache'" "bt_get cache' e = Some d" "jf' = jf" "r = Inr ()"
  | (lost) m err where "lock_holds sha256 jf m" "bt_get m e = None" "r = Inl err"
      "jf' = jf \<or> lock_holds sha256 jf' (bt_insert e d m)"
  | (written) m where "lock_holds sha256 jf m" "bt_get m e = None" "cache' = bt_insert e d m"
      "lock_holds sha256 jf' cache'" "r = Inr ()"
  using assms
proof (cases rule: record_locked)
  case (refused err)
  then show thesis by (rule that(1))
next
  case again
  from that(2) [OF lj.load_holds [OF again(1)] again(2-4)] show thesis .
next
  case (new m q)
  note holds = lj.load_holds [OF new(1)]
  have valid: "keyed_valid any_entry (bt_insert e d m)"
    by (rule keyed_valid_insert [OF lj.holds_valid [OF holds]]) (simp add: any_entry_def)
  show thesis
  proof (cases q)
    case (Inl err)
    have "jf' = jf \<or> lock_holds sha256 jf' (bt_insert e d m)"
      by (rule lj.persist_error [OF valid new(3) [unfolded Inl]])
    then show thesis using that(3) [OF holds new(2)] new(4) Inl by simp
  next
    case (Inr u)
    have "lock_holds sha256 jf' (bt_insert e d m)"
      by (rule lj.persist_ok [OF valid new(3) [unfolded Inr]])
    then show thesis using that(4) [OF holds new(2)] new(4,5) Inr by simp
  qed
qed

lemma holds_some: "lock_holds sha256 jf m \<Longrightarrow> jf \<noteq> None"
  by (auto simp: keyed_holds_def)

lemma sign_lock_cases:
  assumes "sign_lock c io package confirmed secret (jf, k) = ((jf', k'), r)"
  obtains (refused) err where "jf' = jf" "r = Inl err"
  | (lost) digest m err where "package_validate c package confirmed = Inr digest" "r = Inl err"
      "lock_holds (hash256 c) jf m" "bt_get m (pk_epoch_account package) = None"
      "jf' = jf \<or> lock_holds (hash256 c) jf' (bt_insert (pk_epoch_account package) digest m)"
  | (signed) a m m' where "r = Inr a" "package_validate c package confirmed = Inr (la_digest a)"
      "la_signature a = sign c (rk_signing_key k) (arr_bytes (la_digest a))" "la_keyper_key a = verifying_key c (rk_signing_key k)"
      "keyper_at (ec_keypers (oe_configuration confirmed)) (rk_index k) = Some (la_keyper_key a)"
      "lock_holds (hash256 c) jf m" "lock_holds (hash256 c) jf' m'" "rk_journal k' = m'"
      "bt_get m' (pk_epoch_account package) = Some (la_digest a)"
      "jf' = jf \<or> bt_get m (pk_epoch_account package) = None \<and> m' = bt_insert (pk_epoch_account package) (la_digest a) m"
proof -
  let ?key = "verifying_key c (rk_signing_key k)"
  let ?ok = "keyper_at (ec_keypers (oe_configuration confirmed)) (rk_index k) = Some ?key \<and> ks_index secret = rk_index k \<and>
    ks_epoch_account secret = pk_epoch_account package \<and> matches_share c (pk_epoch_public_keys package) secret"
  have "(\<exists>err. jf' = jf \<and> r = Inl err) \<or> (\<exists>digest cache q. package_validate c package confirmed = Inr digest \<and> ?ok \<and>
        lock_journal_record (hash256 c) io (pk_epoch_account package) digest (jf, rk_journal k) = ((jf', cache), q) \<and>
        k' = k \<lparr> rk_journal := cache \<rparr> \<and>
        r = (case q of Inl e \<Rightarrow> Inl e | Inr _ \<Rightarrow> Inr \<lparr> la_keyper_key = ?key, la_digest = digest,
            la_signature = sign c (rk_signing_key k) (arr_bytes digest) \<rparr>))"
  proof (cases "?ok \<and> is_ok (package_validate c package confirmed)")
    case False
    then show ?thesis using assms
      by (cases "keyper_at (ec_keypers (oe_configuration confirmed)) (rk_index k)"; cases "package_validate c package confirmed")
        (auto simp: sign_lock_def Let_def is_ok_def split: if_splits)
  next
    case True
    then obtain digest where d: "package_validate c package confirmed = Inr digest" by (auto simp: is_ok_iff)
    obtain f cache q where rec: "lock_journal_record (hash256 c) io (pk_epoch_account package) digest (jf, rk_journal k) = ((f, cache), q)"
      by (metis prod.collapse)
    with True d assms show ?thesis by (cases q) (auto simp: sign_lock_def Let_def)
  qed
  then consider err where "jf' = jf" "r = Inl err"
    | digest cache q where "package_validate c package confirmed = Inr digest"
        "keyper_at (ec_keypers (oe_configuration confirmed)) (rk_index k) = Some ?key"
        "lock_journal_record (hash256 c) io (pk_epoch_account package) digest (jf, rk_journal k) = ((jf', cache), q)"
        "k' = k \<lparr> rk_journal := cache \<rparr>"
        "r = (case q of Inl e \<Rightarrow> Inl e | Inr _ \<Rightarrow> Inr \<lparr> la_keyper_key = ?key, la_digest = digest,
            la_signature = sign c (rk_signing_key k) (arr_bytes digest) \<rparr>)" by blast
  then show thesis
  proof cases
    case 1
    then show thesis by (rule refused)
  next
    case (2 digest cache q)
    let ?a = "\<lparr> la_keyper_key = ?key, la_digest = digest, la_signature = sign c (rk_signing_key k) (arr_bytes digest) \<rparr>"
    from 2(3) show thesis
    proof (cases rule: record_cases)
      case (refused err)
      with 2 that(1) show thesis by simp
    next
      case again
      with 2 show thesis by (intro signed [of ?a cache cache]) simp_all
    next
      case (lost m err)
      with 2 that(2) show thesis by simp
    next
      case (written m)
      with 2 show thesis by (intro signed [of ?a m cache]) (simp_all add: bt_get_insert)
    qed
  qed
qed

section \<open>The gate as a transition system\<close>

text \<open>
  One keyper's files, shared by all its processes, and the approvals it has given so far. Processes open
  the journal and sign with any outcomes of their system calls; the journal file may also be lost. The
  marker is never removed.
\<close>

type_synonym gate = "contents \<times> contents \<times> (pubkey \<times> lock_approval) list"

inductive gate_step :: "suite \<Rightarrow> gate \<Rightarrow> gate \<Rightarrow> bool" for c where
  start: "lock_journal_open (hash256 c) io (jf, mf) = ((jf', mf'), r) \<Longrightarrow> gate_step c (jf, mf, log) (jf', mf', log)"
| signing: "sign_lock c io package confirmed secret (jf, k) = ((jf', k'), Inr a) \<Longrightarrow>
    gate_step c (jf, mf, log) (jf', mf, (pk_epoch_account package, a) # log)"
| refusing: "sign_lock c io package confirmed secret (jf, k) = ((jf', k'), Inl err) \<Longrightarrow>
    gate_step c (jf, mf, log) (jf', mf, log)"
| losing: "gate_step c (jf, mf, log) (None, mf, log)"

definition logged :: "suite \<Rightarrow> contents \<Rightarrow> (pubkey \<times> lock_approval) list \<Rightarrow> bool" where
  "logged c jf log \<longleftrightarrow> (\<forall>(e, a) \<in> set log. \<forall>m. lock_holds (hash256 c) jf m \<longrightarrow> bt_get m e = Some (la_digest a))"

definition consistent :: "(pubkey \<times> lock_approval) list \<Rightarrow> bool" where
  "consistent log \<longleftrightarrow> (\<forall>e a b. (e, a) \<in> set log \<longrightarrow> (e, b) \<in> set log \<longrightarrow> la_digest a = la_digest b)"

definition gate_inv :: "suite \<Rightarrow> gate \<Rightarrow> bool" where
  "gate_inv c = (\<lambda>(jf, mf, log). (log \<noteq> [] \<or> jf \<noteq> None \<longrightarrow> mf \<noteq> None) \<and> logged c jf log \<and> consistent log)"

lemma open_cases:
  assumes "lock_journal_open sha256 io (jf, mf) = ((jf', mf'), r)"
  shows "jf' = jf \<and> (mf' = mf \<or> mf = None \<and> mf' \<noteq> None) \<or> mf = None \<and> mf' \<noteq> None"
  using assms
  by (auto simp: lock_journal_open_def persist_initialization_marker_def Let_def
      split: sum.splits if_splits option.splits prod.splits bool.splits)

lemma logged_insert:
  assumes "logged c jf log" "lock_holds (hash256 c) jf m" "bt_get m e = None" "lock_holds (hash256 c) jf' (bt_insert e d m)"
  shows "logged c jf' log"
  unfolding logged_def
proof clarify
  fix e' a m' assume "(e', a) \<in> set log" and m': "lock_holds (hash256 c) jf' m'"
  with assms(1,2) have "bt_get m e' = Some (la_digest a)" by (auto simp: logged_def)
  moreover have "m' = bt_insert e d m" using lj.holds_unique [OF assms(4) m'] .
  ultimately show "bt_get m' e' = Some (la_digest a)" using assms(3) by (auto simp: bt_get_insert)
qed

lemma gate_start:
  assumes "gate_inv c (jf, mf, log)" "lock_journal_open (hash256 c) io (jf, mf) = ((jf', mf'), r)"
  shows "gate_inv c (jf', mf', log)"
  using open_cases [OF assms(2)]
proof
  assume "mf = None \<and> mf' \<noteq> None"
  moreover from this have "log = []" using assms(1) by (simp add: gate_inv_def)
  ultimately show ?thesis by (simp add: gate_inv_def logged_def consistent_def)
next
  assume "jf' = jf \<and> (mf' = mf \<or> mf = None \<and> mf' \<noteq> None)"
  then show ?thesis using assms(1) by (auto simp: gate_inv_def)
qed

lemma gate_sign:
  assumes "gate_inv c (jf, mf, log)" "sign_lock c io package confirmed secret (jf, k) = ((jf', k'), Inr a)"
  shows "gate_inv c (jf', mf, (pk_epoch_account package, a) # log)"
proof -
  let ?e = "pk_epoch_account package"
  have inv: "logged c jf log" "consistent log" "log \<noteq> [] \<or> jf \<noteq> None \<longrightarrow> mf \<noteq> None"
    using assms(1) by (simp_all add: gate_inv_def)
  from assms(2) obtain m m' where holds: "lock_holds (hash256 c) jf m" "lock_holds (hash256 c) jf' m'"
    and e: "bt_get m' ?e = Some (la_digest a)"
    and change: "jf' = jf \<or> bt_get m ?e = None \<and> m' = bt_insert ?e (la_digest a) m"
    by (cases rule: sign_lock_cases) auto
  from change have log: "logged c jf' log"
  proof (elim disjE conjE)
    assume "bt_get m ?e = None" "m' = bt_insert ?e (la_digest a) m"
    with logged_insert [OF inv(1) holds(1)] holds(2) show ?thesis by simp
  qed (use inv(1) in simp)
  have same: "bt_get n ?e = Some (la_digest a)" if "lock_holds (hash256 c) jf' n" for n
    using lj.holds_unique [OF holds(2) that] e by simp
  have "la_digest b = la_digest a" if "(?e, b) \<in> set log" for b
  proof -
    from log that holds(2) have "bt_get m' ?e = Some (la_digest b)" unfolding logged_def by blast
    with e show ?thesis by simp
  qed
  then have "consistent ((?e, a) # log)" using inv(2) unfolding consistent_def by (metis prod.inject set_ConsD)
  moreover have "logged c jf' ((?e, a) # log)" using log same by (simp add: logged_def)
  moreover have "mf \<noteq> None" using inv(3) holds_some [OF holds(1)] by blast
  ultimately show ?thesis by (simp add: gate_inv_def)
qed

lemma gate_refuse:
  assumes "gate_inv c (jf, mf, log)" "sign_lock c io package confirmed secret (jf, k) = ((jf', k'), Inl err)"
  shows "gate_inv c (jf', mf, log)"
  using assms(2)
proof (cases rule: sign_lock_cases)
  case (lost digest m err')
  have inv: "logged c jf log" using assms(1) by (simp add: gate_inv_def)
  from lost(5) have "logged c jf' log"
  proof
    assume "lock_holds (hash256 c) jf' (bt_insert (pk_epoch_account package) digest m)"
    with logged_insert [OF inv lost(3,4)] show ?thesis .
  qed (use inv in simp)
  with assms(1) holds_some [OF lost(3)] show ?thesis by (simp add: gate_inv_def)
qed (use assms(1) in simp_all)

lemma gate_lose: "gate_inv c (jf, mf, log) \<Longrightarrow> gate_inv c (None, mf, log)"
  by (simp add: gate_inv_def logged_def keyed_holds_def)

lemma gate_step_inv: "gate_step c g g' \<Longrightarrow> gate_inv c g \<Longrightarrow> gate_inv c g'"
  by (induction rule: gate_step.induct) (blast intro: gate_start gate_sign gate_refuse gate_lose)+

lemma gate_run_inv: "(gate_step c)\<^sup>*\<^sup>* g g' \<Longrightarrow> gate_inv c g \<Longrightarrow> gate_inv c g'"
  by (induction rule: rtranclp_induct) (auto intro: gate_step_inv)

section \<open>Locked packages and released shares\<close>

lemma any_repeated_iff: "any_repeated seen hs \<longleftrightarrow> \<not> (distinct hs \<and> set hs \<inter> seen = {})"
  by (induction hs arbitrary: seen) auto

definition reopened :: "confirmed_lock \<Rightarrow> pool_state \<Rightarrow> admission_policy \<Rightarrow> confirmed_open_epoch" where
  "reopened confirmed pool policy =
     \<lparr> oe_epoch_account = cl_epoch_account confirmed, oe_configuration = epoch_configuration_of (cl_state confirmed) pool,
       oe_policy = policy, oe_current_timestamp = saturating_sub_i64 (es_lock_deadline (cl_state confirmed)) 1,
       oe_confirmation_slot = cl_confirmation_slot confirmed \<rparr>"

lemma epoch_configuration_of_fields [simp]:
  "ec_epoch_id (epoch_configuration_of e ps) = es_epoch_id e" "ec_minimum_count (epoch_configuration_of e ps) = es_minimum_count e"
  "ec_base_lot_atoms (epoch_configuration_of e ps) = ps_base_lot_atoms ps" "ec_lock_deadline (epoch_configuration_of e ps) = es_lock_deadline e"
  "ec_quote_atoms_per_lot (epoch_configuration_of e ps) = es_quote_atoms_per_lot e" "ec_keypers (epoch_configuration_of e ps) = ps_keypers ps"
  by (simp_all add: epoch_configuration_of_def)

lemma validate_locked_Inr:
  assumes "package_validate_locked c p confirmed = Inr digest"
  obtains pool policy where "cl_pool confirmed = Some pool" "package_validate c p (reopened confirmed pool policy) = Inr digest"
    "digest = es_lock_digest (cl_state confirmed)" "pk_pre_balance_root p = es_pre_balance_root (cl_state confirmed)"
    "pk_member_root p = es_member_root (cl_state confirmed)" "pk_member_count p = es_member_count (cl_state confirmed)"
  using assms by (auto simp: package_validate_locked_def reopened_def Let_def res_simps split: if_splits)

lemma validated_members:
  assumes "package_validate c p confirmed = Inr digest"
  shows "length (pk_submissions p) \<le> 64" "length (pk_balances p) \<le> 64"
    "\<forall>s \<in> set (pk_submissions p). fa_version (es_authorization s) = AUTHORIZATION_VERSION"
  using assms verified_version
  by (auto simp: package_validate_Inr covers_def members_ok_def MAX_BATCH_MEMBERS_def)

lemma digest_binds_package:
  assumes "package_validate c p confirmed = Inr digest" "package_validate c q confirmed' = Inr digest"
    "\<nexists>x y. collision (hash256 c) x y"
  shows "pk_epoch_account p = pk_epoch_account q" "pk_configuration p = pk_configuration q" "pk_lock_nonce p = pk_lock_nonce q"
    "serialize_keys c (pk_epoch_public_keys p) = serialize_keys c (pk_epoch_public_keys q)"
    "set (pk_submissions p) = set (pk_submissions q)" "set (pk_balances p) = set (pk_balances q)"
proof -
  note vp = assms(1) [unfolded package_validate_Inr] and vq = assms(2) [unfolded package_validate_Inr]
  note mp = validated_members [OF assms(1)] and mq = validated_members [OF assms(2)]
  have "package_lock_payload c p = package_lock_payload c q"
    by (rule lock_digest_binds [OF _ assms(3)]) (use vp vq in simp)
  then have eq: "pk_epoch_account p = pk_epoch_account q" "pk_lock_nonce p = pk_lock_nonce q"
    "configuration_digest (hash256 c) (pk_configuration p) = configuration_digest (hash256 c) (pk_configuration q)"
    "pk_member_root p = pk_member_root q" "pk_pre_balance_root p = pk_pre_balance_root q"
    by (simp_all add: package_lock_payload_def)
  show "pk_epoch_account p = pk_epoch_account q" "pk_lock_nonce p = pk_lock_nonce q" using eq by simp_all
  show "pk_configuration p = pk_configuration q" by (rule configuration_digest_binds [OF eq(3) assms(3)])
  have "member_root c (pk_epoch_public_keys p) (pk_submissions p) = Inr (pk_member_root p)"
    "member_root c (pk_epoch_public_keys q) (pk_submissions q) = Inr (pk_member_root p)"
    using vp vq eq by simp_all
  from member_root_binds [OF this mp(1) mq(1) assms(3)] mp(3) mq(3)
  show "serialize_keys c (pk_epoch_public_keys p) = serialize_keys c (pk_epoch_public_keys q)"
    "set (pk_submissions p) = set (pk_submissions q)" by auto
  have "balance_root c (pk_balances p) = Inr (pk_pre_balance_root p)" "balance_root c (pk_balances q) = Inr (pk_pre_balance_root p)"
    using vp vq eq by simp_all
  from balance_root_binds [OF this mp(2) mq(2) assms(3)] show "set (pk_balances p) = set (pk_balances q)" .
qed

lemma confirmed_lock_Inr:
  assumes "confirmed_lock_from_account c sv k owner data slot = Inr confirmed"
  shows "cl_epoch_account confirmed = k" "es_terminal_state (cl_state confirmed) = Locked" "cl_pool confirmed = None"
    "data = epoch_state_encode (cl_state confirmed)" "owner = ID"
    "es_lock_digest (cl_state confirmed) = lock_payload_digest (hash256 c) (recorded_lock_payload k (cl_state confirmed))"
  using assms by (auto simp: confirmed_lock_from_account_def Let_def res_simps epoch_decode_iff case_prod_beta split: if_splits)

lemma accounts_lock:
  assumes "confirmed_lock_from_accounts c sv k ea pa ca slot = Inr confirmed"
  shows "\<exists>conf0. confirmed_lock_from_account c sv k (ra_owner ea) (ra_data ea) slot = Inr conf0 \<and>
    cl_epoch_account confirmed = cl_epoch_account conf0 \<and> cl_state confirmed = cl_state conf0"
  using assms
  by (auto simp: confirmed_lock_from_accounts_def Let_def res_simps case_prod_beta split: if_splits)

lemma fetched_accounts:
  assumes "fetch_confirmed_lock c sv rpc k = Inr confirmed"
  shows "\<exists>ea pa ca slot. confirmed_lock_from_accounts c sv k ea pa ca slot = Inr confirmed"
  using assms by (auto simp: fetch_confirmed_lock_def res_simps case_prod_beta)

lemma fetched_lock:
  assumes "fetch_confirmed_lock c sv rpc k = Inr confirmed"
  shows "cl_epoch_account confirmed = k" "es_terminal_state (cl_state confirmed) = Locked"
    "es_lock_digest (cl_state confirmed) = lock_payload_digest (hash256 c) (recorded_lock_payload k (cl_state confirmed))"
proof -
  from fetched_accounts [OF assms] obtain ea pa ca slot where "confirmed_lock_from_accounts c sv k ea pa ca slot = Inr confirmed" by blast
  from accounts_lock [OF this] obtain conf0 where c0: "confirmed_lock_from_account c sv k (ra_owner ea) (ra_data ea) slot = Inr conf0"
    "cl_epoch_account confirmed = cl_epoch_account conf0" "cl_state confirmed = cl_state conf0" by blast
  from confirmed_lock_Inr [OF c0(1)] c0(2,3) show "cl_epoch_account confirmed = k" "es_terminal_state (cl_state confirmed) = Locked"
    "es_lock_digest (cl_state confirmed) = lock_payload_digest (hash256 c) (recorded_lock_payload k (cl_state confirmed))"
    by simp_all
qed

lemma release_share_Inr:
  assumes "release_share c k package confirmed secret i = Inr share"
  shows "\<exists>digest. package_validate_locked c package confirmed = Inr digest \<and>
      lock_journal_digest (rk_journal k) (pk_epoch_account package) = Some digest"
    "i < length (pk_submissions package)"
    "distinct (map (\<lambda>m. hash256 c (es_ciphertext m)) (pk_submissions package))"
    "rs_epoch_account share = pk_epoch_account package" "rs_lock_digest share = es_lock_digest (cl_state confirmed)"
    "rs_ciphertext_hash share = hash256 c (es_ciphertext (pk_submissions package ! i))" "rs_index share = rk_index k"
    "matches_share c (pk_epoch_public_keys package) secret" "ks_epoch_account secret = pk_epoch_account package"
  using assms
  by (auto simp: release_share_def secret_share_release_def res_simps any_repeated_iff split: if_splits)

section \<open>Properties\<close>

text \<open>
  C16. A keyper never signs two locks of one epoch. From the moment before its files exist, through any
  sequence of process starts, signing attempts with any failing system calls, and losses of the journal
  file, all approvals it has given for one epoch account carry the same digest.
\<close>

theorem keyper_never_equivocates:
  assumes "(gate_step c)\<^sup>*\<^sup>* (None, None, []) (jf, mf, log)" "(e, a) \<in> set log" "(e, b) \<in> set log"
  shows "la_digest a = la_digest b"
proof -
  have "gate_inv c (None, None, [])" by (simp add: gate_inv_def logged_def consistent_def)
  from gate_run_inv [OF assms(1) this] have "consistent log" by (simp add: gate_inv_def)
  with assms(2,3) show ?thesis unfolding consistent_def by blast
qed

text \<open>
  What a keyper's signature on a lock vouches for. The package is for the confirmed epoch, before its
  deadline; it has at least four and at most 64 members, as many as it declares; every member passed
  admission, with different participants, nonces and receipts; and the balances are one record per member,
  each covering the reservation, under a root that the operator signed for this epoch.
\<close>

lemma validated_package:
  assumes "package_validate c p confirmed = Inr digest"
  shows "digest = lock_payload_digest (hash256 c) (package_lock_payload c p) \<and>
    lp_epoch_account (package_lock_payload c p) = oe_epoch_account confirmed \<and>
    lp_configuration_hash (package_lock_payload c p) = configuration_digest (hash256 c) (oe_configuration confirmed) \<and>
    oe_current_timestamp confirmed <s ec_lock_deadline (oe_configuration confirmed) \<and>
    4 \<le> length (pk_submissions p) \<and> length (pk_submissions p) \<le> 64 \<and>
    lp_member_count (package_lock_payload c p) = of_nat (length (pk_submissions p)) \<and>
    members_ok c (oe_policy confirmed) (pk_submissions p) \<and>
    bl_participant_id ` set (pk_balances p) = member ` set (pk_submissions p) \<and> covers (pk_balances p) (pk_submissions p) \<and>
    balance_root c (pk_balances p) = Inr (lp_pre_balance_root (package_lock_payload c p)) \<and>
    verify c (ap_operator_key (oe_policy confirmed))
      (snapshot_message (ec_epoch_id (oe_configuration confirmed)) (of_nat (length (pk_balances p)))
        (lp_pre_balance_root (package_lock_payload c p))) (bs_signature (pk_balance_snapshot p))"
proof -
  note v = assms [unfolded package_validate_Inr snapshot_verify_Inr]
  have "4 \<le> ec_minimum_count (pk_configuration p)" using v configuration_accepted by blast
  then have "4 \<le> pk_member_count p" using v by (meson order_trans)
  then have four: "4 \<le> length (pk_submissions p)" using v by (simp add: word_le_nat_alt)
  have d: "distinct (map member (pk_submissions p))" "distinct (map bl_participant_id (pk_balances p))"
    "length (pk_balances p) = length (pk_submissions p)" "member ` set (pk_submissions p) \<subseteq> bl_participant_id ` set (pk_balances p)"
    using v by (auto simp: members_ok_def covers_def image_subset_iff) (metis image_eqI)
  have "card (member ` set (pk_submissions p)) = card (bl_participant_id ` set (pk_balances p))"
    using d(1-3) by (metis distinct_card length_map set_map)
  then have "bl_participant_id ` set (pk_balances p) = member ` set (pk_submissions p)"
    using d(4) by (metis card_subset_eq finite_imageI finite_set)
  moreover have "pk_member_count p = of_nat (length (pk_submissions p))" using v by (metis of_nat_unat_id)
  ultimately show ?thesis using v four by (auto simp: package_lock_payload_def MAX_BATCH_MEMBERS_def)
qed


text \<open>
  C18. Shares leave a keyper only for the lock on chain. A released share names the epoch account and the
  digest of an epoch that a confirmed read found locked; the package it opens validates and has that
  digest, the keyper's journal holds the same digest, and the share is for one of its members, whose
  ciphertexts are pairwise different.
\<close>

theorem share_release_guarded:
  assumes "fetch_confirmed_lock c sv rpc e = Inr confirmed" "release_share c k package confirmed secret i = Inr share"
  shows "es_terminal_state (cl_state confirmed) = Locked \<and>
    rs_lock_digest share = lock_payload_digest (hash256 c) (recorded_lock_payload e (cl_state confirmed)) \<and>
    rs_lock_digest share = lock_payload_digest (hash256 c) (package_lock_payload c package) \<and>
    lock_journal_digest (rk_journal k) e = Some (rs_lock_digest share) \<and> rs_epoch_account share = e \<and>
    rs_index share = rk_index k \<and> i < length (pk_submissions package) \<and>
    rs_ciphertext_hash share = hash256 c (es_ciphertext (pk_submissions package ! i)) \<and>
    distinct (map (\<lambda>m. hash256 c (es_ciphertext m)) (pk_submissions package)) \<and>
    (\<exists>policy. members_ok c policy (pk_submissions package))"
proof -
  note f = fetched_lock [OF assms(1)] and r = release_share_Inr [OF assms(2)]
  from r(1) obtain digest where d: "package_validate_locked c package confirmed = Inr digest"
    "lock_journal_digest (rk_journal k) (pk_epoch_account package) = Some digest" by blast
  from d(1) obtain pool policy where v: "package_validate c package (reopened confirmed pool policy) = Inr digest"
    "digest = es_lock_digest (cl_state confirmed)" by (rule validate_locked_Inr)
  have "pk_epoch_account package = e" "members_ok c policy (pk_submissions package)"
    "digest = lock_payload_digest (hash256 c) (package_lock_payload c package)"
    using v(1) f(1) by (auto simp: package_validate_Inr reopened_def)
  then show ?thesis using f r d v(2) by auto
qed

end
