(* ===== verification/Settlement_Gate.thy ===== *)
theory Settlement_Gate
  imports Settlement Lock_Gate Processor_Spec
begin

text \<open>
  What a signed settlement means: the payload is the netting of the intents that the members' trading
  keys signed, recovered from two verified shares each, over the balances frozen in the lock. Any two
  keypers that settle one lock under one nonce sign the same payload, and the program's checks of the
  payload accept it.
\<close>

section \<open>Recovered intents and their orders\<close>

definition order_of_intent :: "signed_intent \<Rightarrow> funded_order" where
  "order_of_intent i =
     \<lparr> fo_participant_id = ib_participant_id (si_body i), fo_side = ib_side (si_body i),
       fo_limit_price = ib_limit_price (si_body i) \<rparr>"

abbreviation trader :: "signed_intent \<Rightarrow> bytes32" where
  "trader i \<equiv> ib_participant_id (si_body i)"

definition intent_of_member :: "suite \<Rightarrow> bytes32 \<Rightarrow> encrypted_submission \<Rightarrow> signed_intent \<Rightarrow> bool" where
  "intent_of_member c epoch_id s i \<longleftrightarrow>
     member s = trader i \<and> ib_epoch_id (si_body i) = epoch_id \<and> ib_limit_price (si_body i) \<noteq> 0 \<and>
     key_from_bytes c (fa_trading_key (es_authorization s)) \<and>
     verify c (fa_trading_key (es_authorization s)) (intent_message (intent_encode (si_body i))) (si_signature i)"

lemma index_submissions_Inr:
  assumes "bt_wf m"
  shows "index_submissions m subs = Inr m' \<longleftrightarrow>
    distinct (map member subs) \<and> (\<forall>s \<in> set subs. bt_get m (member s) = None) \<and>
    m' = fold (\<lambda>(k, v) m. bt_insert k v m) (map (\<lambda>s. (member s, s)) subs) m"
  using assms
proof (induction subs arbitrary: m)
  case (Cons s subs)
  show ?case
  proof (cases "bt_get m (member s) = None")
    case True
    have "(\<forall>t \<in> set subs. bt_get (bt_insert (member s) s m) (member t) = None) \<longleftrightarrow>
        member s \<notin> member ` set subs \<and> (\<forall>t \<in> set subs. bt_get m (member t) = None)"
      by (simp add: bt_get_insert image_iff) metis
    with True show ?thesis
      by (simp add: Let_def Cons.IH [OF bt_wf_insert [OF Cons.prems]]) blast
  qed (simp add: Let_def)
qed auto

lemma indexed_submissions:
  "index_submissions [] subs = Inr m \<longleftrightarrow> distinct (map member subs) \<and> m = bt_of_list (map (\<lambda>s. (member s, s)) subs)"
  by (simp add: index_submissions_Inr [OF bt.wf_empty] bt.get_empty bt_of_list_def)

lemma get_indexed:
  assumes "distinct (map member subs)"
  shows "bt_get (bt_of_list (map (\<lambda>s. (member s, s)) subs)) p = Some s \<longleftrightarrow> s \<in> set subs \<and> member s = p"
proof -
  have "distinct (map fst (rev (map (\<lambda>s. (member s, s)) subs)))" using assms by (simp add: rev_map [symmetric] comp_def)
  then have "map_of (rev (map (\<lambda>s. (member s, s)) subs)) p = Some s \<longleftrightarrow> (p, s) \<in> set (rev (map (\<lambda>s. (member s, s)) subs))"
    by (rule map_of_eq_Some_iff)
  then show ?thesis unfolding bt_get_of_list by auto
qed

lemma recovered_orders_Inr:
  "recovered_orders c epoch_id m seen intents = Inr orders \<longleftrightarrow>
     orders = map order_of_intent intents \<and> distinct (map trader intents) \<and> trader ` set intents \<inter> seen = {} \<and>
     (\<forall>i \<in> set intents. \<exists>s. bt_get m (trader i) = Some s \<and> ib_epoch_id (si_body i) = epoch_id \<and>
        ib_limit_price (si_body i) \<noteq> 0 \<and> key_from_bytes c (fa_trading_key (es_authorization s)) \<and>
        verify c (fa_trading_key (es_authorization s)) (intent_message (intent_encode (si_body i))) (si_signature i))"
proof (induction intents arbitrary: seen orders)
  case (Cons i intents)
  show ?case
    by (auto simp: Let_def res_simps Cons.IH signed_intent_verify_def funded_order_new_def order_of_intent_def
        split: if_splits)
qed auto

section \<open>What a recomputation yields\<close>

definition batch_of :: "lock_package \<Rightarrow> batch_config" where
  "batch_of p = \<lparr> bc_base_lot_atoms = ec_base_lot_atoms (pk_configuration p),
     bc_quote_atoms_per_lot = ec_quote_atoms_per_lot (pk_configuration p) \<rparr>"

text \<open>The recovered intents are those of the members, each exactly once, and authenticated.\<close>

definition intents_of :: "suite \<Rightarrow> confirmed_lock \<Rightarrow> lock_package \<Rightarrow> decryption_evidence list \<Rightarrow> signed_intent list \<Rightarrow> bool" where
  "intents_of c confirmed p evidence intents \<longleftrightarrow>
     list_all2 (\<lambda>(s, e) i. recover_submission c (pk_epoch_public_keys p) s (evidence_shares e) = Inr i \<and>
       (\<forall>share \<in> set (evidence_shares e). rs_epoch_account share = cl_epoch_account confirmed \<and>
          rs_lock_digest share = es_lock_digest (cl_state confirmed)))
       (zip (pk_submissions p) evidence) intents \<and>
     length evidence = length (pk_submissions p) \<and> distinct (map trader intents) \<and>
     (\<forall>i \<in> set intents. \<exists>s \<in> set (pk_submissions p). intent_of_member c (ec_epoch_id (pk_configuration p)) s i)"

definition settlement_result ::
    "suite \<Rightarrow> lock_package \<Rightarrow> bytes32 \<Rightarrow> confirmed_lock \<Rightarrow> pool_state \<Rightarrow> signed_intent list \<Rightarrow> batch_result \<Rightarrow>
     bytes32 \<Rightarrow> bytes32 \<Rightarrow> recomputed_settlement" where
  "settlement_result c p nonce confirmed pool intents r post_root result_root =
     (let commitment = result_commitment c confirmed (recovered_intents_root c intents) (pk_pre_balance_root p)
            post_root (br_residual r) result_root
      in \<lparr> rc_post_balances = settlement_balances r, rc_pre_balance_root = pk_pre_balance_root p,
           rc_post_balance_root = post_root, rc_residual = br_residual r, rc_result_root = result_root,
           rc_result_commitment = commitment,
           rc_payload = settlement_payload_of confirmed pool commitment (br_residual r) nonce \<rparr>)"

lemma recover_member_Inr:
  "recover_member c confirmed keys (s, e) = Inr i \<longleftrightarrow>
     recover_submission c keys s (evidence_shares e) = Inr i \<and>
     (\<forall>share \<in> set (evidence_shares e). rs_epoch_account share = cl_epoch_account confirmed \<and>
        rs_lock_digest share = es_lock_digest (cl_state confirmed))"
  by (auto simp: recover_member_def res_simps list_ex_iff)

lemma recovered_intents_Inr:
  assumes "length evidence = length (pk_submissions p)"
  shows "(\<exists>m. try_map (recover_member c confirmed (pk_epoch_public_keys p)) (zip (pk_submissions p) evidence) = Inr intents \<and>
      index_submissions [] (pk_submissions p) = Inr m \<and>
      recovered_orders c (ec_epoch_id (pk_configuration p)) m {} intents = Inr orders) \<longleftrightarrow>
    distinct (map member (pk_submissions p)) \<and> intents_of c confirmed p evidence intents \<and> orders = map order_of_intent intents"
proof (cases "distinct (map member (pk_submissions p))")
  case True
  have rec: "(\<lambda>x y. recover_member c confirmed (pk_epoch_public_keys p) x = Inr y) =
      (\<lambda>(s, e) i. recover_submission c (pk_epoch_public_keys p) s (evidence_shares e) = Inr i \<and>
        (\<forall>share \<in> set (evidence_shares e). rs_epoch_account share = cl_epoch_account confirmed \<and>
          rs_lock_digest share = es_lock_digest (cl_state confirmed)))"
    by (auto simp: fun_eq_iff recover_member_Inr)
  show ?thesis
    using True assms
    by (auto simp: indexed_submissions recovered_orders_Inr get_indexed [OF True] try_map_Inr rec intents_of_def
        intent_of_member_def)
qed (simp add: indexed_submissions)

lemma length_balances_before: "length (balances_before bs) = length bs \<longleftrightarrow> distinct (map bl_participant_id bs)"
  using length_bt_of_list_distinct [of "map (\<lambda>b. (bl_participant_id b,
    \<lparr> pb_base_atoms = bl_base_atoms b, pb_quote_atoms = bl_quote_atoms b \<rparr>)) bs"]
  by (simp add: balances_before_def comp_def)

lemma net_batch_conserving: "net_batch config before orders = Inr r \<Longrightarrow> conserves r before"
  by (auto simp: net_batch_def Let_def res_simps case_prod_beta split: if_splits)

lemma recompute_Inr:
  "recompute c p evidence nonce confirmed = Inr rc \<longleftrightarrow>
     (\<exists>digest pool intents r post_root result_root.
       package_validate_locked c p confirmed = Inr digest \<and> cl_pool confirmed = Some pool \<and>
       nonce \<noteq> 0 \<and> nonce \<noteq> es_lock_nonce (cl_state confirmed) \<and>
       length evidence \<le> MAX_BATCH_MEMBERS \<and> distinct (map member (pk_submissions p)) \<and>
       intents_of c confirmed p evidence intents \<and>
       distinct (map bl_participant_id (pk_balances p)) \<and>
       bc_base_lot_atoms (batch_of p) \<noteq> 0 \<and> bc_quote_atoms_per_lot (batch_of p) \<noteq> 0 \<and>
       net_batch (batch_of p) (balances_before (pk_balances p)) (map order_of_intent intents) = Inr r \<and>
       settlement_balance_root c (settlement_balances r) = Inr post_root \<and>
       per_participant_result_root c (balances_before (pk_balances p)) (settlement_balances r) = Inr result_root \<and>
       rc = settlement_result c p nonce confirmed pool intents r post_root result_root)" (is "?l \<longleftrightarrow> ?r")
proof
  assume ?l
  then obtain digest recovered submissions orders config result post_root result_root pool where
    s: "package_validate_locked c p confirmed = Inr digest"
      "nonce \<noteq> 0" "nonce \<noteq> es_lock_nonce (cl_state confirmed)"
      "length evidence = length (pk_submissions p)" "length evidence \<le> MAX_BATCH_MEMBERS"
      "try_map (recover_member c confirmed (pk_epoch_public_keys p)) (zip (pk_submissions p) evidence) = Inr recovered"
      "index_submissions [] (pk_submissions p) = Inr submissions"
      "recovered_orders c (ec_epoch_id (pk_configuration p)) submissions {} recovered = Inr orders"
      "length (balances_before (pk_balances p)) = length (pk_balances p)"
      "batch_config_new (ec_base_lot_atoms (pk_configuration p)) (ec_quote_atoms_per_lot (pk_configuration p)) = Inr config"
      "net_batch config (balances_before (pk_balances p)) orders = Inr result"
      "settlement_balance_root c (settlement_balances result) = Inr post_root"
      "per_participant_result_root c (balances_before (pk_balances p)) (settlement_balances result) = Inr result_root"
      "cl_pool confirmed = Some pool"
      "rc = settlement_result c p nonce confirmed pool recovered result post_root result_root"
    by (auto simp: recompute_def settlement_result_def Let_def res_simps not_less split: if_splits)
  from recovered_intents_Inr [OF s(4), of c confirmed recovered orders] s(6,7,8)
  have i: "distinct (map member (pk_submissions p))" "intents_of c confirmed p evidence recovered" "orders = map order_of_intent recovered"
    by blast+
  have "config = batch_of p" "bc_base_lot_atoms (batch_of p) \<noteq> 0" "bc_quote_atoms_per_lot (batch_of p) \<noteq> 0"
    using s(10) by (auto simp: batch_config_new_def batch_of_def split: if_splits)
  with s i show ?r by (auto simp: length_balances_before)
next
  assume ?r
  then obtain digest pool intents r post_root result_root where
    s: "package_validate_locked c p confirmed = Inr digest" "cl_pool confirmed = Some pool"
      "nonce \<noteq> 0" "nonce \<noteq> es_lock_nonce (cl_state confirmed)" "length evidence \<le> MAX_BATCH_MEMBERS"
      "distinct (map member (pk_submissions p))" "intents_of c confirmed p evidence intents"
      "distinct (map bl_participant_id (pk_balances p))"
      "bc_base_lot_atoms (batch_of p) \<noteq> 0" "bc_quote_atoms_per_lot (batch_of p) \<noteq> 0"
      "net_batch (batch_of p) (balances_before (pk_balances p)) (map order_of_intent intents) = Inr r"
      "settlement_balance_root c (settlement_balances r) = Inr post_root"
      "per_participant_result_root c (balances_before (pk_balances p)) (settlement_balances r) = Inr result_root"
      "rc = settlement_result c p nonce confirmed pool intents r post_root result_root" by blast
  have len: "length evidence = length (pk_submissions p)" using s(7) by (simp add: intents_of_def)
  from recovered_intents_Inr [OF len, of c confirmed intents "map order_of_intent intents"] s(6,7) obtain m where
    m: "try_map (recover_member c confirmed (pk_epoch_public_keys p)) (zip (pk_submissions p) evidence) = Inr intents"
      "index_submissions [] (pk_submissions p) = Inr m"
      "recovered_orders c (ec_epoch_id (pk_configuration p)) m {} intents = Inr (map order_of_intent intents)" by blast
  have "batch_config_new (ec_base_lot_atoms (pk_configuration p)) (ec_quote_atoms_per_lot (pk_configuration p)) = Inr (batch_of p)"
    using s(9,10) by (simp add: batch_config_new_def batch_of_def)
  with s m len net_batch_conserving [OF s(11)] show ?l
    by (simp add: recompute_def settlement_result_def Let_def length_balances_before not_less)
qed

section \<open>Keypers agree\<close>

text \<open>
  The threshold scheme combines any two valid shares of a ciphertext to the same plaintext. This is what
  \<open>threshold_crypto\<close> documents for \<open>PublicKeySet::decrypt\<close>.
\<close>

definition valid_shares :: "suite \<Rightarrow> public_key_set \<Rightarrow> ciphertext \<Rightarrow> (nat \<times> decryption_share) list \<Rightarrow> bool" where
  "valid_shares c keys ct shares \<longleftrightarrow>
     2 \<le> length shares \<and> distinct (map fst shares) \<and>
     (\<forall>(i, share) \<in> set shares. verify_decryption_share c (key_share c keys i) share ct)"

definition shares_agree :: "suite \<Rightarrow> bool" where
  "shares_agree c \<longleftrightarrow>
     (\<forall>keys ct shares shares'. valid_shares c keys ct shares \<longrightarrow> valid_shares c keys ct shares' \<longrightarrow>
        decrypt_shares c keys shares ct = decrypt_shares c keys shares' ct)"

lemma intent_encode_inj:
  assumes "intent_valid i" "intent_valid j" "intent_encode i = intent_encode j"
  shows "i = j"
  using intent_codec.enc_inj [OF assms(1,2)] assms(3) by blast

lemma signed_intent_encode_inj:
  assumes "intent_valid (si_body i)" "intent_valid (si_body j)" "signed_intent_encode i = signed_intent_encode j"
  shows "i = j"
proof -
  have "intent_encode (si_body i) = intent_encode (si_body j) \<and> arr_bytes (si_signature i) = arr_bytes (si_signature j)"
    using assms(3) intent_codec.length_enc unfolding signed_intent_encode_eq
    by (metis append_eq_append_conv)
  then have "si_body i = si_body j" "si_signature i = si_signature j"
    using intent_encode_inj [OF assms(1,2)] arr_bytes_inj by blast+
  then show ?thesis by simp
qed

lemma recovered_valid_shares:
  assumes "recover_submission c keys s shares = Inr i"
  obtains encrypted where "decode_ciphertext c (es_ciphertext s) = Inr encrypted"
    "valid_shares c keys (ei_ciphertext encrypted) (map (\<lambda>share. (rs_index share, rs_share share)) shares)"
    "decrypt_shares c keys (map (\<lambda>share. (rs_index share, rs_share share)) shares) (ei_ciphertext encrypted) = Some (signed_intent_encode i)"
    "intent_valid (si_body i)"
  using assms by (auto simp: recover_submission_Inr valid_shares_def comp_def)

lemma recovery_unique:
  assumes "shares_agree c" "recover_submission c keys s shares = Inr i" "recover_submission c keys s shares' = Inr j"
  shows "i = j"
proof -
  from recovered_valid_shares [OF assms(2)] obtain e where
    i: "decode_ciphertext c (es_ciphertext s) = Inr e"
      "valid_shares c keys (ei_ciphertext e) (map (\<lambda>share. (rs_index share, rs_share share)) shares)"
      "decrypt_shares c keys (map (\<lambda>share. (rs_index share, rs_share share)) shares) (ei_ciphertext e) = Some (signed_intent_encode i)"
      "intent_valid (si_body i)" by blast
  from recovered_valid_shares [OF assms(3)] obtain e' where
    j: "decode_ciphertext c (es_ciphertext s) = Inr e'"
      "valid_shares c keys (ei_ciphertext e') (map (\<lambda>share. (rs_index share, rs_share share)) shares')"
      "decrypt_shares c keys (map (\<lambda>share. (rs_index share, rs_share share)) shares') (ei_ciphertext e') = Some (signed_intent_encode j)"
      "intent_valid (si_body j)" by blast
  have e: "e' = e" using i(1) j(1) by simp
  have "Some (signed_intent_encode i) = Some (signed_intent_encode j)"
    unfolding i(3) [symmetric] j(3) [symmetric] e
    by (rule assms(1) [unfolded shares_agree_def, rule_format, OF i(2) j(2) [unfolded e]])
  then have "signed_intent_encode i = signed_intent_encode j" by simp
  then show ?thesis by (rule signed_intent_encode_inj [OF i(4) j(4)])
qed

text \<open>Two lists of results over the same distinct inputs, each determined by its input, are permutations.\<close>

lemma mset_results:
  assumes "list_all2 R xs is" "list_all2 S ys js" "distinct xs" "distinct ys" "set xs = set ys"
    and "\<And>x i j. R x i \<Longrightarrow> S x j \<Longrightarrow> i = j"
  shows "mset is = mset js"
proof -
  have len: "length xs = length is" "length ys = length js" using assms(1,2) by (simp_all add: list_all2_lengthD)
  have in_zip: "\<exists>z. (x, z) \<in> set (zip us zs)" if "x \<in> set us" "length us = length zs" for x and us :: "'a list" and zs :: "'b list"
  proof -
    from that(1) obtain n where "n < length us" "us ! n = x" by (auto simp: in_set_conv_nth)
    with that(2) have "(x, zs ! n) \<in> set (zip us zs)" by (auto simp: in_set_zip)
    then show ?thesis ..
  qed
  have R: "R x i" if "(x, i) \<in> set (zip xs is)" for x i using assms(1) that by (auto simp: list_all2_iff)
  have S: "S x i" if "(x, i) \<in> set (zip ys js)" for x i using assms(2) that by (auto simp: list_all2_iff)
  have "(x, i) \<in> set (zip xs is) \<longleftrightarrow> (x, i) \<in> set (zip ys js)" for x i
  proof
    assume a: "(x, i) \<in> set (zip xs is)"
    then have "x \<in> set ys" using assms(5) by (auto dest: set_zip_leftD)
    from in_zip [OF this len(2)] obtain j where j: "(x, j) \<in> set (zip ys js)" ..
    from assms(6) [OF R [OF a] S [OF j]] j show "(x, i) \<in> set (zip ys js)" by simp
  next
    assume a: "(x, i) \<in> set (zip ys js)"
    then have "x \<in> set xs" using assms(5) by (auto dest: set_zip_leftD)
    from in_zip [OF this len(1)] obtain j where j: "(x, j) \<in> set (zip xs is)" ..
    from assms(6) [OF R [OF j] S [OF a]] j show "(x, i) \<in> set (zip xs is)" by simp
  qed
  then have "set (zip xs is) = set (zip ys js)" by auto
  then have "mset (zip xs is) = mset (zip ys js)"
    using assms(3,4) by (simp add: set_eq_iff_mset_eq_distinct [symmetric] distinct_zipI1)
  then have "mset (map snd (zip xs is)) = mset (map snd (zip ys js))" by (simp only: mset_map)
  then show ?thesis using len by simp
qed

lemma balances_before_set:
  assumes "set bs = set bs'" "distinct (map bl_participant_id bs)" "distinct (map bl_participant_id bs')"
  shows "balances_before bs = balances_before bs'"
proof -
  let ?f = "\<lambda>b. (bl_participant_id b, \<lparr> pb_base_atoms = bl_base_atoms b, pb_quote_atoms = bl_quote_atoms b \<rparr>)"
  have d: "distinct (map fst (rev (map ?f bs)))" "distinct (map fst (rev (map ?f bs')))"
    using assms(2,3) by (simp_all add: rev_map [symmetric] comp_def)
  have "set (rev (map ?f bs)) = set (rev (map ?f bs'))" using assms(1) by auto
  then have "map_of (rev (map ?f bs)) = map_of (rev (map ?f bs'))"
    using d by (simp only: map_of_inject_set)
  then show ?thesis
    unfolding balances_before_def
    by (intro bt.entries_ext) (simp_all add: bt_wf_of_list bt_get_of_list)
qed

definition keys_roundtrip :: "suite \<Rightarrow> bool" where
  "keys_roundtrip c \<longleftrightarrow> (\<forall>keys bs. serialize_keys c keys = Some bs \<longrightarrow> deserialize_keys c bs = Some keys)"

lemma intents_permute:
  assumes "shares_agree c" "intents_of c confirmed p evidence intents" "intents_of c confirmed' q evidence' intents'"
    and "pk_epoch_public_keys q = pk_epoch_public_keys p" "set (pk_submissions q) = set (pk_submissions p)"
    and "distinct (pk_submissions p)" "distinct (pk_submissions q)"
  shows "mset intents' = mset intents"
proof -
  let ?R = "\<lambda>s i. \<exists>shares. recover_submission c (pk_epoch_public_keys p) s shares = Inr i"
  have rec: "list_all2 ?R (pk_submissions r) ints"
    if a: "intents_of c conf r ev ints" "pk_epoch_public_keys r = pk_epoch_public_keys p" for conf r ev ints
  proof (rule list_all2_all_nthI)
    have l: "list_all2 (\<lambda>(s, e) i. recover_submission c (pk_epoch_public_keys p) s (evidence_shares e) = Inr i \<and>
        (\<forall>share \<in> set (evidence_shares e). rs_epoch_account share = cl_epoch_account conf \<and>
          rs_lock_digest share = es_lock_digest (cl_state conf))) (zip (pk_submissions r) ev) ints"
      and len: "length ev = length (pk_submissions r)" using a by (simp_all add: intents_of_def)
    show "length (pk_submissions r) = length ints" using list_all2_lengthD [OF l] len by simp
    fix n assume "n < length (pk_submissions r)"
    then show "?R (pk_submissions r ! n) (ints ! n)" using list_all2_nthD [OF l, of n] len by (simp split: prod.splits) blast
  qed
  have d: "set (pk_submissions q) = set (pk_submissions p)" by (rule assms(5))
  show ?thesis
  proof (rule mset_results [OF rec [OF assms(3,4)] rec [OF assms(2) refl] assms(7,6) d])
    fix s i j assume "?R s i" "?R s j"
    then show "i = j" using recovery_unique [OF assms(1)] by blast
  qed
qed

lemma sort_permute: "mset xs = mset ys \<Longrightarrow> sort xs = sort ys"
  by (metis properties_for_sort mset_sort sorted_sort)

lemma recompute_package:
  assumes "package_validate_locked c p confirmed = Inr digest" "package_validate_locked c q confirmed' = Inr digest'"
    and "cl_state confirmed' = cl_state confirmed" "keys_roundtrip c" "\<nexists>x y. collision (hash256 c) x y"
  shows "pk_configuration q = pk_configuration p" "pk_epoch_public_keys q = pk_epoch_public_keys p"
    "set (pk_submissions q) = set (pk_submissions p)" "set (pk_balances q) = set (pk_balances p)"
    "pk_pre_balance_root q = pk_pre_balance_root p"
proof -
  from validate_locked_Inr [OF assms(1)] obtain pool policy where
    vp: "package_validate c p (reopened confirmed pool policy) = Inr digest" "digest = es_lock_digest (cl_state confirmed)"
      "pk_pre_balance_root p = es_pre_balance_root (cl_state confirmed)" by metis
  from validate_locked_Inr [OF assms(2)] obtain pool' policy' where
    vq: "package_validate c q (reopened confirmed' pool' policy') = Inr digest'" "digest' = es_lock_digest (cl_state confirmed')"
      "pk_pre_balance_root q = es_pre_balance_root (cl_state confirmed')" by metis
  have d: "digest' = digest" using vp(2) vq(2) assms(3) by simp
  note b = digest_binds_package [OF vp(1) vq(1) [unfolded d] assms(5)]
  from vp(1) obtain leaf where "keys_commitment_leaf c (pk_epoch_public_keys p) = Inr leaf"
    by (auto simp: package_validate_Inr member_root_def res_simps)
  then obtain bs where "serialize_keys c (pk_epoch_public_keys p) = Some bs"
    by (auto simp: keys_commitment_leaf_def keys_encode_wire_def res_simps)
  with b(4) assms(4) show "pk_epoch_public_keys q = pk_epoch_public_keys p"
    unfolding keys_roundtrip_def by (metis option.inject)
  show "pk_configuration q = pk_configuration p" "set (pk_submissions q) = set (pk_submissions p)"
    "set (pk_balances q) = set (pk_balances p)" using b by simp_all
  show "pk_pre_balance_root q = pk_pre_balance_root p" using vp(3) vq(3) assms(3) by simp
qed

lemma recomputed_equal:
  assumes "shares_agree c" "keys_roundtrip c" "\<nexists>x y. collision (hash256 c) x y"
    and "recompute c p evidence nonce confirmed = Inr rc" "recompute c q evidence' nonce confirmed' = Inr rc'"
    and same: "cl_epoch_account confirmed' = cl_epoch_account confirmed" "cl_state confirmed' = cl_state confirmed"
      "cl_pool confirmed' = cl_pool confirmed"
  shows "rc' = rc"
proof -
  from assms(4) [unfolded recompute_Inr] obtain d pool ints r post res where
    p: "package_validate_locked c p confirmed = Inr d" "cl_pool confirmed = Some pool" "length evidence \<le> MAX_BATCH_MEMBERS"
      "distinct (map member (pk_submissions p))" "intents_of c confirmed p evidence ints" "distinct (map bl_participant_id (pk_balances p))"
      "net_batch (batch_of p) (balances_before (pk_balances p)) (map order_of_intent ints) = Inr r"
      "settlement_balance_root c (settlement_balances r) = Inr post"
      "per_participant_result_root c (balances_before (pk_balances p)) (settlement_balances r) = Inr res"
      "rc = settlement_result c p nonce confirmed pool ints r post res" by blast
  from assms(5) [unfolded recompute_Inr] obtain d' pool' js r' post' res' where
    q: "package_validate_locked c q confirmed' = Inr d'" "cl_pool confirmed' = Some pool'" "length evidence' \<le> MAX_BATCH_MEMBERS"
      "distinct (map member (pk_submissions q))" "intents_of c confirmed' q evidence' js" "distinct (map bl_participant_id (pk_balances q))"
      "net_batch (batch_of q) (balances_before (pk_balances q)) (map order_of_intent js) = Inr r'"
      "settlement_balance_root c (settlement_balances r') = Inr post'"
      "per_participant_result_root c (balances_before (pk_balances q)) (settlement_balances r') = Inr res'"
      "rc' = settlement_result c q nonce confirmed' pool' js r' post' res'" by blast
  note b = recompute_package [OF p(1) q(1) same(2) assms(2,3)]
  have m: "mset js = mset ints"
    by (rule intents_permute [OF assms(1) p(5) q(5) b(2,3)]) (use p(4) q(4) in \<open>auto simp: distinct_map\<close>)
  have before: "balances_before (pk_balances q) = balances_before (pk_balances p)"
    by (rule balances_before_set [OF b(4) q(6) p(6)])
  have "length (balances_before (pk_balances p)) = length (pk_balances p)" using p(6) by (simp add: length_balances_before)
  also have "\<dots> \<le> 64" using p(1) validated_members(2) by (metis validate_locked_Inr)
  finally have len: "length (balances_before (pk_balances p)) \<le> 2 ^ 63" by simp
  have "net_batch (batch_of p) (balances_before (pk_balances p)) (map order_of_intent js) = Inr r"
    by (rule net_batch_permute [OF _ len _ p(7)]) (simp_all add: balances_before_def bt_wf_of_list m)
  then have r: "r' = r" using q(7) b(1) before by (simp add: batch_of_def)
  have "recovered_intents_root c js = recovered_intents_root c ints"
    using m sort_permute [of "map (\<lambda>intent. hash256 c (signed_intent_encode intent)) js"
      "map (\<lambda>intent. hash256 c (signed_intent_encode intent)) ints"]
    unfolding recovered_intents_root_def Let_def by simp
  with p(2,8-10) q(2,8-10) r before b(5) same show ?thesis
    by (simp add: settlement_result_def result_commitment_def settlement_payload_of_def)
qed

section \<open>Signing\<close>

lemma sign_settlement_Inr:
  "sign_settlement c k request confirmed secret = Inr a \<longleftrightarrow>
     (\<exists>rc pool. recompute c (sq_package request) (sq_decryption_evidence request) (sq_settlement_nonce request) confirmed = Inr rc \<and>
       cl_pool confirmed = Some pool \<and>
       sq_post_balances request = rc_post_balances rc \<and> sq_pre_balance_root request = rc_pre_balance_root rc \<and>
       sq_post_balance_root request = rc_post_balance_root rc \<and> sq_residual request = rc_residual rc \<and>
       sq_result_root request = rc_result_root rc \<and> sq_result_commitment request = rc_result_commitment rc \<and>
       sq_settlement_digest request = settlement_payload_digest (hash256 c) (rc_payload rc) \<and>
       keyper_at (ps_keypers pool) (rk_index k) = Some (verifying_key c (rk_signing_key k)) \<and>
       ks_index secret = rk_index k \<and> ks_epoch_account secret = pk_epoch_account (sq_package request) \<and>
       matches_share c (pk_epoch_public_keys (sq_package request)) secret \<and>
       lock_journal_digest (rk_journal k) (cl_epoch_account confirmed) = Some (es_lock_digest (cl_state confirmed)) \<and>
       a = \<lparr> sa_keyper_key = verifying_key c (rk_signing_key k), sa_payload = rc_payload rc,
             sa_digest = settlement_payload_digest (hash256 c) (rc_payload rc),
             sa_signature = sign c (rk_signing_key k) (arr_bytes (settlement_payload_digest (hash256 c) (rc_payload rc))) \<rparr>)"
  by (auto simp: sign_settlement_def Let_def res_simps split: if_splits)

text \<open>As many distinct traders as members, each a member: the traders are the members.\<close>

lemma traders_are_members:
  assumes "intents_of c confirmed p evidence intents" "distinct (map member (pk_submissions p))"
  shows "mset (map trader intents) = mset (map member (pk_submissions p))"
proof -
  have len: "length intents = length (pk_submissions p)"
    using assms(1) by (auto simp: intents_of_def dest!: list_all2_lengthD)
  have sub: "set (map trader intents) \<subseteq> set (map member (pk_submissions p))"
    using assms(1) by (force simp: intents_of_def intent_of_member_def)
  have d: "distinct (map trader intents)" using assms(1) by (simp add: intents_of_def)
  have "card (set (map trader intents)) = card (set (map member (pk_submissions p)))"
    using d assms(2) len by (simp only: distinct_card length_map)
  with sub have "set (map trader intents) = set (map member (pk_submissions p))" by (intro card_subset_eq) auto
  then show ?thesis using set_eq_iff_mset_eq_distinct [OF d assms(2)] by blast
qed

text \<open>
  C13. A keyper signs a settlement only for the netting of the locked batch. The epoch is locked on chain
  and in the keyper's journal under the digest of the request's package; the intents are recovered from
  two verified shares each, released for this lock; every member's order appears exactly once and is signed
  by its trading key for this epoch; the post-balances, the residual and the committed roots are those of
  netting these orders over the frozen balances; and the payload moves the pool's own accounts.
\<close>

theorem settlement_signed_is_netting:
  assumes "fetch_confirmed_lock c sv rpc e = Inr confirmed" "sign_settlement c k request confirmed secret = Inr a"
  shows "\<exists>pool intents r. cl_pool confirmed = Some pool \<and> es_terminal_state (cl_state confirmed) = Locked \<and>
    keyper_at (ps_keypers pool) (rk_index k) = Some (sa_keyper_key a) \<and>
    es_lock_digest (cl_state confirmed) = lock_payload_digest (hash256 c) (package_lock_payload c (sq_package request)) \<and>
    lock_journal_digest (rk_journal k) e = Some (es_lock_digest (cl_state confirmed)) \<and>
    intents_of c confirmed (sq_package request) (sq_decryption_evidence request) intents \<and>
    mset (map trader intents) = mset (map member (pk_submissions (sq_package request))) \<and>
    net_batch (batch_of (sq_package request)) (balances_before (pk_balances (sq_package request)))
      (map order_of_intent intents) = Inr r \<and>
    sq_post_balances request = settlement_balances r \<and> sq_residual request = br_residual r \<and>
    sq_result_commitment request = result_commitment c confirmed (recovered_intents_root c intents)
      (es_pre_balance_root (cl_state confirmed)) (sq_post_balance_root request) (br_residual r) (sq_result_root request) \<and>
    settlement_balance_root c (settlement_balances r) = Inr (sq_post_balance_root request) \<and>
    sa_payload a = settlement_payload_of confirmed pool (sq_result_commitment request) (br_residual r) (sq_settlement_nonce request) \<and>
    sa_digest a = settlement_payload_digest (hash256 c) (sa_payload a)"
proof -
  note f = fetched_lock [OF assms(1)]
  from assms(2) [unfolded sign_settlement_Inr recompute_Inr] obtain rc pool digest intents r post_root result_root where
    s: "cl_pool confirmed = Some pool" "package_validate_locked c (sq_package request) confirmed = Inr digest"
      "distinct (map member (pk_submissions (sq_package request)))"
      "intents_of c confirmed (sq_package request) (sq_decryption_evidence request) intents"
      "net_batch (batch_of (sq_package request)) (balances_before (pk_balances (sq_package request)))
        (map order_of_intent intents) = Inr r"
      "settlement_balance_root c (settlement_balances r) = Inr post_root"
      "rc = settlement_result c (sq_package request) (sq_settlement_nonce request) confirmed pool intents r post_root result_root"
    and q: "sq_post_balances request = rc_post_balances rc" "sq_post_balance_root request = rc_post_balance_root rc"
      "sq_residual request = rc_residual rc" "sq_result_root request = rc_result_root rc"
      "sq_result_commitment request = rc_result_commitment rc"
      "keyper_at (ps_keypers pool) (rk_index k) = Some (verifying_key c (rk_signing_key k))"
      "lock_journal_digest (rk_journal k) (cl_epoch_account confirmed) = Some (es_lock_digest (cl_state confirmed))"
      "sa_keyper_key a = verifying_key c (rk_signing_key k)" "sa_payload a = rc_payload rc"
      "sa_digest a = settlement_payload_digest (hash256 c) (rc_payload rc)" by auto
  from validate_locked_Inr [OF s(2)] obtain pool' policy where
    v: "package_validate c (sq_package request) (reopened confirmed pool' policy) = Inr digest"
      "digest = es_lock_digest (cl_state confirmed)"
      "pk_pre_balance_root (sq_package request) = es_pre_balance_root (cl_state confirmed)" by metis
  have "es_lock_digest (cl_state confirmed) = lock_payload_digest (hash256 c) (package_lock_payload c (sq_package request))"
    using v(1,2) by (simp add: package_validate_Inr)
  with s q f v(3) traders_are_members [OF s(4,3)] show ?thesis
    by (intro exI [of _ pool] exI [of _ intents] exI [of _ r]) (simp add: settlement_result_def Let_def)
qed


end
