(* ===== verification/Request_Roundtrip.thy ===== *)
theory Request_Roundtrip
  imports Settlement_Wire Settlement_Gate
begin

text \<open>
  Lock packages and settlement requests survive the wire: what the encoder writes, the decoder reads back,
  for values that their constructors can build. Readers at an offset share the contract \<open>offset_reader\<close>.
\<close>

section \<open>Reading at an offset\<close>

definition rest_at :: "byte list \<Rightarrow> nat \<Rightarrow> byte list \<Rightarrow> bool" where
  "rest_at bs off rest \<longleftrightarrow> off \<le> length bs \<and> drop off bs = rest"

lemma rest_at_0: "rest_at bs 0 bs"
  by (simp add: rest_at_def)

lemma rest_at_step: "rest_at bs off (xs @ rest) \<Longrightarrow> rest_at bs (off + length xs) rest"
  unfolding rest_at_def by (metis add.commute append_eq_conv_conj diff_add drop_drop le_add_diff_inverse2 length_append
      length_drop nat_add_left_cancel_le le_add1)

lemma rest_at_length: "rest_at bs off rest \<Longrightarrow> length bs = off + length rest"
  by (auto simp: rest_at_def)

lemma slice_at: "rest_at bs off (xs @ rest) \<Longrightarrow> slice off (off + length xs) bs = xs"
  by (simp add: rest_at_def slice_def)

lemma get_slice_at: "rest_at bs off (xs @ rest) \<Longrightarrow> get_slice off (off + length xs) bs = Some xs"
  using rest_at_length [of bs off "xs @ rest"] slice_at [of bs off xs rest] by (simp add: get_slice_def)

lemma nth_at: "rest_at bs off (x # rest) \<Longrightarrow> bs ! off = x"
  by (metis rest_at_def append_Cons append_take_drop_id length_take min.absorb2 nth_append_length)

locale offset_reader =
  fixes enc :: "'a \<Rightarrow> byte list" and rd :: "byte list \<Rightarrow> nat \<Rightarrow> settlement_validation_error + 'a \<times> nat"
    and valid :: "'a \<Rightarrow> bool"
  assumes reads: "valid x \<Longrightarrow> rest_at bs off (enc x @ rest) \<Longrightarrow> rd bs off = Inr (x, off + length (enc x))"
begin

lemma step:
  assumes "valid x" "rest_at bs off (enc x @ rest)"
  shows "rd bs off = Inr (x, off + length (enc x)) \<and> rest_at bs (off + length (enc x)) rest"
  using reads [OF assms] rest_at_step [OF assms(2)] by blast

lemma advance:
  assumes "valid x" "rest_at bs off (enc x @ rest)"
  shows "\<exists>off'. rd bs off = Inr (x, off') \<and> rest_at bs off' rest"
  using step [OF assms] by blast

end

lemma take_array_at: "rest_at bs off (xs @ rest) \<Longrightarrow> take_array (length xs) bs off = Inr (xs, off + length xs)"
  by (simp add: take_array_def get_slice_at)

interpretation u32_reader: offset_reader "to_le_bytes :: u32 \<Rightarrow> byte list" take_u32 "\<lambda>_. True"
proof
  fix w :: u32 and bs off rest
  assume "rest_at bs off (to_le_bytes w @ rest)"
  from take_array_at [OF this] show "take_u32 bs off = Inr (w, off + length (to_le_bytes w))"
    by (simp add: take_u32_def)
qed

interpretation digest_reader: offset_reader "arr_bytes :: bytes32 \<Rightarrow> byte list" take_digest "\<lambda>_. True"
proof
  fix w :: bytes32 and bs off rest
  assume "rest_at bs off (arr_bytes w @ rest)"
  from take_array_at [OF this] show "take_digest bs off = Inr (w, off + length (arr_bytes w))"
    by (simp add: take_digest_def)
qed

section \<open>Shares and balances\<close>

definition shares_roundtrip :: "suite \<Rightarrow> bool" where
  "shares_roundtrip c \<longleftrightarrow> (\<forall>share bs. serialize_share c share = Some bs \<longrightarrow> deserialize_share c bs = Some share)"

lemma released_share_roundtrip:
  assumes "shares_roundtrip c" "rs_index share < 2 ^ 64" "released_share_encode c share = Inr bs"
  shows "released_share_decode c bs = Inr share"
proof -
  from assms(3) obtain enc len where e: "serialize_share c (rs_share share) = Some enc" "u32_try_from (length enc) = Some len"
    and bs: "bs = [1] @ to_le_bytes (of_nat (rs_index share) :: u64) @ arr_bytes (rs_epoch_account share) @
       arr_bytes (rs_lock_digest share) @ arr_bytes (rs_ciphertext_hash share) @ to_le_bytes len @ enc"
    by (auto simp: released_share_encode_def res_simps)
  have len: "unat len = length enc" using e(2) by (auto simp: u32_try_from_def unat_of_nat split: if_splits)
  have i: "unat (of_nat (rs_index share) :: u64) = rs_index share" using assms(2) by (simp add: unat_of_nat)
  have "deserialize_share c enc = Some (rs_share share)" using assms(1) e(1) by (simp add: shares_roundtrip_def)
  then show ?thesis
    by (simp add: released_share_decode_def bs SHARE_PREFIX_def bytes_simps len i)
qed

definition share_bytes :: "suite \<Rightarrow> released_share \<Rightarrow> byte list" where
  "share_bytes c share = projr (encode_share c share)"

definition share_ok :: "suite \<Rightarrow> released_share \<Rightarrow> bool" where
  "share_ok c share \<longleftrightarrow> shares_roundtrip c \<and> rs_index share < 2 ^ 64 \<and> is_ok (encode_share c share)"

interpretation share_reader: offset_reader "share_bytes c" "take_share c" "share_ok c" for c
proof
  fix share bs off rest
  assume ok: "share_ok c share" and at: "rest_at bs off (share_bytes c share @ rest)"
  then obtain enc len where e: "released_share_encode c share = Inr enc" "length enc \<le> MAX_RELEASED_SHARE_WIRE_LEN"
    "u32_try_from (length enc) = Some len" "share_bytes c share = to_le_bytes len @ enc"
    by (auto simp: share_ok_def is_ok_iff share_bytes_def encode_share_def res_simps split: if_splits)
  have len: "unat len = length enc" using e(3) by (auto simp: u32_try_from_def unat_of_nat split: if_splits)
  have "rest_at bs off (to_le_bytes len @ enc @ rest)" using at e(4) by simp
  from u32_reader.step [OF TrueI this]
  have u: "take_u32 bs off = Inr (len, off + 4)" "rest_at bs (off + 4) (enc @ rest)" by simp_all
  have "released_share_decode c enc = Inr share"
    using released_share_roundtrip [OF _ _ e(1)] ok by (simp add: share_ok_def)
  then show "take_share c bs off = Inr (share, off + length (share_bytes c share))"
    using get_slice_at [OF u(2)] e(2) by (simp add: take_share_def u(1) len Let_def e(4) add.assoc not_less)
qed

definition balance_bytes :: "settlement_balance \<Rightarrow> byte list" where
  "balance_bytes b = arr_bytes (sb_participant_id b) @ to_le_bytes (sb_base_atoms b) @ to_le_bytes (sb_quote_atoms b)"

lemma encode_settlement_balance_bytes: "encode_settlement_balance b = balance_bytes b"
  by (simp add: encode_settlement_balance_def balance_bytes_def Let_def bytes_simps)

lemma decode_settlement_balance_bytes: "decode_settlement_balance (balance_bytes b) = b"
  by (simp add: decode_settlement_balance_def balance_bytes_def bytes_simps)

text \<open>Lists of records: as many as counted, each read where the previous one ended.\<close>

lemma take_balances_at:
  "rest_at bs off (concat (map encode_settlement_balance balances) @ rest) \<Longrightarrow>
     take_balances bs (length balances) off = Inr (balances, off + 48 * length balances)"
proof (induction balances arbitrary: off)
  case (Cons b balances)
  have at: "rest_at bs off (balance_bytes b @ concat (map encode_settlement_balance balances) @ rest)"
    using Cons.prems by (simp add: encode_settlement_balance_bytes [of b])
  have len: "length (balance_bytes b) = 48" by (simp add: balance_bytes_def)
  from take_array_at [OF at] Cons.IH [OF rest_at_step [OF at]] show ?case
    by (simp add: len decode_settlement_balance_bytes algebra_simps)
qed simp

definition evidence_ok :: "suite \<Rightarrow> decryption_evidence \<Rightarrow> bool" where
  "evidence_ok c e \<longleftrightarrow> share_ok c (fst e) \<and> share_ok c (snd e) \<and> rs_index (fst e) \<noteq> rs_index (snd e)"

lemma take_evidence_at:
  assumes "\<forall>e \<in> set evidence. evidence_ok c e"
    and "rest_at bs off (concat (map (share_bytes c) (concat (map evidence_shares evidence))) @ rest)"
  shows "take_evidence c bs (length evidence) off =
    Inr (evidence, off + length (concat (map (share_bytes c) (concat (map evidence_shares evidence)))))"
  using assms
proof (induction evidence arbitrary: off)
  case (Cons e evidence)
  let ?more = "concat (map (share_bytes c) (concat (map evidence_shares evidence))) @ rest"
  have ok: "share_ok c (fst e)" "share_ok c (snd e)" "rs_index (fst e) \<noteq> rs_index (snd e)"
    using Cons.prems(1) by (auto simp: evidence_ok_def)
  have "rest_at bs off (share_bytes c (fst e) @ share_bytes c (snd e) @ ?more)"
    using Cons.prems(2) by (simp add: evidence_shares_def [of e])
  from share_reader.step [OF ok(1) this]
  have f: "take_share c bs off = Inr (fst e, off + length (share_bytes c (fst e)))"
    "rest_at bs (off + length (share_bytes c (fst e))) (share_bytes c (snd e) @ ?more)" by simp_all
  from share_reader.step [OF ok(2) f(2)]
  have g: "take_share c bs (off + length (share_bytes c (fst e))) =
      Inr (snd e, off + length (share_bytes c (fst e)) + length (share_bytes c (snd e)))"
    "rest_at bs (off + length (share_bytes c (fst e)) + length (share_bytes c (snd e))) ?more" by simp_all
  have "\<forall>e \<in> set evidence. evidence_ok c e" using Cons.prems(1) by simp
  from Cons.IH [OF this g(2)] ok(3) show ?case
    by (simp add: f(1) g(1) decryption_evidence_new_def evidence_shares_def [of e] algebra_simps)
qed simp

section \<open>Packages\<close>

text \<open>
  What the constructors establish: submissions have their fixed length and a decodable operator key,
  balances come from \<open>BalanceRecordV1::new\<close>, and the key set has threshold one.
\<close>

definition package_ok :: "suite \<Rightarrow> lock_package \<Rightarrow> bool" where
  "package_ok c p \<longleftrightarrow>
     (\<forall>s \<in> set (pk_submissions p). submission_valid c s) \<and> (\<forall>b \<in> set (pk_balances p). balance_valid b) \<and>
     threshold c (pk_epoch_public_keys p) = 1"

lemma length_submission_encode: "submission_valid c s \<Longrightarrow> length (submission_encode_wire s) = ENCRYPTED_SUBMISSION_V1_LEN"
  using submission_decode_iff [of c "submission_encode_wire s" s]
  by (auto simp: submission_decode_wire_def split: if_splits)

lemma submission_chunks:
  "\<forall>s \<in> set subs. submission_valid c s \<Longrightarrow>
     decode_chunks ENCRYPTED_SUBMISSION_V1_LEN (\<lambda>e. map_err (\<lambda>_. InvalidSubmission) (submission_decode_wire c e)) (length subs)
       (concat (map submission_encode_wire subs) @ rest) = Inr subs"
proof (induction subs)
  case (Cons s subs)
  then have "submission_decode_wire c (submission_encode_wire s) = Inr s" "length (submission_encode_wire s) = ENCRYPTED_SUBMISSION_V1_LEN"
    using submission_decode_iff length_submission_encode by auto
  with Cons show ?case by simp
qed simp

lemma length_submissions:
  "\<forall>s \<in> set subs. submission_valid c s \<Longrightarrow>
     length (concat (map submission_encode_wire subs)) = length subs * ENCRYPTED_SUBMISSION_V1_LEN"
  by (induction subs) (auto simp: length_submission_encode)

lemma length_records: "length (concat (map balance_record_encode bs)) = length bs * 64"
  by (induction bs) (simp_all add: balance_codec.length_enc)

lemma snapshot_round: "snapshot_decode (snapshot_encode s) = Inr s" "length (snapshot_encode s) = 164"
  by (simp_all add: snapshot_decode_def snapshot_encode_eq bytes_simps)

lemma u32_len: "u32_try_from n = Some w \<Longrightarrow> unat w = n"
  by (auto simp: u32_try_from_def unat_of_nat split: if_splits)

text \<open>Where the parts of an encoded package lie, for any parts of the right lengths.\<close>

lemma package_layout:
  fixes acct pre mem nonce :: bytes32 and klen sc bc cnt :: u32
  assumes bs: "bs = [1] @ arr_bytes acct @ conf @ to_le_bytes klen @ keys @ to_le_bytes sc @ subs @ to_le_bytes bc @ bals @ snap @
      arr_bytes pre @ arr_bytes mem @ to_le_bytes cnt @ arr_bytes nonce"
    and conf: "length conf = CONFIGURATION_LEN" and snap: "length snap = 164"
    and ke: "ke = 33 + CONFIGURATION_LEN + 4 + length keys" and se: "se = ke + 4 + length subs" and be: "be = se + 4 + length bals"
  shows "slice 1 33 bs = arr_bytes acct" "slice 33 (33 + CONFIGURATION_LEN) bs = conf"
    "slice (33 + CONFIGURATION_LEN) (33 + CONFIGURATION_LEN + 4) bs = to_le_bytes klen"
    "get_slice (33 + CONFIGURATION_LEN + 4) ke bs = Some keys" "get_slice ke (ke + 4) bs = Some (to_le_bytes sc)"
    "slice (ke + 4) se bs = subs" "slice se (se + 4) bs = to_le_bytes bc" "slice (se + 4) be bs = bals" "slice be (be + 164) bs = snap"
    "slice (be + 164) (be + 164 + 32) bs = arr_bytes pre" "slice (be + 164 + 32) (be + 164 + 64) bs = arr_bytes mem"
    "slice (be + 164 + 64) (be + 164 + 68) bs = to_le_bytes cnt" "slice (be + 164 + 68) (be + 164 + 100) bs = arr_bytes nonce"
    "length bs = be + 264"
proof -
  let ?t1 = "arr_bytes pre @ arr_bytes mem @ to_le_bytes cnt @ arr_bytes nonce"
  let ?t2 = "to_le_bytes bc @ bals @ snap @ ?t1"
  let ?t3 = "keys @ to_le_bytes sc @ subs @ ?t2"
  have at0: "rest_at bs 0 ([1] @ arr_bytes acct @ conf @ to_le_bytes klen @ ?t3)" unfolding bs by (rule rest_at_0)
  have at1: "rest_at bs 1 (arr_bytes acct @ conf @ to_le_bytes klen @ ?t3)" using rest_at_step [OF at0] by simp
  have at2: "rest_at bs 33 (conf @ to_le_bytes klen @ ?t3)" using rest_at_step [OF at1] by simp
  have at3: "rest_at bs (33 + CONFIGURATION_LEN) (to_le_bytes klen @ ?t3)" using rest_at_step [OF at2] unfolding conf .
  have at4: "rest_at bs (33 + CONFIGURATION_LEN + 4) ?t3" using rest_at_step [OF at3] by (simp only: length_to_le_bytes) simp
  have at5: "rest_at bs ke (to_le_bytes sc @ subs @ ?t2)" using rest_at_step [OF at4] unfolding ke .
  have at6: "rest_at bs (ke + 4) (subs @ ?t2)" using rest_at_step [OF at5] by simp
  have at7: "rest_at bs se ?t2" using rest_at_step [OF at6] unfolding se .
  have at8: "rest_at bs (se + 4) (bals @ snap @ ?t1)" using rest_at_step [OF at7] by simp
  have at9: "rest_at bs be (snap @ ?t1)" using rest_at_step [OF at8] unfolding be .
  have at10: "rest_at bs (be + 164) ?t1" using rest_at_step [OF at9] unfolding snap .
  have at11: "rest_at bs (be + 196) (arr_bytes mem @ to_le_bytes cnt @ arr_bytes nonce)" using rest_at_step [OF at10] by (simp add: add.commute)
  have at12: "rest_at bs (be + 228) (to_le_bytes cnt @ arr_bytes nonce)" using rest_at_step [OF at11] by (simp add: add.commute)
  have at13: "rest_at bs (be + 232) (arr_bytes nonce @ [])" using rest_at_step [OF at12] by (simp add: add.commute)
  show "slice 1 33 bs = arr_bytes acct" using slice_at [OF at1] by simp
  show "slice 33 (33 + CONFIGURATION_LEN) bs = conf" using slice_at [OF at2] unfolding conf .
  show "slice (33 + CONFIGURATION_LEN) (33 + CONFIGURATION_LEN + 4) bs = to_le_bytes klen"
    using slice_at [OF at3] by (simp only: length_to_le_bytes) simp
  show "get_slice (33 + CONFIGURATION_LEN + 4) ke bs = Some keys" using get_slice_at [OF at4] unfolding ke .
  show "get_slice ke (ke + 4) bs = Some (to_le_bytes sc)" using get_slice_at [OF at5] by simp
  show "slice (ke + 4) se bs = subs" using slice_at [OF at6] unfolding se .
  show "slice se (se + 4) bs = to_le_bytes bc" using slice_at [OF at7] by simp
  show "slice (se + 4) be bs = bals" using slice_at [OF at8] unfolding be .
  show "slice be (be + 164) bs = snap" using slice_at [OF at9] unfolding snap .
  show "slice (be + 164) (be + 164 + 32) bs = arr_bytes pre" "slice (be + 164 + 32) (be + 164 + 64) bs = arr_bytes mem"
    "slice (be + 164 + 64) (be + 164 + 68) bs = to_le_bytes cnt" "slice (be + 164 + 68) (be + 164 + 100) bs = arr_bytes nonce"
    using slice_at [OF at10] slice_at [OF at11] slice_at [OF at12] slice_at [OF at13] by (simp_all add: add.commute)
  show "length bs = be + 264" using rest_at_length [OF at13] by simp
qed

lemma package_roundtrip:
  assumes "keys_roundtrip c" "package_ok c p" "package_encode_wire c p = Inr bs"
  shows "package_decode_wire c bs = Inr p"
proof -
  from assms(3) obtain keys klen scount bcount where
    e: "length (pk_submissions p) \<le> MAX_BATCH_MEMBERS" "length (pk_balances p) \<le> MAX_BATCH_MEMBERS"
      "serialize_keys c (pk_epoch_public_keys p) = Some keys" "length keys \<le> MAX_EPOCH_PUBLIC_KEYS_LEN"
      "u32_try_from (length keys) = Some klen" "u32_try_from (length (pk_submissions p)) = Some scount"
      "u32_try_from (length (pk_balances p)) = Some bcount"
    and bs: "bs = [1] @ arr_bytes (pk_epoch_account p) @ configuration_encode (pk_configuration p) @
        to_le_bytes klen @ keys @ to_le_bytes scount @ concat (map submission_encode_wire (pk_submissions p)) @
        to_le_bytes bcount @ concat (map balance_record_encode (pk_balances p)) @
        snapshot_encode (pk_balance_snapshot p) @ arr_bytes (pk_pre_balance_root p) @ arr_bytes (pk_member_root p) @
        to_le_bytes (pk_member_count p) @ arr_bytes (pk_lock_nonce p)" (is "bs = ?tag @ ?acct @ ?conf @ ?klen @ keys @ ?sc @ ?subs @
        ?bc @ ?bals @ ?snap @ ?pre @ ?mem @ ?count @ ?nonce")
    by (auto simp: package_encode_wire_def keys_encode_wire_def res_simps not_less split: if_splits)
  note len = u32_len [OF e(5)] u32_len [OF e(6)] u32_len [OF e(7)]
  have subs: "length ?subs = length (pk_submissions p) * ENCRYPTED_SUBMISSION_V1_LEN"
    by (rule length_submissions [of _ c]) (use assms(2) in \<open>simp add: package_ok_def\<close>)
  have conf: "length ?conf = CONFIGURATION_LEN" "configuration_decode ?conf = Some (pk_configuration p)"
    by (simp_all add: configuration_codec.length_enc configuration_codec.dec_enc)
  define ke where "ke = 37 + CONFIGURATION_LEN + length keys"
  define se where "se = ke + 4 + length (pk_submissions p) * ENCRYPTED_SUBMISSION_V1_LEN"
  define be where "be = se + 4 + length (pk_balances p) * 64"
  have kes: "ke = 33 + CONFIGURATION_LEN + 4 + length keys" by (simp add: ke_def)
  note l = package_layout [OF bs conf(1) snapshot_round(2) kes se_def [folded subs] be_def [folded length_records]]
  note l(14)
  moreover have "bs ! 0 = 1" unfolding bs by simp
  moreover have off: "ke + 4 + length (pk_submissions p) * ENCRYPTED_SUBMISSION_V1_LEN = se"
    "se + 4 + length (pk_balances p) * 64 = be" by (simp_all add: se_def be_def)
  moreover have "FIXED_PREFIX + FIXED_SUFFIX \<le> be + 264" "se + FIXED_SUFFIX \<le> be + 264"
    by (simp_all add: FIXED_PREFIX_def FIXED_SUFFIX_def ke_def se_def be_def)
  moreover have "keys_decode_wire c keys = Inr (pk_epoch_public_keys p)"
    using assms(1,2) e(3) by (simp add: keys_decode_wire_def keys_roundtrip_def package_ok_def)
  moreover have "decode_chunks ENCRYPTED_SUBMISSION_V1_LEN (\<lambda>e. map_err (\<lambda>_. InvalidSubmission) (submission_decode_wire c e))
      (length (pk_submissions p)) ?subs = Inr (pk_submissions p)"
    using submission_chunks [of "pk_submissions p" c "[]"] assms(2) by (simp add: package_ok_def)
  moreover have "decode_chunks 64 balance_record_decode (length (pk_balances p)) ?bals = Inr (pk_balances p)"
    using balance_codec.chunks_enc [of "pk_balances p" "[]"] assms(2) by (simp add: package_ok_def)
  ultimately show ?thesis
    using e(1,2,4) l conf(2) snapshot_round(1) len kes [symmetric]
    unfolding package_decode_wire_def by (simp add: Let_def not_less)
qed

section \<open>Requests\<close>

definition request_ok :: "suite \<Rightarrow> settlement_request \<Rightarrow> bool" where
  "request_ok c q \<longleftrightarrow>
     package_ok c (sq_package q) \<and> (\<forall>e \<in> set (sq_decryption_evidence q). evidence_ok c e) \<and>
     length (sq_decryption_evidence q) = length (pk_submissions (sq_package q)) \<and>
     unat (pk_member_count (sq_package q)) = length (pk_submissions (sq_package q)) \<and>
     length (pk_submissions (sq_package q)) \<le> MAX_BATCH_MEMBERS \<and>
     length (sq_post_balances q) = length (pk_balances (sq_package q)) \<and>
     length (sq_post_balances q) \<le> MAX_BATCH_MEMBERS \<and>
     (case sq_residual q of Residual_none \<Rightarrow> True | Residual_buy lots \<Rightarrow> lots \<noteq> 0 | Residual_sell lots \<Rightarrow> lots \<noteq> 0)"

lemma residual_round:
  "residual_wire r = (side, lots) \<Longrightarrow>
     (case r of Residual_none \<Rightarrow> True | Residual_buy lots \<Rightarrow> lots \<noteq> 0 | Residual_sell lots \<Rightarrow> lots \<noteq> 0) \<Longrightarrow>
     residual_of_wire side lots = Inr r"
  by (cases r) (auto simp: residual_of_wire_def word_le_nat_alt unat_gt_0 Suc_le_eq)

lemma encoded_shares:
  "try_map (encode_share c) shares = Inr bss \<Longrightarrow> concat bss = concat (map (share_bytes c) shares)"
proof (induction shares arbitrary: bss)
  case (Cons share shares)
  then show ?case by (auto simp: res_simps share_bytes_def)
qed simp

lemma posts: "length (concat (map encode_settlement_balance xs)) = 48 * length xs"
  by (induction xs) (simp_all add: encode_settlement_balance_bytes balance_bytes_def)

lemma take_tail:
  fixes pre post root com nonce dig :: bytes32 and lots :: u32
  assumes "rest_at bs o6 (arr_bytes pre @ arr_bytes post @ [side] @ to_le_bytes lots @ arr_bytes root @ arr_bytes com @
    arr_bytes nonce @ arr_bytes dig @ [])"
  shows "\<exists>o7 o8 o9 o10 o11 o12. take_digest bs o6 = Inr (pre, o7) \<and> take_digest bs o7 = Inr (post, o8) \<and> o8 < length bs \<and>
    bs ! o8 = side \<and> take_u32 bs (o8 + 1) = Inr (lots, o9) \<and> take_digest bs o9 = Inr (root, o10) \<and>
    take_digest bs o10 = Inr (com, o11) \<and> take_digest bs o11 = Inr (nonce, o12) \<and> take_digest bs o12 = Inr (dig, length bs)"
proof -
  from digest_reader.advance [OF TrueI assms] obtain o7 where
    s7: "take_digest bs o6 = Inr (pre, o7)" and a7: "rest_at bs o7 (arr_bytes post @ [side] @ to_le_bytes lots @ arr_bytes root @
      arr_bytes com @ arr_bytes nonce @ arr_bytes dig @ [])" by blast
  from digest_reader.advance [OF TrueI a7] obtain o8 where
    s8: "take_digest bs o7 = Inr (post, o8)" and a8: "rest_at bs o8 ([side] @ to_le_bytes lots @ arr_bytes root @
      arr_bytes com @ arr_bytes nonce @ arr_bytes dig @ [])" by blast
  have side: "o8 < length bs" "bs ! o8 = side" using rest_at_length [OF a8] nth_at [of bs o8 side] a8 by simp_all
  have "rest_at bs (o8 + 1) (to_le_bytes lots @ arr_bytes root @ arr_bytes com @ arr_bytes nonce @ arr_bytes dig @ [])"
    using rest_at_step [OF a8] by simp
  from u32_reader.advance [OF TrueI this] obtain o9 where
    s9: "take_u32 bs (o8 + 1) = Inr (lots, o9)" and a9: "rest_at bs o9 (arr_bytes root @ arr_bytes com @ arr_bytes nonce @ arr_bytes dig @ [])"
    by blast
  from digest_reader.advance [OF TrueI a9] obtain o10 where
    s10: "take_digest bs o9 = Inr (root, o10)" and a10: "rest_at bs o10 (arr_bytes com @ arr_bytes nonce @ arr_bytes dig @ [])" by blast
  from digest_reader.advance [OF TrueI a10] obtain o11 where
    s11: "take_digest bs o10 = Inr (com, o11)" and a11: "rest_at bs o11 (arr_bytes nonce @ arr_bytes dig @ [])" by blast
  from digest_reader.advance [OF TrueI a11] obtain o12 where
    s12: "take_digest bs o11 = Inr (nonce, o12)" and a12: "rest_at bs o12 (arr_bytes dig @ [])" by blast
  from digest_reader.advance [OF TrueI a12] obtain o13 where
    s13: "take_digest bs o12 = Inr (dig, o13)" and a13: "rest_at bs o13 []" by blast
  have "o13 = length bs" using rest_at_length [OF a13] by simp
  with s7 s8 side s9 s10 s11 s12 s13 show ?thesis by blast
qed

lemma request_roundtrip:
  assumes "keys_roundtrip c" "request_ok c q" "request_encode_wire c q = Inr bs"
  shows "request_decode_wire c bs = Inr q"
proof -
  let ?p = "sq_package q" and ?ev = "sq_decryption_evidence q" and ?post = "sq_post_balances q"
  let ?tail = "\<lambda>side lots. arr_bytes (sq_pre_balance_root q) @ arr_bytes (sq_post_balance_root q) @ [side] @ to_le_bytes (lots :: u32) @
       arr_bytes (sq_result_root q) @ arr_bytes (sq_result_commitment q) @ arr_bytes (sq_settlement_nonce q) @
       arr_bytes (sq_settlement_digest q) @ []"
  obtain side lots where r: "residual_wire (sq_residual q) = (side, lots)" by (cases "residual_wire (sq_residual q)")
  from assms(3) obtain package plen ecount shares pcount where
    e: "package_encode_wire c ?p = Inr package" "u32_try_from (length package) = Some plen"
      "u32_try_from (length ?ev) = Some ecount" "try_map (encode_share c) (concat (map evidence_shares ?ev)) = Inr shares"
      "u32_try_from (length ?post) = Some pcount"
    and bs: "bs = [1] @ to_le_bytes plen @ package @ to_le_bytes ecount @ concat shares @ to_le_bytes pcount @
       concat (map encode_settlement_balance ?post) @ ?tail side lots"
    by (auto simp: request_encode_wire_def r res_simps)
  note ok = assms(2) [unfolded request_ok_def] and len = u32_len [OF e(2)] u32_len [OF e(3)] u32_len [OF e(5)]
  have b0: "bs ! 0 = 1" "1 + 4 \<le> length bs" unfolding bs by simp_all
  have a1: "rest_at bs 1 (to_le_bytes plen @ package @ to_le_bytes ecount @ concat shares @ to_le_bytes pcount @
       concat (map encode_settlement_balance ?post) @ ?tail side lots)" by (simp add: rest_at_def bs)
  from u32_reader.advance [OF TrueI a1] obtain o1
    where s1: "take_u32 bs 1 = Inr (plen, o1)" and a: "rest_at bs o1 (package @ to_le_bytes ecount @ concat shares @ to_le_bytes pcount @
       concat (map encode_settlement_balance ?post) @ ?tail side lots)" by blast
  have s2: "get_slice o1 (o1 + unat plen) bs = Some package" using get_slice_at [OF a] len by simp
  from u32_reader.advance [OF TrueI rest_at_step [OF a]] obtain o3
    where s3: "take_u32 bs (o1 + unat plen) = Inr (ecount, o3)" and a3: "rest_at bs o3 (concat shares @
       to_le_bytes pcount @ concat (map encode_settlement_balance ?post) @ ?tail side lots)" using len(1) by auto
  note a3 = a3 [unfolded encoded_shares [OF e(4)]]
  have "\<forall>e \<in> set ?ev. evidence_ok c e" using ok by simp
  from take_evidence_at [OF this a3] rest_at_step [OF a3] obtain o4
    where s4: "take_evidence c bs (length ?ev) o3 = Inr (?ev, o4)" and a4: 
       "rest_at bs o4 (to_le_bytes pcount @ concat (map encode_settlement_balance ?post) @ ?tail side lots)" by blast
  from u32_reader.advance [OF TrueI a4] obtain o5 where s5: "take_u32 bs o4 = Inr (pcount, o5)" 
    and a5: "rest_at bs o5 (concat (map encode_settlement_balance ?post) @ ?tail side lots)" by blast
  from take_balances_at [OF a5] rest_at_step [OF a5] posts [of ?post] obtain o6
    where s6: "take_balances bs (length ?post) o5 = Inr (?post, o6)" and a6: "rest_at bs o6 (?tail side lots)" by auto
  from take_tail [OF a6] obtain o7 o8 o9 o10 o11 o12 where
    t: "take_digest bs o6 = Inr (sq_pre_balance_root q, o7)" "take_digest bs o7 = Inr (sq_post_balance_root q, o8)"
      "o8 < length bs" "bs ! o8 = side" "take_u32 bs (o8 + 1) = Inr (lots, o9)" "take_digest bs o9 = Inr (sq_result_root q, o10)"
      "take_digest bs o10 = Inr (sq_result_commitment q, o11)" "take_digest bs o11 = Inr (sq_settlement_nonce q, o12)"
      "take_digest bs o12 = Inr (sq_settlement_digest q, length bs)" by blast
  have "package_decode_wire c package = Inr ?p" using package_roundtrip [OF assms(1) _ e(1)] ok by simp
  moreover have "ecount = pk_member_count ?p" using ok len(2) by (simp add: word_unat_eq_iff)
  moreover have "residual_of_wire side lots = Inr (sq_residual q)" using residual_round [OF r] ok by simp
  ultimately show ?thesis
    using b0 s1 s2 s3 s4 s5 s6 t ok len unfolding request_decode_wire_def by (simp add: Let_def)
qed

lemma approval_roundtrip: "approval_decode_wire (approval_encode_wire a) = Inr a"
proof -
  have len: "length (settlement_payload_encode (sa_payload a)) = 374"
    using settlement_codec.length_enc [of "sa_payload a"] by (simp add: SETTLEMENT_PAYLOAD_LEN_def)
  then have p: "slice 33 407 (approval_encode_wire a) = settlement_payload_encode (sa_payload a)"
    by (simp add: approval_encode_wire_def bytes_simps)
  have "settlement_payload_decode (settlement_payload_encode (sa_payload a)) = Some (sa_payload a)"
    by (simp add: settlement_codec.dec_enc)
  with len show ?thesis
    unfolding approval_decode_wire_def p by (simp add: approval_encode_wire_def bytes_simps)
qed

section \<open>Built requests are well formed\<close>

lemma length_netted:
  assumes "net_batch config before orders = Inr r" "bt_wf before" "length before \<le> 2 ^ 63"
  shows "length (br_balances r) = length before"
proof -
  note n = assms(1) [unfolded net_batch_Inr [OF assms(2,3)]]
  have "dom (bt_get (br_balances r)) = dom (bt_get before)"
    using n by (auto simp: dom_def net_balance_def split: option.splits)
  then show ?thesis using bt.length_entries [of "br_balances r"] bt.length_entries [OF assms(2)] n by simp
qed

lemma netted_residual:
  assumes "net_batch config before orders = Inr r" "bt_wf before" "length before \<le> 2 ^ 63"
  shows "case br_residual r of Residual_none \<Rightarrow> True | Residual_buy lots \<Rightarrow> lots \<noteq> 0 | Residual_sell lots \<Rightarrow> lots \<noteq> 0"
proof -
  note n = assms(1) [unfolded net_batch_Inr [OF assms(2,3)]]
  have nz: "(of_nat (a - b) :: u32) \<noteq> 0" if "b < a" "a < 2 ^ 32" for a b
  proof -
    have "unat (of_nat (a - b) :: u32) = a - b" using that by (simp only: unat_of_nat) simp
    with that show ?thesis by auto
  qed
  show ?thesis using n nz by (auto simp: net_residual_def)
qed

lemma encoded_each: "try_map f xs = Inr ys \<Longrightarrow> x \<in> set xs \<Longrightarrow> is_ok (f x)"
  by (induction xs arbitrary: ys) (auto simp: res_simps is_ok_iff)

lemma validated_package_ok:
  assumes "package_validate c p confirmed = Inr digest" "\<forall>b \<in> set (pk_balances p). balance_valid b"
    "threshold c (pk_epoch_public_keys p) = 1"
  shows "package_ok c p"
proof -
  have "submission_valid c s" if "s \<in> set (pk_submissions p)" for s
  proof -
    have "verify_admission c s (oe_policy confirmed) = Inr ()"
      using assms(1) that by (auto simp: package_validate_Inr members_ok_def)
    then show ?thesis
      by (auto simp: verify_admission_Inr submission_valid_def authorization_valid_def decode_ciphertext_def is_ok_iff split: if_splits)
  qed
  then show ?thesis using assms(2,3) by (simp add: package_ok_def)
qed

lemma built_request_ok:
  assumes build: "settlement_request_build c p evidence nonce confirmed = Inr q" and enc: "request_encode_wire c q = Inr bs"
    and typed: "\<forall>b \<in> set (pk_balances p). balance_valid b" "threshold c (pk_epoch_public_keys p) = 1"
      "\<forall>e \<in> set evidence. rs_index (fst e) < 2 ^ 64 \<and> rs_index (snd e) < 2 ^ 64" "shares_roundtrip c"
  shows "request_ok c q"
proof -
  from build obtain rc where rc: "recompute c p evidence nonce confirmed = Inr rc"
    and q: "sq_package q = p" "sq_decryption_evidence q = evidence" "sq_post_balances q = rc_post_balances rc"
      "sq_residual q = rc_residual rc"
    by (auto simp: settlement_request_build_def res_simps)
  from rc [unfolded recompute_Inr] obtain digest pool intents r post_root result_root where
    v: "package_validate_locked c p confirmed = Inr digest" and i: "intents_of c confirmed p evidence intents"
    and d: "distinct (map bl_participant_id (pk_balances p))"
    and net: "net_batch (batch_of p) (balances_before (pk_balances p)) (map order_of_intent intents) = Inr r"
    and res: "rc = settlement_result c p nonce confirmed pool intents r post_root result_root" by blast
  from validate_locked_Inr [OF v] obtain pool' policy where
    pv: "package_validate c p (reopened confirmed pool' policy) = Inr digest" by metis
  note valid = pv [unfolded package_validate_Inr]
  have pok: "package_ok c p" by (rule validated_package_ok [OF pv typed(1,2)])
  from enc obtain shares where sh: "try_map (encode_share c) (concat (map evidence_shares evidence)) = Inr shares"
    by (auto simp: request_encode_wire_def q res_simps case_prod_beta)
  have eok: "evidence_ok c e" if "e \<in> set evidence" for e
  proof -
    have len: "length evidence = length (pk_submissions p)" using i by (simp add: intents_of_def)
    from that obtain n where n: "n < length evidence" "evidence ! n = e" by (auto simp: in_set_conv_nth)
    have "\<exists>s intent. recover_submission c (pk_epoch_public_keys p) s (evidence_shares e) = Inr intent"
      using i n len by (force simp: intents_of_def dest!: list_all2_nthD [where p = n])
    then have "rs_index (fst e) \<noteq> rs_index (snd e)" by (auto simp: recover_submission_Inr evidence_shares_def)
    moreover have "is_ok (encode_share c (fst e))" "is_ok (encode_share c (snd e))"
      using encoded_each [OF sh] that by (auto simp: evidence_shares_def)
    ultimately show ?thesis using typed(3,4) that by (simp add: evidence_ok_def share_ok_def)
  qed
  have lb: "length (balances_before (pk_balances p)) = length (pk_balances p)" using d by (simp add: length_balances_before)
  have wf: "bt_wf (balances_before (pk_balances p))" by (simp add: balances_before_def bt_wf_of_list)
  have small: "length (balances_before (pk_balances p)) \<le> 2 ^ 63" using lb validated_members(2) [OF pv] by simp
  have "length (settlement_balances r) = length (pk_balances p)"
    using length_netted [OF net wf small] lb by (simp add: settlement_balances_def)
  moreover have "length (pk_balances p) \<le> MAX_BATCH_MEMBERS" using validated_members(2) [OF pv] by (simp add: MAX_BATCH_MEMBERS_def)
  ultimately show ?thesis
    using pok eok netted_residual [OF net wf small] valid i res q
    by (simp add: request_ok_def settlement_result_def Let_def intents_of_def)
qed

text \<open>
  C15. A settlement request that the host builds reaches a signature. It is read back unchanged from its
  wire form, and every configured keyper that holds this lock in its journal, with the matching secret
  share, signs it: the approval carries the digest of the request, verifies, and survives its own wire
  form. The hypotheses on the libraries are the correctness of Ed25519 and that serialized key sets and
  shares read back; the others are what the constructors of the parts establish.
\<close>

theorem settlement_pipeline:
  assumes "ed25519_correct c" "keys_roundtrip c" "shares_roundtrip c"
    and build: "settlement_request_build c p evidence nonce confirmed = Inr q" and enc: "request_encode_wire c q = Inr bs"
    and typed: "\<forall>b \<in> set (pk_balances p). balance_valid b" "threshold c (pk_epoch_public_keys p) = 1"
      "\<forall>e \<in> set evidence. rs_index (fst e) < 2 ^ 64 \<and> rs_index (snd e) < 2 ^ 64"
    and keyper: "cl_pool confirmed = Some pool" "keyper_at (ps_keypers pool) (rk_index k) = Some (verifying_key c (rk_signing_key k))"
      "ks_index secret = rk_index k" "ks_epoch_account secret = pk_epoch_account p" "matches_share c (pk_epoch_public_keys p) secret"
      "lock_journal_digest (rk_journal k) (cl_epoch_account confirmed) = Some (es_lock_digest (cl_state confirmed))"
  shows "request_decode_wire c bs = Inr q \<and>
    (\<exists>a. sign_settlement c k q confirmed secret = Inr a \<and> sa_digest a = sq_settlement_digest q \<and>
      settlement_approval_verify c a \<and> approval_decode_wire (approval_encode_wire a) = Inr a)"
proof -
  have "request_decode_wire c bs = Inr q"
    by (rule request_roundtrip [OF assms(2) built_request_ok [OF build enc typed assms(3)] enc])
  moreover from build obtain rc where rc: "recompute c p evidence nonce confirmed = Inr rc"
    and q: "q = \<lparr> sq_package = p, sq_decryption_evidence = evidence, sq_post_balances = rc_post_balances rc,
         sq_pre_balance_root = rc_pre_balance_root rc, sq_post_balance_root = rc_post_balance_root rc,
         sq_residual = rc_residual rc, sq_result_root = rc_result_root rc, sq_result_commitment = rc_result_commitment rc,
         sq_settlement_nonce = nonce, sq_settlement_digest = settlement_payload_digest (hash256 c) (rc_payload rc) \<rparr>"
    by (auto simp: settlement_request_build_def res_simps)
  define a where "a = \<lparr> sa_keyper_key = verifying_key c (rk_signing_key k), sa_payload = rc_payload rc,
      sa_digest = settlement_payload_digest (hash256 c) (rc_payload rc),
      sa_signature = sign c (rk_signing_key k) (arr_bytes (settlement_payload_digest (hash256 c) (rc_payload rc))) \<rparr>"
  have "sign_settlement c k q confirmed secret = Inr a" "sa_digest a = sq_settlement_digest q"
    using rc keyper by (simp_all add: sign_settlement_Inr q a_def)
  moreover have "settlement_approval_verify c a"
    using assms(1) by (simp add: settlement_approval_verify_def ed25519_correct_def a_def)
  ultimately show ?thesis using approval_roundtrip by blast
qed

end
