(* ===== verification/Keyper_Properties.thy ===== *)
theory Keyper_Properties
  imports Keyper_Child Request_Roundtrip
begin

text \<open>
  What the process boundary adds to the lock gate: the leak scan is a search for the secret as a contiguous run
  of bytes in everything the child produced, the parent accepts nothing it has not verified, whatever the child
  is, and with the keyper's own binary as the child a request through the process is the keyper's operation on
  its journal.
\<close>

section \<open>The leak scan\<close>

lemma contains_bytes_sublist: "contains_bytes haystack needle \<longleftrightarrow> needle \<noteq> [] \<and> sublist needle haystack"
proof (intro iffI conjI; (elim conjE)?)
  assume "contains_bytes haystack needle"
  then show "needle \<noteq> []" by (simp add: contains_bytes_def)
  from \<open>contains_bytes haystack needle\<close> obtain i where "needle = slice i (i + length needle) haystack"
    by (auto simp: contains_bytes_def windows_def list_ex_iff)
  then show "sublist needle haystack"
    by (metis slice_def sublist_drop sublist_take sublist_order.order_trans)
next
  assume "sublist needle haystack" "needle \<noteq> []"
  then obtain ps ss where "haystack = ps @ needle @ ss" by (auto simp: sublist_def)
  then have "needle = slice (length ps) (length ps + length needle) haystack"
    "length ps < length haystack + 1 - length needle" by (simp_all add: slice_def)
  with \<open>needle \<noteq> []\<close> show "contains_bytes haystack needle"
    unfolding contains_bytes_def windows_def list_ex_iff set_map set_upt
    by (intro conjI bexI [of _ "slice (length ps) (length ps + length needle) haystack"] imageI) auto
qed

text \<open>The contents of all files at or below the entries of a directory.\<close>

fun files_below :: "dir_entry list \<Rightarrow> byte list list" where
  "files_below [] = []"
| "files_below (Directory (Some below) # entries) = files_below below @ files_below entries"
| "files_below (Regular (Some bytes) # entries) = bytes # files_below entries"
| "files_below (_ # entries) = files_below entries"

lemma scan_clean: "scan_entries needle entries = Inr False \<Longrightarrow> f \<in> set (files_below entries) \<Longrightarrow> \<not> contains_bytes f needle"
  by (induction needle entries rule: scan_entries.induct) (auto simp: res_simps split: if_splits)

lemma scan_found: "scan_entries needle entries = Inr True \<Longrightarrow> \<exists>f \<in> set (files_below entries). contains_bytes f needle"
  by (induction needle entries rule: scan_entries.induct) (auto simp: res_simps split: if_splits)

lemma scan_error: "scan_entries needle entries = Inl e \<Longrightarrow> e = Input"
  by (induction needle entries rule: scan_entries.induct) (auto simp: res_simps split: if_splits)

definition leaks :: "keyper_host \<Rightarrow> byte list \<Rightarrow> child_output \<Rightarrow> dir_entry list \<Rightarrow> byte list \<Rightarrow> bool" where
  "leaks host operation out entries secret \<longleftrightarrow> secret \<noteq> [] \<and>
     (\<exists>bytes \<in> {kh_executable host, kh_directory host, operation, co_stdout out, co_stderr out} \<union> set (files_below entries).
        sublist secret bytes)"

lemma run_one_shot_Inr:
  "run_one_shot host operation encoded secret = Inr out \<longleftrightarrow>
     (\<exists>entries. kh_child host operation encoded = (Exited out, Some entries) \<and>
        scan_entries secret entries = Inr False \<and> \<not> leaks host operation out entries secret)"
proof -
  have "directory_contains_bytes directory secret = Inr False \<longleftrightarrow>
      (\<exists>entries. directory = Some entries \<and> scan_entries secret entries = Inr False)" for directory
    by (auto simp: directory_contains_bytes_def split: option.splits)
  moreover have "child_wait run = Inr out' \<longleftrightarrow> run = Exited out'" for run out' by (cases run) auto
  ultimately show ?thesis
    using scan_clean [of secret]
    by (cases "kh_child host operation encoded")
      (auto simp: run_one_shot_def res_simps leaks_def contains_bytes_sublist split: if_splits; blast)
qed

section \<open>Frames\<close>

lemma append_bound_share_Inr:
  "append_bound_share lib [] share = Inr (encoded, secret) \<longleftrightarrow>
     serialize_secret lib (ks_secret share) = Some secret \<and> length secret = 32 \<and> ks_index share < 2 ^ 64 \<and>
     encoded = [1] @ arr_bytes (ks_epoch_account share) @ to_le_bytes (of_nat (ks_index share) :: u64) @ secret"
  by (auto simp: append_bound_share_def res_simps u64_try_from_def Let_def BOUND_SHARE_LEN_def REQUEST_VERSION_def)

lemma bound_share_roundtrip:
  assumes "append_bound_share lib [] share = Inr (encoded, secret)" "deserialize_secret lib secret = Some (ks_secret share)"
  shows "decode_bound_share lib encoded = Inr share" "length encoded = BOUND_SHARE_LEN" "encoded ! 0 = REQUEST_VERSION"
  using assms
  by (simp_all add: append_bound_share_Inr decode_bound_share_def BOUND_SHARE_LEN_def REQUEST_VERSION_def bytes_simps unat_of_nat)

text \<open>The largest package fits in a request: the size checks of the two lock requests never refuse one.\<close>

lemma package_fits:
  assumes "package_ok c p" "package_encode_wire c p = Inr bs"
  shows "length bs \<le> 49788"
  using assms length_submissions [of "pk_submissions p" c]
  by (auto simp: package_encode_wire_def package_ok_def res_simps configuration_codec.length_enc CONFIGURATION_LEN_def
      length_records snapshot_round MAX_BATCH_MEMBERS_def MAX_EPOCH_PUBLIC_KEYS_LEN_def ENCRYPTED_SUBMISSION_V1_LEN_def
      FUNDED_AUTHORIZATION_V1_LEN_def ENCRYPTED_INTENT_V1_LEN_def split: if_splits)

lemma sign_lock_response_eq:
  "sign_lock_response a = [1] @ arr_bytes (la_keyper_key a) @ arr_bytes (la_digest a) @ arr_bytes (la_signature a)"
  by (simp add: sign_lock_response_def SIGN_LOCK_RESPONSE_LEN_def REQUEST_VERSION_def Let_def bytes_simps)

lemma sign_lock_response_parse:
  "length bs = SIGN_LOCK_RESPONSE_LEN \<and> bs ! 0 = REQUEST_VERSION \<and>
     a = \<lparr> la_keyper_key = arr_of (slice 1 33 bs), la_digest = arr_of (slice 33 65 bs), la_signature = arr_of (slice 65 129 bs) \<rparr>
   \<longleftrightarrow> bs = sign_lock_response a" (is "?l \<longleftrightarrow> ?r")
proof
  assume l: ?l
  then have "bs = bs ! 0 # slice 1 33 bs @ slice 33 65 bs @ slice 65 129 bs"
    by (cases bs) (simp_all add: slice_join slice_all SIGN_LOCK_RESPONSE_LEN_def slice_Cons)
  moreover have "arr_bytes (arr_of (slice 1 33 bs) :: bytes32) = slice 1 33 bs" "arr_bytes (arr_of (slice 33 65 bs) :: bytes32) = slice 33 65 bs"
    "arr_bytes (arr_of (slice 65 129 bs) :: bytes64) = slice 65 129 bs"
    using l by (simp_all add: slice_def SIGN_LOCK_RESPONSE_LEN_def)
  ultimately show ?r using l by (simp add: sign_lock_response_eq REQUEST_VERSION_def)
next
  assume ?r
  then show ?l by (simp add: sign_lock_response_eq SIGN_LOCK_RESPONSE_LEN_def REQUEST_VERSION_def bytes_simps)
qed

section \<open>The parent\<close>

abbreviation package_digest :: "suite \<Rightarrow> lock_package \<Rightarrow> bytes32" where
  "package_digest c p \<equiv> lock_payload_digest (hash256 c) (package_lock_payload c p)"

lemma run_keyper_sign_lock_Inr:
  "run_keyper_sign_lock c lib host share keyper p = Inr a \<longleftrightarrow>
     verify_private_directory (kh_metadata host) = Inr () \<and> la_keyper_key a = keyper \<and> la_digest a = package_digest c p \<and>
     lock_approval_verify c a \<and>
     (\<exists>bs len encoded secret out. package_encode_wire c p = Inr bs \<and> u32_try_from (length bs) = Some len \<and>
        append_bound_share lib [] share = Inr (encoded, secret) \<and>
        length (encoded @ to_le_bytes len @ bs) \<le> MAX_SIGN_LOCK_REQUEST_LEN \<and>
        run_one_shot host (ascii ''sign-lock'') (encoded @ to_le_bytes len @ bs) secret = Inr out \<and>
        co_success out \<and> co_stderr out = [] \<and> co_stdout out = sign_lock_response a)"
  unfolding sign_lock_response_parse [symmetric]
  by (auto simp: run_keyper_sign_lock_def res_simps Let_def validate_lock_approval_def not_less split: prod.splits)

lemma run_keyper_sign_lockI:
  assumes "verify_private_directory (kh_metadata host) = Inr ()" "la_keyper_key a = keyper" "la_digest a = package_digest c p"
    "lock_approval_verify c a" "package_ok c p" "package_encode_wire c p = Inr bs" "append_bound_share lib [] share = Inr (encoded, secret)"
    "run_one_shot host (ascii ''sign-lock'') (encoded @ to_le_bytes (of_nat (length bs) :: u32) @ bs) secret =
       Inr \<lparr> co_success = True, co_stdout = sign_lock_response a, co_stderr = [] \<rparr>"
  shows "run_keyper_sign_lock c lib host share keyper p = Inr a"
proof -
  have len: "length bs \<le> 49788" using package_fits [OF assms(5,6)] .
  moreover have "length encoded = 73" using assms(7) by (auto simp: append_bound_share_Inr)
  ultimately have "u32_try_from (length bs) = Some (of_nat (length bs))"
    "length (encoded @ to_le_bytes (of_nat (length bs) :: u32) @ bs) \<le> MAX_SIGN_LOCK_REQUEST_LEN"
    by (simp_all add: u32_try_from_def MAX_SIGN_LOCK_REQUEST_LEN_def)
  with assms show ?thesis unfolding run_keyper_sign_lock_Inr by fastforce
qed

lemma run_keyper_release_share_Inr:
  "run_keyper_release_share c lib host share p i = Inr r \<longleftrightarrow>
     verify_private_directory (kh_metadata host) = Inr () \<and> i < length (pk_submissions p) \<and> rs_index r = ks_index share \<and>
     rs_epoch_account r = pk_epoch_account p \<and> rs_lock_digest r = package_digest c p \<and>
     released_share_verify c r (pk_epoch_public_keys p) (pk_submissions p ! i) \<and>
     (\<exists>bs len member encoded secret out. package_encode_wire c p = Inr bs \<and> u32_try_from (length bs) = Some len \<and>
        u32_try_from i = Some member \<and> append_bound_share lib [] share = Inr (encoded, secret) \<and>
        length (encoded @ to_le_bytes member @ to_le_bytes len @ bs) \<le> MAX_RELEASE_REQUEST_LEN \<and>
        run_one_shot host (ascii ''release-share'') (encoded @ to_le_bytes member @ to_le_bytes len @ bs) secret = Inr out \<and>
        co_success out \<and> co_stderr out = [] \<and> released_share_decode c (co_stdout out) = Inr r)"
  by (auto simp: run_keyper_release_share_def res_simps Let_def not_less not_le split: prod.splits)

lemma run_keyper_sign_settlement_Inr:
  "run_keyper_sign_settlement c lib host share keyper q = Inr a \<longleftrightarrow>
     verify_private_directory (kh_metadata host) = Inr () \<and> sa_keyper_key a = keyper \<and> sa_digest a = sq_settlement_digest q \<and>
     settlement_approval_verify c a \<and> ks_index share < 3 \<and>
     (\<exists>bs encoded secret out. request_encode_wire c q = Inr bs \<and> length bs \<le> MAX_SETTLEMENT_REQUEST_LEN \<and>
        append_bound_share lib [] share = Inr (encoded, secret) \<and> length (encoded @ bs) \<le> MAX_SETTLEMENT_FRAME_LEN \<and>
        run_one_shot host (ascii ''sign-settlement'') (encoded @ bs) secret = Inr out \<and>
        co_success out \<and> co_stderr out = [] \<and> approval_decode_wire (co_stdout out) = Inr a)"
  by (auto simp: run_keyper_sign_settlement_def res_simps Let_def not_less not_le split: prod.splits)

definition secret_kept :: "share_library \<Rightarrow> keyper_host \<Rightarrow> keyper_secret_share \<Rightarrow> byte list \<Rightarrow> bool" where
  "secret_kept lib host share operation \<longleftrightarrow>
     (\<exists>secret request out entries. serialize_secret lib (ks_secret share) = Some secret \<and> length secret = 32 \<and>
        kh_child host operation request = (Exited out, Some entries) \<and>
        (\<forall>bytes \<in> {co_stdout out, co_stderr out} \<union> set (files_below entries). \<not> sublist secret bytes))"

lemma secret_keptI:
  "append_bound_share lib [] share = Inr (encoded, secret) \<Longrightarrow> run_one_shot host operation request secret = Inr out \<Longrightarrow>
     secret_kept lib host share operation"
  unfolding secret_kept_def append_bound_share_Inr run_one_shot_Inr leaks_def by fastforce

text \<open>
  C9. The coordinator trusts no child. Whatever is installed as the keyper's executable and whatever it answers,
  a lock approval is returned only when it is the expected keyper's valid signature over the digest of exactly the
  package that was sent; a decryption share only when it names this keyper's index, the package's epoch and lock
  digest, and verifies against the member's ciphertext; a settlement approval only when it is the expected
  keyper's valid signature over the digest of the request. In each case the child has exited, and neither its
  output nor any file it left at or below the private directory contains the bytes of the secret share.
\<close>

theorem parent_accepts_only_verified:
  "(run_keyper_sign_lock c lib host share keyper p = Inr a \<longrightarrow>
      la_keyper_key a = keyper \<and> la_digest a = package_digest c p \<and> lock_approval_verify c a \<and>
      secret_kept lib host share (ascii ''sign-lock'')) \<and>
   (run_keyper_release_share c lib host share p i = Inr r \<longrightarrow>
      i < length (pk_submissions p) \<and> rs_index r = ks_index share \<and> rs_epoch_account r = pk_epoch_account p \<and>
      rs_lock_digest r = package_digest c p \<and> released_share_verify c r (pk_epoch_public_keys p) (pk_submissions p ! i) \<and>
      secret_kept lib host share (ascii ''release-share'')) \<and>
   (run_keyper_sign_settlement c lib host share keyper q = Inr s \<longrightarrow>
      sa_keyper_key s = keyper \<and> sa_digest s = sq_settlement_digest q \<and> settlement_approval_verify c s \<and>
      secret_kept lib host share (ascii ''sign-settlement''))"
  unfolding run_keyper_sign_lock_Inr run_keyper_release_share_Inr run_keyper_sign_settlement_Inr
  using secret_keptI by blast

lemma one_shot_leak:
  assumes "kh_child host operation request = (Exited out, Some entries)" "secret \<noteq> []" "sublist secret bytes"
    and "bytes \<in> {co_stdout out, co_stderr out} \<union> set (files_below entries)"
  shows "run_one_shot host operation request secret = Inl SecretLeak \<or>
    bytes \<notin> {co_stdout out, co_stderr out} \<and> run_one_shot host operation request secret = Inl Input"
proof (cases "bytes \<in> {co_stdout out, co_stderr out}")
  case True
  then show ?thesis using assms(1-3) by (auto simp: run_one_shot_def contains_bytes_sublist)
next
  case False
  then have "scan_entries secret entries \<noteq> Inr False"
    using assms(2-4) scan_clean [of secret entries bytes] by (auto simp: contains_bytes_sublist)
  then consider "scan_entries secret entries = Inr True" | "scan_entries secret entries = Inl Input"
    using scan_error [of secret entries] by (cases "scan_entries secret entries") auto
  then show ?thesis using assms(1) False by cases (simp_all add: run_one_shot_def directory_contains_bytes_def)
qed


section \<open>The self test\<close>

lemma response_roundtrip:
  assumes "st_index r < 2 ^ 64" "public_share_valid lib (st_public_key_share r)" "signature_share_valid lib (st_signature r)"
  shows "decode_response lib (encode_response r) = Inr r"
proof -
  have "arr_of (arr_bytes (st_public_key_share r)) = st_public_key_share r" "arr_of (arr_bytes (st_signature r)) = st_signature r"
    by (simp_all add: arr_of_arr_bytes)
  moreover have "unat (of_nat (st_index r) :: u64) = st_index r" using assms(1) by (simp add: unat_of_nat)
  ultimately show ?thesis
    using assms(2,3) by (simp add: decode_response_def encode_response_def keyper_lens REQUEST_VERSION_def bytes_simps length_arr_bytes)
qed

text \<open>What \<open>threshold_crypto\<close> documents of a share's signature: it verifies under the share's public key.\<close>

definition share_library_correct :: "suite \<Rightarrow> share_library \<Rightarrow> bool" where
  "share_library_correct c lib \<longleftrightarrow>
     (\<forall>s m. public_share_valid lib (public_share c s) \<and> signature_share_valid lib (share_sign lib s m) \<and>
        share_verify lib (public_share c s) (share_sign lib s m) m) \<and>
     (\<forall>s bs. serialize_secret lib s = Some bs \<longrightarrow> deserialize_secret lib bs = Some s)"

lemma self_test_passes:
  assumes lib: "share_library_correct c lib" "serialize_secret lib (ks_secret share) = Some secret" "length secret = 32"
    and "ks_index share < 2 ^ 64" "verify_private_directory (kh_metadata host) = Inr ()" "ke_stdout_ok env"
    and request: "self_test_serialize lib 1 (of_nat (ks_index share)) challenge (ks_secret share) = Some request"
    and child: "keyper_main c lib (env \<lparr> ke_stdin := Some request \<rparr>) (ascii ''self-test'') files = (files', Some out)"
      "kh_child host (ascii ''self-test'') request = (Exited out, directory)"
    and r: "r = \<lparr> st_index = ks_index share, st_public_key_share = public_share c (ks_secret share),
        st_signature = share_sign lib (ks_secret share) (arr_bytes challenge) \<rparr>"
    and clean: "\<not> sublist secret (encode_response r)"
  shows "run_keyper_self_test lib host share challenge = Inr r"
proof -
  have q: "request = [1] @ to_le_bytes (of_nat (ks_index share) :: u64) @ arr_bytes challenge @ secret"
    using request lib(2) by (auto simp: self_test_serialize_def Let_def split: if_splits)
  then have len: "length request = REQUEST_LEN" using lib(3) by (simp add: REQUEST_LEN_def)
  have i: "unat (of_nat (ks_index share) :: u64) = ks_index share" using assms(4) by (simp add: unat_of_nat)
  have "self_test_deserialize lib request = Some (1, of_nat (ks_index share), challenge, ks_secret share)"
    using lib by (simp add: self_test_deserialize_def q bytes_simps share_library_correct_def)
  then have "handle_keyper_self_test c lib (env \<lparr> ke_stdin := Some request \<rparr>) = Inr (encode_response r)"
    using len assms(6) by (simp add: handle_keyper_self_test_def read_stdin_def REQUEST_VERSION_def write_stdout_def i r)
  then have out: "out = \<lparr> co_success = True, co_stdout = encode_response r, co_stderr = [] \<rparr>"
    using child(1) by (simp add: keyper_main_def exit_with_def)
  have "decode_response lib (encode_response r) = Inr r"
    using lib(1) assms(4) by (intro response_roundtrip) (simp_all add: r share_library_correct_def)
  moreover have "self_test_verify lib r challenge" using lib(1) by (simp add: self_test_verify_def r share_library_correct_def)
  moreover have "\<not> contains_bytes [] secret" "\<not> contains_bytes (encode_response r) secret"
    using clean lib(3) by (auto simp: contains_bytes_sublist)
  ultimately show ?thesis
    using assms(4,5) request lib(2) len child(2) out
    by (simp add: run_keyper_self_test_def u64_try_from_def REQUEST_VERSION_def) (simp add: r)
qed

section \<open>The keyper behind the process\<close>

lemma sign_lock_request_framed:
  assumes "keys_roundtrip c" "package_ok c p" "package_encode_wire c p = Inr bs"
    and frame: "append_bound_share lib [] share = Inr (encoded, secret)" "deserialize_secret lib secret = Some (ks_secret share)"
  shows "sign_lock_request c lib (env \<lparr> ke_stdin := Some (encoded @ to_le_bytes (of_nat (length bs) :: u32) @ bs) \<rparr>) =
    try_bind (read_keyper_attestation_key env) (\<lambda>signing_key.
    try_bind (map_err (\<lambda>_. InvalidRequest) (read_keyper_rpc_url env)) (\<lambda>rpc_url.
    try_bind (map_err (\<lambda>_. InvalidRequest)
      (fetch_confirmed_open_epoch c (ke_sysvars env) (ke_node env rpc_url) (pk_epoch_account p))) (\<lambda>confirmed.
    Inr (share, p, signing_key, confirmed))))"
proof -
  define r where "r = encoded @ to_le_bytes (of_nat (length bs) :: u32) @ bs"
  note e = bound_share_roundtrip [OF frame]
  have len: "length bs \<le> 49788" using package_fits [OF assms(2,3)] .
  have r: "take (MAX_SIGN_LOCK_REQUEST_LEN + 1) r = r" "length r = SIGN_LOCK_PREFIX_LEN + length bs"
    "take BOUND_SHARE_LEN r = encoded" "drop SIGN_LOCK_PREFIX_LEN r = bs" "r ! 0 = REQUEST_VERSION"
    "slice BOUND_SHARE_LEN SIGN_LOCK_PREFIX_LEN r = to_le_bytes (of_nat (length bs) :: u32)"
    using e(2,3) len
    by (simp_all add: r_def BOUND_SHARE_LEN_def SIGN_LOCK_PREFIX_LEN_def MAX_SIGN_LOCK_REQUEST_LEN_def slice_def nth_append)
  have n: "unat (of_nat (length bs) :: u32) = length bs" using len by (simp add: unat_of_nat)
  have reads: "read_keyper_attestation_key (env \<lparr> ke_stdin := x \<rparr>) = read_keyper_attestation_key env"
    "read_keyper_rpc_url (env \<lparr> ke_stdin := x \<rparr>) = read_keyper_rpc_url env" for x
    by (simp_all add: read_keyper_attestation_key_def read_keyper_rpc_url_def cong: if_cong)
  have fits: "\<not> SIGN_LOCK_PREFIX_LEN + length bs < SIGN_LOCK_PREFIX_LEN" "\<not> MAX_SIGN_LOCK_REQUEST_LEN < SIGN_LOCK_PREFIX_LEN + length bs"
    using len by (simp_all add: keyper_lens)
  show ?thesis
    unfolding sign_lock_request_def read_stdin_def r_def [symmetric]
    using r(1) by (simp add: r(2-) n fits e(1) reads package_roundtrip [OF assms(1,2,3)])
qed

lemma keeping_Inr: "keeping s r f = (s', Inr y) \<longleftrightarrow> (\<exists>x. r = Inr x \<and> f x = (s', Inr y))"
  by (auto simp: keeping_def split: sum.splits)

lemma exit_with_success:
  "co_success (exit_with m r) \<and> co_stderr (exit_with m r) = [] \<and> co_stdout (exit_with m r) = bs \<longleftrightarrow> r = Inr bs"
  by (auto simp: exit_with_def split: sum.splits)

lemma sign_lock_response_inject: "sign_lock_response a = sign_lock_response b \<longleftrightarrow> a = b"
  using sign_lock_response_parse [of "sign_lock_response a"] by metis

lemma handle_keyper_sign_lock_Inr:
  "handle_keyper_sign_lock c lib env files = (files', Inr (sign_lock_response a)) \<longleftrightarrow>
     ke_stdout_ok env \<and>
     (\<exists>secret package signing_key confirmed path marker journal path' k'.
        sign_lock_request c lib env = Inr (secret, package, signing_key, confirmed) \<and>
        open_keyper_journal c env files = ((path, marker), Inr journal) \<and>
        sign_lock c (ke_sign_io env) package confirmed secret
          (path, \<lparr> rk_index = ks_index secret, rk_signing_key = signing_key, rk_journal = journal \<rparr>) = ((path', k'), Inr a) \<and>
        files' = (path', marker))"
proof (cases "sign_lock_request c lib env")
  case (Inr x)
  obtain secret package signing_key confirmed where x: "x = (secret, package, signing_key, confirmed)" by (cases x)
  obtain path marker opened where o: "open_keyper_journal c env files = ((path, marker), opened)"
    by (cases "open_keyper_journal c env files") auto
  show ?thesis
  proof (cases opened)
    case (Inr journal)
    obtain path' k' outcome where "sign_lock c (ke_sign_io env) package confirmed secret
        (path, \<lparr> rk_index = ks_index secret, rk_signing_key = signing_key, rk_journal = journal \<rparr>) = ((path', k'), outcome)"
      by (metis prod.exhaust)
    with Inr o x \<open>sign_lock_request c lib env = Inr x\<close> show ?thesis
      by (auto simp: handle_keyper_sign_lock_def keeping_def res_simps write_stdout_def sign_lock_response_inject)
  qed (use o x Inr in \<open>auto simp: handle_keyper_sign_lock_def keeping_def\<close>)
qed (auto simp: handle_keyper_sign_lock_def keeping_def)

lemma keyper_main_sign_lock:
  "keyper_main c lib env (ascii ''sign-lock'') files = (files', Some out) \<longleftrightarrow>
     (\<exists>r. handle_keyper_sign_lock c lib env files = (files', r) \<and>
        out = exit_with (Some (ascii ''sign-lock request rejected: '')) r)"
  by (auto simp: keyper_main_def ascii_def split: prod.splits)

lemma sign_lock_signed:
  assumes "ed25519_correct c" "sign_lock c io p confirmed secret (path, k) = ((path', k'), Inr a)"
  shows "la_digest a = package_digest c p" "lock_approval_verify c a"
    "\<exists>m. lock_holds (hash256 c) path' m \<and> bt_get m (pk_epoch_account p) = Some (la_digest a)"
proof -
  from assms(2) have "la_digest a = package_digest c p \<and> la_keyper_key a = verifying_key c (rk_signing_key k) \<and>
      la_signature a = sign c (rk_signing_key k) (arr_bytes (la_digest a)) \<and>
      (\<exists>m. lock_holds (hash256 c) path' m \<and> bt_get m (pk_epoch_account p) = Some (la_digest a))"
    by (rule sign_lock_cases) (auto simp: package_validate_Inr)
  then show "la_digest a = package_digest c p" "lock_approval_verify c a"
    "\<exists>m. lock_holds (hash256 c) path' m \<and> bt_get m (pk_epoch_account p) = Some (la_digest a)"
    using assms(1) by (auto simp: lock_approval_verify_def ed25519_correct_def)
qed

text \<open>
  C8. A lock request through the process is the keyper's operation. When the child is the keyper's own binary,
  started on a framed request in a private directory, and the secret stayed inside it, the coordinator obtains an
  approval exactly when the keyper's configuration could be read, its node confirmed the open epoch, its journal
  opened, and \<open>sign_lock\<close> on the very package and share that were sent signed that approval with the key the
  coordinator expects; and then the journal the child left behind durably binds the epoch to the approved digest.
\<close>

theorem keyper_process_signs:
  assumes base: "ed25519_correct c" "keys_roundtrip c" "package_ok c p" "package_encode_wire c p = Inr bs"
    and dir: "verify_private_directory (kh_metadata host) = Inr ()"
    and frame: "append_bound_share lib [] share = Inr (encoded, secret)" "deserialize_secret lib secret = Some (ks_secret share)"
    and request: "request = encoded @ to_le_bytes (of_nat (length bs) :: u32) @ bs"
    and child: "keyper_main c lib (env \<lparr> ke_stdin := Some request \<rparr>) (ascii ''sign-lock'') files = (files', Some out)"
      "kh_child host (ascii ''sign-lock'') request = (Exited out, Some entries)"
    and clean: "scan_entries secret entries = Inr False" "\<not> leaks host (ascii ''sign-lock'') out entries secret"
  shows "(run_keyper_sign_lock c lib host share keyper p = Inr a \<longleftrightarrow>
      ke_stdout_ok env \<and> la_keyper_key a = keyper \<and>
      (\<exists>seed url confirmed journal path path' marker k'. files' = (path', marker) \<and>
         read_keyper_attestation_key env = Inr seed \<and> read_keyper_rpc_url env = Inr url \<and>
         fetch_confirmed_open_epoch c (ke_sysvars env) (ke_node env url) (pk_epoch_account p) = Inr confirmed \<and>
         open_keyper_journal c env files = ((path, marker), Inr journal) \<and>
         sign_lock c (ke_sign_io env) p confirmed share
           (path, \<lparr> rk_index = ks_index share, rk_signing_key = seed, rk_journal = journal \<rparr>) = ((path', k'), Inr a))) \<and>
    (run_keyper_sign_lock c lib host share keyper p = Inr a \<longrightarrow>
      (\<exists>m. lock_holds (hash256 c) (fst files') m \<and> bt_get m (pk_epoch_account p) = Some (package_digest c p)))"
    (is "(?run \<longleftrightarrow> ?ok) \<and> (?run \<longrightarrow> ?held)")
proof -
  let ?env = "env \<lparr> ke_stdin := Some request \<rparr>"
  from child(1) obtain r where h: "handle_keyper_sign_lock c lib ?env files = (files', r)"
    and out: "out = exit_with (Some (ascii ''sign-lock request rejected: '')) r"
    by (auto simp: keyper_main_sign_lock)
  have len: "length bs \<le> 49788" using package_fits [OF base(3,4)] .
  then have u: "u32_try_from (length bs) = Some (of_nat (length bs))" by (simp add: u32_try_from_def)
  have fits: "length encoded + (4 + length bs) \<le> MAX_SIGN_LOCK_REQUEST_LEN"
    using len bound_share_roundtrip(2) [OF frame] by (simp add: keyper_lens)
  have shot: "run_one_shot host (ascii ''sign-lock'') request secret = Inr out' \<longleftrightarrow> out' = out" for out'
    using child(2) clean by (auto simp: run_one_shot_Inr)
  have "?run \<longleftrightarrow> la_keyper_key a = keyper \<and> la_digest a = package_digest c p \<and> lock_approval_verify c a \<and> r = Inr (sign_lock_response a)"
    unfolding run_keyper_sign_lock_Inr using base(4) dir frame(1) u fits shot exit_with_success
    by (auto simp: request [symmetric] out)
  also have "\<dots> \<longleftrightarrow> ?ok"
  proof -
    have "r = Inr (sign_lock_response a) \<longleftrightarrow> handle_keyper_sign_lock c lib ?env files = (files', Inr (sign_lock_response a))" using h by auto
    moreover have "open_keyper_journal c ?env files = open_keyper_journal c env files" by (simp add: open_keyper_journal_def)
    ultimately show ?thesis
      unfolding handle_keyper_sign_lock_Inr sign_lock_request_framed [OF base(2,3,4) frame, folded request]
      using sign_lock_signed(1,2) [OF base(1)] by (auto simp: res_simps)
  qed
  finally show ?thesis using sign_lock_signed [OF base(1)] by fastforce
qed

end
