(* ===== verification/Demo_Gate.thy ===== *)
theory Demo_Gate
  imports Lock_Gate
begin

text \<open>
  A concrete lock package of four members, with a suite whose hash reads two bytes of its argument, for
  the witnesses of the lock gate.
\<close>

definition from_end :: "nat \<Rightarrow> byte list \<Rightarrow> byte" where
  "from_end k bs = (if 0 < k \<and> k \<le> length bs then bs ! (length bs - k) else 0)"

definition tail_hash :: "byte list \<Rightarrow> bytes32" where
  "tail_hash bs = of_nat (1 + unat (from_end 65 bs) + 256 * unat (from_end 33 bs) + 65536 * unat (from_end 17 bs))"

definition gate_suite :: suite where
  "gate_suite = demo_suite \<lparr> hash256 := tail_hash \<rparr>"

lemma from_end_append:
  "from_end k (xs @ ys) = (if k \<le> length ys then from_end k ys else from_end (k - length ys) xs)"
  by (auto simp: from_end_def nth_append)

lemma from_end_Cons:
  "from_end k (x # xs) = (if k \<le> length xs then from_end k xs else if k = Suc (length xs) then x else 0)"
  by (auto simp: from_end_def nth_Cons' Suc_diff_le)

lemma from_end_replicate: "from_end k (replicate n b) = (if 0 < k \<and> k \<le> n then b else 0)"
  by (simp add: from_end_def)

lemma from_end_small:
  "from_end (Suc 0) (arr_bytes (1 :: bytes32)) = 1" "from_end (Suc 0) (arr_bytes (2 :: bytes32)) = 2"
  "from_end (Suc 0) (arr_bytes (3 :: bytes32)) = 3" "from_end (Suc 0) (arr_bytes (4 :: bytes32)) = 4"
  "from_end 33 (arr_bytes (0 :: bytes64)) = 0" "from_end 17 (arr_bytes (0 :: bytes64)) = 0"
  "from_end (Suc 0) (to_le_bytes (100 :: u64)) = 0" "from_end (Suc 0) (to_le_bytes (64 :: u64)) = 0"
  by code_simp+

text \<open>The plaintext is in clear at the front of the ciphertext: the libraries of the example do not hide it.\<close>

definition demo_intent :: "byte \<Rightarrow> signed_intent" where
  "demo_intent i =
     \<lparr> si_body = \<lparr> ib_side = (if i = 1 then Sell else Buy), ib_lots = 1, ib_limit_price = 20, ib_epoch_id = 7,
         ib_participant_id = ucast i, ib_client_nonce = 0 \<rparr>, si_signature = 0 \<rparr>"

definition demo_ciphertext :: "byte \<Rightarrow> byte list" where
  "demo_ciphertext i = signed_intent_encode (demo_intent i) @ replicate 152 i"

definition demo_member :: "byte \<Rightarrow> encrypted_submission" where
  "demo_member i =
     \<lparr> es_authorization = authorization_sign demo_suite (demo_reserved (ucast i) (ucast i)) 9 5 100,
       es_ciphertext = demo_ciphertext i, es_receipt = ucast i, es_outer_signature = 0 \<rparr>"

definition demo_members :: "encrypted_submission list" where
  "demo_members = map demo_member [1, 2, 3, 4]"

definition demo_balance :: "bytes32 \<Rightarrow> balance_record" where
  "demo_balance p = \<lparr> bl_participant_id = p, bl_base_atoms = 100, bl_quote_atoms = 100,
     bl_reserved_base_atoms = 10, bl_reserved_quote_atoms = 20 \<rparr>"

definition demo_records :: "balance_record list" where
  "demo_records = map demo_balance [1, 2, 3, 4]"

definition demo_configuration :: epoch_configuration where
  "demo_configuration =
     \<lparr> ec_pool = 2, ec_epoch_id = 7, ec_base_mint = 3, ec_quote_mint = 4, ec_base_lot_atoms = 10,
       ec_quote_atoms_per_lot = 20, ec_minimum_count = 4, ec_lock_threshold = 2, ec_settlement_threshold = 2,
       ec_keypers = (31, 32, 33), ec_lock_deadline = 100, ec_abort_deadline = 200 \<rparr>"

definition demo_member_root :: bytes32 where
  "demo_member_root = projr (member_root gate_suite [] demo_members)"

definition demo_balance_root :: bytes32 where
  "demo_balance_root = projr (balance_root gate_suite demo_records)"

definition demo_package :: lock_package where
  "demo_package =
     \<lparr> pk_epoch_account = 6, pk_configuration = demo_configuration, pk_epoch_public_keys = [],
       pk_submissions = demo_members, pk_balances = demo_records,
       pk_balance_snapshot = \<lparr> bs_epoch_id = 7, bs_record_count = 4, bs_balance_root = demo_balance_root,
         bs_operator_key = 5, bs_signature = 0 \<rparr>,
       pk_pre_balance_root = demo_balance_root, pk_member_root = demo_member_root,
       pk_member_count = 4, pk_lock_nonce = 8 \<rparr>"

lemma ascii_length: "length (ascii cs) = length cs"
  by (simp add: ascii_def)

lemma leaf_from_end: "k \<le> length leaf \<Longrightarrow> from_end k (leaf_message d leaf) = from_end k leaf"
  by (simp add: leaf_message_def from_end_append)

lemma member_leaf:
  "from_end 65 (commitment_bytes gate_suite (demo_member i)) = from_end (Suc 0) (arr_bytes (ucast i :: bytes32))"
  "from_end 33 (commitment_bytes gate_suite (demo_member i)) = 0"
  "from_end 17 (commitment_bytes gate_suite (demo_member i)) = 0"
  "length (commitment_bytes gate_suite (demo_member i)) = 377"
  by (simp_all add: commitment_bytes_def demo_member_def from_end_append from_end_small)

lemma balance_leaf:
  "from_end 65 (balance_record_encode b @ []) = 0"
  "from_end 33 (balance_record_encode b) = from_end (Suc 0) (arr_bytes (bl_participant_id b))"
  "from_end 17 (balance_record_encode b) = from_end (Suc 0) (to_le_bytes (bl_quote_atoms b))"
  "length (balance_record_encode b) = 64"
  by (simp_all add: balance_record_encode_eq from_end_append) (simp add: from_end_def)

lemma keys_leaf_hash:
  "leaf_hash tail_hash (domain_tag MemberSet) (EPOCH_KEY_SET_DOMAIN @ []) \<notin> {2, 3, 4, 5}"
proof -
  let ?m = "leaf_message (domain_tag MemberSet) (EPOCH_KEY_SET_DOMAIN @ [])"
  have "from_end 65 ?m = 65" "from_end 33 ?m = 49" "from_end 17 ?m = 69" by code_simp+
  then show ?thesis by (simp add: leaf_hash_def tail_hash_def)
qed

lemma member_leaf_hash:
  "leaf_hash tail_hash d (commitment_bytes gate_suite (demo_member i)) =
     of_nat (1 + unat (from_end (Suc 0) (arr_bytes (ucast i :: bytes32))))"
  by (simp add: leaf_hash_def tail_hash_def leaf_from_end member_leaf)

lemma demo_member_root: "member_root gate_suite [] demo_members = Inr demo_member_root"
proof -
  let ?h = "leaf_hash tail_hash (domain_tag MemberSet)"
  have "map ?h (map (commitment_bytes gate_suite) demo_members) = [2, 3, 4, 5]"
    by (simp add: demo_members_def member_leaf_hash from_end_small)
  then have "distinct (map ?h ((EPOCH_KEY_SET_DOMAIN @ []) # map (commitment_bytes gate_suite) demo_members))"
    using keys_leaf_hash by (simp only: list.map(2) distinct.simps) simp
  then have "\<exists>r. content_root (hash256 gate_suite) MemberSet ((EPOCH_KEY_SET_DOMAIN @ []) # map (commitment_bytes gate_suite) demo_members) = Inr r"
    by (simp only: content_root_eq) (simp add: gate_suite_def)
  then obtain r where "content_root (hash256 gate_suite) MemberSet ((EPOCH_KEY_SET_DOMAIN @ []) # map (commitment_bytes gate_suite) demo_members) = Inr r" ..
  then have "member_root gate_suite [] demo_members = Inr r"
    unfolding member_root_Inr by (simp add: gate_suite_def demo_suite_def)
  then show ?thesis by (simp add: demo_member_root_def)
qed

lemma balance_leaf_hash:
  "leaf_hash tail_hash d (balance_record_encode (demo_balance p)) = of_nat (1 + 256 * unat (from_end (Suc 0) (arr_bytes p)))"
  by (simp add: leaf_hash_def tail_hash_def leaf_message_def len_u64_def from_end_append from_end_Cons balance_leaf from_end_small)
    (simp add: demo_balance_def from_end_small)

lemma demo_balance_root: "balance_root gate_suite demo_records = Inr demo_balance_root"
proof -
  let ?h = "leaf_hash tail_hash (domain_tag BalanceSet)"
  have "map ?h (map balance_record_encode demo_records) = [257, 513, 769, 1025]"
    by (simp add: demo_records_def balance_leaf_hash from_end_small)
  then have "distinct (map ?h (map balance_record_encode demo_records))" by (simp only:) simp
  then have "\<exists>r. content_root (hash256 gate_suite) BalanceSet (map balance_record_encode demo_records) = Inr r"
    by (simp only: content_root_eq) (simp add: gate_suite_def)
  then obtain r where "content_root (hash256 gate_suite) BalanceSet (map balance_record_encode demo_records) = Inr r" ..
  then have "balance_root gate_suite demo_records = Inr r" by (simp add: balance_root_def)
  then show ?thesis by (simp add: demo_balance_root_def)
qed

lemma length_demo_ciphertext: "length (demo_ciphertext i) = ENCRYPTED_INTENT_V1_LEN"
  by (simp add: demo_ciphertext_def length_signed_intent ENCRYPTED_INTENT_V1_LEN_def)

lemma demo_ciphertext_hash: "tail_hash (demo_ciphertext i) = of_nat (1 + unat i * 65793)"
  by (simp add: tail_hash_def demo_ciphertext_def from_end_append from_end_replicate algebra_simps)

lemma demo_member_verifies:
  "i \<in> {1, 2, 3, 4} \<Longrightarrow> slot \<le> 100 \<Longrightarrow>
     verify_admission gate_suite (demo_member i) (demo_policy \<lparr> ap_minimum := minimum, ap_current_slot := slot \<rparr>) = Inr ()"
  by (auto simp: verify_admission_Inr demo_member_def authorization_sign_def demo_reserved_def gate_suite_def
      demo_policy_def Let_def demo_suite_def decode_ciphertext_def length_demo_ciphertext)

lemma demo_member_fields [simp]:
  "member (demo_member i) = ucast i" "fa_nonce (es_authorization (demo_member i)) = ucast i" "es_receipt (demo_member i) = ucast i"
  "fa_base_atoms (es_authorization (demo_member i)) = 10" "fa_quote_atoms (es_authorization (demo_member i)) = 20"
  "es_ciphertext (demo_member i) = demo_ciphertext i"
  by (simp_all add: demo_member_def authorization_sign_def demo_reserved_def Let_def)

definition demo_confirmed :: "nat \<Rightarrow> u64 \<Rightarrow> i64 \<Rightarrow> u64 \<Rightarrow> confirmed_open_epoch" where
  "demo_confirmed minimum slot now confirmation =
     \<lparr> oe_epoch_account = 6, oe_configuration = demo_configuration,
       oe_policy = demo_policy \<lparr> ap_minimum := minimum, ap_current_slot := slot \<rparr>,
       oe_current_timestamp = now, oe_confirmation_slot = confirmation \<rparr>"

abbreviation demo_open :: confirmed_open_epoch where
  "demo_open \<equiv> demo_confirmed 4 50 50 60"

abbreviation demo_digest :: bytes32 where
  "demo_digest \<equiv> lock_payload_digest tail_hash (package_lock_payload gate_suite demo_package)"

lemma demo_validates:
  assumes "slot \<le> 100" "now <s 100"
  shows "package_validate gate_suite demo_package (demo_confirmed minimum slot now confirmation) = Inr demo_digest"
  unfolding package_validate_Inr
proof (intro conjI)
  let ?open = "demo_confirmed minimum slot now confirmation"
  show "\<not> configuration_refused (pk_configuration demo_package)"
    by (simp add: demo_package_def configuration_accepted demo_configuration_def word_sless_alt)
  show "oe_current_timestamp ?open <s ec_lock_deadline (pk_configuration demo_package)"
    using assms(2) by (simp add: demo_confirmed_def demo_package_def demo_configuration_def)
  show "members_ok gate_suite (oe_policy ?open) (pk_submissions demo_package)"
    using assms(1) by (simp add: members_ok_def demo_package_def demo_members_def demo_confirmed_def demo_member_verifies)
  show "member_root gate_suite (pk_epoch_public_keys demo_package) (pk_submissions demo_package) = Inr (pk_member_root demo_package)"
    using demo_member_root by (simp add: demo_package_def)
  show "snapshot_verify gate_suite (pk_balance_snapshot demo_package) (ec_epoch_id (pk_configuration demo_package))
      (pk_balances demo_package) (ap_operator_key (oe_policy ?open)) = Inr ()"
    using demo_balance_root unfolding snapshot_verify_Inr
    by (simp add: demo_package_def demo_records_def demo_confirmed_def demo_policy_def demo_configuration_def)
      (simp add: gate_suite_def demo_suite_def)
  show "balance_root gate_suite (pk_balances demo_package) = Inr (pk_pre_balance_root demo_package)"
    using demo_balance_root by (simp add: demo_package_def)
  show "covers (pk_balances demo_package) (pk_submissions demo_package)"
    by (simp add: covers_def demo_package_def demo_records_def demo_members_def demo_balance_def)
qed (simp_all add: demo_package_def demo_confirmed_def demo_members_def MAX_BATCH_MEMBERS_def demo_configuration_def gate_suite_def)

lemma demo_open_validates: "package_validate gate_suite demo_package demo_open = Inr demo_digest"
  by (rule demo_validates) (simp_all add: word_sless_alt)

section \<open>A keyper that signs\<close>

definition demo_secret :: keyper_secret_share where
  "demo_secret = \<lparr> ks_epoch_account = 6, ks_index = 1, ks_secret = [] \<rparr>"

definition demo_keyper :: reference_keyper where
  "demo_keyper = \<lparr> rk_index = 1, rk_signing_key = 32, rk_journal = [] \<rparr>"

lemma acquire_lock_no_faults: "journal_file_lock_acquire no_faults = Inr ()"
  by (simp add: journal_file_lock_acquire_def no_faults_def LOCK_ATTEMPTS_def lock_loop_free numeral_eq_Suc)

lemma open_no_faults:
  "\<exists>jf mf. lock_journal_open sha256 lock_no_faults (None, None) = ((jf, mf), Inr []) \<and> lock_holds sha256 jf []"
proof -
  obtain jf where p: "persist_journal sha256 no_faults [] None = (jf, Inr ())"
    by (simp add: persist_journal_def keyed_persist_def u32_try_from_def)
  have holds: "lock_holds sha256 jf []" by (rule lj.persist_ok [OF keyed_valid_empty p])
  with p lj.load_no_faults [OF holds] show ?thesis
    by (simp add: lock_journal_open_def lock_no_faults_def acquire_lock_no_faults persist_initialization_marker_def Let_def)
qed

lemma record_no_faults:
  assumes "lock_holds sha256 jf m" "bt_get m e = None \<and> length m < 2 ^ 32 - 1 \<or> bt_get m e = Some d"
  shows "\<exists>jf' m'. lock_journal_record sha256 lock_no_faults e d (jf, cache) = ((jf', m'), Inr ()) \<and>
    lock_holds sha256 jf' m' \<and> bt_get m' e = Some d"
proof -
  have some: "jf \<noteq> None" by (rule holds_some [OF assms(1)])
  note load = lj.load_no_faults [OF assms(1)]
  show ?thesis
  proof (cases "bt_get m e")
    case (Some x)
    with assms(1,2) load some show ?thesis
      by (simp add: lock_journal_record_def lock_no_faults_def acquire_lock_no_faults del: not_None_eq)
  next
    case None
    have "bt_wf m" using lj.holds_valid [OF assms(1)] by (simp add: keyed_valid_def)
    then have "length (bt_insert e d m) < 2 ^ 32" using bt.length_insert [of m e d] assms(2) None by simp
    then obtain jf' where p: "persist_journal sha256 no_faults (bt_insert e d m) jf = (jf', Inr ())"
      by (simp add: persist_journal_def keyed_persist_def u32_try_from_def)
    have "keyed_valid any_entry (bt_insert e d m)"
      by (rule keyed_valid_insert [OF lj.holds_valid [OF assms(1)]]) (simp add: any_entry_def)
    from lj.persist_ok [OF this p] p load some None show ?thesis
      by (simp add: lock_journal_record_def lock_no_faults_def acquire_lock_no_faults Let_def bt_get_insert del: not_None_eq)
  qed
qed

lemma demo_signs:
  assumes "lock_holds tail_hash jf m"
    "bt_get m 6 = None \<and> length m < 2 ^ 32 - 1 \<or> bt_get m 6 = Some (lock_payload_digest tail_hash (package_lock_payload gate_suite demo_package))"
  shows "\<exists>jf' m' a. sign_lock gate_suite lock_no_faults demo_package demo_open demo_secret (jf, demo_keyper) =
      ((jf', demo_keyper \<lparr> rk_journal := m' \<rparr>), Inr a) \<and> lock_holds tail_hash jf' m' \<and>
    bt_get m' 6 = Some (lock_payload_digest tail_hash (package_lock_payload gate_suite demo_package))"
proof -
  let ?d = "lock_payload_digest tail_hash (package_lock_payload gate_suite demo_package)"
  from record_no_faults [OF assms, of "[]"] obtain jf' m' where
    r: "lock_journal_record tail_hash lock_no_faults 6 ?d (jf, []) = ((jf', m'), Inr ())" "lock_holds tail_hash jf' m'"
      "bt_get m' 6 = Some ?d" by blast
  have "keyper_at (ec_keypers (oe_configuration demo_open)) (rk_index demo_keyper) = Some 32"
    by (simp add: keyper_at_def demo_confirmed_def demo_configuration_def demo_keyper_def)
  moreover have "matches_share gate_suite (pk_epoch_public_keys demo_package) demo_secret" "verifying_key gate_suite 32 = 32"
    "hash256 gate_suite = tail_hash"
    by (simp_all add: matches_share_def gate_suite_def demo_suite_def)
  moreover have "pk_epoch_account demo_package = 6" by (simp add: demo_package_def)
  ultimately show ?thesis
    using demo_open_validates r by (simp add: sign_lock_def demo_keyper_def demo_secret_def)
qed

section \<open>Witnesses\<close>

theorem keyper_never_equivocates_witness:
  "\<exists>jf mf a b. (gate_step gate_suite)\<^sup>*\<^sup>* (None, None, []) (jf, mf, [(6, b), (6, a)]) \<and> la_digest a = la_digest b"
proof -
  have h: "hash256 gate_suite = tail_hash" by (simp add: gate_suite_def)
  have e: "pk_epoch_account demo_package = 6" by (simp add: demo_package_def)
  from open_no_faults [of tail_hash] obtain jf mf where o: "lock_journal_open tail_hash lock_no_faults (None, None) = ((jf, mf), Inr [])"
    "lock_holds tail_hash jf []" by blast
  from demo_signs [OF o(2)] obtain jf1 m1 a where s1: "sign_lock gate_suite lock_no_faults demo_package demo_open demo_secret (jf, demo_keyper) =
      ((jf1, demo_keyper \<lparr> rk_journal := m1 \<rparr>), Inr a)" "lock_holds tail_hash jf1 m1"
      "bt_get m1 6 = Some (lock_payload_digest tail_hash (package_lock_payload gate_suite demo_package))"
    by (auto simp: bt.get_empty)
  from demo_signs [OF s1(2)] s1(3) obtain jf2 m2 b where
    s2: "sign_lock gate_suite lock_no_faults demo_package demo_open demo_secret (jf1, demo_keyper) =
      ((jf2, demo_keyper \<lparr> rk_journal := m2 \<rparr>), Inr b)" by blast
  have "gate_step gate_suite (None, None, []) (jf, mf, [])" by (rule gate_step.start) (use o(1) h in simp)
  moreover have "gate_step gate_suite (jf, mf, []) (jf1, mf, [(6, a)])" using gate_step.signing [OF s1(1), of mf "[]"] by (simp add: e)
  moreover have "gate_step gate_suite (jf1, mf, [(6, a)]) (jf2, mf, [(6, b), (6, a)])"
    using gate_step.signing [OF s2, of mf "[(6, a)]"] by (simp add: e)
  ultimately have run: "(gate_step gate_suite)\<^sup>*\<^sup>* (None, None, []) (jf2, mf, [(6, b), (6, a)])"
    by (meson converse_rtranclp_into_rtranclp rtranclp.rtrancl_refl)
  with keyper_never_equivocates [OF run, of 6 a b] show ?thesis by auto
qed


section \<open>A lock that is read back\<close>

definition demo_pool :: pool_state where
  "demo_pool =
     \<lparr> ps_pool_bump = 1, ps_vault_bump = 1, ps_lock_threshold = 2, ps_settlement_threshold = 2, ps_operator = 5,
       ps_base_mint = 3, ps_quote_mint = 4, ps_pool_base_vault = 0, ps_pool_quote_vault = 0, ps_venue_authority = 0,
       ps_venue_base_account = 0, ps_venue_quote_account = 0, ps_keypers = (31, 32, 33), ps_base_lot_atoms = 10 \<rparr>"

definition demo_locked :: epoch_state where
  "demo_locked =
     \<lparr> es_epoch_bump = 1, es_terminal_state = Locked, es_residual_side = 0, es_pool = 2, es_epoch_id = 7,
       es_configuration_hash = configuration_digest tail_hash demo_configuration,
       es_pre_balance_root = demo_balance_root, es_member_root = demo_member_root, es_lock_digest = demo_digest,
       es_result_commitment = 0, es_settlement_digest = 0, es_lock_nonce = 8, es_settlement_nonce = 0,
       es_member_count = 4, es_minimum_count = 4, es_residual_lots = 0, es_base_lot_atoms = 10,
       es_quote_atoms_per_lot = 20, es_lock_deadline = 100, es_abort_deadline = 200 \<rparr>"

text \<open>A runtime whose derived addresses depend on the number of seeds: four for a pool, three for an epoch.\<close>

definition demo_runtime :: runtime where
  "demo_runtime =
     \<lparr> rt_sha256 = tail_hash, rt_find_program_address = (\<lambda>seeds _. (if length seeds = 4 then 2 else 6, 1)),
       rt_system_program = 0, rt_clock_id = 9, rt_instructions_id = 10, rt_ed25519_program = 11,
       rt_invoke_signed = (\<lambda>_ accounts _. Inr accounts), rt_minimum_balance = (\<lambda>_. Inr 0),
       rt_clock_unix_timestamp = (\<lambda>_. Inr 0), rt_current_index = (\<lambda>_. Inr 0),
       rt_instruction_at = (\<lambda>_ _. Inl Aborted) \<rparr>"

definition demo_sysvars :: sysvars where
  "demo_sysvars = \<lparr> sv_runtime = demo_runtime, sv_owner = 99,
     sv_clock = (\<lambda>_. Some \<lparr> ck_slot = 50, ck_unix_timestamp = 60 \<rparr>) \<rparr>"

definition demo_rpc :: rpc_client where
  "demo_rpc =
     (let epoch = \<lparr> ra_owner = ID, ra_data = epoch_state_encode demo_locked \<rparr> in
      \<lparr> rpc_get_account = (\<lambda>_. Some (50, Some epoch)),
        rpc_get_multiple = (\<lambda>_. Some (51, [Some epoch, Some \<lparr> ra_owner = ID, ra_data = pool_state_encode demo_pool \<rparr>,
          Some \<lparr> ra_owner = 99, ra_data = [] \<rparr>])) \<rparr>)"

definition demo_lock :: confirmed_lock where
  "demo_lock = \<lparr> cl_epoch_account = 6, cl_state = demo_locked, cl_pool = Some demo_pool, cl_confirmation_slot = 51 \<rparr>"

lemma tail_hash_nonzero: "tail_hash bs \<noteq> 0"
proof -
  have b: "unat (b :: byte) < 256" for b using unsigned_less [of b, where ?'a = nat] by simp
  let ?n = "1 + unat (from_end 65 bs) + 256 * unat (from_end 33 bs) + 65536 * unat (from_end 17 bs)"
  have "?n \<le> 2 ^ 24" using b [of "from_end 65 bs"] b [of "from_end 33 bs"] b [of "from_end 17 bs"] by simp
  moreover have "(of_nat n :: bytes32) \<noteq> 0" if "0 < n" "n \<le> 2 ^ 24" for n
    using that of_nat_inverse [of n "0 :: bytes32"] by auto
  ultimately show ?thesis unfolding tail_hash_def by (metis add_is_0 neq0_conv one_neq_zero)
qed

lemma demo_payload: "recorded_lock_payload 6 demo_locked = package_lock_payload gate_suite demo_package"
  by (simp add: recorded_lock_payload_def package_lock_payload_def demo_locked_def demo_package_def gate_suite_def
      demo_configuration_def)

lemma demo_configuration_read: "epoch_configuration_of demo_locked demo_pool = demo_configuration"
  by (simp add: epoch_configuration_of_def demo_locked_def demo_pool_def demo_configuration_def)

lemma gate_addresses:
  "epoch_address demo_runtime p e = (6, 1)" "vault_authority_address demo_runtime p = (6, 1)"
  "pool_address demo_runtime a b d = (2, 1)"
  by (simp_all add: epoch_address_def vault_authority_address_def pool_address_def demo_runtime_def
      epoch_seeds_def vault_seeds_def pool_seeds_def)

lemma demo_roots_nonzero:
  "configuration_digest tail_hash x \<noteq> 0" "demo_member_root \<noteq> 0" "demo_balance_root \<noteq> 0"
proof -
  have r: "content_root (hash256 gate_suite) d ls = Inr y \<Longrightarrow> y \<noteq> 0" for d ls y
    by (auto simp: content_root_eq gate_suite_def tail_hash_nonzero split: if_splits)
  show "configuration_digest tail_hash x \<noteq> 0"
    by (simp add: configuration_digest_def domain_hash_def tail_hash_nonzero)
  show "demo_member_root \<noteq> 0" using demo_member_root unfolding member_root_def by (auto simp: res_simps dest: r)
  show "demo_balance_root \<noteq> 0" using demo_balance_root unfolding balance_root_def by (auto simp: res_simps dest: r)
qed

lemma demo_lock_account:
  "confirmed_lock_from_account gate_suite demo_sysvars 6 ID (epoch_state_encode demo_locked) slot =
     Inr \<lparr> cl_epoch_account = 6, cl_state = demo_locked, cl_pool = None, cl_confirmation_slot = slot \<rparr>"
  using demo_roots_nonzero
  by (simp add: confirmed_lock_from_account_def demo_payload demo_sysvars_def gate_addresses)
    (simp add: demo_locked_def gate_suite_def word_sle_eq)

lemma demo_fetch: "fetch_confirmed_lock gate_suite demo_sysvars demo_rpc 6 = Inr demo_lock"
  by (simp add: fetch_confirmed_lock_def demo_rpc_def Let_def demo_lock_account three_accounts_def
      confirmed_lock_from_accounts_def demo_configuration_read)
    (simp add: demo_sysvars_def gate_addresses demo_lock_def demo_pool_def demo_locked_def gate_suite_def word_sless_alt)

lemma demo_lock_validates: "package_validate_locked gate_suite demo_package demo_lock = Inr demo_digest"
proof -
  have t: "saturating_sub_i64 100 1 = 99" by code_simp
  have p: "admission_policy_new 7 5 4 10 20 51 = Inr (demo_policy \<lparr> ap_minimum := 4, ap_current_slot := 51 \<rparr>)"
    by (simp add: admission_policy_new_def demo_policy_def)
  have "package_validate gate_suite demo_package (demo_confirmed 4 51 99 51) = Inr demo_digest"
    by (rule demo_validates) (simp_all add: word_sless_alt)
  then have v: "package_validate gate_suite demo_package
      \<lparr> oe_epoch_account = 6, oe_configuration = demo_configuration,
        oe_policy = demo_policy \<lparr> ap_minimum := 4, ap_current_slot := 51 \<rparr>,
        oe_current_timestamp = 99, oe_confirmation_slot = 51 \<rparr> = Inr demo_digest"
    by (simp add: demo_confirmed_def)
  have f: "ec_epoch_id demo_configuration = 7" "ec_minimum_count demo_configuration = 4" "ec_base_lot_atoms demo_configuration = 10"
    "ec_quote_atoms_per_lot demo_configuration = 20" "ec_lock_deadline demo_configuration = 100"
    "ps_operator demo_pool = 5" "key_from_bytes gate_suite 5"
    by (simp_all add: demo_configuration_def demo_pool_def gate_suite_def demo_suite_def)
  show ?thesis
    by (simp add: package_validate_locked_def demo_lock_def demo_configuration_read f t p v)
      (simp add: demo_locked_def demo_package_def)
qed

definition demo_holder :: reference_keyper where
  "demo_holder = demo_keyper \<lparr> rk_journal := [(6, demo_digest)] \<rparr>"

lemma demo_ciphertexts: "\<not> any_repeated {} (map (\<lambda>m. hash256 gate_suite (es_ciphertext m)) demo_members)"
  by (simp add: demo_members_def demo_ciphertext_hash gate_suite_def)

lemma demo_releases:
  "release_share gate_suite demo_holder demo_package demo_lock demo_secret 0 =
     Inr \<lparr> rs_epoch_account = 6, rs_lock_digest = demo_digest,
       rs_ciphertext_hash = tail_hash (es_ciphertext (demo_member 1)), rs_index = 1, rs_share = [] \<rparr>"
proof -
  have p: "pk_epoch_account demo_package = 6" "pk_submissions demo_package = demo_members"
    "pk_epoch_public_keys demo_package = []" by (simp_all add: demo_package_def)
  have k: "rk_index demo_holder = 1" "rk_signing_key demo_holder = 32" "rk_journal demo_holder = [(6, demo_digest)]"
    "ks_index demo_secret = 1" "ks_epoch_account demo_secret = 6" "matches_share gate_suite [] demo_secret"
    "verifying_key gate_suite 32 = 32"
    by (simp_all add: demo_holder_def demo_keyper_def demo_secret_def matches_share_def gate_suite_def demo_suite_def)
  have l: "cl_pool demo_lock = Some demo_pool" "es_lock_digest (cl_state demo_lock) = demo_digest"
    "keyper_at (ps_keypers demo_pool) (Suc 0) = Some 32"
    by (simp_all add: demo_lock_def demo_locked_def demo_pool_def keyper_at_def)
  have m: "length demo_members = 4" "demo_members ! 0 = demo_member 1" by (simp_all add: demo_members_def)
  have "secret_share_release gate_suite demo_secret 6 demo_digest (es_ciphertext (demo_member 1)) =
      Inr \<lparr> rs_epoch_account = 6, rs_lock_digest = demo_digest,
        rs_ciphertext_hash = tail_hash (es_ciphertext (demo_member 1)), rs_index = 1, rs_share = [] \<rparr>"
    by (simp add: secret_share_release_def decode_ciphertext_def demo_secret_def length_demo_ciphertext) (simp add: gate_suite_def demo_suite_def)
  then show ?thesis
    using demo_ciphertexts
    by (simp add: release_share_def demo_lock_validates p k l m lock_journal_digest_def bt_get_def)
qed

theorem share_release_guarded_witness:
  "\<exists>share. release_share gate_suite demo_holder demo_package demo_lock demo_secret 0 = Inr share \<and>
     rs_lock_digest share = lock_payload_digest tail_hash (recorded_lock_payload 6 demo_locked)"
  using share_release_guarded [OF demo_fetch demo_releases] demo_releases
  by (simp add: demo_lock_def gate_suite_def)

end
