(* ===== verification/Demo_Settlement.thy ===== *)
theory Demo_Settlement
  imports Demo_Gate Request_Roundtrip
begin

text \<open>
  A concrete settlement: the four members of the example package, one selling and three buying, are
  recovered, netted and signed for. It witnesses the properties of the settlement.
\<close>

definition demo_share :: "nat \<Rightarrow> byte \<Rightarrow> released_share" where
  "demo_share k i = \<lparr> rs_epoch_account = 6, rs_lock_digest = demo_digest,
     rs_ciphertext_hash = tail_hash (demo_ciphertext i), rs_index = k, rs_share = [] \<rparr>"

definition demo_evidence :: "nat \<Rightarrow> nat \<Rightarrow> decryption_evidence list" where
  "demo_evidence j k = map (\<lambda>i. (demo_share j i, demo_share k i)) [1, 2, 3, 4]"

abbreviation demo_intents :: "signed_intent list" where
  "demo_intents \<equiv> map demo_intent [1, 2, 3, 4]"

definition demo_netting :: batch_result where
  "demo_netting =
     \<lparr> br_before_balances = balances_before demo_records,
       br_balances = [(1, \<lparr> pb_base_atoms = 90, pb_quote_atoms = 120 \<rparr>), (2, \<lparr> pb_base_atoms = 110, pb_quote_atoms = 80 \<rparr>),
         (3, \<lparr> pb_base_atoms = 110, pb_quote_atoms = 80 \<rparr>), (4, \<lparr> pb_base_atoms = 110, pb_quote_atoms = 80 \<rparr>)],
       br_residual = Residual_buy 2, br_vault_delta = \<lparr> vd_base_atoms = 20, vd_quote_atoms = - 40 \<rparr> \<rparr>"

lemma gate_suite_fields [simp]:
  "hash256 gate_suite = tail_hash" "verify gate_suite k m s" "key_from_bytes gate_suite k" "verifying_key gate_suite k = k"
  "decrypt_shares gate_suite ks sh ct = Some ct" "verify_decryption_share gate_suite pk share ct"
  "serialize_keys gate_suite keys = Some keys" "deserialize_keys gate_suite bs = Some bs"
  by (simp_all add: gate_suite_def demo_suite_def)

lemma demo_decodes: "decode_ciphertext gate_suite (demo_ciphertext i) =
    Inr \<lparr> ei_encoded = demo_ciphertext i, ei_ciphertext = signed_intent_encode (demo_intent i) \<rparr>"
  by (simp add: decode_ciphertext_def length_demo_ciphertext)
    (simp add: gate_suite_def demo_suite_def demo_ciphertext_def)

lemma demo_recovers:
  assumes "j \<noteq> k"
  shows "recover_submission gate_suite [] (demo_member i) (evidence_shares (demo_share j i, demo_share k i)) = Inr (demo_intent i)"
  using assms
  by (auto simp: recover_submission_Inr demo_decodes evidence_shares_def demo_share_def)
    (simp add: demo_intent_def intent_valid_def)

lemma demo_intents_of:
  assumes "j \<noteq> k"
  shows "intents_of gate_suite demo_lock demo_package (demo_evidence j k) demo_intents"
  using demo_recovers [OF assms]
  by (simp add: intents_of_def demo_package_def demo_members_def demo_evidence_def)
    (simp add: evidence_shares_def demo_share_def demo_lock_def demo_locked_def demo_intent_def intent_of_member_def
      demo_configuration_def)

lemma demo_before: "balances_before demo_records = map (\<lambda>p. (p, \<lparr> pb_base_atoms = 100, pb_quote_atoms = 100 \<rparr>)) [1, 2, 3, 4]"
  by (simp add: balances_before_def demo_records_def demo_balance_def bt_of_list_def)

lemma demo_nets:
  "net_batch (batch_of demo_package) (balances_before demo_records) (map order_of_intent demo_intents) = Inr demo_netting"
proof -
  have c: "batch_of demo_package = \<lparr> bc_base_lot_atoms = 10, bc_quote_atoms_per_lot = 20 \<rparr>"
    by (simp add: batch_of_def demo_package_def demo_configuration_def)
  have o: "map order_of_intent demo_intents =
      [\<lparr> fo_participant_id = 1, fo_side = Sell, fo_limit_price = 20 \<rparr>, \<lparr> fo_participant_id = 2, fo_side = Buy, fo_limit_price = 20 \<rparr>,
       \<lparr> fo_participant_id = 3, fo_side = Buy, fo_limit_price = 20 \<rparr>, \<lparr> fo_participant_id = 4, fo_side = Buy, fo_limit_price = 20 \<rparr>]"
    by (simp add: order_of_intent_def demo_intent_def)
  show ?thesis unfolding c o
    by (simp add: net_batch_def demo_before demo_netting_def apply_order_def Let_def checked_add_def checked_sub_def bt_get_def
        residual_of_def i128_of_def conserves_def totals_def bt_values_def)
qed

lemma encode_settlement_balance_eq:
  "encode_settlement_balance b = arr_bytes (sb_participant_id b) @ to_le_bytes (sb_base_atoms b) @ to_le_bytes (sb_quote_atoms b)"
  by (simp add: encode_settlement_balance_def Let_def bytes_simps)

lemma small_participant:
  "from_end 17 (arr_bytes (1 :: bytes32)) = 0" "from_end 17 (arr_bytes (2 :: bytes32)) = 0"
  "from_end 17 (arr_bytes (3 :: bytes32)) = 0" "from_end 17 (arr_bytes (4 :: bytes32)) = 0"
  by code_simp+

lemma settlement_leaf_hash:
  "leaf_hash tail_hash d (encode_settlement_balance b) =
     of_nat (1 + unat (from_end 17 (leaf_message d [])) + 256 * unat (from_end 17 (arr_bytes (sb_participant_id b)))
       + 65536 * unat (from_end (Suc 0) (arr_bytes (sb_participant_id b))))"
  by (simp add: leaf_hash_def tail_hash_def leaf_message_def len_u64_def from_end_append from_end_Cons encode_settlement_balance_eq)

lemma result_leaf_hash:
  "leaf_hash tail_hash d (arr_bytes p @ to_le_bytes a @ to_le_bytes b @ to_le_bytes x @ to_le_bytes (y :: u64)) =
     of_nat (1 + 256 * unat (from_end (Suc 0) (arr_bytes p)) + 65536 * unat (from_end (Suc 0) (to_le_bytes b)))"
  for p :: bytes32 and a b x :: u64
  by (simp add: leaf_hash_def tail_hash_def leaf_message_def len_u64_def from_end_append from_end_Cons from_end_small)

lemma distinct_root: "distinct (map (leaf_hash tail_hash (domain_tag d)) leaves) \<Longrightarrow> \<exists>r. content_root tail_hash d leaves = Inr r"
  by (simp add: content_root_eq)

lemma demo_post_root: "\<exists>root. settlement_balance_root gate_suite (settlement_balances demo_netting) = Inr root"
proof -
  have "distinct (map (leaf_hash tail_hash (domain_tag BalanceSet)) (map encode_settlement_balance (settlement_balances demo_netting)))"
  proof -
    obtain k where k: "from_end 17 (leaf_message (domain_tag BalanceSet) []) = k" by blast
    have "map (leaf_hash tail_hash (domain_tag BalanceSet)) (map encode_settlement_balance (settlement_balances demo_netting)) =
        [of_nat (1 + unat k) + 65536, of_nat (1 + unat k) + 131072, of_nat (1 + unat k) + 196608, of_nat (1 + unat k) + 262144]"
      by (simp add: settlement_balances_def demo_netting_def settlement_leaf_hash small_participant from_end_small
          k [unfolded domain_tag.simps])
    then show ?thesis by (simp only:) simp
  qed
  from distinct_root [OF this] show ?thesis by (auto simp: settlement_balance_root_def)
qed

lemma demo_result_root:
  "\<exists>root. per_participant_result_root gate_suite (balances_before demo_records) (settlement_balances demo_netting) = Inr root"
proof -
  let ?leaf = "\<lambda>p b q. arr_bytes (p :: bytes32) @ to_le_bytes (100 :: u64) @ to_le_bytes (100 :: u64) @ to_le_bytes (b :: u64) @ to_le_bytes (q :: u64)"
  let ?leaves = "[?leaf 1 90 120, ?leaf 2 110 80, ?leaf 3 110 80, ?leaf 4 110 80]"
  have "try_map (result_leaf (balances_before demo_records)) (settlement_balances demo_netting) = Inr ?leaves"
    by (simp add: result_leaf_def demo_before settlement_balances_def demo_netting_def bt_get_def Let_def bytes_simps)
  moreover have "map (leaf_hash tail_hash (domain_tag ResultSet)) ?leaves = [257, 513, 769, 1025]"
    by (simp add: result_leaf_hash from_end_small)
  then have "distinct (map (leaf_hash tail_hash (domain_tag ResultSet)) ?leaves)" by (simp only:) simp
  from distinct_root [OF this] obtain r where "content_root tail_hash ResultSet ?leaves = Inr r" ..
  ultimately show ?thesis by (simp add: per_participant_result_root_def)
qed

lemma demo_recomputes:
  assumes "j \<noteq> k"
  shows "\<exists>rc. recompute gate_suite demo_package (demo_evidence j k) 9 demo_lock = Inr rc"
proof -
  from demo_post_root demo_result_root obtain post res where
    "settlement_balance_root gate_suite (settlement_balances demo_netting) = Inr post"
    "per_participant_result_root gate_suite (balances_before demo_records) (settlement_balances demo_netting) = Inr res" by blast
  moreover have "cl_pool demo_lock = Some demo_pool" "es_lock_nonce (cl_state demo_lock) = 8"
    by (simp_all add: demo_lock_def demo_locked_def)
  moreover have "distinct (map member (pk_submissions demo_package))" "pk_balances demo_package = demo_records"
    "distinct (map bl_participant_id demo_records)" "length (demo_evidence j k) \<le> MAX_BATCH_MEMBERS"
    "bc_base_lot_atoms (batch_of demo_package) \<noteq> 0" "bc_quote_atoms_per_lot (batch_of demo_package) \<noteq> 0"
    by (simp_all add: demo_package_def demo_members_def demo_records_def demo_balance_def batch_of_def demo_configuration_def
        demo_evidence_def MAX_BATCH_MEMBERS_def)
  ultimately show ?thesis
    unfolding recompute_Inr
    using demo_lock_validates demo_intents_of [OF assms] demo_nets by fastforce
qed

lemma demo_signs_settlement:
  assumes "j \<noteq> k"
  shows "\<exists>request a. sign_settlement gate_suite demo_holder request demo_lock demo_secret = Inr a \<and>
    sq_package request = demo_package \<and> sq_decryption_evidence request = demo_evidence j k \<and> sq_settlement_nonce request = 9"
proof -
  from demo_recomputes [OF assms] obtain rc where rc: "recompute gate_suite demo_package (demo_evidence j k) 9 demo_lock = Inr rc" ..
  let ?q = "\<lparr> sq_package = demo_package, sq_decryption_evidence = demo_evidence j k, sq_post_balances = rc_post_balances rc,
      sq_pre_balance_root = rc_pre_balance_root rc, sq_post_balance_root = rc_post_balance_root rc, sq_residual = rc_residual rc,
      sq_result_root = rc_result_root rc, sq_result_commitment = rc_result_commitment rc, sq_settlement_nonce = 9,
      sq_settlement_digest = settlement_payload_digest tail_hash (rc_payload rc) \<rparr>"
  have "pk_epoch_account demo_package = 6" "matches_share gate_suite (pk_epoch_public_keys demo_package) demo_secret"
    "cl_pool demo_lock = Some demo_pool" "cl_epoch_account demo_lock = 6" "es_lock_digest (cl_state demo_lock) = demo_digest"
    "keyper_at (ps_keypers demo_pool) (Suc 0) = Some 32" "rk_index demo_holder = Suc 0" "rk_signing_key demo_holder = 32"
    "lock_journal_digest (rk_journal demo_holder) 6 = Some demo_digest" "ks_index demo_secret = Suc 0" "ks_epoch_account demo_secret = 6"
    by (simp_all add: demo_package_def matches_share_def gate_suite_def demo_suite_def demo_lock_def demo_locked_def demo_pool_def
        keyper_at_def demo_holder_def demo_keyper_def lock_journal_digest_def bt_get_def demo_secret_def)
  with rc have "\<exists>a. sign_settlement gate_suite demo_holder ?q demo_lock demo_secret = Inr a" by (simp add: sign_settlement_Inr)
  then show ?thesis by (metis settlement_request.select_convs(1,2,9))
qed

theorem settlement_signed_is_netting_witness:
  "\<exists>request a intents. sign_settlement gate_suite demo_holder request demo_lock demo_secret = Inr a \<and>
     mset (map trader intents) = mset [1, 2, 3, 4] \<and> sq_residual request = Residual_buy 2"
proof -
  from demo_signs_settlement [of 0 1] obtain request a where
    s: "sign_settlement gate_suite demo_holder request demo_lock demo_secret = Inr a" "sq_package request = demo_package"
      "sq_decryption_evidence request = demo_evidence 0 1" "sq_settlement_nonce request = 9" by auto
  from settlement_signed_is_netting [OF demo_fetch s(1)] s(2,3) obtain intents r where
    i: "intents_of gate_suite demo_lock demo_package (demo_evidence 0 1) intents"
      "mset (map trader intents) = mset (map member (pk_submissions demo_package))"
      "net_batch (batch_of demo_package) (balances_before (pk_balances demo_package)) (map order_of_intent intents) = Inr r"
      "sq_residual request = br_residual r" by auto
  have "intents = demo_intents"
    using i(1) demo_recovers [of 0 1]
    by (auto simp: intents_of_def demo_package_def demo_members_def demo_evidence_def list_all2_Cons1)
  then have "br_residual r = Residual_buy 2"
    using i(3) demo_nets by (simp add: demo_package_def demo_netting_def)
  moreover have "mset (map member (pk_submissions demo_package)) = mset [1, 2, 3, 4]"
    by (simp add: demo_package_def demo_members_def)
  ultimately show ?thesis using s(1) i(2,4) by metis
qed


lemma demo_package_encodes: "\<exists>bs. package_encode_wire gate_suite demo_package = Inr bs \<and> length bs < 2 ^ 32"
proof -
  have p: "pk_submissions demo_package = demo_members" "pk_balances demo_package = demo_records" "pk_epoch_public_keys demo_package = []"
    by (simp_all add: demo_package_def)
  have l: "length demo_members = 4" "length demo_records = 4" "length (concat (map submission_encode_wire demo_members)) = 2756"
    by (simp_all add: demo_members_def demo_records_def submission_encode_wire_def length_demo_ciphertext ENCRYPTED_INTENT_V1_LEN_def)
  then show ?thesis
    by (simp add: package_encode_wire_def p MAX_BATCH_MEMBERS_def keys_encode_wire_def u32_try_from_def length_records
        snapshot_round configuration_codec.length_enc CONFIGURATION_LEN_def)
qed

lemma demo_share_encodes: "k < 2 ^ 64 \<Longrightarrow> is_ok (encode_share gate_suite (demo_share k i))"
  by (simp add: encode_share_def released_share_encode_def demo_share_def u32_try_from_def MAX_RELEASED_SHARE_WIRE_LEN_def is_ok_iff)
    (simp add: gate_suite_def demo_suite_def u32_try_from_def)

lemma try_map_ok: "\<forall>x \<in> set xs. is_ok (f x) \<Longrightarrow> \<exists>ys. try_map f xs = Inr ys"
  by (induction xs) (auto simp: is_ok_iff)

theorem settlement_pipeline_witness:
  "\<exists>q bs a. settlement_request_build gate_suite demo_package (demo_evidence 0 1) 9 demo_lock = Inr q \<and>
     request_encode_wire gate_suite q = Inr bs \<and> request_decode_wire gate_suite bs = Inr q \<and>
     sign_settlement gate_suite demo_holder q demo_lock demo_secret = Inr a \<and> settlement_approval_verify gate_suite a"
proof -
  from demo_recomputes [of 0 1] obtain rc where rc: "recompute gate_suite demo_package (demo_evidence 0 1) 9 demo_lock = Inr rc" by auto
  then obtain q where q: "settlement_request_build gate_suite demo_package (demo_evidence 0 1) 9 demo_lock = Inr q"
    "sq_package q = demo_package" "sq_decryption_evidence q = demo_evidence 0 1" "sq_post_balances q = rc_post_balances rc"
    by (simp add: settlement_request_build_def)
  have n: "length (rc_post_balances rc) < 2 ^ 32"
  proof -
    from rc [unfolded recompute_Inr] obtain intents r pool post res where
      i: "intents_of gate_suite demo_lock demo_package (demo_evidence 0 1) intents"
      "net_batch (batch_of demo_package) (balances_before (pk_balances demo_package)) (map order_of_intent intents) = Inr r"
      "rc = settlement_result gate_suite demo_package 9 demo_lock pool intents r post res" by blast
    have "length (br_balances r) = length (balances_before demo_records)"
      using length_netted [OF i(2)] by (simp add: demo_package_def demo_before bt_wf_def)
    then show ?thesis using i(3) by (simp add: settlement_result_def settlement_balances_def demo_before Let_def)
  qed
  have "\<exists>shares. try_map (encode_share gate_suite) (concat (map evidence_shares (demo_evidence 0 1))) = Inr shares"
    by (rule try_map_ok) (auto simp: demo_evidence_def evidence_shares_def intro: demo_share_encodes)
  with demo_package_encodes n obtain bs where bs: "request_encode_wire gate_suite q = Inr bs"
    by (auto simp: request_encode_wire_def q u32_try_from_def case_prod_beta demo_evidence_def)
  have s: "ed25519_correct gate_suite" "keys_roundtrip gate_suite" "shares_roundtrip gate_suite"
    "threshold gate_suite (pk_epoch_public_keys demo_package) = 1"
    by (simp_all add: ed25519_correct_def keys_roundtrip_def shares_roundtrip_def)
      (simp_all add: gate_suite_def demo_suite_def)
  have p: "\<forall>b \<in> set (pk_balances demo_package). balance_valid b" "pk_epoch_account demo_package = 6"
    by (simp_all add: demo_package_def demo_records_def demo_balance_def balance_valid_def)
  have e: "\<forall>e \<in> set (demo_evidence 0 1). rs_index (fst e) < 2 ^ 64 \<and> rs_index (snd e) < 2 ^ 64"
    by (simp add: demo_evidence_def demo_share_def)
  have k: "cl_pool demo_lock = Some demo_pool"
    "keyper_at (ps_keypers demo_pool) (rk_index demo_holder) = Some (verifying_key gate_suite (rk_signing_key demo_holder))"
    "ks_index demo_secret = rk_index demo_holder" "ks_epoch_account demo_secret = pk_epoch_account demo_package"
    "matches_share gate_suite (pk_epoch_public_keys demo_package) demo_secret"
    "lock_journal_digest (rk_journal demo_holder) (cl_epoch_account demo_lock) = Some (es_lock_digest (cl_state demo_lock))"
    by (simp_all add: p(2) demo_lock_def demo_locked_def demo_pool_def keyper_at_def demo_holder_def demo_keyper_def
        lock_journal_digest_def bt_get_def demo_secret_def matches_share_def)
      (simp add: gate_suite_def demo_suite_def)
  from settlement_pipeline [OF s(1-3) q(1) bs p(1) s(4) e k] q(1) bs show ?thesis by blast
qed

end
