(* ===== verification/Lock_Chain.thy ===== *)
theory Lock_Chain
  imports Lock_Gate Epoch_Chain
begin

text \<open>
  The host's confirmed reads and the program agree. A node that serves one view of a reachable chain makes
  the readers of \<open>lock.rs\<close> return exactly the capability that the epoch's state on chain grants, and a
  package that keypers approved locks the epoch and reads back as the lock they approved.
\<close>

section \<open>A node\<close>

definition served :: "chain \<Rightarrow> pubkey \<Rightarrow> rpc_account" where
  "served c k = \<lparr> ra_owner = ac_owner (c k), ra_data = ac_data (c k) \<rparr>"

definition node :: "chain \<Rightarrow> u64 \<Rightarrow> rpc_client" where
  "node c slot =
     \<lparr> rpc_get_account = (\<lambda>k. Some (slot, Some (served c k))),
       rpc_get_multiple = (\<lambda>ks. Some (slot, map (\<lambda>k. Some (served c k)) ks)) \<rparr>"

text \<open>The clock sysvar as the node serves it.\<close>

definition clock_at :: "sysvars \<Rightarrow> chain \<Rightarrow> clock \<Rightarrow> bool" where
  "clock_at sv c ck \<longleftrightarrow>
     ac_owner (c (rt_clock_id (sv_runtime sv))) = sv_owner sv \<and> sv_clock sv (ac_data (c (rt_clock_id (sv_runtime sv)))) = Some ck"

section \<open>What a state grants\<close>

definition lock_granted :: "u64 \<Rightarrow> clock \<Rightarrow> pubkey \<Rightarrow> epoch_state \<Rightarrow> pool_state \<Rightarrow> lock_validation_error + confirmed_lock" where
  "lock_granted slot ck k e ps =
     (if es_terminal_state e = Locked \<and> es_configuration_hash e \<noteq> 0 \<and> ck_slot ck \<le> slot \<and>
         ck_unix_timestamp ck \<le>s es_abort_deadline e
      then Inr \<lparr> cl_epoch_account = k, cl_state = e, cl_pool = Some ps, cl_confirmation_slot = slot \<rparr>
      else Inl InvalidOnchainLock)"

definition open_granted ::
    "suite \<Rightarrow> u64 \<Rightarrow> clock \<Rightarrow> pubkey \<Rightarrow> epoch_state \<Rightarrow> pool_state \<Rightarrow> lock_validation_error + confirmed_open_epoch" where
  "open_granted s slot ck k e ps =
     (if es_terminal_state e = Open \<and> ck_slot ck \<le> slot \<and> ck_unix_timestamp ck <s es_lock_deadline e \<and>
         key_from_bytes s (ps_operator ps)
      then Inr
        \<lparr> oe_epoch_account = k, oe_configuration = expected_configuration (es_pool e) e ps,
          oe_policy =
            \<lparr> ap_epoch_id = es_epoch_id e, ap_operator_key = ps_operator ps, ap_minimum = unat (es_minimum_count e),
              ap_base_atoms = es_base_lot_atoms e, ap_quote_atoms = es_quote_atoms_per_lot e,
              ap_current_slot = ck_slot ck \<rparr>,
          oe_current_timestamp = ck_unix_timestamp ck, oe_confirmation_slot = slot \<rparr>
      else Inl InvalidOnchainEpoch)"

definition terminal_granted :: "u64 \<Rightarrow> pubkey \<Rightarrow> epoch_state \<Rightarrow> lock_validation_error + confirmed_terminal_epoch" where
  "terminal_granted slot k e =
     (if es_terminal_state e = Expired \<or> es_terminal_state e = Aborted_epoch
      then Inr \<lparr> te_epoch_account = k, te_epoch_id = es_epoch_id e, te_terminal_state = es_terminal_state e,
                te_confirmation_slot = slot \<rparr>
      else Inl InvalidOnchainEpoch)"

section \<open>The readers grant exactly that\<close>

lemma configuration_of_expected: "epoch_configuration_of e ps = expected_configuration (es_pool e) e ps"
  by (simp add: epoch_configuration_of_def expected_configuration_def)

lemma served_fields [simp]: "ra_owner (served c k) = ac_owner (c k)" "ra_data (served c k) = ac_data (c k)"
  by (simp_all add: served_def)

lemma node_fields [simp]:
  "rpc_get_account (node c slot) k = Some (slot, Some (served c k))"
  "rpc_get_multiple (node c slot) ks = Some (slot, map (\<lambda>k. Some (served c k)) ks)"
  by (simp_all add: node_def)

lemma three_served: "three_accounts slot (slot, [Some a, Some b, Some d]) = Inr (a, b, d)"
  by (simp add: three_accounts_def)

lemma recorded_lock:
  assumes "lock_recorded sha256 k e"
  shows "es_lock_digest e = lock_payload_digest sha256 (recorded_lock_payload k e)" "es_lock_nonce e \<noteq> 0"
    "es_pre_balance_root e \<noteq> 0" "es_member_root e \<noteq> 0" "es_minimum_count e \<le> es_member_count e"
proof -
  from assms obtain p where p: "lock_payload_ok p k e" "lock_fields e =
     (lp_pre_balance_root p, lp_member_root p, lp_member_count p, lock_payload_digest sha256 p, lp_lock_nonce p)"
    by (auto simp: lock_recorded_def)
  then have "p = recorded_lock_payload k e"
    by (auto simp: lock_payload_ok_def lock_fields_def recorded_lock_payload_def)
  with p show "es_lock_digest e = lock_payload_digest sha256 (recorded_lock_payload k e)" "es_lock_nonce e \<noteq> 0"
    "es_pre_balance_root e \<noteq> 0" "es_member_root e \<noteq> 0" "es_minimum_count e \<le> es_member_count e"
    by (auto simp: lock_payload_ok_def lock_fields_def)
qed

lemma lock_account_read:
  assumes "hash256 s = rt_sha256 (sv_runtime sv)" "pool_ok (sv_runtime sv) (es_pool e) ps"
    "epoch_ok (sv_runtime sv) k e (es_pool e) ps" "phase_ok (rt_sha256 (sv_runtime sv)) k e"
  shows "confirmed_lock_from_account s sv k ID (epoch_state_encode e) slot =
    (if es_terminal_state e = Locked \<and> es_configuration_hash e \<noteq> 0
     then Inr \<lparr> cl_epoch_account = k, cl_state = e, cl_pool = None, cl_confirmation_slot = slot \<rparr>
     else Inl InvalidOnchainLock)"
proof (cases "es_terminal_state e = Locked")
  case True
  then have "lock_recorded (rt_sha256 (sv_runtime sv)) k e" using assms(4) by (simp add: phase_ok_def)
  note r = recorded_lock [OF this]
  have "epoch_address (sv_runtime sv) (es_pool e) (es_epoch_id e) = (k, es_epoch_bump e)" "\<not> es_minimum_count e < 4"
    "es_base_lot_atoms e \<noteq> 0" "es_quote_atoms_per_lot e \<noteq> 0" "\<not> es_abort_deadline e \<le>s es_lock_deadline e"
    "\<not> es_member_count e < es_minimum_count e"
    using assms(2,3) r(5) by (simp_all add: epoch_ok_def pool_ok_def not_less)
  with r(1-4) assms(1) True show ?thesis
    by (simp add: confirmed_lock_from_account_def del: not_sle_iff)
qed (auto simp: confirmed_lock_from_account_def Let_def)

lemma lock_read:
  assumes "hash256 s = rt_sha256 (sv_runtime sv)" "clock_at sv c ck" "holds_epoch c k e" "holds_pool c (es_pool e) ps"
    "pool_ok (sv_runtime sv) (es_pool e) ps" "epoch_ok (sv_runtime sv) k e (es_pool e) ps" "phase_ok (rt_sha256 (sv_runtime sv)) k e"
  shows "fetch_confirmed_lock s sv (node c slot) k = lock_granted slot ck k e ps"
proof -
  have acc: "confirmed_lock_from_account s sv k (ac_owner (c k)) (ac_data (c k)) slot =
    (if es_terminal_state e = Locked \<and> es_configuration_hash e \<noteq> 0
     then Inr \<lparr> cl_epoch_account = k, cl_state = e, cl_pool = None, cl_confirmation_slot = slot \<rparr>
     else Inl InvalidOnchainLock)" for slot
    using lock_account_read [OF assms(1,5,6,7)] assms(3) by (simp add: holds_epoch_def)
  have pool: "ac_owner (c (es_pool e)) = ID" "ac_data (c (es_pool e)) = pool_state_encode ps"
    using assms(4) by (simp_all add: holds_pool_def)
  have ck: "ac_owner (c (rt_clock_id (sv_runtime sv))) = sv_owner sv"
    "sv_clock sv (ac_data (c (rt_clock_id (sv_runtime sv)))) = Some ck" using assms(2) by (simp_all add: clock_at_def)
  obtain vault where ps: "pool_address (sv_runtime sv) (ps_operator ps) (ps_base_mint ps) (ps_quote_mint ps) = (es_pool e, ps_pool_bump ps)"
    "vault_authority_address (sv_runtime sv) (es_pool e) = (vault, ps_vault_bump ps)" "ps_lock_threshold ps = 2" "ps_settlement_threshold ps = 2"
    "ps_base_lot_atoms ps \<noteq> 0" "ps_base_mint ps \<noteq> ps_quote_mint ps"
    "configuration_digest (hash256 s) (epoch_configuration_of e ps) = es_configuration_hash e"
    using assms(1,5,6) by (cases "vault_authority_address (sv_runtime sv) (es_pool e)")
      (auto simp: pool_ok_def epoch_ok_def configuration_of_expected)
  have "ck_slot ck \<le> slot \<longleftrightarrow> \<not> slot < ck_slot ck"
    "ck_unix_timestamp ck \<le>s es_abort_deadline e \<longleftrightarrow> \<not> es_abort_deadline e <s ck_unix_timestamp ck" by (simp_all add: not_less)
  then show ?thesis
    by (simp add: fetch_confirmed_lock_def acc three_served confirmed_lock_from_accounts_def pool ck ps lock_granted_def
        del: not_sless_iff)
qed

lemma epoch_read:
  assumes "holds_epoch c k e" "epoch_ok (sv_runtime sv) k e (es_pool e) ps"
  shows "decode_program_epoch sv k (ac_owner (c k)) (ac_data (c k)) = Inr e"
  using assms by (simp add: decode_program_epoch_def holds_epoch_def epoch_ok_def)

lemma terminal_read:
  assumes "holds_epoch c k e" "epoch_ok (sv_runtime sv) k e (es_pool e) ps"
  shows "fetch_confirmed_terminal_epoch s sv (node c slot) k = terminal_granted slot k e"
  by (simp add: fetch_confirmed_terminal_epoch_def confirmed_terminal_epoch_from_account_def epoch_read [OF assms] terminal_granted_def)

lemma open_read:
  assumes "hash256 s = rt_sha256 (sv_runtime sv)" "clock_at sv c ck" "holds_epoch c k e" "holds_pool c (es_pool e) ps"
    "pool_ok (sv_runtime sv) (es_pool e) ps" "epoch_ok (sv_runtime sv) k e (es_pool e) ps" "phase_ok (rt_sha256 (sv_runtime sv)) k e"
  shows "fetch_confirmed_open_epoch s sv (node c slot) k = open_granted s slot ck k e ps"
proof -
  have pool: "ac_owner (c (es_pool e)) = ID" "ac_data (c (es_pool e)) = pool_state_encode ps"
    using assms(4) by (simp_all add: holds_pool_def)
  have ck: "ac_owner (c (rt_clock_id (sv_runtime sv))) = sv_owner sv"
    "sv_clock sv (ac_data (c (rt_clock_id (sv_runtime sv)))) = Some ck" using assms(2) by (simp_all add: clock_at_def)
  obtain vault where ps: "pool_address (sv_runtime sv) (ps_operator ps) (ps_base_mint ps) (ps_quote_mint ps) = (es_pool e, ps_pool_bump ps)"
    "vault_authority_address (sv_runtime sv) (es_pool e) = (vault, ps_vault_bump ps)" "ps_lock_threshold ps = 2" "ps_settlement_threshold ps = 2"
    "ps_base_lot_atoms ps \<noteq> 0" "ps_base_mint ps \<noteq> ps_quote_mint ps"
    "configuration_digest (hash256 s) (epoch_configuration_of e ps) = es_configuration_hash e"
    using assms(1,5,6) by (cases "vault_authority_address (sv_runtime sv) (es_pool e)")
      (auto simp: pool_ok_def epoch_ok_def configuration_of_expected)
  obtain a b d where k: "ps_keypers ps = (a, b, d)" "a \<noteq> 0" "b \<noteq> 0" "d \<noteq> 0" "a \<noteq> b" "a \<noteq> d" "b \<noteq> d"
    using assms(5) by (cases "ps_keypers ps") (auto simp: pool_ok_def)
  have e: "\<not> es_minimum_count e < 4" "es_base_lot_atoms e = ps_base_lot_atoms ps" "es_quote_atoms_per_lot e \<noteq> 0"
    "\<not> es_abort_deadline e \<le>s es_lock_deadline e" "unat (es_minimum_count e) \<noteq> 0"
    using assms(6) by (auto simp: epoch_ok_def not_less word_le_nat_alt)
  have phase: "es_terminal_state e = Open \<Longrightarrow> es_residual_side e = 0 \<and> es_pre_balance_root e = 0 \<and> es_member_root e = 0 \<and>
      es_lock_digest e = 0 \<and> es_result_commitment e = 0 \<and> es_settlement_digest e = 0 \<and> es_lock_nonce e = 0 \<and>
      es_settlement_nonce e = 0 \<and> es_member_count e = 0 \<and> es_residual_lots e = 0"
    using assms(7) by (simp add: phase_ok_def lock_fields_def settle_fields_def)
  have cmp: "ck_slot ck \<le> slot \<longleftrightarrow> \<not> slot < ck_slot ck"
    "ck_unix_timestamp ck <s es_lock_deadline e \<longleftrightarrow> \<not> es_lock_deadline e \<le>s ck_unix_timestamp ck" by (simp_all add: not_less)
  show ?thesis
  proof (cases "es_terminal_state e = Open")
    case True
    note phase [OF True]
    with True show ?thesis
      using e cmp
      by (simp add: fetch_confirmed_open_epoch_def epoch_read [OF assms(3,6)] three_served confirmed_open_epoch_from_accounts_def
          pool ck ps k open_granted_def admission_policy_new_def configuration_of_expected [symmetric]
          del: not_sless_iff not_sle_iff)
  next
    case False
    then show ?thesis
      by (simp add: fetch_confirmed_open_epoch_def epoch_read [OF assms(3,6)] three_served confirmed_open_epoch_from_accounts_def
          pool ck ps open_granted_def)
  qed
qed

section \<open>An approved package locks the epoch\<close>

lemma sub_one_less: "now <s d \<Longrightarrow> saturating_sub_i64 d 1 <s d" for now d :: i64
proof -
  assume "now <s d"
  then have lt: "sint now < sint d" by (simp add: word_sless_alt)
  have r: "- (2 ^ 63) \<le> sint now" "sint d < 2 ^ 63" using sint_ge [of now] sint_lt [of d] by auto
  have one: "sint (1 :: i64) = 1" by simp
  have "saturating_sub_i64 d 1 = word_of_int (sint d - 1)" using lt r by (simp add: saturating_sub_i64_def one)
  moreover have "sint (word_of_int (sint d - 1) :: i64) = sint d - 1"
    using lt r by (subst sint_sbintrunc', intro signed_take_bit_int_eq_self) simp_all
  ultimately show ?thesis by (simp add: word_sless_alt)
qed

lemma lock_payload_accepted:
  assumes "hash256 s = rt_sha256 rt" "epoch_ok rt k e (es_pool e) ps" "open_granted s slot ck k e ps = Inr open"
    "package_validate s p open = Inr digest" "pk_pre_balance_root p \<noteq> 0" "pk_member_root p \<noteq> 0"
  shows "lock_payload_ok (package_lock_payload s p) k e"
  using assms
  by (auto simp: open_granted_def package_validate_Inr lock_payload_ok_def package_lock_payload_def epoch_ok_def
      expected_configuration_def split: if_splits)

lemma package_validates_locked:
  assumes granted: "open_granted s slot ck k e ps = Inr open" and valid: "package_validate s p open = Inr digest"
    and ok: "epoch_ok rt k e (es_pool e) ps" "pool_ok rt (es_pool e) ps"
    and fresh: "\<forall>m \<in> set (pk_submissions p). slot \<le> fa_expiry_slot (es_authorization m)"
    and e': "frozen e' = frozen e" "lock_fields e' = (pk_pre_balance_root p, pk_member_root p, pk_member_count p, digest, n)"
  shows "package_validate_locked s p \<lparr> cl_epoch_account = k, cl_state = e', cl_pool = Some ps, cl_confirmation_slot = slot \<rparr> = Inr digest"
proof -
  let ?policy = "\<lparr> ap_epoch_id = es_epoch_id e, ap_operator_key = ps_operator ps, ap_minimum = unat (es_minimum_count e),
      ap_base_atoms = es_base_lot_atoms e, ap_quote_atoms = es_quote_atoms_per_lot e, ap_current_slot = slot \<rparr>"
  have g: "ck_unix_timestamp ck <s es_lock_deadline e" "key_from_bytes s (ps_operator ps)"
    "oe_epoch_account open = k" "oe_configuration open = expected_configuration (es_pool e) e ps"
    "oe_policy open = ?policy \<lparr> ap_current_slot := ck_slot ck \<rparr>"
    using granted by (auto simp: open_granted_def split: if_splits)
  have f: "es_pool e' = es_pool e" "es_epoch_id e' = es_epoch_id e" "es_minimum_count e' = es_minimum_count e"
    "es_base_lot_atoms e' = es_base_lot_atoms e" "es_quote_atoms_per_lot e' = es_quote_atoms_per_lot e"
    "es_lock_deadline e' = es_lock_deadline e" "es_abort_deadline e' = es_abort_deadline e"
    "es_pre_balance_root e' = pk_pre_balance_root p" "es_member_root e' = pk_member_root p"
    "es_member_count e' = pk_member_count p" "es_lock_digest e' = digest"
    using e' by (auto simp: frozen_def lock_fields_def)
  have c: "epoch_configuration_of e' ps = expected_configuration (es_pool e) e ps"
    by (simp add: epoch_configuration_of_def expected_configuration_def f)
  have pos: "unat (es_minimum_count e) \<noteq> 0" "ps_base_lot_atoms ps \<noteq> 0" "es_quote_atoms_per_lot e \<noteq> 0"
    "es_base_lot_atoms e = ps_base_lot_atoms ps"
    using ok by (auto simp: epoch_ok_def pool_ok_def word_le_nat_alt)
  have "members_ok s ?policy (pk_submissions p)"
    using valid fresh unfolding package_validate_Inr members_ok_def g verify_admission_Inr by auto
  then have v: "package_validate s p
      \<lparr> oe_epoch_account = k, oe_configuration = expected_configuration (es_pool e) e ps, oe_policy = ?policy,
        oe_current_timestamp = saturating_sub_i64 (es_lock_deadline e) 1, oe_confirmation_slot = slot \<rparr> = Inr digest"
    using valid sub_one_less [OF g(1)] unfolding package_validate_Inr g by (auto simp: expected_configuration_def)
  have ec: "ec_epoch_id (expected_configuration (es_pool e) e ps) = es_epoch_id e"
    "ec_minimum_count (expected_configuration (es_pool e) e ps) = es_minimum_count e"
    "ec_base_lot_atoms (expected_configuration (es_pool e) e ps) = ps_base_lot_atoms ps"
    "ec_quote_atoms_per_lot (expected_configuration (es_pool e) e ps) = es_quote_atoms_per_lot e"
    "ec_lock_deadline (expected_configuration (es_pool e) e ps) = es_lock_deadline e"
    by (simp_all add: expected_configuration_def)
  show ?thesis
    using v pos by (simp add: package_validate_locked_def c ec g(2) admission_policy_new_def f)
qed

lemma lock_stores:
  fixes k :: pubkey
  assumes "distinct (map fst metas)" "length metas = 5" "fst (metas ! 2) = k"
  shows "store_accounts c ((map (load_account c) metas)[2 := (map (load_account c) metas ! 2)\<lparr>ai_data := data\<rparr>]) =
    c(k := (c k)\<lparr>ac_data := data\<rparr>)"
proof -
  let ?c = "c(k := (c k)\<lparr>ac_data := data\<rparr>)"
  have "(map (load_account c) metas)[2 := (map (load_account c) metas ! 2)\<lparr>ai_data := data\<rparr>] = map (load_account ?c) metas"
  proof (rule nth_equalityI)
    fix i assume i: "i < length ((map (load_account c) metas)[2 := (map (load_account c) metas ! 2)\<lparr>ai_data := data\<rparr>])"
    have "i \<noteq> 2 \<Longrightarrow> map fst metas ! i \<noteq> map fst metas ! 2"
      using assms(1,2) i by (subst nth_eq_iff_index_eq) auto
    then show "(map (load_account c) metas)[2 := (map (load_account c) metas ! 2)\<lparr>ai_data := data\<rparr>] ! i = map (load_account ?c) metas ! i"
      using assms(2,3) i by (cases "i = 2") (auto simp: load_account_def split: prod.splits)
  qed simp
  moreover have "store_accounts c (map (load_account ?c) metas) = ?c"
    using nth_mem [of 2 metas] assms(2,3) by (intro store_load) auto
  ultimately show ?thesis by simp
qed

definition lock_keys :: "runtime \<Rightarrow> pubkey \<Rightarrow> pubkey \<Rightarrow> pubkey \<Rightarrow> pubkey list" where
  "lock_keys rt payer pool k = [payer, pool, k, rt_instructions_id rt, rt_clock_id rt]"

lemma lock_runs:
  assumes keys: "distinct (lock_keys rt payer (es_pool e) k)" "\<forall>a \<in> set (lock_keys rt payer (es_pool e) k). \<not> ac_executable (c a)"
    and held: "holds_epoch c k e" "holds_pool c (es_pool e) ps" "pool_ok rt (es_pool e) ps" "epoch_ok rt k e (es_pool e) ps"
    and go: "es_terminal_state e = Open" "rt_clock_unix_timestamp rt (load_account c (rt_clock_id rt, False, False)) = Inr now"
      "now <s es_lock_deadline e" "lock_payload_ok p k e"
      "quorum rt (load_account c (rt_instructions_id rt, False, False)) (ps_keypers ps) (lock_payload_digest (rt_sha256 rt) p)"
    and ix: "ix = lock_instruction rt payer (es_pool e) k p"
  shows "\<exists>accs. process_instruction rt ID (map (load_account c) (ix_accounts ix)) (ix_data ix) = Inr accs \<and>
    store_accounts c accs = c(k := (c k)\<lparr>ac_data := epoch_state_encode (lock_state (lock_payload_digest (rt_sha256 rt) p) p e)\<rparr>)"
proof -
  let ?metas = "ix_accounts ix"
  let ?accs = "map (load_account c) ?metas"
  have m: "?metas = [(payer, True, False), (es_pool e, False, False), (k, False, True), (rt_instructions_id rt, False, False),
      (rt_clock_id rt, False, False)]"
    by (simp add: ix lock_instruction_def meta_readonly_def meta_new_def)
  have acc: "lock_accounts_ok rt ?accs" "opened rt ID (?accs ! 1) (?accs ! 2) ps e"
    using keys held by (auto simp: m lock_accounts_ok_def lock_keys_def flags_def load_account_def opened_def holds_epoch_def holds_pool_def)
  have more: "?accs ! 3 = load_account c (rt_instructions_id rt, False, False)" "?accs ! 4 = load_account c (rt_clock_id rt, False, False)"
    "ai_key (?accs ! 2) = k" by (simp_all add: m load_account_def)
  have "lock rt ID ?accs p = Inr (?accs[2 := (?accs ! 2)\<lparr>ai_data :=
      epoch_state_encode (lock_state (lock_payload_digest (rt_sha256 rt) p) p e)\<rparr>])"
    unfolding lock_Inr more using acc go by blast
  then have "process_instruction rt ID ?accs (ix_data ix) = Inr (?accs[2 := (?accs ! 2)\<lparr>ai_data :=
      epoch_state_encode (lock_state (lock_payload_digest (rt_sha256 rt) p) p e)\<rparr>])"
    by (simp add: ix lock_instruction_def del: instruction_encode.simps)
  moreover have "distinct (map fst ?metas)" "length ?metas = 5" "fst (?metas ! 2) = k"
    using keys(1) by (simp_all add: m lock_keys_def)
  ultimately show ?thesis using lock_stores by blast
qed

text \<open>
  C12. The host reads exactly what the program recorded. For every epoch account of every chain that can arise
  from a genesis chain, a node that serves one view of that chain makes the three confirmed-state readers of
  \<open>lock.rs\<close> return precisely what the epoch state grants: an open-epoch capability exactly while the
  epoch is open and before the lock deadline (by the served clock), a lock exactly while it is locked and not
  past the abort deadline, and a terminal capability exactly when it expired or aborted, each with the pool and
  configuration the chain holds; every other state is refused with the reader's error.
\<close>

theorem host_reads_the_chain:
  assumes "reachable (sv_runtime sv) c" "hash256 s = rt_sha256 (sv_runtime sv)" "clock_at sv c ck" "holds_epoch c k e"
  shows "\<exists>ps. holds_pool c (es_pool e) ps \<and>
    fetch_confirmed_open_epoch s sv (node c slot) k = open_granted s slot ck k e ps \<and>
    fetch_confirmed_lock s sv (node c slot) k = lock_granted slot ck k e ps \<and>
    fetch_confirmed_terminal_epoch s sv (node c slot) k = terminal_granted slot k e"
proof -
  from reachable_epoch_inv [OF assms(1,4)] obtain ps where ps: "phase_ok (rt_sha256 (sv_runtime sv)) k e"
    "holds_pool c (es_pool e) ps" "pool_ok (sv_runtime sv) (es_pool e) ps" "epoch_ok (sv_runtime sv) k e (es_pool e) ps"
    by (auto simp: epoch_inv_def)
  note read = assms(2,3,4) ps(2,3,4,1)
  show ?thesis
    using ps(2) open_read [OF read] lock_read [OF read] terminal_read [OF assms(4) ps(4)] by blast
qed

text \<open>
  C11. Approval on the host is acceptance on chain. Take a package that validates against the open-epoch
  capability read from a node, an epoch account with the chain's invariant, and the transaction the client
  builds for the package's payload, landing before the lock deadline behind signatures of two of the epoch's
  keypers over the digest the package validation returned. Then the program accepts the instruction, and the
  same host, reading the resulting chain while its view of the clock lasts and no member's authorization has
  expired, confirms the lock and validates the package against it to that same digest: what the keypers
  approved, what the chain records and what share release later checks are one digest.
\<close>

theorem approved_package_locks:
  assumes base: "same_base (sv_runtime sv) rt" "hash256 s = rt_sha256 rt" "rt_clock_id (sv_runtime sv) = rt_clock_id rt"
    and held: "epoch_inv (sv_runtime sv) c k e" "holds_epoch c k e" "clock_at sv c ck"
    and opn: "fetch_confirmed_open_epoch s sv (node c slot) k = Inr open"
    and valid: "package_validate s p open = Inr digest" "pk_pre_balance_root p \<noteq> 0" "pk_member_root p \<noteq> 0" "es_configuration_hash e \<noteq> 0"
    and keys: "distinct (lock_keys rt payer (es_pool e) k)" "\<forall>a \<in> set (lock_keys rt payer (es_pool e) k). \<not> ac_executable (c a)"
    and go: "rt_clock_unix_timestamp rt (load_account c (rt_clock_id rt, False, False)) = Inr now" "now <s es_lock_deadline e"
      "quorum rt (load_account c (rt_instructions_id rt, False, False)) (ec_keypers (oe_configuration open)) digest"
    and fresh: "\<forall>m \<in> set (pk_submissions p). slot \<le> fa_expiry_slot (es_authorization m)"
    and ix: "ix = lock_instruction rt payer (es_pool e) k (package_lock_payload s p)"
  shows "\<exists>accs confirmed. process_instruction rt ID (map (load_account c) (ix_accounts ix)) (ix_data ix) = Inr accs \<and>
    fetch_confirmed_lock s sv (node (store_accounts c accs) slot) k = Inr confirmed \<and>
    package_validate_locked s p confirmed = Inr digest"
proof -
  let ?lp = "package_lock_payload s p"
  have sha: "rt_sha256 rt = rt_sha256 (sv_runtime sv)" and h: "hash256 s = rt_sha256 (sv_runtime sv)"
    using base by (simp_all add: same_base_def)
  from held(1) obtain ps where ps: "phase_ok (rt_sha256 (sv_runtime sv)) k e"
    "holds_pool c (es_pool e) ps" "pool_ok (sv_runtime sv) (es_pool e) ps" "epoch_ok (sv_runtime sv) k e (es_pool e) ps"
    by (auto simp: epoch_inv_def)
  have granted: "open_granted s slot ck k e ps = Inr open"
    using opn open_read [OF h held(3,2) ps(2,3,4,1)] by simp
  then have g: "es_terminal_state e = Open" "ec_keypers (oe_configuration open) = ps_keypers ps" "ck_slot ck \<le> slot"
    "ck_unix_timestamp ck <s es_lock_deadline e"
    by (auto simp: open_granted_def expected_configuration_def split: if_splits)
  have d: "digest = lock_payload_digest (rt_sha256 rt) ?lp" using valid(1) base(2) by (simp add: package_validate_Inr)
  have lp: "lock_payload_ok ?lp k e" using lock_payload_accepted [OF h ps(4) granted valid(1,2,3)] .
  let ?e = "lock_state digest ?lp e"
  let ?c = "c(k := (c k)\<lparr>ac_data := epoch_state_encode ?e\<rparr>)"
  obtain accs where run: "process_instruction rt ID (map (load_account c) (ix_accounts ix)) (ix_data ix) = Inr accs"
    "store_accounts c accs = ?c"
    using lock_runs [OF keys held(2) ps(2) _ _ g(1) go(1,2) lp _ ix] ps(3,4) go(3) g(2)
    by (auto simp: same_base_ok [OF base(1)] d)
  have move: "epoch_move (rt_sha256 (sv_runtime sv)) k e ?e" using epoch_move.move_lock [OF g(1) lp] d sha by simp
  note fr = move_frozen [OF move]
  have ph: "phase_ok (rt_sha256 (sv_runtime sv)) k ?e" using move_phase [OF move ps(1)] .
  have pe: "es_pool ?e = es_pool e" "es_terminal_state ?e = Locked" "es_configuration_hash ?e = es_configuration_hash e"
    "es_abort_deadline ?e = es_abort_deadline e" by (simp_all add: lock_state_def)
  have ne: "es_pool e \<noteq> k" "rt_clock_id (sv_runtime sv) \<noteq> k" using keys(1) base(3) by (auto simp: lock_keys_def)
  have c: "clock_at sv ?c ck" "holds_epoch ?c k ?e" "holds_pool ?c (es_pool ?e) ps"
    using held(2,3) ps(2) ne by (simp_all add: clock_at_def holds_epoch_def holds_pool_def pe)
  have ok: "pool_ok (sv_runtime sv) (es_pool ?e) ps" "epoch_ok (sv_runtime sv) k ?e (es_pool ?e) ps"
    using ps(3,4) by (simp_all add: pe epoch_ok_frozen [OF fr])
  have "ck_unix_timestamp ck \<le>s es_abort_deadline e"
    using g(4) ps(4) by (auto simp: epoch_ok_def word_sle_eq word_sless_alt)
  then have "fetch_confirmed_lock s sv (node ?c slot) k = Inr \<lparr> cl_epoch_account = k, cl_state = ?e, cl_pool = Some ps, cl_confirmation_slot = slot \<rparr>"
    using lock_read [OF h c ok ph, of slot] g(3) valid(4) by (simp add: lock_granted_def pe)
  moreover have "lock_fields ?e = (pk_pre_balance_root p, pk_member_root p, pk_member_count p, digest, pk_lock_nonce p)"
    by (simp add: lock_fields_def lock_state_def package_lock_payload_def)
  ultimately show ?thesis using run package_validates_locked [OF granted valid(1) ps(4,3) fresh fr] by metis
qed

end
