(* ===== verification/Demo_Lock_Chain.thy ===== *)
theory Demo_Lock_Chain
  imports Lock_Chain Demo_Gate Demo_Chain
begin

text \<open>
  Witnesses for the composition of the host's readers with the program: the locked epoch of the concrete run,
  and the concrete package of four members approved and locked on a chain that holds its pool and its open epoch.
\<close>

section \<open>Reading the concrete run\<close>

definition run_sysvars :: sysvars where
  "run_sysvars = \<lparr> sv_runtime = demo_rt [] 0, sv_owner = 0, sv_clock = (\<lambda>_. Some \<lparr> ck_slot = 50, ck_unix_timestamp = 950 \<rparr>) \<rparr>"

definition run_suite :: suite where
  "run_suite = demo_suite \<lparr> hash256 := \<lambda>bs. of_nat (length bs) \<rparr>"

lemma run_clock: "clock_at run_sysvars demo_chain3 \<lparr> ck_slot = 50, ck_unix_timestamp = 950 \<rparr>"
  by (simp add: clock_at_def run_sysvars_def demo_chain3_def demo_chain2_def demo_chain1_def demo_genesis_def plain_account_def)

lemma run_configuration: "es_configuration_hash Demo_Chain.demo_locked \<noteq> 0"
  by (simp add: Demo_Chain.demo_locked_def lock_state_def demo_epoch_def new_epoch_def configuration_digest_def domain_hash_def
      configuration_codec.length_enc CONFIGURATION_LEN_def CONFIG_DOMAIN_def ascii_length)

theorem host_reads_the_chain_witness:
  "\<exists>confirmed. fetch_confirmed_lock run_suite run_sysvars (node demo_chain3 60) 12 = Inr confirmed \<and>
     cl_state confirmed = Demo_Chain.demo_locked \<and>
     fetch_confirmed_open_epoch run_suite run_sysvars (node demo_chain3 60) 12 = Inl InvalidOnchainEpoch"
proof -
  have "reachable (sv_runtime run_sysvars) demo_chain3" using demo_reachable(2) by (simp add: run_sysvars_def)
  moreover have "hash256 run_suite = rt_sha256 (sv_runtime run_sysvars)" by (simp add: run_suite_def run_sysvars_def)
  ultimately show ?thesis
    using host_reads_the_chain [OF _ _ run_clock demo_holds(2), of run_suite 60] run_configuration
    by (auto simp: lock_granted_def open_granted_def)
      (auto simp: Demo_Chain.demo_locked_def lock_state_def demo_epoch_def new_epoch_def demo_epoch_args_def word_sle_eq)
qed

section \<open>Locking the concrete package\<close>

definition gate_open :: epoch_state where
  "gate_open = Demo_Gate.demo_locked \<lparr> es_terminal_state := Open, es_pre_balance_root := 0, es_member_root := 0,
     es_member_count := 0, es_lock_digest := 0, es_lock_nonce := 0 \<rparr>"

definition gate_chain :: chain where
  "gate_chain k =
     (if k = 6 then program_account (epoch_state_encode gate_open)
      else if k = 2 then program_account (pool_state_encode Demo_Gate.demo_pool)
      else \<lparr> ac_owner = 99, ac_lamports = 0, ac_data = [], ac_executable = False \<rparr>)"

definition gate_signatures :: "instruction list" where
  "gate_signatures = [strict_instruction demo_runtime 33 0 demo_digest, strict_instruction demo_runtime 31 0 demo_digest]"

definition gate_runtime :: runtime where
  "gate_runtime = demo_runtime
     \<lparr> rt_current_index := (\<lambda>_. Inr 2), rt_instruction_at := (\<lambda>i _. if i < 2 then Inr (gate_signatures ! i) else Inl (Runtime_error 0)) \<rparr>"

lemma gate_parse: "parse_strict_ed25519 gate_runtime (strict_instruction demo_runtime k 0 d) = Inr \<lparr>se_signer = k, se_digest = d\<rparr>"
proof -
  have "strict_instruction demo_runtime k 0 d = strict_instruction gate_runtime k 0 d"
    by (simp add: strict_instruction_def gate_runtime_def)
  then show ?thesis by simp
qed

lemma gate_quorum: "quorum gate_runtime acc (31, 32, 33) demo_digest"
proof -
  have "signed_by gate_runtime gate_signatures demo_digest k \<longleftrightarrow> k = 33 \<or> k = 31" for k
    by (auto simp: signed_by_def gate_signatures_def gate_parse)
  then have "{k \<in> set (keyper_list (31, 32, 33)). signed_by gate_runtime gate_signatures demo_digest k} = {31, 33}" by auto
  moreover have "preceding gate_runtime acc gate_signatures"
    by (simp add: preceding_def gate_runtime_def gate_signatures_def)
  ultimately show ?thesis by (auto simp: quorum_def)
qed

lemma gate_configuration: "expected_configuration 2 gate_open Demo_Gate.demo_pool = demo_configuration"
  by (simp add: expected_configuration_def gate_open_def Demo_Gate.demo_locked_def Demo_Gate.demo_pool_def demo_configuration_def)

lemma gate_pool_ok: "pool_ok demo_runtime 2 Demo_Gate.demo_pool"
  by (simp add: pool_ok_def gate_addresses Demo_Gate.demo_pool_def)

lemma gate_epoch_ok: "epoch_ok demo_runtime 6 gate_open 2 Demo_Gate.demo_pool"
  unfolding epoch_ok_def gate_configuration
  by (simp add: gate_addresses gate_open_def Demo_Gate.demo_locked_def Demo_Gate.demo_pool_def word_sless_alt)
    (simp add: demo_runtime_def)

lemma gate_holds:
  "holds_epoch gate_chain 6 gate_open" "holds_pool gate_chain 2 Demo_Gate.demo_pool" "es_pool gate_open = 2"
  "phase_ok sha256 6 gate_open"
  by (simp_all add: holds_epoch_def holds_pool_def gate_chain_def program_account_def gate_open_def Demo_Gate.demo_locked_def
      phase_ok_def lock_fields_def settle_fields_def)

lemma gate_clock: "clock_at demo_sysvars gate_chain \<lparr> ck_slot = 50, ck_unix_timestamp = 60 \<rparr>"
  by (simp add: clock_at_def demo_sysvars_def demo_runtime_def gate_chain_def)

lemma gate_opens: "fetch_confirmed_open_epoch gate_suite demo_sysvars (node gate_chain 55) 6 = Inr (demo_confirmed 4 50 60 55)"
proof -
  have "hash256 gate_suite = rt_sha256 (sv_runtime demo_sysvars)" by (simp add: gate_suite_def demo_sysvars_def demo_runtime_def)
  then have "fetch_confirmed_open_epoch gate_suite demo_sysvars (node gate_chain 55) 6 =
      open_granted gate_suite 55 \<lparr> ck_slot = 50, ck_unix_timestamp = 60 \<rparr> 6 gate_open Demo_Gate.demo_pool"
    using gate_holds gate_pool_ok gate_epoch_ok by (intro open_read [OF _ gate_clock]) (simp_all add: demo_sysvars_def)
  also have "\<dots> = Inr (demo_confirmed 4 50 60 55)"
    unfolding open_granted_def gate_holds(3) gate_configuration
    by (simp add: gate_open_def Demo_Gate.demo_locked_def Demo_Gate.demo_pool_def demo_confirmed_def demo_policy_def
        word_sless_alt gate_suite_def demo_suite_def)
  finally show ?thesis .
qed

theorem approved_package_locks_witness:
  "\<exists>accs confirmed.
     process_instruction gate_runtime ID (map (load_account gate_chain) (ix_accounts (lock_instruction gate_runtime 70 2 6 (package_lock_payload gate_suite demo_package))))
       (instruction_encode (Lock (package_lock_payload gate_suite demo_package))) = Inr accs \<and>
     fetch_confirmed_lock gate_suite demo_sysvars (node (store_accounts gate_chain accs) 55) 6 = Inr confirmed \<and>
     package_validate_locked gate_suite demo_package confirmed = Inr demo_digest"
proof -
  let ?ix = "lock_instruction gate_runtime 70 (es_pool gate_open) 6 (package_lock_payload gate_suite demo_package)"
  have base: "same_base (sv_runtime demo_sysvars) gate_runtime" "hash256 gate_suite = rt_sha256 gate_runtime"
    "rt_clock_id (sv_runtime demo_sysvars) = rt_clock_id gate_runtime"
    by (simp_all add: same_base_def demo_sysvars_def gate_runtime_def gate_suite_def) (simp_all add: demo_runtime_def)
  have inv: "epoch_inv (sv_runtime demo_sysvars) gate_chain 6 gate_open"
    using gate_holds gate_pool_ok gate_epoch_ok by (auto simp: epoch_inv_def demo_sysvars_def)
  have valid: "package_validate gate_suite demo_package (demo_confirmed 4 50 60 55) = Inr demo_digest"
    by (rule demo_validates) (simp_all add: word_sless_alt)
  have roots: "pk_pre_balance_root demo_package \<noteq> 0" "pk_member_root demo_package \<noteq> 0" "es_configuration_hash gate_open \<noteq> 0"
    using demo_roots_nonzero by (simp_all add: demo_package_def gate_open_def Demo_Gate.demo_locked_def)
  have keys: "distinct (lock_keys gate_runtime 70 (es_pool gate_open) 6)"
    "\<forall>a \<in> set (lock_keys gate_runtime 70 (es_pool gate_open) 6). \<not> ac_executable (gate_chain a)"
    by (simp_all add: lock_keys_def gate_runtime_def demo_runtime_def gate_holds gate_chain_def program_account_def)
  have go: "rt_clock_unix_timestamp gate_runtime (load_account gate_chain (rt_clock_id gate_runtime, False, False)) = Inr 0"
    "0 <s es_lock_deadline gate_open"
    "quorum gate_runtime (load_account gate_chain (rt_instructions_id gate_runtime, False, False))
       (ec_keypers (oe_configuration (demo_confirmed 4 50 60 55))) demo_digest"
    using gate_quorum
    by (simp_all add: gate_runtime_def demo_runtime_def gate_open_def Demo_Gate.demo_locked_def demo_confirmed_def demo_configuration_def word_sless_alt)
  have fresh: "\<forall>m \<in> set (pk_submissions demo_package). 55 \<le> fa_expiry_slot (es_authorization m)"
    by (simp add: demo_package_def demo_members_def demo_member_def authorization_sign_def Let_def)
  show ?thesis
    using approved_package_locks [OF base inv gate_holds(1) gate_clock gate_opens valid roots keys go fresh refl]
    by (simp add: gate_holds(3)) (simp add: lock_instruction_def)
qed

end
