(* ===== verification/Demo_Keyper.thy ===== *)
theory Demo_Keyper
  imports Keyper_Properties Demo_Settlement Demo_Lock_Chain
begin

text \<open>
  Witnesses for the keyper process: a share library whose secret is one repeated byte, children that answer with
  fixed bytes, a child that leaks, and the keyper's own binary on a fresh journal.
\<close>

section \<open>A share library\<close>

abbreviation demo_secret_bytes :: "byte list" where
  "demo_secret_bytes \<equiv> replicate 32 255"

definition demo_library :: share_library where
  "demo_library =
     \<lparr> serialize_secret = (\<lambda>_. Some demo_secret_bytes), deserialize_secret = (\<lambda>_. Some []), share_sign = (\<lambda>_ _. 0),
       public_share_valid = (\<lambda>_. True), signature_share_valid = (\<lambda>_. True), share_verify = (\<lambda>_ _ _. True) \<rparr>"

definition private_directory :: metadata where
  "private_directory = \<lparr> md_is_dir = True, md_is_file = False, md_is_symlink = False, md_len = 0, md_mode = 448 \<rparr>"

lemma private_directory_ok: "verify_private_directory (Some private_directory) = Inr ()"
  by (simp add: verify_private_directory_def private_directory_def private_mode_def)

definition demo_bound :: "byte list" where
  "demo_bound = [1] @ arr_bytes (6 :: pubkey) @ to_le_bytes (1 :: u64) @ demo_secret_bytes"

lemma demo_bound_share: "append_bound_share demo_library [] demo_secret = Inr (demo_bound, demo_secret_bytes)"
  by (simp add: append_bound_share_Inr demo_library_def demo_secret_def demo_bound_def)

lemma not_secret: "255 \<notin> set bytes \<Longrightarrow> \<not> sublist demo_secret_bytes bytes"
  by (auto dest!: set_mono_sublist)

section \<open>Children that answer with fixed bytes\<close>

definition zero_suite :: suite where
  "zero_suite = demo_suite \<lparr> hash256 := \<lambda>_. 0 \<rparr>"

definition answer :: "byte list \<Rightarrow> child_run \<times> dir_entry list option" where
  "answer bytes = (Exited \<lparr> co_success = True, co_stdout = bytes, co_stderr = [] \<rparr>, Some [])"

definition zero_approval :: lock_approval where
  "zero_approval = \<lparr> la_keyper_key = 32, la_digest = 0, la_signature = 0 \<rparr>"

definition zero_share :: released_share where
  "zero_share = \<lparr> rs_epoch_account = 6, rs_lock_digest = 0, rs_ciphertext_hash = 0, rs_index = 1, rs_share = [] \<rparr>"

definition zero_share_bytes :: "byte list" where
  "zero_share_bytes = [1] @ to_le_bytes (1 :: u64) @ arr_bytes (6 :: pubkey) @ replicate 68 0"

definition zero_payload :: settlement_payload where
  "zero_payload = \<lparr> sp_epoch_account = 0, sp_lock_digest = 0,
     sp_result_commitment = 0, sp_residual_side = 0, sp_residual_lots = 0, sp_base_lot_atoms = 0, sp_quote_atoms_per_lot = 0,
     sp_base_mint = 0, sp_quote_mint = 0, sp_pool_base_vault = 0, sp_pool_quote_vault = 0, sp_venue_base_account = 0,
     sp_venue_quote_account = 0, sp_venue_authority = 0, sp_settlement_nonce = 0 \<rparr>"

definition zero_settlement :: settlement_approval where
  "zero_settlement = \<lparr> sa_keyper_key = 32, sa_payload = zero_payload, sa_digest = 0, sa_signature = 0 \<rparr>"

definition zero_request :: settlement_request where
  "zero_request = \<lparr> sq_package = demo_package, sq_decryption_evidence = [], sq_post_balances = [], sq_pre_balance_root = 0,
     sq_post_balance_root = 0, sq_residual = Residual_none, sq_result_root = 0, sq_result_commitment = 0, sq_settlement_nonce = 0,
     sq_settlement_digest = 0 \<rparr>"

definition scripted_host :: keyper_host where
  "scripted_host = \<lparr> kh_executable = [], kh_directory = [], kh_metadata = Some private_directory,
     kh_child = (\<lambda>operation _. answer
       (if operation = ascii ''sign-lock'' then sign_lock_response zero_approval
        else if operation = ascii ''release-share'' then zero_share_bytes
        else approval_encode_wire zero_settlement)) \<rparr>"

lemma zero_bytes [simp]:
  "arr_bytes (0 :: bytes32) = replicate 32 0" "arr_bytes (0 :: bytes64) = replicate 64 0" "to_le_bytes (0 :: u64) = replicate 8 0"
  "to_le_bytes (0 :: u32) = replicate 4 0"
  by code_simp+

lemma small_bytes: "255 \<notin> set (arr_bytes (6 :: bytes32))" "255 \<notin> set (arr_bytes (32 :: bytes32))" "255 \<notin> set (to_le_bytes (1 :: u64))"
  by code_simp+

lemma zero_outputs:
  "255 \<notin> set (sign_lock_response zero_approval)" "255 \<notin> set zero_share_bytes" "255 \<notin> set (approval_encode_wire zero_settlement)"
  by (simp_all add: sign_lock_response_eq zero_approval_def zero_share_bytes_def approval_encode_wire_def zero_settlement_def
      settlement_payload_encode_eq zero_payload_def small_bytes)

lemma answer_clean:
  assumes "kh_child host operation request = answer bytes" "kh_executable host = []" "kh_directory host = []"
    and "255 \<notin> set operation" "255 \<notin> set bytes"
  shows "run_one_shot host operation request demo_secret_bytes = Inr \<lparr> co_success = True, co_stdout = bytes, co_stderr = [] \<rparr>"
  using assms by (auto simp: run_one_shot_Inr answer_def leaks_def not_secret)

lemma gate_libraries: "ed25519_correct gate_suite" "keys_roundtrip gate_suite" "shares_roundtrip gate_suite"
  by (simp_all add: ed25519_correct_def keys_roundtrip_def shares_roundtrip_def) (simp_all add: gate_suite_def demo_suite_def)

lemma demo_package_ok: "package_ok gate_suite demo_package"
  by (rule validated_package_ok [OF demo_open_validates])
    (simp_all add: demo_package_def demo_records_def demo_balance_def balance_valid_def, simp_all add: gate_suite_def demo_suite_def)

lemma zero_encodes: "\<exists>bs. package_encode_wire zero_suite demo_package = Inr bs \<and> length bs \<le> 49788"
proof -
  from demo_package_encodes obtain bs where b: "package_encode_wire gate_suite demo_package = Inr bs" by blast
  have k: "keys_encode_wire zero_suite = keys_encode_wire gate_suite"
    by (simp add: fun_eq_iff keys_encode_wire_def zero_suite_def gate_suite_def demo_suite_def)
  have "package_encode_wire zero_suite demo_package = Inr bs" unfolding b [symmetric] package_encode_wire_def k ..
  then show ?thesis using package_fits [OF demo_package_ok b] by blast
qed

lemma scripted_sign_lock: "run_keyper_sign_lock zero_suite demo_library scripted_host demo_secret 32 demo_package = Inr zero_approval"
proof -
  from zero_encodes obtain bs where b: "package_encode_wire zero_suite demo_package = Inr bs" "length bs \<le> 49788" by blast
  have shot: "run_one_shot scripted_host (ascii ''sign-lock'') request demo_secret_bytes =
      Inr \<lparr> co_success = True, co_stdout = sign_lock_response zero_approval, co_stderr = [] \<rparr>" for request
    by (rule answer_clean) (simp_all add: scripted_host_def zero_outputs, simp_all add: ascii_def)
  have f: "la_keyper_key zero_approval = 32" "la_digest zero_approval = package_digest zero_suite demo_package" "lock_approval_verify zero_suite zero_approval"
    "verify_private_directory (kh_metadata scripted_host) = Inr ()"
    by (simp_all add: zero_approval_def lock_payload_digest_def domain_hash_def zero_suite_def lock_approval_verify_def demo_suite_def
        scripted_host_def private_directory_ok)
  show ?thesis
    unfolding run_keyper_sign_lock_Inr
    by (intro conjI exI [of _ bs] exI [of _ "of_nat (length bs) :: u32"] exI [of _ demo_bound] exI [of _ demo_secret_bytes]
        exI [of _ "\<lparr> co_success = True, co_stdout = sign_lock_response zero_approval, co_stderr = [] \<rparr>"])
      (use b in \<open>simp_all add: f shot demo_bound_share u32_try_from_def, simp_all add: demo_bound_def keyper_lens\<close>)
qed

lemma scripted_release: "run_keyper_release_share zero_suite demo_library scripted_host demo_secret demo_package 0 = Inr zero_share"
proof -
  from zero_encodes obtain bs where b: "package_encode_wire zero_suite demo_package = Inr bs" "length bs \<le> 49788" by blast
  have shot: "run_one_shot scripted_host (ascii ''release-share'') request demo_secret_bytes =
      Inr \<lparr> co_success = True, co_stdout = zero_share_bytes, co_stderr = [] \<rparr>" for request
    by (rule answer_clean) (simp_all add: scripted_host_def zero_outputs, simp_all add: ascii_def)
  have "released_share_encode zero_suite zero_share = Inr zero_share_bytes"
    by (simp add: released_share_encode_def zero_share_def zero_share_bytes_def u32_try_from_def)
      (simp add: zero_suite_def demo_suite_def u32_try_from_def flip: replicate_add)
  then have d: "released_share_decode zero_suite zero_share_bytes = Inr zero_share"
    by (intro released_share_roundtrip) (simp_all add: shares_roundtrip_def zero_share_def, simp add: zero_suite_def demo_suite_def)
  have v: "released_share_verify zero_suite zero_share (pk_epoch_public_keys demo_package) (pk_submissions demo_package ! 0)"
    by (simp add: released_share_verify_def demo_package_def demo_members_def decode_ciphertext_def length_demo_ciphertext)
      (simp add: zero_suite_def demo_suite_def zero_share_def)
  have f: "rs_index zero_share = ks_index demo_secret" "rs_epoch_account zero_share = pk_epoch_account demo_package"
    "rs_lock_digest zero_share = package_digest zero_suite demo_package" "0 < length (pk_submissions demo_package)"
    "verify_private_directory (kh_metadata scripted_host) = Inr ()"
    by (simp_all add: zero_share_def demo_secret_def demo_package_def demo_members_def lock_payload_digest_def domain_hash_def zero_suite_def
        scripted_host_def private_directory_ok)
  show ?thesis
    unfolding run_keyper_release_share_Inr
    by (intro conjI exI [of _ bs] exI [of _ "of_nat (length bs) :: u32"] exI [of _ "0 :: u32"] exI [of _ demo_bound]
        exI [of _ demo_secret_bytes] exI [of _ "\<lparr> co_success = True, co_stdout = zero_share_bytes, co_stderr = [] \<rparr>"])
      (use b v f(4) in \<open>simp_all add: f d shot demo_bound_share u32_try_from_def, simp_all add: demo_bound_def keyper_lens\<close>)
qed

lemma scripted_settlement:
  "run_keyper_sign_settlement zero_suite demo_library scripted_host demo_secret 32 zero_request = Inr zero_settlement"
proof -
  from zero_encodes obtain bs where b: "package_encode_wire zero_suite demo_package = Inr bs" "length bs \<le> 49788" by blast
  have shot: "run_one_shot scripted_host (ascii ''sign-settlement'') request demo_secret_bytes =
      Inr \<lparr> co_success = True, co_stdout = approval_encode_wire zero_settlement, co_stderr = [] \<rparr>" for request
    by (rule answer_clean) (simp_all add: scripted_host_def zero_outputs, simp_all add: ascii_def)
  obtain qs where q: "request_encode_wire zero_suite zero_request = Inr qs" "length qs \<le> 50000"
    using b by (auto simp: request_encode_wire_def zero_request_def u32_try_from_def case_prod_beta)
  have f: "sa_keyper_key zero_settlement = 32" "sa_digest zero_settlement = sq_settlement_digest zero_request"
    "settlement_approval_verify zero_suite zero_settlement" "ks_index demo_secret < 3"
    "verify_private_directory (kh_metadata scripted_host) = Inr ()"
    by (simp_all add: zero_settlement_def zero_request_def settlement_approval_verify_def settlement_payload_digest_def domain_hash_def
        zero_suite_def demo_suite_def demo_secret_def scripted_host_def private_directory_ok)
  show ?thesis
    unfolding run_keyper_sign_settlement_Inr
    by (intro conjI exI [of _ qs] exI [of _ demo_bound] exI [of _ demo_secret_bytes]
        exI [of _ "\<lparr> co_success = True, co_stdout = approval_encode_wire zero_settlement, co_stderr = [] \<rparr>"])
      (use q in \<open>simp_all add: f shot demo_bound_share approval_roundtrip, simp_all add: demo_bound_def keyper_lens\<close>)
qed

theorem parent_accepts_only_verified_witness:
  "lock_approval_verify zero_suite zero_approval \<and> rs_index zero_share = ks_index demo_secret \<and>
   settlement_approval_verify zero_suite zero_settlement \<and>
   secret_kept demo_library scripted_host demo_secret (ascii ''sign-lock'') \<and>
   secret_kept demo_library scripted_host demo_secret (ascii ''release-share'') \<and>
   secret_kept demo_library scripted_host demo_secret (ascii ''sign-settlement'')"
  using parent_accepts_only_verified [of zero_suite demo_library scripted_host demo_secret 32 demo_package zero_approval 0 zero_share
      zero_request zero_settlement] scripted_sign_lock scripted_release scripted_settlement by blast

section \<open>A child that leaks\<close>

definition leaking_output :: child_output where
  "leaking_output = \<lparr> co_success = True, co_stdout = sign_lock_response zero_approval, co_stderr = 7 # demo_secret_bytes \<rparr>"

definition leaking_host :: keyper_host where
  "leaking_host = scripted_host \<lparr> kh_child := (\<lambda>_ _. (Exited leaking_output, Some [])) \<rparr>"


section \<open>The keyper's own binary\<close>

definition private_file :: "u64 \<Rightarrow> metadata" where
  "private_file n = \<lparr> md_is_dir = False, md_is_file = True, md_is_symlink = False, md_len = n, md_mode = 384 \<rparr>"

definition demo_env :: keyper_env where
  "demo_env =
     \<lparr> ke_stdin = None, ke_stdout_ok = True, ke_url_metadata = Some (private_file 2), ke_url_text = Some [104, 10],
       ke_key_metadata = Some (private_file 32), ke_key_bytes = Some (arr_bytes (32 :: bytes32)), ke_current_dir = True,
       ke_node = (\<lambda>_. node gate_chain 55), ke_sysvars = demo_sysvars, ke_open_io = lock_no_faults, ke_sign_io = lock_no_faults \<rparr>"

definition demo_run :: "byte list \<Rightarrow> byte list \<Rightarrow> lock_files \<times> child_output option" where
  "demo_run operation request =
     keyper_main gate_suite demo_library (demo_env \<lparr> ke_stdin := Some request \<rparr>) operation (None, None)"

definition demo_host :: keyper_host where
  "demo_host = \<lparr> kh_executable = [], kh_directory = [], kh_metadata = Some private_directory,
     kh_child = (\<lambda>operation request. case snd (demo_run operation request) of
       None \<Rightarrow> (Not_spawned, None) | Some out \<Rightarrow> (Exited out, Some [])) \<rparr>"

lemma demo_reads: "read_keyper_attestation_key demo_env = Inr 32" "read_keyper_rpc_url demo_env = Inr [104]"
  by (simp_all add: read_keyper_attestation_key_def read_keyper_rpc_url_def demo_env_def private_file_def private_mode_def
      trim_def is_whitespace_def utf8_len_def)

lemma count_replicate: "count_list bs x = length bs \<Longrightarrow> bs = replicate (length bs) x"
proof (induction bs)
  case (Cons b bs)
  then show ?case using count_le_length [of bs x] by (cases "b = x") auto
qed simp

lemma tail_hash_small: "unat (tail_hash bs) \<le> 2 ^ 24"
proof -
  have b: "unat (b :: byte) < 256" for b using unsigned_less [of b, where ?'a = nat] by simp
  let ?n = "1 + unat (from_end 65 bs) + 256 * unat (from_end 33 bs) + 65536 * unat (from_end 17 bs)"
  have "unat (tail_hash bs) \<le> ?n" unfolding tail_hash_def unat_of_nat by (rule mod_less_eq_dividend)
  also have "\<dots> \<le> 2 ^ 24" using b [of "from_end 65 bs"] b [of "from_end 33 bs"] b [of "from_end 17 bs"] by simp
  finally show ?thesis .
qed

lemma tail_hash_not_secret: "arr_bytes (tail_hash bs) \<noteq> demo_secret_bytes"
proof
  assume "arr_bytes (tail_hash bs) = demo_secret_bytes"
  then have "tail_hash bs = arr_of demo_secret_bytes" using arr_of_arr_bytes [of "tail_hash bs"] by simp
  then have "unat (tail_hash bs) = be_val demo_secret_bytes" by (simp add: unat_arr_of)
  moreover have "2 ^ 25 \<le> be_val demo_secret_bytes"
  proof -
    have "demo_secret_bytes = 255 # replicate 31 255" by (simp flip: replicate_Suc)
    then show ?thesis by simp
  qed
  ultimately have "(2 :: nat) ^ 25 \<le> 2 ^ 24" using tail_hash_small [of bs] by (metis order_trans)
  then show False by simp
qed

lemma approval_keeps_secret:
  assumes "la_keyper_key a = 32" "la_signature a = 0" "la_digest a = tail_hash bs"
  shows "\<not> sublist demo_secret_bytes (sign_lock_response a)"
proof
  assume "sublist demo_secret_bytes (sign_lock_response a)"
  then obtain ps ss where "sign_lock_response a = ps @ demo_secret_bytes @ ss" by (auto simp: sublist_def)
  moreover have "count_list demo_secret_bytes 255 = 32" by code_simp
  ultimately have "32 \<le> count_list (sign_lock_response a) 255" by (simp add: count_list_append)
  moreover have "count_list (arr_bytes (32 :: bytes32)) 255 = 0" using small_bytes(2) by (simp add: count_list_0_iff)
  ultimately have "32 \<le> count_list (arr_bytes (tail_hash bs)) 255"
    using assms by (simp add: sign_lock_response_eq count_list_append)
  then have "count_list (arr_bytes (tail_hash bs)) 255 = length (arr_bytes (tail_hash bs))"
    using count_le_length [of "arr_bytes (tail_hash bs)" 255] by simp
  from count_replicate [OF this] show False using tail_hash_not_secret by simp
qed

lemma demo_child:
  assumes "package_encode_wire gate_suite demo_package = Inr bs"
    and "request = demo_bound @ to_le_bytes (of_nat (length bs) :: u32) @ bs"
  shows "\<exists>files a. demo_run (ascii ''sign-lock'') request =
      (files, Some \<lparr> co_success = True, co_stdout = sign_lock_response a, co_stderr = [] \<rparr>) \<and>
    la_keyper_key a = 32 \<and> la_digest a = demo_digest \<and> la_signature a = 0 \<and> lock_approval_verify gate_suite a"
proof -
  let ?open = "demo_confirmed 4 50 60 55" and ?k = "\<lparr> rk_index = 1, rk_signing_key = 32, rk_journal = [] \<rparr>"
  let ?env = "demo_env \<lparr> ke_stdin := Some request \<rparr>" and ?a = "\<lparr> la_keyper_key = 32, la_digest = demo_digest, la_signature = 0 \<rparr>"
  have des: "deserialize_secret demo_library demo_secret_bytes = Some (ks_secret demo_secret)"
    by (simp add: demo_library_def demo_secret_def)
  from open_no_faults [of tail_hash] obtain jf mf where
    o: "lock_journal_open tail_hash lock_no_faults (None, None) = ((jf, mf), Inr [])" "lock_holds tail_hash jf []" by blast
  have valid: "package_validate gate_suite demo_package ?open = Inr demo_digest" by (rule demo_validates) (simp_all add: word_sless_alt)
  from record_no_faults [OF o(2), of 6 demo_digest "[]"] obtain jf' m' where
    r: "lock_journal_record tail_hash lock_no_faults 6 demo_digest (jf, []) = ((jf', m'), Inr ())" by (auto simp: bt.get_empty)
  have k: "keyper_at (ec_keypers (oe_configuration ?open)) (Suc 0) = Some 32" "matches_share gate_suite [] demo_secret" "sign gate_suite 32 m = 0"
    "pk_epoch_account demo_package = 6" "pk_epoch_public_keys demo_package = []" "ks_index demo_secret = 1" "ks_epoch_account demo_secret = 6" for m
    by (simp_all add: keyper_at_def demo_confirmed_def demo_configuration_def matches_share_def gate_suite_def demo_suite_def
        demo_package_def demo_secret_def)
  have signed: "sign_lock gate_suite lock_no_faults demo_package ?open demo_secret (jf, ?k) = ((jf', ?k \<lparr> rk_journal := m' \<rparr>), Inr ?a)"
    using valid r by (simp add: sign_lock_def k)
  have "sign_lock_request gate_suite demo_library ?env = Inr (demo_secret, demo_package, 32, ?open)"
    unfolding assms(2) sign_lock_request_framed [OF gate_libraries(2) demo_package_ok assms(1) demo_bound_share des]
    using gate_opens by (simp add: demo_reads k) (simp add: demo_env_def)
  moreover have "open_keyper_journal gate_suite ?env (None, None) = ((jf, mf), Inr [])"
    using o(1) by (simp add: open_keyper_journal_def demo_env_def)
  ultimately have "handle_keyper_sign_lock gate_suite demo_library ?env (None, None) = ((jf', mf), Inr (sign_lock_response ?a))"
    unfolding handle_keyper_sign_lock_Inr using signed k(6) by (auto simp: demo_env_def)
  then have "demo_run (ascii ''sign-lock'') request =
      ((jf', mf), Some \<lparr> co_success = True, co_stdout = sign_lock_response ?a, co_stderr = [] \<rparr>)"
    unfolding demo_run_def keyper_main_sign_lock by (auto simp: exit_with_def)
  moreover have "lock_approval_verify gate_suite ?a" by (simp add: lock_approval_verify_def)
  ultimately show ?thesis by fastforce
qed

theorem keyper_process_signs_witness:
  "\<exists>request a m. run_keyper_sign_lock gate_suite demo_library demo_host demo_secret 32 demo_package = Inr a \<and>
     lock_holds tail_hash (fst (fst (demo_run (ascii ''sign-lock'') request))) m \<and> bt_get m 6 = Some demo_digest"
proof -
  from demo_package_encodes obtain bs where b: "package_encode_wire gate_suite demo_package = Inr bs" by blast
  define request where "request = demo_bound @ to_le_bytes (of_nat (length bs) :: u32) @ bs"
  from demo_child [OF b request_def] obtain files a where run: "demo_run (ascii ''sign-lock'') request =
      (files, Some \<lparr> co_success = True, co_stdout = sign_lock_response a, co_stderr = [] \<rparr>)" (is "_ = (files, Some ?out)")
    and a: "la_keyper_key a = 32" "la_digest a = demo_digest" "la_signature a = 0" "lock_approval_verify gate_suite a" by blast
  have dir: "verify_private_directory (kh_metadata demo_host) = Inr ()" by (simp add: demo_host_def private_directory_ok)
  have des: "deserialize_secret demo_library demo_secret_bytes = Some (ks_secret demo_secret)"
    by (simp add: demo_library_def demo_secret_def)
  have child: "kh_child demo_host (ascii ''sign-lock'') request = (Exited ?out, Some [])" by (simp add: demo_host_def run)
  have "\<not> sublist demo_secret_bytes (sign_lock_response a)"
    by (rule approval_keeps_secret [OF a(1,3)]) (simp add: a(2) lock_payload_digest_def domain_hash_def)
  moreover have "255 \<notin> set (ascii ''sign-lock'')" by (simp add: ascii_def)
  ultimately have clean: "\<not> leaks demo_host (ascii ''sign-lock'') ?out [] demo_secret_bytes"
    using not_secret by (simp add: leaks_def demo_host_def)
  have held: "run_keyper_sign_lock gate_suite demo_library demo_host demo_secret 32 demo_package = Inr a"
    by (rule run_keyper_sign_lockI [OF dir a(1) _ a(4) demo_package_ok b demo_bound_share])
      (use a(2) child clean in \<open>simp_all add: run_one_shot_Inr flip: request_def\<close>)
  with keyper_process_signs [OF gate_libraries(1,2) demo_package_ok b dir demo_bound_share des request_def run [unfolded demo_run_def] child _ clean, of 32 a]
  have "\<exists>m. lock_holds (hash256 gate_suite) (fst files) m \<and> bt_get m (pk_epoch_account demo_package) = Some (package_digest gate_suite demo_package)"
    by simp
  then obtain m where "lock_holds tail_hash (fst files) m" "bt_get m 6 = Some demo_digest" by (auto simp: demo_package_def)
  with held run show ?thesis by (metis fst_conv)
qed

end
