(* ===== verification/Public_Text.thy ===== *)
theory Public_Text
  imports Kageb_Codec
begin

text \<open>
  Text of the public artifacts: the standard library's hexadecimal and decimal formatting and the parsing of
  decimal numbers. A \<open>String\<close> is the list of its UTF-8 bytes.
\<close>

type_synonym utf8 = "byte list"

section \<open>Hexadecimal\<close>

definition hex_digit :: "byte \<Rightarrow> byte" where
  "hex_digit n = (if n < 10 then n + 48 else n + 87)"

text \<open>\<open>{byte:02x}\<close>\<close>

definition hex_byte :: "byte \<Rightarrow> utf8" where
  "hex_byte b = [hex_digit (b div 16), hex_digit (b mod 16)]"

definition hex_bytes :: "byte list \<Rightarrow> utf8" where
  "hex_bytes bytes = concat (map hex_byte bytes)"

lemma length_hex_bytes [simp]: "length (hex_bytes bytes) = 2 * length bytes"
  by (induction bytes) (simp_all add: hex_bytes_def hex_byte_def)

lemma hex_bytes_simps [simp]: "hex_bytes [] = []" "hex_bytes (b # bs) = hex_byte b @ hex_bytes bs"
  by (simp_all add: hex_bytes_def)

section \<open>Decimal\<close>

fun decimal :: "nat \<Rightarrow> utf8" where
  "decimal n = (if n < 10 then [of_nat (48 + n)] else decimal (n div 10) @ [of_nat (48 + n mod 10)])"

declare decimal.simps [simp del]

definition is_ascii_digit :: "byte \<Rightarrow> bool" where
  "is_ascii_digit b \<longleftrightarrow> 48 \<le> b \<and> b \<le> 57"

definition decimal_value :: "utf8 \<Rightarrow> nat" where
  "decimal_value ds = foldl (\<lambda>n d. 10 * n + (unat d - 48)) 0 ds"

text \<open>\<open>str::parse::<u64>\<close>: an optional plus sign, at least one digit, and no overflow.\<close>

definition parse_u64 :: "utf8 \<Rightarrow> u64 option" where
  "parse_u64 s =
     (let digits = (if s \<noteq> [] \<and> hd s = 43 then tl s else s) in
      if digits = [] \<or> \<not> list_all is_ascii_digit digits \<or> 2 ^ 64 \<le> decimal_value digits then None
      else Some (of_nat (decimal_value digits)))"

lemma decimal_value_append: "decimal_value (ds @ [d]) = 10 * decimal_value ds + (unat d - 48)"
  by (simp add: decimal_value_def)

lemma unat_digit: "n < 10 \<Longrightarrow> unat (of_nat (48 + n) :: byte) = 48 + n"
  by (simp only: unat_of_nat) simp

lemma ascii_digit: "n < 10 \<Longrightarrow> is_ascii_digit (of_nat (48 + n))"
  unfolding is_ascii_digit_def word_le_nat_alt by (simp only: unat_digit) simp

lemma decimal_digits: "decimal n \<noteq> [] \<and> list_all is_ascii_digit (decimal n) \<and> decimal_value (decimal n) = n"
proof (induction n rule: decimal.induct)
  case (1 n)
  show ?case
  proof (cases "n < 10")
    case True
    then show ?thesis
      using ascii_digit [of n] unat_digit [of n] by (simp add: decimal.simps [of n] decimal_value_def del: of_nat_add)
  next
    case False
    then show ?thesis
      using 1 ascii_digit [of "n mod 10"] unat_digit [of "n mod 10"]
      by (simp add: decimal.simps [of n] decimal_value_append del: of_nat_add)
  qed
qed

lemma parse_decimal: "n < 2 ^ 64 \<Longrightarrow> parse_u64 (decimal n) = Some (of_nat n)"
proof -
  assume n: "n < 2 ^ 64"
  have d: "decimal n \<noteq> []" "list_all is_ascii_digit (decimal n)" "decimal_value (decimal n) = n"
    using decimal_digits [of n] by auto
  then have "hd (decimal n) \<noteq> 43" by (cases "decimal n") (auto simp: is_ascii_digit_def word_le_nat_alt)
  with d n show ?thesis by (simp add: parse_u64_def)
qed

end
