(* ===== verification/Observer.thy ===== *)
theory Observer
  imports Public_Text Ed25519 Ledger
begin

text \<open>
  \<open>kageb-host/src/observer.rs\<close>: what an observer of the public chain decodes from the confirmed lock and
  settlement transactions of an epoch, or from the transfers of wallets that trade directly. The RPC client's
  types are the records below. A transaction carries the value of its \<open>decode()\<close>. Base-58 decoding
  and the token program's \<open>TokenInstruction::unpack\<close> are the parameter \<open>token_library\<close>.
\<close>

section \<open>Confirmed transactions\<close>

datatype 'a option_serializer = OS_Some 'a | OS_None | OS_Skip

record compiled_instruction =
  ci_program_id_index :: u8
  ci_accounts :: "u8 list"
  ci_data :: "byte list"

record ui_compiled_instruction =
  uc_program_id_index :: u8
  uc_accounts :: "u8 list"
  uc_data :: utf8

datatype ui_instruction = UI_Compiled ui_compiled_instruction | UI_Parsed

record ui_inner_instructions =
  ui_index :: u8
  ui_instructions :: "ui_instruction list"

record ui_token_balance =
  tb_account_index :: u8
  tb_mint :: utf8
  tb_amount :: utf8
  tb_decimals :: u8
  tb_owner :: "utf8 option_serializer"
  tb_program_id :: "utf8 option_serializer"

record versioned_transaction =
  vt_signatures :: "bytes64 list"
  vt_num_required_signatures :: u8
  vt_keys :: "pubkey list"
  vt_instructions :: "compiled_instruction list"

record transaction_meta =
  tm_err :: bool
  tm_status_err :: bool
  tm_inner :: "ui_inner_instructions list option_serializer"
  tm_pre_token_balances :: "ui_token_balance list option_serializer"
  tm_post_token_balances :: "ui_token_balance list option_serializer"

record confirmed_transaction =
  ct_slot :: u64
  ct_meta :: "transaction_meta option"
  ct_decoded :: "versioned_transaction option"

datatype token_instruction = TransferChecked u64 u8 | Other_token_instruction

record token_library =
  tl_bs58_decode :: "utf8 \<Rightarrow> byte list option"
  tl_unpack :: "byte list \<Rightarrow> token_instruction option"

section \<open>Types of the observer\<close>

record kageb_observer_accounts =
  oa_fee_payer :: pubkey
  oa_payer :: pubkey
  oa_pool :: pubkey
  oa_epoch :: pubkey
  oa_vault_authority :: pubkey
  oa_pool_base_vault :: pubkey
  oa_pool_quote_vault :: pubkey
  oa_venue_authority :: pubkey
  oa_venue_base_account :: pubkey
  oa_venue_quote_account :: pubkey
  oa_base_mint :: pubkey
  oa_quote_mint :: pubkey
  oa_base_lot_atoms :: u64
  oa_quote_atoms_per_lot :: u64

record direct_market_accounts =
  dm_fee_payer :: pubkey
  dm_base_mint :: pubkey
  dm_quote_mint :: pubkey
  dm_venue_base_account :: pubkey
  dm_venue_quote_account :: pubkey
  dm_base_lot_atoms :: u64
  dm_quote_atoms_per_lot :: u64

datatype observer_error =
    FailedTransaction
  | InvalidEncoding
  | UnexpectedInstruction
  | UnexpectedAccount
  | UnexpectedTokenEffect
  | InvalidResidual

record direct_order =
  do_wallet :: bytes32
  do_side :: side

definition one_lot :: "bytes32 \<Rightarrow> side \<Rightarrow> direct_order" where
  "one_lot wallet side = \<lparr> do_wallet = wallet, do_side = side \<rparr>"

datatype public_action =
    is_Individual: Individual (pa_wallet: bytes32) (pa_side: side) (pa_lots: u32)
  | is_Aggregate: Aggregate (pa_pool: bytes32) (pa_venue: bytes32) (pa_residual: residual) (pa_member_root: bytes32)
      (pa_result_commitment: bytes32) (pa_keyper_approvals: u8)

record public_trace =
  pt_actions :: "public_action list"

section \<open>Traces built from orders\<close>

definition direct :: "direct_order list \<Rightarrow> public_trace" where
  "direct orders = \<lparr> pt_actions = map (\<lambda>order. Individual (do_wallet order) (do_side order) 1) orders \<rparr>"

definition pooled :: "bytes32 \<Rightarrow> bytes32 \<Rightarrow> residual \<Rightarrow> bytes32 \<Rightarrow> bytes32 \<Rightarrow> public_trace" where
  "pooled pool venue residual member_root result_root =
     \<lparr> pt_actions = [Aggregate pool venue residual member_root result_root 0] \<rparr>"

section \<open>Decoding a confirmed transaction\<close>

record decoded_confirmed =
  dc_keys :: "pubkey list"
  dc_instructions :: "compiled_instruction list"
  dc_inner :: "ui_inner_instructions list"

definition decode_confirmed :: "confirmed_transaction \<Rightarrow> observer_error + decoded_confirmed" where
  "decode_confirmed confirmed =
     try_bind (ok_or (ct_meta confirmed) FailedTransaction) (\<lambda>meta.
     if tm_err meta \<or> tm_status_err meta then Inl FailedTransaction
     else
     try_bind (ok_or (ct_decoded confirmed) InvalidEncoding) (\<lambda>transaction.
     let inner = (case tm_inner meta of OS_Some inner \<Rightarrow> inner | OS_None \<Rightarrow> [] | OS_Skip \<Rightarrow> []) in
     Inr \<lparr> dc_keys = vt_keys transaction,
           dc_instructions = vt_instructions transaction,
           dc_inner = inner \<rparr>))"

text \<open>\<open>slice::get\<close>\<close>

definition key_at :: "pubkey list \<Rightarrow> u8 \<Rightarrow> pubkey option" where
  "key_at keys index = (if unat index < length keys then Some (keys ! unat index) else None)"

text \<open>The loop of \<open>exact_kageb_instruction\<close> over the instructions with their positions.\<close>

fun exact_loop ::
    "runtime \<Rightarrow> pubkey list \<Rightarrow> u8 \<Rightarrow> nat \<Rightarrow> compiled_instruction option \<Rightarrow> u8 \<Rightarrow>
     compiled_instruction list \<Rightarrow> observer_error + (compiled_instruction option \<times> u8)" where
  "exact_loop rt keys discriminator index found approvals [] = Inr (found, approvals)"
| "exact_loop rt keys discriminator index found approvals (instr # rest) =
     try_bind (ok_or (key_at keys (ci_program_id_index instr)) UnexpectedInstruction) (\<lambda>program.
     if program = rt_ed25519_program rt then
       if found \<noteq> None \<or> ci_accounts instr \<noteq> [] then Inl UnexpectedInstruction
       else
       try_bind (map_err (\<lambda>_. UnexpectedInstruction) (parse_strict_ed25519 rt
         \<lparr> ix_program_id = program, ix_accounts = [], ix_data = ci_data instr \<rparr>)) (\<lambda>_.
       try_bind (ok_or (checked_add approvals 1) UnexpectedInstruction) (\<lambda>approvals.
       exact_loop rt keys discriminator (index + 1) found approvals rest))
     else if program = ID then
       if found \<noteq> None \<or> ci_data instr = [] \<or> hd (ci_data instr) \<noteq> discriminator
          \<or> index \<noteq> unat approvals
       then Inl UnexpectedInstruction
       else exact_loop rt keys discriminator (index + 1) (Some instr) approvals rest
     else Inl UnexpectedInstruction)"

definition exact_kageb_instruction ::
    "runtime \<Rightarrow> decoded_confirmed \<Rightarrow> u8 \<Rightarrow> observer_error + (compiled_instruction \<times> u8)" where
  "exact_kageb_instruction rt transaction discriminator =
     try_bind (exact_loop rt (dc_keys transaction) discriminator 0 None 0 (dc_instructions transaction))
       (\<lambda>(found, approvals).
     try_bind (ok_or found UnexpectedInstruction) (\<lambda>found.
     Inr (found, approvals)))"

definition require_accounts :: "pubkey list \<Rightarrow> u8 list \<Rightarrow> pubkey list \<Rightarrow> observer_error + unit" where
  "require_accounts keys indexes expected =
     (if length indexes \<noteq> length expected
         \<or> list_ex (\<lambda>(index, expected). key_at keys index \<noteq> Some expected) (zip indexes expected)
      then Inl UnexpectedAccount
      else Inr ())"

definition require_exact_keys :: "pubkey list \<Rightarrow> pubkey list \<Rightarrow> observer_error + unit" where
  "require_exact_keys keys expected =
     (let unique_expected =
        length (filter (\<lambda>(index, key). key \<notin> set (take index expected)) (enumerate 0 expected)) in
      if length keys \<noteq> unique_expected
         \<or> list_ex (\<lambda>key. key \<notin> set expected) keys
         \<or> list_ex (\<lambda>key. key \<notin> set keys) expected
      then Inl UnexpectedAccount
      else Inr ())"

definition require_fee_payer :: "pubkey list \<Rightarrow> pubkey \<Rightarrow> observer_error + unit" where
  "require_fee_payer keys expected =
     (if keys = [] \<or> hd keys \<noteq> expected then Inl UnexpectedAccount else Inr ())"

definition account_at :: "pubkey list \<Rightarrow> u8 \<Rightarrow> observer_error + pubkey" where
  "account_at keys index = ok_or (key_at keys index) UnexpectedAccount"

section \<open>Token effects of a settlement\<close>

definition residual_lots_u64 :: "residual \<Rightarrow> u64" where
  "residual_lots_u64 residual =
     (case residual of Residual_none \<Rightarrow> 0 | Residual_buy lots \<Rightarrow> ucast lots | Residual_sell lots \<Rightarrow> ucast lots)"

text \<open>The vector \<open>expected\<close> of \<open>validate_settlement_token_effects\<close>.\<close>

definition expected_transfers ::
    "kageb_observer_accounts \<Rightarrow> residual \<Rightarrow> u64 \<Rightarrow> u64 \<Rightarrow> (pubkey list \<times> u64) list" where
  "expected_transfers accounts residual base_amount quote_amount =
     (case residual of
        Residual_none \<Rightarrow> []
      | Residual_buy _ \<Rightarrow>
          [([oa_pool_quote_vault accounts, oa_quote_mint accounts, oa_venue_quote_account accounts,
             oa_vault_authority accounts], quote_amount),
           ([oa_venue_base_account accounts, oa_base_mint accounts, oa_pool_base_vault accounts,
             oa_venue_authority accounts], base_amount)]
      | Residual_sell _ \<Rightarrow>
          [([oa_pool_base_vault accounts, oa_base_mint accounts, oa_venue_base_account accounts,
             oa_vault_authority accounts], base_amount),
           ([oa_venue_quote_account accounts, oa_quote_mint accounts, oa_pool_quote_vault accounts,
             oa_venue_authority accounts], quote_amount)])"

definition validate_transfer ::
    "token_library \<Rightarrow> pubkey list \<Rightarrow> ui_instruction \<times> pubkey list \<times> u64 \<Rightarrow> observer_error + unit" where
  "validate_transfer lib keys =
     (\<lambda>(instr, expected_accounts, expected_amount).
      case instr of
        UI_Parsed \<Rightarrow> Inl UnexpectedTokenEffect
      | UI_Compiled instr \<Rightarrow>
          if key_at keys (uc_program_id_index instr) \<noteq> Some TOKEN_PROGRAM_ID then Inl UnexpectedTokenEffect
          else
          try_bind (require_accounts keys (uc_accounts instr) expected_accounts) (\<lambda>_.
          try_bind (ok_or (tl_bs58_decode lib (uc_data instr)) UnexpectedTokenEffect) (\<lambda>data.
          try_bind (ok_or (tl_unpack lib data) UnexpectedTokenEffect) (\<lambda>token.
          case token of
            TransferChecked amount decimals \<Rightarrow>
              if decimals = 0 \<and> amount = expected_amount then Inr () else Inl UnexpectedTokenEffect
          | Other_token_instruction \<Rightarrow> Inl UnexpectedTokenEffect))))"

definition validate_settlement_token_effects ::
    "token_library \<Rightarrow> ui_inner_instructions list \<Rightarrow> pubkey list \<Rightarrow> u8 \<Rightarrow> kageb_observer_accounts \<Rightarrow>
     residual \<Rightarrow> observer_error + unit" where
  "validate_settlement_token_effects lib inner keys settlement_index accounts residual =
     (let lots = residual_lots_u64 residual in
      try_bind (ok_or (checked_mul (oa_base_lot_atoms accounts) lots) UnexpectedTokenEffect) (\<lambda>base_amount.
      try_bind (ok_or (checked_mul (oa_quote_atoms_per_lot accounts) lots) UnexpectedTokenEffect) (\<lambda>quote_amount.
      let expected = expected_transfers accounts residual base_amount quote_amount in
      if inner = [] \<and> expected = [] then Inr ()
      else
      try_bind (case inner of
          [grp] \<Rightarrow>
            if ui_index grp = settlement_index then Inr (ui_instructions grp) else Inl UnexpectedTokenEffect
        | _ \<Rightarrow> Inl UnexpectedTokenEffect) (\<lambda>instructions.
      if length instructions \<noteq> length expected then Inl UnexpectedTokenEffect
      else try_all (validate_transfer lib keys) (zip instructions expected)))))"

section \<open>Traces decoded from the chain\<close>

definition observed_lock_keys :: "runtime \<Rightarrow> kageb_observer_accounts \<Rightarrow> pubkey list" where
  "observed_lock_keys rt accounts =
     [oa_fee_payer accounts, oa_payer accounts, oa_pool accounts, oa_epoch accounts, rt_instructions_id rt,
      rt_clock_id rt, rt_ed25519_program rt, ID]"

definition lock_accounts :: "runtime \<Rightarrow> kageb_observer_accounts \<Rightarrow> pubkey list" where
  "lock_accounts rt accounts =
     [oa_payer accounts, oa_pool accounts, oa_epoch accounts, rt_instructions_id rt, rt_clock_id rt]"

definition observed_settlement_keys :: "runtime \<Rightarrow> kageb_observer_accounts \<Rightarrow> pubkey list" where
  "observed_settlement_keys rt accounts =
     [oa_fee_payer accounts, oa_payer accounts, oa_pool accounts, oa_epoch accounts,
      oa_vault_authority accounts, oa_pool_base_vault accounts, oa_pool_quote_vault accounts,
      oa_venue_authority accounts, oa_venue_base_account accounts, oa_venue_quote_account accounts,
      oa_base_mint accounts, oa_quote_mint accounts, TOKEN_PROGRAM_ID, rt_instructions_id rt, rt_clock_id rt,
      rt_ed25519_program rt, ID]"

definition settlement_accounts :: "runtime \<Rightarrow> kageb_observer_accounts \<Rightarrow> pubkey list" where
  "settlement_accounts rt accounts =
     [oa_payer accounts, oa_pool accounts, oa_epoch accounts,
      oa_vault_authority accounts, oa_pool_base_vault accounts, oa_pool_quote_vault accounts,
      oa_venue_authority accounts, oa_venue_base_account accounts, oa_venue_quote_account accounts,
      oa_base_mint accounts, oa_quote_mint accounts, TOKEN_PROGRAM_ID, rt_instructions_id rt, rt_clock_id rt]"

definition from_confirmed_kageb ::
    "runtime \<Rightarrow> token_library \<Rightarrow> confirmed_transaction \<Rightarrow> confirmed_transaction \<Rightarrow> kageb_observer_accounts \<Rightarrow>
     observer_error + public_trace" where
  "from_confirmed_kageb rt lib lock settlement accounts =
     try_bind (decode_confirmed lock) (\<lambda>lock.
     try_bind (decode_confirmed settlement) (\<lambda>settlement.
     try_bind (require_fee_payer (dc_keys lock) (oa_fee_payer accounts)) (\<lambda>_.
     try_bind (require_fee_payer (dc_keys settlement) (oa_fee_payer accounts)) (\<lambda>_.
     try_bind (exact_kageb_instruction rt lock 2) (\<lambda>(lock_instruction, lock_approvals).
     try_bind (exact_kageb_instruction rt settlement 3) (\<lambda>(settlement_instruction, settlement_approvals).
     if lock_approvals \<noteq> 2 \<or> settlement_approvals \<noteq> 2 then Inl UnexpectedInstruction
     else
     try_bind (require_exact_keys (dc_keys lock) (observed_lock_keys rt accounts)) (\<lambda>_.
     try_bind (require_accounts (dc_keys lock) (ci_accounts lock_instruction) (lock_accounts rt accounts)) (\<lambda>_.
     try_bind (map_err (\<lambda>_. UnexpectedInstruction) (instruction_decode (ci_data lock_instruction))) (\<lambda>decoded.
     try_bind (case decoded of
         Lock payload \<Rightarrow>
           if lp_epoch_account payload = oa_epoch accounts \<and> 4 \<le> lp_member_count payload then Inr payload
           else Inl UnexpectedInstruction
       | _ \<Rightarrow> Inl UnexpectedInstruction) (\<lambda>lock_payload.
     try_bind (require_exact_keys (dc_keys settlement) (observed_settlement_keys rt accounts)) (\<lambda>_.
     try_bind (require_accounts (dc_keys settlement) (ci_accounts settlement_instruction)
       (settlement_accounts rt accounts)) (\<lambda>_.
     try_bind (map_err (\<lambda>_. UnexpectedInstruction) (instruction_decode (ci_data settlement_instruction)))
       (\<lambda>decoded.
     try_bind (case decoded of Settle payload \<Rightarrow> Inr payload | _ \<Rightarrow> Inl UnexpectedInstruction) (\<lambda>compact.
     try_bind (let side = cs_residual_side compact; lots = cs_residual_lots compact in
         if side = 0 \<and> lots = 0 then Inr Residual_none
         else if side = 1 \<and> 1 \<le> lots then Inr (Residual_buy lots)
         else if side = 2 \<and> 1 \<le> lots then Inr (Residual_sell lots)
         else Inl InvalidResidual) (\<lambda>residual.
     try_bind (validate_settlement_token_effects lib (dc_inner settlement) (dc_keys settlement) 2 accounts residual)
       (\<lambda>_.
     Inr \<lparr> pt_actions = [Aggregate (oa_pool accounts) (oa_venue_authority accounts) residual
       (lp_member_root lock_payload) (cs_result_commitment compact) settlement_approvals] \<rparr>))))))))))))))))"

definition direct_action ::
    "token_library \<Rightarrow> direct_market_accounts \<Rightarrow> confirmed_transaction \<Rightarrow> observer_error + public_action" where
  "direct_action lib market transaction =
     try_bind (decode_confirmed transaction) (\<lambda>transaction.
     try_bind (require_fee_payer (dc_keys transaction) (dm_fee_payer market)) (\<lambda>_.
     if dc_inner transaction \<noteq> [] \<or> length (dc_instructions transaction) \<noteq> 1
     then Inl UnexpectedInstruction
     else let instr = dc_instructions transaction ! 0 in
     if key_at (dc_keys transaction) (ci_program_id_index instr) \<noteq> Some TOKEN_PROGRAM_ID
        \<or> length (ci_accounts instr) \<noteq> 4
     then Inl UnexpectedInstruction
     else
     try_bind (account_at (dc_keys transaction) (ci_accounts instr ! 0)) (\<lambda>source.
     try_bind (account_at (dc_keys transaction) (ci_accounts instr ! 1)) (\<lambda>mint.
     try_bind (account_at (dc_keys transaction) (ci_accounts instr ! 2)) (\<lambda>destination.
     try_bind (account_at (dc_keys transaction) (ci_accounts instr ! 3)) (\<lambda>wallet.
     if source = destination \<or> wallet = destination then Inl UnexpectedAccount
     else
     try_bind (require_exact_keys (dc_keys transaction)
       [dm_fee_payer market, source, mint, destination, wallet, TOKEN_PROGRAM_ID]) (\<lambda>_.
     try_bind (ok_or (tl_unpack lib (ci_data instr)) UnexpectedTokenEffect) (\<lambda>token.
     try_bind (
       if mint = dm_base_mint market \<and> destination = dm_venue_base_account market
       then Inr (Sell, dm_base_lot_atoms market)
       else if mint = dm_quote_mint market \<and> destination = dm_venue_quote_account market
       then Inr (Buy, dm_quote_atoms_per_lot market)
       else Inl UnexpectedAccount) (\<lambda>(side, amount).
     if token = TransferChecked amount 0 then Inr (Individual wallet side 1)
     else Inl UnexpectedTokenEffect)))))))))"

definition from_confirmed_direct ::
    "token_library \<Rightarrow> confirmed_transaction list \<Rightarrow> direct_market_accounts \<Rightarrow> observer_error + public_trace" where
  "from_confirmed_direct lib transactions market =
     try_bind (try_map (direct_action lib market) transactions) (\<lambda>actions.
     Inr \<lparr> pt_actions = actions \<rparr>)"

section \<open>What a trace shows\<close>

definition visible_participant_wallets :: "public_trace \<Rightarrow> bytes32 list" where
  "visible_participant_wallets trace =
     List.map_filter (\<lambda>action. case action of Individual wallet _ _ \<Rightarrow> Some wallet | Aggregate _ _ _ _ _ _ \<Rightarrow> None)
       (pt_actions trace)"

definition individual_order_count :: "public_trace \<Rightarrow> nat" where
  "individual_order_count trace = length (filter is_Individual (pt_actions trace))"

definition aggregate_count :: "public_trace \<Rightarrow> nat" where
  "aggregate_count trace = length (filter is_Aggregate (pt_actions trace))"

definition residual_name :: "residual \<Rightarrow> utf8" where
  "residual_name residual =
     (case residual of
        Residual_none \<Rightarrow> ascii ''NO VENUE LEG''
      | Residual_buy lots \<Rightarrow> ascii ''BUY '' @ decimal (unat lots) @ ascii '' lots''
      | Residual_sell lots \<Rightarrow> ascii ''SELL '' @ decimal (unat lots) @ ascii '' lots'')"

definition side_name :: "side \<Rightarrow> utf8" where
  "side_name side = (case side of Buy \<Rightarrow> ascii ''BUY'' | Sell \<Rightarrow> ascii ''SELL'')"

definition short_key :: "bytes32 \<Rightarrow> utf8" where
  "short_key key =
     hex_byte (arr_bytes key ! 0) @ hex_byte (arr_bytes key ! 1) @ hex_byte (arr_bytes key ! 2) @
     hex_byte (arr_bytes key ! 3)"

definition render_action :: "public_action \<Rightarrow> utf8" where
  "render_action action =
     (case action of
        Individual wallet side lots \<Rightarrow>
          ascii ''wallet '' @ short_key wallet @ ascii '': '' @ side_name side @ ascii '' '' @
          decimal (unat lots) @ ascii '' lots''
      | Aggregate pool venue residual member_root result_commitment keyper_approvals \<Rightarrow>
          ascii ''pool aggregate: '' @ residual_name residual @ ascii '' | pool '' @ short_key pool @
          ascii '' | venue '' @ short_key venue @ ascii '' | member root '' @ short_key member_root @
          ascii '' | result commitment '' @ short_key result_commitment @
          ascii '' | keyper approvals '' @ decimal (unat keyper_approvals))"

text \<open>\<open>join\<close> of the standard library\<close>

fun join :: "utf8 \<Rightarrow> utf8 list \<Rightarrow> utf8" where
  "join separator [] = []"
| "join separator [s] = s"
| "join separator (s # rest) = s @ separator @ join separator rest"

definition render :: "public_trace \<Rightarrow> utf8" where
  "render trace = join [10] (map render_action (pt_actions trace))"
end
