(* ===== verification/Devnet_Evidence.thy ===== *)
theory Devnet_Evidence
  imports Observer State Crypto
begin

text \<open>
  \<open>kageb-host/src/evidence.rs\<close>, the public evidence of a run on devnet: its types, the content address,
  and the verifier that compares a bundle with a snapshot of the chain and with the built program. The libraries
  it calls (key and signature texts, JSON, the loader's \<open>bincode\<close>, the token program's account layouts)
  are the parameter \<open>evidence_library\<close>; hashing is that of the \<open>suite\<close>.
\<close>

unbundle bit_operations_syntax

section \<open>The bundle\<close>

type_synonym 'a four = "'a \<times> 'a \<times> 'a \<times> 'a"

fun four_list :: "'a four \<Rightarrow> 'a list" where
  "four_list (a, b, c, d) = [a, b, c, d]"

fun three_list :: "'a \<times> 'a \<times> 'a \<Rightarrow> 'a list" where
  "three_list (a, b, c) = [a, b, c]"

record evidence_build_toolchain =
  bt_solana_verify :: utf8
  bt_build_image :: utf8

record evidence_deployment =
  ed_program :: utf8
  ed_loader :: utf8
  ed_programdata :: utf8
  ed_deployment_slot :: u64
  ed_upgrade_authority :: "utf8 option"
  ed_deployed_executable_sha256 :: utf8

record evidence_transaction =
  et_signature :: utf8
  et_slot :: u64

record funding_transaction_evidence =
  ft_authority :: utf8
  ft_base_source :: utf8
  ft_quote_source :: utf8
  ft_transaction :: evidence_transaction

record evidence_transactions =
  ets_funding :: "funding_transaction_evidence four"
  ets_lock :: evidence_transaction
  ets_settlement :: evidence_transaction

record evidence_accounts =
  ea_fee_payer :: utf8
  ea_operator :: utf8
  ea_pool :: utf8
  ea_epoch :: utf8
  ea_vault_authority :: utf8
  ea_base_mint :: utf8
  ea_quote_mint :: utf8
  ea_pool_base_vault :: utf8
  ea_pool_quote_vault :: utf8
  ea_venue_authority :: utf8
  ea_venue_base_account :: utf8
  ea_venue_quote_account :: utf8
  ea_token_program :: utf8

record evidence_configuration =
  ecf_epoch_id :: utf8
  ecf_minimum_count :: u32
  ecf_member_count :: u32
  ecf_lock_threshold :: u8
  ecf_settlement_threshold :: u8
  ecf_keypers :: "utf8 \<times> utf8 \<times> utf8"
  ecf_base_lot_atoms :: u64
  ecf_quote_atoms_per_lot :: u64

record evidence_commitments =
  em_configuration_hash :: utf8
  em_pre_balance_root :: utf8
  em_member_set :: utf8
  em_lock_digest :: utf8
  em_result :: utf8
  em_settlement_digest :: utf8
  em_unverified_local_transcript_sha256 :: utf8

record evidence_token_balances =
  eb_pool_base_before :: u64
  eb_pool_base_after :: u64
  eb_pool_quote_before :: u64
  eb_pool_quote_after :: u64
  eb_venue_base_before :: u64
  eb_venue_base_after :: u64
  eb_venue_quote_before :: u64
  eb_venue_quote_after :: u64

record decoded_instruction_evidence =
  de_transaction :: utf8
  de_position :: u16
  de_program :: utf8
  de_kind :: utf8
  de_digest :: "utf8 option"

record devnet_evidence_content =
  dv_cluster :: utf8
  dv_public_commit :: utf8
  dv_build_toolchain :: evidence_build_toolchain
  dv_checkpoint_artifact_len :: nat
  dv_checkpoint_artifact_sha256 :: utf8
  dv_deployment :: evidence_deployment
  dv_transactions :: evidence_transactions
  dv_accounts :: evidence_accounts
  dv_configuration :: evidence_configuration
  dv_commitments :: evidence_commitments
  dv_token_balances :: evidence_token_balances
  dv_decoded_allowlist :: "decoded_instruction_evidence list"
  dv_explorer_links :: "utf8 list"

record devnet_evidence_bundle =
  db_schema_version :: u8
  db_content :: devnet_evidence_content
  db_evidence_sha256 :: utf8

datatype devnet_evidence_error =
    InvalidSchema
  | ContentHashMismatch
  | WrongLoader
  | WrongProgramDataOwner
  | WrongProgramDataAddress
  | MalformedLoaderMetadata
  | TruncatedExecutable
  | InvalidElf
  | NonZeroProgramDataTail
  | InvalidPublicField
  | WrongCluster
  | WrongProgram
  | DeploymentMismatch
  | MissingTransaction
  | UnfinalizedTransaction
  | FailedTransaction
  | TransactionSlotMismatch
  | RepeatedFundingAuthority
  | WrongAccountOwner
  | WrongState
  | WrongMemberCount
  | WrongKeyper
  | ChangedCommitment
  | WrongTokenDelta
  | UnexpectedInstruction
  | SecondSettlement
  | WrongGenesis
  | RpcUnavailable
  | InvalidTransaction
  | InvalidTokenAccount
  | InvalidChronology
  | RepeatedFundingSource

section \<open>Snapshots\<close>

record public_account_snapshot =
  pa_owner :: pubkey
  pa_executable :: bool
  pa_data :: "byte list"

record extracted_upgradeable_program =
  xp_deployment_slot :: u64
  xp_upgrade_authority :: "pubkey option"
  xp_executable :: "byte list"
  xp_executable_sha256 :: utf8

record finalized_transaction_snapshot =
  fs_signature :: utf8
  fs_slot :: u64
  fs_status_slot :: u64
  fs_finalized :: bool
  fs_succeeded :: bool

record devnet_public_snapshot =
  sn_program :: public_account_snapshot
  sn_programdata_address :: pubkey
  sn_programdata :: public_account_snapshot
  sn_pool :: public_account_snapshot
  sn_epoch :: public_account_snapshot
  sn_base_mint :: public_account_snapshot
  sn_quote_mint :: public_account_snapshot
  sn_current_token_accounts :: "public_account_snapshot four"
  sn_transactions :: "finalized_transaction_snapshot list"
  sn_token_balances :: evidence_token_balances
  sn_decoded_allowlist :: "decoded_instruction_evidence list"

section \<open>Libraries\<close>

datatype loader_state = Loader_program pubkey | Loader_programdata u64 "pubkey option" | Loader_other

record token_mint =
  mint_decimals :: u8
  mint_authority :: "pubkey option"
  freeze_authority :: "pubkey option"

record token_account_state =
  ta_mint :: pubkey
  ta_owner :: pubkey
  ta_initialized :: bool

record evidence_library =
  el_parse_pubkey :: "utf8 \<Rightarrow> pubkey option"
  el_pubkey_string :: "pubkey \<Rightarrow> utf8"
  el_parse_signature :: "utf8 \<Rightarrow> bytes64 option"
  el_verify_transaction :: "versioned_transaction \<Rightarrow> bool"
  el_content_json :: "devnet_evidence_content \<Rightarrow> byte list option"
  el_loader_state :: "byte list \<Rightarrow> loader_state option"
  el_metadata_len :: nat
  el_mint :: "byte list \<Rightarrow> token_mint option"
  el_token_account :: "byte list \<Rightarrow> token_account_state option"
  el_tokens :: token_library

definition UPGRADEABLE_LOADER_ID :: pubkey where
  "UPGRADEABLE_LOADER_ID = of_nat (base58 ''BPFLoaderUpgradeab1e11111111111111111111111'')"

definition DEVNET_GENESIS_HASH :: utf8 where
  "DEVNET_GENESIS_HASH = ascii ''EtWTRABZaYq6iMfeYKouRu166VU2xqa1wcaWoxPkrZBG''"

definition EVIDENCE_BUNDLE_DOMAIN :: "byte list" where
  "EVIDENCE_BUNDLE_DOMAIN = ascii ''KAGEB_EVIDENCE_BUNDLE_V1'' @ [0]"

section \<open>Texts of keys and digests\<close>

definition hex_digest :: "byte list \<Rightarrow> utf8" where
  "hex_digest bytes = foldl (\<lambda>encoded byte. encoded @ hex_byte byte) [] bytes"

definition is_ascii_hexdigit :: "byte \<Rightarrow> bool" where
  "is_ascii_hexdigit b \<longleftrightarrow> 48 \<le> b \<and> b \<le> 57 \<or> 65 \<le> b \<and> b \<le> 70 \<or> 97 \<le> b \<and> b \<le> 102"

definition is_ascii_graphic :: "byte \<Rightarrow> bool" where
  "is_ascii_graphic b \<longleftrightarrow> 33 \<le> b \<and> b \<le> 126"

definition hex_nibble :: "byte \<Rightarrow> devnet_evidence_error + byte" where
  "hex_nibble byte =
     (if 48 \<le> byte \<and> byte \<le> 57 then Inr (byte - 48)
      else if 97 \<le> byte \<and> byte \<le> 102 then Inr (byte - 97 + 10)
      else if 65 \<le> byte \<and> byte \<le> 70 then Inr (byte - 65 + 10)
      else Inl InvalidPublicField)"

text \<open>The loop of \<open>parse_digest\<close> over pairs of characters.\<close>

fun parse_pairs :: "utf8 \<Rightarrow> devnet_evidence_error + byte list" where
  "parse_pairs (a # b # rest) =
     try_bind (hex_nibble a) (\<lambda>high.
     try_bind (hex_nibble b) (\<lambda>low.
     try_bind (parse_pairs rest) (\<lambda>bytes.
     Inr ((push_bit 4 high OR low) # bytes))))"
| "parse_pairs _ = Inr []"

definition parse_digest :: "utf8 \<Rightarrow> devnet_evidence_error + bytes32" where
  "parse_digest encoded =
     (if length encoded \<noteq> 64 \<or> \<not> list_all is_ascii_hexdigit encoded then Inl InvalidPublicField
      else try_bind (parse_pairs encoded) (\<lambda>decoded. Inr (arr_of decoded)))"

definition parse_pubkey :: "evidence_library \<Rightarrow> utf8 \<Rightarrow> devnet_evidence_error + pubkey" where
  "parse_pubkey lib encoded = ok_or (el_parse_pubkey lib encoded) InvalidPublicField"

section \<open>Content address\<close>

definition evidence_content_hash ::
    "suite \<Rightarrow> evidence_library \<Rightarrow> devnet_evidence_content \<Rightarrow> devnet_evidence_error + utf8" where
  "evidence_content_hash c lib content =
     try_bind (ok_or (el_content_json lib content) InvalidSchema) (\<lambda>encoded.
     Inr (hex_digest (arr_bytes (hash256 c (EVIDENCE_BUNDLE_DOMAIN @ encoded)))))"

definition bundle_seal ::
    "suite \<Rightarrow> evidence_library \<Rightarrow> devnet_evidence_content \<Rightarrow> devnet_evidence_error + devnet_evidence_bundle" where
  "bundle_seal c lib content =
     try_bind (evidence_content_hash c lib content) (\<lambda>evidence_sha256.
     Inr \<lparr> db_schema_version = 1, db_content = content, db_evidence_sha256 = evidence_sha256 \<rparr>)"

definition verify_content_hash ::
    "suite \<Rightarrow> evidence_library \<Rightarrow> devnet_evidence_bundle \<Rightarrow> devnet_evidence_error + unit" where
  "verify_content_hash c lib bundle =
     (if db_schema_version bundle \<noteq> 1 then Inl ContentHashMismatch
      else
      try_bind (evidence_content_hash c lib (db_content bundle)) (\<lambda>hash.
      if hash \<noteq> db_evidence_sha256 bundle then Inl ContentHashMismatch else Inr ()))"

end
