(* ===== verification/Evidence_Verifier.thy ===== *)
theory Evidence_Verifier
  imports Devnet_Evidence
begin

text \<open>
  \<open>kageb-host/src/evidence.rs\<close>: the verifier of a bundle against a snapshot of the chain. The
  operator \<open>?\<close> inside a rejecting disjunction is evaluated only when the disjuncts before it are false;
  \<open>expect_key\<close> and \<open>expect_digest\<close> are such disjuncts.
\<close>

definition expect_key ::
    "evidence_library \<Rightarrow> devnet_evidence_error \<Rightarrow> pubkey \<Rightarrow> utf8 \<Rightarrow> devnet_evidence_error + unit" where
  "expect_key lib e actual encoded =
     try_bind (parse_pubkey lib encoded) (\<lambda>key. if actual \<noteq> key then Inl e else Inr ())"

definition expect_digest :: "devnet_evidence_error \<Rightarrow> bytes32 \<Rightarrow> utf8 \<Rightarrow> devnet_evidence_error + unit" where
  "expect_digest e actual encoded =
     try_bind (parse_digest encoded) (\<lambda>digest. if actual \<noteq> digest then Inl e else Inr ())"

section \<open>The deployed program\<close>

definition extract_upgradeable_program ::
    "suite \<Rightarrow> evidence_library \<Rightarrow> public_account_snapshot \<Rightarrow> pubkey \<Rightarrow> public_account_snapshot \<Rightarrow> nat \<Rightarrow>
     devnet_evidence_error + extracted_upgradeable_program" where
  "extract_upgradeable_program c lib program expected_programdata programdata checkpoint_artifact_len =
     (if pa_owner program \<noteq> UPGRADEABLE_LOADER_ID \<or> \<not> pa_executable program then Inl WrongLoader
      else
      try_bind (ok_or (el_loader_state lib (pa_data program)) MalformedLoaderMetadata) (\<lambda>program_state.
      try_bind (case program_state of Loader_program address \<Rightarrow> Inr address | _ \<Rightarrow> Inl MalformedLoaderMetadata)
        (\<lambda>programdata_address.
      if programdata_address \<noteq> expected_programdata then Inl WrongProgramDataAddress
      else if pa_owner programdata \<noteq> UPGRADEABLE_LOADER_ID \<or> pa_executable programdata
      then Inl WrongProgramDataOwner
      else let metadata_len = el_metadata_len lib in
      try_bind (ok_or (get_slice 0 metadata_len (pa_data programdata)) MalformedLoaderMetadata) (\<lambda>metadata.
      try_bind (ok_or (el_loader_state lib metadata) MalformedLoaderMetadata) (\<lambda>programdata_state.
      try_bind (case programdata_state of
          Loader_programdata slot authority \<Rightarrow> Inr (slot, authority)
        | _ \<Rightarrow> Inl MalformedLoaderMetadata) (\<lambda>(slot, upgrade_authority_address).
      let executable_end = metadata_len + checkpoint_artifact_len in
      if 2 ^ 64 \<le> executable_end then Inl TruncatedExecutable
      else
      try_bind (ok_or (get_slice metadata_len executable_end (pa_data programdata)) TruncatedExecutable)
        (\<lambda>executable.
      if take 4 executable \<noteq> 127 # ascii ''ELF'' then Inl InvalidElf
      else if list_ex (\<lambda>byte. byte \<noteq> 0) (drop executable_end (pa_data programdata))
      then Inl NonZeroProgramDataTail
      else Inr \<lparr> xp_deployment_slot = slot,
                 xp_upgrade_authority = upgrade_authority_address,
                 xp_executable = executable,
                 xp_executable_sha256 = hex_digest (arr_bytes (hash256 c executable)) \<rparr>)))))))"

section \<open>Public fields\<close>

definition evidence_transaction_list :: "devnet_evidence_content \<Rightarrow> evidence_transaction list" where
  "evidence_transaction_list evidence =
     map ft_transaction (four_list (ets_funding (dv_transactions evidence))) @
     [ets_lock (dv_transactions evidence), ets_settlement (dv_transactions evidence)]"

definition check_identity :: "utf8 \<Rightarrow> devnet_evidence_error + unit" where
  "check_identity identity =
     (if identity = [] \<or> 128 < length identity \<or> \<not> list_all (\<lambda>byte. is_ascii_graphic byte \<or> byte = 32) identity
      then Inl InvalidPublicField else Inr ())"

definition explorer_link :: "utf8 \<Rightarrow> utf8" where
  "explorer_link signature = ascii ''https://explorer.solana.com/tx/'' @ signature @ ascii ''?cluster=devnet''"

definition validate_public_fields ::
    "suite \<Rightarrow> runtime \<Rightarrow> evidence_library \<Rightarrow> devnet_evidence_content \<Rightarrow> byte list \<Rightarrow> devnet_evidence_error + unit" where
  "validate_public_fields c rt lib evidence checkpoint_artifact =
     (if dv_cluster evidence \<noteq> ascii ''devnet'' then Inl WrongCluster
      else if length (dv_public_commit evidence) \<noteq> 40
         \<or> \<not> list_all is_ascii_hexdigit (dv_public_commit evidence)
         \<or> dv_checkpoint_artifact_len evidence \<noteq> length checkpoint_artifact
      then Inl InvalidPublicField
      else
      try_bind (expect_digest InvalidPublicField (hash256 c checkpoint_artifact)
        (dv_checkpoint_artifact_sha256 evidence)) (\<lambda>_.
      try_bind (try_all check_identity
        [bt_solana_verify (dv_build_toolchain evidence), bt_build_image (dv_build_toolchain evidence)]) (\<lambda>_.
      try_bind (expect_key lib WrongProgram ID (ed_program (dv_deployment evidence))) (\<lambda>_.
      try_bind (expect_key lib WrongProgram TOKEN_PROGRAM_ID (ea_token_program (dv_accounts evidence))) (\<lambda>_.
      try_bind (expect_key lib WrongLoader UPGRADEABLE_LOADER_ID (ed_loader (dv_deployment evidence))) (\<lambda>_.
      let canonical_programdata = fst (rt_find_program_address rt [arr_bytes ID] UPGRADEABLE_LOADER_ID) in
      try_bind (expect_key lib WrongProgramDataAddress canonical_programdata
        (ed_programdata (dv_deployment evidence))) (\<lambda>_.
      if length (dv_explorer_links evidence) \<noteq> 6
         \<or> \<not> list_all (\<lambda>(link, transaction). link = explorer_link (et_signature transaction))
              (zip (dv_explorer_links evidence) (evidence_transaction_list evidence))
      then Inl InvalidPublicField
      else Inr ())))))))"

definition validate_deployment ::
    "suite \<Rightarrow> evidence_library \<Rightarrow> devnet_evidence_content \<Rightarrow> devnet_public_snapshot \<Rightarrow> byte list \<Rightarrow>
     devnet_evidence_error + unit" where
  "validate_deployment c lib evidence snapshot checkpoint_artifact =
     try_bind (parse_pubkey lib (ed_programdata (dv_deployment evidence))) (\<lambda>programdata.
     if programdata \<noteq> sn_programdata_address snapshot then Inl WrongProgramDataAddress
     else
     try_bind (extract_upgradeable_program c lib (sn_program snapshot) programdata (sn_programdata snapshot)
       (dv_checkpoint_artifact_len evidence)) (\<lambda>extracted.
     try_bind (case ed_upgrade_authority (dv_deployment evidence) of
         None \<Rightarrow> Inr None
       | Some encoded \<Rightarrow> try_bind (parse_pubkey lib encoded) (\<lambda>key. Inr (Some key))) (\<lambda>upgrade_authority.
     if xp_deployment_slot extracted \<noteq> ed_deployment_slot (dv_deployment evidence)
        \<or> xp_upgrade_authority extracted \<noteq> upgrade_authority
        \<or> xp_executable extracted \<noteq> checkpoint_artifact
        \<or> xp_executable_sha256 extracted \<noteq> ed_deployed_executable_sha256 (dv_deployment evidence)
        \<or> xp_executable_sha256 extracted \<noteq> dv_checkpoint_artifact_sha256 evidence
     then Inl DeploymentMismatch
     else Inr ())))"

section \<open>Transactions\<close>

fun validate_expected ::
    "evidence_library \<Rightarrow> finalized_transaction_snapshot list \<Rightarrow> utf8 set \<Rightarrow> evidence_transaction list \<Rightarrow>
     devnet_evidence_error + utf8 set" where
  "validate_expected lib snapshots signatures [] = Inr signatures"
| "validate_expected lib snapshots signatures (transaction # rest) =
     try_bind (ok_or (el_parse_signature lib (et_signature transaction)) InvalidPublicField) (\<lambda>_.
     if et_signature transaction \<in> signatures then Inl UnexpectedInstruction
     else
     try_bind (ok_or (find (\<lambda>snapshot. fs_signature snapshot = et_signature transaction) snapshots)
       MissingTransaction) (\<lambda>fetched.
     if \<not> fs_finalized fetched then Inl UnfinalizedTransaction
     else if \<not> fs_succeeded fetched then Inl FailedTransaction
     else if fs_slot fetched \<noteq> et_slot transaction then Inl TransactionSlotMismatch
     else if fs_status_slot fetched \<noteq> et_slot transaction then Inl TransactionSlotMismatch
     else validate_expected lib snapshots (insert (et_signature transaction) signatures) rest))"

definition validate_transactions ::
    "evidence_library \<Rightarrow> devnet_evidence_content \<Rightarrow> finalized_transaction_snapshot list \<Rightarrow>
     devnet_evidence_error + unit" where
  "validate_transactions lib evidence snapshots =
     try_bind (validate_expected lib snapshots {} (evidence_transaction_list evidence)) (\<lambda>signatures.
     if length snapshots \<noteq> card signatures then Inl UnexpectedInstruction
     else let
       deployment_slot = ed_deployment_slot (dv_deployment evidence);
       lock_slot = et_slot (ets_lock (dv_transactions evidence));
       settlement_slot = et_slot (ets_settlement (dv_transactions evidence))
     in
     if lock_slot \<le> deployment_slot
        \<or> settlement_slot \<le> lock_slot
        \<or> list_ex (\<lambda>funding. et_slot (ft_transaction funding) \<le> deployment_slot
             \<or> lock_slot \<le> et_slot (ft_transaction funding))
            (four_list (ets_funding (dv_transactions evidence)))
     then Inl InvalidChronology
     else Inr ())"

fun distinct_sources ::
    "evidence_library \<Rightarrow> utf8 list \<Rightarrow> pubkey set \<Rightarrow> devnet_evidence_error + pubkey set" where
  "distinct_sources lib [] sources = Inr sources"
| "distinct_sources lib (source # rest) sources =
     try_bind (parse_pubkey lib source) (\<lambda>key.
     if key \<in> sources then Inl RepeatedFundingSource
     else distinct_sources lib rest (insert key sources))"

fun distinct_funding ::
    "evidence_library \<Rightarrow> funding_transaction_evidence list \<Rightarrow> pubkey set \<Rightarrow> pubkey set \<Rightarrow>
     devnet_evidence_error + unit" where
  "distinct_funding lib [] authorities sources = Inr ()"
| "distinct_funding lib (funding # rest) authorities sources =
     try_bind (parse_pubkey lib (ft_authority funding)) (\<lambda>authority.
     if authority = 0 \<or> authority \<in> authorities then Inl RepeatedFundingAuthority
     else
     try_bind (distinct_sources lib [ft_base_source funding, ft_quote_source funding] sources) (\<lambda>sources.
     distinct_funding lib rest (insert authority authorities) sources))"

definition validate_distinct_funding_authorities ::
    "evidence_library \<Rightarrow> devnet_evidence_content \<Rightarrow> devnet_evidence_error + unit" where
  "validate_distinct_funding_authorities lib evidence =
     distinct_funding lib (four_list (ets_funding (dv_transactions evidence))) {} {}"

section \<open>Program state\<close>

definition parse_keypers :: "evidence_library \<Rightarrow> utf8 \<times> utf8 \<times> utf8 \<Rightarrow> devnet_evidence_error + keypers" where
  "parse_keypers lib = (\<lambda>(a, b, d).
     try_bind (parse_pubkey lib a) (\<lambda>ka.
     try_bind (parse_pubkey lib b) (\<lambda>kb.
     try_bind (parse_pubkey lib d) (\<lambda>kd.
     Inr (ka, kb, kd)))))"

definition validate_program_state ::
    "runtime \<Rightarrow> evidence_library \<Rightarrow> devnet_evidence_content \<Rightarrow> devnet_public_snapshot \<Rightarrow>
     devnet_evidence_error + (pool_state \<times> epoch_state)" where
  "validate_program_state rt lib evidence snapshot =
     (let accounts = dv_accounts evidence; configuration = dv_configuration evidence;
          commitments = dv_commitments evidence in
      if pa_owner (sn_pool snapshot) \<noteq> ID \<or> pa_executable (sn_pool snapshot)
         \<or> pa_owner (sn_epoch snapshot) \<noteq> ID \<or> pa_executable (sn_epoch snapshot)
      then Inl WrongAccountOwner
      else
      try_bind (map_err (\<lambda>_. WrongState) (pool_state_decode (pa_data (sn_pool snapshot)))) (\<lambda>pool.
      try_bind (map_err (\<lambda>_. WrongState) (epoch_state_decode (pa_data (sn_epoch snapshot)))) (\<lambda>epoch.
      try_bind (parse_pubkey lib (ea_operator accounts)) (\<lambda>operator.
      try_bind (parse_pubkey lib (ea_base_mint accounts)) (\<lambda>base_mint.
      try_bind (parse_pubkey lib (ea_quote_mint accounts)) (\<lambda>quote_mint.
      try_bind (parse_pubkey lib (ea_pool accounts)) (\<lambda>expected_pool.
      try_bind (parse_pubkey lib (ea_epoch accounts)) (\<lambda>expected_epoch.
      try_bind (parse_pubkey lib (ea_vault_authority accounts)) (\<lambda>expected_vault_authority.
      let (derived_pool, pool_bump) = pool_address rt operator base_mint quote_mint;
          (derived_vault_authority, vault_bump) = vault_authority_address rt derived_pool in
      try_bind (parse_digest (ecf_epoch_id configuration)) (\<lambda>epoch_id.
      let (derived_epoch, epoch_bump) = epoch_address rt derived_pool epoch_id in
      if expected_pool \<noteq> derived_pool
         \<or> expected_epoch \<noteq> derived_epoch
         \<or> expected_vault_authority \<noteq> derived_vault_authority
         \<or> ps_pool_bump pool \<noteq> pool_bump
         \<or> ps_vault_bump pool \<noteq> vault_bump
         \<or> es_epoch_bump epoch \<noteq> epoch_bump
         \<or> ps_operator pool \<noteq> operator
         \<or> ps_base_mint pool \<noteq> base_mint
         \<or> ps_quote_mint pool \<noteq> quote_mint
      then Inl WrongState
      else
      try_bind (expect_key lib WrongState (ps_pool_base_vault pool) (ea_pool_base_vault accounts)) (\<lambda>_.
      try_bind (expect_key lib WrongState (ps_pool_quote_vault pool) (ea_pool_quote_vault accounts)) (\<lambda>_.
      try_bind (expect_key lib WrongState (ps_venue_authority pool) (ea_venue_authority accounts)) (\<lambda>_.
      try_bind (expect_key lib WrongState (ps_venue_base_account pool) (ea_venue_base_account accounts)) (\<lambda>_.
      try_bind (expect_key lib WrongState (ps_venue_quote_account pool) (ea_venue_quote_account accounts)) (\<lambda>_.
      if es_pool epoch \<noteq> expected_pool
         \<or> es_epoch_id epoch \<noteq> epoch_id
         \<or> es_terminal_state epoch \<noteq> Settled
         \<or> es_settlement_nonce epoch = 0
         \<or> es_lock_nonce epoch = 0
      then Inl WrongState
      else if ecf_member_count configuration \<noteq> 4
         \<or> ecf_minimum_count configuration \<noteq> 4
         \<or> es_member_count epoch \<noteq> ecf_member_count configuration
         \<or> es_minimum_count epoch \<noteq> ecf_minimum_count configuration
         \<or> es_member_count epoch < es_minimum_count epoch
      then Inl WrongMemberCount
      else
      try_bind (parse_keypers lib (ecf_keypers configuration)) (\<lambda>keypers.
      if keypers \<noteq> ps_keypers pool
         \<or> card (set (keyper_list keypers)) \<noteq> 3
         \<or> ecf_lock_threshold configuration \<noteq> ps_lock_threshold pool
         \<or> ecf_settlement_threshold configuration \<noteq> ps_settlement_threshold pool
         \<or> ps_lock_threshold pool \<noteq> 2
         \<or> ps_settlement_threshold pool \<noteq> 2
      then Inl WrongKeyper
      else if ecf_base_lot_atoms configuration \<noteq> ps_base_lot_atoms pool
         \<or> ecf_base_lot_atoms configuration \<noteq> es_base_lot_atoms epoch
         \<or> ecf_quote_atoms_per_lot configuration \<noteq> es_quote_atoms_per_lot epoch
      then Inl WrongState
      else
      try_bind (expect_digest ChangedCommitment (es_configuration_hash epoch) (em_configuration_hash commitments)) (\<lambda>_.
      try_bind (expect_digest ChangedCommitment (es_pre_balance_root epoch) (em_pre_balance_root commitments)) (\<lambda>_.
      try_bind (expect_digest ChangedCommitment (es_member_root epoch) (em_member_set commitments)) (\<lambda>_.
      try_bind (expect_digest ChangedCommitment (es_lock_digest epoch) (em_lock_digest commitments)) (\<lambda>_.
      try_bind (expect_digest ChangedCommitment (es_result_commitment epoch) (em_result commitments)) (\<lambda>_.
      try_bind (expect_digest ChangedCommitment (es_settlement_digest epoch) (em_settlement_digest commitments)) (\<lambda>_.
      try_bind (parse_digest (em_unverified_local_transcript_sha256 commitments)) (\<lambda>_.
      Inr (pool, epoch))))))))))))))))))))))))"

section \<open>Token accounts and balances\<close>

definition validate_public_mint :: "evidence_library \<Rightarrow> public_account_snapshot \<Rightarrow> devnet_evidence_error + unit" where
  "validate_public_mint lib mint =
     (if pa_owner mint \<noteq> TOKEN_PROGRAM_ID \<or> pa_executable mint then Inl InvalidTokenAccount
      else
      try_bind (ok_or (el_mint lib (pa_data mint)) InvalidTokenAccount) (\<lambda>mint.
      if mint_decimals mint \<noteq> 0 \<or> mint_authority mint \<noteq> None \<or> freeze_authority mint \<noteq> None
      then Inl InvalidTokenAccount
      else Inr ()))"

definition validate_current_token_account ::
    "evidence_library \<Rightarrow> public_account_snapshot \<times> utf8 \<times> utf8 \<Rightarrow> devnet_evidence_error + unit" where
  "validate_current_token_account lib = (\<lambda>(account, mint, authority).
     if pa_owner account \<noteq> TOKEN_PROGRAM_ID \<or> pa_executable account then Inl InvalidTokenAccount
     else
     try_bind (ok_or (el_token_account lib (pa_data account)) InvalidTokenAccount) (\<lambda>token.
     try_bind (expect_key lib InvalidTokenAccount (ta_mint token) mint) (\<lambda>_.
     try_bind (expect_key lib InvalidTokenAccount (ta_owner token) authority) (\<lambda>_.
     if \<not> ta_initialized token then Inl InvalidTokenAccount else Inr ()))))"

definition validate_current_token_accounts ::
    "evidence_library \<Rightarrow> devnet_evidence_content \<Rightarrow> public_account_snapshot four \<Rightarrow> devnet_evidence_error + unit" where
  "validate_current_token_accounts lib evidence accounts =
     (let expected =
        [(ea_base_mint (dv_accounts evidence), ea_vault_authority (dv_accounts evidence)),
         (ea_quote_mint (dv_accounts evidence), ea_vault_authority (dv_accounts evidence)),
         (ea_base_mint (dv_accounts evidence), ea_venue_authority (dv_accounts evidence)),
         (ea_quote_mint (dv_accounts evidence), ea_venue_authority (dv_accounts evidence))] in
      try_all (validate_current_token_account lib) (zip (four_list accounts) expected))"

definition validate_token_deltas ::
    "evidence_library \<Rightarrow> devnet_evidence_content \<Rightarrow> devnet_public_snapshot \<Rightarrow> epoch_state \<Rightarrow>
     devnet_evidence_error + unit" where
  "validate_token_deltas lib evidence snapshot epoch =
     try_bind (validate_public_mint lib (sn_base_mint snapshot)) (\<lambda>_.
     try_bind (validate_public_mint lib (sn_quote_mint snapshot)) (\<lambda>_.
     try_bind (validate_current_token_accounts lib evidence (sn_current_token_accounts snapshot)) (\<lambda>_.
     let balances = dv_token_balances evidence in
     try_bind (ok_or (checked_add (eb_pool_base_before balances) (eb_venue_base_before balances)) WrongTokenDelta)
       (\<lambda>base_before.
     try_bind (ok_or (checked_add (eb_pool_base_after balances) (eb_venue_base_after balances)) WrongTokenDelta)
       (\<lambda>base_after.
     try_bind (ok_or (checked_add (eb_pool_quote_before balances) (eb_venue_quote_before balances)) WrongTokenDelta)
       (\<lambda>quote_before.
     try_bind (ok_or (checked_add (eb_pool_quote_after balances) (eb_venue_quote_after balances)) WrongTokenDelta)
       (\<lambda>quote_after.
     if balances \<noteq> sn_token_balances snapshot \<or> base_before \<noteq> base_after \<or> quote_before \<noteq> quote_after
     then Inl WrongTokenDelta
     else let lots = ucast (es_residual_lots epoch) in
     try_bind (ok_or (checked_mul (es_base_lot_atoms epoch) lots) WrongTokenDelta) (\<lambda>base.
     try_bind (ok_or (checked_mul (es_quote_atoms_per_lot epoch) lots) WrongTokenDelta) (\<lambda>quote.
     let deltas =
       (uint (eb_pool_base_after balances) - uint (eb_pool_base_before balances),
        uint (eb_pool_quote_after balances) - uint (eb_pool_quote_before balances),
        uint (eb_venue_base_after balances) - uint (eb_venue_base_before balances),
        uint (eb_venue_quote_after balances) - uint (eb_venue_quote_before balances)) in
     try_bind (
       if es_residual_side epoch = 0 \<and> es_residual_lots epoch = 0 then Inr (0, 0, 0, 0)
       else if es_residual_side epoch = 1 \<and> 1 \<le> es_residual_lots epoch
       then Inr (uint base, - uint quote, - uint base, uint quote)
       else if es_residual_side epoch = 2 \<and> 1 \<le> es_residual_lots epoch
       then Inr (- uint base, uint quote, uint base, - uint quote)
       else Inl WrongTokenDelta) (\<lambda>expected.
     if deltas \<noteq> expected then Inl WrongTokenDelta else Inr ()))))))))))"

section \<open>Allowlist\<close>

definition count_kind :: "utf8 \<Rightarrow> decoded_instruction_evidence list \<Rightarrow> nat" where
  "count_kind kind instructions = length (filter (\<lambda>instruction. de_kind instruction = kind) instructions)"

definition validate_allowed ::
    "devnet_evidence_content \<Rightarrow> decoded_instruction_evidence \<Rightarrow> devnet_evidence_error + unit" where
  "validate_allowed evidence instr =
     try_bind (
       if de_kind instr = ascii ''keyper-lock-approval'' \<or> de_kind instr = ascii ''epoch-lock''
       then Inr (Some (em_lock_digest (dv_commitments evidence)))
       else if de_kind instr = ascii ''keyper-settlement-approval'' \<or> de_kind instr = ascii ''aggregate-settlement''
       then Inr (Some (em_settlement_digest (dv_commitments evidence)))
       else if de_kind instr = ascii ''pool-funding-base'' \<or> de_kind instr = ascii ''pool-funding-quote''
         \<or> de_kind instr = ascii ''aggregate-base-leg'' \<or> de_kind instr = ascii ''aggregate-quote-leg''
       then Inr None
       else Inl UnexpectedInstruction) (\<lambda>expected_digest.
     if de_digest instr \<noteq> expected_digest then Inl UnexpectedInstruction
     else case de_digest instr of
         None \<Rightarrow> Inr ()
       | Some digest \<Rightarrow> try_bind (parse_digest digest) (\<lambda>_. Inr ()))"

definition validate_allowlist ::
    "devnet_evidence_content \<Rightarrow> devnet_public_snapshot \<Rightarrow> u8 \<Rightarrow> devnet_evidence_error + unit" where
  "validate_allowlist evidence snapshot settlement_threshold =
     (let decoded = sn_decoded_allowlist snapshot;
          aggregate_count = count_kind (ascii ''aggregate-settlement'') decoded in
      if 1 < aggregate_count then Inl SecondSettlement
      else if aggregate_count \<noteq> 1 then Inl UnexpectedInstruction
      else let
        lock_approvals = count_kind (ascii ''keyper-lock-approval'') decoded;
        settlement_approvals = count_kind (ascii ''keyper-settlement-approval'') decoded
      in
      if lock_approvals \<noteq> unat (ecf_lock_threshold (dv_configuration evidence))
         \<or> settlement_approvals \<noteq> unat settlement_threshold
         \<or> decoded \<noteq> dv_decoded_allowlist evidence
      then Inl UnexpectedInstruction
      else try_all (validate_allowed evidence) decoded)"

section \<open>The verifier\<close>

definition verify_devnet_evidence ::
    "suite \<Rightarrow> runtime \<Rightarrow> evidence_library \<Rightarrow> devnet_evidence_bundle \<Rightarrow> devnet_public_snapshot \<Rightarrow> byte list \<Rightarrow>
     devnet_evidence_error + unit" where
  "verify_devnet_evidence c rt lib bundle snapshot checkpoint_artifact =
     try_bind (verify_content_hash c lib bundle) (\<lambda>_.
     let evidence = db_content bundle in
     try_bind (validate_public_fields c rt lib evidence checkpoint_artifact) (\<lambda>_.
     try_bind (validate_deployment c lib evidence snapshot checkpoint_artifact) (\<lambda>_.
     try_bind (validate_transactions lib evidence (sn_transactions snapshot)) (\<lambda>_.
     try_bind (validate_distinct_funding_authorities lib evidence) (\<lambda>_.
     try_bind (validate_program_state rt lib evidence snapshot) (\<lambda>(pool, epoch).
     try_bind (validate_token_deltas lib evidence snapshot epoch) (\<lambda>_.
     try_bind (validate_allowlist evidence snapshot (ps_settlement_threshold pool)) (\<lambda>_.
     Inr ()))))))))"

end
