(* ===== verification/Evidence_Snapshot.thy ===== *)
theory Evidence_Snapshot
  imports Evidence_Verifier
begin

text \<open>
  \<open>kageb-host/src/evidence.rs\<close>: building the snapshot of the chain that a bundle is verified against. The
  node is the record \<open>evidence_rpc\<close> of the answers it gives at finalized commitment.
\<close>

section \<open>The node\<close>

record transaction_status =
  ts_slot :: u64
  ts_finalized :: bool
  ts_err :: bool
  ts_status_err :: bool

text \<open>\<open>None\<close> is a transport error, of an account query \<open>Some None\<close> an absent account.\<close>

record evidence_rpc =
  er_genesis_hash :: "utf8 option"
  er_account :: "pubkey \<Rightarrow> public_account_snapshot option option"
  er_statuses :: "bytes64 list \<Rightarrow> transaction_status option list option"
  er_transaction :: "bytes64 \<Rightarrow> confirmed_transaction option"

definition fetch_finalized_account ::
    "evidence_rpc \<Rightarrow> pubkey \<Rightarrow> devnet_evidence_error + public_account_snapshot" where
  "fetch_finalized_account rpc address =
     try_bind (ok_or (er_account rpc address) RpcUnavailable) (\<lambda>account.
     ok_or account RpcUnavailable)"

definition validate_rpc_response_len :: "nat \<Rightarrow> nat \<Rightarrow> devnet_evidence_error + unit" where
  "validate_rpc_response_len actual expected = (if actual \<noteq> expected then Inl RpcUnavailable else Inr ())"

definition verify_queried_transaction ::
    "evidence_library \<Rightarrow> versioned_transaction \<Rightarrow> bytes64 \<Rightarrow> devnet_evidence_error + unit" where
  "verify_queried_transaction lib transaction expected =
     (if vt_signatures transaction = [] \<or> hd (vt_signatures transaction) \<noteq> expected then Inl InvalidTransaction
      else if el_verify_transaction lib transaction then Inr () else Inl InvalidTransaction)"

definition verify_ed25519_instruction ::
    "suite \<Rightarrow> runtime \<Rightarrow> instruction \<Rightarrow> devnet_evidence_error + strict_ed25519" where
  "verify_ed25519_instruction c rt instr =
     try_bind (map_err (\<lambda>_. InvalidTransaction) (parse_strict_ed25519 rt instr)) (\<lambda>parsed.
     try_bind (ok_or (get_slice 48 112 (ix_data instr)) InvalidTransaction) (\<lambda>bytes.
     let signature = arr_of bytes in
     if \<not> key_from_bytes c (se_signer parsed) then Inl InvalidTransaction
     else if \<not> verify c (se_signer parsed) (arr_bytes (se_digest parsed)) signature then Inl InvalidTransaction
     else Inr parsed))"

section \<open>Token balances of a transaction\<close>

definition token_balance_list ::
    "ui_token_balance list option_serializer \<Rightarrow> devnet_evidence_error + ui_token_balance list" where
  "token_balance_list balances =
     (case balances of OS_Some balances \<Rightarrow> Inr balances | OS_None \<Rightarrow> Inl InvalidTransaction | OS_Skip \<Rightarrow> Inl InvalidTransaction)"

definition token_balance_at ::
    "evidence_library \<Rightarrow> ui_token_balance list \<Rightarrow> pubkey list \<Rightarrow> utf8 \<Rightarrow> utf8 \<Rightarrow> utf8 \<Rightarrow> devnet_evidence_error + u64" where
  "token_balance_at lib balances keys address mint owner =
     try_bind (parse_pubkey lib address) (\<lambda>address.
     try_bind (ok_or (find (\<lambda>balance. key_at keys (tb_account_index balance) = Some address) balances)
       InvalidTransaction) (\<lambda>balance.
     if tb_mint balance \<noteq> mint
        \<or> tb_decimals balance \<noteq> 0
        \<or> tb_owner balance \<noteq> OS_Some owner
        \<or> tb_program_id balance \<noteq> OS_Some (el_pubkey_string lib TOKEN_PROGRAM_ID)
     then Inl InvalidTransaction
     else ok_or (parse_u64 (tb_amount balance)) InvalidTransaction))"

definition transaction_token_balances ::
    "evidence_library \<Rightarrow> confirmed_transaction \<Rightarrow> devnet_evidence_content \<Rightarrow>
     devnet_evidence_error + evidence_token_balances" where
  "transaction_token_balances lib settlement evidence =
     (let accounts = dv_accounts evidence in
      try_bind (ok_or (ct_meta settlement) InvalidTransaction) (\<lambda>meta.
      try_bind (ok_or (ct_decoded settlement) InvalidTransaction) (\<lambda>transaction.
      let keys = vt_keys transaction in
      try_bind (token_balance_list (tm_pre_token_balances meta)) (\<lambda>pre.
      try_bind (token_balance_list (tm_post_token_balances meta)) (\<lambda>post.
      let amount = (\<lambda>balances address mint owner. token_balance_at lib balances keys address mint owner) in
      try_bind (amount pre (ea_pool_base_vault accounts) (ea_base_mint accounts) (ea_vault_authority accounts))
        (\<lambda>pool_base_before.
      try_bind (amount post (ea_pool_base_vault accounts) (ea_base_mint accounts) (ea_vault_authority accounts))
        (\<lambda>pool_base_after.
      try_bind (amount pre (ea_pool_quote_vault accounts) (ea_quote_mint accounts) (ea_vault_authority accounts))
        (\<lambda>pool_quote_before.
      try_bind (amount post (ea_pool_quote_vault accounts) (ea_quote_mint accounts) (ea_vault_authority accounts))
        (\<lambda>pool_quote_after.
      try_bind (amount pre (ea_venue_base_account accounts) (ea_base_mint accounts) (ea_venue_authority accounts))
        (\<lambda>venue_base_before.
      try_bind (amount post (ea_venue_base_account accounts) (ea_base_mint accounts) (ea_venue_authority accounts))
        (\<lambda>venue_base_after.
      try_bind (amount pre (ea_venue_quote_account accounts) (ea_quote_mint accounts) (ea_venue_authority accounts))
        (\<lambda>venue_quote_before.
      try_bind (amount post (ea_venue_quote_account accounts) (ea_quote_mint accounts) (ea_venue_authority accounts))
        (\<lambda>venue_quote_after.
      Inr \<lparr> eb_pool_base_before = pool_base_before, eb_pool_base_after = pool_base_after,
            eb_pool_quote_before = pool_quote_before, eb_pool_quote_after = pool_quote_after,
            eb_venue_base_before = venue_base_before, eb_venue_base_after = venue_base_after,
            eb_venue_quote_before = venue_quote_before, eb_venue_quote_after = venue_quote_after \<rparr>)))))))))))))"

section \<open>Funding transactions\<close>

record funding_leg =
  fl_mint :: pubkey
  fl_destination :: pubkey
  fl_amount :: u64
  fl_source :: pubkey
  fl_kind :: utf8

text \<open>The body of the loop over the two transfers of a funding transaction.\<close>

definition decode_funding_leg ::
    "evidence_library \<Rightarrow> devnet_evidence_content \<Rightarrow> nat \<Rightarrow> pubkey list \<Rightarrow> ui_token_balance list \<Rightarrow> ui_token_balance list \<Rightarrow>
     pubkey \<Rightarrow> pubkey set \<Rightarrow> nat \<Rightarrow> compiled_instruction \<Rightarrow> funding_leg \<Rightarrow>
     devnet_evidence_error + (decoded_instruction_evidence \<times> pubkey set)" where
  "decode_funding_leg lib evidence funding_index keys pre post authority global_sources pos instr leg =
     (if key_at keys (ci_program_id_index instr) \<noteq> Some TOKEN_PROGRAM_ID \<or> length (ci_accounts instr) \<noteq> 4
      then Inl InvalidTransaction
      else
      try_bind (try_map (\<lambda>index. ok_or (key_at keys index) InvalidTransaction) (ci_accounts instr)) (\<lambda>accounts.
      try_bind (ok_or (tl_unpack (el_tokens lib) (ci_data instr)) InvalidTransaction) (\<lambda>token.
      if accounts ! 1 \<noteq> fl_mint leg
         \<or> accounts ! 2 \<noteq> fl_destination leg
         \<or> accounts ! 3 \<noteq> authority
         \<or> accounts ! 0 \<noteq> fl_source leg
         \<or> accounts ! 0 = fl_destination leg
         \<or> accounts ! 0 \<in> global_sources
         \<or> token \<noteq> TransferChecked (fl_amount leg) 0
      then Inl InvalidTransaction
      else let
        global_sources = insert (accounts ! 0) global_sources;
        to_string = el_pubkey_string lib
      in
      try_bind (token_balance_at lib pre keys (to_string (fl_source leg)) (to_string (fl_mint leg)) (to_string authority))
        (\<lambda>source_pre.
      try_bind (token_balance_at lib post keys (to_string (fl_source leg)) (to_string (fl_mint leg)) (to_string authority))
        (\<lambda>source_post.
      try_bind (parse_pubkey lib (ea_vault_authority (dv_accounts evidence))) (\<lambda>destination_owner.
      try_bind (token_balance_at lib pre keys (to_string (fl_destination leg)) (to_string (fl_mint leg)) (to_string destination_owner))
        (\<lambda>destination_pre.
      try_bind (token_balance_at lib post keys (to_string (fl_destination leg)) (to_string (fl_mint leg)) (to_string destination_owner))
        (\<lambda>destination_post.
      if checked_sub source_pre (fl_amount leg) \<noteq> Some source_post
         \<or> checked_add destination_pre (fl_amount leg) \<noteq> Some destination_post
      then Inl InvalidTransaction
      else if 2 ^ 16 \<le> pos then Inl InvalidTransaction
      else Inr (\<lparr> de_transaction = ascii ''funding-'' @ decimal funding_index,
                  de_position = of_nat pos,
                  de_program = to_string TOKEN_PROGRAM_ID,
                  de_kind = fl_kind leg,
                  de_digest = None \<rparr>, global_sources)))))))))"

fun decode_funding_legs ::
    "evidence_library \<Rightarrow> devnet_evidence_content \<Rightarrow> nat \<Rightarrow> pubkey list \<Rightarrow> ui_token_balance list \<Rightarrow> ui_token_balance list \<Rightarrow>
     pubkey \<Rightarrow> pubkey set \<Rightarrow> nat \<Rightarrow> (compiled_instruction \<times> funding_leg) list \<Rightarrow>
     devnet_evidence_error + (decoded_instruction_evidence list \<times> pubkey set)" where
  "decode_funding_legs lib evidence funding_index keys pre post authority global_sources pos [] =
     Inr ([], global_sources)"
| "decode_funding_legs lib evidence funding_index keys pre post authority global_sources pos ((instr, leg) # rest) =
     try_bind (decode_funding_leg lib evidence funding_index keys pre post authority global_sources pos instr leg)
       (\<lambda>(decoded, global_sources).
     try_bind (decode_funding_legs lib evidence funding_index keys pre post authority global_sources (pos + 1) rest)
       (\<lambda>(others, global_sources).
     Inr (decoded # others, global_sources)))"

definition decode_funding_transaction ::
    "evidence_library \<Rightarrow> confirmed_transaction \<Rightarrow> nat \<Rightarrow> funding_transaction_evidence \<Rightarrow> devnet_evidence_content \<Rightarrow>
     pubkey set \<Rightarrow> devnet_evidence_error + (decoded_instruction_evidence list \<times> pubkey set)" where
  "decode_funding_transaction lib confirmed funding_index funding evidence global_sources =
     (let accounts = dv_accounts evidence; configuration = dv_configuration evidence in
      try_bind (ok_or (ct_meta confirmed) InvalidTransaction) (\<lambda>meta.
      if tm_err meta \<or> tm_status_err meta then Inl FailedTransaction
      else if (case tm_inner meta of OS_Some inner \<Rightarrow> inner \<noteq> [] | OS_None \<Rightarrow> False | OS_Skip \<Rightarrow> False)
      then Inl InvalidTransaction
      else
      try_bind (ok_or (ct_decoded confirmed) InvalidTransaction) (\<lambda>transaction.
      let keys = vt_keys transaction; instructions = vt_instructions transaction in
      try_bind (token_balance_list (tm_pre_token_balances meta)) (\<lambda>pre.
      try_bind (token_balance_list (tm_post_token_balances meta)) (\<lambda>post.
      try_bind (parse_pubkey lib (ft_authority funding)) (\<lambda>authority.
      try_bind (parse_pubkey lib (ea_fee_payer accounts)) (\<lambda>fee_payer.
      if keys = [] \<or> hd keys \<noteq> fee_payer
         \<or> length instructions \<noteq> 2
         \<or> \<not> list_ex (\<lambda>key. key = authority) (take (unat (vt_num_required_signatures transaction)) keys)
      then Inl InvalidTransaction
      else
      try_bind (parse_pubkey lib (ea_base_mint accounts)) (\<lambda>base_mint.
      try_bind (parse_pubkey lib (ea_pool_base_vault accounts)) (\<lambda>pool_base_vault.
      try_bind (parse_pubkey lib (ft_base_source funding)) (\<lambda>base_source.
      try_bind (parse_pubkey lib (ea_quote_mint accounts)) (\<lambda>quote_mint.
      try_bind (parse_pubkey lib (ea_pool_quote_vault accounts)) (\<lambda>pool_quote_vault.
      try_bind (parse_pubkey lib (ft_quote_source funding)) (\<lambda>quote_source.
      let expected =
        [\<lparr> fl_mint = base_mint, fl_destination = pool_base_vault, fl_amount = ecf_base_lot_atoms configuration,
           fl_source = base_source, fl_kind = ascii ''pool-funding-base'' \<rparr>,
         \<lparr> fl_mint = quote_mint, fl_destination = pool_quote_vault, fl_amount = ecf_quote_atoms_per_lot configuration,
           fl_source = quote_source, fl_kind = ascii ''pool-funding-quote'' \<rparr>] in
      decode_funding_legs lib evidence funding_index keys pre post authority global_sources 0
        (zip instructions expected))))))))))))))"

section \<open>Lock and settlement transactions\<close>

definition full_settlement_payload ::
    "evidence_library \<Rightarrow> devnet_evidence_content \<Rightarrow> compact_settlement_payload \<Rightarrow>
     devnet_evidence_error + settlement_payload" where
  "full_settlement_payload lib evidence payload =
     (let accounts = dv_accounts evidence; configuration = dv_configuration evidence in
      try_bind (parse_pubkey lib (ea_epoch accounts)) (\<lambda>epoch_account.
      try_bind (parse_digest (em_lock_digest (dv_commitments evidence))) (\<lambda>lock_digest.
      try_bind (parse_pubkey lib (ea_base_mint accounts)) (\<lambda>base_mint.
      try_bind (parse_pubkey lib (ea_quote_mint accounts)) (\<lambda>quote_mint.
      try_bind (parse_pubkey lib (ea_pool_base_vault accounts)) (\<lambda>pool_base_vault.
      try_bind (parse_pubkey lib (ea_pool_quote_vault accounts)) (\<lambda>pool_quote_vault.
      try_bind (parse_pubkey lib (ea_venue_base_account accounts)) (\<lambda>venue_base_account.
      try_bind (parse_pubkey lib (ea_venue_quote_account accounts)) (\<lambda>venue_quote_account.
      try_bind (parse_pubkey lib (ea_venue_authority accounts)) (\<lambda>venue_authority.
      Inr \<lparr> sp_epoch_account = epoch_account,
            sp_lock_digest = lock_digest,
            sp_result_commitment = cs_result_commitment payload,
            sp_residual_side = cs_residual_side payload,
            sp_residual_lots = cs_residual_lots payload,
            sp_base_lot_atoms = ecf_base_lot_atoms configuration,
            sp_quote_atoms_per_lot = ecf_quote_atoms_per_lot configuration,
            sp_base_mint = base_mint,
            sp_quote_mint = quote_mint,
            sp_pool_base_vault = pool_base_vault,
            sp_pool_quote_vault = pool_quote_vault,
            sp_venue_base_account = venue_base_account,
            sp_venue_quote_account = venue_quote_account,
            sp_venue_authority = venue_authority,
            sp_settlement_nonce = cs_settlement_nonce payload \<rparr>))))))))))"

text \<open>
  One round of the loop: the kind and the digest of the instruction, the digest of the program's instruction and
  the set of signers after it.
\<close>

definition decode_kageb_instruction ::
    "suite \<Rightarrow> runtime \<Rightarrow> evidence_library \<Rightarrow> devnet_evidence_content \<Rightarrow> utf8 \<Rightarrow> pubkey \<Rightarrow> compiled_instruction \<Rightarrow>
     bytes32 option \<Rightarrow> pubkey set \<Rightarrow> devnet_evidence_error + (utf8 \<times> bytes32 \<times> bytes32 option \<times> pubkey set)" where
  "decode_kageb_instruction c rt lib evidence transaction_name program instr actual_program_digest actual_signers =
     (if program = rt_ed25519_program rt then
        try_bind (verify_ed25519_instruction c rt
          \<lparr> ix_program_id = program, ix_accounts = [], ix_data = ci_data instr \<rparr>) (\<lambda>parsed.
        if se_signer parsed \<in> actual_signers then Inl WrongKeyper
        else Inr (if transaction_name = ascii ''lock'' then ascii ''keyper-lock-approval''
                  else ascii ''keyper-settlement-approval'',
             se_digest parsed, actual_program_digest, insert (se_signer parsed) actual_signers))
      else if program = ID then
        try_bind (map_err (\<lambda>_. InvalidTransaction) (instruction_decode (ci_data instr))) (\<lambda>decoded.
        try_bind (case decoded of
            Lock payload \<Rightarrow>
              if transaction_name = ascii ''lock''
              then Inr (ascii ''epoch-lock'', lock_payload_digest (hash256 c) payload)
              else Inl InvalidTransaction
          | Settle payload \<Rightarrow>
              if transaction_name = ascii ''settlement''
              then try_bind (full_settlement_payload lib evidence payload) (\<lambda>full.
                Inr (ascii ''aggregate-settlement'', settlement_payload_digest (hash256 c) full))
              else Inl InvalidTransaction
          | _ \<Rightarrow> Inl InvalidTransaction) (\<lambda>(kind, digest).
        Inr (kind, digest, Some digest, actual_signers)))
      else Inl InvalidTransaction)"

fun decode_kageb_instructions ::
    "suite \<Rightarrow> runtime \<Rightarrow> evidence_library \<Rightarrow> devnet_evidence_content \<Rightarrow> utf8 \<Rightarrow> pubkey list \<Rightarrow> nat \<Rightarrow> bytes32 option \<Rightarrow>
     pubkey set \<Rightarrow> compiled_instruction list \<Rightarrow>
     devnet_evidence_error + (decoded_instruction_evidence list \<times> bytes32 option \<times> pubkey set)" where
  "decode_kageb_instructions c rt lib evidence name keys pos actual_program_digest actual_signers [] =
     Inr ([], actual_program_digest, actual_signers)"
| "decode_kageb_instructions c rt lib evidence name keys pos actual_program_digest actual_signers (instr # rest) =
     try_bind (ok_or (key_at keys (ci_program_id_index instr)) InvalidTransaction) (\<lambda>program.
     try_bind (decode_kageb_instruction c rt lib evidence name program instr actual_program_digest actual_signers)
       (\<lambda>(kind, digest, actual_program_digest, actual_signers).
     if 2 ^ 16 \<le> pos then Inl InvalidTransaction
     else
     try_bind (decode_kageb_instructions c rt lib evidence name keys (pos + 1) actual_program_digest
       actual_signers rest) (\<lambda>(decoded, actual_program_digest, actual_signers).
     Inr (\<lparr> de_transaction = name,
            de_position = of_nat pos,
            de_program = el_pubkey_string lib program,
            de_kind = kind,
            de_digest = Some (hex_digest (arr_bytes digest)) \<rparr> # decoded, actual_program_digest, actual_signers))))"

definition decode_inner_leg ::
    "evidence_library \<Rightarrow> devnet_evidence_content \<Rightarrow> utf8 \<Rightarrow> pubkey list \<Rightarrow> nat \<times> ui_instruction \<Rightarrow>
     devnet_evidence_error + decoded_instruction_evidence" where
  "decode_inner_leg lib evidence name keys = (\<lambda>(pos, instr).
     case instr of
       UI_Parsed \<Rightarrow> Inl InvalidTransaction
     | UI_Compiled instr \<Rightarrow>
         if key_at keys (uc_program_id_index instr) \<noteq> Some TOKEN_PROGRAM_ID \<or> length (uc_accounts instr) \<noteq> 4
         then Inl InvalidTransaction
         else
         try_bind (ok_or (key_at keys (uc_accounts instr ! 1)) InvalidTransaction) (\<lambda>mint.
         try_bind (parse_pubkey lib (ea_base_mint (dv_accounts evidence))) (\<lambda>base_mint.
         try_bind (
           if mint = base_mint then Inr (ascii ''aggregate-base-leg'')
           else
           try_bind (parse_pubkey lib (ea_quote_mint (dv_accounts evidence))) (\<lambda>quote_mint.
           if mint = quote_mint then Inr (ascii ''aggregate-quote-leg'')
           else Inl InvalidTransaction)) (\<lambda>kind.
         if 2 ^ 16 \<le> pos then Inl InvalidTransaction
         else Inr \<lparr> de_transaction = name,
                    de_position = of_nat pos,
                    de_program = el_pubkey_string lib TOKEN_PROGRAM_ID,
                    de_kind = kind,
                    de_digest = None \<rparr>))))"

definition decode_kageb_transaction ::
    "suite \<Rightarrow> runtime \<Rightarrow> evidence_library \<Rightarrow> confirmed_transaction \<Rightarrow> utf8 \<Rightarrow> devnet_evidence_content \<Rightarrow>
     devnet_evidence_error + decoded_instruction_evidence list" where
  "decode_kageb_transaction c rt lib confirmed transaction_name evidence =
     try_bind (ok_or (ct_decoded confirmed) InvalidTransaction) (\<lambda>transaction.
     let keys = vt_keys transaction; instructions = vt_instructions transaction in
     try_bind (decode_kageb_instructions c rt lib evidence transaction_name keys 0 None {} instructions)
       (\<lambda>(decoded, actual_program_digest, actual_signers).
     try_bind (ok_or actual_program_digest InvalidTransaction) (\<lambda>actual_program_digest.
     if list_ex (\<lambda>instr. de_digest instr \<noteq> Some (hex_digest (arr_bytes actual_program_digest))) decoded
     then Inl InvalidTransaction
     else
     try_bind (parse_keypers lib (ecf_keypers (dv_configuration evidence))) (\<lambda>expected_keypers.
     if \<not> actual_signers \<subseteq> set (keyper_list expected_keypers) then Inl WrongKeyper
     else if transaction_name = ascii ''settlement'' then
       try_bind (ok_or (ct_meta confirmed) InvalidTransaction) (\<lambda>meta.
       try_bind (case tm_inner meta of
           OS_Some inner \<Rightarrow> Inr inner
         | OS_None \<Rightarrow> Inl InvalidTransaction
         | OS_Skip \<Rightarrow> Inl InvalidTransaction) (\<lambda>inner.
       try_bind (ok_or (find (\<lambda>grp. ui_index grp = 2) inner) InvalidTransaction) (\<lambda>grp.
       try_bind (try_map (decode_inner_leg lib evidence transaction_name keys)
         (enumerate (length instructions) (ui_instructions grp))) (\<lambda>legs.
       Inr (decoded @ legs)))))
     else Inr decoded))))"

section \<open>The snapshot\<close>

definition observer_accounts ::
    "evidence_library \<Rightarrow> devnet_evidence_content \<Rightarrow> devnet_evidence_error + kageb_observer_accounts" where
  "observer_accounts lib evidence =
     (let accounts = dv_accounts evidence in
      try_bind (parse_pubkey lib (ea_fee_payer accounts)) (\<lambda>fee_payer.
      try_bind (parse_pubkey lib (ea_operator accounts)) (\<lambda>payer.
      try_bind (parse_pubkey lib (ea_pool accounts)) (\<lambda>pool.
      try_bind (parse_pubkey lib (ea_epoch accounts)) (\<lambda>epoch.
      try_bind (parse_pubkey lib (ea_vault_authority accounts)) (\<lambda>vault_authority.
      try_bind (parse_pubkey lib (ea_pool_base_vault accounts)) (\<lambda>pool_base_vault.
      try_bind (parse_pubkey lib (ea_pool_quote_vault accounts)) (\<lambda>pool_quote_vault.
      try_bind (parse_pubkey lib (ea_venue_authority accounts)) (\<lambda>venue_authority.
      try_bind (parse_pubkey lib (ea_venue_base_account accounts)) (\<lambda>venue_base_account.
      try_bind (parse_pubkey lib (ea_venue_quote_account accounts)) (\<lambda>venue_quote_account.
      try_bind (parse_pubkey lib (ea_base_mint accounts)) (\<lambda>base_mint.
      try_bind (parse_pubkey lib (ea_quote_mint accounts)) (\<lambda>quote_mint.
      Inr \<lparr> oa_fee_payer = fee_payer, oa_payer = payer, oa_pool = pool, oa_epoch = epoch,
            oa_vault_authority = vault_authority, oa_pool_base_vault = pool_base_vault,
            oa_pool_quote_vault = pool_quote_vault, oa_venue_authority = venue_authority,
            oa_venue_base_account = venue_base_account, oa_venue_quote_account = venue_quote_account,
            oa_base_mint = base_mint, oa_quote_mint = quote_mint,
            oa_base_lot_atoms = ecf_base_lot_atoms (dv_configuration evidence),
            oa_quote_atoms_per_lot = ecf_quote_atoms_per_lot (dv_configuration evidence) \<rparr>)))))))))))))"

definition fetch_live_token_accounts ::
    "evidence_library \<Rightarrow> evidence_rpc \<Rightarrow> devnet_evidence_content \<Rightarrow>
     devnet_evidence_error + public_account_snapshot four" where
  "fetch_live_token_accounts lib rpc evidence =
     (let accounts = dv_accounts evidence;
          fetch = (\<lambda>address. try_bind (parse_pubkey lib address) (fetch_finalized_account rpc)) in
      try_bind (fetch (ea_pool_base_vault accounts)) (\<lambda>pool_base.
      try_bind (fetch (ea_pool_quote_vault accounts)) (\<lambda>pool_quote.
      try_bind (fetch (ea_venue_base_account accounts)) (\<lambda>venue_base.
      try_bind (fetch (ea_venue_quote_account accounts)) (\<lambda>venue_quote.
      Inr (pool_base, pool_quote, venue_base, venue_quote))))))"

text \<open>One round of the loop over the six transactions.\<close>

definition fetch_transaction ::
    "evidence_library \<Rightarrow> evidence_rpc \<Rightarrow> transaction_status option \<times> evidence_transaction \<times> bytes64 \<Rightarrow>
     devnet_evidence_error + (finalized_transaction_snapshot \<times> confirmed_transaction)" where
  "fetch_transaction lib rpc = (\<lambda>(status, expected, signature).
     try_bind (ok_or status MissingTransaction) (\<lambda>status.
     let finalized = ts_finalized status; succeeded = \<not> ts_err status \<and> \<not> ts_status_err status in
     try_bind (ok_or (er_transaction rpc signature) MissingTransaction) (\<lambda>fetched.
     try_bind (ok_or (ct_decoded fetched) InvalidTransaction) (\<lambda>decoded.
     try_bind (verify_queried_transaction lib decoded signature) (\<lambda>_.
     Inr (\<lparr> fs_signature = et_signature expected, fs_slot = ct_slot fetched, fs_status_slot = ts_slot status,
            fs_finalized = finalized, fs_succeeded = succeeded \<rparr>, fetched))))))"

fun decode_fundings ::
    "evidence_library \<Rightarrow> devnet_evidence_content \<Rightarrow> pubkey set \<Rightarrow> nat \<Rightarrow>
     (funding_transaction_evidence \<times> confirmed_transaction) list \<Rightarrow>
     devnet_evidence_error + decoded_instruction_evidence list" where
  "decode_fundings lib evidence funding_sources index [] = Inr []"
| "decode_fundings lib evidence funding_sources index ((funding, transaction) # rest) =
     try_bind (decode_funding_transaction lib transaction index funding evidence funding_sources)
       (\<lambda>(decoded, funding_sources).
     try_bind (decode_fundings lib evidence funding_sources (index + 1) rest) (\<lambda>others.
     Inr (decoded @ others)))"

definition fetch_devnet_public_snapshot ::
    "suite \<Rightarrow> runtime \<Rightarrow> evidence_library \<Rightarrow> evidence_rpc \<Rightarrow> devnet_evidence_bundle \<Rightarrow>
     devnet_evidence_error + devnet_public_snapshot" where
  "fetch_devnet_public_snapshot c rt lib rpc bundle =
     try_bind (verify_content_hash c lib bundle) (\<lambda>_.
     try_bind (ok_or (er_genesis_hash rpc) RpcUnavailable) (\<lambda>genesis_hash.
     if genesis_hash \<noteq> DEVNET_GENESIS_HASH then Inl WrongGenesis
     else let evidence = db_content bundle in
     try_bind (parse_pubkey lib (ed_program (dv_deployment evidence))) (\<lambda>program_address.
     try_bind (parse_pubkey lib (ed_programdata (dv_deployment evidence))) (\<lambda>programdata_address.
     try_bind (parse_pubkey lib (ea_pool (dv_accounts evidence))) (\<lambda>pool_address.
     try_bind (parse_pubkey lib (ea_epoch (dv_accounts evidence))) (\<lambda>epoch_address.
     try_bind (parse_pubkey lib (ea_base_mint (dv_accounts evidence))) (\<lambda>base_mint_address.
     try_bind (parse_pubkey lib (ea_quote_mint (dv_accounts evidence))) (\<lambda>quote_mint_address.
     try_bind (fetch_finalized_account rpc program_address) (\<lambda>program.
     try_bind (fetch_finalized_account rpc programdata_address) (\<lambda>programdata.
     try_bind (fetch_finalized_account rpc pool_address) (\<lambda>pool.
     try_bind (fetch_finalized_account rpc epoch_address) (\<lambda>epoch.
     try_bind (fetch_finalized_account rpc base_mint_address) (\<lambda>base_mint.
     try_bind (fetch_finalized_account rpc quote_mint_address) (\<lambda>quote_mint.
     let expected_transactions = evidence_transaction_list evidence in
     try_bind (try_map (\<lambda>transaction. ok_or (el_parse_signature lib (et_signature transaction)) InvalidPublicField)
       expected_transactions) (\<lambda>signatures.
     try_bind (ok_or (er_statuses rpc signatures) RpcUnavailable) (\<lambda>statuses.
     try_bind (validate_rpc_response_len (length statuses) (length signatures)) (\<lambda>_.
     try_bind (try_map (fetch_transaction lib rpc) (zip statuses (zip expected_transactions signatures)))
       (\<lambda>transactions.
     let transaction_snapshots = map fst transactions; fetched_transactions = map snd transactions in
     try_bind (decode_fundings lib evidence {} 0
       (zip (four_list (ets_funding (dv_transactions evidence))) fetched_transactions)) (\<lambda>funding_allowlist.
     let lock = fetched_transactions ! 4; settlement = fetched_transactions ! 5 in
     try_bind (observer_accounts lib evidence) (\<lambda>observer.
     try_bind (map_err (\<lambda>_. InvalidTransaction)
       (from_confirmed_kageb rt (el_tokens lib) lock settlement observer)) (\<lambda>_.
     try_bind (decode_kageb_transaction c rt lib lock (ascii ''lock'') evidence) (\<lambda>lock_allowlist.
     try_bind (decode_kageb_transaction c rt lib settlement (ascii ''settlement'') evidence) (\<lambda>settlement_allowlist.
     try_bind (transaction_token_balances lib settlement evidence) (\<lambda>token_balances.
     try_bind (fetch_live_token_accounts lib rpc evidence) (\<lambda>current_token_accounts.
     Inr \<lparr> sn_program = program, sn_programdata_address = programdata_address, sn_programdata = programdata,
           sn_pool = pool, sn_epoch = epoch, sn_base_mint = base_mint, sn_quote_mint = quote_mint,
           sn_current_token_accounts = current_token_accounts,
           sn_transactions = transaction_snapshots,
           sn_token_balances = token_balances,
           sn_decoded_allowlist = funding_allowlist @ lock_allowlist @ settlement_allowlist \<rparr>)))))))))))))))))))))))))"

definition verify_devnet_evidence_at_rpc ::
    "suite \<Rightarrow> runtime \<Rightarrow> evidence_library \<Rightarrow> evidence_rpc \<Rightarrow> devnet_evidence_bundle \<Rightarrow> byte list \<Rightarrow>
     devnet_evidence_error + unit" where
  "verify_devnet_evidence_at_rpc c rt lib rpc bundle checkpoint_artifact =
     try_bind (fetch_devnet_public_snapshot c rt lib rpc bundle) (\<lambda>snapshot.
     verify_devnet_evidence c rt lib bundle snapshot checkpoint_artifact)"

end
