(* ===== verification/Observer_Properties.thy ===== *)
theory Observer_Properties
  imports Observer Program_Properties Settlement_Wire
begin

text \<open>
  What the public observer accepts: the shape of the transactions behind a trace, the token effects, and that the
  transfers of the program's settlement are exactly those the observer expects.
\<close>

section \<open>Instructions of an accepted transaction\<close>

text \<open>
  \<open>resolves keys ci ix\<close>: the compiled instruction \<open>ci\<close>, read through the account keys of its
  message, is the instruction \<open>ix\<close>.
\<close>

definition resolves :: "pubkey list \<Rightarrow> compiled_instruction \<Rightarrow> instruction \<Rightarrow> bool" where
  "resolves keys ci ix \<longleftrightarrow>
     key_at keys (ci_program_id_index ci) = Some (ix_program_id ix) \<and>
     map (key_at keys) (ci_accounts ci) = map (Some \<circ> fst) (ix_accounts ix) \<and>
     ci_data ci = ix_data ix"

definition strict_verification :: "runtime \<Rightarrow> pubkey list \<Rightarrow> compiled_instruction \<Rightarrow> bool" where
  "strict_verification rt keys ci \<longleftrightarrow>
     (\<exists>ix. resolves keys ci ix \<and> is_ok (parse_strict_ed25519 rt ix))"

lemma require_accounts_iff: "require_accounts keys is expected = Inr u \<longleftrightarrow> map (key_at keys) is = map Some expected"
proof -
  have "map (key_at keys) is = map Some expected \<longleftrightarrow>
      length is = length expected \<and> (\<forall>i < length is. key_at keys (is ! i) = Some (expected ! i))"
    by (auto simp: list_eq_iff_nth_eq)
  then show ?thesis
    by (auto simp: require_accounts_def list_ex_length)
qed

lemma length_first_occurrences:
  "length (filter (\<lambda>(i, k). k \<notin> set (take i (ys @ xs))) (enumerate (length ys) xs)) = card (set xs - set ys)"
proof (induction xs arbitrary: ys)
  case (Cons x xs)
  have "card (set (x # xs) - set ys) = (if x \<in> set ys then 0 else 1) + card (set xs - insert x (set ys))"
  proof (cases "x \<in> set ys")
    case True
    then show ?thesis by (simp add: insert_absorb)
  next
    case False
    then have "set (x # xs) - set ys = insert x (set xs - insert x (set ys))" by auto
    with False show ?thesis by simp
  qed
  then show ?case using Cons [of "ys @ [x]"] by simp
qed simp

lemma require_exact_keys_iff:
  "require_exact_keys keys expected = Inr u \<longleftrightarrow> distinct keys \<and> set keys = set expected"
proof -
  have "length (filter (\<lambda>(i, k). k \<notin> set (take i expected)) (enumerate 0 expected)) = card (set expected)"
    using length_first_occurrences [of "[]" expected] by simp
  then have "require_exact_keys keys expected = Inr u \<longleftrightarrow> length keys = card (set expected) \<and> set keys = set expected"
    by (auto simp: require_exact_keys_def list_ex_iff Let_def)
  then show ?thesis
    using card_distinct [of keys] distinct_card [of keys] by auto
qed

lemma require_fee_payer_iff: "require_fee_payer keys k = Inr u \<longleftrightarrow> (\<exists>rest. keys = k # rest)"
  by (cases keys) (auto simp: require_fee_payer_def)

lemma decode_confirmed_iff:
  "decode_confirmed t = Inr d \<longleftrightarrow>
     (\<exists>m tx. ct_meta t = Some m \<and> \<not> tm_err m \<and> \<not> tm_status_err m \<and> ct_decoded t = Some tx \<and>
        d = \<lparr>dc_keys = vt_keys tx, dc_instructions = vt_instructions tx,
             dc_inner = (case tm_inner m of OS_Some inner \<Rightarrow> inner | _ \<Rightarrow> [])\<rparr>)"
  by (auto simp: decode_confirmed_def res_simps Let_def)

lemma strict_verification_iff:
  "strict_verification rt keys ci \<longleftrightarrow>
     key_at keys (ci_program_id_index ci) = Some (rt_ed25519_program rt) \<and> ci_accounts ci = [] \<and>
     is_ok (parse_strict_ed25519 rt
       \<lparr>ix_program_id = rt_ed25519_program rt, ix_accounts = [], ix_data = ci_data ci\<rparr>)"
proof
  assume "strict_verification rt keys ci"
  then obtain ix where ix: "resolves keys ci ix" and "is_ok (parse_strict_ed25519 rt ix)"
    by (auto simp: strict_verification_def)
  then obtain p where p: "parse_strict_ed25519 rt ix = Inr p" by (auto simp: is_ok_iff)
  then have "ix_program_id ix = rt_ed25519_program rt" "ix_accounts ix = []"
    by (auto simp: parse_strict_ed25519_def Let_def split: if_splits)
  moreover from this ix have "ix = \<lparr>ix_program_id = rt_ed25519_program rt, ix_accounts = [], ix_data = ci_data ci\<rparr>"
    by (simp add: resolves_def)
  ultimately show "key_at keys (ci_program_id_index ci) = Some (rt_ed25519_program rt) \<and> ci_accounts ci = [] \<and>
     is_ok (parse_strict_ed25519 rt
       \<lparr>ix_program_id = rt_ed25519_program rt, ix_accounts = [], ix_data = ci_data ci\<rparr>)"
    using ix p by (simp add: resolves_def)
qed (auto simp: strict_verification_def resolves_def intro!: exI)

lemma exact_loop_found:
  "exact_loop rt keys d i (Some ci) a is = Inr r \<longleftrightarrow> is = [] \<and> r = (Some ci, a)"
  by (cases "is") (auto simp: res_simps)

lemma exact_loop_None:
  assumes "i = unat a"
  shows "exact_loop rt keys d i None a is = Inr (Some ci, n) \<longleftrightarrow>
    (\<exists>vs. is = vs @ [ci] \<and> list_all (strict_verification rt keys) vs \<and> unat n = unat a + length vs \<and>
       key_at keys (ci_program_id_index ci) = Some ID \<and> ID \<noteq> rt_ed25519_program rt \<and>
       ci_data ci \<noteq> [] \<and> hd (ci_data ci) = d)"
  using assms
proof (induction "is" arbitrary: i a)
  case (Cons x xs)
  have step: "checked_add a 1 = Some b \<Longrightarrow> i + 1 = unat b \<and> unat b = unat a + 1" for b
    using Cons.prems by (simp add: checked_add_Some)
  consider (none) "key_at keys (ci_program_id_index x) = None"
    | (verify) "key_at keys (ci_program_id_index x) = Some (rt_ed25519_program rt)"
    | (kageb) "key_at keys (ci_program_id_index x) = Some ID" "ID \<noteq> rt_ed25519_program rt"
    | (other) p where "key_at keys (ci_program_id_index x) = Some p" "p \<noteq> ID" "p \<noteq> rt_ed25519_program rt"
    by (cases "key_at keys (ci_program_id_index x)") auto
  then show ?case
  proof cases
    case verify
    have lhs: "exact_loop rt keys d i None a (x # xs) = Inr (Some ci, n) \<longleftrightarrow> strict_verification rt keys x \<and>
        (\<exists>b. checked_add a 1 = Some b \<and> exact_loop rt keys d (i + 1) None b xs = Inr (Some ci, n))"
      using verify by (auto simp: res_simps strict_verification_iff is_ok_iff)
    have "(\<exists>b. checked_add a 1 = Some b \<and> exact_loop rt keys d (i + 1) None b xs = Inr (Some ci, n)) \<longleftrightarrow>
        (\<exists>vs. xs = vs @ [ci] \<and> list_all (strict_verification rt keys) vs \<and> unat n = unat a + 1 + length vs \<and>
          key_at keys (ci_program_id_index ci) = Some ID \<and> ID \<noteq> rt_ed25519_program rt \<and>
          ci_data ci \<noteq> [] \<and> hd (ci_data ci) = d)" (is "?L \<longleftrightarrow> ?R")
    proof
      assume ?L
      then obtain b where "checked_add a 1 = Some b" "exact_loop rt keys d (i + 1) None b xs = Inr (Some ci, n)" by blast
      with Cons.IH [of "i + 1" b] step [of b] show ?R by auto
    next
      assume ?R
      then have "unat a + 1 < 256" using unsigned_less [where 'a = nat, of n] by auto
      then obtain b where b: "checked_add a 1 = Some b" by (simp add: checked_add_def)
      with Cons.IH [of "i + 1" b] step [of b] \<open>?R\<close> show ?L by auto
    qed
    with lhs verify show ?thesis by (auto simp: Cons_eq_append_conv)
  next
    case kageb
    then show ?thesis
      using Cons.prems by (auto simp: exact_loop_found strict_verification_iff Cons_eq_append_conv
          intro: word_unat_eq_iff [THEN iffD2])
  qed (auto simp: strict_verification_iff Cons_eq_append_conv)
qed simp

lemma exact_kageb_instruction_iff:
  "exact_kageb_instruction rt t d = Inr (ci, n) \<longleftrightarrow>
     (\<exists>vs. dc_instructions t = vs @ [ci] \<and> list_all (strict_verification rt (dc_keys t)) vs \<and> unat n = length vs \<and>
        key_at (dc_keys t) (ci_program_id_index ci) = Some ID \<and> ID \<noteq> rt_ed25519_program rt \<and>
        ci_data ci \<noteq> [] \<and> hd (ci_data ci) = d)"
  using exact_loop_None [of 0 0 rt "dc_keys t" d "dc_instructions t" ci n]
  by (auto simp: exact_kageb_instruction_def res_simps)

lemma two_approvals:
  "(\<exists>vs. is = vs @ [ci] \<and> list_all P vs \<and> unat (2 :: u8) = length vs \<and> Q) \<longleftrightarrow>
   (\<exists>v1 v2. is = [v1, v2, ci] \<and> P v1 \<and> P v2 \<and> Q)"
proof -
  have "unat (2 :: u8) = length vs \<longleftrightarrow> (\<exists>v1 v2. vs = [v1, v2])" for vs :: "'a list"
    by (cases vs rule: remdups_adj.cases) auto
  then show ?thesis by auto
qed

section \<open>Token effects\<close>

text \<open>The accounts and the amount of a checked transfer at zero decimals, as a public inner instruction shows it.\<close>

definition observed_transfer :: "token_library \<Rightarrow> pubkey list \<Rightarrow> ui_instruction \<Rightarrow> pubkey list \<Rightarrow> u64 \<Rightarrow> bool" where
  "observed_transfer lib keys instr accounts amount \<longleftrightarrow>
     (\<exists>u data. instr = UI_Compiled u \<and> key_at keys (uc_program_id_index u) = Some TOKEN_PROGRAM_ID \<and>
        map (key_at keys) (uc_accounts u) = map Some accounts \<and> tl_bs58_decode lib (uc_data u) = Some data \<and>
        tl_unpack lib data = Some (TransferChecked amount 0))"

lemma validate_transfer_iff:
  "validate_transfer lib keys (instr, accounts, amount) = Inr u \<longleftrightarrow> observed_transfer lib keys instr accounts amount"
proof -
  have "(case token of TransferChecked a d \<Rightarrow> if d = 0 \<and> a = amount then Inr () else Inl UnexpectedTokenEffect
       | Other_token_instruction \<Rightarrow> Inl UnexpectedTokenEffect) = Inr u \<longleftrightarrow> token = TransferChecked amount 0" for token
    by (cases token) auto
  then show ?thesis
    by (cases instr) (auto simp: validate_transfer_def observed_transfer_def res_simps require_accounts_iff)
qed

definition observed_legs ::
    "token_library \<Rightarrow> pubkey list \<Rightarrow> ui_inner_instructions list \<Rightarrow> u8 \<Rightarrow> (pubkey list \<times> u64) list \<Rightarrow> bool" where
  "observed_legs lib keys inner index legs \<longleftrightarrow>
     inner = [] \<and> legs = [] \<or>
     (\<exists>instrs. inner = [\<lparr>ui_index = index, ui_instructions = instrs\<rparr>] \<and>
        list_all2 (\<lambda>instr (accounts, amount). observed_transfer lib keys instr accounts amount) instrs legs)"

definition settlement_legs :: "kageb_observer_accounts \<Rightarrow> residual \<Rightarrow> (pubkey list \<times> u64) list \<Rightarrow> bool" where
  "settlement_legs accounts r legs \<longleftrightarrow>
     (\<exists>base quote. unat base = unat (oa_base_lot_atoms accounts) * unat (residual_lots_u64 r) \<and>
        unat quote = unat (oa_quote_atoms_per_lot accounts) * unat (residual_lots_u64 r) \<and>
        legs = expected_transfers accounts r base quote)"

lemma try_all_transfers:
  assumes "length instrs = length legs"
  shows "try_all (validate_transfer lib keys) (zip instrs legs) = Inr () \<longleftrightarrow>
    list_all2 (\<lambda>instr (accounts, amount). observed_transfer lib keys instr accounts amount) instrs legs"
  using assms
  by (induction instrs legs rule: list_induct2) (auto simp: validate_transfer_iff res_simps)

lemma observed_inner:
  "((if inner = [] \<and> legs = [] then Inr ()
     else try_bind (case inner of
         [grp] \<Rightarrow> if ui_index grp = index then Inr (ui_instructions grp) else Inl UnexpectedTokenEffect
       | _ \<Rightarrow> Inl UnexpectedTokenEffect) (\<lambda>instructions.
       if length instructions \<noteq> length legs then Inl UnexpectedTokenEffect
       else try_all (validate_transfer lib keys) (zip instructions legs))) = Inr u) \<longleftrightarrow>
   observed_legs lib keys inner index legs"
proof (cases inner rule: remdups_adj.cases)
  case (2 g)
  have g: "g = \<lparr>ui_index = index, ui_instructions = instrs\<rparr> \<longleftrightarrow> ui_index g = index \<and> ui_instructions g = instrs"
    for instrs by (cases g) auto
  show ?thesis
    using 2 try_all_transfers [of "ui_instructions g" legs lib keys]
    by (auto simp: observed_legs_def res_simps g dest: list_all2_lengthD)
qed (auto simp: observed_legs_def)

lemma validate_settlement_token_effects_iff:
  "validate_settlement_token_effects lib inner keys index accounts r = Inr u \<longleftrightarrow>
     (\<exists>legs. settlement_legs accounts r legs \<and> observed_legs lib keys inner index legs)"
proof -
  have "validate_settlement_token_effects lib inner keys index accounts r = Inr u \<longleftrightarrow>
     (\<exists>base quote legs. checked_mul (oa_base_lot_atoms accounts) (residual_lots_u64 r) = Some base \<and>
        checked_mul (oa_quote_atoms_per_lot accounts) (residual_lots_u64 r) = Some quote \<and>
        legs = expected_transfers accounts r base quote \<and> observed_legs lib keys inner index legs)"
    by (simp add: validate_settlement_token_effects_def res_simps Let_def observed_inner)
  then show ?thesis by (auto simp: settlement_legs_def checked_mul_Some)
qed

section \<open>Accepted traces\<close>

definition inner_instructions :: "transaction_meta \<Rightarrow> ui_inner_instructions list" where
  "inner_instructions m = (case tm_inner m of OS_Some inner \<Rightarrow> inner | _ \<Rightarrow> [])"

text \<open>The transaction is confirmed without an error, with this metadata and this decoded form.\<close>

definition succeeded :: "confirmed_transaction \<Rightarrow> transaction_meta \<Rightarrow> versioned_transaction \<Rightarrow> bool" where
  "succeeded t m tx \<longleftrightarrow>
     ct_meta t = Some m \<and> \<not> tm_err m \<and> \<not> tm_status_err m \<and> ct_decoded t = Some tx"

lemma decode_succeeded:
  "decode_confirmed t = Inr d \<longleftrightarrow>
     (\<exists>m tx. succeeded t m tx \<and> d = \<lparr>dc_keys = vt_keys tx, dc_instructions = vt_instructions tx,
        dc_inner = inner_instructions m\<rparr>)"
  by (auto simp: decode_confirmed_iff succeeded_def inner_instructions_def)

text \<open>
  A KageB transaction: the fee payer first, no keys besides the expected ones, two strict Ed25519 verifications
  and then one instruction, which is \<open>ix\<close>.
\<close>

definition quorum_transaction :: "runtime \<Rightarrow> pubkey \<Rightarrow> pubkey list \<Rightarrow> versioned_transaction \<Rightarrow> instruction \<Rightarrow> bool" where
  "quorum_transaction rt fee_payer expected tx ix \<longleftrightarrow>
     (\<exists>rest. vt_keys tx = fee_payer # rest) \<and> distinct (vt_keys tx) \<and> set (vt_keys tx) = set expected \<and>
     (\<exists>v1 v2 ci. vt_instructions tx = [v1, v2, ci] \<and> strict_verification rt (vt_keys tx) v1 \<and>
        strict_verification rt (vt_keys tx) v2 \<and> resolves (vt_keys tx) ci ix)"

definition settle_accounts_of :: "kageb_observer_accounts \<Rightarrow> settle_accounts" where
  "settle_accounts_of a =
     \<lparr> sa_payer = oa_payer a, sa_pool = oa_pool a, sa_epoch = oa_epoch a, sa_vault_authority = oa_vault_authority a,
       sa_pool_base_vault = oa_pool_base_vault a, sa_pool_quote_vault = oa_pool_quote_vault a,
       sa_venue_authority = oa_venue_authority a, sa_venue_base_account = oa_venue_base_account a,
       sa_venue_quote_account = oa_venue_quote_account a, sa_base_mint = oa_base_mint a,
       sa_quote_mint = oa_quote_mint a \<rparr>"

lemma decode_residual:
  "((let side = cs_residual_side c; lots = cs_residual_lots c in
     if side = 0 \<and> lots = 0 then Inr Residual_none
     else if side = 1 \<and> 1 \<le> lots then Inr (Residual_buy lots)
     else if side = 2 \<and> 1 \<le> lots then Inr (Residual_sell lots)
     else Inl InvalidResidual) = Inr r) \<longleftrightarrow>
   residual_of_wire (cs_residual_side c) (cs_residual_lots c) = Inr r"
  by (simp add: residual_of_wire_def Let_def)

lemma decode_case:
  "(case i of Settle p \<Rightarrow> Inr p | _ \<Rightarrow> Inl UnexpectedInstruction) = Inr c \<longleftrightarrow> i = Settle c"
  "(case i of Lock p \<Rightarrow> if P p then Inr p else Inl UnexpectedInstruction | _ \<Rightarrow> Inl UnexpectedInstruction) = Inr q \<longleftrightarrow>
     i = Lock q \<and> P q"
  by (cases i; auto)+

lemma decode_iff: "instruction_decode data = Inr i \<longleftrightarrow> data = instruction_encode i"
  by (auto dest: instruction_decode_sound)

lemma lock_keys_resolve:
  "map (Some \<circ> fst) (ix_accounts (lock_instruction rt (oa_payer a) (oa_pool a) (oa_epoch a) p)) =
     map Some (lock_accounts rt a)"
  by (simp add: lock_instruction_def lock_accounts_def meta_new_def meta_readonly_def)

lemma settle_keys_resolve:
  "map (Some \<circ> fst) (ix_accounts (settle_instruction rt (settle_accounts_of a) q)) = map Some (settlement_accounts rt a)"
  by (simp add: settle_instruction_def settlement_accounts_def settle_accounts_of_def meta_new_def meta_readonly_def)

lemma approved_instruction:
  assumes "exact_kageb_instruction rt \<lparr>dc_keys = vt_keys tx, dc_instructions = vt_instructions tx, dc_inner = inner\<rparr> d =
      Inr (ci, 2)"
    and "require_fee_payer (vt_keys tx) fee_payer = Inr ()" "require_exact_keys (vt_keys tx) expected = Inr ()"
    and "require_accounts (vt_keys tx) (ci_accounts ci) accounts = Inr ()"
    and "map (Some \<circ> fst) (ix_accounts ix) = map Some accounts" "ix_program_id ix = ID" "ci_data ci = ix_data ix"
  shows "quorum_transaction rt fee_payer expected tx ix" "ID \<noteq> rt_ed25519_program rt"
  using assms
  unfolding exact_kageb_instruction_iff two_approvals require_fee_payer_iff require_exact_keys_iff require_accounts_iff
  by (auto simp: quorum_transaction_def resolves_def)

lemma approved_instructionE:
  assumes "quorum_transaction rt fee_payer expected tx ix" "ID \<noteq> rt_ed25519_program rt"
    and "map (Some \<circ> fst) (ix_accounts ix) = map Some accounts" "ix_program_id ix = ID"
    and "ix_data ix \<noteq> []" "hd (ix_data ix) = d"
  obtains ci where
    "exact_kageb_instruction rt \<lparr>dc_keys = vt_keys tx, dc_instructions = vt_instructions tx, dc_inner = inner\<rparr> d = Inr (ci, 2)"
    "require_fee_payer (vt_keys tx) fee_payer = Inr ()" "require_exact_keys (vt_keys tx) expected = Inr ()"
    "require_accounts (vt_keys tx) (ci_accounts ci) accounts = Inr ()" "ci_data ci = ix_data ix"
  using assms that
  unfolding exact_kageb_instruction_iff two_approvals require_fee_payer_iff require_exact_keys_iff require_accounts_iff
    quorum_transaction_def resolves_def
  by auto

text \<open>What acceptance says of the two transactions, of the payloads and of the trace.\<close>

definition observed_epoch ::
    "runtime \<Rightarrow> token_library \<Rightarrow> confirmed_transaction \<Rightarrow> confirmed_transaction \<Rightarrow> kageb_observer_accounts \<Rightarrow>
     lock_payload \<Rightarrow> settlement_payload \<Rightarrow> residual \<Rightarrow> bool" where
  "observed_epoch rt lib lt st a p q r \<longleftrightarrow>
     (\<exists>lm ltx sm stx legs. succeeded lt lm ltx \<and> succeeded st sm stx \<and>
        quorum_transaction rt (oa_fee_payer a) (observed_lock_keys rt a) ltx
          (lock_instruction rt (oa_payer a) (oa_pool a) (oa_epoch a) p) \<and>
        lp_epoch_account p = oa_epoch a \<and> 4 \<le> lp_member_count p \<and>
        quorum_transaction rt (oa_fee_payer a) (observed_settlement_keys rt a) stx
          (settle_instruction rt (settle_accounts_of a) q) \<and>
        residual_of_wire (sp_residual_side q) (sp_residual_lots q) = Inr r \<and>
        settlement_legs a r legs \<and> observed_legs lib (vt_keys stx) (inner_instructions sm) 2 legs)"

definition aggregate_trace :: "kageb_observer_accounts \<Rightarrow> lock_payload \<Rightarrow> settlement_payload \<Rightarrow> residual \<Rightarrow> public_trace" where
  "aggregate_trace a p q r =
     \<lparr>pt_actions = [Aggregate (oa_pool a) (oa_venue_authority a) r (lp_member_root p) (sp_result_commitment q) 2]\<rparr>"

lemma compact_surj: "\<exists>q. compact_from q = c"
  by (rule exI [of _ "full_payload undefined undefined undefined c"]) simp

lemma from_confirmed_kageb_sound:
  assumes "from_confirmed_kageb rt lib lt st a = Inr trace"
  shows "ID \<noteq> rt_ed25519_program rt \<and> (\<exists>p q r. observed_epoch rt lib lt st a p q r \<and> trace = aggregate_trace a p q r)"
proof -
  from assms obtain ld sd lci sci p c r where
    d: "decode_confirmed lt = Inr ld" "decode_confirmed st = Inr sd"
    and fee: "require_fee_payer (dc_keys ld) (oa_fee_payer a) = Inr ()"
      "require_fee_payer (dc_keys sd) (oa_fee_payer a) = Inr ()"
    and ix: "exact_kageb_instruction rt ld 2 = Inr (lci, 2)" "exact_kageb_instruction rt sd 3 = Inr (sci, 2)"
    and l: "require_exact_keys (dc_keys ld) (observed_lock_keys rt a) = Inr ()"
      "require_accounts (dc_keys ld) (ci_accounts lci) (lock_accounts rt a) = Inr ()"
      "ci_data lci = instruction_encode (Lock p)" "lp_epoch_account p = oa_epoch a" "4 \<le> lp_member_count p"
    and s: "require_exact_keys (dc_keys sd) (observed_settlement_keys rt a) = Inr ()"
      "require_accounts (dc_keys sd) (ci_accounts sci) (settlement_accounts rt a) = Inr ()"
      "ci_data sci = instruction_encode (Settle c)" "residual_of_wire (cs_residual_side c) (cs_residual_lots c) = Inr r"
      "validate_settlement_token_effects lib (dc_inner sd) (dc_keys sd) 2 a r = Inr ()"
    and t: "trace = \<lparr>pt_actions = [Aggregate (oa_pool a) (oa_venue_authority a) r (lp_member_root p)
        (cs_result_commitment c) 2]\<rparr>"
    unfolding from_confirmed_kageb_def
    by (auto simp only: res_simps decode_residual decode_case decode_iff case_prod_beta de_Morgan_disj not_not
        prod.sel sum.inject ex_simps)
  obtain q where q: "compact_from q = c" using compact_surj by blast
  from d obtain lm ltx sm stx where tx: "succeeded lt lm ltx" "succeeded st sm stx"
    and ld: "ld = \<lparr>dc_keys = vt_keys ltx, dc_instructions = vt_instructions ltx, dc_inner = inner_instructions lm\<rparr>"
    and sd: "sd = \<lparr>dc_keys = vt_keys stx, dc_instructions = vt_instructions stx, dc_inner = inner_instructions sm\<rparr>"
    by (auto simp: decode_succeeded)
  let ?l = "lock_instruction rt (oa_payer a) (oa_pool a) (oa_epoch a) p"
  let ?s = "settle_instruction rt (settle_accounts_of a) q"
  have lq: "quorum_transaction rt (oa_fee_payer a) (observed_lock_keys rt a) ltx ?l" "ID \<noteq> rt_ed25519_program rt"
    using approved_instruction [of rt ltx "inner_instructions lm" 2 lci "oa_fee_payer a" "observed_lock_keys rt a"
        "lock_accounts rt a" ?l] ix(1) fee(1) l(1-3) lock_keys_resolve [of rt a p]
    unfolding ld by (simp_all add: lock_instruction_def)
  have sq: "quorum_transaction rt (oa_fee_payer a) (observed_settlement_keys rt a) stx ?s"
    using ix(2) fee(2) s(1-3) q unfolding sd
    by (auto intro!: approved_instruction(1) [where ci = sci] settle_keys_resolve) (simp_all add: settle_instruction_def)
  from s(5) obtain legs where "settlement_legs a r legs" "observed_legs lib (vt_keys stx) (inner_instructions sm) 2 legs"
    by (auto simp: validate_settlement_token_effects_iff sd)
  moreover have r: "residual_of_wire (sp_residual_side q) (sp_residual_lots q) = Inr r"
    and t: "trace = aggregate_trace a p q r"
    using s(4) t q by (auto simp: compact_from_def aggregate_trace_def)
  ultimately have "observed_epoch rt lib lt st a p q r"
    unfolding observed_epoch_def using tx lq(1) l(4,5) sq by blast
  with lq(2) t show ?thesis by blast
qed

lemma from_confirmed_kageb_complete:
  assumes "observed_epoch rt lib lt st a p q r" "ID \<noteq> rt_ed25519_program rt"
  shows "from_confirmed_kageb rt lib lt st a = Inr (aggregate_trace a p q r)"
proof -
  let ?l = "lock_instruction rt (oa_payer a) (oa_pool a) (oa_epoch a) p"
  let ?s = "settle_instruction rt (settle_accounts_of a) q"
  from assms(1) obtain lm ltx sm stx legs where tx: "succeeded lt lm ltx" "succeeded st sm stx"
    and lq: "quorum_transaction rt (oa_fee_payer a) (observed_lock_keys rt a) ltx ?l"
    and p: "lp_epoch_account p = oa_epoch a" "4 \<le> lp_member_count p"
    and sq: "quorum_transaction rt (oa_fee_payer a) (observed_settlement_keys rt a) stx ?s"
    and r: "residual_of_wire (sp_residual_side q) (sp_residual_lots q) = Inr r"
    and legs: "settlement_legs a r legs" "observed_legs lib (vt_keys stx) (inner_instructions sm) 2 legs"
    unfolding observed_epoch_def by blast
  define ld where "ld = \<lparr>dc_keys = vt_keys ltx, dc_instructions = vt_instructions ltx, dc_inner = inner_instructions lm\<rparr>"
  define sd where "sd = \<lparr>dc_keys = vt_keys stx, dc_instructions = vt_instructions stx, dc_inner = inner_instructions sm\<rparr>"
  obtain lci where l: "exact_kageb_instruction rt ld 2 = Inr (lci, 2)"
    "require_fee_payer (vt_keys ltx) (oa_fee_payer a) = Inr ()" "require_exact_keys (vt_keys ltx) (observed_lock_keys rt a) = Inr ()"
    "require_accounts (vt_keys ltx) (ci_accounts lci) (lock_accounts rt a) = Inr ()"
    "ci_data lci = instruction_encode (Lock p)"
    using approved_instructionE [OF lq assms(2) lock_keys_resolve, of 2 "inner_instructions lm"]
    unfolding ld_def by (auto simp: lock_instruction_def)
  obtain sci where s: "exact_kageb_instruction rt sd 3 = Inr (sci, 2)"
    "require_fee_payer (vt_keys stx) (oa_fee_payer a) = Inr ()" "require_exact_keys (vt_keys stx) (observed_settlement_keys rt a) = Inr ()"
    "require_accounts (vt_keys stx) (ci_accounts sci) (settlement_accounts rt a) = Inr ()"
    "ci_data sci = instruction_encode (Settle (compact_from q))"
    using approved_instructionE [OF sq assms(2) settle_keys_resolve, of 3 "inner_instructions sm"]
    unfolding sd_def by (auto simp: settle_instruction_def instruction_layouts)
  have d: "decode_confirmed lt = Inr ld" "decode_confirmed st = Inr sd" "dc_keys ld = vt_keys ltx" "dc_keys sd = vt_keys stx"
    "dc_inner sd = inner_instructions sm"
    using tx by (auto simp: decode_succeeded ld_def sd_def)
  have v: "validate_settlement_token_effects lib (inner_instructions sm) (vt_keys stx) 2 a r = Inr ()"
    using legs validate_settlement_token_effects_iff by blast
  have c: "cs_residual_side (compact_from q) = sp_residual_side q" "cs_residual_lots (compact_from q) = sp_residual_lots q"
    "cs_result_commitment (compact_from q) = sp_result_commitment q" by (simp_all add: compact_from_def)
  have "instruction_decode (ci_data lci) = Inr (Lock p)" "instruction_decode (ci_data sci) = Inr (Settle (compact_from q))"
    by (simp_all only: l(5) s(5) instruction_decode_encode)
  with d l(1-4) s(1-4) p v decode_residual [THEN iffD2, of "compact_from q", unfolded c, OF r] show ?thesis
    by (simp add: from_confirmed_kageb_def aggregate_trace_def c)
qed

lemma aggregate_trace_private [simp]:
  "visible_participant_wallets (aggregate_trace a p q r) = []" "individual_order_count (aggregate_trace a p q r) = 0"
  "aggregate_count (aggregate_trace a p q r) = 1"
  by (simp_all add: visible_participant_wallets_def individual_order_count_def aggregate_count_def aggregate_trace_def
      List.map_filter_def)

text \<open>
  C33. The observer's decoding of an epoch is exact. It accepts a lock and a settlement transaction if and only if
  both succeeded, each is paid by the configured fee payer, names no account beyond the pool's, the venue's and the
  system's own, carries two strict Ed25519 verifications and then the program's own \<open>lock\<close> or
  \<open>settle\<close> instruction with the configured accounts, and the settlement's inner instructions are the two
  token transfers of the signed residual. The trace is then a single aggregate, in which no participant's wallet
  and no individual order is visible.
\<close>

theorem observed_epoch_exact:
  assumes "ID \<noteq> rt_ed25519_program rt"
  shows "from_confirmed_kageb rt lib lt st a = Inr trace \<longleftrightarrow>
      (\<exists>p q r. observed_epoch rt lib lt st a p q r \<and> trace = aggregate_trace a p q r \<and>
         visible_participant_wallets trace = [] \<and> individual_order_count trace = 0 \<and> aggregate_count trace = 1)"
proof
  assume "from_confirmed_kageb rt lib lt st a = Inr trace"
  then obtain p q r where "observed_epoch rt lib lt st a p q r" "trace = aggregate_trace a p q r"
    using from_confirmed_kageb_sound by blast
  then show "\<exists>p q r. observed_epoch rt lib lt st a p q r \<and> trace = aggregate_trace a p q r \<and>
      visible_participant_wallets trace = [] \<and> individual_order_count trace = 0 \<and> aggregate_count trace = 1"
    by (intro exI conjI) (assumption | simp)+
qed (auto intro: from_confirmed_kageb_complete [OF _ assms])

section \<open>Direct trades\<close>

text \<open>
  A transaction in which \<open>wallet\<close> itself pays one lot of base or one lot's price of quote to the venue.
\<close>

definition direct_trade ::
    "token_library \<Rightarrow> direct_market_accounts \<Rightarrow> confirmed_transaction \<Rightarrow> pubkey \<Rightarrow> side \<Rightarrow> bool" where
  "direct_trade lib market t wallet side \<longleftrightarrow>
     (\<exists>m tx ci source mint destination amount. succeeded t m tx \<and> inner_instructions m = [] \<and>
        (\<exists>rest. vt_keys tx = dm_fee_payer market # rest) \<and> distinct (vt_keys tx) \<and>
        set (vt_keys tx) = {dm_fee_payer market, source, mint, destination, wallet, TOKEN_PROGRAM_ID} \<and>
        vt_instructions tx = [ci] \<and> key_at (vt_keys tx) (ci_program_id_index ci) = Some TOKEN_PROGRAM_ID \<and>
        map (key_at (vt_keys tx)) (ci_accounts ci) = map Some [source, mint, destination, wallet] \<and>
        source \<noteq> destination \<and> wallet \<noteq> destination \<and>
        tl_unpack lib (ci_data ci) = Some (TransferChecked amount 0) \<and>
        (if mint = dm_base_mint market \<and> destination = dm_venue_base_account market
         then side = Sell \<and> amount = dm_base_lot_atoms market
         else mint = dm_quote_mint market \<and> destination = dm_venue_quote_account market \<and>
           side = Buy \<and> amount = dm_quote_atoms_per_lot market))"

lemma four_accounts:
  "length xs = 4 \<Longrightarrow> map f xs = map Some [a, b, c, d] \<longleftrightarrow>
     f (xs ! 0) = Some a \<and> f (xs ! 1) = Some b \<and> f (xs ! 2) = Some c \<and> f (xs ! 3) = Some d"
  by (auto simp: numeral_eq_Suc length_Suc_conv)

lemma checked_token: "((if c then m else Inl e) = Inr y) \<longleftrightarrow> c \<and> m = Inr y"
  by simp

lemma direct_action_trade:
  assumes "direct_action lib market t = Inr action"
  shows "\<exists>wallet side. action = Individual wallet side 1 \<and> direct_trade lib market t wallet side"
proof -
  from assms obtain d source mint destination wallet token side amount where d: "decode_confirmed t = Inr d"
    "require_fee_payer (dc_keys d) (dm_fee_payer market) = Inr ()"
    and ci: "dc_inner d = []" "length (dc_instructions d) = 1" "length (ci_accounts (dc_instructions d ! 0)) = 4"
      "key_at (dc_keys d) (ci_program_id_index (dc_instructions d ! 0)) = Some TOKEN_PROGRAM_ID"
    and keys: "key_at (dc_keys d) (ci_accounts (dc_instructions d ! 0) ! 0) = Some source"
      "key_at (dc_keys d) (ci_accounts (dc_instructions d ! 0) ! 1) = Some mint"
      "key_at (dc_keys d) (ci_accounts (dc_instructions d ! 0) ! 2) = Some destination"
      "key_at (dc_keys d) (ci_accounts (dc_instructions d ! 0) ! 3) = Some wallet"
    and ne: "source \<noteq> destination" "wallet \<noteq> destination"
    and exact: "require_exact_keys (dc_keys d) [dm_fee_payer market, source, mint, destination, wallet, TOKEN_PROGRAM_ID] = Inr ()"
    and token: "tl_unpack lib (ci_data (dc_instructions d ! 0)) = Some (TransferChecked amount 0)"
    and leg: "(if mint = dm_base_mint market \<and> destination = dm_venue_base_account market
       then Inr (Sell, dm_base_lot_atoms market)
       else if mint = dm_quote_mint market \<and> destination = dm_venue_quote_account market
       then Inr (Buy, dm_quote_atoms_per_lot market)
       else Inl UnexpectedAccount) = Inr (side, amount)"
    and action: "action = Individual wallet side 1"
    unfolding direct_action_def account_at_def Let_def
    by (auto simp only: res_simps case_prod_beta de_Morgan_disj not_not ex_simps prod.sel checked_token sum.inject) blast
  from d(1) obtain m tx where tx: "succeeded t m tx" and dd: "d = \<lparr>dc_keys = vt_keys tx,
      dc_instructions = vt_instructions tx, dc_inner = inner_instructions m\<rparr>"
    by (auto simp: decode_succeeded)
  from ci(2) dd obtain i where i: "vt_instructions tx = [i]" by (auto simp: length_Suc_conv)
  note facts = ci keys d(2) exact token
  have accounts: "map (key_at (vt_keys tx)) (ci_accounts i) = map Some [source, mint, destination, wallet]"
    using facts(3,5-8) by (subst four_accounts) (simp_all add: dd i)
  have side: "if mint = dm_base_mint market \<and> destination = dm_venue_base_account market
         then side = Sell \<and> amount = dm_base_lot_atoms market
         else mint = dm_quote_mint market \<and> destination = dm_venue_quote_account market \<and>
           side = Buy \<and> amount = dm_quote_atoms_per_lot market"
    using leg by (simp split: if_splits)
  have "direct_trade lib market t wallet side"
    unfolding direct_trade_def
  proof (intro exI conjI)
    show "succeeded t m tx" "vt_instructions tx = [i]" by fact+
    show "distinct (vt_keys tx)" "set (vt_keys tx) = {dm_fee_payer market, source, mint, destination, wallet, TOKEN_PROGRAM_ID}"
      using exact by (simp_all add: require_exact_keys_iff dd)
    show "vt_keys tx = dm_fee_payer market # tl (vt_keys tx)" using d(2) by (auto simp: require_fee_payer_iff dd)
    show "inner_instructions m = []" "key_at (vt_keys tx) (ci_program_id_index i) = Some TOKEN_PROGRAM_ID"
      "tl_unpack lib (ci_data i) = Some (TransferChecked amount 0)"
      using facts by (simp_all add: dd i)
  qed (fact ne accounts side)+
  with action show ?thesis by blast
qed

lemma direct_wallets:
  assumes "list_all2 (\<lambda>t action. \<exists>wallet side. action = Individual wallet side 1 \<and> P t wallet side) ts actions"
  shows "list_all2 (\<lambda>t wallet. \<exists>side. P t wallet side) ts (visible_participant_wallets \<lparr>pt_actions = actions\<rparr>) \<and>
    individual_order_count \<lparr>pt_actions = actions\<rparr> = length ts \<and> aggregate_count \<lparr>pt_actions = actions\<rparr> = 0"
  using assms
  by (induction rule: list_all2_induct)
    (auto simp: visible_participant_wallets_def individual_order_count_def aggregate_count_def List.map_filter_def)


end
