(* ===== verification/Evidence_Properties.thy ===== *)
theory Evidence_Properties
  imports Evidence_Snapshot Observer_Properties
begin

text \<open>
  What a verified bundle proves: the content address and its digests round trip, the deployed bytes are the built
  artifact, and the lock and settlement recorded on the chain carry two keypers' signatures each.
\<close>

unbundle bit_operations_syntax

section \<open>Digests as text\<close>

lemma hex_digest_bytes: "hex_digest bytes = hex_bytes bytes"
proof -
  have "foldl (\<lambda>encoded b. encoded @ hex_byte b) acc bytes = acc @ hex_bytes bytes" for acc
    by (induction bytes arbitrary: acc) simp_all
  then show ?thesis by (simp add: hex_digest_def)
qed

lemma hex_nibble_digit:
  assumes "n < 16"
  shows "hex_nibble (hex_digit n) = Inr n" "is_ascii_hexdigit (hex_digit n)"
proof -
  define m where "m = unat n"
  have n: "n = of_nat m" by (simp add: m_def)
  have "m < 16" using assms by (simp add: word_less_nat_alt m_def)
  then have "m = 0 \<or> m = 1 \<or> m = 2 \<or> m = 3 \<or> m = 4 \<or> m = 5 \<or> m = 6 \<or> m = 7 \<or> m = 8
      \<or> m = 9 \<or> m = 10 \<or> m = 11 \<or> m = 12 \<or> m = 13 \<or> m = 14 \<or> m = 15"
    by presburger
  then show "hex_nibble (hex_digit n) = Inr n" "is_ascii_hexdigit (hex_digit n)"
    unfolding n by (elim disjE; simp add: hex_nibble_def hex_digit_def is_ascii_hexdigit_def)+
qed

lemma byte_nibbles: "push_bit 4 (b div 16) OR b mod 16 = b" for b :: byte
proof -
  have "b div 16 = drop_bit 4 b" "b mod 16 = take_bit 4 b"
    by (simp_all add: drop_bit_eq_div take_bit_eq_mod)
  then show ?thesis
    by (simp only:) (rule bit_eqI, auto simp: bit_simps)
qed

lemma parse_hex_bytes: "parse_pairs (hex_bytes bytes) = Inr bytes \<and> list_all is_ascii_hexdigit (hex_bytes bytes)"
proof (induction bytes)
  case (Cons b bytes)
  have "unat b < 256" using unsigned_less [where 'a = nat, of b] by simp
  then have "unat b div 16 < 16" by (intro less_mult_imp_div_less) simp
  then have "b div 16 < 16" "b mod 16 < 16" by (simp_all add: word_less_nat_alt unat_div unat_mod)
  note nibbles = hex_nibble_digit [OF this(1)] hex_nibble_digit [OF this(2)]
  show ?case
    using Cons nibbles byte_nibbles [of b] unfolding hex_bytes_simps hex_byte_def by simp
qed simp

lemma parse_digest_hex: "parse_digest (hex_digest (arr_bytes d)) = Inr d" for d :: bytes32
  using parse_hex_bytes [of "arr_bytes d"] by (simp add: parse_digest_def hex_digest_bytes)

lemma hex_digest_inject: "hex_digest (arr_bytes d) = hex_digest (arr_bytes e) \<longleftrightarrow> d = e" for d e :: bytes32
  using parse_digest_hex [of d] parse_digest_hex [of e] by (metis sum.inject(2))

section \<open>Signatures behind the instructions\<close>

lemma verify_ed25519_instruction_Inr:
  assumes "verify_ed25519_instruction c rt ix = Inr parsed"
  shows "\<exists>s. ix = strict_instruction rt (se_signer parsed) s (se_digest parsed) \<and>
    verify c (se_signer parsed) (arr_bytes (se_digest parsed)) s"
proof -
  from assms have "parse_strict_ed25519 rt ix = Inr parsed"
    and v: "verify c (se_signer parsed) (arr_bytes (se_digest parsed)) (arr_of (slice 48 112 (ix_data ix)))"
    by (auto simp: verify_ed25519_instruction_def res_simps Let_def get_slice_def split: if_splits)
  from parse_strict_shape [OF this(1)] obtain s where
    s: "ix = strict_instruction rt (se_signer parsed) s (se_digest parsed)" by blast
  have "slice 48 112 (ix_data ix) = arr_bytes s" unfolding s by (simp add: strict_instruction_def bytes_simps)
  with v s show ?thesis by auto
qed

text \<open>
  Two different keypers' signatures over \<open>d\<close>, in the two verification instructions before the last instruction
  of the transaction.
\<close>

definition keyper_signatures ::
    "suite \<Rightarrow> runtime \<Rightarrow> keypers \<Rightarrow> versioned_transaction \<Rightarrow> bytes32 \<Rightarrow> bool" where
  "keyper_signatures c rt ks tx d \<longleftrightarrow>
     (\<exists>v1 v2 ci k1 k2 s1 s2. vt_instructions tx = [v1, v2, ci] \<and>
        resolves (vt_keys tx) v1 (strict_instruction rt k1 s1 d) \<and>
        resolves (vt_keys tx) v2 (strict_instruction rt k2 s2 d) \<and>
        k1 \<noteq> k2 \<and> k1 \<in> set (keyper_list ks) \<and> k2 \<in> set (keyper_list ks) \<and>
        verify c k1 (arr_bytes d) s1 \<and> verify c k2 (arr_bytes d) s2)"

text \<open>The digest of the program's instruction, as the decoder computes it.\<close>

definition program_digest ::
    "suite \<Rightarrow> evidence_library \<Rightarrow> devnet_evidence_content \<Rightarrow> utf8 \<Rightarrow> kageb_instruction \<Rightarrow> devnet_evidence_error + (utf8 \<times> bytes32)" where
  "program_digest c lib evidence name i =
     (case i of
        Lock payload \<Rightarrow>
          if name = ascii ''lock'' then Inr (ascii ''epoch-lock'', lock_payload_digest (hash256 c) payload)
          else Inl InvalidTransaction
      | Settle payload \<Rightarrow>
          if name = ascii ''settlement''
          then try_bind (full_settlement_payload lib evidence payload) (\<lambda>full.
            Inr (ascii ''aggregate-settlement'', settlement_payload_digest (hash256 c) full))
          else Inl InvalidTransaction
      | _ \<Rightarrow> Inl InvalidTransaction)"

lemma decode_verification:
  assumes "decode_kageb_instruction c rt lib ev name (rt_ed25519_program rt) ci pd signers = Inr (kind, d, pd', signers')"
    and "strict_verification rt keys ci"
  shows "\<exists>k s. resolves keys ci (strict_instruction rt k s d) \<and> verify c k (arr_bytes d) s \<and> k \<notin> signers \<and>
    signers' = insert k signers \<and> pd' = pd"
proof -
  let ?ix = "\<lparr>ix_program_id = rt_ed25519_program rt, ix_accounts = [], ix_data = ci_data ci\<rparr>"
  from assms(1) obtain parsed where parsed: "verify_ed25519_instruction c rt ?ix = Inr parsed"
    "se_signer parsed \<notin> signers" "d = se_digest parsed" "pd' = pd" "signers' = insert (se_signer parsed) signers"
    by (auto simp: decode_kageb_instruction_def res_simps)
  from verify_ed25519_instruction_Inr [OF parsed(1)] obtain s where
    s: "?ix = strict_instruction rt (se_signer parsed) s (se_digest parsed)"
       "verify c (se_signer parsed) (arr_bytes (se_digest parsed)) s" by blast
  have "resolves keys ci ?ix" using assms(2) by (simp add: strict_verification_iff resolves_def)
  with s parsed show ?thesis by auto
qed

lemma decode_program_instruction:
  assumes "decode_kageb_instruction c rt lib ev name ID ci pd signers = Inr (kind, d, pd', signers')"
    and "ID \<noteq> rt_ed25519_program rt" "ci_data ci = instruction_encode i"
  shows "program_digest c lib ev name i = Inr (kind, d) \<and> pd' = Some d \<and> signers' = signers"
  using assms(1) unfolding decode_kageb_instruction_def program_digest_def [symmetric]
  by (auto simp: assms(2,3) res_simps)

lemma decode_step:
  assumes "decode_kageb_instructions c rt lib ev name keys pos pd signers (ci # cis) = Inr (entries, pd', signers')"
    and "key_at keys (ci_program_id_index ci) = Some program"
  obtains kind d pd1 signers1 rest where
    "decode_kageb_instruction c rt lib ev name program ci pd signers = Inr (kind, d, pd1, signers1)"
    "decode_kageb_instructions c rt lib ev name keys (pos + 1) pd1 signers1 cis = Inr (rest, pd', signers')"
    "entries = \<lparr> de_transaction = name, de_position = of_nat pos, de_program = el_pubkey_string lib program,
       de_kind = kind, de_digest = Some (hex_digest (arr_bytes d)) \<rparr> # rest"
  using assms by (auto simp: res_simps)

lemma decode_quorum_instructions:
  assumes "decode_kageb_instructions c rt lib ev name keys 0 None {} [v1, v2, ci] = Inr (entries, pd, signers)"
    and "ID \<noteq> rt_ed25519_program rt" "strict_verification rt keys v1" "strict_verification rt keys v2"
    and "key_at keys (ci_program_id_index ci) = Some ID" "ci_data ci = instruction_encode i"
    and same: "\<And>d. pd = Some d \<Longrightarrow> list_all (\<lambda>e. de_digest e = Some (hex_digest (arr_bytes d))) entries"
  obtains kind d k1 k2 s1 s2 where "pd = Some d" "program_digest c lib ev name i = Inr (kind, d)"
    "resolves keys v1 (strict_instruction rt k1 s1 d)" "resolves keys v2 (strict_instruction rt k2 s2 d)" "k1 \<noteq> k2"
    "signers = {k1, k2}" "verify c k1 (arr_bytes d) s1" "verify c k2 (arr_bytes d) s2"
    "\<exists>e \<in> set entries. de_kind e = kind \<and> de_digest e = Some (hex_digest (arr_bytes d))"
proof -
  have p1: "key_at keys (ci_program_id_index v1) = Some (rt_ed25519_program rt)"
    and p2: "key_at keys (ci_program_id_index v2) = Some (rt_ed25519_program rt)"
    using assms(3,4) by (simp_all add: strict_verification_iff)
  from decode_step [OF assms(1) p1] obtain kind1 d1 pd1 sg1 es1 where
    i1: "decode_kageb_instruction c rt lib ev name (rt_ed25519_program rt) v1 None {} = Inr (kind1, d1, pd1, sg1)"
    and r1: "decode_kageb_instructions c rt lib ev name keys (0 + 1) pd1 sg1 [v2, ci] = Inr (es1, pd, signers)"
    and e1: "entries = \<lparr> de_transaction = name, de_position = of_nat 0, de_program = el_pubkey_string lib (rt_ed25519_program rt),
       de_kind = kind1, de_digest = Some (hex_digest (arr_bytes d1)) \<rparr> # es1" .
  from decode_step [OF r1 p2] obtain kind2 d2 pd2 sg2 es2 where
    i2: "decode_kageb_instruction c rt lib ev name (rt_ed25519_program rt) v2 pd1 sg1 = Inr (kind2, d2, pd2, sg2)"
    and r2: "decode_kageb_instructions c rt lib ev name keys (0 + 1 + 1) pd2 sg2 [ci] = Inr (es2, pd, signers)"
    and e2: "es1 = \<lparr> de_transaction = name, de_position = of_nat (0 + 1), de_program = el_pubkey_string lib (rt_ed25519_program rt),
       de_kind = kind2, de_digest = Some (hex_digest (arr_bytes d2)) \<rparr> # es2" .
  from decode_step [OF r2 assms(5)] obtain kind d pd3 sg3 es3 where
    i3: "decode_kageb_instruction c rt lib ev name ID ci pd2 sg2 = Inr (kind, d, pd3, sg3)"
    and r3: "decode_kageb_instructions c rt lib ev name keys (0 + 1 + 1 + 1) pd3 sg3 [] = Inr (es3, pd, signers)"
    and e3: "es2 = \<lparr> de_transaction = name, de_position = of_nat (0 + 1 + 1), de_program = el_pubkey_string lib ID,
       de_kind = kind, de_digest = Some (hex_digest (arr_bytes d)) \<rparr> # es3" .
  from decode_verification [OF i1 assms(3)] obtain k1 s1 where k1: "resolves keys v1 (strict_instruction rt k1 s1 d1)"
    "verify c k1 (arr_bytes d1) s1" "sg1 = {k1}" by auto
  from decode_verification [OF i2 assms(4)] obtain k2 s2 where k2: "resolves keys v2 (strict_instruction rt k2 s2 d2)"
    "verify c k2 (arr_bytes d2) s2" "k2 \<notin> sg1" "sg2 = insert k2 sg1" by blast
  from decode_program_instruction [OF i3 assms(2,6)] r3 have
    pd: "program_digest c lib ev name i = Inr (kind, d)" "pd = Some d" "signers = sg2" by auto
  from same [OF pd(2)] have "d1 = d" "d2 = d" by (simp_all add: e1 e2 hex_digest_inject)
  then show thesis
    using that [OF pd(2,1), of k1 s1 k2 s2] k1 k2 pd(3) by (auto simp: e1 e2 e3)
qed

lemma decode_quorum_transaction:
  assumes "decode_kageb_transaction c rt lib t name ev = Inr entries" "ct_decoded t = Some tx"
    and "quorum_transaction rt fee_payer expected tx ix" "ID \<noteq> rt_ed25519_program rt"
    and "ix_program_id ix = ID" "ix_data ix = instruction_encode i"
  obtains kind d ks where "program_digest c lib ev name i = Inr (kind, d)"
    "parse_keypers lib (ecf_keypers (dv_configuration ev)) = Inr ks" "keyper_signatures c rt ks tx d"
    "\<exists>e \<in> set entries. de_kind e = kind \<and> de_digest e = Some (hex_digest (arr_bytes d))"
proof -
  from assms(3) obtain v1 v2 ci where tx: "vt_instructions tx = [v1, v2, ci]" "strict_verification rt (vt_keys tx) v1"
    "strict_verification rt (vt_keys tx) v2" "resolves (vt_keys tx) ci ix"
    unfolding quorum_transaction_def by blast
  from assms(1,2) obtain decoded pd signers ks where
    dec: "decode_kageb_instructions c rt lib ev name (vt_keys tx) 0 None {} [v1, v2, ci] = Inr (decoded, Some pd, signers)"
    and same: "list_all (\<lambda>e. de_digest e = Some (hex_digest (arr_bytes pd))) decoded"
    and ks: "parse_keypers lib (ecf_keypers (dv_configuration ev)) = Inr ks" "signers \<subseteq> set (keyper_list ks)"
    and entries: "set decoded \<subseteq> set entries"
    unfolding decode_kageb_transaction_def
    by (auto simp: res_simps Let_def tx(1) list_all_iff list_ex_iff simp del: decode_kageb_instructions.simps split: if_splits)
  have ci: "key_at (vt_keys tx) (ci_program_id_index ci) = Some ID" "ci_data ci = instruction_encode i"
    using tx(4) assms(5,6) by (simp_all add: resolves_def)
  have same': "list_all (\<lambda>e. de_digest e = Some (hex_digest (arr_bytes d))) decoded" if "Some pd = Some d" for d
    using same that by simp
  obtain kind d k1 k2 s1 s2 where d: "Some pd = Some d" "program_digest c lib ev name i = Inr (kind, d)"
    "resolves (vt_keys tx) v1 (strict_instruction rt k1 s1 d)" "resolves (vt_keys tx) v2 (strict_instruction rt k2 s2 d)" "k1 \<noteq> k2"
    "signers = {k1, k2}" "verify c k1 (arr_bytes d) s1" "verify c k2 (arr_bytes d) s2"
    "\<exists>e \<in> set decoded. de_kind e = kind \<and> de_digest e = Some (hex_digest (arr_bytes d))"
    by (rule decode_quorum_instructions [OF dec assms(4) tx(2,3) ci same'])
  have "keyper_signatures c rt ks tx d"
    unfolding keyper_signatures_def
    by (intro exI conjI) (fact d(3,4,5,7,8) tx(1) | use d(6) ks(2) in simp)+
  moreover have "\<exists>e \<in> set entries. de_kind e = kind \<and> de_digest e = Some (hex_digest (arr_bytes d))"
    using d(9) entries by blast
  ultimately show thesis by (rule that [OF d(2) ks(1)])
qed

section \<open>What the snapshot contains\<close>

text \<open>The node returned this transaction for the recorded signature, which is the transaction's own and verifies.\<close>

definition queried :: "evidence_library \<Rightarrow> evidence_rpc \<Rightarrow> evidence_transaction \<Rightarrow> confirmed_transaction \<Rightarrow> bool" where
  "queried lib rpc expected t \<longleftrightarrow>
     (\<exists>signature tx. el_parse_signature lib (et_signature expected) = Some signature \<and>
        er_transaction rpc signature = Some t \<and> ct_decoded t = Some tx \<and>
        vt_signatures tx \<noteq> [] \<and> hd (vt_signatures tx) = signature \<and> el_verify_transaction lib tx)"

definition holds_account :: "evidence_library \<Rightarrow> evidence_rpc \<Rightarrow> utf8 \<Rightarrow> public_account_snapshot \<Rightarrow> bool" where
  "holds_account lib rpc address account \<longleftrightarrow>
     (\<exists>key. el_parse_pubkey lib address = Some key \<and> er_account rpc key = Some (Some account))"

lemma fetch_finalized_account_Inr:
  "fetch_finalized_account rpc k = Inr a \<longleftrightarrow> er_account rpc k = Some (Some a)"
  by (auto simp: fetch_finalized_account_def res_simps)

lemma fetch_transaction_Inr:
  assumes "fetch_transaction lib rpc (status, expected, signature) = Inr (snapshot, t)"
    and "el_parse_signature lib (et_signature expected) = Some signature"
  shows "queried lib rpc expected t" "fs_signature snapshot = et_signature expected"
  using assms by (auto simp: fetch_transaction_def res_simps Let_def queried_def verify_queried_transaction_def split: if_splits)

lemma fetched_transactions:
  assumes "try_map (\<lambda>x. ok_or (el_parse_signature lib (et_signature x)) InvalidPublicField) expected = Inr signatures"
    and "length statuses = length signatures"
    and "try_map (fetch_transaction lib rpc) (zip statuses (zip expected signatures)) = Inr transactions"
    and "i < length expected"
  shows "queried lib rpc (expected ! i) (map snd transactions ! i)"
    "fs_signature (map fst transactions ! i) = et_signature (expected ! i)" "length transactions = length expected"
proof -
  from assms(1) have sig: "list_all2 (\<lambda>x y. el_parse_signature lib (et_signature x) = Some y) expected signatures"
    by (simp add: try_map_Inr ok_or_Inr)
  then have len: "length signatures = length expected" by (simp add: list_all2_lengthD)
  from assms(3) have all: "list_all2 (\<lambda>x y. fetch_transaction lib rpc x = Inr y) (zip statuses (zip expected signatures)) transactions"
    by (simp add: try_map_Inr)
  then show tlen: "length transactions = length expected" using len assms(2) by (auto dest: list_all2_lengthD)
  from list_all2_nthD [OF all, of i] assms(2,4) len
  have "fetch_transaction lib rpc (statuses ! i, expected ! i, signatures ! i) = Inr (fst (transactions ! i), snd (transactions ! i))"
    by simp
  from fetch_transaction_Inr [OF this] list_all2_nthD [OF sig assms(4)]
  show "queried lib rpc (expected ! i) (map snd transactions ! i)" "fs_signature (map fst transactions ! i) = et_signature (expected ! i)"
    using assms(4) tlen by simp_all
qed

lemma fetch_snapshotE:
  assumes "fetch_devnet_public_snapshot c rt lib rpc bundle = Inr sn"
  obtains ev a lt st trace la sa where "ev = db_content bundle" "er_genesis_hash rpc = Some DEVNET_GENESIS_HASH"
    "holds_account lib rpc (ed_program (dv_deployment ev)) (sn_program sn)"
    "holds_account lib rpc (ed_programdata (dv_deployment ev)) (sn_programdata sn)"
    "holds_account lib rpc (ea_pool (dv_accounts ev)) (sn_pool sn)"
    "holds_account lib rpc (ea_epoch (dv_accounts ev)) (sn_epoch sn)"
    "queried lib rpc (ets_lock (dv_transactions ev)) lt" "queried lib rpc (ets_settlement (dv_transactions ev)) st"
    "observer_accounts lib ev = Inr a" "from_confirmed_kageb rt (el_tokens lib) lt st a = Inr trace"
    "decode_kageb_transaction c rt lib lt (ascii ''lock'') ev = Inr la"
    "decode_kageb_transaction c rt lib st (ascii ''settlement'') ev = Inr sa"
    "transaction_token_balances lib st ev = Inr (sn_token_balances sn)"
    "set la \<subseteq> set (sn_decoded_allowlist sn)" "set sa \<subseteq> set (sn_decoded_allowlist sn)"
proof -
  define ev where "ev = db_content bundle"
  from assms obtain k1 k2 k3 k4 k5 k6 program programdata pool epoch base_mint quote_mint signatures statuses transactions fa a trace
      la sa balances live where
    "er_genesis_hash rpc = Some DEVNET_GENESIS_HASH"
    and keys: "parse_pubkey lib (ed_program (dv_deployment ev)) = Inr k1" "parse_pubkey lib (ed_programdata (dv_deployment ev)) = Inr k2"
      "parse_pubkey lib (ea_pool (dv_accounts ev)) = Inr k3" "parse_pubkey lib (ea_epoch (dv_accounts ev)) = Inr k4"
    and accounts: "er_account rpc k1 = Some (Some program)" "er_account rpc k2 = Some (Some programdata)"
      "er_account rpc k3 = Some (Some pool)" "er_account rpc k4 = Some (Some epoch)"
    and txs: "try_map (\<lambda>x. ok_or (el_parse_signature lib (et_signature x)) InvalidPublicField) (evidence_transaction_list ev) = Inr signatures"
      "length statuses = length signatures"
      "try_map (fetch_transaction lib rpc) (zip statuses (zip (evidence_transaction_list ev) signatures)) = Inr transactions"
    and obs: "observer_accounts lib ev = Inr a"
      "from_confirmed_kageb rt (el_tokens lib) (map snd transactions ! 4) (map snd transactions ! 5) a = Inr trace"
      "decode_kageb_transaction c rt lib (map snd transactions ! 4) (ascii ''lock'') ev = Inr la"
      "decode_kageb_transaction c rt lib (map snd transactions ! 5) (ascii ''settlement'') ev = Inr sa"
      "transaction_token_balances lib (map snd transactions ! 5) ev = Inr balances"
    and sn: "sn = \<lparr> sn_program = program, sn_programdata_address = k2, sn_programdata = programdata,
           sn_pool = pool, sn_epoch = epoch, sn_base_mint = base_mint, sn_quote_mint = quote_mint,
           sn_current_token_accounts = live, sn_transactions = map fst transactions,
           sn_token_balances = balances, sn_decoded_allowlist = fa @ la @ sa \<rparr>"
    unfolding fetch_devnet_public_snapshot_def Let_def ev_def validate_rpc_response_len_def
    by (auto simp only: res_simps fetch_finalized_account_Inr de_Morgan_disj not_not sum.inject)
  have six: "length (evidence_transaction_list ev) = 6" "evidence_transaction_list ev ! 4 = ets_lock (dv_transactions ev)"
    "evidence_transaction_list ev ! 5 = ets_settlement (dv_transactions ev)"
    by (cases "ets_funding (dv_transactions ev)", simp add: evidence_transaction_list_def)+
  note fetched = fetched_transactions(1) [OF txs]
  show thesis
  proof (rule that [OF ev_def])
    show "queried lib rpc (ets_lock (dv_transactions ev)) (map snd transactions ! 4)"
      "queried lib rpc (ets_settlement (dv_transactions ev)) (map snd transactions ! 5)"
      using fetched [of 4] fetched [of 5] six by simp_all
    show "holds_account lib rpc (ed_program (dv_deployment ev)) (sn_program sn)"
      "holds_account lib rpc (ed_programdata (dv_deployment ev)) (sn_programdata sn)"
      "holds_account lib rpc (ea_pool (dv_accounts ev)) (sn_pool sn)"
      "holds_account lib rpc (ea_epoch (dv_accounts ev)) (sn_epoch sn)"
      using keys accounts by (auto simp: holds_account_def parse_pubkey_def sn res_simps)
    show "transaction_token_balances lib (map snd transactions ! 5) ev = Inr (sn_token_balances sn)"
      "set la \<subseteq> set (sn_decoded_allowlist sn)" "set sa \<subseteq> set (sn_decoded_allowlist sn)"
      using obs(5) by (auto simp: sn)
  qed fact+
qed

section \<open>What the verifier compares\<close>

lemma expect_digest_Inr: "expect_digest e d text = Inr u \<longleftrightarrow> parse_digest text = Inr d"
  by (auto simp: expect_digest_def res_simps)

lemma expect_key_Inr: "expect_key lib e k text = Inr u \<longleftrightarrow> el_parse_pubkey lib text = Some k"
  by (auto simp: expect_key_def parse_pubkey_def res_simps)

lemma parse_pubkey_Inr: "parse_pubkey lib text = Inr k \<longleftrightarrow> el_parse_pubkey lib text = Some k"
  by (simp add: parse_pubkey_def res_simps)

lemma validate_program_state_Inr:
  assumes "validate_program_state rt lib ev sn = Inr (pool, epoch)"
  shows "pa_owner (sn_pool sn) = ID \<and> pa_owner (sn_epoch sn) = ID \<and>
    pa_data (sn_pool sn) = pool_state_encode pool \<and> pa_data (sn_epoch sn) = epoch_state_encode epoch \<and>
    es_terminal_state epoch = Settled \<and> parse_keypers lib (ecf_keypers (dv_configuration ev)) = Inr (ps_keypers pool) \<and>
    distinct (keyper_list (ps_keypers pool)) \<and>
    parse_digest (em_lock_digest (dv_commitments ev)) = Inr (es_lock_digest epoch) \<and>
    parse_digest (em_settlement_digest (dv_commitments ev)) = Inr (es_settlement_digest epoch)"
proof -
  have "distinct (keyper_list ks)" if "card (set (keyper_list ks)) = 3" for ks
    using that by (intro card_distinct) simp
  moreover from assms have "pa_owner (sn_pool sn) = ID \<and> pa_owner (sn_epoch sn) = ID \<and>
    pa_data (sn_pool sn) = pool_state_encode pool \<and> pa_data (sn_epoch sn) = epoch_state_encode epoch \<and>
    es_terminal_state epoch = Settled \<and> parse_keypers lib (ecf_keypers (dv_configuration ev)) = Inr (ps_keypers pool) \<and>
    card (set (keyper_list (ps_keypers pool))) = 3 \<and>
    parse_digest (em_lock_digest (dv_commitments ev)) = Inr (es_lock_digest epoch) \<and>
    parse_digest (em_settlement_digest (dv_commitments ev)) = Inr (es_settlement_digest epoch)"
    unfolding validate_program_state_def Let_def case_prod_beta
    by (auto simp only: res_simps expect_digest_Inr pool_decode_iff epoch_decode_iff de_Morgan_disj not_not prod.inject sum.inject)
  ultimately show ?thesis by blast
qed

lemma validate_allowed_Inr:
  assumes "validate_allowed ev e = Inr u"
  shows "de_kind e = ascii ''epoch-lock'' \<Longrightarrow> de_digest e = Some (em_lock_digest (dv_commitments ev))"
    "de_kind e = ascii ''aggregate-settlement'' \<Longrightarrow> de_digest e = Some (em_settlement_digest (dv_commitments ev))"
  using assms by (auto simp: validate_allowed_def res_simps ascii_def split: if_splits)

lemma validate_allowlist_Inr:
  assumes "validate_allowlist ev sn n = Inr u" "e \<in> set (sn_decoded_allowlist sn)"
  shows "validate_allowed ev e = Inr ()"
  using assms by (auto simp: validate_allowlist_def Let_def res_simps split: if_splits)

lemma verify_devnet_evidenceE:
  assumes "verify_devnet_evidence c rt lib bundle sn artifact = Inr u"
  obtains pool epoch where "validate_public_fields c rt lib (db_content bundle) artifact = Inr ()"
    "validate_deployment c lib (db_content bundle) sn artifact = Inr ()"
    "validate_transactions lib (db_content bundle) (sn_transactions sn) = Inr ()"
    "validate_distinct_funding_authorities lib (db_content bundle) = Inr ()"
    "validate_program_state rt lib (db_content bundle) sn = Inr (pool, epoch)"
    "validate_token_deltas lib (db_content bundle) sn epoch = Inr ()"
    "validate_allowlist (db_content bundle) sn (ps_settlement_threshold pool) = Inr ()"
  using assms by (auto simp: verify_devnet_evidence_def res_simps Let_def)

lemma observed_epoch_compact:
  assumes "observed_epoch rt lib lt st a p q r" "compact_from q' = compact_from q"
  shows "observed_epoch rt lib lt st a p q' r"
proof -
  have "settle_instruction rt b q' = settle_instruction rt b q" for b
    using assms(2) by (simp add: settle_instruction_def)
  moreover have "sp_residual_side q' = sp_residual_side q" "sp_residual_lots q' = sp_residual_lots q"
    using assms(2) by (simp_all add: compact_from_def)
  ultimately show ?thesis using assms(1) unfolding observed_epoch_def by simp
qed

lemma full_settlement_payload_Inr:
  assumes "full_settlement_payload lib ev c = Inr q"
  shows "compact_from q = c" "parse_digest (em_lock_digest (dv_commitments ev)) = Inr (sp_lock_digest q)"
    "el_parse_pubkey lib (ea_epoch (dv_accounts ev)) = Some (sp_epoch_account q)"
  using assms by (auto simp: full_settlement_payload_def res_simps Let_def compact_from_def parse_pubkey_Inr)

text \<open>
  What verified evidence establishes of the two transactions: the lock's payload \<open>p\<close> and the settlement's
  payload \<open>q\<close> have the digests that the epoch account holds, and two of the pool's keypers signed each.
\<close>

definition proven_epoch ::
    "suite \<Rightarrow> runtime \<Rightarrow> evidence_library \<Rightarrow> pool_state \<Rightarrow> epoch_state \<Rightarrow> confirmed_transaction \<Rightarrow> confirmed_transaction \<Rightarrow>
     kageb_observer_accounts \<Rightarrow> lock_payload \<Rightarrow> settlement_payload \<Rightarrow> bool" where
  "proven_epoch c rt lib pool epoch lt st a p q \<longleftrightarrow>
     es_terminal_state epoch = Settled \<and>
     (\<exists>r. observed_epoch rt (el_tokens lib) lt st a p q r) \<and>
     es_lock_digest epoch = lock_payload_digest (hash256 c) p \<and>
     es_settlement_digest epoch = settlement_payload_digest (hash256 c) q \<and>
     sp_lock_digest q = es_lock_digest epoch \<and>
     (\<exists>ltx. ct_decoded lt = Some ltx \<and> keyper_signatures c rt (ps_keypers pool) ltx (es_lock_digest epoch)) \<and>
     (\<exists>stx. ct_decoded st = Some stx \<and> keyper_signatures c rt (ps_keypers pool) stx (es_settlement_digest epoch))"

lemma lock_proven:
  assumes "decode_kageb_transaction c rt lib lt (ascii ''lock'') ev = Inr la" "set la \<subseteq> set (sn_decoded_allowlist sn)"
    and "observed_epoch rt tokens lt st a p q r" "ID \<noteq> rt_ed25519_program rt"
    and "validate_program_state rt lib ev sn = Inr (pool, epoch)" "validate_allowlist ev sn n = Inr ()"
  obtains ltx where "ct_decoded lt = Some ltx" "es_lock_digest epoch = lock_payload_digest (hash256 c) p"
    "keyper_signatures c rt (ps_keypers pool) ltx (es_lock_digest epoch)"
proof -
  note state = validate_program_state_Inr [OF assms(5)]
  from assms(3) obtain lm ltx where tx: "succeeded lt lm ltx" and
    quorum: "quorum_transaction rt (oa_fee_payer a) (observed_lock_keys rt a) ltx (lock_instruction rt (oa_payer a) (oa_pool a) (oa_epoch a) p)"
    unfolding observed_epoch_def by blast
  have dec: "ct_decoded lt = Some ltx" using tx by (simp add: succeeded_def)
  obtain kind d ks where d: "program_digest c lib ev (ascii ''lock'') (Lock p) = Inr (kind, d)"
    "parse_keypers lib (ecf_keypers (dv_configuration ev)) = Inr ks" "keyper_signatures c rt ks ltx d"
    "\<exists>e \<in> set la. de_kind e = kind \<and> de_digest e = Some (hex_digest (arr_bytes d))"
    by (rule decode_quorum_transaction [OF assms(1) dec quorum assms(4), of "Lock p"]) (simp_all add: lock_instruction_def)
  from d(1) have dd: "kind = ascii ''epoch-lock''" "d = lock_payload_digest (hash256 c) p" by (simp_all add: program_digest_def)
  from d(4) assms(2) obtain e where e: "e \<in> set (sn_decoded_allowlist sn)" "de_kind e = kind"
    "de_digest e = Some (hex_digest (arr_bytes d))" by blast
  from validate_allowed_Inr(1) [OF validate_allowlist_Inr [OF assms(6) e(1)]] e dd(1)
  have "hex_digest (arr_bytes d) = em_lock_digest (dv_commitments ev)" by simp
  then have "es_lock_digest epoch = d" using state parse_digest_hex [of d] by simp
  moreover have "ks = ps_keypers pool" using d(2) state by simp
  ultimately show thesis using that [OF dec] d(3) dd(2) by simp
qed

lemma settlement_proven:
  assumes "decode_kageb_transaction c rt lib st (ascii ''settlement'') ev = Inr sa" "set sa \<subseteq> set (sn_decoded_allowlist sn)"
    and "observed_epoch rt tokens lt st a p q r" "ID \<noteq> rt_ed25519_program rt"
    and "validate_program_state rt lib ev sn = Inr (pool, epoch)" "validate_allowlist ev sn n = Inr ()"
  obtains stx q' where "ct_decoded st = Some stx" "compact_from q' = compact_from q"
    "sp_lock_digest q' = es_lock_digest epoch" "es_settlement_digest epoch = settlement_payload_digest (hash256 c) q'"
    "keyper_signatures c rt (ps_keypers pool) stx (es_settlement_digest epoch)"
proof -
  note state = validate_program_state_Inr [OF assms(5)]
  from assms(3) obtain sm stx where tx: "succeeded st sm stx" and
    quorum: "quorum_transaction rt (oa_fee_payer a) (observed_settlement_keys rt a) stx (settle_instruction rt (settle_accounts_of a) q)"
    unfolding observed_epoch_def by blast
  have dec: "ct_decoded st = Some stx" using tx by (simp add: succeeded_def)
  obtain kind d ks where d: "program_digest c lib ev (ascii ''settlement'') (Settle (compact_from q)) = Inr (kind, d)"
    "parse_keypers lib (ecf_keypers (dv_configuration ev)) = Inr ks" "keyper_signatures c rt ks stx d"
    "\<exists>e \<in> set sa. de_kind e = kind \<and> de_digest e = Some (hex_digest (arr_bytes d))"
    by (rule decode_quorum_transaction [OF assms(1) dec quorum assms(4), of "Settle (compact_from q)"])
      (simp_all add: settle_instruction_def)
  from d(1) obtain q' where q': "full_settlement_payload lib ev (compact_from q) = Inr q'"
    and dd: "kind = ascii ''aggregate-settlement''" "d = settlement_payload_digest (hash256 c) q'"
    by (auto simp: program_digest_def res_simps)
  from d(4) assms(2) obtain e where e: "e \<in> set (sn_decoded_allowlist sn)" "de_kind e = kind"
    "de_digest e = Some (hex_digest (arr_bytes d))" by blast
  from validate_allowed_Inr(2) [OF validate_allowlist_Inr [OF assms(6) e(1)]] e dd(1)
  have "hex_digest (arr_bytes d) = em_settlement_digest (dv_commitments ev)" by simp
  then have "es_settlement_digest epoch = d" using state parse_digest_hex [of d] by simp
  moreover have "ks = ps_keypers pool" "sp_lock_digest q' = es_lock_digest epoch"
    using d(2) state full_settlement_payload_Inr(2) [OF q'] by simp_all
  ultimately show thesis using that [OF dec full_settlement_payload_Inr(1) [OF q']] d(3) dd(2) by simp
qed

text \<open>
  C31. Evidence that verifies at a node proves a settlement. The node is on devnet and holds, at the recorded
  addresses, accounts of the program with a pool and a settled epoch. The recorded lock and settlement transactions
  are on the chain, succeeded, and are a lock and a settlement of the program with the shape the observer demands. The
  digests in the epoch account are those of the payloads in these transactions, the settlement's being over this very
  lock, and two different keypers of the pool signed each of them.
\<close>

theorem verified_evidence_proves_settlement:
  assumes "verify_devnet_evidence_at_rpc c rt lib rpc bundle artifact = Inr ()"
  shows "\<exists>pool epoch pool_account epoch_account lt st a p q.
    er_genesis_hash rpc = Some DEVNET_GENESIS_HASH \<and>
    holds_account lib rpc (ea_pool (dv_accounts (db_content bundle))) pool_account \<and>
    holds_account lib rpc (ea_epoch (dv_accounts (db_content bundle))) epoch_account \<and>
    pa_owner pool_account = ID \<and> pa_data pool_account = pool_state_encode pool \<and>
    pa_owner epoch_account = ID \<and> pa_data epoch_account = epoch_state_encode epoch \<and>
    queried lib rpc (ets_lock (dv_transactions (db_content bundle))) lt \<and>
    queried lib rpc (ets_settlement (dv_transactions (db_content bundle))) st \<and>
    proven_epoch c rt lib pool epoch lt st a p q"
proof -
  from assms obtain sn where fetch: "fetch_devnet_public_snapshot c rt lib rpc bundle = Inr sn"
    and verified: "verify_devnet_evidence c rt lib bundle sn artifact = Inr ()"
    by (auto simp: verify_devnet_evidence_at_rpc_def res_simps)
  from fetch obtain ev a lt st trace la sa where ev: "ev = db_content bundle" and
    genesis: "er_genesis_hash rpc = Some DEVNET_GENESIS_HASH" and
    accounts: "holds_account lib rpc (ea_pool (dv_accounts ev)) (sn_pool sn)"
      "holds_account lib rpc (ea_epoch (dv_accounts ev)) (sn_epoch sn)" and
    txs: "queried lib rpc (ets_lock (dv_transactions ev)) lt" "queried lib rpc (ets_settlement (dv_transactions ev)) st" and
    obs: "from_confirmed_kageb rt (el_tokens lib) lt st a = Inr trace" and
    dec: "decode_kageb_transaction c rt lib lt (ascii ''lock'') ev = Inr la"
      "decode_kageb_transaction c rt lib st (ascii ''settlement'') ev = Inr sa" and
    sub: "set la \<subseteq> set (sn_decoded_allowlist sn)" "set sa \<subseteq> set (sn_decoded_allowlist sn)"
    by (rule fetch_snapshotE)
  from verified ev obtain pool epoch n where state: "validate_program_state rt lib ev sn = Inr (pool, epoch)"
    and allow: "validate_allowlist ev sn n = Inr ()"
    by (auto elim: verify_devnet_evidenceE)
  from from_confirmed_kageb_sound [OF obs] obtain p q r where ne: "ID \<noteq> rt_ed25519_program rt"
    and epoch: "observed_epoch rt (el_tokens lib) lt st a p q r" by blast
  obtain ltx where l: "ct_decoded lt = Some ltx" "es_lock_digest epoch = lock_payload_digest (hash256 c) p"
    "keyper_signatures c rt (ps_keypers pool) ltx (es_lock_digest epoch)"
    by (rule lock_proven [OF dec(1) sub(1) epoch ne state allow])
  obtain stx q' where s: "ct_decoded st = Some stx" "compact_from q' = compact_from q"
    "sp_lock_digest q' = es_lock_digest epoch" "es_settlement_digest epoch = settlement_payload_digest (hash256 c) q'"
    "keyper_signatures c rt (ps_keypers pool) stx (es_settlement_digest epoch)"
    by (rule settlement_proven [OF dec(2) sub(2) epoch ne state allow])
  have "proven_epoch c rt lib pool epoch lt st a p q'"
    using validate_program_state_Inr [OF state] observed_epoch_compact [OF epoch s(2)] l s unfolding proven_epoch_def by blast
  with genesis accounts txs validate_program_state_Inr [OF state] show ?thesis unfolding ev by blast
qed

section \<open>Token balances\<close>

definition residual_moved :: "u8 \<Rightarrow> nat \<Rightarrow> nat \<Rightarrow> evidence_token_balances \<Rightarrow> bool" where
  "residual_moved side base quote b \<longleftrightarrow>
     (if side = 1 then
        unat (eb_pool_base_after b) = unat (eb_pool_base_before b) + base \<and>
        unat (eb_pool_quote_after b) + quote = unat (eb_pool_quote_before b) \<and>
        unat (eb_venue_base_after b) + base = unat (eb_venue_base_before b) \<and>
        unat (eb_venue_quote_after b) = unat (eb_venue_quote_before b) + quote
      else if side = 2 then
        unat (eb_pool_base_after b) + base = unat (eb_pool_base_before b) \<and>
        unat (eb_pool_quote_after b) = unat (eb_pool_quote_before b) + quote \<and>
        unat (eb_venue_base_after b) = unat (eb_venue_base_before b) + base \<and>
        unat (eb_venue_quote_after b) + quote = unat (eb_venue_quote_before b)
      else
        eb_pool_base_after b = eb_pool_base_before b \<and> eb_pool_quote_after b = eb_pool_quote_before b \<and>
        eb_venue_base_after b = eb_venue_base_before b \<and> eb_venue_quote_after b = eb_venue_quote_before b)"

lemma uint_delta:
  "int n = uint a - uint b \<longleftrightarrow> unat a = unat b + n" "- int n = uint a - uint b \<longleftrightarrow> unat a + n = unat b"
  for a b :: "'a::len word"
  unfolding uint_nat by linarith+

lemma uint_same: "0 = uint a - uint b \<longleftrightarrow> a = b" for a b :: "'a::len word"
  by (auto simp: word_uint_eq_iff)

lemma validate_token_deltas_Inr:
  assumes "validate_token_deltas lib ev sn epoch = Inr ()"
  shows "dv_token_balances ev = sn_token_balances sn \<and> valid_residual (es_residual_side epoch) (es_residual_lots epoch) \<and>
    residual_moved (es_residual_side epoch) (unat (es_base_lot_atoms epoch) * unat (es_residual_lots epoch))
      (unat (es_quote_atoms_per_lot epoch) * unat (es_residual_lots epoch)) (dv_token_balances ev)"
proof -
  let ?b = "dv_token_balances ev" and ?side = "es_residual_side epoch" and ?lots = "es_residual_lots epoch"
  from assms obtain base quote where same: "?b = sn_token_balances sn"
    and leg: "leg_amount (es_base_lot_atoms epoch) ?lots base" "leg_amount (es_quote_atoms_per_lot epoch) ?lots quote"
    and d: "(if ?side = 0 \<and> ?lots = 0 then Inr (0, 0, 0, 0)
       else if ?side = 1 \<and> 1 \<le> ?lots then Inr (uint base, - uint quote, - uint base, uint quote)
       else if ?side = 2 \<and> 1 \<le> ?lots then Inr (- uint base, uint quote, uint base, - uint quote)
       else Inl WrongTokenDelta) = Inr
       (uint (eb_pool_base_after ?b) - uint (eb_pool_base_before ?b), uint (eb_pool_quote_after ?b) - uint (eb_pool_quote_before ?b),
        uint (eb_venue_base_after ?b) - uint (eb_venue_base_before ?b), uint (eb_venue_quote_after ?b) - uint (eb_venue_quote_before ?b))"
    unfolding validate_token_deltas_def Let_def
    by (auto simp only: res_simps checked_leg de_Morgan_disj not_not)
  have amounts: "uint base = int (unat (es_base_lot_atoms epoch) * unat ?lots)"
    "uint quote = int (unat (es_quote_atoms_per_lot epoch) * unat ?lots)"
    using leg unfolding uint_nat by (simp_all only: leg_amount_def)
  have "(?side = 0 \<and> ?lots = 0) \<or> (?side = 1 \<and> 1 \<le> ?lots) \<or> (?side = 2 \<and> 1 \<le> ?lots)"
  proof (rule ccontr)
    assume "\<not> ((?side = 0 \<and> ?lots = 0) \<or> (?side = 1 \<and> 1 \<le> ?lots) \<or> (?side = 2 \<and> 1 \<le> ?lots))"
    then show False using d by (simp only: de_Morgan_disj if_False sum.distinct)
  qed
  then consider (none) "?side = 0" "?lots = 0" | (buy) "?side = 1" "1 \<le> ?lots" | (sell) "?side = 2" "1 \<le> ?lots"
    by blast
  then have "valid_residual ?side ?lots \<and> residual_moved ?side (unat (es_base_lot_atoms epoch) * unat ?lots)
      (unat (es_quote_atoms_per_lot epoch) * unat ?lots) ?b"
  proof cases
    case none
    with d show ?thesis by (simp add: valid_residual_def residual_moved_def uint_same)
  next
    case buy
    with d show ?thesis by (simp add: valid_residual_def residual_moved_def uint_delta amounts del: of_nat_mult)
  next
    case sell
    with d show ?thesis by (simp add: valid_residual_def residual_moved_def uint_delta amounts del: of_nat_mult)
  qed
  with same show ?thesis by blast
qed


section \<open>The deployed program\<close>

lemma extract_upgradeable_program_Inr:
  assumes "extract_upgradeable_program c lib program address programdata n = Inr x"
  shows "el_loader_state lib (pa_data program) = Some (Loader_program address) \<and>
    pa_owner program = UPGRADEABLE_LOADER_ID \<and> pa_owner programdata = UPGRADEABLE_LOADER_ID \<and>
    (\<exists>metadata k. pa_data programdata = metadata @ xp_executable x @ replicate k 0 \<and>
       length metadata = el_metadata_len lib \<and> length (xp_executable x) = n \<and>
       el_loader_state lib metadata = Some (Loader_programdata (xp_deployment_slot x) (xp_upgrade_authority x))) \<and>
    take 4 (xp_executable x) = 127 # ascii ''ELF''"
proof -
  let ?m = "el_metadata_len lib" and ?d = "pa_data programdata"
  have program: "(case s of Loader_program address \<Rightarrow> Inr address | _ \<Rightarrow> Inl MalformedLoaderMetadata) = Inr k \<longleftrightarrow>
      s = Loader_program k" for s k by (cases s) auto
  have data: "(case s of Loader_programdata slot authority \<Rightarrow> Inr (slot, authority) | _ \<Rightarrow> Inl MalformedLoaderMetadata) = Inr y \<longleftrightarrow>
      s = Loader_programdata (fst y) (snd y)" for s y by (cases s) auto
  from assms obtain slot authority where
    l: "pa_owner program = UPGRADEABLE_LOADER_ID" "el_loader_state lib (pa_data program) = Some (Loader_program address)"
      "pa_owner programdata = UPGRADEABLE_LOADER_ID"
    and len: "?m + n \<le> length ?d"
    and meta: "el_loader_state lib (slice 0 ?m ?d) = Some (Loader_programdata slot authority)"
    and elf: "take 4 (slice ?m (?m + n) ?d) = 127 # ascii ''ELF''" and tail: "\<forall>b \<in> set (drop (?m + n) ?d). b = 0"
    and x: "x = \<lparr>xp_deployment_slot = slot, xp_upgrade_authority = authority, xp_executable = slice ?m (?m + n) ?d,
        xp_executable_sha256 = hex_digest (arr_bytes (hash256 c (slice ?m (?m + n) ?d)))\<rparr>"
    unfolding extract_upgradeable_program_def Let_def
    by (auto simp: res_simps program data get_slice_def list_ex_iff case_prod_beta split: if_splits)
  from tail have zeros: "drop (?m + n) ?d = replicate (length ?d - (?m + n)) 0"
    by (intro replicate_eqI) auto
  have "?d = slice 0 ?m ?d @ slice ?m (?m + n) ?d @ drop (?m + n) ?d"
    using slice_split [of 0 ?m "?m + n" ?d] append_take_drop_id [of "?m + n" ?d]
    by (simp add: slice_def flip: append_assoc)
  with zeros have split: "?d = slice 0 ?m ?d @ slice ?m (?m + n) ?d @ replicate (length ?d - (?m + n)) 0" by simp
  have "\<exists>metadata k. ?d = metadata @ xp_executable x @ replicate k 0 \<and> length metadata = ?m \<and> length (xp_executable x) = n \<and>
       el_loader_state lib metadata = Some (Loader_programdata (xp_deployment_slot x) (xp_upgrade_authority x))"
    using split len meta by (intro exI [of _ "slice 0 ?m ?d"] exI [of _ "length ?d - (?m + n)"]) (simp add: x)
  with l elf show ?thesis by (simp add: x)
qed

lemma validate_deployment_Inr:
  assumes "validate_deployment c lib ev sn artifact = Inr ()"
  shows "\<exists>address x. el_parse_pubkey lib (ed_programdata (dv_deployment ev)) = Some address \<and>
    extract_upgradeable_program c lib (sn_program sn) address (sn_programdata sn) (dv_checkpoint_artifact_len ev) = Inr x \<and>
    xp_executable x = artifact \<and> xp_deployment_slot x = ed_deployment_slot (dv_deployment ev)"
  using assms by (auto simp: validate_deployment_def res_simps parse_pubkey_Inr)

lemma validate_public_fields_Inr:
  assumes "validate_public_fields c rt lib ev artifact = Inr ()"
  shows "el_parse_pubkey lib (ed_program (dv_deployment ev)) = Some ID"
    "el_parse_pubkey lib (ed_programdata (dv_deployment ev)) =
       Some (fst (rt_find_program_address rt [arr_bytes ID] UPGRADEABLE_LOADER_ID))"
  using assms unfolding validate_public_fields_def Let_def
  by (auto simp only: res_simps expect_key_Inr)

lemma validate_transactions_Inr:
  assumes "validate_transactions lib ev snapshots = Inr ()"
  shows "\<forall>f \<in> set (four_list (ets_funding (dv_transactions ev))).
      ed_deployment_slot (dv_deployment ev) < et_slot (ft_transaction f) \<and>
      et_slot (ft_transaction f) < et_slot (ets_lock (dv_transactions ev))"
    "et_slot (ets_lock (dv_transactions ev)) < et_slot (ets_settlement (dv_transactions ev))"
  using assms by (auto simp: validate_transactions_def res_simps Let_def list_ex_iff)


section \<open>Balanced epochs\<close>

text \<open>
  C37. The evidence path cannot record a balanced epoch. For a zero residual, which moves no token, the observer
  accepts a settlement without inner instructions, but the decoder of the same transaction demands a group of inner
  instructions and refuses it whatever else it contains.
\<close>

theorem balanced_settlement_not_recordable:
  "validate_settlement_token_effects (el_tokens lib) [] keys 2 a Residual_none = Inr () \<and>
   (succeeded st m tx \<and> inner_instructions m = [] \<longrightarrow>
      (\<exists>e. decode_kageb_transaction c rt lib st (ascii ''settlement'') ev = Inl e))"
proof -
  have inner: "i = inner_instructions m"
    if "(case tm_inner m of OS_Some inner \<Rightarrow> Inr inner | OS_None \<Rightarrow> Inl InvalidTransaction | OS_Skip \<Rightarrow> Inl InvalidTransaction) = Inr i"
    for i using that by (cases "tm_inner m") (auto simp: inner_instructions_def)
  have "decode_kageb_transaction c rt lib st (ascii ''settlement'') ev \<noteq> Inr entries"
    if "succeeded st m tx" "inner_instructions m = []" for entries
    using that unfolding decode_kageb_transaction_def Let_def
    by (auto simp: res_simps succeeded_def dest!: inner)
  moreover have "settlement_legs a Residual_none []"
    unfolding settlement_legs_def by (intro exI [of _ 0]) (simp add: residual_lots_u64_def expected_transfers_def)
  ultimately show ?thesis
    unfolding validate_settlement_token_effects_iff observed_legs_def
    by (intro conjI impI) (auto, meson sum.exhaust)
qed

section \<open>Content address\<close>

lemma verify_content_hash_Inr:
  "verify_content_hash c lib b = Inr () \<longleftrightarrow> db_schema_version b = 1 \<and>
     (\<exists>j. el_content_json lib (db_content b) = Some j \<and>
        db_evidence_sha256 b = hex_digest (arr_bytes (hash256 c (EVIDENCE_BUNDLE_DOMAIN @ j))))"
  by (auto simp: verify_content_hash_def evidence_content_hash_def res_simps)


end
