(* ===== verification/Observed_Settlement.thy ===== *)
theory Observed_Settlement
  imports Observer_Properties
begin

text \<open>
  Composition of the program with the observer: the cross-program invocations of a successful settlement, published
  as the inner instructions of its transaction, are the token effects the observer expects, so that it accepts every
  settlement the program executes.
\<close>

section \<open>The invocations of a settlement\<close>

type_synonym call = "cpi \<times> nat list \<times> seeds list"

fun run_calls :: "runtime \<Rightarrow> call list \<Rightarrow> account_info list \<Rightarrow> program_error + account_info list" where
  "run_calls rt [] accounts = Inr accounts"
| "run_calls rt ((ix, infos, seeds) # calls) accounts =
     try_bind (invoke_signed rt ix infos seeds accounts) (run_calls rt calls)"

definition transfer_call :: "account_info list \<Rightarrow> nat \<Rightarrow> nat \<Rightarrow> nat \<Rightarrow> nat \<Rightarrow> u64 \<Rightarrow> seeds list \<Rightarrow> call" where
  "transfer_call accs source mint destination authority amount seeds =
     (Transfer_checked (ai_key (accs ! 11)) (ai_key (accs ! source)) (ai_key (accs ! mint)) (ai_key (accs ! destination))
        (ai_key (accs ! authority)) [] amount 0, [source, mint, destination, authority, 11], seeds)"

definition leg_calls :: "seeds \<Rightarrow> u8 \<Rightarrow> u64 \<Rightarrow> u64 \<Rightarrow> account_info list \<Rightarrow> call list" where
  "leg_calls seeds side base quote accs =
     (if side = 1 then [transfer_call accs 5 10 8 3 quote [seeds], transfer_call accs 7 9 4 6 base []]
      else if side = 2 then [transfer_call accs 4 9 7 3 base [seeds], transfer_call accs 8 10 5 6 quote []]
      else [])"

lemma run_no_calls [simp]: "try_bind m (run_calls rt []) = m"
  by (cases m) simp_all

lemma transfer_checked_call:
  "transfer_checked rt s m d a 11 n (Some seeds) accs = run_calls rt [transfer_call accs s m d a n [seeds]] accs"
  "transfer_checked rt s m d a 11 n None accs = run_calls rt [transfer_call accs s m d a n []] accs"
  by (simp_all add: transfer_checked_def transfer_call_def invoke_def Let_def)

lemma run_calls_append: "run_calls rt (cs @ ds) accs = try_bind (run_calls rt cs accs) (run_calls rt ds)"
proof (induction cs arbitrary: accs)
  case (Cons c cs)
  obtain ix infos seeds where "c = (ix, infos, seeds)" by (cases c)
  with Cons show ?case by (cases "invoke_signed rt ix infos seeds accs") simp_all
qed simp

lemma transfer_call_keys:
  assumes "map ai_key accs' = map ai_key accs" "11 < length accs" "s < length accs" "m < length accs" "d < length accs"
    "a < length accs"
  shows "transfer_call accs' s m d a n seeds = transfer_call accs s m d a n seeds"
proof -
  have "ai_key (accs' ! i) = ai_key (accs ! i)" if "i < length accs" for i
    using that assms(1) map_eq_imp_length_eq [OF assms(1)] by (metis nth_map)
  with assms(2-) show ?thesis by (simp add: transfer_call_def)
qed

lemma two_transfers:
  assumes "cpi_frame rt" "length accs = 14" "s < 14" "m < 14" "d < 14" "a < 14"
    and "transfer_checked rt s' m' d' a' 11 n' (Some seeds) accs = Inr accs1"
    and "transfer_checked rt s m d a 11 n None accs1 = Inr accs2"
  shows "run_calls rt [transfer_call accs s' m' d' a' n' [seeds], transfer_call accs s m d a n []] accs = Inr accs2"
proof -
  have "transfer_call accs1 s m d a n [] = transfer_call accs s m d a n []"
    using keys_after_transfer [OF assms(1,7)] assms(2-6) by (intro transfer_call_keys) simp_all
  then show ?thesis
    using run_calls_append [of rt "[transfer_call accs s' m' d' a' n' [seeds]]" "[transfer_call accs s m d a n []]" accs]
      assms(7,8) by (simp add: transfer_checked_call del: run_calls.simps)
qed

lemma settle_legs_calls:
  assumes "cpi_frame rt" "length accs = 14" "settle_legs rt seeds side b q accs = Inr accs1"
  shows "run_calls rt (leg_calls seeds side b q accs) accs = Inr accs1"
  using assms(3)
  by (auto simp: settle_legs_def leg_calls_def res_simps simp del: run_calls.simps(2)
      intro!: two_transfers [OF assms(1,2)] split: if_splits)

section \<open>Publication\<close>

text \<open>An inner instruction publishes an invocation of the token program's checked transfer.\<close>

fun publishes :: "token_library \<Rightarrow> pubkey list \<Rightarrow> ui_instruction \<Rightarrow> cpi \<Rightarrow> bool" where
  "publishes lib keys (UI_Compiled u) (Transfer_checked program source mint destination authority signers amount decimals) \<longleftrightarrow>
     key_at keys (uc_program_id_index u) = Some program \<and>
     map (key_at keys) (uc_accounts u) = map Some ([source, mint, destination, authority] @ signers) \<and>
     (case tl_bs58_decode lib (uc_data u) of
        Some data \<Rightarrow> tl_unpack lib data = Some (TransferChecked amount decimals)
      | None \<Rightarrow> False)"
| "publishes lib keys _ _ \<longleftrightarrow> False"

definition published :: "token_library \<Rightarrow> pubkey list \<Rightarrow> ui_inner_instructions list \<Rightarrow> u8 \<Rightarrow> call list \<Rightarrow> bool" where
  "published lib keys inner index calls \<longleftrightarrow>
     inner = [] \<and> calls = [] \<or>
     (\<exists>instrs. inner = [\<lparr>ui_index = index, ui_instructions = instrs\<rparr>] \<and>
        list_all2 (\<lambda>instr (ix, _). publishes lib keys instr ix) instrs calls)"

definition observer_of :: "pubkey \<Rightarrow> account_info list \<Rightarrow> epoch_state \<Rightarrow> kageb_observer_accounts" where
  "observer_of fee_payer accs es =
     \<lparr> oa_fee_payer = fee_payer, oa_payer = ai_key (accs ! 0), oa_pool = ai_key (accs ! 1), oa_epoch = ai_key (accs ! 2),
       oa_vault_authority = ai_key (accs ! 3), oa_pool_base_vault = ai_key (accs ! 4),
       oa_pool_quote_vault = ai_key (accs ! 5), oa_venue_authority = ai_key (accs ! 6),
       oa_venue_base_account = ai_key (accs ! 7), oa_venue_quote_account = ai_key (accs ! 8),
       oa_base_mint = ai_key (accs ! 9), oa_quote_mint = ai_key (accs ! 10),
       oa_base_lot_atoms = es_base_lot_atoms es, oa_quote_atoms_per_lot = es_quote_atoms_per_lot es \<rparr>"

lemma published_transfer:
  assumes "ai_key (accs ! 11) = TOKEN_PROGRAM_ID" "publishes lib keys instr (fst (transfer_call accs s m d a n seeds))"
  shows "observed_transfer lib keys instr [ai_key (accs ! s), ai_key (accs ! m), ai_key (accs ! d), ai_key (accs ! a)] n"
  using assms by (cases instr) (auto simp: transfer_call_def observed_transfer_def split: option.splits)

lemma residual_of_wire_cases:
  assumes "valid_residual side lots"
  obtains "side = 0" "lots = 0" "residual_of_wire side lots = Inr Residual_none"
  | "side = 1" "residual_of_wire side lots = Inr (Residual_buy lots)"
  | "side = 2" "residual_of_wire side lots = Inr (Residual_sell lots)"
  using assms that by (auto simp: valid_residual_def residual_of_wire_def word_le_nat_alt)


lemma published_legs:
  assumes "published lib keys inner index (leg_calls seeds side b q accs)" "ai_key (accs ! 11) = TOKEN_PROGRAM_ID"
    and "valid_residual side lots" "residual_of_wire side lots = Inr r"
  shows "observed_legs lib keys inner index (expected_transfers (observer_of fee_payer accs es) r b q)"
proof -
  note pub = published_transfer [OF assms(2)]
  from assms(3) show ?thesis
  proof (cases rule: residual_of_wire_cases)
    case 1
    with assms show ?thesis by (auto simp: published_def leg_calls_def observed_legs_def expected_transfers_def)
  next
    case 2
    with assms(1,4) show ?thesis
      by (auto simp: published_def leg_calls_def observed_legs_def expected_transfers_def observer_of_def
          list_all2_Cons2 case_prod_unfold intro!: pub)
  next
    case 3
    with assms(1,4) show ?thesis
      by (auto simp: published_def leg_calls_def observed_legs_def expected_transfers_def observer_of_def
          list_all2_Cons2 case_prod_unfold intro!: pub)
  qed
qed

lemma settlement_legs_amounts:
  assumes "valid_residual side lots" "residual_of_wire side lots = Inr r"
    and "leg_amount (oa_base_lot_atoms a) lots b" "leg_amount (oa_quote_atoms_per_lot a) lots q"
  shows "settlement_legs a r (expected_transfers a r b q)"
proof -
  have "unat (residual_lots_u64 r) = unat lots"
    using assms(1,2) by (auto elim!: residual_of_wire_cases simp: residual_lots_u64_def)
  with assms(3,4) show ?thesis unfolding settlement_legs_def leg_amount_def by auto
qed

lemma published_settlement_accepted:
  assumes "ID \<noteq> rt_ed25519_program rt" "ai_key (accs ! 11) = TOKEN_PROGRAM_ID" "a = observer_of fee_payer accs es"
    and valid: "valid_residual (sp_residual_side q) (sp_residual_lots q)"
    and r: "residual_of_wire (sp_residual_side q) (sp_residual_lots q) = Inr r"
    and amounts: "leg_amount (es_base_lot_atoms es) (sp_residual_lots q) b"
      "leg_amount (es_quote_atoms_per_lot es) (sp_residual_lots q) qa"
    and tx: "succeeded lt lm ltx" "succeeded st sm stx"
      "quorum_transaction rt fee_payer (observed_lock_keys rt a) ltx (lock_instruction rt (oa_payer a) (oa_pool a) (oa_epoch a) p)"
      "lp_epoch_account p = oa_epoch a" "4 \<le> lp_member_count p"
      "quorum_transaction rt fee_payer (observed_settlement_keys rt a) stx (settle_instruction rt (settle_accounts_of a) q)"
    and pub: "published lib (vt_keys stx) (inner_instructions sm) 2 (leg_calls seeds (sp_residual_side q) b qa accs)"
  shows "from_confirmed_kageb rt lib lt st a = Inr (aggregate_trace a p q r)"
proof (rule from_confirmed_kageb_complete [OF _ assms(1)])
  have fee: "oa_fee_payer a = fee_payer" using assms(3) by (simp add: observer_of_def)
  have "settlement_legs a r (expected_transfers a r b qa)"
    using assms(3) amounts by (intro settlement_legs_amounts [OF valid r]) (simp_all add: observer_of_def)
  moreover have "observed_legs lib (vt_keys stx) (inner_instructions sm) 2 (expected_transfers a r b qa)"
    unfolding assms(3) by (rule published_legs [OF pub assms(2) valid r])
  ultimately show "observed_epoch rt lib lt st a p q r"
    unfolding observed_epoch_def fee using tx r by blast
qed

text \<open>The invocations of a settlement with payload \<open>q\<close> of the epoch \<open>es\<close> of the pool \<open>ps\<close>.\<close>

definition settlement_calls ::
    "account_info list \<Rightarrow> pool_state \<Rightarrow> epoch_state \<Rightarrow> settlement_payload \<Rightarrow> call list" where
  "settlement_calls accs ps es q =
     leg_calls (vault_seeds (ai_key (accs ! 1)) @ [[ps_vault_bump ps]]) (sp_residual_side q)
       (es_base_lot_atoms es * ucast (sp_residual_lots q)) (es_quote_atoms_per_lot es * ucast (sp_residual_lots q)) accs"

lemma leg_amount_product:
  assumes "leg_amount per_lot lots amount"
  shows "amount = per_lot * ucast lots"
proof -
  have "unat per_lot * unat lots < 2 ^ 64"
    using assms unsigned_less [where 'a = nat, of amount] by (simp add: leg_amount_def)
  with assms show ?thesis
    by (intro word_unat_eq_iff [THEN iffD2]) (simp add: leg_amount_def unat_word_ariths)
qed


end
