(* ===== verification/Demo_Observer.thy ===== *)
theory Demo_Observer
  imports Observed_Settlement
begin

text \<open>
  The confirmed transactions of the example run of the chain: the observer decodes its lock and its settlement.
\<close>

definition demo_tokens :: token_library where
  "demo_tokens =
     \<lparr> tl_bs58_decode = Some,
       tl_unpack = (\<lambda>data. if length data = 10 \<and> hd data = 12
         then Some (TransferChecked (from_le_bytes (slice 1 9 data)) (data ! 9)) else None) \<rparr>"

definition demo_transfer_data :: "u64 \<Rightarrow> byte list" where
  "demo_transfer_data amount = 12 # to_le_bytes amount @ [0]"

definition demo_meta :: "ui_inner_instructions list option_serializer \<Rightarrow> transaction_meta" where
  "demo_meta inner = \<lparr> tm_err = False, tm_status_err = False, tm_inner = inner,
     tm_pre_token_balances = OS_None, tm_post_token_balances = OS_None \<rparr>"

definition demo_confirmed :: "transaction_meta \<Rightarrow> versioned_transaction \<Rightarrow> confirmed_transaction" where
  "demo_confirmed m tx = \<lparr> ct_slot = 5, ct_meta = Some m, ct_decoded = Some tx \<rparr>"

definition demo_lock_tx :: "pubkey \<Rightarrow> versioned_transaction" where
  "demo_lock_tx payer = \<lparr> vt_signatures = [], vt_num_required_signatures = 2, vt_keys = [71, payer, 10, 12, 21, 20, 22, ID],
     vt_instructions = [
       \<lparr> ci_program_id_index = 6, ci_accounts = [], ci_data = ix_data (demo_verify 33 demo_lock_digest) \<rparr>,
       \<lparr> ci_program_id_index = 6, ci_accounts = [], ci_data = ix_data (demo_verify 31 demo_lock_digest) \<rparr>,
       \<lparr> ci_program_id_index = 7, ci_accounts = [1, 2, 3, 4, 5], ci_data = ix_data demo_lock_ix \<rparr>] \<rparr>"

definition demo_settle_tx :: "pubkey \<Rightarrow> versioned_transaction" where
  "demo_settle_tx payer = \<lparr> vt_signatures = [], vt_num_required_signatures = 3,
     vt_keys = [71, payer, 10, 12, 11, 4, 5, 6, 7, 8, 2, 3, TOKEN_PROGRAM_ID, 21, 20, 22, ID],
     vt_instructions = [
       \<lparr> ci_program_id_index = 15, ci_accounts = [], ci_data = ix_data (demo_verify 33 demo_settlement_digest) \<rparr>,
       \<lparr> ci_program_id_index = 15, ci_accounts = [], ci_data = ix_data (demo_verify 31 demo_settlement_digest) \<rparr>,
       \<lparr> ci_program_id_index = 16, ci_accounts = [1, 2, 3, 4, 5, 6, 7, 8, 9, 10, 11, 12, 13, 14],
         ci_data = ix_data demo_settle_ix \<rparr>] \<rparr>"

definition demo_inner :: "ui_inner_instructions list" where
  "demo_inner = [\<lparr> ui_index = 2, ui_instructions = [
     UI_Compiled \<lparr> uc_program_id_index = 12, uc_accounts = [6, 11, 9, 4], uc_data = demo_transfer_data 21 \<rparr>,
     UI_Compiled \<lparr> uc_program_id_index = 12, uc_accounts = [8, 10, 5, 7], uc_data = demo_transfer_data 300 \<rparr>] \<rparr>]"

definition demo_accounts :: "account_info list" where
  "demo_accounts = map (load_account demo_chain3) (ix_accounts demo_settle_ix)"

definition demo_observer :: kageb_observer_accounts where
  "demo_observer = observer_of 71 demo_accounts demo_locked"

definition demo_settle_runtime :: runtime where
  "demo_settle_runtime = demo_rt (demo_signatures demo_settlement_digest) 1500"

lemma demo_data:
  "ai_data (demo_accounts ! 1) = pool_state_encode demo_pool" "ai_data (demo_accounts ! 2) = epoch_state_encode demo_locked"
  by (simp_all add: demo_accounts_def demo_settle_ix_def settle_instruction_def run_defs demo_chain1_def demo_chain2_def demo_chain3_def)

lemma demo_prices: "es_base_lot_atoms demo_locked = 100" "es_quote_atoms_per_lot demo_locked = 7"
  by (simp_all add: demo_locked_def lock_state_def demo_epoch_def new_epoch_def demo_epoch_args_def demo_pool_def)

lemma demo_keys: "map ai_key demo_accounts = [70, 10, 12, 11, 4, 5, 6, 7, 8, 2, 3, TOKEN_PROGRAM_ID, 21, 20]"
  by (simp add: demo_accounts_def demo_settle_ix_def settle_instruction_def meta_new_def meta_readonly_def load_account_def)

lemma demo_key_at:
  "ai_key (demo_accounts ! 0) = 70" "ai_key (demo_accounts ! 1) = 10" "ai_key (demo_accounts ! 2) = 12"
  "ai_key (demo_accounts ! 3) = 11" "ai_key (demo_accounts ! 4) = 4" "ai_key (demo_accounts ! 5) = 5"
  "ai_key (demo_accounts ! 6) = 6" "ai_key (demo_accounts ! 7) = 7" "ai_key (demo_accounts ! 8) = 8"
  "ai_key (demo_accounts ! 9) = 2" "ai_key (demo_accounts ! 10) = 3" "ai_key (demo_accounts ! 11) = TOKEN_PROGRAM_ID"
  "ai_key (demo_accounts ! Suc 0) = 10"
  by (simp_all add: demo_accounts_def demo_settle_ix_def settle_instruction_def meta_new_def meta_readonly_def load_account_def)

lemma demo_observer_eq:
  "demo_observer = \<lparr> oa_fee_payer = 71, oa_payer = 70, oa_pool = 10, oa_epoch = 12, oa_vault_authority = 11,
     oa_pool_base_vault = 4, oa_pool_quote_vault = 5, oa_venue_authority = 6, oa_venue_base_account = 7,
     oa_venue_quote_account = 8, oa_base_mint = 2, oa_quote_mint = 3, oa_base_lot_atoms = 100,
     oa_quote_atoms_per_lot = 7 \<rparr>"
  by (simp add: demo_observer_def observer_of_def demo_key_at demo_prices)

lemma demo_ids [simp]: "ID \<noteq> 1" "ID \<noteq> 71" "ID \<noteq> 70" "ID \<noteq> 10" "ID \<noteq> 12" "ID \<noteq> 11" "ID \<noteq> 20" "ID \<noteq> 21" "ID \<noteq> 22"
  "ID \<noteq> 2" "ID \<noteq> 3" "ID \<noteq> 4" "ID \<noteq> 5" "ID \<noteq> 6" "ID \<noteq> 7" "ID \<noteq> 8" "TOKEN_PROGRAM_ID \<noteq> 71" "TOKEN_PROGRAM_ID \<noteq> 22"
  by (simp_all add: ID_num)

lemmas demo_ids_sym [simp] = demo_ids [THEN not_sym] token_program_fresh [THEN not_sym]

text \<open>A runtime with the addresses of the example.\<close>

definition observer_sysvars :: "runtime \<Rightarrow> bool" where
  "observer_sysvars rt \<longleftrightarrow> rt_clock_id rt = 20 \<and> rt_instructions_id rt = 21 \<and> rt_ed25519_program rt = 22"

lemma observer_sysvars [simp]: "observer_sysvars demo_settle_runtime"
  by (simp add: observer_sysvars_def demo_settle_runtime_def)

lemma demo_verify_strict: "observer_sysvars rt \<Longrightarrow> demo_verify k d = strict_instruction rt k 0 d"
  by (simp add: observer_sysvars_def demo_verify_def strict_instruction_def)

lemma demo_verification:
  assumes "observer_sysvars rt" "key_at keys i = Some 22"
  shows "strict_verification rt keys \<lparr>ci_program_id_index = i, ci_accounts = [], ci_data = ix_data (demo_verify k d)\<rparr>"
  unfolding strict_verification_def demo_verify_strict [OF assms(1)]
  by (rule exI [of _ "strict_instruction rt k 0 d"])
    (use assms in \<open>simp add: resolves_def, simp add: strict_instruction_def observer_sysvars_def\<close>)

lemma demo_lock_quorum:
  assumes "observer_sysvars rt" "pk = 70 \<or> pk = 1" "a = demo_observer\<lparr>oa_payer := pk\<rparr>"
  shows "quorum_transaction rt 71 (observed_lock_keys rt a) ((demo_lock_tx pk)\<lparr>vt_signatures := sigs\<rparr>)
     (lock_instruction rt (oa_payer a) (oa_pool a) (oa_epoch a) demo_lock)"
  unfolding quorum_transaction_def
proof (intro conjI exI)
  let ?tx = "(demo_lock_tx pk)\<lparr>vt_signatures := sigs\<rparr>"
  show "set (vt_keys ?tx) = set (observed_lock_keys rt a)"
    using assms by (simp add: demo_lock_tx_def observed_lock_keys_def demo_observer_eq observer_sysvars_def)
  show "vt_instructions ?tx = [vt_instructions (demo_lock_tx pk) ! 0, vt_instructions (demo_lock_tx pk) ! 1, vt_instructions (demo_lock_tx pk) ! 2]"
    by (simp add: demo_lock_tx_def)
  show "vt_keys ?tx = 71 # [pk, 10, 12, 21, 20, 22, ID]" "distinct (vt_keys ?tx)"
    using assms(2) by (auto simp: demo_lock_tx_def)
qed (use assms in \<open>simp_all add: demo_lock_tx_def demo_verification resolves_def key_at_def lock_instruction_def demo_observer_eq
    demo_lock_ix_def meta_new_def meta_readonly_def observer_sysvars_def del: instruction_encode.simps\<close>)

lemma demo_settle_quorum:
  assumes "observer_sysvars rt" "pk = 70 \<or> pk = 1" "a = demo_observer\<lparr>oa_payer := pk\<rparr>"
  shows "quorum_transaction rt 71 (observed_settlement_keys rt a) ((demo_settle_tx pk)\<lparr>vt_signatures := sigs\<rparr>)
     (settle_instruction rt (settle_accounts_of a) demo_settlement)"
  unfolding quorum_transaction_def
proof (intro conjI exI)
  let ?tx = "(demo_settle_tx pk)\<lparr>vt_signatures := sigs\<rparr>"
  show "set (vt_keys ?tx) = set (observed_settlement_keys rt a)"
    using assms by (simp add: demo_settle_tx_def observed_settlement_keys_def demo_observer_eq observer_sysvars_def)
  show "vt_instructions ?tx =
      [vt_instructions (demo_settle_tx pk) ! 0, vt_instructions (demo_settle_tx pk) ! 1, vt_instructions (demo_settle_tx pk) ! 2]"
    by (simp add: demo_settle_tx_def)
  show "vt_keys ?tx = 71 # [pk, 10, 12, 11, 4, 5, 6, 7, 8, 2, 3, TOKEN_PROGRAM_ID, 21, 20, 22, ID]"
    "distinct (vt_keys ?tx)"
    using assms(2) by (auto simp: demo_settle_tx_def)
qed (use assms in \<open>simp_all add: demo_settle_tx_def demo_verification resolves_def key_at_def settle_instruction_def demo_observer_eq
    demo_settle_ix_def settle_accounts_of_def meta_new_def meta_readonly_def observer_sysvars_def del: instruction_encode.simps\<close>)

lemma demo_quorums:
  "quorum_transaction demo_settle_runtime 71 (observed_lock_keys demo_settle_runtime demo_observer) (demo_lock_tx 70)
     (lock_instruction demo_settle_runtime (oa_payer demo_observer) (oa_pool demo_observer) (oa_epoch demo_observer) demo_lock)"
  "quorum_transaction demo_settle_runtime 71 (observed_settlement_keys demo_settle_runtime demo_observer) (demo_settle_tx 70)
     (settle_instruction demo_settle_runtime (settle_accounts_of demo_observer) demo_settlement)"
proof -
  have "demo_observer\<lparr>oa_payer := 70\<rparr> = demo_observer" by (simp add: demo_observer_eq)
  then show "quorum_transaction demo_settle_runtime 71 (observed_lock_keys demo_settle_runtime demo_observer) (demo_lock_tx 70)
     (lock_instruction demo_settle_runtime (oa_payer demo_observer) (oa_pool demo_observer) (oa_epoch demo_observer) demo_lock)"
    "quorum_transaction demo_settle_runtime 71 (observed_settlement_keys demo_settle_runtime demo_observer) (demo_settle_tx 70)
     (settle_instruction demo_settle_runtime (settle_accounts_of demo_observer) demo_settlement)"
    using demo_lock_quorum [of demo_settle_runtime 70 demo_observer "vt_signatures (demo_lock_tx 70)"]
      demo_settle_quorum [of demo_settle_runtime 70 demo_observer "vt_signatures (demo_settle_tx 70)"] by simp_all
qed

lemma demo_unpack:
  "tl_unpack demo_tokens (demo_transfer_data n) = Some (TransferChecked n 0)" "tl_bs58_decode demo_tokens = Some"
  by (simp_all add: demo_tokens_def demo_transfer_data_def bytes_simps nth_append)

lemma demo_published:
  "published demo_tokens (vt_keys (demo_settle_tx pk)) demo_inner 2
     (settlement_calls demo_accounts demo_pool demo_locked demo_settlement)"
  by (simp add: published_def demo_inner_def settlement_calls_def leg_calls_def transfer_call_def demo_settlement_def
      full_payload_def demo_compact_def demo_key_at demo_prices demo_unpack demo_settle_tx_def key_at_def)

lemma demo_succeeded: "succeeded (demo_confirmed (demo_meta inner) tx) (demo_meta inner) tx"
  by (simp add: succeeded_def demo_confirmed_def demo_meta_def)


lemma demo_kageb_accepted:
  assumes "observer_sysvars rt" "pk = 70 \<or> pk = 1" "a = demo_observer\<lparr>oa_payer := pk\<rparr>"
    and "succeeded lt lm ((demo_lock_tx pk)\<lparr>vt_signatures := ls\<rparr>)"
    "succeeded st sm ((demo_settle_tx pk)\<lparr>vt_signatures := ss\<rparr>)" "inner_instructions sm = demo_inner"
  shows "from_confirmed_kageb rt demo_tokens lt st a = Inr (aggregate_trace a demo_lock demo_settlement (Residual_buy 3))"
proof (rule from_confirmed_kageb_complete)
  have residual: "valid_residual 1 3" "residual_of_wire 1 3 = Inr (Residual_buy 3)"
    by (simp_all add: valid_residual_def residual_of_wire_def)
  have settlement: "sp_residual_side demo_settlement = 1" "sp_residual_lots demo_settlement = 3"
    by (simp_all add: demo_settlement_def full_payload_def demo_compact_def)
  have "observed_legs demo_tokens (vt_keys (demo_settle_tx pk)) demo_inner 2
      (expected_transfers demo_observer (Residual_buy 3) 300 21)"
    unfolding demo_observer_def
    by (rule published_legs [OF _ demo_key_at(12) residual, of _ _ _ _ "vault_seeds (ai_key (demo_accounts ! 1)) @ [[ps_vault_bump demo_pool]]"])
      (use demo_published [of pk] in \<open>simp add: settlement_calls_def demo_prices settlement\<close>)
  moreover have "expected_transfers a (Residual_buy 3) 300 21 = expected_transfers demo_observer (Residual_buy 3) 300 21"
    by (simp add: assms(3) expected_transfers_def)
  moreover have "settlement_legs a (Residual_buy 3) (expected_transfers a (Residual_buy 3) 300 21)"
    using residual by (rule settlement_legs_amounts) (simp_all add: assms(3) demo_observer_eq leg_amount_def)
  moreover have "oa_fee_payer a = 71" "lp_epoch_account demo_lock = oa_epoch a" "4 \<le> lp_member_count demo_lock"
    by (simp_all add: assms(3) demo_observer_eq demo_lock_def)
  moreover have "vt_keys ((demo_settle_tx pk)\<lparr>vt_signatures := ss\<rparr>) = vt_keys (demo_settle_tx pk)" by simp
  ultimately show "observed_epoch rt demo_tokens lt st a demo_lock demo_settlement (Residual_buy 3)"
    unfolding observed_epoch_def
    using assms(4-6) demo_lock_quorum [OF assms(1-3), of ls] demo_settle_quorum [OF assms(1-3), of ss] residual(2) settlement
    by metis
  show "ID \<noteq> rt_ed25519_program rt" using assms(1) by (simp add: observer_sysvars_def)
qed

theorem observed_epoch_exact_witness:
  "\<exists>p q r. observed_epoch demo_settle_runtime demo_tokens (demo_confirmed (demo_meta OS_None) (demo_lock_tx 70))
     (demo_confirmed (demo_meta (OS_Some demo_inner)) (demo_settle_tx 70)) demo_observer p q r \<and>
     aggregate_trace demo_observer demo_lock demo_settlement (Residual_buy 3) = aggregate_trace demo_observer p q r"
proof -
  have "ID \<noteq> rt_ed25519_program demo_settle_runtime" by (simp add: demo_settle_runtime_def)
  moreover have "from_confirmed_kageb demo_settle_runtime demo_tokens (demo_confirmed (demo_meta OS_None) (demo_lock_tx 70))
     (demo_confirmed (demo_meta (OS_Some demo_inner)) (demo_settle_tx 70)) demo_observer =
     Inr (aggregate_trace demo_observer demo_lock demo_settlement (Residual_buy 3))"
    using demo_succeeded
    by (intro demo_kageb_accepted [where ls = "vt_signatures (demo_lock_tx 70)" and ss = "vt_signatures (demo_settle_tx 70)"
          and lm = "demo_meta OS_None" and sm = "demo_meta (OS_Some demo_inner)" and pk = 70])
      (simp_all add: inner_instructions_def, simp_all add: demo_meta_def demo_observer_eq)
  ultimately show ?thesis using observed_epoch_exact by blast
qed

definition demo_market :: direct_market_accounts where
  "demo_market = \<lparr> dm_fee_payer = 71, dm_base_mint = 2, dm_quote_mint = 3, dm_venue_base_account = 7,
     dm_venue_quote_account = 8, dm_base_lot_atoms = 100, dm_quote_atoms_per_lot = 7 \<rparr>"

definition demo_direct_tx :: versioned_transaction where
  "demo_direct_tx = \<lparr> vt_signatures = [], vt_num_required_signatures = 2, vt_keys = [71, 40, 41, 8, 3, TOKEN_PROGRAM_ID],
     vt_instructions = [\<lparr> ci_program_id_index = 5, ci_accounts = [2, 4, 3, 1], ci_data = demo_transfer_data 7 \<rparr>] \<rparr>"


end
