(* ===== verification/Demo_Evidence.thy ===== *)
theory Demo_Evidence
  imports Evidence_Properties Demo_Observer Admission
begin

text \<open>
  Evidence of the example run: four fundings, the lock and the settlement of the example chain, recorded in a bundle
  that verifies at a node serving that chain.
\<close>

section \<open>Libraries and keys\<close>

definition key_text :: "pubkey \<Rightarrow> utf8" where
  "key_text k = hex_digest (arr_bytes k)"

definition demo_loader :: "byte list \<Rightarrow> loader_state option" where
  "demo_loader bs = (if bs = [2] then Some (Loader_program 90) else if bs = [3] then Some (Loader_programdata 10 None) else None)"

definition demo_evidence_library :: evidence_library where
  "demo_evidence_library =
     \<lparr> el_parse_pubkey = (\<lambda>s. ok (parse_digest s)),
       el_pubkey_string = key_text,
       el_parse_signature = (\<lambda>s. if length s = 1 then Some (ucast (hd s)) else None),
       el_verify_transaction = (\<lambda>_. True),
       el_content_json = (\<lambda>content. Some (dv_public_commit content)),
       el_loader_state = demo_loader,
       el_metadata_len = 1,
       el_mint = (\<lambda>bs. if bs = mint_data then Some \<lparr> mint_decimals = 0, mint_authority = None, freeze_authority = None \<rparr> else None),
       el_token_account = (\<lambda>bs. Some \<lparr> ta_mint = arr_of (slice 0 32 bs), ta_owner = arr_of (slice 32 64 bs), ta_initialized = (bs ! 108 = 1) \<rparr>),
       el_tokens = demo_tokens \<rparr>"

definition evidence_suite :: suite where
  "evidence_suite = demo_suite\<lparr>hash256 := \<lambda>bs. of_nat (length bs)\<rparr>"

definition evidence_runtime :: runtime where
  "evidence_runtime = demo_settle_runtime\<lparr>rt_find_program_address :=
     (\<lambda>seeds program. if program = UPGRADEABLE_LOADER_ID then (90, 1) else demo_derive seeds program)\<rparr>"

lemma LOADER_num:
  "UPGRADEABLE_LOADER_ID = 1203157751113444292085578490895711631870746999416992000355168191203933945856"
  by (simp add: UPGRADEABLE_LOADER_ID_def base58_def base58_digit_def base58_alphabet_def)

lemma demo_library_simps [simp]:
  "el_parse_pubkey demo_evidence_library (key_text k) = Some k" "el_pubkey_string demo_evidence_library = key_text"
  "el_parse_signature demo_evidence_library [b] = Some (ucast b)" "el_verify_transaction demo_evidence_library tx"
  "el_content_json demo_evidence_library content = Some (dv_public_commit content)"
  "el_loader_state demo_evidence_library = demo_loader" "el_metadata_len demo_evidence_library = 1"
  "el_tokens demo_evidence_library = demo_tokens"
  by (simp_all add: demo_evidence_library_def key_text_def parse_digest_hex)

lemma key_text_inject [simp]: "key_text a = key_text b \<longleftrightarrow> a = b"
  by (simp add: key_text_def hex_digest_inject)

lemma demo_parse_pubkey [simp]: "parse_pubkey demo_evidence_library (key_text k) = Inr k"
  by (simp add: parse_pubkey_def)

lemma demo_parse_digest [simp]: "parse_digest (key_text d) = Inr d"
  by (simp add: key_text_def parse_digest_hex)

section \<open>Transactions\<close>

definition demo_balance_of :: "u8 \<Rightarrow> pubkey \<Rightarrow> pubkey \<Rightarrow> nat \<Rightarrow> ui_token_balance" where
  "demo_balance_of index mint owner amount =
     \<lparr> tb_account_index = index, tb_mint = key_text mint, tb_amount = decimal amount, tb_decimals = 0,
       tb_owner = OS_Some (key_text owner), tb_program_id = OS_Some (key_text TOKEN_PROGRAM_ID) \<rparr>"

definition demo_confirmed_at :: "u64 \<Rightarrow> ui_inner_instructions list option_serializer \<Rightarrow> ui_token_balance list \<Rightarrow> ui_token_balance list \<Rightarrow>
    versioned_transaction \<Rightarrow> confirmed_transaction" where
  "demo_confirmed_at slot inner pre post tx =
     \<lparr> ct_slot = slot,
       ct_meta = Some \<lparr> tm_err = False, tm_status_err = False, tm_inner = inner,
         tm_pre_token_balances = OS_Some pre, tm_post_token_balances = OS_Some post \<rparr>,
       ct_decoded = Some tx \<rparr>"

definition funding_tx :: "bytes64 \<Rightarrow> pubkey \<Rightarrow> pubkey \<Rightarrow> pubkey \<Rightarrow> versioned_transaction" where
  "funding_tx signature authority base_source quote_source =
     \<lparr> vt_signatures = [signature, 0], vt_num_required_signatures = 2,
       vt_keys = [71, authority, base_source, quote_source, 4, 5, 2, 3, TOKEN_PROGRAM_ID],
       vt_instructions = [
         \<lparr> ci_program_id_index = 8, ci_accounts = [2, 6, 4, 1], ci_data = demo_transfer_data 100 \<rparr>,
         \<lparr> ci_program_id_index = 8, ci_accounts = [3, 7, 5, 1], ci_data = demo_transfer_data 7 \<rparr>] \<rparr>"

definition funding_confirmed :: "bytes64 \<Rightarrow> pubkey \<Rightarrow> pubkey \<Rightarrow> pubkey \<Rightarrow> confirmed_transaction" where
  "funding_confirmed signature authority base_source quote_source =
     demo_confirmed_at 20 OS_None
       [demo_balance_of 2 2 authority 1000, demo_balance_of 4 2 11 4000, demo_balance_of 3 3 authority 1000, demo_balance_of 5 3 11 4000]
       [demo_balance_of 2 2 authority 900, demo_balance_of 4 2 11 4100, demo_balance_of 3 3 authority 993, demo_balance_of 5 3 11 4007]
       (funding_tx signature authority base_source quote_source)"

definition lock_confirmed :: confirmed_transaction where
  "lock_confirmed = demo_confirmed_at 30 OS_None [] [] ((demo_lock_tx 1)\<lparr>vt_signatures := [5]\<rparr>)"

definition settle_confirmed :: confirmed_transaction where
  "settle_confirmed = demo_confirmed_at 40 (OS_Some demo_inner)
     [demo_balance_of 5 2 11 5000, demo_balance_of 6 3 11 5000, demo_balance_of 8 2 6 5000, demo_balance_of 9 3 6 5000]
     [demo_balance_of 5 2 11 5300, demo_balance_of 6 3 11 4979, demo_balance_of 8 2 6 4700, demo_balance_of 9 3 6 5021]
     ((demo_settle_tx 1)\<lparr>vt_signatures := [6]\<rparr>)"

definition funding_evidence :: "byte \<Rightarrow> pubkey \<Rightarrow> pubkey \<Rightarrow> pubkey \<Rightarrow> funding_transaction_evidence" where
  "funding_evidence signature authority base_source quote_source =
     \<lparr> ft_authority = key_text authority, ft_base_source = key_text base_source, ft_quote_source = key_text quote_source,
       ft_transaction = \<lparr> et_signature = [signature], et_slot = 20 \<rparr> \<rparr>"

section \<open>The bundle\<close>

definition demo_artifact :: "byte list" where
  "demo_artifact = 127 # ascii ''ELF'' @ [1, 2, 3]"

definition allowed :: "utf8 \<Rightarrow> u16 \<Rightarrow> pubkey \<Rightarrow> utf8 \<Rightarrow> bytes32 option \<Rightarrow> decoded_instruction_evidence" where
  "allowed transaction pos program kind digest =
     \<lparr> de_transaction = transaction, de_position = pos, de_program = key_text program, de_kind = kind,
       de_digest = map_option key_text digest \<rparr>"

definition funding_allowed :: "nat \<Rightarrow> decoded_instruction_evidence list" where
  "funding_allowed i =
     [allowed (ascii ''funding-'' @ decimal i) 0 TOKEN_PROGRAM_ID (ascii ''pool-funding-base'') None,
      allowed (ascii ''funding-'' @ decimal i) 1 TOKEN_PROGRAM_ID (ascii ''pool-funding-quote'') None]"

definition lock_allowed :: "decoded_instruction_evidence list" where
  "lock_allowed =
     [allowed (ascii ''lock'') 0 22 (ascii ''keyper-lock-approval'') (Some demo_lock_digest),
      allowed (ascii ''lock'') 1 22 (ascii ''keyper-lock-approval'') (Some demo_lock_digest),
      allowed (ascii ''lock'') 2 ID (ascii ''epoch-lock'') (Some demo_lock_digest)]"

definition settlement_allowed :: "decoded_instruction_evidence list" where
  "settlement_allowed =
     [allowed (ascii ''settlement'') 0 22 (ascii ''keyper-settlement-approval'') (Some demo_settlement_digest),
      allowed (ascii ''settlement'') 1 22 (ascii ''keyper-settlement-approval'') (Some demo_settlement_digest),
      allowed (ascii ''settlement'') 2 ID (ascii ''aggregate-settlement'') (Some demo_settlement_digest),
      allowed (ascii ''settlement'') 3 TOKEN_PROGRAM_ID (ascii ''aggregate-quote-leg'') None,
      allowed (ascii ''settlement'') 4 TOKEN_PROGRAM_ID (ascii ''aggregate-base-leg'') None]"

definition demo_evidence_accounts :: evidence_accounts where
  "demo_evidence_accounts =
     \<lparr> ea_fee_payer = key_text 71, ea_operator = key_text 1, ea_pool = key_text 10, ea_epoch = key_text 12,
       ea_vault_authority = key_text 11, ea_base_mint = key_text 2, ea_quote_mint = key_text 3,
       ea_pool_base_vault = key_text 4, ea_pool_quote_vault = key_text 5, ea_venue_authority = key_text 6,
       ea_venue_base_account = key_text 7, ea_venue_quote_account = key_text 8,
       ea_token_program = key_text TOKEN_PROGRAM_ID \<rparr>"

definition demo_content :: devnet_evidence_content where
  "demo_content =
     \<lparr> dv_cluster = ascii ''devnet'',
       dv_public_commit = replicate 40 48,
       dv_build_toolchain = \<lparr> bt_solana_verify = ascii ''solana-verify 0.5.1'', bt_build_image = ascii ''image'' \<rparr>,
       dv_checkpoint_artifact_len = 7,
       dv_checkpoint_artifact_sha256 = key_text 7,
       dv_deployment = \<lparr> ed_program = key_text ID, ed_loader = key_text UPGRADEABLE_LOADER_ID, ed_programdata = key_text 90,
         ed_deployment_slot = 10, ed_upgrade_authority = None, ed_deployed_executable_sha256 = key_text 7 \<rparr>,
       dv_transactions = \<lparr> ets_funding = (funding_evidence 1 41 51 61, funding_evidence 2 42 52 62, funding_evidence 3 43 53 63,
           funding_evidence 4 44 54 64),
         ets_lock = \<lparr> et_signature = [5], et_slot = 30 \<rparr>, ets_settlement = \<lparr> et_signature = [6], et_slot = 40 \<rparr> \<rparr>,
       dv_accounts = demo_evidence_accounts,
       dv_configuration = \<lparr> ecf_epoch_id = key_text 9, ecf_minimum_count = 4, ecf_member_count = 4, ecf_lock_threshold = 2,
         ecf_settlement_threshold = 2, ecf_keypers = (key_text 31, key_text 32, key_text 33), ecf_base_lot_atoms = 100,
         ecf_quote_atoms_per_lot = 7 \<rparr>,
       dv_commitments = \<lparr> em_configuration_hash = key_text (es_configuration_hash demo_epoch), em_pre_balance_root = key_text 51,
         em_member_set = key_text 52, em_lock_digest = key_text demo_lock_digest, em_result = key_text 61,
         em_settlement_digest = key_text demo_settlement_digest, em_unverified_local_transcript_sha256 = key_text 0 \<rparr>,
       dv_token_balances = \<lparr> eb_pool_base_before = 5000, eb_pool_base_after = 5300, eb_pool_quote_before = 5000,
         eb_pool_quote_after = 4979, eb_venue_base_before = 5000, eb_venue_base_after = 4700, eb_venue_quote_before = 5000,
         eb_venue_quote_after = 5021 \<rparr>,
       dv_decoded_allowlist = funding_allowed 0 @ funding_allowed 1 @ funding_allowed 2 @ funding_allowed 3 @ lock_allowed @
         settlement_allowed,
       dv_explorer_links = map (\<lambda>n. explorer_link [n]) [1, 2, 3, 4, 5, 6] \<rparr>"

definition demo_bundle :: devnet_evidence_bundle where
  "demo_bundle = \<lparr> db_schema_version = 1, db_content = demo_content, db_evidence_sha256 = key_text 65 \<rparr>"

section \<open>The node\<close>

definition snapshot_of :: "account \<Rightarrow> public_account_snapshot" where
  "snapshot_of a = \<lparr> pa_owner = ac_owner a, pa_executable = ac_executable a, pa_data = ac_data a \<rparr>"

definition demo_program :: public_account_snapshot where
  "demo_program = \<lparr> pa_owner = UPGRADEABLE_LOADER_ID, pa_executable = True, pa_data = [2] \<rparr>"

definition demo_programdata :: public_account_snapshot where
  "demo_programdata = \<lparr> pa_owner = UPGRADEABLE_LOADER_ID, pa_executable = False, pa_data = [3] @ demo_artifact @ [0, 0] \<rparr>"

definition demo_status :: "u64 \<Rightarrow> transaction_status" where
  "demo_status slot = \<lparr> ts_slot = slot, ts_finalized = True, ts_err = False, ts_status_err = False \<rparr>"

definition demo_node :: evidence_rpc where
  "demo_node =
     \<lparr> er_genesis_hash = Some DEVNET_GENESIS_HASH,
       er_account = (\<lambda>k. Some (if k = ID then Some demo_program else if k = 90 then Some demo_programdata
         else Some (snapshot_of (demo_chain4 k)))),
       er_statuses = (\<lambda>_. Some [Some (demo_status 20), Some (demo_status 20), Some (demo_status 20), Some (demo_status 20),
         Some (demo_status 30), Some (demo_status 40)]),
       er_transaction = (\<lambda>s. if s = 1 then Some (funding_confirmed 1 41 51 61) else if s = 2 then Some (funding_confirmed 2 42 52 62)
         else if s = 3 then Some (funding_confirmed 3 43 53 63) else if s = 4 then Some (funding_confirmed 4 44 54 64)
         else if s = 5 then Some lock_confirmed else if s = 6 then Some settle_confirmed else None) \<rparr>"

section \<open>Decoding\<close>

lemma demo_balance_at:
  "n < 2 ^ 64 \<Longrightarrow> key_at keys i = Some k \<Longrightarrow>
     token_balance_at demo_evidence_library (demo_balance_of i m w n # rest) keys (key_text k) (key_text m) (key_text w) = Inr (of_nat n)"
  "key_at keys i \<noteq> Some k \<Longrightarrow>
     token_balance_at demo_evidence_library (demo_balance_of i m' w' n # rest) keys (key_text k) mt wt =
     token_balance_at demo_evidence_library rest keys (key_text k) mt wt"
  by (simp_all add: token_balance_at_def demo_balance_of_def parse_decimal)

lemma demo_accounts_texts [simp]:
  "dv_accounts demo_content = demo_evidence_accounts"
  "ecf_base_lot_atoms (dv_configuration demo_content) = 100" "ecf_quote_atoms_per_lot (dv_configuration demo_content) = 7"
  "ecf_keypers (dv_configuration demo_content) = (key_text 31, key_text 32, key_text 33)"
  by (simp_all add: demo_content_def)

lemma demo_funding_decoded:
  assumes "base_source \<notin> {4, 5, quote_source}" "quote_source \<notin> {4, 5, base_source}"
    and "base_source \<notin> S" "quote_source \<notin> S"
  shows "decode_funding_transaction demo_evidence_library (funding_confirmed signature authority base_source quote_source) i
      (funding_evidence sb authority base_source quote_source) demo_content S =
    Inr (funding_allowed i, insert quote_source (insert base_source S))"
proof -
  let ?keys = "[71, authority, base_source, quote_source, 4, 5, 2, 3, TOKEN_PROGRAM_ID]"
  have keys: "key_at ?keys 1 = Some authority" "key_at ?keys 2 = Some base_source" "key_at ?keys 3 = Some quote_source"
    "key_at ?keys 4 = Some 4" "key_at ?keys 5 = Some 5" "key_at ?keys 6 = Some 2" "key_at ?keys 7 = Some 3"
    "key_at ?keys 8 = Some TOKEN_PROGRAM_ID"
    by (simp_all add: key_at_def)
  show ?thesis
    using assms
    by (simp add: decode_funding_transaction_def funding_confirmed_def demo_confirmed_at_def funding_tx_def token_balance_list_def
        funding_evidence_def demo_evidence_accounts_def decode_funding_leg_def Let_def keys demo_unpack demo_balance_at
        checked_sub_def checked_add_def funding_allowed_def allowed_def)
qed

lemma evidence_sysvars [simp]: "observer_sysvars evidence_runtime" "rt_ed25519_program evidence_runtime = 22"
  by (simp_all add: evidence_runtime_def observer_sysvars_def demo_settle_runtime_def)

lemma demo_ed25519 [simp]:
  "verify_ed25519_instruction evidence_suite evidence_runtime
     \<lparr>ix_program_id = 22, ix_accounts = [], ix_data = ix_data (demo_verify k d)\<rparr> = Inr \<lparr>se_signer = k, se_digest = d\<rparr>"
proof -
  have eq: "\<lparr>ix_program_id = 22, ix_accounts = [], ix_data = ix_data (demo_verify k d)\<rparr> = strict_instruction evidence_runtime k 0 d"
    by (simp add: demo_verify_strict [OF evidence_sysvars(1)]) (simp add: strict_instruction_def)
  have "get_slice 48 112 (ix_data (strict_instruction evidence_runtime k 0 d)) = Some (arr_bytes (0 :: bytes64))"
    by (simp add: strict_instruction_def get_slice_def bytes_simps)
  then show ?thesis
    unfolding eq by (simp add: verify_ed25519_instruction_def Let_def evidence_suite_def demo_suite_def)
qed

lemma demo_full_payload: "full_settlement_payload demo_evidence_library demo_content demo_compact = Inr demo_settlement"
  by (simp add: full_settlement_payload_def demo_evidence_accounts_def demo_settlement_def full_payload_def demo_pool_def
      demo_prices) (simp add: demo_content_def demo_locked_def lock_state_def)

lemma demo_digests:
  "lock_payload_digest (hash256 evidence_suite) demo_lock = demo_lock_digest"
  "settlement_payload_digest (hash256 evidence_suite) demo_settlement = demo_settlement_digest"
  by (simp_all add: evidence_suite_def demo_lock_digest_def demo_settlement_digest_def)

lemma demo_lock_decoded:
  "decode_kageb_transaction evidence_suite evidence_runtime demo_evidence_library lock_confirmed (ascii ''lock'') demo_content =
   Inr lock_allowed"
proof -
  have ix: "ix_data demo_lock_ix = instruction_encode (Lock demo_lock)" by (simp add: demo_lock_ix_def lock_instruction_def)
  have "ascii ''lock'' \<noteq> ascii ''settlement''" by (simp add: ascii_def)
  then show ?thesis
    by (simp add: decode_kageb_transaction_def lock_confirmed_def demo_confirmed_at_def demo_lock_tx_def key_at_def
        decode_kageb_instruction_def ix parse_keypers_def demo_digests lock_allowed_def allowed_def Let_def
        del: instruction_encode.simps flip: key_text_def)
qed

lemma demo_settle_decoded:
  "decode_kageb_transaction evidence_suite evidence_runtime demo_evidence_library settle_confirmed (ascii ''settlement'') demo_content =
   Inr settlement_allowed"
proof -
  have ix: "ix_data demo_settle_ix = instruction_encode (Settle demo_compact)"
    by (simp add: demo_settle_ix_def settle_instruction_def demo_settlement_def)
  have "ascii ''settlement'' \<noteq> ascii ''lock''" by (simp add: ascii_def)
  then show ?thesis
    by (simp add: decode_kageb_transaction_def settle_confirmed_def demo_confirmed_at_def demo_settle_tx_def key_at_def
        decode_kageb_instruction_def ix parse_keypers_def demo_full_payload demo_digests settlement_allowed_def allowed_def
        demo_inner_def decode_inner_leg_def demo_evidence_accounts_def Let_def del: instruction_encode.simps
        flip: key_text_def)
qed

lemma demo_token_balances:
  "transaction_token_balances demo_evidence_library settle_confirmed demo_content = Inr (dv_token_balances demo_content)"
  by (simp add: transaction_token_balances_def settle_confirmed_def demo_confirmed_at_def demo_settle_tx_def token_balance_list_def
      demo_evidence_accounts_def Let_def key_at_def demo_balance_at) (simp add: demo_content_def)

lemma demo_observer_accounts: "observer_accounts demo_evidence_library demo_content = Inr (demo_observer\<lparr>oa_payer := 1\<rparr>)"
  by (simp add: observer_accounts_def demo_evidence_accounts_def demo_observer_eq)

lemma demo_evidence_observed:
  "from_confirmed_kageb evidence_runtime demo_tokens lock_confirmed settle_confirmed (demo_observer\<lparr>oa_payer := 1\<rparr>) =
   Inr (aggregate_trace (demo_observer\<lparr>oa_payer := 1\<rparr>) demo_lock demo_settlement (Residual_buy 3))"
  by (rule demo_kageb_accepted [where pk = 1 and ls = "[5]" and ss = "[6]" and lm = "the (ct_meta lock_confirmed)"
        and sm = "the (ct_meta settle_confirmed)"])
    (simp_all add: succeeded_def lock_confirmed_def settle_confirmed_def demo_confirmed_at_def inner_instructions_def)

section \<open>The snapshot verifies\<close>

definition demo_snapshot :: devnet_public_snapshot where
  "demo_snapshot =
     \<lparr> sn_program = demo_program, sn_programdata_address = 90, sn_programdata = demo_programdata,
       sn_pool = snapshot_of (demo_chain4 10), sn_epoch = snapshot_of (demo_chain4 12),
       sn_base_mint = snapshot_of (demo_chain4 2), sn_quote_mint = snapshot_of (demo_chain4 3),
       sn_current_token_accounts = (snapshot_of (demo_chain4 4), snapshot_of (demo_chain4 5), snapshot_of (demo_chain4 7),
         snapshot_of (demo_chain4 8)),
       sn_transactions = map (\<lambda>(n, slot). \<lparr> fs_signature = [n], fs_slot = slot, fs_status_slot = slot, fs_finalized = True,
         fs_succeeded = True \<rparr>) [(1, 20), (2, 20), (3, 20), (4, 20), (5, 30), (6, 40)],
       sn_token_balances = dv_token_balances demo_content,
       sn_decoded_allowlist = dv_decoded_allowlist demo_content \<rparr>"

lemma demo_content_hash: "verify_content_hash evidence_suite demo_evidence_library demo_bundle = Inr ()"
  by (simp add: verify_content_hash_Inr demo_bundle_def demo_content_def EVIDENCE_BUNDLE_DOMAIN_def ascii_def evidence_suite_def
      key_text_def)

lemma demo_transaction_list:
  "evidence_transaction_list demo_content =
     [\<lparr> et_signature = [1], et_slot = 20 \<rparr>, \<lparr> et_signature = [2], et_slot = 20 \<rparr>, \<lparr> et_signature = [3], et_slot = 20 \<rparr>,
      \<lparr> et_signature = [4], et_slot = 20 \<rparr>, \<lparr> et_signature = [5], et_slot = 30 \<rparr>, \<lparr> et_signature = [6], et_slot = 40 \<rparr>]"
  by (simp add: evidence_transaction_list_def demo_content_def funding_evidence_def)

lemma demo_fetch_account [simp]:
  "fetch_finalized_account demo_node k = Inr (if k = ID then demo_program else if k = 90 then demo_programdata
     else snapshot_of (demo_chain4 k))"
  by (simp add: fetch_finalized_account_Inr demo_node_def)

lemma demo_fetched:
  "try_map (fetch_transaction demo_evidence_library demo_node)
     (zip [Some (demo_status 20), Some (demo_status 20), Some (demo_status 20), Some (demo_status 20), Some (demo_status 30),
           Some (demo_status 40)]
       (zip (evidence_transaction_list demo_content) [1, 2, 3, 4, 5, 6])) =
   Inr (zip (sn_transactions demo_snapshot)
     [funding_confirmed 1 41 51 61, funding_confirmed 2 42 52 62, funding_confirmed 3 43 53 63, funding_confirmed 4 44 54 64,
      lock_confirmed, settle_confirmed])"
  by (simp add: demo_transaction_list fetch_transaction_def demo_node_def demo_status_def funding_confirmed_def lock_confirmed_def
      settle_confirmed_def demo_confirmed_at_def funding_tx_def verify_queried_transaction_def demo_snapshot_def)

lemma demo_fundings_decoded:
  "decode_fundings demo_evidence_library demo_content {} 0
     (zip (four_list (ets_funding (dv_transactions demo_content)))
       [funding_confirmed 1 41 51 61, funding_confirmed 2 42 52 62, funding_confirmed 3 43 53 63, funding_confirmed 4 44 54 64,
        lock_confirmed, settle_confirmed]) =
   Inr (funding_allowed 0 @ funding_allowed 1 @ funding_allowed 2 @ funding_allowed 3)"
  by (simp add: demo_content_def [THEN arg_cong, of dv_transactions] demo_funding_decoded) (simp add: numeral_eq_Suc)

lemma demo_live_accounts:
  "fetch_live_token_accounts demo_evidence_library demo_node demo_content = Inr (sn_current_token_accounts demo_snapshot)"
  by (simp add: fetch_live_token_accounts_def demo_evidence_accounts_def demo_snapshot_def)

lemma demo_evidence_fetch:
  "fetch_devnet_public_snapshot evidence_suite evidence_runtime demo_evidence_library demo_node demo_bundle = Inr demo_snapshot"
proof -
  have keys: "parse_pubkey demo_evidence_library (ed_program (dv_deployment demo_content)) = Inr ID"
    "parse_pubkey demo_evidence_library (ed_programdata (dv_deployment demo_content)) = Inr 90"
    by (simp_all add: demo_content_def)
  have signatures: "try_map (\<lambda>x. ok_or (el_parse_signature demo_evidence_library (et_signature x)) InvalidPublicField)
      (evidence_transaction_list demo_content) = Inr [1, 2, 3, 4, 5, 6]"
    by (simp add: demo_transaction_list)
  have node: "er_genesis_hash demo_node = Some DEVNET_GENESIS_HASH"
    "er_statuses demo_node xs = Some [Some (demo_status 20), Some (demo_status 20), Some (demo_status 20), Some (demo_status 20),
         Some (demo_status 30), Some (demo_status 40)]" for xs
    by (simp_all add: demo_node_def)
  have zips: "map fst (zip (sn_transactions demo_snapshot) [funding_confirmed 1 41 51 61, funding_confirmed 2 42 52 62,
      funding_confirmed 3 43 53 63, funding_confirmed 4 44 54 64, lock_confirmed, settle_confirmed]) = sn_transactions demo_snapshot"
    "map snd (zip (sn_transactions demo_snapshot) [funding_confirmed 1 41 51 61, funding_confirmed 2 42 52 62,
      funding_confirmed 3 43 53 63, funding_confirmed 4 44 54 64, lock_confirmed, settle_confirmed]) =
      [funding_confirmed 1 41 51 61, funding_confirmed 2 42 52 62, funding_confirmed 3 43 53 63, funding_confirmed 4 44 54 64,
       lock_confirmed, settle_confirmed]"
    by (simp_all add: demo_snapshot_def)
  have content: "db_content demo_bundle = demo_content" by (simp add: demo_bundle_def)
  show ?thesis
    unfolding fetch_devnet_public_snapshot_def Let_def content
    using demo_content_hash
    by (simp add: node keys signatures validate_rpc_response_len_def demo_fetched zips demo_fundings_decoded demo_observer_accounts
        demo_evidence_observed demo_lock_decoded demo_settle_decoded demo_token_balances demo_live_accounts del: zip_Cons_Cons)
      (simp add: demo_evidence_accounts_def demo_snapshot_def, simp add: demo_content_def ID_num)
qed

lemma demo_content_fields:
  "dv_cluster demo_content = ascii ''devnet''" "dv_public_commit demo_content = replicate 40 48"
  "dv_build_toolchain demo_content = \<lparr> bt_solana_verify = ascii ''solana-verify 0.5.1'', bt_build_image = ascii ''image'' \<rparr>"
  "dv_checkpoint_artifact_len demo_content = 7" "dv_checkpoint_artifact_sha256 demo_content = key_text 7"
  "dv_deployment demo_content = \<lparr> ed_program = key_text ID, ed_loader = key_text UPGRADEABLE_LOADER_ID, ed_programdata = key_text 90,
     ed_deployment_slot = 10, ed_upgrade_authority = None, ed_deployed_executable_sha256 = key_text 7 \<rparr>"
  "dv_explorer_links demo_content = map (\<lambda>n. explorer_link [n]) [1, 2, 3, 4, 5, 6]"
  by (simp_all add: demo_content_def)

lemma demo_public_fields:
  "validate_public_fields evidence_suite evidence_runtime demo_evidence_library demo_content demo_artifact = Inr ()"
proof -
  have "rt_find_program_address evidence_runtime [arr_bytes ID] UPGRADEABLE_LOADER_ID = (90, 1)"
    by (simp add: evidence_runtime_def)
  moreover have "hash256 evidence_suite demo_artifact = 7" "length demo_artifact = 7"
    by (simp_all add: evidence_suite_def demo_artifact_def ascii_def)
  moreover have "list_all is_ascii_hexdigit (replicate 40 48)" by (simp add: list_all_iff is_ascii_hexdigit_def)
  ultimately show ?thesis
    by (simp add: validate_public_fields_def demo_content_fields expect_digest_def expect_key_def check_identity_def ascii_def
        is_ascii_hexdigit_def is_ascii_graphic_def demo_transaction_list demo_evidence_accounts_def)
qed

lemma demo_deployment:
  "validate_deployment evidence_suite demo_evidence_library demo_content demo_snapshot demo_artifact = Inr ()"
proof -
  have "hex_digest (arr_bytes (hash256 evidence_suite demo_artifact)) = key_text 7"
    by (simp add: evidence_suite_def demo_artifact_def ascii_def key_text_def)
  moreover have "slice (Suc 0) 8 (pa_data demo_programdata) = demo_artifact"
    by (simp add: demo_programdata_def demo_artifact_def ascii_def slice_def)
  ultimately show ?thesis
    by (simp add: validate_deployment_def extract_upgradeable_program_def demo_snapshot_def demo_program_def demo_content_def
        demo_loader_def get_slice_def) (simp add: demo_programdata_def demo_artifact_def ascii_def slice_def)
qed

lemma demo_transactions:
  "validate_transactions demo_evidence_library demo_content (sn_transactions demo_snapshot) = Inr ()"
  unfolding validate_transactions_def demo_transaction_list
  by (simp add: demo_snapshot_def) (simp add: demo_content_def funding_evidence_def)

lemma demo_distinct_funding: "validate_distinct_funding_authorities demo_evidence_library demo_content = Inr ()"
  by (simp add: validate_distinct_funding_authorities_def demo_content_def funding_evidence_def)

lemma evidence_addresses:
  "pool_address evidence_runtime a b k = (10, 255)" "vault_authority_address evidence_runtime p = (11, 254)"
  "epoch_address evidence_runtime p e = (12, 253)"
proof -
  have "ID \<noteq> UPGRADEABLE_LOADER_ID" by (simp add: ID_num LOADER_num)
  then show "pool_address evidence_runtime a b k = (10, 255)" "vault_authority_address evidence_runtime p = (11, 254)"
    "epoch_address evidence_runtime p e = (12, 253)"
    using demo_addresses(1) [of "[]" 0 a b k] demo_addresses(2) [of "[]" 0 p] demo_addresses(3) [of "[]" 0 p e]
    by (simp_all add: pool_address_def vault_authority_address_def epoch_address_def evidence_runtime_def)
qed

lemma demo_settled_fields:
  "es_epoch_bump demo_settled = 253" "es_pool demo_settled = 10" "es_epoch_id demo_settled = 9"
  "es_terminal_state demo_settled = Settled" "es_settlement_nonce demo_settled = 62" "es_lock_nonce demo_settled = 53"
  "es_member_count demo_settled = 4" "es_minimum_count demo_settled = 4" "es_base_lot_atoms demo_settled = 100"
  "es_quote_atoms_per_lot demo_settled = 7" "es_configuration_hash demo_settled = es_configuration_hash demo_epoch"
  "es_pre_balance_root demo_settled = 51" "es_member_root demo_settled = 52" "es_lock_digest demo_settled = demo_lock_digest"
  "es_result_commitment demo_settled = 61" "es_settlement_digest demo_settled = demo_settlement_digest"
  "es_residual_side demo_settled = 1" "es_residual_lots demo_settled = 3"
  by (simp_all add: demo_settled_def settle_state_def demo_locked_def lock_state_def demo_epoch_def new_epoch_def demo_epoch_args_def
      demo_lock_def demo_settlement_def full_payload_def demo_compact_def demo_pool_def)

lemma demo_chain4_accounts:
  "demo_chain4 10 = program_account (pool_state_encode demo_pool)" "demo_chain4 12 = program_account (epoch_state_encode demo_settled)"
  "demo_chain4 2 = mint_account" "demo_chain4 3 = mint_account" "demo_chain4 4 = token_account 2 11 5300"
  "demo_chain4 5 = token_account 3 11 4979" "demo_chain4 7 = token_account 2 6 4700" "demo_chain4 8 = token_account 3 6 5021"
  by (simp_all add: demo_chain4_def demo_chain3_def demo_chain2_def demo_chain1_def)

lemma demo_program_state:
  "validate_program_state evidence_runtime demo_evidence_library demo_content demo_snapshot = Inr (demo_pool, demo_settled)"
proof -
  have snapshot: "sn_pool demo_snapshot = snapshot_of (demo_chain4 10)" "sn_epoch demo_snapshot = snapshot_of (demo_chain4 12)"
    by (simp_all add: demo_snapshot_def)
  have pool: "ps_pool_bump demo_pool = 255" "ps_vault_bump demo_pool = 254" "ps_operator demo_pool = 1" "ps_base_mint demo_pool = 2"
    "ps_quote_mint demo_pool = 3" "ps_pool_base_vault demo_pool = 4" "ps_pool_quote_vault demo_pool = 5" "ps_venue_authority demo_pool = 6"
    "ps_venue_base_account demo_pool = 7" "ps_venue_quote_account demo_pool = 8" "ps_keypers demo_pool = (31, 32, 33)"
    "ps_lock_threshold demo_pool = 2" "ps_settlement_threshold demo_pool = 2" "ps_base_lot_atoms demo_pool = 100"
    by (simp_all add: demo_pool_def)
  have configuration: "dv_configuration demo_content = \<lparr> ecf_epoch_id = key_text 9, ecf_minimum_count = 4, ecf_member_count = 4,
      ecf_lock_threshold = 2, ecf_settlement_threshold = 2, ecf_keypers = (key_text 31, key_text 32, key_text 33),
      ecf_base_lot_atoms = 100, ecf_quote_atoms_per_lot = 7 \<rparr>"
    and commitments: "dv_commitments demo_content = \<lparr> em_configuration_hash = key_text (es_configuration_hash demo_epoch),
      em_pre_balance_root = key_text 51, em_member_set = key_text 52, em_lock_digest = key_text demo_lock_digest, em_result = key_text 61,
      em_settlement_digest = key_text demo_settlement_digest, em_unverified_local_transcript_sha256 = key_text 0 \<rparr>"
    by (simp_all add: demo_content_def)
  show ?thesis
    by (simp add: validate_program_state_def Let_def snapshot snapshot_of_def demo_chain4_accounts evidence_addresses demo_settled_fields
        pool demo_evidence_accounts_def expect_key_def expect_digest_def parse_keypers_def configuration commitments)
qed

lemma demo_deltas: "validate_token_deltas demo_evidence_library demo_content demo_snapshot demo_settled = Inr ()"
proof -
  have mint: "validate_public_mint demo_evidence_library (snapshot_of mint_account) = Inr ()"
    by (simp add: validate_public_mint_def snapshot_of_def demo_evidence_library_def)
  have token: "validate_current_token_account demo_evidence_library (snapshot_of (token_account m w n), key_text m, key_text w) = Inr ()"
    for m w n
    by (simp add: validate_current_token_account_def snapshot_of_def demo_evidence_library_def expect_key_def parse_pubkey_def
        token_data_def bytes_simps nth_append)
  have "sn_base_mint demo_snapshot = snapshot_of mint_account" "sn_quote_mint demo_snapshot = snapshot_of mint_account"
    "sn_current_token_accounts demo_snapshot = (snapshot_of (token_account 2 11 5300), snapshot_of (token_account 3 11 4979),
       snapshot_of (token_account 2 6 4700), snapshot_of (token_account 3 6 5021))"
    "sn_token_balances demo_snapshot = dv_token_balances demo_content"
    by (simp_all add: demo_snapshot_def demo_chain4_accounts)
  then show ?thesis
    by (simp add: validate_token_deltas_def mint validate_current_token_accounts_def token demo_evidence_accounts_def)
      (simp add: demo_content_def checked_add_def checked_mul_def demo_settled_fields)
qed

lemma demo_allowlist: "validate_allowlist demo_content demo_snapshot 2 = Inr ()"
  by (simp add: validate_allowlist_def demo_snapshot_def demo_content_def funding_allowed_def lock_allowed_def settlement_allowed_def
      allowed_def count_kind_def validate_allowed_def ascii_def)

lemma demo_evidence_verified:
  "verify_devnet_evidence_at_rpc evidence_suite evidence_runtime demo_evidence_library demo_node demo_bundle demo_artifact = Inr ()"
proof -
  have content: "db_content demo_bundle = demo_content" by (simp add: demo_bundle_def)
  have "ps_settlement_threshold demo_pool = 2" by (simp add: demo_pool_def)
  then show ?thesis
    using demo_content_hash
    by (simp add: verify_devnet_evidence_at_rpc_def demo_evidence_fetch verify_devnet_evidence_def content demo_public_fields demo_deployment
        demo_transactions demo_distinct_funding demo_program_state demo_deltas demo_allowlist)
qed

section \<open>Witnesses\<close>

theorem verified_evidence_proves_settlement_witness:
  "\<exists>pool epoch pool_account epoch_account lt st a p q.
     holds_account demo_evidence_library demo_node (key_text 10) pool_account \<and>
     holds_account demo_evidence_library demo_node (key_text 12) epoch_account \<and>
     pa_data pool_account = pool_state_encode pool \<and> pa_data epoch_account = epoch_state_encode epoch \<and>
     proven_epoch evidence_suite evidence_runtime demo_evidence_library pool epoch lt st a p q"
proof -
  have "ea_pool (dv_accounts (db_content demo_bundle)) = key_text 10" "ea_epoch (dv_accounts (db_content demo_bundle)) = key_text 12"
    by (simp_all add: demo_bundle_def demo_evidence_accounts_def)
  with verified_evidence_proves_settlement [OF demo_evidence_verified] show ?thesis by metis
qed



theorem balanced_settlement_not_recordable_witness:
  "\<exists>e. decode_kageb_transaction evidence_suite evidence_runtime demo_evidence_library
     (demo_confirmed (demo_meta OS_None) (demo_settle_tx 1)) (ascii ''settlement'') demo_content = Inl e"
proof -
  have "inner_instructions (demo_meta OS_None) = []" by (simp add: inner_instructions_def demo_meta_def)
  with balanced_settlement_not_recordable demo_succeeded show ?thesis by blast
qed


end
