(* ===== verification/Spec2Isabelle.thy ===== *)
theory Spec2Isabelle
  imports Program_Properties Commitment Suspension Custody_Properties Demo_Keyper Demo_Evidence
begin

text \<open>
  KageB: verification of the on-chain epoch program and of the host components around it.
\<close>

end
